(* ===== verification/Prelude.thy ===== *)
theory Prelude
  imports Main "HOL-Library.AList" "HOL-Library.Multiset" "HOL-Library.Char_ord"
    "HOL-Library.List_Lexorder" "HOL-Library.Product_Lexorder"
begin

text \<open>
  Shared vocabulary of the development: how the Python built-ins that the control plane uses
  (truthiness of optional strings, sets and dictionaries kept in insertion order,
  \<^verbatim>\<open>dict.fromkeys\<close>, decimal formatting, exceptions) are written in HOL, with the generic
  lemmas the component theories rest on.

  Strings are lists of characters with code points below 256; the order of strings is the
  lexicographic order of code points, as in Python.
\<close>

named_theorems flow_simps \<open>unfolding rules shared by the flow components\<close>

section \<open>Errors\<close>

text \<open>An exception that a pure routine of the program raises, with its message.\<close>

datatype py_error =
    ValueError string
  | TypeError string
  | IndexError
  | KeyError string
  | AttributeError string

type_synonym 'a result = "py_error + 'a"

fun is_ok :: "'e + 'a \<Rightarrow> bool" where
  "is_ok (Inl e) = False"
| "is_ok (Inr x) = True"

lemma is_ok_iff: "is_ok r \<longleftrightarrow> (\<exists>x. r = Inr x)"
  by (cases r) auto

text \<open>Sequencing of computations that may raise.\<close>

fun bind_result :: "'e + 'a \<Rightarrow> ('a \<Rightarrow> 'e + 'b) \<Rightarrow> 'e + 'b" where
  "bind_result (Inl e) f = Inl e"
| "bind_result (Inr x) f = f x"

lemma bind_result_Inr: "bind_result r f = Inr y \<longleftrightarrow> (\<exists>x. r = Inr x \<and> f x = Inr y)"
  by (cases r) auto

lemma bind_result_cong [fundef_cong]:
  "r = r' \<Longrightarrow> (\<And>x. r' = Inr x \<Longrightarrow> f x = f' x) \<Longrightarrow> bind_result r f = bind_result r' f'"
  by (cases r') auto

fun map_result :: "('a \<Rightarrow> 'e + 'b) \<Rightarrow> 'a list \<Rightarrow> 'e + 'b list" where
  "map_result f [] = Inr []"
| "map_result f (x # xs) = bind_result (f x) (\<lambda>y. bind_result (map_result f xs) (\<lambda>ys. Inr (y # ys)))"

lemma map_result_cong [fundef_cong]:
  "xs = ys \<Longrightarrow> (\<And>x. x \<in> set ys \<Longrightarrow> f x = g x) \<Longrightarrow> map_result f xs = map_result g ys"
  by (induction xs arbitrary: ys) auto

lemma map_result_Inr:
  "map_result f xs = Inr ys \<longleftrightarrow> list_all2 (\<lambda>x y. f x = Inr y) xs ys"
  by (induction xs arbitrary: ys) (auto simp: bind_result_Inr list_all2_Cons1)

lemma map_result_all: "(\<And>x. x \<in> set xs \<Longrightarrow> f x = Inr (g x)) \<Longrightarrow> map_result f xs = Inr (map g xs)"
  by (induction xs) auto

text \<open>Statements that update one state and may raise, executed in the order of the list.\<close>

fun run_result :: "('s \<Rightarrow> 'e + 's) list \<Rightarrow> 's \<Rightarrow> 'e + 's" where
  "run_result [] s = Inr s"
| "run_result (f # fs) s = bind_result (f s) (run_result fs)"

lemma bind_result_return [simp]: "bind_result r Inr = r"
  by (cases r) auto

lemma run_result_Nil [simp]: "run_result [] = Inr"
  by (simp add: fun_eq_iff)

lemma run_result_single [simp]: "run_result [f] = f"
  by (simp add: fun_eq_iff)

lemma run_result_append:
  "run_result (fs @ gs) s = bind_result (run_result fs s) (run_result gs)"
proof (induction fs arbitrary: s)
  case (Cons f fs)
  then show ?case by (cases "f s") auto
qed simp

text \<open>\<^verbatim>\<open>if not condition: raise error\<close>.\<close>

definition require :: "bool \<Rightarrow> 'e \<Rightarrow> 's \<Rightarrow> 'e + 's" where
  "require condition e s = (if condition then Inr s else Inl e)"

section \<open>Truthiness and decimal formatting\<close>

text \<open>The truth value of a \<^verbatim>\<open>str | None\<close>: only a non-empty string counts as true.\<close>

fun truthy :: "string option \<Rightarrow> bool" where
  "truthy None = False"
| "truthy (Some s) = (s \<noteq> [])"

lemma truthy_iff: "truthy x \<longleftrightarrow> (\<exists>s. x = Some s \<and> s \<noteq> [])"
  by (cases x) auto

text \<open>Decimal digits of a number, as an f-string prints them.\<close>

fun str_nat :: "nat \<Rightarrow> string" where
  "str_nat n =
     (if n < 10 then [char_of (48 + n)] else str_nat (n div 10) @ [char_of (48 + n mod 10)])"

declare str_nat.simps [simp del]

section \<open>Sequences of state changes\<close>

text \<open>Statements that update one state, executed in the order of the list.\<close>

fun run_steps :: "('s \<Rightarrow> 's) list \<Rightarrow> 's \<Rightarrow> 's" where
  "run_steps [] s = s"
| "run_steps (f # fs) s = run_steps fs (f s)"

lemma run_steps_append [simp]: "run_steps (fs @ gs) s = run_steps gs (run_steps fs s)"
  by (induction fs arbitrary: s) auto

lemma run_steps_fold: "run_steps fs s = fold (\<lambda>f. f) fs s"
  by (induction fs arbitrary: s) auto

section \<open>Sets and dictionaries in insertion order\<close>

text \<open>A Python set as a list without repetitions; the newest element is first.\<close>

definition set_add :: "'a \<Rightarrow> 'a list \<Rightarrow> 'a list" where
  "set_add x xs = (if x \<in> set xs then xs else x # xs)"

lemma set_set_add [simp]: "set (set_add x xs) = insert x (set xs)"
  by (auto simp: set_add_def)

lemma distinct_set_add [simp]: "distinct (set_add x xs) = distinct xs"
  by (auto simp: set_add_def)

text \<open>\<^verbatim>\<open>list(dict.fromkeys(xs))\<close>: the first occurrence of every element, in order.\<close>

fun dict_fromkeys :: "'a list \<Rightarrow> 'a list" where
  "dict_fromkeys [] = []"
| "dict_fromkeys (x # xs) = x # filter (\<lambda>y. y \<noteq> x) (dict_fromkeys xs)"

lemma set_dict_fromkeys [simp]: "set (dict_fromkeys xs) = set xs"
  by (induction xs) auto

lemma distinct_dict_fromkeys [simp]: "distinct (dict_fromkeys xs)"
  by (induction xs) auto

lemma dict_fromkeys_Nil_iff [simp]: "dict_fromkeys xs = [] \<longleftrightarrow> xs = []"
  by (cases xs) auto

lemma dict_fromkeys_distinct: "distinct xs \<Longrightarrow> dict_fromkeys xs = xs"
  by (induction xs) (auto simp: filter_id_conv)

text \<open>The values that are present in a list of optional values.\<close>

fun somes :: "'a option list \<Rightarrow> 'a list" where
  "somes [] = []"
| "somes (None # xs) = somes xs"
| "somes (Some x # xs) = x # somes xs"

lemma somes_append [simp]: "somes (xs @ ys) = somes xs @ somes ys"
  by (induction xs rule: somes.induct) auto

lemma set_somes [simp]: "set (somes xs) = {x. Some x \<in> set xs}"
  by (induction xs rule: somes.induct) auto

lemma somes_map_Some: "somes (map Some xs) = xs"
  by (induction xs) auto

lemma somes_eq_map_the: "None \<notin> set xs \<Longrightarrow> somes xs = map the xs"
  by (induction xs rule: somes.induct) auto

lemma concat_map_option: "concat (map (\<lambda>x. case x of None \<Rightarrow> [] | Some k \<Rightarrow> f k) xs) = concat (map f (somes xs))"
  by (induction xs rule: somes.induct) auto

lemma UN_option: "(\<Union>x\<in>set xs. case x of None \<Rightarrow> {} | Some k \<Rightarrow> f k) = (\<Union>k\<in>set (somes xs). f k)"
  by (induction xs rule: somes.induct) auto

lemma foldr_max_option:
  "foldr max (map (\<lambda>x. case x of None \<Rightarrow> 0 | Some k \<Rightarrow> f k) xs) 0 = foldr max (map f (somes xs)) (0::nat)"
  by (induction xs rule: somes.induct) auto

lemma foldr_max_add:
  "foldr max (map (\<lambda>k. d + f k) xs) 0 = (if xs = [] then 0 else d + foldr max (map f xs) (0::nat))"
  by (induction xs) auto

section \<open>Indices\<close>

text \<open>Position of the first occurrence, the length of the list if there is none.\<close>

fun index_of :: "'a \<Rightarrow> 'a list \<Rightarrow> nat" where
  "index_of x [] = 0"
| "index_of x (y # ys) = (if x = y then 0 else Suc (index_of x ys))"

lemma index_of_less: "x \<in> set xs \<Longrightarrow> index_of x xs < length xs"
  by (induction xs) auto

lemma nth_index_of: "x \<in> set xs \<Longrightarrow> xs ! index_of x xs = x"
  by (induction xs) auto

lemma index_of_nth: "distinct xs \<Longrightarrow> i < length xs \<Longrightarrow> index_of (xs ! i) xs = i"
  by (induction xs arbitrary: i) (auto simp: nth_Cons split: nat.splits)

lemma index_of_inj_on: "inj_on (\<lambda>x. index_of x xs) (set xs)"
  by (rule inj_on_inverseI [where g = "\<lambda>i. xs ! i"]) (simp add: nth_index_of)

lemma index_of_append:
  "index_of x (xs @ ys) = (if x \<in> set xs then index_of x xs else length xs + index_of x ys)"
  by (induction xs) auto

lemma map_of_zip_index:
  "x \<in> set xs \<Longrightarrow> map_of (zip xs [0..<length xs]) x = Some (index_of x xs)"
proof -
  have "x \<in> set xs \<Longrightarrow> map_of (zip xs [n..<n + length xs]) x = Some (n + index_of x xs)" for n
  proof (induction xs arbitrary: n)
    case (Cons y ys)
    then show ?case using Cons.IH [of "Suc n"]
      by (auto simp: upt_conv_Cons simp del: upt_Suc)
  qed simp
  from this [of 0] show "x \<in> set xs \<Longrightarrow> map_of (zip xs [0..<length xs]) x = Some (index_of x xs)"
    by simp
qed

lemma map_of_rev_distinct: "distinct (map fst ps) \<Longrightarrow> map_of (rev ps) = map_of ps"
  by (subst map_of_inject_set) (auto simp: rev_map [symmetric])

section \<open>Lists\<close>

lemma sum_list_map_member_le:
  fixes f :: "'a \<Rightarrow> nat"
  shows "x \<in> set xs \<Longrightarrow> f x \<le> sum_list (map f xs)"
  by (induction xs) auto

text \<open>Two occurrences in a list, whatever its order.\<close>

lemma pair_in_mset:
  "{#x, y#} \<subseteq># add_mset z M \<longleftrightarrow> {#x, y#} \<subseteq># M \<or> x = z \<and> y \<in># M \<or> y = z \<and> x \<in># M"
proof (cases "x = z")
  case True
  then show ?thesis by (auto simp: insert_subset_eq_iff dest: in_diffD)
next
  case False
  then show ?thesis by (auto simp: insert_subset_eq_iff diff_add_mset_swap)
qed

lemma sorted_wrt_pairs:
  assumes sym: "\<And>x y. R x y \<Longrightarrow> R y x"
  shows "sorted_wrt R xs \<longleftrightarrow> (\<forall>x y. {#x, y#} \<subseteq># mset xs \<longrightarrow> R x y)"
  by (induction xs) (use sym in \<open>auto simp: pair_in_mset\<close>)

lemma pair_nth: "i < j \<Longrightarrow> j < length xs \<Longrightarrow> {#xs ! i, xs ! j#} \<subseteq># mset xs"
proof (induction xs arbitrary: i j)
  case (Cons x xs)
  then show ?case by (cases i; cases j) (auto simp: pair_in_mset)
qed simp

end
