(* ===== verification/Flow_Schema.thy ===== *)
theory Flow_Schema
  imports Prelude
begin

text \<open>
  The data of the IVR control plane and the constraints its schema layer enforces
  (\<^verbatim>\<open>src/server/app/schemas.py\<close>, the configuration part): caller policy, schedules, the
  V1 flow graph, the owned flow tree of V2 to V4, the recording behaviour and the versioned
  documents. A class becomes a record or a datatype with its fields; the field constraints and
  the validators of a class become one executable predicate \<open>..._valid\<close>. Fields whose
  constraint excludes negative numbers are natural numbers.
\<close>

section \<open>Constants and string patterns\<close>

definition DTMF_KEYS :: string where
  "DTMF_KEYS = ''0123456789*#''"

definition EMERGENCY_SERVICE_NUMBERS :: "string list" where
  "EMERGENCY_SERVICE_NUMBERS = [''110'', ''112'', ''115'', ''125'', ''911'', ''999'']"

definition removeprefix :: "string \<Rightarrow> string \<Rightarrow> string" where
  "removeprefix p s = (if take (length p) s = p then drop (length p) s else s)"

definition startswith :: "string \<Rightarrow> string \<Rightarrow> bool" where
  "startswith s p \<longleftrightarrow> take (length p) s = p"

definition lstrip_zero :: "string \<Rightarrow> string" where
  "lstrip_zero s = dropWhile (\<lambda>c. c = CHR ''0'') s"

definition is_obvious_emergency_number :: "string \<Rightarrow> bool" where
  "is_obvious_emergency_number value =
     (let digits = removeprefix ''+'' value;
          candidates = [digits, lstrip_zero digits] @
            concat (map (\<lambda>prefix. if startswith digits prefix
                       then (let remainder = drop (length prefix) digits
                             in [remainder, lstrip_zero remainder])
                       else [])
              [''00'', ''98'', ''0098'', ''1'', ''44''])
      in list_ex (\<lambda>c. c \<in> set EMERGENCY_SERVICE_NUMBERS) candidates)"

definition is_lower :: "char \<Rightarrow> bool" where
  "is_lower c \<longleftrightarrow> CHR ''a'' \<le> c \<and> c \<le> CHR ''z''"

definition is_digit :: "char \<Rightarrow> bool" where
  "is_digit c \<longleftrightarrow> CHR ''0'' \<le> c \<and> c \<le> CHR ''9''"

definition is_hex :: "char \<Rightarrow> bool" where
  "is_hex c \<longleftrightarrow> is_digit c \<or> (CHR ''a'' \<le> c \<and> c \<le> CHR ''f'')"

fun matches_NODE_ID_PATTERN :: "string \<Rightarrow> bool" where
  "matches_NODE_ID_PATTERN [] = False"
| "matches_NODE_ID_PATTERN (c # cs) =
     (is_lower c \<and> length cs \<le> 31 \<and>
      list_all (\<lambda>x. is_lower x \<or> is_digit x \<or> x = CHR ''_'' \<or> x = CHR ''-'') cs)"

definition matches_PROMPT_ID_PATTERN :: "string \<Rightarrow> bool" where
  "matches_PROMPT_ID_PATTERN s \<longleftrightarrow>
     length s = 36 \<and> list_all (\<lambda>x. is_hex x \<or> x = CHR ''-'') s"

definition matches_BLOCK_ID_PATTERN :: "string \<Rightarrow> bool" where
  "matches_BLOCK_ID_PATTERN s \<longleftrightarrow>
     length s = 36 \<and>
     list_all is_hex (take 8 s) \<and> s ! 8 = CHR ''-'' \<and>
     list_all is_hex (take 4 (drop 9 s)) \<and> s ! 13 = CHR ''-'' \<and>
     CHR ''1'' \<le> s ! 14 \<and> s ! 14 \<le> CHR ''5'' \<and>
     list_all is_hex (take 3 (drop 15 s)) \<and> s ! 18 = CHR ''-'' \<and>
     s ! 19 \<in> set ''89ab'' \<and>
     list_all is_hex (take 3 (drop 20 s)) \<and> s ! 23 = CHR ''-'' \<and>
     list_all is_hex (drop 24 s)"

fun matches_e164 :: "string \<Rightarrow> bool" where
  "matches_e164 (p # c # cs) =
     (p = CHR ''+'' \<and> CHR ''1'' \<le> c \<and> c \<le> CHR ''9'' \<and>
      7 \<le> length cs \<and> length cs \<le> 14 \<and> list_all is_digit cs)"
| "matches_e164 _ = False"

fun matches_clock :: "string \<Rightarrow> bool" where
  "matches_clock [a, b, c, d, e] =
     (((a \<in> set ''01'' \<and> is_digit b) \<or> (a = CHR ''2'' \<and> CHR ''0'' \<le> b \<and> b \<le> CHR ''3'')) \<and>
      c = CHR '':'' \<and> CHR ''0'' \<le> d \<and> d \<le> CHR ''5'' \<and> is_digit e)"
| "matches_clock _ = False"

definition matches_phone_number :: "string \<Rightarrow> bool" where
  "matches_phone_number s =
     (let ds = removeprefix ''+'' s in 8 \<le> length ds \<and> length ds \<le> 15 \<and> list_all is_digit ds)"

section \<open>Caller policy\<close>

datatype CallerPolicyMode =
    IVR_DISABLED | ALLOWLIST_ONLY | ACCEPT_ALL | ACCEPT_ALL_EXCEPT_BLOCKLIST

record CallerEntry =
  entry_label :: string
  e164 :: string

definition CallerEntry_valid :: "CallerEntry \<Rightarrow> bool" where
  "CallerEntry_valid e \<longleftrightarrow>
     1 \<le> length (entry_label e) \<and> length (entry_label e) \<le> 120 \<and> matches_e164 (e164 e)"

record CallerPolicy =
  mode :: CallerPolicyMode
  route_unknown_callers :: bool
  allowlist :: "CallerEntry list"
  blocklist :: "CallerEntry list"

definition default_CallerPolicy :: CallerPolicy where
  "default_CallerPolicy =
     \<lparr>mode = ALLOWLIST_ONLY, route_unknown_callers = False, allowlist = [], blocklist = []\<rparr>"

definition CallerPolicy_valid :: "CallerPolicy \<Rightarrow> bool" where
  "CallerPolicy_valid p \<longleftrightarrow>
     length (allowlist p) \<le> 1000 \<and> length (blocklist p) \<le> 1000 \<and>
     list_all CallerEntry_valid (allowlist p) \<and> list_all CallerEntry_valid (blocklist p) \<and>
     distinct (map e164 (allowlist p)) \<and> distinct (map e164 (blocklist p))"

section \<open>Schedules\<close>

record WeeklyWindow =
  weekday :: nat
  window_start :: string
  window_end :: string

definition WeeklyWindow_valid :: "WeeklyWindow \<Rightarrow> bool" where
  "WeeklyWindow_valid w \<longleftrightarrow>
     weekday w \<le> 6 \<and> matches_clock (window_start w) \<and> matches_clock (window_end w) \<and>
     window_start w < window_end w"

datatype exception_state = ExceptionOpen | ExceptionClosed | ExceptionHoliday

text \<open>A calendar date is its year, month and day.\<close>

record ScheduleException =
  exception_date :: "int \<times> nat \<times> nat"
  exception_state :: exception_state

record Schedule =
  schedule_id :: string
  schedule_name :: string
  timezone :: string
  weekly :: "WeeklyWindow list"
  exceptions :: "ScheduleException list"

fun windows_overlap :: "(string \<times> string) list \<Rightarrow> bool" where
  "windows_overlap (previous # current # rest) =
     (fst current < snd previous \<or> windows_overlap (current # rest))"
| "windows_overlap _ = False"

definition windows_of_day :: "WeeklyWindow list \<Rightarrow> nat \<Rightarrow> (string \<times> string) list" where
  "windows_of_day ws d =
     map (\<lambda>w. (window_start w, window_end w)) (filter (\<lambda>w. weekday w = d) ws)"

definition no_overlaps_or_duplicate_exceptions :: "Schedule \<Rightarrow> bool" where
  "no_overlaps_or_duplicate_exceptions s \<longleftrightarrow>
     list_all (\<lambda>d. \<not> windows_overlap (sort (windows_of_day (weekly s) d)))
       (dict_fromkeys (map weekday (weekly s))) \<and>
     distinct (map exception_date (exceptions s))"

definition Schedule_valid :: "Schedule \<Rightarrow> bool" where
  "Schedule_valid s \<longleftrightarrow>
     matches_NODE_ID_PATTERN (schedule_id s) \<and>
     1 \<le> length (schedule_name s) \<and> length (schedule_name s) \<le> 120 \<and>
     1 \<le> length (timezone s) \<and> length (timezone s) \<le> 80 \<and>
     length (weekly s) \<le> 64 \<and> length (exceptions s) \<le> 366 \<and>
     list_all WeeklyWindow_valid (weekly s) \<and>
     no_overlaps_or_duplicate_exceptions s"

section \<open>The V1 flow graph\<close>

datatype FlowNode =
    PlayPromptNode (node_id: string) string string
  | CollectDigitNode (node_id: string) "string option" nat nat "(string \<times> string) list" string string
  | ScheduleBranchNode (node_id: string) string string string string
  | RepeatMenuNode (node_id: string) string nat string
  | EndCallNode (node_id: string)

definition branch_target_valid :: "string \<times> string \<Rightarrow> bool" where
  "branch_target_valid b \<longleftrightarrow>
     (\<exists>c\<in>set DTMF_KEYS. fst b = [c]) \<and> snd b \<noteq> [] \<and> length (snd b) \<le> 32"

fun FlowNode_valid :: "FlowNode \<Rightarrow> bool" where
  "FlowNode_valid (PlayPromptNode i p n) =
     (matches_NODE_ID_PATTERN i \<and> matches_PROMPT_ID_PATTERN p \<and> matches_NODE_ID_PATTERN n)"
| "FlowNode_valid (CollectDigitNode i p timeout_ms maximum_attempts branches t v) =
     (matches_NODE_ID_PATTERN i \<and> pred_option matches_PROMPT_ID_PATTERN p \<and>
      1000 \<le> timeout_ms \<and> timeout_ms \<le> 15000 \<and>
      1 \<le> maximum_attempts \<and> maximum_attempts \<le> 3 \<and>
      length branches \<le> 12 \<and> branches \<noteq> [] \<and> distinct (map fst branches) \<and>
      list_all branch_target_valid branches \<and>
      matches_NODE_ID_PATTERN t \<and> matches_NODE_ID_PATTERN v)"
| "FlowNode_valid (ScheduleBranchNode i s a b c) =
     (matches_NODE_ID_PATTERN i \<and> matches_NODE_ID_PATTERN s \<and> matches_NODE_ID_PATTERN a \<and>
      matches_NODE_ID_PATTERN b \<and> matches_NODE_ID_PATTERN c)"
| "FlowNode_valid (RepeatMenuNode i t maximum_repeats e) =
     (matches_NODE_ID_PATTERN i \<and> matches_NODE_ID_PATTERN t \<and>
      1 \<le> maximum_repeats \<and> maximum_repeats \<le> 3 \<and> matches_NODE_ID_PATTERN e)"
| "FlowNode_valid (EndCallNode i) = matches_NODE_ID_PATTERN i"

record FlowDefinition =
  root_node :: string
  nodes :: "FlowNode list"

definition FlowDefinition_valid :: "FlowDefinition \<Rightarrow> bool" where
  "FlowDefinition_valid f \<longleftrightarrow>
     matches_NODE_ID_PATTERN (root_node f) \<and> 1 \<le> length (nodes f) \<and> length (nodes f) \<le> 64 \<and>
     list_all FlowNode_valid (nodes f)"

record DraftConfiguration =
  v1_caller_policy :: CallerPolicy
  v1_schedules :: "Schedule list"
  v1_flow :: FlowDefinition

definition default_DraftConfiguration :: DraftConfiguration where
  "default_DraftConfiguration =
     \<lparr>v1_caller_policy = default_CallerPolicy, v1_schedules = [],
      v1_flow = \<lparr>root_node = ''end'', nodes = [EndCallNode ''end'']\<rparr>\<rparr>"

definition DraftConfiguration_valid :: "DraftConfiguration \<Rightarrow> bool" where
  "DraftConfiguration_valid d \<longleftrightarrow>
     CallerPolicy_valid (v1_caller_policy d) \<and> length (v1_schedules d) \<le> 32 \<and>
     list_all Schedule_valid (v1_schedules d) \<and> FlowDefinition_valid (v1_flow d)"

section \<open>The owned flow tree of V2 to V4\<close>

text \<open>
  Every block owns its children: a block is a value, so a child cannot be shared. The arguments
  of a constructor are the fields of the class, in the order of the class.
\<close>

datatype FlowBlock =
    PlayPromptBlockV2 (block_id: string) "string option" "FlowBlock option"
  | CollectDigitBlockV2 (block_id: string) "string option" bool nat nat nat "DigitBranch list"
      "FlowBlock option" "FlowBlock option" "FlowBlock option"
  | ScheduleBranchBlockV2 (block_id: string) "string option"
      "FlowBlock option" "FlowBlock option" "FlowBlock option"
  | ReturnToMenuBlockV2 (block_id: string)
  | EndCallBlockV2 (block_id: string)
  | RecordMessageBlockV3 (block_id: string) "FlowBlock option" "FlowBlock option"
  | ExternalCallBlockV4 (block_id: string) string nat
      "FlowBlock option" "FlowBlock option" "FlowBlock option"
and DigitBranch =
    DigitBranchV2 (branch_id: string) (digit: char) (branch_root: "FlowBlock option")

text \<open>The block-local constraints of a schema class, and of everything below the block.\<close>

fun FlowBlock_valid :: "FlowBlock \<Rightarrow> bool" and DigitBranch_valid :: "DigitBranch \<Rightarrow> bool" where
  "FlowBlock_valid (PlayPromptBlockV2 i p n) =
     (matches_BLOCK_ID_PATTERN i \<and> pred_option matches_PROMPT_ID_PATTERN p \<and>
      (case n of None \<Rightarrow> True | Some c \<Rightarrow> FlowBlock_valid c))"
| "FlowBlock_valid (CollectDigitBlockV2 i p allow_prompt_barge_in timeout_ms maximum_attempts
       maximum_menu_returns branches t v l) =
     (matches_BLOCK_ID_PATTERN i \<and> pred_option matches_PROMPT_ID_PATTERN p \<and>
      1000 \<le> timeout_ms \<and> timeout_ms \<le> 15000 \<and>
      1 \<le> maximum_attempts \<and> maximum_attempts \<le> 3 \<and>
      1 \<le> maximum_menu_returns \<and> maximum_menu_returns \<le> 3 \<and>
      length branches \<le> 12 \<and> (allow_prompt_barge_in \<longrightarrow> p \<noteq> None) \<and>
      (\<forall>b\<in>set branches. DigitBranch_valid b) \<and>
      (case t of None \<Rightarrow> True | Some c \<Rightarrow> FlowBlock_valid c) \<and>
      (case v of None \<Rightarrow> True | Some c \<Rightarrow> FlowBlock_valid c) \<and>
      (case l of None \<Rightarrow> True | Some c \<Rightarrow> FlowBlock_valid c))"
| "FlowBlock_valid (ScheduleBranchBlockV2 i s a b c) =
     (matches_BLOCK_ID_PATTERN i \<and> pred_option matches_NODE_ID_PATTERN s \<and>
      (case a of None \<Rightarrow> True | Some x \<Rightarrow> FlowBlock_valid x) \<and>
      (case b of None \<Rightarrow> True | Some x \<Rightarrow> FlowBlock_valid x) \<and>
      (case c of None \<Rightarrow> True | Some x \<Rightarrow> FlowBlock_valid x))"
| "FlowBlock_valid (ReturnToMenuBlockV2 i) = matches_BLOCK_ID_PATTERN i"
| "FlowBlock_valid (EndCallBlockV2 i) = matches_BLOCK_ID_PATTERN i"
| "FlowBlock_valid (RecordMessageBlockV3 i n u) =
     (matches_BLOCK_ID_PATTERN i \<and>
      (case n of None \<Rightarrow> True | Some x \<Rightarrow> FlowBlock_valid x) \<and>
      (case u of None \<Rightarrow> True | Some x \<Rightarrow> FlowBlock_valid x))"
| "FlowBlock_valid (ExternalCallBlockV4 i phone_number answer_timeout_seconds n c f) =
     (matches_BLOCK_ID_PATTERN i \<and> matches_phone_number phone_number \<and>
      \<not> is_obvious_emergency_number phone_number \<and>
      5 \<le> answer_timeout_seconds \<and> answer_timeout_seconds \<le> 120 \<and>
      (case n of None \<Rightarrow> True | Some x \<Rightarrow> FlowBlock_valid x) \<and>
      (case c of None \<Rightarrow> True | Some x \<Rightarrow> FlowBlock_valid x) \<and>
      (case f of None \<Rightarrow> True | Some x \<Rightarrow> FlowBlock_valid x))"
| "DigitBranch_valid (DigitBranchV2 i d r) =
     (matches_BLOCK_ID_PATTERN i \<and> d \<in> set DTMF_KEYS \<and>
      (case r of None \<Rightarrow> True | Some x \<Rightarrow> FlowBlock_valid x))"

text \<open>
  A flow is an optional root block. The documents V3 and V4 carry a recording behaviour; the
  document V2 does not.
\<close>

record FlowDefinitionV2 =
  flow_root :: "FlowBlock option"

record RecordingBehavior =
  maximum_duration_seconds :: nat
  finish_key :: "string option"

definition default_RecordingBehavior :: RecordingBehavior where
  "default_RecordingBehavior = \<lparr>maximum_duration_seconds = 60, finish_key = Some ''#''\<rparr>"

definition supported_finish_key :: "string option \<Rightarrow> bool" where
  "supported_finish_key k \<longleftrightarrow>
     (case k of None \<Rightarrow> True | Some v \<Rightarrow> length v = 1 \<and> set v \<subseteq> set DTMF_KEYS)"

definition RecordingBehavior_valid :: "RecordingBehavior \<Rightarrow> bool" where
  "RecordingBehavior_valid r \<longleftrightarrow>
     10 \<le> maximum_duration_seconds r \<and> maximum_duration_seconds r \<le> 180 \<and>
     supported_finish_key (finish_key r)"

record FlowDocumentV2 =
  edit_version :: nat
  caller_policy :: CallerPolicy
  schedules :: "Schedule list"
  flow :: FlowDefinitionV2

record FlowDocumentV3 = FlowDocumentV2 +
  recording_behavior :: RecordingBehavior

type_synonym FlowDocumentV4 = FlowDocumentV3

section \<open>Children of a block\<close>

text \<open>All the blocks a block owns, in field order; the digit branches come first.\<close>

fun child_fields :: "FlowBlock \<Rightarrow> FlowBlock option list" where
  "child_fields (PlayPromptBlockV2 i p n) = [n]"
| "child_fields (CollectDigitBlockV2 i p g m a r branches t v l) =
     map branch_root branches @ [t, v, l]"
| "child_fields (ScheduleBranchBlockV2 i s a b c) = [a, b, c]"
| "child_fields (ReturnToMenuBlockV2 i) = []"
| "child_fields (EndCallBlockV2 i) = []"
| "child_fields (RecordMessageBlockV3 i n u) = [n, u]"
| "child_fields (ExternalCallBlockV4 i ph a n c f) = [n, c, f]"

definition owned :: "FlowBlock \<Rightarrow> FlowBlock list" where
  "owned b = somes (child_fields b)"

text \<open>A leaf has size 0, so the weight of a block counts the block itself.\<close>

definition weight :: "FlowBlock \<Rightarrow> nat" where
  "weight b = Suc (size b)"

lemma weight_branch_roots:
  "sum_list (map weight (somes (map branch_root bs))) \<le> size_list size bs"
proof (induction bs)
  case (Cons b bs)
  then show ?case by (cases b; cases "branch_root b") (auto simp: weight_def)
qed simp

lemma weight_somes_three:
  "sum_list (map weight (somes [a, b, c])) \<le>
     size_option size a + size_option size b + size_option size c"
  for a b c :: "FlowBlock option"
  by (cases a; cases b; cases c) (auto simp: weight_def)

lemma weight_owned: "sum_list (map weight (owned b)) < weight b"
proof (cases b)
  case (PlayPromptBlockV2 i p n)
  then show ?thesis by (cases n) (auto simp: owned_def weight_def)
next
  case (CollectDigitBlockV2 i p g m a r bs t v l)
  then show ?thesis
    using weight_branch_roots [of bs] weight_somes_three [of t v l]
    by (auto simp: owned_def weight_def [of "CollectDigitBlockV2 i p g m a r bs t v l"])
next
  case (RecordMessageBlockV3 i n u)
  then show ?thesis by (cases n; cases u) (auto simp: owned_def weight_def)
next
  case (ScheduleBranchBlockV2 i s x y z)
  then show ?thesis using weight_somes_three [of x y z] by (auto simp: owned_def weight_def [of "ScheduleBranchBlockV2 i s x y z"])
next
  case (ExternalCallBlockV4 i ph tm x y z)
  then show ?thesis using weight_somes_three [of x y z] by (auto simp: owned_def weight_def [of "ExternalCallBlockV4 i ph tm x y z"])
qed (auto simp: owned_def weight_def)

lemma weight_owned_less: "c \<in> set (owned b) \<Longrightarrow> weight c < weight b"
  using sum_list_map_member_le [of c "owned b" weight] weight_owned [of b] by simp

text \<open>Induction over the owned tree: the hypothesis holds for every owned block.\<close>

lemma owned_induct [case_names step]:
  assumes "\<And>b. (\<And>c. c \<in> set (owned b) \<Longrightarrow> P c) \<Longrightarrow> P b"
  shows "P b"
proof (induction b rule: measure_induct_rule [where f = weight])
  case (less b)
  then show ?case using assms weight_owned_less by blast
qed

text \<open>Every block of a tree, a block before the blocks it owns.\<close>

function subtree :: "FlowBlock \<Rightarrow> FlowBlock list" where
  "subtree b = b # concat (map subtree (owned b))"
  by pat_completeness auto
termination
  by (relation "measure weight") (auto dest: weight_owned_less)

declare subtree.simps [simp del]

lemma subtree_self [simp]: "b \<in> set (subtree b)"
  by (subst subtree.simps) simp

lemma set_subtree: "set (subtree b) = insert b (\<Union>c\<in>set (owned b). set (subtree c))"
  by (subst subtree.simps) simp

lemma subtree_owned: "c \<in> set (owned b) \<Longrightarrow> x \<in> set (subtree c) \<Longrightarrow> x \<in> set (subtree b)"
  by (auto simp: set_subtree [of b])

section \<open>Release boundaries of the documents\<close>

text \<open>
  The validators of the V2 and V3 documents walk the tree with a stack of pending blocks and
  raise at the first block that a later release introduced. The head of the list is the end of
  the Python list, from which \<^verbatim>\<open>pop\<close> takes.
\<close>

fun release_two_children :: "FlowBlock \<Rightarrow> FlowBlock list" where
  "release_two_children (PlayPromptBlockV2 i p n) = somes [n]"
| "release_two_children (CollectDigitBlockV2 i p g m a r branches t v l) =
     somes (map branch_root branches) @ somes [t, v, l]"
| "release_two_children (ScheduleBranchBlockV2 i s a b c) = somes [a, b, c]"
| "release_two_children (ExternalCallBlockV4 i ph a n c f) = somes [n, c, f]"
| "release_two_children _ = []"

fun release_three_children :: "FlowBlock \<Rightarrow> FlowBlock list" where
  "release_three_children (PlayPromptBlockV2 i p n) = somes [n]"
| "release_three_children (CollectDigitBlockV2 i p g m a r branches t v l) =
     somes (map branch_root branches) @ somes [t, v, l]"
| "release_three_children (ScheduleBranchBlockV2 i s a b c) = somes [a, b, c]"
| "release_three_children (RecordMessageBlockV3 i n u) = somes [n, u]"
| "release_three_children _ = []"

fun allow_prompt_barge_in :: "FlowBlock \<Rightarrow> bool" where
  "allow_prompt_barge_in (CollectDigitBlockV2 i p g m a r branches t v l) = g"
| "allow_prompt_barge_in _ = False"

fun is_RecordMessage :: "FlowBlock \<Rightarrow> bool" where
  "is_RecordMessage (RecordMessageBlockV3 i n u) = True"
| "is_RecordMessage _ = False"

fun is_ExternalCall :: "FlowBlock \<Rightarrow> bool" where
  "is_ExternalCall (ExternalCallBlockV4 i ph a n c f) = True"
| "is_ExternalCall _ = False"

fun is_CollectDigit :: "FlowBlock \<Rightarrow> bool" where
  "is_CollectDigit (CollectDigitBlockV2 i p g m a r branches t v l) = True"
| "is_CollectDigit _ = False"

fun is_ReturnToMenu :: "FlowBlock \<Rightarrow> bool" where
  "is_ReturnToMenu (ReturnToMenuBlockV2 i) = True"
| "is_ReturnToMenu _ = False"

lemma release_two_children_owned: "\<not> is_RecordMessage b \<Longrightarrow> release_two_children b = owned b"
  by (cases b) (auto simp: owned_def)

lemma release_three_children_owned: "\<not> is_ExternalCall b \<Longrightarrow> release_three_children b = owned b"
  by (cases b) (auto simp: owned_def)

lemma weight_release_two_children: "sum_list (map weight (release_two_children b)) < weight b"
  using weight_owned [of b] release_two_children_owned [of b] by (cases "is_RecordMessage b") (cases b, auto simp: weight_def)

lemma weight_release_three_children: "sum_list (map weight (release_three_children b)) < weight b"
  using weight_owned [of b] release_three_children_owned [of b] by (cases "is_ExternalCall b") (cases b, auto simp: weight_def)

function release_two_loop :: "FlowBlock list \<Rightarrow> unit result" where
  "release_two_loop [] = Inr ()"
| "release_two_loop (b # pending) =
     (if is_RecordMessage b
      then Inl (ValueError ''FlowDocumentV2 cannot contain record_message blocks'')
      else if is_ExternalCall b
      then Inl (ValueError ''FlowDocumentV2 cannot contain external_call blocks'')
      else if is_CollectDigit b \<and> allow_prompt_barge_in b
      then Inl (ValueError ''FlowDocumentV2 cannot enable prompt interruption'')
      else release_two_loop (rev (release_two_children b) @ pending))"
  by pat_completeness auto
termination
  by (relation "measure (\<lambda>p. sum_list (map weight p))")
    (auto simp: rev_map [symmetric] weight_release_two_children)

function release_three_loop :: "FlowBlock list \<Rightarrow> unit result" where
  "release_three_loop [] = Inr ()"
| "release_three_loop (b # pending) =
     (if is_ExternalCall b
      then Inl (ValueError ''FlowDocumentV3 cannot contain external_call blocks'')
      else if is_CollectDigit b \<and> allow_prompt_barge_in b
      then Inl (ValueError ''FlowDocumentV3 cannot enable prompt interruption'')
      else release_three_loop (rev (release_three_children b) @ pending))"
  by pat_completeness auto
termination
  by (relation "measure (\<lambda>p. sum_list (map weight p))")
    (auto simp: rev_map [symmetric] weight_release_three_children)

definition release_two_has_no_recording :: "FlowDefinitionV2 \<Rightarrow> unit result" where
  "release_two_has_no_recording f =
     release_two_loop (case flow_root f of None \<Rightarrow> [] | Some b \<Rightarrow> [b])"

definition release_three_has_no_external_calls :: "FlowDefinitionV2 \<Rightarrow> unit result" where
  "release_three_has_no_external_calls f =
     release_three_loop (case flow_root f of None \<Rightarrow> [] | Some b \<Rightarrow> [b])"

definition FlowDefinitionV2_valid :: "FlowDefinitionV2 \<Rightarrow> bool" where
  "FlowDefinitionV2_valid f \<longleftrightarrow> pred_option FlowBlock_valid (flow_root f)"

definition document_fields_valid :: "('a) FlowDocumentV2_scheme \<Rightarrow> bool" where
  "document_fields_valid d \<longleftrightarrow>
     CallerPolicy_valid (caller_policy d) \<and> length (schedules d) \<le> 32 \<and>
     list_all Schedule_valid (schedules d) \<and> FlowDefinitionV2_valid (flow d)"

definition FlowDocumentV2_valid :: "FlowDocumentV2 \<Rightarrow> bool" where
  "FlowDocumentV2_valid d \<longleftrightarrow>
     document_fields_valid d \<and> is_ok (release_two_has_no_recording (flow d))"

definition FlowDocumentV3_valid :: "FlowDocumentV3 \<Rightarrow> bool" where
  "FlowDocumentV3_valid d \<longleftrightarrow>
     document_fields_valid d \<and> RecordingBehavior_valid (recording_behavior d) \<and>
     is_ok (release_three_has_no_external_calls (flow d))"

definition FlowDocumentV4_valid :: "FlowDocumentV4 \<Rightarrow> bool" where
  "FlowDocumentV4_valid d \<longleftrightarrow>
     document_fields_valid d \<and> RecordingBehavior_valid (recording_behavior d)"

section \<open>Properties of the schema layer\<close>

text \<open>The stack walks reach every block of the pending trees.\<close>

lemma release_two_loop_ok:
  "is_ok (release_two_loop p) \<longleftrightarrow>
     (\<forall>b\<in>set p. \<forall>c\<in>set (subtree b).
        \<not> is_RecordMessage c \<and> \<not> is_ExternalCall c \<and> \<not> allow_prompt_barge_in c)"
proof (induction p rule: release_two_loop.induct)
  case (2 b pending)
  have barge: "is_CollectDigit b \<and> allow_prompt_barge_in b \<longleftrightarrow> allow_prompt_barge_in b"
    by (cases b) auto
  show ?case
  proof (cases "is_RecordMessage b \<or> is_ExternalCall b \<or> allow_prompt_barge_in b")
    case True
    then show ?thesis using barge by (auto simp: set_subtree [of b])
  next
    case False
    then have "release_two_children b = owned b" by (simp add: release_two_children_owned)
    then show ?thesis using False 2 barge by (auto simp: set_subtree [of b])
  qed
qed simp

lemma release_three_loop_ok:
  "is_ok (release_three_loop p) \<longleftrightarrow>
     (\<forall>b\<in>set p. \<forall>c\<in>set (subtree b). \<not> is_ExternalCall c \<and> \<not> allow_prompt_barge_in c)"
proof (induction p rule: release_three_loop.induct)
  case (2 b pending)
  have barge: "is_CollectDigit b \<and> allow_prompt_barge_in b \<longleftrightarrow> allow_prompt_barge_in b"
    by (cases b) auto
  show ?case
  proof (cases "is_ExternalCall b \<or> allow_prompt_barge_in b")
    case True
    then show ?thesis using barge by (auto simp: set_subtree [of b])
  next
    case False
    then have "release_three_children b = owned b" by (simp add: release_three_children_owned)
    then show ?thesis using False 2 barge by (auto simp: set_subtree [of b])
  qed
qed simp

text \<open>
  The overlap test compares neighbours in the sorted list of the windows of a day; that is enough
  to find every pair of windows that overlap.
\<close>

abbreviation window_of :: "WeeklyWindow \<Rightarrow> string \<times> string" where
  "window_of w \<equiv> (window_start w, window_end w)"

definition disjoint_windows :: "string \<times> string \<Rightarrow> string \<times> string \<Rightarrow> bool" where
  "disjoint_windows v w \<longleftrightarrow> snd v \<le> fst w \<or> snd w \<le> fst v"

lemma windows_overlap_sorted:
  assumes "\<forall>x\<in>set xs. fst x < snd x"
  shows "\<not> windows_overlap xs \<longleftrightarrow> sorted_wrt (\<lambda>a b. snd a \<le> fst b) xs"
  using assms
proof (induction xs rule: windows_overlap.induct)
  case (1 previous current rest)
  then have "snd previous \<le> fst x" if "snd previous \<le> fst current" "snd current \<le> fst x" for x
    using that by (meson dual_order.trans less_imp_le list.set_intros)
  then show ?case using 1 by (auto simp: not_less)
qed auto

lemma sorted_disjoint:
  assumes "\<forall>x\<in>set xs. fst x < snd x" "sorted xs"
  shows "sorted_wrt (\<lambda>a b. snd a \<le> fst b) xs \<longleftrightarrow> sorted_wrt disjoint_windows xs"
  using assms
proof (induction xs)
  case (Cons x xs)
  have "disjoint_windows x y \<longleftrightarrow> snd x \<le> fst y" if "y \<in> set xs" for y
  proof -
    have "fst x \<le> fst y" "fst y < snd y"
      using Cons.prems that by (auto simp: less_eq_prod_def)
    then show ?thesis unfolding disjoint_windows_def by (meson leD le_less_trans)
  qed
  then show ?case using Cons by auto
qed simp

lemma day_disjoint:
  assumes "\<forall>w\<in>set ws. window_start w < window_end w"
  shows "\<not> windows_overlap (sort (windows_of_day ws d)) \<longleftrightarrow> sorted_wrt disjoint_windows (windows_of_day ws d)"
proof -
  have le: "\<forall>x\<in>set (sort (windows_of_day ws d)). fst x < snd x"
    using assms by (auto simp: windows_of_day_def)
  have "sorted_wrt disjoint_windows (sort (windows_of_day ws d)) \<longleftrightarrow>
      sorted_wrt disjoint_windows (windows_of_day ws d)"
    by (subst (1 2) sorted_wrt_pairs) (auto simp: disjoint_windows_def)
  then show ?thesis using windows_overlap_sorted [OF le] sorted_disjoint [OF le] by simp
qed

lemma days_disjoint:
  "(\<forall>d\<in>weekday ` set ws. sorted_wrt disjoint_windows (windows_of_day ws d)) \<longleftrightarrow>
   sorted_wrt (\<lambda>v w. weekday v = weekday w \<longrightarrow> disjoint_windows (window_of v) (window_of w)) ws"
proof -
  have "(\<forall>d. sorted_wrt disjoint_windows (windows_of_day ws d)) \<longleftrightarrow>
      sorted_wrt (\<lambda>v w. weekday v = weekday w \<longrightarrow> disjoint_windows (window_of v) (window_of w)) ws"
    by (induction ws) (auto simp: windows_of_day_def)
  moreover have "sorted_wrt disjoint_windows (windows_of_day ws d)" if "d \<notin> weekday ` set ws" for d
  proof -
    have "windows_of_day ws d = []" using that by (auto simp: windows_of_day_def filter_empty_conv)
    then show ?thesis by simp
  qed
  ultimately show ?thesis by blast
qed

text \<open>
  A schedule whose windows each start before they end passes the overlap and exception test of
  the schema exactly if no two of its weekly windows on the same weekday overlap, whatever
  their order in the schedule, and no calendar date has two exceptions.
\<close>

theorem schedule_windows_disjoint:
  assumes "list_all WeeklyWindow_valid (weekly s)"
  shows "no_overlaps_or_duplicate_exceptions s \<longleftrightarrow>
    (\<forall>i j. i < j \<and> j < length (weekly s) \<and> weekday (weekly s ! i) = weekday (weekly s ! j) \<longrightarrow>
       window_end (weekly s ! i) \<le> window_start (weekly s ! j) \<or>
       window_end (weekly s ! j) \<le> window_start (weekly s ! i)) \<and>
    distinct (map exception_date (exceptions s))"
proof -
  have "\<forall>w\<in>set (weekly s). window_start w < window_end w"
    using assms by (auto simp: list_all_iff WeeklyWindow_valid_def)
  then have "no_overlaps_or_duplicate_exceptions s \<longleftrightarrow>
      sorted_wrt (\<lambda>v w. weekday v = weekday w \<longrightarrow> disjoint_windows (window_of v) (window_of w)) (weekly s) \<and>
      distinct (map exception_date (exceptions s))"
    by (simp only: no_overlaps_or_duplicate_exceptions_def list_all_iff set_dict_fromkeys set_map
        day_disjoint days_disjoint)
  then show ?thesis by (auto simp: sorted_wrt_iff_nth_less disjoint_windows_def)
qed

theorem schedule_windows_disjoint_witness:
  "no_overlaps_or_duplicate_exceptions
     \<lparr>schedule_id = ''office'', schedule_name = ''Office'', timezone = ''UTC'',
      weekly = [\<lparr>weekday = 1, window_start = ''13:00'', window_end = ''17:00''\<rparr>,
                \<lparr>weekday = 1, window_start = ''09:00'', window_end = ''12:00''\<rparr>],
      exceptions = []\<rparr>"
proof (subst schedule_windows_disjoint)
qed (auto simp: WeeklyWindow_valid_def is_digit_def less_Suc_eq nth_Cons split: nat.splits)

text \<open>
  The check that a V2 document carries no later feature raises exactly when some block of the
  flow tree, however deep, is a recording, an external call or a menu with an interruptible prompt.
\<close>

theorem release_two_boundary:
  "is_ok (release_two_has_no_recording f) \<longleftrightarrow>
     \<not> (\<exists>root b. flow_root f = Some root \<and> b \<in> set (subtree root) \<and>
          (is_RecordMessage b \<or> is_ExternalCall b \<or> allow_prompt_barge_in b))"
  by (cases "flow_root f") (auto simp: release_two_has_no_recording_def release_two_loop_ok
      simp del: release_two_loop.simps)

text \<open>
  The check that a V3 document carries no later feature raises exactly when some block of the
  flow tree is an external call or a menu with an interruptible prompt; recordings pass.
\<close>

theorem release_three_boundary:
  "is_ok (release_three_has_no_external_calls f) \<longleftrightarrow>
     \<not> (\<exists>root b. flow_root f = Some root \<and> b \<in> set (subtree root) \<and>
          (is_ExternalCall b \<or> allow_prompt_barge_in b))"
  by (cases "flow_root f") (auto simp: release_three_has_no_external_calls_def release_three_loop_ok
      simp del: release_three_loop.simps)

lemma lstrip_emergency:
  "n \<in> set EMERGENCY_SERVICE_NUMBERS \<Longrightarrow> lstrip_zero (replicate k CHR ''0'' @ n) = n"
  by (induction k) (auto simp: EMERGENCY_SERVICE_NUMBERS_def lstrip_zero_def)

lemma removeprefix_plus:
  "removeprefix ''+'' (''+'' @ s) = s" "hd s \<noteq> CHR ''+'' \<Longrightarrow> removeprefix ''+'' s = s"
  by (cases s; auto simp: removeprefix_def)+

text \<open>
  Every emergency number is recognised with or without a leading plus sign, behind any of the
  dialling prefixes the check knows, and behind any number of further zeros.
\<close>

theorem emergency_numbers_detected:
  assumes "n \<in> set EMERGENCY_SERVICE_NUMBERS"
    and "dial \<in> {[], ''00'', ''98'', ''0098'', ''1'', ''44''}" and "sign \<in> {[], ''+''}"
  shows "is_obvious_emergency_number (sign @ dial @ replicate k CHR ''0'' @ n)"
proof -
  let ?digits = "dial @ replicate k CHR ''0'' @ n"
  have "hd ?digits \<noteq> CHR ''+''"
    using assms(1,2) by (cases k) (auto simp: EMERGENCY_SERVICE_NUMBERS_def)
  then have digits: "removeprefix ''+'' (sign @ ?digits) = ?digits"
    using assms(3) removeprefix_plus by auto
  show ?thesis
  proof (cases "dial = []")
    case True
    then show ?thesis using digits assms(1) lstrip_emergency [OF assms(1), of k]
      by (simp add: is_obvious_emergency_number_def Let_def)
  next
    case False
    then have "dial \<in> set [''00'', ''98'', ''0098'', ''1'', ''44'']" "startswith ?digits dial"
      "drop (length dial) ?digits = replicate k CHR ''0'' @ n"
      using assms(2) by (auto simp: startswith_def)
    then show ?thesis using digits assms(1) lstrip_emergency [OF assms(1), of k]
      unfolding is_obvious_emergency_number_def Let_def by (simp only: list_ex_iff set_append set_concat set_map) force
  qed
qed

theorem emergency_numbers_detected_witness: "is_obvious_emergency_number ''+98000112''"
  using emergency_numbers_detected [of "''112''" "''98''" "''+''" 3]
  by (simp add: EMERGENCY_SERVICE_NUMBERS_def numeral_3_eq_3)

end
