(* ===== verification/Flow_Tree.thy ===== *)
theory Flow_Tree
  imports Flow_Schema
begin

text \<open>
  Traversal of the owned flow tree (\<^verbatim>\<open>src/server/app/flow_v2.py\<close>): the children of a
  block in compilation order, the depth-first walk with an explicit stack, the prompts a
  configuration uses and the labels of blocks. The walk is proved to be the pre-order of the
  tree, and to visit exactly the blocks of \<open>subtree\<close>.
\<close>

section \<open>Operations\<close>

definition DTMF_ORDER :: string where
  "DTMF_ORDER = ''0123456789*#''"

text \<open>
  \<^verbatim>\<open>DTMF_ORDER.index(digit)\<close>. The schema admits only the twelve keys, for which the
  position is below 12.
\<close>

definition dtmf_index :: "char \<Rightarrow> nat" where
  "dtmf_index d = index_of d DTMF_ORDER"

definition sorted_branches :: "DigitBranch list \<Rightarrow> DigitBranch list" where
  "sorted_branches bs = sort_key (\<lambda>item. dtmf_index (digit item)) bs"

fun owned_children :: "FlowBlock \<Rightarrow> (string \<times> FlowBlock option) list" where
  "owned_children (PlayPromptBlockV2 i p n) = [(''next'', n)]"
| "owned_children (CollectDigitBlockV2 i p g m a r branches t v l) =
     map (\<lambda>branch. (''digit '' @ [digit branch], branch_root branch)) (sorted_branches branches) @
     [(''no input'', t), (''invalid'', v), (''return limit'', l)]"
| "owned_children (ScheduleBranchBlockV2 i s a b c) =
     [(''open'', a), (''closed'', b), (''holiday'', c)]"
| "owned_children (RecordMessageBlockV3 i n u) = [(''recorded'', n), (''unavailable'', u)]"
| "owned_children (ExternalCallBlockV4 i ph tm n c f) =
     [(''completed'', n), (''not connected'', c), (''system failure'', f)]"
| "owned_children (ReturnToMenuBlockV2 i) = []"
| "owned_children (EndCallBlockV2 i) = []"

definition children :: "FlowBlock \<Rightarrow> FlowBlock list" where
  "children b = somes (map snd (owned_children b))"

lemma mset_somes: "mset xs = mset ys \<Longrightarrow> mset (somes xs) = mset (somes ys)"
proof -
  have "mset (somes xs) = image_mset the (filter_mset (\<lambda>x. x \<noteq> None) (mset xs))" for xs :: "'a option list"
    by (induction xs rule: somes.induct) auto
  then show "mset xs = mset ys \<Longrightarrow> mset (somes xs) = mset (somes ys)" by simp
qed

lemma mset_sorted_branches [simp]: "mset (sorted_branches bs) = mset bs"
  by (simp add: sorted_branches_def)

lemma set_sorted_branches [simp]: "set (sorted_branches bs) = set bs"
  by (simp add: sorted_branches_def)

lemma mset_children: "mset (children b) = mset (owned b)"
proof -
  have "mset (map snd (owned_children b)) = mset (child_fields b)"
    by (cases b) (auto simp: comp_def)
  then show ?thesis unfolding children_def owned_def by (rule mset_somes)
qed

lemma set_children [simp]: "set (children b) = set (owned b)"
  using mset_children [of b] by (metis set_mset_mset)

lemma weight_children: "sum_list (map weight (children b)) < weight b"
  using weight_owned [of b] mset_children [of b] by (metis mset_map sum_mset_sum_list)

text \<open>
  The walk keeps pending blocks with their depth on a stack; the head of the list is the end of
  the Python list. Children are pushed in reverse, so the first child is on top.
\<close>

function walk_loop :: "(FlowBlock \<times> nat) list \<Rightarrow> (FlowBlock \<times> nat) list" where
  "walk_loop [] = []"
| "walk_loop ((block, depth) # pending) =
     (block, depth) # walk_loop (rev (rev (map (\<lambda>child. (child, depth + 1)) (children block))) @ pending)"
  by pat_completeness auto
termination
  by (relation "measure (\<lambda>p. sum_list (map (weight \<circ> fst) p))")
    (auto simp: comp_def weight_children)

definition walk_blocks :: "FlowBlock option \<Rightarrow> (FlowBlock \<times> nat) list" where
  "walk_blocks root = (case root of None \<Rightarrow> [] | Some b \<Rightarrow> walk_loop [(b, 1)])"

fun prompt_of :: "FlowBlock \<Rightarrow> string option" where
  "prompt_of (PlayPromptBlockV2 i p n) = p"
| "prompt_of (CollectDigitBlockV2 i p g m a r branches t v l) = p"
| "prompt_of _ = None"

definition prompt_ids :: "FlowDefinitionV2 \<Rightarrow> string list" where
  "prompt_ids f =
     fold (\<lambda>(block, _) result. if truthy (prompt_of block) then set_add (the (prompt_of block)) result
                               else result)
       (walk_blocks (flow_root f)) []"

fun block_label :: "FlowBlock \<Rightarrow> string" where
  "block_label (PlayPromptBlockV2 i p n) = ''Play prompt''"
| "block_label (CollectDigitBlockV2 i p g m a r branches t v l) = ''Collect one digit''"
| "block_label (ScheduleBranchBlockV2 i s a b c) = ''Check schedule''"
| "block_label (ReturnToMenuBlockV2 i) = ''Return to menu''"
| "block_label (RecordMessageBlockV3 i n u) = ''Record message''"
| "block_label (ExternalCallBlockV4 i ph tm n c f) = ''External call''"
| "block_label (EndCallBlockV2 i) = ''End call''"

text \<open>The discriminator field \<^verbatim>\<open>type\<close> of the block classes.\<close>

fun block_type :: "FlowBlock \<Rightarrow> string" where
  "block_type (PlayPromptBlockV2 i p n) = ''play_prompt''"
| "block_type (CollectDigitBlockV2 i p g m a r branches t v l) = ''collect_digit''"
| "block_type (ScheduleBranchBlockV2 i s a b c) = ''schedule_branch''"
| "block_type (ReturnToMenuBlockV2 i) = ''return_to_menu''"
| "block_type (EndCallBlockV2 i) = ''end_call''"
| "block_type (RecordMessageBlockV3 i n u) = ''record_message''"
| "block_type (ExternalCallBlockV4 i ph tm n c f) = ''external_call''"

section \<open>The pre-order of a tree\<close>

function preorder :: "FlowBlock \<Rightarrow> FlowBlock list" where
  "preorder b = b # concat (map preorder (children b))"
  by pat_completeness auto
termination
  by (relation "measure weight") (auto dest: weight_owned_less)

function preorder_depth :: "nat \<Rightarrow> FlowBlock \<Rightarrow> (FlowBlock \<times> nat) list" where
  "preorder_depth d b = (b, d) # concat (map (preorder_depth (d + 1)) (children b))"
  by pat_completeness auto
termination
  by (relation "measure (weight \<circ> snd)") (auto dest: weight_owned_less)

function height :: "FlowBlock \<Rightarrow> nat" where
  "height b = Suc (foldr max (map height (owned b)) 0)"
  by pat_completeness auto
termination
  by (relation "measure weight") (auto dest: weight_owned_less)

declare preorder.simps [simp del] preorder_depth.simps [simp del] height.simps [simp del]

lemma mset_preorder: "mset (preorder b) = mset (subtree b)"
proof (induction b rule: owned_induct)
  case (step b)
  have "mset (concat (map preorder (children b))) = \<Sum>\<^sub># (image_mset (mset \<circ> preorder) (mset (children b)))"
    by (simp add: mset_concat image_mset.compositionality comp_def sum_mset_sum_list [symmetric])
  also have "\<dots> = \<Sum>\<^sub># (image_mset (mset \<circ> subtree) (mset (owned b)))"
    unfolding mset_children by (rule arg_cong [where f = sum_mset], rule image_mset_cong) (simp add: step)
  also have "\<dots> = mset (concat (map subtree (owned b)))"
    by (simp add: mset_concat comp_def sum_mset_sum_list [symmetric])
  finally show ?case by (simp add: preorder.simps [of b] subtree.simps [of b])
qed

lemma set_preorder [simp]: "set (preorder b) = set (subtree b)"
  using mset_preorder [of b] by (metis set_mset_mset)

lemma distinct_map_preorder: "distinct (map f (preorder b)) = distinct (map f (subtree b))"
  using mset_preorder [of b] by (metis mset_eq_imp_distinct_iff mset_map)

lemma length_preorder: "length (preorder b) = length (subtree b)"
  using mset_preorder [of b] by (metis size_mset)

lemma map_fst_preorder_depth: "map fst (preorder_depth d b) = preorder b"
proof (induction b arbitrary: d rule: owned_induct)
  case (step b)
  have "map fst (concat (map (preorder_depth (d + 1)) (children b))) = concat (map preorder (children b))"
    by (auto simp: map_concat step intro!: arg_cong [where f = concat] map_cong)
  then show ?case by (simp add: preorder.simps [of b] preorder_depth.simps [of d b])
qed

lemma walk_loop_preorder: "walk_loop p = concat (map (\<lambda>(b, d). preorder_depth d b) p)"
proof (induction p rule: walk_loop.induct)
  case (2 block depth pending)
  then show ?case by (simp add: preorder_depth.simps [of depth block] comp_def)
qed simp

lemma walk_blocks_preorder: "walk_blocks (Some r) = preorder_depth 1 r"
  unfolding walk_blocks_def option.case by (subst walk_loop_preorder) simp

lemma set_prompt_ids:
  "set (prompt_ids f) =
     {p. \<exists>r b. flow_root f = Some r \<and> b \<in> set (subtree r) \<and> prompt_of b = Some p \<and> p \<noteq> []}"
proof -
  have fold: "set (fold (\<lambda>(block, _) result. if truthy (prompt_of block)
          then set_add (the (prompt_of block)) result else result) xs acc) =
      set acc \<union> {p. \<exists>b\<in>set (map fst xs). prompt_of b = Some p \<and> p \<noteq> []}" for xs :: "(FlowBlock \<times> nat) list" and acc
    by (induction xs arbitrary: acc) (auto simp: truthy_iff split: if_splits)
  show ?thesis
  proof (cases "flow_root f")
    case None
    then show ?thesis by (simp add: prompt_ids_def walk_blocks_def)
  next
    case (Some r)
    have "set (map fst (preorder_depth 1 r)) = set (subtree r)"
      by (simp only: map_fst_preorder_depth set_preorder)
    then show ?thesis using Some
      by (simp only: prompt_ids_def walk_blocks_preorder fold option.inject) auto
  qed
qed

text \<open>
  The walk with an explicit stack yields the pre-order of the tree with the depth of every
  block, digit branches in the order of the keypad, and visits every block of the tree exactly as
  often as it occurs there.
\<close>

theorem walk_blocks_spec:
  "walk_blocks (Some r) = preorder_depth 1 r \<and> mset (map fst (walk_blocks (Some r))) = mset (subtree r)"
  by (metis map_fst_preorder_depth mset_preorder walk_blocks_preorder)

text \<open>
  The prompt set of a flow holds exactly the prompts that some block of its tree plays, each
  once; a flow without a root uses no prompt.
\<close>

theorem prompt_ids_spec:
  "set (prompt_ids f) =
     {p. \<exists>r b. flow_root f = Some r \<and> b \<in> set (subtree r) \<and> prompt_of b = Some p \<and> p \<noteq> []} \<and>
   distinct (prompt_ids f)"
proof -
  have "distinct (fold (\<lambda>(block, _) result. if truthy (prompt_of block)
      then set_add (the (prompt_of block)) result else result) xs acc)" if "distinct acc"
    for xs :: "(FlowBlock \<times> nat) list" and acc
    using that by (induction xs arbitrary: acc) auto
  then show ?thesis using set_prompt_ids by (auto simp: prompt_ids_def)
qed

end
