(* ===== verification/Flow_Validation.thy ===== *)
theory Flow_Validation
  imports Flow_Tree
begin

text \<open>
  The publication validators of the owned flow tree (\<^verbatim>\<open>src/server/app/validation.py\<close>,
  \<^verbatim>\<open>validate_configuration_v2\<close>, \<^verbatim>\<open>_v3\<close> and \<^verbatim>\<open>_v4\<close>). Each validator walks the tree
  once and collects human-readable errors; the state of the walk is a record. What an empty error
  list means is proved in theory \<open>Validation_Laws\<close>.

  The time zone database is a parameter \<open>zone_known\<close>: it tells whether
  \<^verbatim>\<open>ZoneInfo(name)\<close> succeeds or raises \<^verbatim>\<open>ZoneInfoNotFoundError\<close>. A name that is not a
  well-formed relative path raises \<^verbatim>\<open>ValueError\<close>, which the validators do not catch; such names are
  outside the model.
\<close>

section \<open>State of a walk\<close>

record visit_state =
  errors :: "string list"
  seen_blocks :: "string list"
  seen_branches :: "string list"
  used_prompts :: "string list"
  maximum_depth :: nat

definition empty_visit :: "string list \<Rightarrow> visit_state" where
  "empty_visit es =
     \<lparr>errors = es, seen_blocks = [], seen_branches = [], used_prompts = [], maximum_depth = 0\<rparr>"

definition err :: "string \<Rightarrow> visit_state \<Rightarrow> visit_state" where
  "err msg s = s\<lparr>errors := errors s @ [msg]\<rparr>"

definition err_if :: "bool \<Rightarrow> string \<Rightarrow> visit_state \<Rightarrow> visit_state" where
  "err_if b msg s = (if b then err msg s else s)"

definition use_prompt :: "string \<Rightarrow> visit_state \<Rightarrow> visit_state" where
  "use_prompt p s = s\<lparr>used_prompts := set_add p (used_prompts s)\<rparr>"

definition mark_branch :: "string \<Rightarrow> visit_state \<Rightarrow> visit_state" where
  "mark_branch i s =
     (let s = err_if (i \<in> set (seen_branches s)) ''A digit branch identifier is duplicated.'' s
      in s\<lparr>seen_branches := set_add i (seen_branches s)\<rparr>)"

section \<open>Checks the validators share line by line\<close>

text \<open>The prompt of a Play prompt step.\<close>

definition check_play_prompt :: "string list \<Rightarrow> string option \<Rightarrow> visit_state \<Rightarrow> visit_state" where
  "check_play_prompt P p s =
     (if \<not> truthy p then err ''A Play prompt step has no prompt selected.'' s
      else err_if (the p \<notin> set P) ''A Play prompt step references a missing prompt.''
             (use_prompt (the p) s))"

text \<open>The prompt and the digits of a Collect digit step.\<close>

definition check_collect ::
  "string list \<Rightarrow> string option \<Rightarrow> bool \<Rightarrow> DigitBranch list \<Rightarrow> visit_state \<Rightarrow> visit_state" where
  "check_collect P p barge branches s =
     (let s = err_if (barge \<and> \<not> truthy p) ''Prompt interruption requires a menu prompt.'' s;
          s = (if truthy p
               then err_if (the p \<notin> set P)
                      ''A Collect digit step references a missing menu prompt.''
                      (use_prompt (the p) s)
               else s);
          digits = map digit branches;
          s = err_if (digits = []) ''A Collect digit step requires at least one digit branch.'' s
      in err_if (length digits \<noteq> length (dict_fromkeys digits))
           ''Digit branches must use unique keys.'' s)"

definition check_schedule :: "string list \<Rightarrow> string option \<Rightarrow> visit_state \<Rightarrow> visit_state" where
  "check_schedule S i s =
     err_if (\<not> truthy i \<or> the i \<notin> set S)
       ''A Check schedule step references a missing schedule.'' s"

definition check_return :: "string option \<Rightarrow> string option \<Rightarrow> visit_state \<Rightarrow> visit_state" where
  "check_return owner_menu forbidden s =
     (if owner_menu = None
      then err ''Return to menu can only be used inside a digit branch.'' s
      else err_if (owner_menu = forbidden)
             ''The menu return-limit path cannot return to the same menu.'' s)"

section \<open>The three walks\<close>

text \<open>
  A call of \<^verbatim>\<open>visit\<close> is \<open>visit_vN\<close>; \<open>visit_child_vN\<close> is the recurring pattern
  ``if the child is missing, report it, otherwise visit it'', and \<open>visit_branches_vN\<close> the loop
  over the digit branches. The statements of a branch of the code are listed in their order.
\<close>

function (sequential) visit_v2 ::
  "string list \<Rightarrow> string list \<Rightarrow> FlowBlock \<Rightarrow> nat \<Rightarrow> string option \<Rightarrow> string option \<Rightarrow>
   visit_state \<Rightarrow> visit_state"
and visit_child_v2 ::
  "string list \<Rightarrow> string list \<Rightarrow> string \<Rightarrow> FlowBlock option \<Rightarrow> nat \<Rightarrow> string option \<Rightarrow>
   string option \<Rightarrow> visit_state \<Rightarrow> visit_state"
and visit_branches_v2 ::
  "string list \<Rightarrow> string list \<Rightarrow> DigitBranch list \<Rightarrow> nat \<Rightarrow> string \<Rightarrow> visit_state \<Rightarrow> visit_state"
where
  "visit_v2 P S block depth owner_menu forbidden = (\<lambda>s.
     let s = s\<lparr>maximum_depth := max (maximum_depth s) depth\<rparr> in
     if block_id block \<in> set (seen_blocks s)
     then err ''A flow block is duplicated or shared between branches.'' s
     else run_steps
       (case block of
          PlayPromptBlockV2 i p n \<Rightarrow>
            [check_play_prompt P p,
             visit_child_v2 P S ''A Play prompt step has no next step.'' n (depth + 1) owner_menu forbidden]
        | CollectDigitBlockV2 i p barge m a r branches t v l \<Rightarrow>
            [check_collect P p barge branches,
             visit_branches_v2 P S branches (depth + 1) i,
             visit_child_v2 P S ''No input has no first step.'' t (depth + 1) (Some i) None,
             visit_child_v2 P S ''Invalid input has no first step.'' v (depth + 1) (Some i) None,
             visit_child_v2 P S ''Menu return limit has no first step.'' l (depth + 1) (Some i) (Some i)]
        | ScheduleBranchBlockV2 i sid a b c \<Rightarrow>
            [check_schedule S sid,
             visit_child_v2 P S ''Schedule path Open has no first step.'' a (depth + 1) owner_menu forbidden,
             visit_child_v2 P S ''Schedule path Closed has no first step.'' b (depth + 1) owner_menu forbidden,
             visit_child_v2 P S ''Schedule path Holiday has no first step.'' c (depth + 1) owner_menu forbidden]
        | ReturnToMenuBlockV2 i \<Rightarrow> [check_return owner_menu forbidden]
        | EndCallBlockV2 i \<Rightarrow> []
        | _ \<Rightarrow> [err ''The flow contains an unsupported block type.''])
       (s\<lparr>seen_blocks := set_add (block_id block) (seen_blocks s)\<rparr>))"
| "visit_child_v2 P S msg None depth owner_menu forbidden = err msg"
| "visit_child_v2 P S msg (Some c) depth owner_menu forbidden =
     visit_v2 P S c depth owner_menu forbidden"
| "visit_branches_v2 P S [] depth menu = (\<lambda>s. s)"
| "visit_branches_v2 P S (DigitBranchV2 bid d r # rest) depth menu = (\<lambda>s. run_steps
     [mark_branch bid,
      visit_child_v2 P S (''Digit '' @ [d] @ '' has no first step.'') r depth (Some menu) None,
      visit_branches_v2 P S rest depth menu] s)"
  by pat_completeness auto
termination
  by (relation "measure (\<lambda>x. case x of Inl (_, _, b, _) \<Rightarrow> size b
      | Inr (Inl (_, _, _, c, _)) \<Rightarrow> size_option size c | Inr (Inr (_, _, bs, _)) \<Rightarrow> size_list size bs)")
    auto

function (sequential) visit_v3 ::
  "string list \<Rightarrow> string list \<Rightarrow> FlowBlock \<Rightarrow> nat \<Rightarrow> string option \<Rightarrow> string option \<Rightarrow> bool \<Rightarrow>
   visit_state \<Rightarrow> visit_state"
and visit_child_v3 ::
  "string list \<Rightarrow> string list \<Rightarrow> string \<Rightarrow> FlowBlock option \<Rightarrow> nat \<Rightarrow> string option \<Rightarrow>
   string option \<Rightarrow> bool \<Rightarrow> visit_state \<Rightarrow> visit_state"
and visit_branches_v3 ::
  "string list \<Rightarrow> string list \<Rightarrow> DigitBranch list \<Rightarrow> nat \<Rightarrow> string \<Rightarrow> visit_state \<Rightarrow> visit_state"
where
  "visit_v3 P S block depth owner_menu forbidden parent_is_prompt = (\<lambda>s.
     let s = s\<lparr>maximum_depth := max (maximum_depth s) depth\<rparr> in
     if block_id block \<in> set (seen_blocks s)
     then err ''A flow block is duplicated or shared between branches.'' s
     else run_steps
       (case block of
          PlayPromptBlockV2 i p n \<Rightarrow>
            [check_play_prompt P p,
             visit_child_v3 P S ''A Play prompt step has no next step.'' n (depth + 1) owner_menu forbidden True]
        | RecordMessageBlockV3 i n u \<Rightarrow>
            [err_if (\<not> parent_is_prompt)
               ''Record message must immediately follow a Play prompt greeting.'',
             visit_child_v3 P S ''Record message recorded path has no first step.'' n (depth + 1) owner_menu forbidden False,
             visit_child_v3 P S ''Record message unavailable path has no first step.'' u (depth + 1) owner_menu forbidden False]
        | CollectDigitBlockV2 i p barge m a r branches t v l \<Rightarrow>
            [check_collect P p barge branches,
             visit_branches_v3 P S branches (depth + 1) i,
             visit_child_v3 P S ''No input has no first step.'' t (depth + 1) (Some i) None False,
             visit_child_v3 P S ''Invalid input has no first step.'' v (depth + 1) (Some i) None False,
             visit_child_v3 P S ''Menu return limit has no first step.'' l (depth + 1) (Some i) (Some i) False]
        | ScheduleBranchBlockV2 i sid a b c \<Rightarrow>
            [check_schedule S sid,
             visit_child_v3 P S ''Schedule path Open has no first step.'' a (depth + 1) owner_menu forbidden False,
             visit_child_v3 P S ''Schedule path Closed has no first step.'' b (depth + 1) owner_menu forbidden False,
             visit_child_v3 P S ''Schedule path Holiday has no first step.'' c (depth + 1) owner_menu forbidden False]
        | ReturnToMenuBlockV2 i \<Rightarrow> [check_return owner_menu forbidden]
        | EndCallBlockV2 i \<Rightarrow> []
        | _ \<Rightarrow> [err ''The flow contains an unsupported block type.''])
       (s\<lparr>seen_blocks := set_add (block_id block) (seen_blocks s)\<rparr>))"
| "visit_child_v3 P S msg None depth owner_menu forbidden parent_is_prompt = err msg"
| "visit_child_v3 P S msg (Some c) depth owner_menu forbidden parent_is_prompt =
     visit_v3 P S c depth owner_menu forbidden parent_is_prompt"
| "visit_branches_v3 P S [] depth menu = (\<lambda>s. s)"
| "visit_branches_v3 P S (DigitBranchV2 bid d r # rest) depth menu = (\<lambda>s. run_steps
     [mark_branch bid,
      visit_child_v3 P S (''Digit '' @ [d] @ '' has no first step.'') r depth (Some menu) None False,
      visit_branches_v3 P S rest depth menu] s)"
  by pat_completeness auto
termination
  by (relation "measure (\<lambda>x. case x of Inl (_, _, b, _) \<Rightarrow> size b
      | Inr (Inl (_, _, _, c, _)) \<Rightarrow> size_option size c | Inr (Inr (_, _, bs, _)) \<Rightarrow> size_list size bs)")
    auto

function (sequential) visit_v4 ::
  "string list \<Rightarrow> string list \<Rightarrow> FlowBlock \<Rightarrow> nat \<Rightarrow> string option \<Rightarrow> string option \<Rightarrow> bool \<Rightarrow>
   visit_state \<Rightarrow> visit_state"
and visit_child_v4 ::
  "string list \<Rightarrow> string list \<Rightarrow> string \<Rightarrow> FlowBlock option \<Rightarrow> nat \<Rightarrow> string option \<Rightarrow>
   string option \<Rightarrow> bool \<Rightarrow> visit_state \<Rightarrow> visit_state"
and visit_branches_v4 ::
  "string list \<Rightarrow> string list \<Rightarrow> DigitBranch list \<Rightarrow> nat \<Rightarrow> string \<Rightarrow> bool \<Rightarrow> visit_state \<Rightarrow> visit_state"
where
  "visit_v4 P S block depth owner_menu forbidden prompt_available = (\<lambda>s.
     let s = s\<lparr>maximum_depth := max (maximum_depth s) depth\<rparr> in
     if block_id block \<in> set (seen_blocks s)
     then err ''A flow block is duplicated or shared between branches.'' s
     else run_steps
       (case block of
          PlayPromptBlockV2 i p n \<Rightarrow>
            [check_play_prompt P p,
             visit_child_v4 P S ''A Play prompt step has no next step.'' n (depth + 1) owner_menu forbidden (prompt_available \<or> truthy p)]
        | RecordMessageBlockV3 i n u \<Rightarrow>
            [err_if (\<not> prompt_available)
               ''Record message requires an earlier Play prompt or menu prompt notice on this path.'',
             visit_child_v4 P S ''Record message recorded path has no first step.'' n (depth + 1) owner_menu forbidden prompt_available,
             visit_child_v4 P S ''Record message unavailable path has no first step.'' u (depth + 1) owner_menu forbidden prompt_available]
        | ExternalCallBlockV4 i ph tm n c f \<Rightarrow>
            [err_if (\<not> prompt_available)
               ''External call requires an earlier Play prompt or menu prompt notice on this path.'',
             visit_child_v4 P S ''External call completed path has no first step.'' n (depth + 1) owner_menu forbidden prompt_available,
             visit_child_v4 P S ''External call not connected path has no first step.'' c (depth + 1) owner_menu forbidden prompt_available,
             visit_child_v4 P S ''External call system failure path has no first step.'' f (depth + 1) owner_menu forbidden prompt_available]
        | CollectDigitBlockV2 i p barge m a r branches t v l \<Rightarrow>
            [check_collect P p barge branches,
             visit_branches_v4 P S branches (depth + 1) i (prompt_available \<or> truthy p),
             visit_child_v4 P S ''No input has no first step.'' t (depth + 1) (Some i) None (prompt_available \<or> truthy p),
             visit_child_v4 P S ''Invalid input has no first step.'' v (depth + 1) (Some i) None (prompt_available \<or> truthy p),
             visit_child_v4 P S ''Menu return limit has no first step.'' l (depth + 1) (Some i) (Some i) (prompt_available \<or> truthy p)]
        | ScheduleBranchBlockV2 i sid a b c \<Rightarrow>
            [check_schedule S sid,
             visit_child_v4 P S ''Schedule path Open has no first step.'' a (depth + 1) owner_menu forbidden prompt_available,
             visit_child_v4 P S ''Schedule path Closed has no first step.'' b (depth + 1) owner_menu forbidden prompt_available,
             visit_child_v4 P S ''Schedule path Holiday has no first step.'' c (depth + 1) owner_menu forbidden prompt_available]
        | ReturnToMenuBlockV2 i \<Rightarrow> [check_return owner_menu forbidden]
        | EndCallBlockV2 i \<Rightarrow> [])
       (s\<lparr>seen_blocks := set_add (block_id block) (seen_blocks s)\<rparr>))"
| "visit_child_v4 P S msg None depth owner_menu forbidden prompt_available = err msg"
| "visit_child_v4 P S msg (Some c) depth owner_menu forbidden prompt_available =
     visit_v4 P S c depth owner_menu forbidden prompt_available"
| "visit_branches_v4 P S [] depth menu prompt_available = (\<lambda>s. s)"
| "visit_branches_v4 P S (DigitBranchV2 bid d r # rest) depth menu prompt_available = (\<lambda>s. run_steps
     [mark_branch bid,
      visit_child_v4 P S (''Digit '' @ [d] @ '' has no first step.'') r depth (Some menu) None prompt_available,
      visit_branches_v4 P S rest depth menu prompt_available] s)"
  by pat_completeness auto
termination
  by (relation "measure (\<lambda>x. case x of Inl (_, _, b, _) \<Rightarrow> size b
      | Inr (Inl (_, _, _, c, _)) \<Rightarrow> size_option size c | Inr (Inr (_, _, bs, _)) \<Rightarrow> size_list size bs)")
    auto

declare visit_v2.simps [simp del] visit_v3.simps [simp del] visit_v4.simps [simp del]

section \<open>The validators\<close>

definition schedule_errors :: "(string \<Rightarrow> bool) \<Rightarrow> Schedule list \<Rightarrow> string list" where
  "schedule_errors zone_known ss =
     (if length (dict_fromkeys (map schedule_id ss)) \<noteq> length ss
      then [''Schedule IDs must be unique.''] else []) @
     map (\<lambda>schedule. ''Schedule '' @ schedule_name schedule @ '' has an unknown timezone.'')
       (filter (\<lambda>schedule. \<not> zone_known (timezone schedule)) ss)"

definition total_asset_bytes :: "(string \<Rightarrow> nat option) \<Rightarrow> string list \<Rightarrow> nat" where
  "total_asset_bytes prompt_sizes used =
     sum_list (map (\<lambda>p. case prompt_sizes p of None \<Rightarrow> 0 | Some n \<Rightarrow> n) used)"

definition finish_validation ::
  "(string \<Rightarrow> nat option) \<Rightarrow> nat \<Rightarrow> visit_state \<Rightarrow> string list" where
  "finish_validation prompt_sizes revision_asset_limit_bytes s =
     dict_fromkeys
       (errors s @
        (if length (seen_blocks s) > 64
         then [''Flow has '' @ str_nat (length (seen_blocks s)) @ '' steps; the limit is 64.''] else []) @
        (if maximum_depth s > 8
         then [''Flow depth '' @ str_nat (maximum_depth s) @ '' exceeds the limit of 8.''] else []) @
        (if total_asset_bytes prompt_sizes (used_prompts s) > revision_asset_limit_bytes
         then [''Revision prompt assets exceed the 128 MiB limit.''] else []))"

definition validate_configuration_v2 ::
  "(string \<Rightarrow> bool) \<Rightarrow> FlowDocumentV2 \<Rightarrow> string list \<Rightarrow> (string \<Rightarrow> nat option) \<Rightarrow> nat \<Rightarrow> string list" where
  "validate_configuration_v2 zone_known configuration P prompt_sizes revision_asset_limit_bytes =
     (let es = schedule_errors zone_known (schedules configuration);
          S = map schedule_id (schedules configuration) in
      case flow_root (flow configuration) of
        None \<Rightarrow> es @ [''Add a first step before publishing.'']
      | Some root \<Rightarrow>
          finish_validation prompt_sizes revision_asset_limit_bytes
            (visit_v2 P S root 1 None None (empty_visit es)))"

definition validate_configuration_v3 ::
  "(string \<Rightarrow> bool) \<Rightarrow> FlowDocumentV3 \<Rightarrow> string list \<Rightarrow> (string \<Rightarrow> nat option) \<Rightarrow> nat \<Rightarrow> string list" where
  "validate_configuration_v3 zone_known configuration P prompt_sizes revision_asset_limit_bytes =
     (let es = schedule_errors zone_known (schedules configuration);
          S = map schedule_id (schedules configuration) in
      case flow_root (flow configuration) of
        None \<Rightarrow> es @ [''Add a first step before publishing.'']
      | Some root \<Rightarrow>
          finish_validation prompt_sizes revision_asset_limit_bytes
            (visit_v3 P S root 1 None None False (empty_visit es)))"

definition validate_configuration_v4 ::
  "(string \<Rightarrow> bool) \<Rightarrow> FlowDocumentV4 \<Rightarrow> string list \<Rightarrow> (string \<Rightarrow> nat option) \<Rightarrow> nat \<Rightarrow> string list" where
  "validate_configuration_v4 zone_known configuration P prompt_sizes revision_asset_limit_bytes =
     (let es = schedule_errors zone_known (schedules configuration);
          S = map schedule_id (schedules configuration) in
      case flow_root (flow configuration) of
        None \<Rightarrow> es @ [''Add a first step before publishing.'']
      | Some root \<Rightarrow>
          finish_validation prompt_sizes revision_asset_limit_bytes
            (visit_v4 P S root 1 None None False (empty_visit es)))"

end
