(* ===== verification/Validation_Laws.thy ===== *)
theory Validation_Laws
  imports Flow_Validation
begin

text \<open>
  What an empty error list of the publication validators means. The three walks of theory
  \<open>Flow_Validation\<close> are shown to be instances of one interface, the locale
  \<open>tree_visitor\<close>; inside it the walk is proved to report no error exactly when every block
  passes its local checks in every context in which it is reached, no child is missing and block
  and branch identifiers are unique. The validators then accept exactly the well-formed
  configurations.
\<close>

section \<open>Contexts of a block\<close>

text \<open>
  What a walk knows when it reaches a block: the menu that owns the block, the menu a
  return-limit path must not return to, and whether the recording notice of the release has been
  given (V3: the parent is a Play prompt step; V4: some prompt was played on the path).
\<close>

record visit_context =
  owner :: "string option"
  forbidden_owner :: "string option"
  greeted :: bool

text \<open>A way out of a block: the branch identifier it registers, what to report when the child is
  missing, the child and the context of the child.\<close>

record arm =
  arm_branch :: "string option"
  arm_message :: string
  arm_child :: "FlowBlock option"
  arm_context :: visit_context

definition inherit_arm :: "visit_context \<Rightarrow> bool \<Rightarrow> string \<Rightarrow> FlowBlock option \<Rightarrow> arm" where
  "inherit_arm c g msg child =
     \<lparr>arm_branch = None, arm_message = msg, arm_child = child, arm_context = c\<lparr>greeted := g\<rparr>\<rparr>"

definition menu_arm ::
  "string \<Rightarrow> bool \<Rightarrow> string option \<Rightarrow> string \<Rightarrow> FlowBlock option \<Rightarrow> string option \<Rightarrow> arm" where
  "menu_arm menu g branch msg child forbidden =
     \<lparr>arm_branch = branch, arm_message = msg, arm_child = child,
      arm_context = \<lparr>owner = Some menu, forbidden_owner = forbidden, greeted = g\<rparr>\<rparr>"

text \<open>
  The ways out of a block, in visiting order. \<open>notice\<close> is the rule by which the release carries
  the recording notice to the children of a block.
\<close>

fun arms :: "(FlowBlock \<Rightarrow> bool \<Rightarrow> bool) \<Rightarrow> visit_context \<Rightarrow> FlowBlock \<Rightarrow> arm list" where
  "arms notice c (PlayPromptBlockV2 i p n) =
     [inherit_arm c (notice (PlayPromptBlockV2 i p n) (greeted c)) ''A Play prompt step has no next step.'' n]"
| "arms notice c (CollectDigitBlockV2 i p g m a r branches t v l) =
     (let g' = notice (CollectDigitBlockV2 i p g m a r branches t v l) (greeted c) in
      map (\<lambda>b. menu_arm i g' (Some (branch_id b)) (''Digit '' @ [digit b] @ '' has no first step.'')
                 (branch_root b) None) branches @
      [menu_arm i g' None ''No input has no first step.'' t None,
       menu_arm i g' None ''Invalid input has no first step.'' v None,
       menu_arm i g' None ''Menu return limit has no first step.'' l (Some i)])"
| "arms notice c (ScheduleBranchBlockV2 i s x y z) =
     (let g' = notice (ScheduleBranchBlockV2 i s x y z) (greeted c) in
      [inherit_arm c g' ''Schedule path Open has no first step.'' x,
       inherit_arm c g' ''Schedule path Closed has no first step.'' y,
       inherit_arm c g' ''Schedule path Holiday has no first step.'' z])"
| "arms notice c (ReturnToMenuBlockV2 i) = []"
| "arms notice c (EndCallBlockV2 i) = []"
| "arms notice c (RecordMessageBlockV3 i n u) =
     (let g' = notice (RecordMessageBlockV3 i n u) (greeted c) in
      [inherit_arm c g' ''Record message recorded path has no first step.'' n,
       inherit_arm c g' ''Record message unavailable path has no first step.'' u])"
| "arms notice c (ExternalCallBlockV4 i ph tm n x f) =
     (let g' = notice (ExternalCallBlockV4 i ph tm n x f) (greeted c) in
      [inherit_arm c g' ''External call completed path has no first step.'' n,
       inherit_arm c g' ''External call not connected path has no first step.'' x,
       inherit_arm c g' ''External call system failure path has no first step.'' f])"

fun arm_shape :: "FlowBlock \<Rightarrow> (string option \<times> FlowBlock option) list" where
  "arm_shape (CollectDigitBlockV2 i p g m a r branches t v l) =
     map (\<lambda>b. (Some (branch_id b), branch_root b)) branches @ [(None, t), (None, v), (None, l)]"
| "arm_shape b = map (Pair None) (child_fields b)"

lemma arms_shape: "map (\<lambda>a. (arm_branch a, arm_child a)) (arms notice c b) = arm_shape b"
  by (cases b) (auto simp: Let_def inherit_arm_def menu_arm_def)

lemma map_snd_arm_shape: "map snd (arm_shape b) = child_fields b"
  by (cases b) (auto simp: comp_def)

lemma arms_children: "map arm_child (arms notice c b) = child_fields b"
  using arms_shape [of notice c b] map_snd_arm_shape [of b]
  by (metis (no_types, lifting) list.map_comp map_eq_conv comp_apply snd_conv)

lemma arm_child_owned:
  "a \<in> set (arms notice c b) \<Longrightarrow> arm_child a = Some k \<Longrightarrow> k \<in> set (owned b)"
  using arms_children [of notice c b]
  by (metis (no_types, lifting) imageI list.set_map mem_Collect_eq owned_def set_somes)

lemma owned_arm:
  assumes "k \<in> set (owned b)"
  obtains a where "a \<in> set (arms notice c b)" "arm_child a = Some k"
proof -
  have "Some k \<in> set (map arm_child (arms notice c b))"
    using assms by (simp only: arms_children) (simp add: owned_def)
  then show thesis using that by auto
qed

text \<open>
  The contexts in which blocks of a tree are reached: \<open>context_at notice c b c' b'\<close> says that a
  walk that enters \<open>b\<close> in context \<open>c\<close> reaches \<open>b'\<close> in context \<open>c'\<close>.
\<close>

inductive context_at ::
  "(FlowBlock \<Rightarrow> bool \<Rightarrow> bool) \<Rightarrow> visit_context \<Rightarrow> FlowBlock \<Rightarrow> visit_context \<Rightarrow> FlowBlock \<Rightarrow> bool"
  for notice where
  here: "context_at notice c b c b"
| below: "a \<in> set (arms notice c b) \<Longrightarrow> arm_child a = Some k \<Longrightarrow>
    context_at notice (arm_context a) k c' b' \<Longrightarrow> context_at notice c b c' b'"

lemma context_at_unfold:
  "context_at notice c b c' b' \<longleftrightarrow>
     c' = c \<and> b' = b \<or>
     (\<exists>a\<in>set (arms notice c b). \<exists>k. arm_child a = Some k \<and> context_at notice (arm_context a) k c' b')"
  by (subst context_at.simps) auto

lemma context_at_trans:
  "context_at notice c b c' b' \<Longrightarrow> context_at notice c' b' c'' b'' \<Longrightarrow> context_at notice c b c'' b''"
  by (induction rule: context_at.induct) (auto intro: context_at.intros)

lemma context_at_subtree: "context_at notice c b c' b' \<Longrightarrow> b' \<in> set (subtree b)"
  by (induction rule: context_at.induct) (auto intro: subtree_owned dest: arm_child_owned)

lemma subtree_context_at: "b' \<in> set (subtree b) \<Longrightarrow> \<exists>c'. context_at notice c b c' b'"
proof (induction b arbitrary: c rule: owned_induct)
  case (step b)
  show ?case
  proof (cases "b' = b")
    case True
    then show ?thesis by (auto intro: context_at.here)
  next
    case False
    with step.prems obtain k where k: "k \<in> set (owned b)" "b' \<in> set (subtree k)"
      by (auto simp: set_subtree [of b])
    obtain a where "a \<in> set (arms notice c b)" "arm_child a = Some k" using owned_arm [OF k(1)] .
    then show ?thesis using step.IH [OF k(1), of "arm_context a"] k(2)
      by (blast intro: context_at.below)
  qed
qed

section \<open>The interface of a tree walk\<close>

text \<open>What entering a block does to the state of a walk, and what following one arm does.\<close>

definition enter :: "string list \<Rightarrow> nat \<Rightarrow> FlowBlock \<Rightarrow> visit_state \<Rightarrow> visit_state" where
  "enter es d b s =
     s\<lparr>errors := errors s @ es, seen_blocks := set_add (block_id b) (seen_blocks s),
       used_prompts := (if truthy (prompt_of b) then set_add (the (prompt_of b)) (used_prompts s)
                        else used_prompts s),
       maximum_depth := max (maximum_depth s) d\<rparr>"

definition follow ::
  "(FlowBlock \<Rightarrow> nat \<Rightarrow> visit_context \<Rightarrow> visit_state \<Rightarrow> visit_state) \<Rightarrow> nat \<Rightarrow> arm \<Rightarrow>
   visit_state \<Rightarrow> visit_state" where
  "follow visit d a s =
     (let s = (case arm_branch a of None \<Rightarrow> s | Some i \<Rightarrow> mark_branch i s) in
      case arm_child a of None \<Rightarrow> err (arm_message a) s | Some k \<Rightarrow> visit k d (arm_context a) s)"

text \<open>The digit-branch identifiers of a tree, in visiting order.\<close>

function branch_ids :: "FlowBlock \<Rightarrow> string list" where
  "branch_ids b =
     concat (map (\<lambda>x. (case fst x of None \<Rightarrow> [] | Some i \<Rightarrow> [i]) @
                      (case snd x of None \<Rightarrow> [] | Some k \<Rightarrow> branch_ids k)) (arm_shape b))"
  by pat_completeness auto
termination
proof (relation "measure weight")
  fix b k and x :: "string option \<times> FlowBlock option"
  assume "x \<in> set (arm_shape b)" "snd x = Some k"
  then have "Some k \<in> set (map snd (arm_shape b))" by (metis image_eqI list.set_map)
  then have "k \<in> set (owned b)" by (simp only: map_snd_arm_shape) (simp add: owned_def)
  then show "(k, b) \<in> measure weight" by (simp add: weight_owned_less)
qed simp

declare branch_ids.simps [simp del]

text \<open>
  A tree is well formed for a rule \<open>notice\<close> and local checks \<open>checks\<close> when every block passes
  its checks in every context in which it is reached, and misses no child.
\<close>

definition tree_ok ::
  "(FlowBlock \<Rightarrow> bool \<Rightarrow> bool) \<Rightarrow> (visit_context \<Rightarrow> FlowBlock \<Rightarrow> string list) \<Rightarrow>
   visit_context \<Rightarrow> FlowBlock \<Rightarrow> bool" where
  "tree_ok notice checks c b \<longleftrightarrow>
     (\<forall>c' b'. context_at notice c b c' b' \<longrightarrow> checks c' b' = [] \<and> None \<notin> set (child_fields b'))"

lemma tree_ok_unfold:
  "tree_ok notice checks c b \<longleftrightarrow>
     checks c b = [] \<and> None \<notin> set (child_fields b) \<and>
     (\<forall>a\<in>set (arms notice c b). \<forall>k. arm_child a = Some k \<longrightarrow> tree_ok notice checks (arm_context a) k)"
  unfolding tree_ok_def by (subst context_at_unfold) blast

text \<open>
  The effect of an error-free part of a walk: the block and branch identifiers it registers, the
  prompts it uses and the depth it reaches.
\<close>

definition fresh :: "string list \<Rightarrow> string list \<Rightarrow> visit_state \<Rightarrow> bool" where
  "fresh I B s \<longleftrightarrow> distinct I \<and> distinct B \<and>
     set I \<inter> set (seen_blocks s) = {} \<and> set B \<inter> set (seen_branches s) = {}"

definition effect :: "string list \<Rightarrow> string list \<Rightarrow> string set \<Rightarrow> nat \<Rightarrow> visit_state \<Rightarrow> visit_state \<Rightarrow> bool"
where
  "effect I B U D s s' \<longleftrightarrow>
     set (seen_blocks s') = set I \<union> set (seen_blocks s) \<and>
     length (seen_blocks s') = length I + length (seen_blocks s) \<and>
     set (seen_branches s') = set B \<union> set (seen_branches s) \<and>
     set (used_prompts s') = U \<union> set (used_prompts s) \<and>
     maximum_depth s' = max (maximum_depth s) D"

definition walk_spec ::
  "(visit_state \<Rightarrow> visit_state) \<Rightarrow> bool \<Rightarrow> string list \<Rightarrow> string list \<Rightarrow> string set \<Rightarrow> nat \<Rightarrow> bool" where
  "walk_spec f ok I B U D \<longleftrightarrow>
     (\<forall>s. (\<exists>es. errors (f s) = errors s @ es) \<and>
          (distinct (used_prompts s) \<longrightarrow> distinct (used_prompts (f s))) \<and>
          (errors (f s) = errors s \<longleftrightarrow> ok \<and> fresh I B s) \<and>
          (errors (f s) = errors s \<longrightarrow> effect I B U D s (f s)))"

lemma fresh_append:
  "effect I B U D s s' \<Longrightarrow> fresh (I @ I') (B @ B') s \<longleftrightarrow> fresh I B s \<and> fresh I' B' s'"
  by (auto simp: effect_def fresh_def)

lemma effect_append:
  "effect I B U D s s' \<Longrightarrow> effect I' B' U' D' s' s'' \<Longrightarrow>
   effect (I @ I') (B @ B') (U \<union> U') (max D D') s s''"
  by (auto simp: effect_def)

lemma walk_spec_id: "walk_spec (\<lambda>s. s) True [] [] {} 0"
  by (auto simp: walk_spec_def effect_def fresh_def)

lemma walk_spec_err: "walk_spec (err msg) False [] [] {} 0"
  by (auto simp: walk_spec_def err_def)

lemma walk_spec_mark: "walk_spec (mark_branch i) True [] [i] {} 0"
  by (auto simp: walk_spec_def mark_branch_def err_if_def err_def Let_def effect_def fresh_def)

lemma walk_spec_clean: "walk_spec f ok I B U D \<Longrightarrow> errors (f s) = errors s \<longleftrightarrow> ok \<and> fresh I B s"
  by (simp add: walk_spec_def)

lemma walk_spec_effect: "walk_spec f ok I B U D \<Longrightarrow> errors (f s) = errors s \<Longrightarrow> effect I B U D s (f s)"
  by (simp add: walk_spec_def)

lemma walk_spec_appends: "walk_spec f ok I B U D \<Longrightarrow> \<exists>es. errors (f s) = errors s @ es"
  by (simp add: walk_spec_def)

lemma walk_spec_comp:
  assumes f: "walk_spec f ok I B U D" and g: "walk_spec g ok' I' B' U' D'"
  shows "walk_spec (\<lambda>s. g (f s)) (ok \<and> ok') (I @ I') (B @ B') (U \<union> U') (max D D')"
  unfolding walk_spec_def
proof (intro allI conjI impI)
  fix s
  obtain es where es: "errors (f s) = errors s @ es" using f by (auto simp: walk_spec_def)
  obtain es' where es': "errors (g (f s)) = errors (f s) @ es'" using g by (auto simp: walk_spec_def)
  have split: "errors (g (f s)) = errors s \<longleftrightarrow> errors (f s) = errors s \<and> errors (g (f s)) = errors (f s)"
    using es es' by auto
  show "\<exists>es. errors (g (f s)) = errors s @ es" using es es' by auto
  show "errors (g (f s)) = errors s \<longleftrightarrow> (ok \<and> ok') \<and> fresh (I @ I') (B @ B') s"
  proof (cases "errors (f s) = errors s")
    case True
    then have eff: "effect I B U D s (f s)" and here: "ok" "fresh I B s"
      using walk_spec_effect [OF f, of s] walk_spec_clean [OF f, of s] by blast+
    have "errors (g (f s)) = errors s \<longleftrightarrow> ok' \<and> fresh I' B' (f s)"
      using True walk_spec_clean [OF g, of "f s"] by simp
    then show ?thesis using here fresh_append [OF eff, of I' B'] by blast
  next
    case False
    then have "\<not> (ok \<and> fresh I B s)" using f by (auto simp: walk_spec_def)
    then show ?thesis using False split by (auto simp: fresh_def)
  qed
  show "effect (I @ I') (B @ B') (U \<union> U') (max D D') s (g (f s))" if "errors (g (f s)) = errors s"
    using that split f g effect_append [of I B U D s "f s"] by (auto simp: walk_spec_def)
  show "distinct (used_prompts (g (f s)))" if "distinct (used_prompts s)"
    using that f g by (auto simp: walk_spec_def)
qed

text \<open>The prompts a tree plays.\<close>

definition tree_prompts :: "FlowBlock \<Rightarrow> string set" where
  "tree_prompts b = {p. \<exists>x\<in>set (subtree b). prompt_of x = Some p \<and> p \<noteq> []}"

lemma tree_prompts_unfold:
  "tree_prompts b = {p. prompt_of b = Some p \<and> p \<noteq> []} \<union> (\<Union>k\<in>set (owned b). tree_prompts k)"
  by (auto simp: tree_prompts_def set_subtree [of b])

lemma walk_spec_enter:
  assumes rest: "walk_spec f ok I B U D"
  shows "walk_spec (\<lambda>s. if block_id b \<in> set (seen_blocks s)
      then err msg (s\<lparr>maximum_depth := max (maximum_depth s) d\<rparr>) else f (enter es d b s))
    (es = [] \<and> ok) (block_id b # I) B ({p. prompt_of b = Some p \<and> p \<noteq> []} \<union> U) (max d D)"
  unfolding walk_spec_def
proof (intro allI)
  fix s
  let ?h = "\<lambda>s. if block_id b \<in> set (seen_blocks s)
      then err msg (s\<lparr>maximum_depth := max (maximum_depth s) d\<rparr>) else f (enter es d b s)"
  let ?e = "enter es d b s"
  have rest': "\<exists>es'. errors (f ?e) = errors ?e @ es'" "distinct (used_prompts ?e) \<longrightarrow> distinct (used_prompts (f ?e))"
    "errors (f ?e) = errors ?e \<longleftrightarrow> ok \<and> fresh I B ?e" "errors (f ?e) = errors ?e \<longrightarrow> effect I B U D ?e (f ?e)"
    using rest unfolding walk_spec_def by blast+
  have e: "errors ?e = errors s @ es" "distinct (used_prompts s) \<longrightarrow> distinct (used_prompts ?e)"
    by (auto simp: enter_def)
  have e': "block_id b \<notin> set (seen_blocks s) \<Longrightarrow>
      effect [block_id b] [] {p. prompt_of b = Some p \<and> p \<noteq> []} d s ?e"
    by (auto simp: enter_def effect_def set_add_def truthy_iff)
  show "(\<exists>es. errors (?h s) = errors s @ es) \<and>
      (distinct (used_prompts s) \<longrightarrow> distinct (used_prompts (?h s))) \<and>
      (errors (?h s) = errors s \<longleftrightarrow> (es = [] \<and> ok) \<and> fresh (block_id b # I) B s) \<and>
      (errors (?h s) = errors s \<longrightarrow>
         effect (block_id b # I) B ({p. prompt_of b = Some p \<and> p \<noteq> []} \<union> U) (max d D) s (?h s))"
  proof (cases "block_id b \<in> set (seen_blocks s)")
    case True
    then show ?thesis by (auto simp: err_def fresh_def)
  next
    case False
    have clean: "errors (f ?e) = errors s \<longleftrightarrow> es = [] \<and> errors (f ?e) = errors ?e"
      using rest'(1) e(1) by auto
    have "fresh (block_id b # I) B s \<longleftrightarrow> fresh I B ?e"
      using False fresh_append [OF e' [OF False], of I B] by (simp add: fresh_def)
    then show ?thesis
      using False clean rest' e effect_append [OF e' [OF False], of I B U D "f ?e"]
      by (auto simp: append_assoc)
  qed
qed

text \<open>The arms of a block, summed up over the blocks it owns.\<close>

lemma arms_ids:
  "concat (map (\<lambda>a. case arm_child a of None \<Rightarrow> [] | Some k \<Rightarrow> map block_id (subtree k)) (arms notice c b)) =
   concat (map (\<lambda>k. map block_id (subtree k)) (owned b))"
  using concat_map_option [of "\<lambda>k. map block_id (subtree k)" "map arm_child (arms notice c b)"]
  by (simp add: comp_def) (simp add: arms_children owned_def)

lemma arms_branch_ids:
  "concat (map (\<lambda>a. (case arm_branch a of None \<Rightarrow> [] | Some i \<Rightarrow> [i]) @
     (case arm_child a of None \<Rightarrow> [] | Some k \<Rightarrow> branch_ids k)) (arms notice c b)) = branch_ids b"
  by (simp add: branch_ids.simps [of b] flip: arms_shape [of notice c b]) (simp add: comp_def)

lemma arms_prompts:
  "(\<Union>a\<in>set (arms notice c b). case arm_child a of None \<Rightarrow> {} | Some k \<Rightarrow> tree_prompts k) =
   (\<Union>k\<in>set (owned b). tree_prompts k)"
  using UN_option [of tree_prompts "map arm_child (arms notice c b)"]
  by (simp only: arms_children owned_def [symmetric]) (simp flip: arms_children [of notice c b])

lemma height_pos [simp]: "0 < height b"
  by (subst height.simps) simp

lemma arms_depth:
  "max d (foldr max (map (\<lambda>a. case arm_child a of None \<Rightarrow> 0 | Some k \<Rightarrow> (d + 1) + height k - 1)
     (arms notice c b)) 0) = d + height b - 1"
proof -
  have eq: "(\<lambda>a. case arm_child a of None \<Rightarrow> 0 | Some k \<Rightarrow> (d + 1) + height k - 1) =
      (\<lambda>a. case arm_child a of None \<Rightarrow> 0 | Some k \<Rightarrow> d + height k)"
    by (rule ext) (simp split: option.splits)
  have sum: "foldr max (map (\<lambda>a. case arm_child a of None \<Rightarrow> 0 | Some k \<Rightarrow> d + height k) (arms notice c b)) 0 =
      foldr max (map (\<lambda>k. d + height k) (owned b)) 0"
    using foldr_max_option [of "\<lambda>k. d + height k" "map arm_child (arms notice c b)"]
    by (simp add: comp_def) (simp add: arms_children owned_def)
  show ?thesis unfolding eq sum foldr_max_add by (simp add: height.simps [of b])
qed

lemma tree_ok_arms:
  "checks c b = [] \<and>
     (\<forall>a\<in>set (arms notice c b). \<exists>k. arm_child a = Some k \<and> tree_ok notice checks (arm_context a) k) \<longleftrightarrow>
   tree_ok notice checks c b"
proof -
  have "None \<notin> set (child_fields b) \<longleftrightarrow> (\<forall>a\<in>set (arms notice c b). arm_child a \<noteq> None)"
    using arms_children [of notice c b] by (metis (no_types, lifting) imageE imageI list.set_map)
  then show ?thesis unfolding tree_ok_unfold [of notice checks c b] by (metis not_None_eq option.inject)
qed

text \<open>
  The whole acceptance criterion of a tree: it is well formed from the root context, identifiers
  are unique, and the limits on steps, depth and prompt storage hold.
\<close>

definition root_context :: visit_context where
  "root_context = \<lparr>owner = None, forbidden_owner = None, greeted = False\<rparr>"

definition asset_bytes :: "(string \<Rightarrow> nat option) \<Rightarrow> string set \<Rightarrow> nat" where
  "asset_bytes sizes U = (\<Sum>p\<in>U. case sizes p of None \<Rightarrow> 0 | Some n \<Rightarrow> n)"

definition tree_accepted ::
  "(FlowBlock \<Rightarrow> bool \<Rightarrow> bool) \<Rightarrow> (visit_context \<Rightarrow> FlowBlock \<Rightarrow> string list) \<Rightarrow>
   (string \<Rightarrow> nat option) \<Rightarrow> nat \<Rightarrow> FlowBlock \<Rightarrow> bool" where
  "tree_accepted notice checks sizes limit b \<longleftrightarrow>
     tree_ok notice checks root_context b \<and>
     distinct (map block_id (subtree b)) \<and> distinct (branch_ids b) \<and>
     length (subtree b) \<le> 64 \<and> height b \<le> 8 \<and> asset_bytes sizes (tree_prompts b) \<le> limit"

lemma finish_validation_Nil:
  "finish_validation sizes limit s = [] \<longleftrightarrow>
     errors s = [] \<and> length (seen_blocks s) \<le> 64 \<and> maximum_depth s \<le> 8 \<and>
     total_asset_bytes sizes (used_prompts s) \<le> limit"
  by (auto simp: finish_validation_def)

text \<open>
  A walk over a tree: the laws are the unfolding equation of a visit and that an unsupported block
  is reported.
\<close>

locale tree_visitor =
  fixes visit :: "FlowBlock \<Rightarrow> nat \<Rightarrow> visit_context \<Rightarrow> visit_state \<Rightarrow> visit_state"
    and notice :: "FlowBlock \<Rightarrow> bool \<Rightarrow> bool"
    and supported :: "FlowBlock \<Rightarrow> bool"
    and checks :: "visit_context \<Rightarrow> FlowBlock \<Rightarrow> string list"
  assumes visit_step: "visit b d c s =
      (if block_id b \<in> set (seen_blocks s)
       then err ''A flow block is duplicated or shared between branches.''
              (s\<lparr>maximum_depth := max (maximum_depth s) d\<rparr>)
       else run_steps (if supported b then map (follow visit (d + 1)) (arms notice c b) else [])
              (enter (checks c b) d b s))"
    and unsupported: "\<not> supported b \<Longrightarrow> checks c b \<noteq> []"
begin

lemma follow_spec:
  assumes "\<And>k. arm_child a = Some k \<Longrightarrow>
      walk_spec (visit k d (arm_context a)) (tree_ok notice checks (arm_context a) k)
        (map block_id (subtree k)) (branch_ids k) (tree_prompts k)
        (d + height k - 1)"
  shows "walk_spec (follow visit d a)
      (\<exists>k. arm_child a = Some k \<and> tree_ok notice checks (arm_context a) k)
      (case arm_child a of None \<Rightarrow> [] | Some k \<Rightarrow> map block_id (subtree k))
      ((case arm_branch a of None \<Rightarrow> [] | Some i \<Rightarrow> [i]) @ (case arm_child a of None \<Rightarrow> [] | Some k \<Rightarrow> branch_ids k))
      (case arm_child a of None \<Rightarrow> {} | Some k \<Rightarrow> (tree_prompts k))
      (case arm_child a of None \<Rightarrow> 0 | Some k \<Rightarrow> d + height k - 1)"
proof -
  have mark: "walk_spec (\<lambda>s. case arm_branch a of None \<Rightarrow> s | Some i \<Rightarrow> mark_branch i s) True []
      (case arm_branch a of None \<Rightarrow> [] | Some i \<Rightarrow> [i]) {} 0"
    using walk_spec_id walk_spec_mark by (cases "arm_branch a") auto
  show ?thesis
  proof (cases "arm_child a")
    case None
    then show ?thesis using walk_spec_comp [OF mark walk_spec_err [of "arm_message a"]]
      by (simp add: follow_def [abs_def] Let_def)
  next
    case (Some k)
    then show ?thesis using walk_spec_comp [OF mark assms [OF Some]]
      by (simp add: follow_def [abs_def] Let_def)
  qed
qed

lemma arms_spec:
  assumes "\<And>a k. a \<in> set as \<Longrightarrow> arm_child a = Some k \<Longrightarrow>
      walk_spec (visit k d (arm_context a)) (tree_ok notice checks (arm_context a) k)
        (map block_id (subtree k)) (branch_ids k) (tree_prompts k) (d + height k - 1)"
  shows "walk_spec (run_steps (map (follow visit d) as))
      (\<forall>a\<in>set as. \<exists>k. arm_child a = Some k \<and> tree_ok notice checks (arm_context a) k)
      (concat (map (\<lambda>a. case arm_child a of None \<Rightarrow> [] | Some k \<Rightarrow> map block_id (subtree k)) as))
      (concat (map (\<lambda>a. (case arm_branch a of None \<Rightarrow> [] | Some i \<Rightarrow> [i]) @
         (case arm_child a of None \<Rightarrow> [] | Some k \<Rightarrow> branch_ids k)) as))
      (\<Union>a\<in>set as. case arm_child a of None \<Rightarrow> {} | Some k \<Rightarrow> tree_prompts k)
      (foldr max (map (\<lambda>a. case arm_child a of None \<Rightarrow> 0 | Some k \<Rightarrow> d + height k - 1) as) 0)"
  using assms
proof (induction as)
  case Nil
  then show ?case using walk_spec_id by simp
next
  case (Cons a as)
  have "walk_spec (follow visit d a)
      (\<exists>k. arm_child a = Some k \<and> tree_ok notice checks (arm_context a) k)
      (case arm_child a of None \<Rightarrow> [] | Some k \<Rightarrow> map block_id (subtree k))
      ((case arm_branch a of None \<Rightarrow> [] | Some i \<Rightarrow> [i]) @ (case arm_child a of None \<Rightarrow> [] | Some k \<Rightarrow> branch_ids k))
      (case arm_child a of None \<Rightarrow> {} | Some k \<Rightarrow> tree_prompts k)
      (case arm_child a of None \<Rightarrow> 0 | Some k \<Rightarrow> d + height k - 1)"
    by (rule follow_spec, rule Cons.prems) simp_all
  from walk_spec_comp [OF this Cons.IH] Cons.prems show ?case by simp
qed

theorem visit_spec:
  "walk_spec (visit b d c) (tree_ok notice checks c b) (map block_id (subtree b)) (branch_ids b)
     (tree_prompts b) (d + height b - 1)"
proof (induction b arbitrary: d c rule: owned_induct)
  case (step b)
  let ?rest = "run_steps (if supported b then map (follow visit (d + 1)) (arms notice c b) else [])"
  have visit: "visit b d c = (\<lambda>s. if block_id b \<in> set (seen_blocks s)
      then err ''A flow block is duplicated or shared between branches.''
        (s\<lparr>maximum_depth := max (maximum_depth s) d\<rparr>)
      else ?rest (enter (checks c b) d b s))"
    by (rule ext) (rule visit_step)
  show ?case
  proof (cases "supported b")
    case False
    then show ?thesis using unsupported [OF False, of c]
      unfolding visit walk_spec_def by (auto simp: err_def enter_def tree_ok_unfold [of _ _ c b])
  next
    case True
    have kids: "a \<in> set (arms notice c b) \<Longrightarrow> arm_child a = Some k \<Longrightarrow> k \<in> set (owned b)" for a k
      by (rule arm_child_owned)
    have rest: "walk_spec (run_steps (map (follow visit (d + 1)) (arms notice c b)))
      (\<forall>a\<in>set (arms notice c b). \<exists>k. arm_child a = Some k \<and> tree_ok notice checks (arm_context a) k)
      (concat (map (\<lambda>a. case arm_child a of None \<Rightarrow> [] | Some k \<Rightarrow> map block_id (subtree k)) (arms notice c b)))
      (concat (map (\<lambda>a. (case arm_branch a of None \<Rightarrow> [] | Some i \<Rightarrow> [i]) @
         (case arm_child a of None \<Rightarrow> [] | Some k \<Rightarrow> branch_ids k)) (arms notice c b)))
      (\<Union>a\<in>set (arms notice c b). case arm_child a of None \<Rightarrow> {} | Some k \<Rightarrow> tree_prompts k)
      (foldr max (map (\<lambda>a. case arm_child a of None \<Rightarrow> 0 | Some k \<Rightarrow> (d + 1) + height k - 1) (arms notice c b)) 0)"
      by (rule arms_spec) (use step kids in blast)
    have "walk_spec (visit b d c) (tree_ok notice checks c b)
      (block_id b # concat (map (\<lambda>k. map block_id (subtree k)) (owned b))) (branch_ids b)
      ({p. prompt_of b = Some p \<and> p \<noteq> []} \<union> (\<Union>k\<in>set (owned b). tree_prompts k)) (d + height b - 1)"
      using walk_spec_enter [OF rest, of b _ d "checks c b"] True
      unfolding visit arms_ids arms_branch_ids arms_prompts arms_depth tree_ok_arms by simp
    then show ?thesis
      by (simp add: subtree.simps [of b] map_concat comp_def tree_prompts_unfold [of b])
  qed
qed

lemma finish_accepts:
  "finish_validation sizes limit (visit b 1 root_context (empty_visit es)) = [] \<longleftrightarrow>
     es = [] \<and> tree_accepted notice checks sizes limit b"
proof -
  define s where "s = empty_visit es"
  define s' where "s' = visit b 1 root_context s"
  note spec = visit_spec [of b 1 root_context]
  have clean: "errors s' = [] \<longleftrightarrow> es = [] \<and> errors s' = errors s"
    using walk_spec_appends [OF spec, of s] by (auto simp: s'_def s_def empty_visit_def)
  have same: "errors s' = errors s \<longleftrightarrow> tree_ok notice checks root_context b \<and>
      distinct (map block_id (subtree b)) \<and> distinct (branch_ids b)"
    using walk_spec_clean [OF spec, of s] by (simp add: s'_def s_def fresh_def empty_visit_def)
  have "length (seen_blocks s') = length (subtree b) \<and> maximum_depth s' = height b \<and>
      total_asset_bytes sizes (used_prompts s') = asset_bytes sizes (tree_prompts b)"
    if "errors s' = errors s"
  proof -
    have "effect (map block_id (subtree b)) (branch_ids b) (tree_prompts b) (1 + height b - 1) s s'"
      using walk_spec_effect [OF spec, of s] that by (simp add: s'_def)
    moreover have "distinct (used_prompts s')"
      using spec unfolding walk_spec_def by (simp add: s'_def s_def empty_visit_def)
    ultimately show ?thesis
      by (auto simp: effect_def s_def empty_visit_def total_asset_bytes_def asset_bytes_def
          sum_list_distinct_conv_sum_set)
  qed
  then have "finish_validation sizes limit s' = [] \<longleftrightarrow>
      es = [] \<and> errors s' = errors s \<and>
      length (subtree b) \<le> 64 \<and> height b \<le> 8 \<and> asset_bytes sizes (tree_prompts b) \<le> limit"
    using clean unfolding finish_validation_Nil by metis
  then show ?thesis using same unfolding tree_accepted_def s'_def s_def by blast
qed

end

section \<open>The three walks are instances\<close>

definition notice_v2 :: "FlowBlock \<Rightarrow> bool \<Rightarrow> bool" where
  "notice_v2 b g = False"

fun notice_v3 :: "FlowBlock \<Rightarrow> bool \<Rightarrow> bool" where
  "notice_v3 (PlayPromptBlockV2 i p n) g = True"
| "notice_v3 _ g = False"

definition notice_v4 :: "FlowBlock \<Rightarrow> bool \<Rightarrow> bool" where
  "notice_v4 b g \<longleftrightarrow> g \<or> truthy (prompt_of b)"

definition prompt_errors :: "string list \<Rightarrow> FlowBlock \<Rightarrow> string list" where
  "prompt_errors P b = (case b of
     PlayPromptBlockV2 i p n \<Rightarrow>
       (if \<not> truthy p then [''A Play prompt step has no prompt selected.'']
        else if the p \<notin> set P then [''A Play prompt step references a missing prompt.''] else [])
   | CollectDigitBlockV2 i p barge m a r branches t v l \<Rightarrow>
       (if barge \<and> \<not> truthy p then [''Prompt interruption requires a menu prompt.''] else []) @
       (if truthy p \<and> the p \<notin> set P
        then [''A Collect digit step references a missing menu prompt.''] else []) @
       (if branches = [] then [''A Collect digit step requires at least one digit branch.''] else []) @
       (if \<not> distinct (map digit branches) then [''Digit branches must use unique keys.''] else [])
   | _ \<Rightarrow> [])"

definition place_errors :: "string list \<Rightarrow> visit_context \<Rightarrow> FlowBlock \<Rightarrow> string list" where
  "place_errors S c b = (case b of
     ScheduleBranchBlockV2 i sid x y z \<Rightarrow>
       (if \<not> truthy sid \<or> the sid \<notin> set S
        then [''A Check schedule step references a missing schedule.''] else [])
   | ReturnToMenuBlockV2 i \<Rightarrow>
       (if owner c = None then [''Return to menu can only be used inside a digit branch.'']
        else if owner c = forbidden_owner c
        then [''The menu return-limit path cannot return to the same menu.''] else [])
   | _ \<Rightarrow> [])"

definition supported_v2 :: "FlowBlock \<Rightarrow> bool" where
  "supported_v2 b \<longleftrightarrow> \<not> is_RecordMessage b \<and> \<not> is_ExternalCall b"

definition supported_v3 :: "FlowBlock \<Rightarrow> bool" where
  "supported_v3 b \<longleftrightarrow> \<not> is_ExternalCall b"

definition checks_v2 :: "string list \<Rightarrow> string list \<Rightarrow> visit_context \<Rightarrow> FlowBlock \<Rightarrow> string list" where
  "checks_v2 P S c b =
     (if supported_v2 b then prompt_errors P b @ place_errors S c b
      else [''The flow contains an unsupported block type.''])"

definition checks_v3 :: "string list \<Rightarrow> string list \<Rightarrow> visit_context \<Rightarrow> FlowBlock \<Rightarrow> string list" where
  "checks_v3 P S c b =
     (if supported_v3 b
      then prompt_errors P b @ place_errors S c b @
        (if is_RecordMessage b \<and> \<not> greeted c
         then [''Record message must immediately follow a Play prompt greeting.''] else [])
      else [''The flow contains an unsupported block type.''])"

definition checks_v4 :: "string list \<Rightarrow> string list \<Rightarrow> visit_context \<Rightarrow> FlowBlock \<Rightarrow> string list" where
  "checks_v4 P S c b =
     prompt_errors P b @ place_errors S c b @
     (if is_RecordMessage b \<and> \<not> greeted c
      then [''Record message requires an earlier Play prompt or menu prompt notice on this path.''] else []) @
     (if is_ExternalCall b \<and> \<not> greeted c
      then [''External call requires an earlier Play prompt or menu prompt notice on this path.''] else [])"

lemma length_dict_fromkeys: "length xs = length (dict_fromkeys xs) \<longleftrightarrow> distinct xs"
  by (metis card_distinct dict_fromkeys_distinct distinct_card distinct_dict_fromkeys set_dict_fromkeys)

lemmas check_defs =
  check_play_prompt_def check_collect_def check_schedule_def check_return_def
  err_if_def err_def use_prompt_def prompt_errors_def place_errors_def enter_def
  length_dict_fromkeys Let_def

definition at_v2 where
  "at_v2 P S b d c s = visit_v2 P S b d (owner c) (forbidden_owner c) s"

definition at_v3 where
  "at_v3 P S b d c s = visit_v3 P S b d (owner c) (forbidden_owner c) (greeted c) s"

definition at_v4 where
  "at_v4 P S b d c s = visit_v4 P S b d (owner c) (forbidden_owner c) (greeted c) s"

lemma visit_branches_v2_follow:
  "visit_branches_v2 P S bs d menu s =
     run_steps (map (\<lambda>b. follow (at_v2 P S) d (menu_arm menu False (Some (branch_id b))
       (''Digit '' @ [digit b] @ '' has no first step.'') (branch_root b) None)) bs) s"
proof (induction bs arbitrary: s)
  case (Cons b bs)
  then show ?case
    by (cases b; cases "branch_root b") (auto simp: follow_def at_v2_def menu_arm_def)
qed simp

lemma visit_branches_v3_follow:
  "visit_branches_v3 P S bs d menu s =
     run_steps (map (\<lambda>b. follow (at_v3 P S) d (menu_arm menu False (Some (branch_id b))
       (''Digit '' @ [digit b] @ '' has no first step.'') (branch_root b) None)) bs) s"
proof (induction bs arbitrary: s)
  case (Cons b bs)
  then show ?case
    by (cases b; cases "branch_root b") (auto simp: follow_def at_v3_def menu_arm_def)
qed simp

lemma visit_branches_v4_follow:
  "visit_branches_v4 P S bs d menu g s =
     run_steps (map (\<lambda>b. follow (at_v4 P S) d (menu_arm menu g (Some (branch_id b))
       (''Digit '' @ [digit b] @ '' has no first step.'') (branch_root b) None)) bs) s"
proof (induction bs arbitrary: s)
  case (Cons b bs)
  then show ?case
    by (cases b; cases "branch_root b") (auto simp: follow_def at_v4_def menu_arm_def)
qed simp

lemma child_v2:
  "visit_child_v2 P S msg k d ow fb =
     follow (at_v2 P S) d \<lparr>arm_branch = None, arm_message = msg, arm_child = k,
       arm_context = \<lparr>owner = ow, forbidden_owner = fb, greeted = False\<rparr>\<rparr>"
  by (rule ext) (cases k, auto simp: follow_def at_v2_def)

lemma visit_v2_step:
  "visit_v2 P S b d (owner c) (forbidden_owner c) s =
     (if block_id b \<in> set (seen_blocks s)
      then err ''A flow block is duplicated or shared between branches.''
             (s\<lparr>maximum_depth := max (maximum_depth s) d\<rparr>)
      else run_steps (if supported_v2 b then map (follow (at_v2 P S) (d + 1)) (arms notice_v2 c b) else [])
             (enter (checks_v2 P S c b) d b s))"
proof (cases "block_id b \<in> set (seen_blocks s)")
  case True
  then show ?thesis by (simp add: visit_v2.simps)
next
  case False
  then show ?thesis
    by (cases b; cases c; cases s)
      (simp_all add: visit_v2.simps child_v2 visit_branches_v2_follow supported_v2_def 
        checks_v2_def notice_v2_def inherit_arm_def menu_arm_def comp_def check_defs)
qed

lemma child_v3:
  "visit_child_v3 P S msg k d ow fb g =
     follow (at_v3 P S) d \<lparr>arm_branch = None, arm_message = msg, arm_child = k,
       arm_context = \<lparr>owner = ow, forbidden_owner = fb, greeted = g\<rparr>\<rparr>"
  by (rule ext) (cases k, auto simp: follow_def at_v3_def)

lemma visit_v3_step:
  "visit_v3 P S b d (owner c) (forbidden_owner c) (greeted c) s =
     (if block_id b \<in> set (seen_blocks s)
      then err ''A flow block is duplicated or shared between branches.''
             (s\<lparr>maximum_depth := max (maximum_depth s) d\<rparr>)
      else run_steps (if supported_v3 b then map (follow (at_v3 P S) (d + 1)) (arms notice_v3 c b) else [])
             (enter (checks_v3 P S c b) d b s))"
proof (cases "block_id b \<in> set (seen_blocks s)")
  case True
  then show ?thesis by (simp add: visit_v3.simps)
next
  case False
  then show ?thesis
    by (cases b; cases c; cases s)
      (simp_all add: visit_v3.simps child_v3 visit_branches_v3_follow supported_v3_def 
        checks_v3_def inherit_arm_def menu_arm_def comp_def check_defs)
qed

lemma child_v4:
  "visit_child_v4 P S msg k d ow fb g =
     follow (at_v4 P S) d \<lparr>arm_branch = None, arm_message = msg, arm_child = k,
       arm_context = \<lparr>owner = ow, forbidden_owner = fb, greeted = g\<rparr>\<rparr>"
  by (rule ext) (cases k, auto simp: follow_def at_v4_def)

lemma visit_v4_step:
  "visit_v4 P S b d (owner c) (forbidden_owner c) (greeted c) s =
     (if block_id b \<in> set (seen_blocks s)
      then err ''A flow block is duplicated or shared between branches.''
             (s\<lparr>maximum_depth := max (maximum_depth s) d\<rparr>)
      else run_steps (if True then map (follow (at_v4 P S) (d + 1)) (arms notice_v4 c b) else [])
             (enter (checks_v4 P S c b) d b s))"
proof (cases "block_id b \<in> set (seen_blocks s)")
  case True
  then show ?thesis by (simp add: visit_v4.simps)
next
  case False
  then show ?thesis
    by (cases b; cases c; cases s)
      (simp_all add: visit_v4.simps child_v4 visit_branches_v4_follow 
        checks_v4_def notice_v4_def inherit_arm_def menu_arm_def comp_def check_defs)
qed

interpretation v2: tree_visitor "at_v2 P S" notice_v2 supported_v2 "checks_v2 P S"
  by unfold_locales (auto simp: at_v2_def visit_v2_step checks_v2_def)

interpretation v3: tree_visitor "at_v3 P S" notice_v3 supported_v3 "checks_v3 P S"
  by unfold_locales (auto simp: at_v3_def visit_v3_step checks_v3_def)

interpretation v4: tree_visitor "at_v4 P S" notice_v4 "\<lambda>_. True" "checks_v4 P S"
  by unfold_locales (auto simp: at_v4_def visit_v4_step checks_v4_def)

section \<open>What the validators accept\<close>

definition schedules_ok :: "(string \<Rightarrow> bool) \<Rightarrow> Schedule list \<Rightarrow> bool" where
  "schedules_ok zone_known ss \<longleftrightarrow>
     distinct (map schedule_id ss) \<and> (\<forall>s\<in>set ss. zone_known (timezone s))"

lemma schedule_errors_Nil: "schedule_errors zone_known ss = [] \<longleftrightarrow> schedules_ok zone_known ss"
  by (auto simp: schedule_errors_def schedules_ok_def filter_empty_conv
      length_dict_fromkeys [of "map schedule_id ss", simplified, symmetric])

lemma accepted_v2:
  "validate_configuration_v2 zone_known d P sizes limit = [] \<longleftrightarrow>
     schedules_ok zone_known (schedules d) \<and>
     (\<exists>root. flow_root (flow d) = Some root \<and>
        tree_accepted notice_v2 (checks_v2 P (map schedule_id (schedules d))) sizes limit root)"
  using v2.finish_accepts
  by (auto simp: validate_configuration_v2_def Let_def schedule_errors_Nil at_v2_def root_context_def
      split: option.splits)

lemma accepted_v3:
  "validate_configuration_v3 zone_known d P sizes limit = [] \<longleftrightarrow>
     schedules_ok zone_known (schedules d) \<and>
     (\<exists>root. flow_root (flow d) = Some root \<and>
        tree_accepted notice_v3 (checks_v3 P (map schedule_id (schedules d))) sizes limit root)"
  using v3.finish_accepts
  by (auto simp: validate_configuration_v3_def Let_def schedule_errors_Nil at_v3_def root_context_def
      split: option.splits)

lemma accepted_v4:
  "validate_configuration_v4 zone_known d P sizes limit = [] \<longleftrightarrow>
     schedules_ok zone_known (schedules d) \<and>
     (\<exists>root. flow_root (flow d) = Some root \<and>
        tree_accepted notice_v4 (checks_v4 P (map schedule_id (schedules d))) sizes limit root)"
  using v4.finish_accepts
  by (auto simp: validate_configuration_v4_def Let_def schedule_errors_Nil at_v4_def root_context_def
      split: option.splits)

section \<open>Promotion between releases\<close>

text \<open>
  If every block that passes the checks of one release passes those of another in a related
  context, and the contexts stay related on the way down, a well-formed tree stays well formed.
\<close>

lemma tree_ok_transfer:
  assumes step: "\<And>b c c'. checks c b = [] \<Longrightarrow> R c c' \<Longrightarrow>
      checks' c' b = [] \<and>
      list_all2 (\<lambda>a a'. arm_child a' = arm_child a \<and> R (arm_context a) (arm_context a'))
        (arms notice c b) (arms notice' c' b)"
  shows "tree_ok notice checks c b \<Longrightarrow> R c c' \<Longrightarrow> tree_ok notice' checks' c' b"
proof (induction b arbitrary: c c' rule: owned_induct)
  case (step b)
  have ok: "checks c b = []" "None \<notin> set (child_fields b)"
    and below: "\<And>a k. a \<in> set (arms notice c b) \<Longrightarrow> arm_child a = Some k \<Longrightarrow>
      tree_ok notice checks (arm_context a) k"
    using step.prems(1) by (auto simp: tree_ok_unfold [of notice checks c b])
  have rel: "checks' c' b = []"
    "list_all2 (\<lambda>a a'. arm_child a' = arm_child a \<and> R (arm_context a) (arm_context a'))
       (arms notice c b) (arms notice' c' b)"
    using assms [OF ok(1) step.prems(2)] by auto
  have "tree_ok notice' checks' (arm_context a') k"
    if "a' \<in> set (arms notice' c' b)" "arm_child a' = Some k" for a' k
  proof -
    from that(1) rel(2) obtain a where "a \<in> set (arms notice c b)" "arm_child a' = arm_child a"
      "R (arm_context a) (arm_context a')"
      unfolding list_all2_conv_all_nth in_set_conv_nth by metis
    then show ?thesis using step.IH below that(2) arm_child_owned by metis
  qed
  then show ?case using ok rel by (subst tree_ok_unfold) blast
qed

definition weaker_context :: "visit_context \<Rightarrow> visit_context \<Rightarrow> bool" where
  "weaker_context c c' \<longleftrightarrow>
     owner c' = owner c \<and> forbidden_owner c' = forbidden_owner c \<and> (greeted c \<longrightarrow> greeted c')"

lemma arms_weaker:
  assumes "weaker_context c c'" "notice b (greeted c) \<longrightarrow> notice' b (greeted c')"
  shows "list_all2 (\<lambda>a a'. arm_child a' = arm_child a \<and> weaker_context (arm_context a) (arm_context a'))
    (arms notice c b) (arms notice' c' b)"
  using assms
  by (cases b) (auto simp: weaker_context_def inherit_arm_def menu_arm_def list_all2_append Let_def
      list.rel_map intro!: list_all2_appendI list.rel_refl)

lemma checks_v3_v4:
  assumes "checks_v3 P S c b = []" "weaker_context c c'"
  shows "checks_v4 P S c' b = []"
  using assms by (cases b) (auto simp: checks_v3_def checks_v4_def supported_v3_def weaker_context_def
      prompt_errors_def place_errors_def split: if_splits)

lemma checks_v2_v4:
  assumes "checks_v2 P S c b = []" "weaker_context c c'"
  shows "checks_v4 P S c' b = []"
  using assms by (cases b) (auto simp: checks_v2_def checks_v4_def supported_v2_def weaker_context_def
      prompt_errors_def place_errors_def split: if_splits)

lemma tree_ok_v3_v4:
  assumes "tree_ok notice_v3 (checks_v3 P S) c b" "weaker_context c c'"
  shows "tree_ok notice_v4 (checks_v4 P S) c' b"
proof (rule tree_ok_transfer [where R = weaker_context, OF _ assms])
  fix b c c'
  assume ok: "checks_v3 P S c b = []" and w: "weaker_context c c'"
  have "notice_v3 b (greeted c) \<longrightarrow> notice_v4 b (greeted c')"
    using ok by (cases b) (auto simp: notice_v4_def checks_v3_def supported_v3_def prompt_errors_def split: if_splits)
  then show "checks_v4 P S c' b = [] \<and>
      list_all2 (\<lambda>a a'. arm_child a' = arm_child a \<and> weaker_context (arm_context a) (arm_context a'))
        (arms notice_v3 c b) (arms notice_v4 c' b)"
    using checks_v3_v4 [OF ok w] arms_weaker [OF w] by blast
qed

lemma tree_ok_v2_v4:
  assumes "tree_ok notice_v2 (checks_v2 P S) c b" "weaker_context c c'"
  shows "tree_ok notice_v4 (checks_v4 P S) c' b"
proof (rule tree_ok_transfer [where R = weaker_context, OF _ assms])
  fix b c c'
  assume ok: "checks_v2 P S c b = []" and w: "weaker_context c c'"
  show "checks_v4 P S c' b = [] \<and>
      list_all2 (\<lambda>a a'. arm_child a' = arm_child a \<and> weaker_context (arm_context a) (arm_context a'))
        (arms notice_v2 c b) (arms notice_v4 c' b)"
    using checks_v2_v4 [OF ok w] arms_weaker [OF w] by (simp add: notice_v2_def)
qed

section \<open>The recording notice\<close>

text \<open>\<open>owned_path b ps x\<close>: the block \<open>x\<close> is owned, through the blocks \<open>ps\<close>, by \<open>b\<close>.\<close>

inductive owned_path :: "FlowBlock \<Rightarrow> FlowBlock list \<Rightarrow> FlowBlock \<Rightarrow> bool" where
  here: "owned_path b [] b"
| below: "k \<in> set (owned b) \<Longrightarrow> owned_path k ps x \<Longrightarrow> owned_path b (b # ps) x"

lemma notice_on_path:
  "owned_path b ps x \<Longrightarrow> tree_ok notice_v4 (checks_v4 P S) c b \<Longrightarrow> is_RecordMessage x \<or> is_ExternalCall x \<Longrightarrow>
   greeted c \<or> (\<exists>y\<in>set ps. truthy (prompt_of y))"
proof (induction arbitrary: c rule: owned_path.induct)
  case (here b)
  then have "checks_v4 P S c b = []" by (simp add: tree_ok_unfold [of notice_v4 _ c b])
  then show ?case using here by (auto simp: checks_v4_def split: if_splits)
next
  case (below k b ps x)
  obtain a where a: "a \<in> set (arms notice_v4 c b)" "arm_child a = Some k" using owned_arm [OF below.hyps(1)] .
  have "tree_ok notice_v4 (checks_v4 P S) (arm_context a) k"
    using below.prems(1) a by (simp add: tree_ok_unfold [of notice_v4 _ c b])
  then have "greeted (arm_context a) \<or> (\<exists>y\<in>set ps. truthy (prompt_of y))"
    using below.IH below.prems(2) by blast
  moreover have "greeted (arm_context a) \<longrightarrow> greeted c \<or> truthy (prompt_of b)"
    using a(1) by (cases b) (auto simp: notice_v4_def inherit_arm_def menu_arm_def Let_def)
  ultimately show ?case by auto
qed

end
