(* ===== verification/Json.thy ===== *)
theory Json
  imports Flow_Tree
begin

text \<open>
  JSON values and their canonical encoding (\<^verbatim>\<open>canonical_json_bytes\<close> of
  \<^verbatim>\<open>src/server/app/crypto.py\<close>), and the JSON form of a flow
  (\<^verbatim>\<open>model_dump(mode="json")\<close> of the block classes of \<^verbatim>\<open>src/server/app/schemas.py\<close>).
  The encoding sorts the keys of every object, uses no white space, keeps characters beyond ASCII
  and encodes the text in UTF-8.
\<close>

section \<open>Values and canonical encoding\<close>

datatype json =
    JNull
  | JBool bool
  | JInt int
  | JString string
  | JList "json list"
  | JObject "(string \<times> json) list"

definition str_int :: "int \<Rightarrow> string" where
  "str_int i = (if i < 0 then CHR ''-'' # str_nat (nat (- i)) else str_nat (nat i))"

definition hex_digit :: "nat \<Rightarrow> char" where
  "hex_digit n = (if n < 10 then char_of (48 + n) else char_of (87 + n))"

definition json_quote :: char where "json_quote = CHR 0x22"

definition json_backslash :: char where "json_backslash = CHR 0x5C"

text \<open>The escapes of \<^verbatim>\<open>json.dumps(..., ensure_ascii=False)\<close>.\<close>

definition json_escape :: "char \<Rightarrow> string" where
  "json_escape c =
     (let n = of_char c :: nat in
      if c = json_backslash then [json_backslash, json_backslash]
      else if c = json_quote then [json_backslash, json_quote]
      else if n = 10 then [json_backslash, CHR ''n'']
      else if n = 13 then [json_backslash, CHR ''r'']
      else if n = 9 then [json_backslash, CHR ''t'']
      else if n = 12 then [json_backslash, CHR ''f'']
      else if n = 8 then [json_backslash, CHR ''b'']
      else if n < 32 then json_backslash # ''u00'' @ [hex_digit (n div 16), hex_digit (n mod 16)]
      else [c])"

definition json_string :: "string \<Rightarrow> string" where
  "json_string s = json_quote # concat (map json_escape s) @ [json_quote]"

fun join :: "string \<Rightarrow> string list \<Rightarrow> string" where
  "join sep [] = []"
| "join sep [x] = x"
| "join sep (x # y # zs) = x @ sep @ join sep (y # zs)"

fun json_dumps :: "json \<Rightarrow> string" where
  "json_dumps JNull = ''null''"
| "json_dumps (JBool b) = (if b then ''true'' else ''false'')"
| "json_dumps (JInt i) = str_int i"
| "json_dumps (JString s) = json_string s"
| "json_dumps (JList xs) = ''['' @ join '','' (map json_dumps xs) @ '']''"
| "json_dumps (JObject kvs) =
     ''{'' @ join '','' (map (\<lambda>kv. json_string (fst kv) @ '':'' @ snd kv)
               (sort_key fst (map (\<lambda>kv. (fst kv, json_dumps (snd kv))) kvs))) @ ''}''"

definition utf8_char :: "char \<Rightarrow> string" where
  "utf8_char c =
     (let n = of_char c :: nat in
      if n < 128 then [c] else [char_of (192 + n div 64), char_of (128 + n mod 64)])"

definition canonical_json_bytes :: "json \<Rightarrow> string" where
  "canonical_json_bytes d = concat (map utf8_char (json_dumps d))"

definition json_of_string_option :: "string option \<Rightarrow> json" where
  "json_of_string_option x = (case x of None \<Rightarrow> JNull | Some s \<Rightarrow> JString s)"

definition json_nat :: "nat \<Rightarrow> json" where
  "json_nat n = JInt (int n)"

section \<open>The JSON form of a flow\<close>

fun block_json :: "FlowBlock \<Rightarrow> json" and branch_json :: "DigitBranch \<Rightarrow> json" where
  "block_json (PlayPromptBlockV2 i p n) = JObject
     [(''block_id'', JString i), (''type'', JString ''play_prompt''),
      (''prompt_id'', json_of_string_option p),
      (''next'', case n of None \<Rightarrow> JNull | Some c \<Rightarrow> block_json c)]"
| "block_json (CollectDigitBlockV2 i p barge timeout_ms maximum_attempts maximum_menu_returns branches t v l) =
     JObject
     ([(''block_id'', JString i), (''type'', JString ''collect_digit''),
       (''prompt_id'', json_of_string_option p)] @
      (if barge then [(''allow_prompt_barge_in'', JBool True)] else []) @
      [(''timeout_ms'', json_nat timeout_ms), (''maximum_attempts'', json_nat maximum_attempts),
       (''maximum_menu_returns'', json_nat maximum_menu_returns),
       (''branches'', JList (map branch_json branches)),
       (''on_timeout'', case t of None \<Rightarrow> JNull | Some c \<Rightarrow> block_json c),
       (''on_invalid'', case v of None \<Rightarrow> JNull | Some c \<Rightarrow> block_json c),
       (''on_return_limit'', case l of None \<Rightarrow> JNull | Some c \<Rightarrow> block_json c)])"
| "block_json (ScheduleBranchBlockV2 i sid x y z) = JObject
     [(''block_id'', JString i), (''type'', JString ''schedule_branch''),
      (''schedule_id'', json_of_string_option sid),
      (''on_open'', case x of None \<Rightarrow> JNull | Some c \<Rightarrow> block_json c),
      (''on_closed'', case y of None \<Rightarrow> JNull | Some c \<Rightarrow> block_json c),
      (''on_holiday'', case z of None \<Rightarrow> JNull | Some c \<Rightarrow> block_json c)]"
| "block_json (ReturnToMenuBlockV2 i) = JObject
     [(''block_id'', JString i), (''type'', JString ''return_to_menu'')]"
| "block_json (EndCallBlockV2 i) = JObject
     [(''block_id'', JString i), (''type'', JString ''end_call'')]"
| "block_json (RecordMessageBlockV3 i n u) = JObject
     [(''block_id'', JString i), (''type'', JString ''record_message''),
      (''next'', case n of None \<Rightarrow> JNull | Some c \<Rightarrow> block_json c),
      (''on_unavailable'', case u of None \<Rightarrow> JNull | Some c \<Rightarrow> block_json c)]"
| "block_json (ExternalCallBlockV4 i phone_number answer_timeout_seconds n x f) = JObject
     [(''block_id'', JString i), (''type'', JString ''external_call''),
      (''phone_number'', JString phone_number),
      (''answer_timeout_seconds'', json_nat answer_timeout_seconds),
      (''next'', case n of None \<Rightarrow> JNull | Some c \<Rightarrow> block_json c),
      (''on_not_connected'', case x of None \<Rightarrow> JNull | Some c \<Rightarrow> block_json c),
      (''on_system_failure'', case f of None \<Rightarrow> JNull | Some c \<Rightarrow> block_json c)]"
| "branch_json (DigitBranchV2 bid d r) = JObject
     [(''branch_id'', JString bid), (''digit'', JString [d]),
      (''root'', case r of None \<Rightarrow> JNull | Some c \<Rightarrow> block_json c)]"

definition flow_json :: "FlowDefinitionV2 \<Rightarrow> json" where
  "flow_json f = JObject
     [(''root'', case flow_root f of None \<Rightarrow> JNull | Some b \<Rightarrow> block_json b)]"

definition recording_behavior_json :: "RecordingBehavior \<Rightarrow> json" where
  "recording_behavior_json r = JObject
     [(''maximum_duration_seconds'', json_nat (maximum_duration_seconds r)),
      (''finish_key'', json_of_string_option (finish_key r))]"

fun mode_value :: "CallerPolicyMode \<Rightarrow> string" where
  "mode_value IVR_DISABLED = ''IVR_DISABLED''"
| "mode_value ALLOWLIST_ONLY = ''ALLOWLIST_ONLY''"
| "mode_value ACCEPT_ALL = ''ACCEPT_ALL''"
| "mode_value ACCEPT_ALL_EXCEPT_BLOCKLIST = ''ACCEPT_ALL_EXCEPT_BLOCKLIST''"

lemma mode_value_inject [simp]: "mode_value m = mode_value m' \<longleftrightarrow> m = m'"
  by (cases m; cases m') auto

definition caller_entry_json :: "CallerEntry \<Rightarrow> json" where
  "caller_entry_json e = JObject [(''label'', JString (entry_label e)), (''e164'', JString (e164 e))]"

definition caller_policy_json :: "CallerPolicy \<Rightarrow> json" where
  "caller_policy_json p = JObject
     [(''mode'', JString (mode_value (mode p))), (''route_unknown_callers'', JBool (route_unknown_callers p)),
      (''allowlist'', JList (map caller_entry_json (allowlist p))),
      (''blocklist'', JList (map caller_entry_json (blocklist p)))]"

definition zero_padded :: "nat \<Rightarrow> string \<Rightarrow> string" where
  "zero_padded n s = replicate (n - length s) CHR ''0'' @ s"

definition isoformat :: "int \<times> nat \<times> nat \<Rightarrow> string" where
  "isoformat d = (case d of (year, month, day) \<Rightarrow>
     zero_padded 4 (str_int year) @ ''-'' @ zero_padded 2 (str_nat month) @ ''-'' @ zero_padded 2 (str_nat day))"

fun exception_state_value :: "exception_state \<Rightarrow> string" where
  "exception_state_value ExceptionOpen = ''open''"
| "exception_state_value ExceptionClosed = ''closed''"
| "exception_state_value ExceptionHoliday = ''holiday''"

definition weekly_window_json :: "WeeklyWindow \<Rightarrow> json" where
  "weekly_window_json w = JObject
     [(''weekday'', json_nat (weekday w)), (''start'', JString (window_start w)), (''end'', JString (window_end w))]"

definition schedule_exception_json :: "ScheduleException \<Rightarrow> json" where
  "schedule_exception_json x = JObject
     [(''date'', JString (isoformat (exception_date x))),
      (''state'', JString (exception_state_value (exception_state x)))]"

definition schedule_json :: "Schedule \<Rightarrow> json" where
  "schedule_json s = JObject
     [(''id'', JString (schedule_id s)), (''name'', JString (schedule_name s)), (''timezone'', JString (timezone s)),
      (''weekly'', JList (map weekly_window_json (weekly s))),
      (''exceptions'', JList (map schedule_exception_json (exceptions s)))]"

section \<open>Python values\<close>

text \<open>\<^verbatim>\<open>dict.get\<close> on a JSON object; absent and \<^verbatim>\<open>None\<close> are the same value.\<close>

definition json_get :: "(string \<times> json) list \<Rightarrow> string \<Rightarrow> json" where
  "json_get kvs k = (case map_of kvs k of None \<Rightarrow> JNull | Some v \<Rightarrow> v)"

text \<open>
  The comparison \<^verbatim>\<open>==\<close> of two values decoded from JSON: objects compare as dictionaries,
  whatever the order of their keys, and a truth value equals the numbers 0 and 1.
\<close>

lemma size_zip_left [termination_simp]: "(x, y) \<in> set (zip xs ys) \<Longrightarrow> size x < Suc (size_list size xs)"
  by (meson in_set_zipE le_imp_less_Suc size_list_estimation' order_refl)

lemma size_value [termination_simp]:
  "(k, x) \<in> set kvs \<Longrightarrow> size x < Suc (size_list (size_prod f size) kvs)"
  by (induction kvs) auto

fun py_eq :: "json \<Rightarrow> json \<Rightarrow> bool" where
  "py_eq (JList xs) v = (case v of JList ys \<Rightarrow> length xs = length ys \<and> list_all (\<lambda>(x, y). py_eq x y) (zip xs ys) | _ \<Rightarrow> False)"
| "py_eq (JObject kvs) v = (case v of
     JObject kws \<Rightarrow> length kvs = length kws \<and>
       list_all (\<lambda>(k, x). case map_of kws k of None \<Rightarrow> False | Some y \<Rightarrow> py_eq x y) kvs
   | _ \<Rightarrow> False)"
| "py_eq (JBool b) v = (case v of JBool c \<Rightarrow> b = c | JInt i \<Rightarrow> of_bool b = i | _ \<Rightarrow> False)"
| "py_eq (JInt i) v = (case v of JBool c \<Rightarrow> i = of_bool c | JInt j \<Rightarrow> i = j | _ \<Rightarrow> False)"
| "py_eq (JString s) v = (v = JString s)"
| "py_eq JNull v = (v = JNull)"

text \<open>A decoded value: every object has distinct keys.\<close>

fun json_wf :: "json \<Rightarrow> bool" where
  "json_wf (JList xs) = list_all json_wf xs"
| "json_wf (JObject kvs) = (distinct (map fst kvs) \<and> list_all (\<lambda>(k, x). json_wf x) kvs)"
| "json_wf _ = True"

lemma py_eq_refl: "json_wf v \<Longrightarrow> py_eq v v"
proof (induction v rule: json_wf.induct)
  case (1 xs)
  then show ?case by (auto simp: list_all_iff set_zip)
next
  case (2 kvs)
  then show ?case by (auto simp: list_all_iff)
qed auto

lemma py_eq_string: "py_eq v (JString s) \<longleftrightarrow> v = JString s"
  by (cases v) auto

end
