(* ===== verification/Flow_Collect.thy ===== *)
theory Flow_Collect
  imports Json
begin

text \<open>
  The first pass of the compilers (\<^verbatim>\<open>collect\<close> in \<^verbatim>\<open>src/server/app/compiler_v2.py\<close>,
  \<^verbatim>\<open>compiler_v3.py\<close> and \<^verbatim>\<open>compiler_v4.py\<close>): the blocks of the tree in pre-order, each with
  the menu that owns it, or the first error.
\<close>

section \<open>Collecting the blocks\<close>

record collect_state =
  entries :: "(FlowBlock \<times> string option) list"
  collected_ids :: "string list"

definition empty_collect :: collect_state where
  "empty_collect = \<lparr>entries = [], collected_ids = []\<rparr>"

definition append_entry :: "FlowBlock \<Rightarrow> string option \<Rightarrow> collect_state \<Rightarrow> collect_state" where
  "append_entry b owner_menu_id s =
     \<lparr>entries = entries s @ [(b, owner_menu_id)], collected_ids = set_add (block_id b) (collected_ids s)\<rparr>"

text \<open>The class of a block, as \<^verbatim>\<open>type(block)!r\<close> prints it.\<close>

fun class_name :: "FlowBlock \<Rightarrow> string" where
  "class_name (PlayPromptBlockV2 i p n) = ''PlayPromptBlockV2''"
| "class_name (CollectDigitBlockV2 i p g m a r bs t v l) = ''CollectDigitBlockV2''"
| "class_name (ScheduleBranchBlockV2 i s x y z) = ''ScheduleBranchBlockV2''"
| "class_name (ReturnToMenuBlockV2 i) = ''ReturnToMenuBlockV2''"
| "class_name (EndCallBlockV2 i) = ''EndCallBlockV2''"
| "class_name (RecordMessageBlockV3 i n u) = ''RecordMessageBlockV3''"
| "class_name (ExternalCallBlockV4 i ph tm n x f) = ''ExternalCallBlockV4''"

definition class_repr :: "FlowBlock \<Rightarrow> string" where
  "class_repr b = ''<class '' @ [CHR 0x27] @ ''app.schemas.'' @ class_name b @ [CHR 0x27] @ ''>''"

text \<open>The termination measure counts the branches still to be collected.\<close>

definition branches_weight :: "DigitBranch list \<Rightarrow> nat" where
  "branches_weight bs =
     sum_list (map (\<lambda>b. Suc (case branch_root b of None \<Rightarrow> 0 | Some k \<Rightarrow> Suc (weight k))) bs)"

lemma branches_weight_sorted [simp]: "branches_weight (sorted_branches bs) = branches_weight bs"
  unfolding branches_weight_def
  by (metis mset_map mset_sorted_branches sum_mset_sum_list)

lemma branches_weight_size: "branches_weight bs \<le> size_list size bs"
proof (induction bs)
  case (Cons b bs)
  then show ?case by (cases b; cases "branch_root b") (auto simp: branches_weight_def weight_def)
qed (simp add: branches_weight_def)

lemma collect_measure [simp]:
  "Suc (branches_weight bs) < weight (CollectDigitBlockV2 i p g m a r bs t v l)"
  "branches_weight [] = 0"
  "branches_weight (b # bs) =
     Suc ((case branch_root b of None \<Rightarrow> 0 | Some k \<Rightarrow> Suc (weight k)) + branches_weight bs)"
  using branches_weight_size [of bs] by (auto simp: weight_def branches_weight_def)

lemma weight_branch_root: "x \<in> set bs \<Longrightarrow> branch_root x = Some k \<Longrightarrow> Suc (weight k) \<le> size_list size bs"
proof -
  assume "x \<in> set bs" and r: "branch_root x = Some k"
  moreover have "Suc (weight k) \<le> size x" using r by (cases x) (simp add: weight_def)
  ultimately show ?thesis using size_list_estimation' [of x bs "Suc (weight k)" size] by simp
qed

lemma weight_child [simp]: "Some k \<in> set (child_fields b) \<Longrightarrow> Suc (weight k) < weight b"
proof (cases b)
  case (CollectDigitBlockV2 i p g m a r bs t v l)
  moreover assume "Some k \<in> set (child_fields b)"
  ultimately consider x where "x \<in> set bs" "branch_root x = Some k" | "Some k \<in> {t, v, l}"
    by auto
  then show ?thesis
  proof cases
    case 1
    then show ?thesis using weight_branch_root [OF 1] CollectDigitBlockV2
      by (simp add: weight_def [of "CollectDigitBlockV2 i p g m a r bs t v l"])
  next
    case 2
    then show ?thesis using CollectDigitBlockV2 by (auto simp: weight_def)
  qed
qed (auto simp: weight_def)

lemma weight_pos [simp]: "0 < weight b"
  by (simp add: weight_def)

function (sequential) collect_v2 ::
  "FlowBlock \<Rightarrow> string option \<Rightarrow> collect_state \<Rightarrow> collect_state result"
and collect_child_v2 ::
  "string \<Rightarrow> FlowBlock option \<Rightarrow> string option \<Rightarrow> collect_state \<Rightarrow> collect_state result"
and collect_branches_v2 ::
  "DigitBranch list \<Rightarrow> string \<Rightarrow> collect_state \<Rightarrow> collect_state result"
where
  "collect_v2 block owner_menu_id = (\<lambda>s.
     if block_id block \<in> set (collected_ids s)
     then Inl (ValueError (''Block '' @ block_id block @ '' is reused or duplicated.''))
     else run_result
       (case block of
          PlayPromptBlockV2 i p n \<Rightarrow>
            [collect_child_v2 ''Play prompt has no next step.'' n owner_menu_id]
        | CollectDigitBlockV2 i p barge m a r branches t v l \<Rightarrow>
            [collect_branches_v2 (sorted_branches branches) i,
             collect_child_v2 ''No input has no first step.'' t (Some i),
             collect_child_v2 ''Invalid has no first step.'' v (Some i),
             collect_child_v2 ''Return limit has no first step.'' l (Some i)]
        | ScheduleBranchBlockV2 i sid x y z \<Rightarrow>
            [collect_child_v2 ''Open has no first step.'' x owner_menu_id,
             collect_child_v2 ''Closed has no first step.'' y owner_menu_id,
             collect_child_v2 ''Holiday has no first step.'' z owner_menu_id]
        | ReturnToMenuBlockV2 i \<Rightarrow>
            [require (owner_menu_id \<noteq> None) (ValueError ''Return to menu is outside a digit menu.'')]
        | EndCallBlockV2 i \<Rightarrow> []
        | _ \<Rightarrow> [require False (TypeError (''Unsupported block '' @ class_repr block))])
       (append_entry block owner_menu_id s))"
| "collect_child_v2 msg None owner_menu_id = (\<lambda>s. Inl (ValueError msg))"
| "collect_child_v2 msg (Some c) owner_menu_id = collect_v2 c owner_menu_id"
| "collect_branches_v2 [] menu = Inr"
| "collect_branches_v2 (branch # rest) menu = (\<lambda>s. run_result
     [collect_child_v2 (''Digit '' @ [digit branch] @ '' has no first step.'') (branch_root branch)
        (Some menu),
      collect_branches_v2 rest menu] s)"
  by pat_completeness auto
termination
  by (relation "measure (\<lambda>q. case q of Inl (b, _) \<Rightarrow> weight b
      | Inr (Inl (_, c, _)) \<Rightarrow> (case c of None \<Rightarrow> 0 | Some k \<Rightarrow> Suc (weight k))
      | Inr (Inr (bs, _)) \<Rightarrow> Suc (branches_weight bs))")
    (auto split: option.splits)

function (sequential) collect_v3 ::
  "FlowBlock \<Rightarrow> string option \<Rightarrow> bool \<Rightarrow> collect_state \<Rightarrow> collect_state result"
and collect_child_v3 ::
  "string \<Rightarrow> FlowBlock option \<Rightarrow> string option \<Rightarrow> bool \<Rightarrow> collect_state \<Rightarrow> collect_state result"
and collect_branches_v3 ::
  "DigitBranch list \<Rightarrow> string \<Rightarrow> collect_state \<Rightarrow> collect_state result"
where
  "collect_v3 block owner_menu_id parent_is_prompt = (\<lambda>s.
     if block_id block \<in> set (collected_ids s)
     then Inl (ValueError (''Block '' @ block_id block @ '' is reused or duplicated.''))
     else run_result
       (case block of
          PlayPromptBlockV2 i p n \<Rightarrow>
            [collect_child_v3 ''Play prompt has no next step.'' n owner_menu_id True]
        | CollectDigitBlockV2 i p barge m a r branches t v l \<Rightarrow>
            [collect_branches_v3 (sorted_branches branches) i,
             collect_child_v3 ''No input has no first step.'' t (Some i) False,
             collect_child_v3 ''Invalid has no first step.'' v (Some i) False,
             collect_child_v3 ''Return limit has no first step.'' l (Some i) False]
        | ScheduleBranchBlockV2 i sid x y z \<Rightarrow>
            [collect_child_v3 ''Open has no first step.'' x owner_menu_id False,
             collect_child_v3 ''Closed has no first step.'' y owner_menu_id False,
             collect_child_v3 ''Holiday has no first step.'' z owner_menu_id False]
        | RecordMessageBlockV3 i n u \<Rightarrow>
            [require parent_is_prompt
               (ValueError ''Record message must immediately follow a Play prompt greeting.''),
             require (n \<noteq> None \<and> u \<noteq> None) (ValueError ''Record message requires recorded and unavailable paths.''),
             collect_child_v3 ''Record message requires recorded and unavailable paths.'' n owner_menu_id False,
             collect_child_v3 ''Record message requires recorded and unavailable paths.'' u owner_menu_id False]
        | ReturnToMenuBlockV2 i \<Rightarrow>
            [require (owner_menu_id \<noteq> None) (ValueError ''Return to menu is outside a digit menu.'')]
        | EndCallBlockV2 i \<Rightarrow> []
        | _ \<Rightarrow> [require False (TypeError (''Unsupported block '' @ class_repr block))])
       (append_entry block owner_menu_id s))"
| "collect_child_v3 msg None owner_menu_id parent_is_prompt = (\<lambda>s. Inl (ValueError msg))"
| "collect_child_v3 msg (Some c) owner_menu_id parent_is_prompt = collect_v3 c owner_menu_id parent_is_prompt"
| "collect_branches_v3 [] menu = Inr"
| "collect_branches_v3 (branch # rest) menu = (\<lambda>s. run_result
     [collect_child_v3 (''Digit '' @ [digit branch] @ '' has no first step.'') (branch_root branch)
        (Some menu) False,
      collect_branches_v3 rest menu] s)"
  by pat_completeness auto
termination
  by (relation "measure (\<lambda>q. case q of Inl (b, _) \<Rightarrow> weight b
      | Inr (Inl (_, c, _)) \<Rightarrow> (case c of None \<Rightarrow> 0 | Some k \<Rightarrow> Suc (weight k))
      | Inr (Inr (bs, _)) \<Rightarrow> Suc (branches_weight bs))")
    (auto split: option.splits)

function (sequential) collect_v4 ::
  "FlowBlock \<Rightarrow> string option \<Rightarrow> bool \<Rightarrow> collect_state \<Rightarrow> collect_state result"
and collect_child_v4 ::
  "string \<Rightarrow> FlowBlock option \<Rightarrow> string option \<Rightarrow> bool \<Rightarrow> collect_state \<Rightarrow> collect_state result"
and collect_branches_v4 ::
  "DigitBranch list \<Rightarrow> string \<Rightarrow> bool \<Rightarrow> collect_state \<Rightarrow> collect_state result"
where
  "collect_v4 block owner_menu_id prompt_available = (\<lambda>s.
     if block_id block \<in> set (collected_ids s)
     then Inl (ValueError (''Block '' @ block_id block @ '' is reused or duplicated.''))
     else run_result
       (case block of
          PlayPromptBlockV2 i p n \<Rightarrow>
            [collect_child_v4 ''Play prompt has no next step.'' n owner_menu_id (prompt_available \<or> truthy p)]
        | CollectDigitBlockV2 i p barge m a r branches t v l \<Rightarrow>
            [collect_branches_v4 (sorted_branches branches) i (prompt_available \<or> truthy p),
             collect_child_v4 ''No input has no first step.'' t (Some i) (prompt_available \<or> truthy p),
             collect_child_v4 ''Invalid has no first step.'' v (Some i) (prompt_available \<or> truthy p),
             collect_child_v4 ''Return limit has no first step.'' l (Some i) (prompt_available \<or> truthy p)]
        | ScheduleBranchBlockV2 i sid x y z \<Rightarrow>
            [collect_child_v4 ''Open has no first step.'' x owner_menu_id prompt_available,
             collect_child_v4 ''Closed has no first step.'' y owner_menu_id prompt_available,
             collect_child_v4 ''Holiday has no first step.'' z owner_menu_id prompt_available]
        | RecordMessageBlockV3 i n u \<Rightarrow>
            [require prompt_available
               (ValueError ''Record message requires an earlier Play prompt or menu prompt notice on this path.''),
             require (n \<noteq> None \<and> u \<noteq> None) (ValueError ''Record message requires recorded and unavailable paths.''),
             collect_child_v4 ''Record message requires recorded and unavailable paths.'' n owner_menu_id prompt_available,
             collect_child_v4 ''Record message requires recorded and unavailable paths.'' u owner_menu_id prompt_available]
        | ExternalCallBlockV4 i ph tm n x f \<Rightarrow>
            [require prompt_available
               (ValueError ''External call requires an earlier Play prompt or menu prompt notice on this path.''),
             collect_child_v4 ''External call completed path has no first step.'' n owner_menu_id prompt_available,
             collect_child_v4 ''External call not connected path has no first step.'' x owner_menu_id prompt_available,
             collect_child_v4 ''External call system failure path has no first step.'' f owner_menu_id prompt_available]
        | ReturnToMenuBlockV2 i \<Rightarrow>
            [require (owner_menu_id \<noteq> None) (ValueError ''Return to menu is outside a digit menu.'')]
        | EndCallBlockV2 i \<Rightarrow> [])
       (append_entry block owner_menu_id s))"
| "collect_child_v4 msg None owner_menu_id prompt_available = (\<lambda>s. Inl (ValueError msg))"
| "collect_child_v4 msg (Some c) owner_menu_id prompt_available = collect_v4 c owner_menu_id prompt_available"
| "collect_branches_v4 [] menu prompt_available = Inr"
| "collect_branches_v4 (branch # rest) menu prompt_available = (\<lambda>s. run_result
     [collect_child_v4 (''Digit '' @ [digit branch] @ '' has no first step.'') (branch_root branch)
        (Some menu) prompt_available,
      collect_branches_v4 rest menu prompt_available] s)"
  by pat_completeness auto
termination
  by (relation "measure (\<lambda>q. case q of Inl (b, _) \<Rightarrow> weight b
      | Inr (Inl (_, c, _)) \<Rightarrow> (case c of None \<Rightarrow> 0 | Some k \<Rightarrow> Suc (weight k))
      | Inr (Inr (bs, _)) \<Rightarrow> Suc (branches_weight bs))")
    (auto split: option.splits)

declare collect_v2.simps [simp del] collect_v3.simps [simp del] collect_v4.simps [simp del]

end
