(* ===== verification/Collect_Laws.thy ===== *)
theory Collect_Laws
  imports Validation_Laws Flow_Collect
begin

text \<open>
  What the first pass of the compilers computes. The three \<open>collect\<close> routines are instances of
  the interface \<open>tree_collector\<close>; inside it the pass is proved to succeed exactly on the
  collectable trees with unique block identifiers, and then to list the blocks of the tree in
  pre-order, each with the innermost menu above it. Every tree that a publication validator
  accepts is collectable.
\<close>

section \<open>The entries of a tree\<close>

definition child_owner :: "FlowBlock \<Rightarrow> string option \<Rightarrow> string option" where
  "child_owner b ow = (if is_CollectDigit b then Some (block_id b) else ow)"

function entries_of :: "string option \<Rightarrow> FlowBlock \<Rightarrow> (FlowBlock \<times> string option) list" where
  "entries_of ow b = (b, ow) # concat (map (entries_of (child_owner b ow)) (children b))"
  by pat_completeness auto
termination
  by (relation "measure (weight \<circ> snd)") (auto dest: weight_owned_less)

declare entries_of.simps [simp del]

abbreviation ids_of :: "FlowBlock \<Rightarrow> string list" where
  "ids_of b \<equiv> map block_id (preorder b)"

lemma ids_of_unfold: "ids_of b = block_id b # concat (map ids_of (children b))"
  by (subst preorder.simps) (simp add: map_concat comp_def)

lemma map_fst_entries_of: "map fst (entries_of ow b) = preorder b"
proof (induction b arbitrary: ow rule: owned_induct)
  case (step b)
  then show ?case
    by (simp add: entries_of.simps [of ow b] preorder.simps [of b] map_concat)
      (rule arg_cong [where f = concat], simp)
qed

text \<open>
  A tree is collectable if every block is allowed where it stands and no child is missing.
  \<open>allowed\<close> takes the owning menu, the state of the recording notice and the block.
\<close>

function collectable ::
  "(FlowBlock \<Rightarrow> bool \<Rightarrow> bool) \<Rightarrow> (string option \<Rightarrow> bool \<Rightarrow> FlowBlock \<Rightarrow> bool) \<Rightarrow> string option \<Rightarrow> bool \<Rightarrow>
   FlowBlock \<Rightarrow> bool" where
  "collectable notice allowed ow g b \<longleftrightarrow>
     allowed ow g b \<and> None \<notin> set (child_fields b) \<and>
     (\<forall>k\<in>set (owned b). collectable notice allowed (child_owner b ow) (notice b g) k)"
  by pat_completeness auto
termination
  by (relation "measure (\<lambda>(_, _, _, _, b). weight b)") (auto dest: weight_owned_less)

declare collectable.simps [simp del]

section \<open>The interface of the first pass\<close>

definition extends :: "(FlowBlock \<times> string option) list \<Rightarrow> string list \<Rightarrow> collect_state \<Rightarrow> collect_state \<Rightarrow> bool" where
  "extends es is s s' \<longleftrightarrow>
     distinct is \<and> set is \<inter> set (collected_ids s) = {} \<and>
     s' = \<lparr>entries = entries s @ es, collected_ids = rev is @ collected_ids s\<rparr>"

lemma extends_append:
  "(\<exists>s1. extends es is s s1 \<and> extends es' is' s1 s') \<longleftrightarrow> extends (es @ es') (is @ is') s s'"
  by (auto simp: extends_def)

locale tree_collector =
  fixes collect :: "FlowBlock \<Rightarrow> string option \<Rightarrow> bool \<Rightarrow> collect_state \<Rightarrow> collect_state result"
    and notice :: "FlowBlock \<Rightarrow> bool \<Rightarrow> bool"
    and allowed :: "string option \<Rightarrow> bool \<Rightarrow> FlowBlock \<Rightarrow> bool"
  assumes collect_seen: "block_id b \<in> set (collected_ids s) \<Longrightarrow> \<not> is_ok (collect b ow g s)"
    and collect_refused: "\<not> (allowed ow g b \<and> None \<notin> set (child_fields b)) \<Longrightarrow> \<not> is_ok (collect b ow g s)"
    and collect_below: "block_id b \<notin> set (collected_ids s) \<Longrightarrow> allowed ow g b \<Longrightarrow>
      None \<notin> set (child_fields b) \<Longrightarrow>
      collect b ow g s = run_result (map (\<lambda>k. collect k (child_owner b ow) (notice b g)) (children b))
        (append_entry b ow s)"
begin

lemma collect_list:
  assumes "\<And>k s s'. k \<in> set ks \<Longrightarrow>
    collect k ow g s = Inr s' \<longleftrightarrow> collectable notice allowed ow g k \<and> extends (entries_of ow k) (ids_of k) s s'"
  shows "run_result (map (\<lambda>k. collect k ow g) ks) s = Inr s' \<longleftrightarrow>
    (\<forall>k\<in>set ks. collectable notice allowed ow g k) \<and>
    extends (concat (map (entries_of ow) ks)) (concat (map ids_of ks)) s s'"
  using assms
proof (induction ks arbitrary: s s')
  case Nil
  then show ?case by (auto simp: extends_def)
next
  case (Cons k ks)
  have "run_result (map (\<lambda>k. collect k ow g) (k # ks)) s = Inr s' \<longleftrightarrow>
      (\<exists>s1. collect k ow g s = Inr s1 \<and> run_result (map (\<lambda>k. collect k ow g) ks) s1 = Inr s')"
    by (simp add: bind_result_Inr)
  also have "\<dots> \<longleftrightarrow> (\<forall>k\<in>set (k # ks). collectable notice allowed ow g k) \<and>
      (\<exists>s1. extends (entries_of ow k) (ids_of k) s s1 \<and>
        extends (concat (map (entries_of ow) ks)) (concat (map ids_of ks)) s1 s')"
    using Cons by auto
  finally show ?case by (simp only: extends_append) simp
qed

theorem collect_spec:
  "collect b ow g s = Inr s' \<longleftrightarrow>
     collectable notice allowed ow g b \<and> extends (entries_of ow b) (ids_of b) s s'"
proof (induction b arbitrary: ow g s s' rule: owned_induct)
  case (step b)
  show ?case
  proof (cases "block_id b \<in> set (collected_ids s) \<or> \<not> (allowed ow g b \<and> None \<notin> set (child_fields b))")
    case True
    then have "\<not> is_ok (collect b ow g s)" using collect_seen collect_refused by blast
    moreover have "\<not> (collectable notice allowed ow g b \<and> extends (entries_of ow b) (ids_of b) s s')"
      using True by (auto simp: collectable.simps [of notice allowed ow g b] extends_def ids_of_unfold [of b])
    ultimately show ?thesis by (auto simp: is_ok_iff)
  next
    case False
    have list: "run_result (map (\<lambda>k. collect k (child_owner b ow) (notice b g)) (children b)) t = Inr s' \<longleftrightarrow>
        (\<forall>k\<in>set (children b). collectable notice allowed (child_owner b ow) (notice b g) k) \<and>
        extends (concat (map (entries_of (child_owner b ow)) (children b))) (concat (map ids_of (children b))) t s'" for t
      by (rule collect_list) (simp add: step)
    have "extends [(b, ow)] [block_id b] s t \<longleftrightarrow> t = append_entry b ow s" for t
      using False by (auto simp: extends_def append_entry_def set_add_def)
    then have "extends (entries_of ow b) (ids_of b) s s' \<longleftrightarrow>
        extends (concat (map (entries_of (child_owner b ow)) (children b))) (concat (map ids_of (children b)))
          (append_entry b ow s) s'"
      using extends_append [of "[(b, ow)]" "[block_id b]" s _ _ s']
      by (simp add: entries_of.simps [of ow b] ids_of_unfold [of b])
    then show ?thesis using False list
      by (simp add: collect_below collectable.simps [of notice allowed ow g b])
  qed
qed

corollary collect_root:
  "collect b None False empty_collect = Inr s \<longleftrightarrow>
     collectable notice allowed None False b \<and> distinct (ids_of b) \<and>
     s = \<lparr>entries = entries_of None b, collected_ids = rev (ids_of b)\<rparr>"
  by (auto simp: collect_spec extends_def empty_collect_def)

corollary collect_root_ok:
  "collectable notice allowed None False b \<Longrightarrow> distinct (ids_of b) \<Longrightarrow>
   collect b None False empty_collect = Inr \<lparr>entries = entries_of None b, collected_ids = rev (ids_of b)\<rparr>"
  using collect_root by blast

end

section \<open>The three passes\<close>

lemma somes_present: "None \<noteq> x \<Longrightarrow> somes (x # xs) = the x # somes xs"
  by (cases x) auto

definition allowed_v2 :: "string option \<Rightarrow> bool \<Rightarrow> FlowBlock \<Rightarrow> bool" where
  "allowed_v2 ow g b \<longleftrightarrow> supported_v2 b \<and> (is_ReturnToMenu b \<longrightarrow> ow \<noteq> None)"

definition allowed_v3 :: "string option \<Rightarrow> bool \<Rightarrow> FlowBlock \<Rightarrow> bool" where
  "allowed_v3 ow g b \<longleftrightarrow>
     supported_v3 b \<and> (is_ReturnToMenu b \<longrightarrow> ow \<noteq> None) \<and> (is_RecordMessage b \<longrightarrow> g)"

definition allowed_v4 :: "string option \<Rightarrow> bool \<Rightarrow> FlowBlock \<Rightarrow> bool" where
  "allowed_v4 ow g b \<longleftrightarrow>
     (is_ReturnToMenu b \<longrightarrow> ow \<noteq> None) \<and> (is_RecordMessage b \<or> is_ExternalCall b \<longrightarrow> g)"

definition run_v2 where "run_v2 b ow (g :: bool) = collect_v2 b ow"

lemma collect_branches_v2_below:
  "None \<notin> set (map branch_root bs) \<Longrightarrow>
   collect_branches_v2 bs menu = run_result (map (\<lambda>k. collect_v2 k (Some menu)) (somes (map branch_root bs)))"
proof (induction bs)
  case (Cons b bs)
  then obtain k where "branch_root b = Some k" by (cases "branch_root b") auto
  then show ?case using Cons by (intro ext) auto
qed simp

lemma collect_branches_v2_ok:
  "collect_branches_v2 bs menu s = Inr s' \<Longrightarrow> None \<notin> set (map branch_root bs)"
proof (induction bs arbitrary: s)
  case (Cons b bs)
  then show ?case by (cases "branch_root b") (auto simp: bind_result_Inr)
qed simp

lemma collect_branches_v3_below:
  "None \<notin> set (map branch_root bs) \<Longrightarrow>
   collect_branches_v3 bs menu = run_result (map (\<lambda>k. collect_v3 k (Some menu) False) (somes (map branch_root bs)))"
proof (induction bs)
  case (Cons b bs)
  then obtain k where "branch_root b = Some k" by (cases "branch_root b") auto
  then show ?case using Cons by (intro ext) auto
qed simp

lemma collect_branches_v3_ok:
  "collect_branches_v3 bs menu s = Inr s' \<Longrightarrow> None \<notin> set (map branch_root bs)"
proof (induction bs arbitrary: s)
  case (Cons b bs)
  then show ?case by (cases "branch_root b") (auto simp: bind_result_Inr)
qed simp

lemma collect_branches_v4_below:
  "None \<notin> set (map branch_root bs) \<Longrightarrow>
   collect_branches_v4 bs menu g = run_result (map (\<lambda>k. collect_v4 k (Some menu) g) (somes (map branch_root bs)))"
proof (induction bs)
  case (Cons b bs)
  then obtain k where "branch_root b = Some k" by (cases "branch_root b") auto
  then show ?case using Cons by (intro ext) auto
qed simp

lemma collect_branches_v4_ok:
  "collect_branches_v4 bs menu g s = Inr s' \<Longrightarrow> None \<notin> set (map branch_root bs)"
proof (induction bs arbitrary: s)
  case (Cons b bs)
  then show ?case by (cases "branch_root b") (auto simp: bind_result_Inr)
qed simp


lemma collect_child_v2_present:
  "None \<noteq> c \<Longrightarrow> collect_child_v2 msg c ow = collect_v2 (the c) ow"
  by (cases c) auto

lemma collect_v2_seen: "block_id b \<in> set (collected_ids s) \<Longrightarrow> \<not> is_ok (run_v2 b ow g s)"
  by (simp add: run_v2_def collect_v2.simps)

lemma collect_v2_below:
  assumes "block_id b \<notin> set (collected_ids s)" "allowed_v2 ow g b" "None \<notin> set (child_fields b)"
  shows "run_v2 b ow g s =
    run_result (map (\<lambda>k. run_v2 k (child_owner b ow) (notice_v2 b g)) (children b)) (append_entry b ow s)"
  using assms
  by (cases b) (auto simp: run_v2_def collect_v2.simps allowed_v2_def supported_v2_def child_owner_def notice_v2_def children_def
      collect_branches_v2_below collect_child_v2_present
      somes_present run_result_append require_def comp_def)

lemma collect_v2_ok:
  "run_v2 b ow g s = Inr s' \<Longrightarrow> allowed_v2 ow g b \<and> None \<notin> set (child_fields b)"
  by (cases b) (auto simp: run_v2_def collect_v2.simps allowed_v2_def supported_v2_def require_def bind_result_Inr
      split: if_splits dest: collect_branches_v2_ok)

lemma collect_v2_refused:
  "\<not> (allowed_v2 ow g b \<and> None \<notin> set (child_fields b)) \<Longrightarrow> \<not> is_ok (run_v2 b ow g s)"
  using collect_v2_ok by (auto simp: is_ok_iff)

interpretation c2: tree_collector run_v2 notice_v2 allowed_v2
  by unfold_locales
    (rule collect_v2_seen collect_v2_refused collect_v2_below; assumption)+

lemma collect_child_v3_present:
  "None \<noteq> c \<Longrightarrow> collect_child_v3 msg c ow g = collect_v3 (the c) ow g"
  by (cases c) auto

lemma collect_v3_seen: "block_id b \<in> set (collected_ids s) \<Longrightarrow> \<not> is_ok (collect_v3 b ow g s)"
  by (simp add: collect_v3.simps)

lemma collect_v3_below:
  assumes "block_id b \<notin> set (collected_ids s)" "allowed_v3 ow g b" "None \<notin> set (child_fields b)"
  shows "collect_v3 b ow g s =
    run_result (map (\<lambda>k. collect_v3 k (child_owner b ow) (notice_v3 b g)) (children b)) (append_entry b ow s)"
  using assms
  by (cases b) (auto simp: collect_v3.simps allowed_v3_def supported_v3_def child_owner_def children_def
      collect_branches_v3_below collect_child_v3_present
      somes_present run_result_append require_def comp_def)

lemma collect_v3_ok:
  "collect_v3 b ow g s = Inr s' \<Longrightarrow> allowed_v3 ow g b \<and> None \<notin> set (child_fields b)"
  by (cases b) (auto simp: collect_v3.simps allowed_v3_def supported_v3_def require_def bind_result_Inr
      split: if_splits dest: collect_branches_v3_ok)

lemma collect_v3_refused:
  "\<not> (allowed_v3 ow g b \<and> None \<notin> set (child_fields b)) \<Longrightarrow> \<not> is_ok (collect_v3 b ow g s)"
  using collect_v3_ok by (auto simp: is_ok_iff)

interpretation c3: tree_collector collect_v3 notice_v3 allowed_v3
  by unfold_locales
    (rule collect_v3_seen collect_v3_refused collect_v3_below; assumption)+

lemma collect_child_v4_present:
  "None \<noteq> c \<Longrightarrow> collect_child_v4 msg c ow g = collect_v4 (the c) ow g"
  by (cases c) auto

lemma collect_v4_seen: "block_id b \<in> set (collected_ids s) \<Longrightarrow> \<not> is_ok (collect_v4 b ow g s)"
  by (simp add: collect_v4.simps)

lemma collect_v4_below:
  assumes "block_id b \<notin> set (collected_ids s)" "allowed_v4 ow g b" "None \<notin> set (child_fields b)"
  shows "collect_v4 b ow g s =
    run_result (map (\<lambda>k. collect_v4 k (child_owner b ow) (notice_v4 b g)) (children b)) (append_entry b ow s)"
  using assms
  by (cases b) (auto simp: collect_v4.simps allowed_v4_def child_owner_def notice_v4_def children_def
      collect_branches_v4_below collect_child_v4_present
      somes_present run_result_append require_def comp_def)

lemma collect_v4_ok:
  "collect_v4 b ow g s = Inr s' \<Longrightarrow> allowed_v4 ow g b \<and> None \<notin> set (child_fields b)"
  by (cases b) (auto simp: collect_v4.simps allowed_v4_def require_def bind_result_Inr
      split: if_splits dest: collect_branches_v4_ok)

lemma collect_v4_refused:
  "\<not> (allowed_v4 ow g b \<and> None \<notin> set (child_fields b)) \<Longrightarrow> \<not> is_ok (collect_v4 b ow g s)"
  using collect_v4_ok by (auto simp: is_ok_iff)

interpretation c4: tree_collector collect_v4 notice_v4 allowed_v4
  by unfold_locales
    (rule collect_v4_seen collect_v4_refused collect_v4_below; assumption)+

section \<open>Accepted trees are collectable\<close>

lemma arm_inherits:
  assumes "a \<in> set (arms notice c b)"
  shows "owner (arm_context a) = child_owner b (owner c) \<and> greeted (arm_context a) = notice b (greeted c)"
  using assms by (cases b) (auto simp: child_owner_def inherit_arm_def menu_arm_def Let_def)

lemma tree_ok_collectable:
  assumes allowed: "\<And>c b. checks c b = [] \<Longrightarrow> allowed (owner c) (greeted c) b"
  shows "tree_ok notice checks c b \<Longrightarrow> collectable notice allowed (owner c) (greeted c) b"
proof (induction b arbitrary: c rule: owned_induct)
  case (step b)
  have ok: "checks c b = []" "None \<notin> set (child_fields b)"
    and below: "\<And>a k. a \<in> set (arms notice c b) \<Longrightarrow> arm_child a = Some k \<Longrightarrow> tree_ok notice checks (arm_context a) k"
    using step.prems by (auto simp: tree_ok_unfold [of notice checks c b])
  have "collectable notice allowed (child_owner b (owner c)) (notice b (greeted c)) k" if k: "k \<in> set (owned b)" for k
  proof -
    obtain a where a: "a \<in> set (arms notice c b)" "arm_child a = Some k" using owned_arm [OF k] .
    then show ?thesis using step.IH [OF k below [OF a]] arm_inherits [OF a(1)] by simp
  qed
  then show ?case using ok allowed by (subst collectable.simps) auto
qed

lemma allowed_checks_v2: "checks_v2 P S c b = [] \<Longrightarrow> allowed_v2 (owner c) (greeted c) b"
  by (cases b) (auto simp: checks_v2_def allowed_v2_def place_errors_def split: if_splits)

lemma allowed_checks_v3: "checks_v3 P S c b = [] \<Longrightarrow> allowed_v3 (owner c) (greeted c) b"
  by (cases b) (auto simp: checks_v3_def allowed_v3_def place_errors_def split: if_splits)

lemma allowed_checks_v4: "checks_v4 P S c b = [] \<Longrightarrow> allowed_v4 (owner c) (greeted c) b"
  by (cases b) (auto simp: checks_v4_def allowed_v4_def place_errors_def split: if_splits)

lemma accepted_distinct: "tree_accepted notice checks sizes limit b \<Longrightarrow> distinct (ids_of b)"
  by (simp add: tree_accepted_def distinct_map_preorder)

lemma accepted_collectable:
  assumes "\<And>c b. checks c b = [] \<Longrightarrow> allowed (owner c) (greeted c) b"
    "tree_accepted notice checks sizes limit b"
  shows "collectable notice allowed None False b"
  using tree_ok_collectable [of checks allowed notice root_context b] assms
  by (simp add: tree_accepted_def root_context_def)

section \<open>Positions on the tape\<close>

text \<open>\<open>before xs x y\<close>: an occurrence of \<open>x\<close> precedes one of \<open>y\<close>.\<close>

definition before :: "'a list \<Rightarrow> 'a \<Rightarrow> 'a \<Rightarrow> bool" where
  "before xs x y \<longleftrightarrow> (\<exists>us vs. xs = us @ vs \<and> x \<in> set us \<and> y \<in> set vs)"

lemma beforeI: "x \<in> set us \<Longrightarrow> y \<in> set vs \<Longrightarrow> before (us @ vs) x y"
  by (auto simp: before_def)

lemma before_Cons: "before xs x y \<Longrightarrow> before (z # xs) x y"
  unfolding before_def by (metis Cons_eq_appendI insertCI list.simps(15))

lemma before_hd: "y \<in> set xs \<Longrightarrow> before (x # xs) x y"
  using beforeI [of x "[x]" y xs] by simp

lemma before_append: "before xs x y \<Longrightarrow> before (us @ xs @ vs) x y"
  unfolding before_def by (metis Un_iff append.assoc set_append)

lemma before_concat:
  assumes "k \<in> set ks" "before (f k) x y"
  shows "before (concat (map f ks)) x y"
proof -
  from assms(1) obtain us vs where "ks = us @ k # vs" by (meson split_list)
  then show ?thesis using before_append [OF assms(2)] by simp
qed

lemma before_index:
  assumes "before xs x y" "distinct (map f xs)"
  shows "index_of (f x) (map f xs) < index_of (f y) (map f xs)" "index_of (f y) (map f xs) < length xs"
proof -
  from assms(1) obtain us vs where xs: "xs = us @ vs" "x \<in> set us" "y \<in> set vs"
    by (auto simp: before_def)
  have "f y \<notin> set (map f us)" using assms(2) xs by auto
  then show "index_of (f x) (map f xs) < index_of (f y) (map f xs)"
    using xs index_of_less [of "f x" "map f us"] by (auto simp: index_of_append)
  show "index_of (f y) (map f xs) < length xs"
    using xs index_of_less [of "f y" "map f xs"] by auto
qed

lemma entries_of_self [simp]: "(b, ow) \<in> set (entries_of ow b)"
  by (subst entries_of.simps) simp

lemma set_entries_of:
  "set (entries_of ow b) = insert (b, ow) (\<Union>k\<in>set (owned b). set (entries_of (child_owner b ow) k))"
  by (subst entries_of.simps) simp

text \<open>A block stands before every block it owns.\<close>

lemma entries_forward:
  "(x, o') \<in> set (entries_of ow b) \<Longrightarrow> k \<in> set (owned x) \<Longrightarrow>
   before (entries_of ow b) (x, o') (k, child_owner x o')"
proof (induction b arbitrary: ow rule: owned_induct)
  case (step b)
  let ?E = "entries_of (child_owner b ow)"
  show ?case
  proof (cases "(x, o') = (b, ow)")
    case True
    then have "(k, child_owner x o') \<in> set (concat (map ?E (children b)))"
      using step.prems(2) by (auto intro!: bexI [of _ k])
    then show ?thesis using True by (simp add: entries_of.simps [of ow b] before_hd)
  next
    case False
    then obtain c where c: "c \<in> set (owned b)" "(x, o') \<in> set (?E c)"
      using step.prems(1) by (auto simp: set_entries_of [of ow b])
    then have "before (?E c) (x, o') (k, child_owner x o')" using step.IH step.prems(2) by blast
    then show ?thesis using before_concat [of c "children b" ?E] c(1)
      by (simp add: entries_of.simps [of ow b] before_Cons)
  qed
qed

text \<open>
  A return stands after its menu and, in a tree that the validators accept, before the
  return-limit path of that menu.
\<close>

fun limit_child :: "FlowBlock \<Rightarrow> FlowBlock option" where
  "limit_child (CollectDigitBlockV2 i p g m a r bs t v l) = l"
| "limit_child _ = None"

definition return_between :: "(FlowBlock \<times> string option) list \<Rightarrow> FlowBlock \<times> string option \<Rightarrow> bool" where
  "return_between es x \<longleftrightarrow>
     (\<exists>menu o' l. is_CollectDigit menu \<and> limit_child menu = Some l \<and> snd x = Some (block_id menu) \<and>
        before es (menu, o') x \<and> before es x (l, snd x))"

lemma return_between_concat:
  "k \<in> set ks \<Longrightarrow> return_between (f k) x \<Longrightarrow> return_between (z # concat (map f ks)) x"
  unfolding return_between_def by (blast intro: before_concat before_Cons)

lemma menu_child:
  assumes "is_CollectDigit b" "limit_child b = Some l" "k \<in> set (owned b)"
  obtains ks where "children b = ks @ [l]" "k \<in> set ks"
  | a where "a \<in> set (arms notice c b)" "arm_child a = Some k"
      "forbidden_owner (arm_context a) = Some (block_id b)"
proof (cases b)
  case (CollectDigitBlockV2 i p g m a r bs t v l')
  let ?ks = "somes (map branch_root (sorted_branches bs) @ [t, v])"
  have ks: "children b = ?ks @ [l]"
    using assms(2) CollectDigitBlockV2
    by (simp add: children_def comp_def) (metis append.assoc append_Cons append_Nil somes.simps somes_append)
  show ?thesis
  proof (cases "k \<in> set ?ks")
    case True
    then show ?thesis using ks that(1) by blast
  next
    case False
    then have "k = l" using ks assms(3) set_children [of b] by auto
    then show ?thesis
      using assms(2) CollectDigitBlockV2 by (intro that(2)) (auto simp: menu_arm_def Let_def)
  qed
qed (use assms in auto)

lemma return_between_menu:
  assumes "is_CollectDigit b" "limit_child b = Some l" "children b = ks @ [l]" "k \<in> set ks"
    "x \<in> set (entries_of (Some (block_id b)) k)" "snd x = Some (block_id b)"
  shows "return_between (entries_of ow b) x"
proof -
  let ?E = "entries_of (Some (block_id b))"
  have E: "entries_of ow b = (b, ow) # concat (map ?E ks) @ ?E l"
    using assms by (simp add: entries_of.simps [of ow b] child_owner_def)
  have x: "x \<in> set (concat (map ?E ks))" using assms(4,5) by auto
  then have "before (entries_of ow b) x (l, Some (block_id b))"
    unfolding E by (intro before_Cons beforeI) auto
  moreover have "before (entries_of ow b) (b, ow) x"
    unfolding E using x by (intro before_hd) auto
  ultimately show ?thesis unfolding return_between_def using assms by metis
qed

lemma return_between_owned:
  assumes checks: "\<And>c i. checks c (ReturnToMenuBlockV2 i) = [] \<Longrightarrow> owner c \<noteq> None \<and> owner c \<noteq> forbidden_owner c"
  shows "tree_ok notice checks c b \<Longrightarrow> (ReturnToMenuBlockV2 i, o') \<in> set (entries_of (owner c) b) \<Longrightarrow>
    o' = owner c \<and> o' \<noteq> None \<and> o' \<noteq> forbidden_owner c \<or>
    return_between (entries_of (owner c) b) (ReturnToMenuBlockV2 i, o')"
proof (induction b arbitrary: c rule: owned_induct)
  case (step b)
  let ?x = "(ReturnToMenuBlockV2 i, o')" and ?E = "entries_of (child_owner b (owner c))"
  have ok: "checks c b = []" "None \<notin> set (child_fields b)"
    and below: "\<And>a k. a \<in> set (arms notice c b) \<Longrightarrow> arm_child a = Some k \<Longrightarrow> tree_ok notice checks (arm_context a) k"
    using step.prems(1) by (auto simp: tree_ok_unfold [of notice checks c b])
  show ?case
  proof (cases "?x = (b, owner c)")
    case True
    then show ?thesis using checks [of c i] ok(1) by auto
  next
    case False
    have IH: "o' = owner (arm_context a) \<and> o' \<noteq> None \<and> o' \<noteq> forbidden_owner (arm_context a) \<or>
        return_between (entries_of (owner c) b) ?x"
      if "a \<in> set (arms notice c b)" "arm_child a = Some k" "?x \<in> set (?E k)" for a k
    proof -
      have k: "k \<in> set (owned b)" using that arm_child_owned by blast
      show ?thesis
        using step.IH [OF k below [OF that(1,2)]] that(3) arm_inherits [OF that(1)]
          return_between_concat [of k "children b" ?E ?x "(b, owner c)"] k
        by (auto simp: entries_of.simps [of "owner c" b])
    qed
    obtain k where k: "k \<in> set (owned b)" "?x \<in> set (?E k)"
      using False step.prems(2) by (auto simp: set_entries_of [of "owner c" b])
    obtain a where a: "a \<in> set (arms notice c b)" "arm_child a = Some k" using owned_arm [OF k(1)] .
    show ?thesis
    proof (cases "is_CollectDigit b")
      case False
      then have "owner (arm_context a) = owner c" "forbidden_owner (arm_context a) = forbidden_owner c"
        using a(1) by (cases b; auto simp: inherit_arm_def Let_def)+
      then show ?thesis using IH [OF a k(2)] by simp
    next
      case True
      then obtain l where l: "limit_child b = Some l"
        using ok(2) by (cases "limit_child b") (cases b, auto)+
      have menu: "child_owner b (owner c) = Some (block_id b)" using True by (simp add: child_owner_def)
      from True l k(1) show ?thesis
      proof (cases rule: menu_child [where notice = notice and c = c])
        case (1 ks)
        then show ?thesis
          using return_between_menu [OF True l 1, of ?x] IH [OF a k(2)] k(2) menu arm_inherits [OF a(1)] by auto
      next
        case (2 a')
        then show ?thesis using IH [OF 2(1,2) k(2)] arm_inherits [OF 2(1)] menu by auto
      qed
    qed
  qed
qed

end
