(* ===== verification/Flow_Compiler.thy ===== *)
theory Flow_Compiler
  imports Flow_Collect
begin

text \<open>
  The compilers from the owned flow tree to the runtime tape
  (\<^verbatim>\<open>src/server/app/compiler_v2.py\<close>, \<^verbatim>\<open>compiler_v3.py\<close>, \<^verbatim>\<open>compiler_v4.py\<close>). A compiler
  first collects the blocks of the tree in pre-order, with the menu that owns each of them, then
  emits one instruction per block with the program counters looked up in a dictionary, and (V3, V4)
  computes the worst-case duration of a session by a memoised search over program counter and
  menu-return counts, and rejects a flow that may exceed ten minutes.

  The SHA-256 digest is a parameter \<open>sha256\<close> from bytes to the hexadecimal digest. The
  memo table of the search has no entry here: it is filled only with results of completed calls,
  whose value does not depend on the calls that are active (lemma \<open>max_cost_active\<close> of theory
  \<open>Compiler_Laws\<close>).
\<close>

section \<open>Emitting the instructions\<close>

text \<open>
  An instruction is a dictionary with the keys \<^verbatim>\<open>pc\<close>, \<^verbatim>\<open>block_id\<close> and \<^verbatim>\<open>op\<close> and
  the fields of its operation. \<open>UnsupportedOp\<close> stands for an operation without further fields
  other than \<^verbatim>\<open>end_call\<close>. The last field of \<open>CollectDigitOp\<close> is the optional key
  \<^verbatim>\<open>allow_prompt_barge_in\<close>.
\<close>

datatype operation =
    PlayPromptOp "string option" nat
  | CollectDigitOp "string option" nat nat nat "(char \<times> nat) list" nat nat nat "bool option"
  | ScheduleBranchOp "string option" nat nat nat
  | ReturnToMenuOp nat
  | EndCallOp
  | RecordMessageOp nat "string option" nat nat
  | ExternalCallOp string nat nat nat nat
  | UnsupportedOp string

record instruction =
  pc :: nat
  instruction_block :: string
  op :: operation

definition program_counter :: "(FlowBlock \<times> string option) list \<Rightarrow> string \<Rightarrow> nat option" where
  "program_counter es = map_of (rev (zip (map (block_id \<circ> fst) es) [0..<length es]))"

definition lookup_key :: "(string \<Rightarrow> nat option) \<Rightarrow> string \<Rightarrow> nat result" where
  "lookup_key counters k = (case counters k of None \<Rightarrow> Inl (KeyError k) | Some n \<Rightarrow> Inr n)"

definition pc_of :: "(string \<Rightarrow> nat option) \<Rightarrow> FlowBlock option \<Rightarrow> nat result" where
  "pc_of counters b =
     (case b of None \<Rightarrow> Inl (AttributeError ''block_id'') | Some k \<Rightarrow> lookup_key counters (block_id k))"

definition emit_play :: "(string \<Rightarrow> nat option) \<Rightarrow> string option \<Rightarrow> FlowBlock option \<Rightarrow> operation result" where
  "emit_play counters p n = bind_result (pc_of counters n) (\<lambda>next_pc. Inr (PlayPromptOp p next_pc))"

definition emit_collect ::
  "(string \<Rightarrow> nat option) \<Rightarrow> string option \<Rightarrow> nat \<Rightarrow> nat \<Rightarrow> nat \<Rightarrow> DigitBranch list \<Rightarrow> FlowBlock option \<Rightarrow>
   FlowBlock option \<Rightarrow> FlowBlock option \<Rightarrow> bool option \<Rightarrow> operation result" where
  "emit_collect counters p timeout_ms maximum_attempts maximum_menu_returns branches t v l barge =
     bind_result (map_result (\<lambda>branch. bind_result (pc_of counters (branch_root branch))
         (\<lambda>target_pc. Inr (digit branch, target_pc))) (sorted_branches branches)) (\<lambda>bs.
     bind_result (pc_of counters t) (\<lambda>on_timeout_pc.
     bind_result (pc_of counters v) (\<lambda>on_invalid_pc.
     bind_result (pc_of counters l) (\<lambda>on_return_limit_pc.
     Inr (CollectDigitOp p timeout_ms maximum_attempts maximum_menu_returns bs
            on_timeout_pc on_invalid_pc on_return_limit_pc barge)))))"

definition emit_schedule ::
  "(string \<Rightarrow> nat option) \<Rightarrow> string option \<Rightarrow> FlowBlock option \<Rightarrow> FlowBlock option \<Rightarrow> FlowBlock option \<Rightarrow>
   operation result" where
  "emit_schedule counters sid x y z =
     bind_result (pc_of counters x) (\<lambda>on_open_pc.
     bind_result (pc_of counters y) (\<lambda>on_closed_pc.
     bind_result (pc_of counters z) (\<lambda>on_holiday_pc.
     Inr (ScheduleBranchOp sid on_open_pc on_closed_pc on_holiday_pc))))"

definition emit_record ::
  "(string \<Rightarrow> nat option) \<Rightarrow> RecordingBehavior \<Rightarrow> FlowBlock option \<Rightarrow> FlowBlock option \<Rightarrow> operation result" where
  "emit_record counters recording n u =
     bind_result (pc_of counters n) (\<lambda>next_pc.
     bind_result (pc_of counters u) (\<lambda>on_unavailable_pc.
     Inr (RecordMessageOp (maximum_duration_seconds recording * 1000) (finish_key recording)
            next_pc on_unavailable_pc)))"

definition emit_external ::
  "(string \<Rightarrow> nat option) \<Rightarrow> string \<Rightarrow> nat \<Rightarrow> FlowBlock option \<Rightarrow> FlowBlock option \<Rightarrow> FlowBlock option \<Rightarrow>
   operation result" where
  "emit_external counters phone_number answer_timeout_seconds n x f =
     bind_result (pc_of counters n) (\<lambda>next_pc.
     bind_result (pc_of counters x) (\<lambda>on_not_connected_pc.
     bind_result (pc_of counters f) (\<lambda>on_system_failure_pc.
     Inr (ExternalCallOp phone_number (answer_timeout_seconds * 1000)
            next_pc on_not_connected_pc on_system_failure_pc))))"

definition emit_return :: "(string \<Rightarrow> nat option) \<Rightarrow> string option \<Rightarrow> operation result" where
  "emit_return counters owner_menu_id =
     (case owner_menu_id of
        None \<Rightarrow> Inl (KeyError ''None'')
      | Some menu \<Rightarrow> bind_result (lookup_key counters menu) (\<lambda>menu_pc. Inr (ReturnToMenuOp menu_pc)))"

fun emit_v2 :: "(string \<Rightarrow> nat option) \<Rightarrow> FlowBlock \<times> string option \<Rightarrow> operation result" where
  "emit_v2 counters (PlayPromptBlockV2 i p n, ow) = emit_play counters p n"
| "emit_v2 counters (CollectDigitBlockV2 i p g m a r bs t v l, ow) =
     emit_collect counters p m a r bs t v l None"
| "emit_v2 counters (ScheduleBranchBlockV2 i s x y z, ow) = emit_schedule counters s x y z"
| "emit_v2 counters (ReturnToMenuBlockV2 i, ow) = emit_return counters ow"
| "emit_v2 counters (EndCallBlockV2 i, ow) = Inr EndCallOp"
| "emit_v2 counters (b, ow) = Inr (UnsupportedOp (block_type b))"

fun emit_v3 :: "RecordingBehavior \<Rightarrow> (string \<Rightarrow> nat option) \<Rightarrow> FlowBlock \<times> string option \<Rightarrow> operation result" where
  "emit_v3 recording counters (RecordMessageBlockV3 i n u, ow) = emit_record counters recording n u"
| "emit_v3 recording counters e = emit_v2 counters e"

fun emit_v4 ::
  "bool \<Rightarrow> RecordingBehavior \<Rightarrow> (string \<Rightarrow> nat option) \<Rightarrow> FlowBlock \<times> string option \<Rightarrow> operation result" where
  "emit_v4 barge recording counters (CollectDigitBlockV2 i p g m a r bs t v l, ow) =
     emit_collect counters p m a r bs t v l (if barge then Some g else None)"
| "emit_v4 barge recording counters (ExternalCallBlockV4 i ph tm n x f, ow) =
     emit_external counters ph tm n x f"
| "emit_v4 barge recording counters e = emit_v3 recording counters e"

text \<open>The loop over the entries numbers the instructions.\<close>

definition emit_all ::
  "(FlowBlock \<times> string option \<Rightarrow> operation result) \<Rightarrow> (FlowBlock \<times> string option) list \<Rightarrow>
   instruction list result" where
  "emit_all emit es =
     map_result (\<lambda>(i, e). bind_result (emit e) (\<lambda>x.
       Inr \<lparr>pc = i, instruction_block = block_id (fst e), op = x\<rparr>)) (zip [0..<length es] es)"

section \<open>The worst-case duration\<close>

definition MAXIMUM_SESSION_MS :: nat where "MAXIMUM_SESSION_MS = 600000"
definition BEEP_DURATION_MS :: nat where "BEEP_DURATION_MS = 500"
definition EXTERNAL_CONTROL_WATCHDOGS_MS :: nat where "EXTERNAL_CONTROL_WATCHDOGS_MS = 30000"

fun is_collect_op :: "operation \<Rightarrow> bool" where
  "is_collect_op (CollectDigitOp p m a r bs t v l g) = True"
| "is_collect_op _ = False"

definition collect_pcs :: "instruction list \<Rightarrow> nat list" where
  "collect_pcs ins = map pc (filter (\<lambda>i. is_collect_op (op i)) ins)"

definition collect_index :: "instruction list \<Rightarrow> nat \<Rightarrow> nat option" where
  "collect_index ins = map_of (rev (zip (collect_pcs ins) [0..<length (collect_pcs ins)]))"

text \<open>\<^verbatim>\<open>prompt_durations_ms.get(prompt_id, 0)\<close>; durations of stored prompts are not negative.\<close>

definition prompt_duration :: "(string \<Rightarrow> nat option) \<Rightarrow> string option \<Rightarrow> nat" where
  "prompt_duration durations p =
     (case p of None \<Rightarrow> 0 | Some i \<Rightarrow> (case durations i of None \<Rightarrow> 0 | Some n \<Rightarrow> n))"

definition max_list :: "nat list \<Rightarrow> nat" where
  "max_list xs = foldr max xs 0"

fun menu_limit :: "operation \<Rightarrow> nat" where
  "menu_limit (CollectDigitOp p m a r bs t v l g) = r"
| "menu_limit _ = 0"

text \<open>
  The search keeps the states that are being evaluated; they are drawn from a finite box, because
  a return count only grows below the limit of its menu.
\<close>

definition count_bound :: "instruction list \<Rightarrow> nat" where
  "count_bound ins = foldr max (map (menu_limit \<circ> op) ins) 0"

definition state_box :: "instruction list \<Rightarrow> nat list \<Rightarrow> (nat \<times> nat list) set" where
  "state_box ins rs =
     {..<length ins} \<times> {l. list_all2 (\<lambda>x r. x \<le> max r (count_bound ins)) l rs}"

lemma finite_state_box [simp]: "finite (state_box ins rs)"
proof -
  have "finite {l. list_all2 (\<lambda>x r. x \<le> max r k) l rs}" for k
  proof (induction rs)
    case (Cons r rs)
    have "{l. list_all2 (\<lambda>x r. x \<le> max r k) l (r # rs)} =
        (\<lambda>(x, l). x # l) ` ({..max r k} \<times> {l. list_all2 (\<lambda>x r. x \<le> max r k) l rs})"
      by (auto simp: list_all2_Cons2 image_iff)
    then show ?case using Cons by simp
  qed simp
  then show ?thesis by (simp add: state_box_def)
qed

lemma state_box_self: "p < length ins \<Longrightarrow> (p, rs) \<in> state_box ins rs"
  by (auto simp: state_box_def intro: list_all2_refl)

lemma menu_limit_bound: "m < length ins \<Longrightarrow> menu_limit (op (ins ! m)) \<le> count_bound ins"
proof -
  have "x \<in> set xs \<Longrightarrow> x \<le> foldr max xs 0" for x and xs :: "nat list"
    by (induction xs) (auto simp: max_def)
  then show "m < length ins \<Longrightarrow> menu_limit (op (ins ! m)) \<le> count_bound ins"
    by (simp add: count_bound_def)
qed

lemma state_box_count:
  assumes "i < length rs" "rs ! i < menu_limit (op (ins ! m))" "m < length ins"
  shows "state_box ins (rs[i := Suc (rs ! i)]) = state_box ins rs"
proof -
  have "max (Suc (rs ! i)) (count_bound ins) = max (rs ! i) (count_bound ins)"
    using menu_limit_bound [OF assms(3)] assms(2) by simp
  then have "max (rs[i := Suc (rs ! i)] ! j) (count_bound ins) = max (rs ! j) (count_bound ins)"
    if "j < length rs" for j
    using that by (cases "j = i") auto
  then have "list_all2 (\<lambda>x r. x \<le> max r (count_bound ins)) l (rs[i := Suc (rs ! i)]) \<longleftrightarrow>
      list_all2 (\<lambda>x r. x \<le> max r (count_bound ins)) l rs" for l
    by (auto simp: list_all2_conv_all_nth)
  then show ?thesis by (simp add: state_box_def)
qed

lemma state_box_menu:
  "op (ins ! m) = CollectDigitOp p t a r bs x y l g \<Longrightarrow> rs ! i < r \<Longrightarrow> \<not> length ins \<le> m \<Longrightarrow>
   \<not> length rs \<le> i \<Longrightarrow> state_box ins (rs[i := Suc (rs ! i)]) = state_box ins rs"
  by (rule state_box_count [where m = m]) auto

lemma state_box_less:
  assumes "p < length ins" "(p, rs) \<notin> set active" "state_box ins rs' = state_box ins rs"
  shows "card (state_box ins rs' - insert (p, rs) (set active)) < card (state_box ins rs - set active)"
proof -
  have "state_box ins rs - insert (p, rs) (set active) \<subset> state_box ins rs - set active"
    using state_box_self [OF assms(1)] assms(2) by blast
  then show ?thesis using assms(3) by (simp add: psubset_card_mono)
qed

function maximum_cost ::
  "string \<Rightarrow> instruction list \<Rightarrow> (string \<Rightarrow> nat option) \<Rightarrow> nat \<Rightarrow> nat list \<Rightarrow> (nat \<times> nat list) list \<Rightarrow>
   nat result" where
  "maximum_cost release instructions durations pc_value returns active =
     (if (pc_value, returns) \<in> set active
      then Inl (ValueError (release @ '' program has an unbounded runtime cycle.''))
      else if pc_value \<ge> length instructions then Inl IndexError
      else
        let cost = (\<lambda>target. maximum_cost release instructions durations target returns
                              ((pc_value, returns) # active)) in
        (case op (instructions ! pc_value) of
           EndCallOp \<Rightarrow> Inr 0
         | PlayPromptOp p next_pc \<Rightarrow>
             bind_result (cost next_pc) (\<lambda>c. Inr (prompt_duration durations p + c))
         | CollectDigitOp p timeout_ms maximum_attempts r branches t v l g \<Rightarrow>
             bind_result (map_result cost (map snd branches @ [t, v])) (\<lambda>cs.
               Inr (maximum_attempts * (prompt_duration durations p + timeout_ms) + max_list cs))
         | ScheduleBranchOp s x y z \<Rightarrow>
             bind_result (map_result cost [x, y, z]) (\<lambda>cs. Inr (max_list cs))
         | RecordMessageOp d k next_pc on_unavailable_pc \<Rightarrow>
             bind_result (cost next_pc) (\<lambda>recorded.
             bind_result (cost on_unavailable_pc) (\<lambda>unavailable.
               Inr (max (BEEP_DURATION_MS + d + recorded) (BEEP_DURATION_MS + unavailable))))
         | ExternalCallOp phone answer_timeout_ms next_pc x f \<Rightarrow>
             if release = ''V4''
             then bind_result (map_result cost [next_pc, x, f]) (\<lambda>cs.
                    Inr (EXTERNAL_CONTROL_WATCHDOGS_MS + answer_timeout_ms + max_list cs))
             else Inl (ValueError (''Unsupported '' @ release @ '' operation: external_call''))
         | ReturnToMenuOp menu_pc \<Rightarrow>
             (case collect_index instructions menu_pc of
                None \<Rightarrow> Inl (KeyError (str_nat menu_pc))
              | Some index \<Rightarrow>
                  if menu_pc \<ge> length instructions \<or> index \<ge> length returns then Inl IndexError
                  else (case op (instructions ! menu_pc) of
                    CollectDigitOp p timeout_ms maximum_attempts r branches t v l g \<Rightarrow>
                      if returns ! index < r
                      then maximum_cost release instructions durations menu_pc
                             (returns[index := Suc (returns ! index)]) ((pc_value, returns) # active)
                      else maximum_cost release instructions durations l returns
                             ((pc_value, returns) # active)
                  | _ \<Rightarrow> Inl (KeyError ''maximum_menu_returns'')))
         | UnsupportedOp ty \<Rightarrow> Inl (ValueError (''Unsupported '' @ release @ '' operation: '' @ ty))))"
  by pat_completeness auto
termination
  by (relation "measure (\<lambda>(_, ins, _, _, rs, active). card (state_box ins rs - set active))")
    (auto intro!: state_box_less dest: state_box_menu)

declare maximum_cost.simps [simp del]

section \<open>The compiled program\<close>

record program =
  version :: nat
  entry_pc :: nat
  maximum_session :: "nat option"
  instructions :: "instruction list"

record compiled_flow =
  compiler_version :: string
  source_sha256 :: string
  program_sha256 :: string
  compiled_program :: program

definition branch_target_json :: "char \<times> nat \<Rightarrow> json" where
  "branch_target_json x = JObject [(''digit'', JString [fst x]), (''target_pc'', json_nat (snd x))]"

fun operation_fields :: "operation \<Rightarrow> (string \<times> json) list" where
  "operation_fields (PlayPromptOp p n) =
     [(''op'', JString ''play_prompt''), (''prompt_id'', json_of_string_option p), (''next_pc'', json_nat n)]"
| "operation_fields (CollectDigitOp p timeout_ms maximum_attempts maximum_menu_returns bs t v l g) =
     [(''op'', JString ''collect_digit''), (''prompt_id'', json_of_string_option p),
      (''timeout_ms'', json_nat timeout_ms), (''maximum_attempts'', json_nat maximum_attempts),
      (''maximum_menu_returns'', json_nat maximum_menu_returns),
      (''branches'', JList (map branch_target_json bs)), (''on_timeout_pc'', json_nat t),
      (''on_invalid_pc'', json_nat v), (''on_return_limit_pc'', json_nat l)] @
     (case g of None \<Rightarrow> [] | Some b \<Rightarrow> [(''allow_prompt_barge_in'', JBool b)])"
| "operation_fields (ScheduleBranchOp s x y z) =
     [(''op'', JString ''schedule_branch''), (''schedule_id'', json_of_string_option s),
      (''on_open_pc'', json_nat x), (''on_closed_pc'', json_nat y), (''on_holiday_pc'', json_nat z)]"
| "operation_fields (ReturnToMenuOp m) = [(''op'', JString ''return_to_menu''), (''menu_pc'', json_nat m)]"
| "operation_fields EndCallOp = [(''op'', JString ''end_call'')]"
| "operation_fields (RecordMessageOp d k n u) =
     [(''op'', JString ''record_message''), (''maximum_duration_ms'', json_nat d),
      (''finish_key'', json_of_string_option k), (''next_pc'', json_nat n), (''on_unavailable_pc'', json_nat u)]"
| "operation_fields (ExternalCallOp ph tm n x f) =
     [(''op'', JString ''external_call''), (''phone_number'', JString ph), (''answer_timeout_ms'', json_nat tm),
      (''next_pc'', json_nat n), (''on_not_connected_pc'', json_nat x), (''on_system_failure_pc'', json_nat f)]"
| "operation_fields (UnsupportedOp ty) = [(''op'', JString ty)]"

definition instruction_json :: "instruction \<Rightarrow> json" where
  "instruction_json i = JObject
     ([(''pc'', json_nat (pc i)), (''block_id'', JString (instruction_block i))] @ operation_fields (op i))"

text \<open>The name of the duration field changed between V3 and V4.\<close>

definition program_json :: "program \<Rightarrow> json" where
  "program_json p = JObject
     ([(''version'', json_nat (version p)), (''entry_pc'', json_nat (entry_pc p))] @
      (case maximum_session p of None \<Rightarrow> []
       | Some n \<Rightarrow> [(if version p = 3 then ''maximum_session_ms'' else ''maximum_automated_session_ms'',
                    json_nat n)]) @
      [(''instructions'', JList (map instruction_json (instructions p)))])"

definition source_json :: "FlowDefinitionV2 \<Rightarrow> RecordingBehavior \<Rightarrow> json" where
  "source_json f recording = JObject
     [(''flow'', flow_json f), (''recording_behavior'', recording_behavior_json recording)]"

definition finish_compile ::
  "(string \<Rightarrow> string) \<Rightarrow> string \<Rightarrow> json \<Rightarrow> program \<Rightarrow> compiled_flow" where
  "finish_compile sha256 compiler source p =
     \<lparr>compiler_version = compiler, source_sha256 = sha256 (canonical_json_bytes source),
      program_sha256 = sha256 (canonical_json_bytes (program_json p)), compiled_program = p\<rparr>"

section \<open>The three compilers\<close>

definition compile_flow :: "(string \<Rightarrow> string) \<Rightarrow> FlowDefinitionV2 \<Rightarrow> compiled_flow result" where
  "compile_flow sha256 f = (case flow_root f of
     None \<Rightarrow> Inl (ValueError ''A published flow requires a root block.'')
   | Some root \<Rightarrow>
       bind_result (collect_v2 root None empty_collect) (\<lambda>s.
       bind_result (emit_all (emit_v2 (program_counter (entries s))) (entries s)) (\<lambda>ins.
       Inr (finish_compile sha256 ''2.0.0'' (flow_json f)
              \<lparr>version = 2, entry_pc = 0, maximum_session = None, instructions = ins\<rparr>))))"

definition initial_returns :: "instruction list \<Rightarrow> nat list" where
  "initial_returns ins = map (\<lambda>_. 0) (collect_pcs ins)"

definition maximum_session_ms ::
  "string \<Rightarrow> instruction list \<Rightarrow> (string \<Rightarrow> nat option) \<Rightarrow> nat result" where
  "maximum_session_ms release ins durations =
     bind_result (maximum_cost release ins durations 0 (initial_returns ins) []) (\<lambda>c.
       if c > MAXIMUM_SESSION_MS
       then Inl (ValueError ''Worst-case flow duration exceeds the ten-minute limit.'') else Inr c)"

definition compile_flow_v3 ::
  "(string \<Rightarrow> string) \<Rightarrow> FlowDefinitionV2 \<Rightarrow> RecordingBehavior \<Rightarrow> (string \<Rightarrow> nat option) \<Rightarrow>
   compiled_flow result" where
  "compile_flow_v3 sha256 f recording prompt_durations_ms = (case flow_root f of
     None \<Rightarrow> Inl (ValueError ''A published flow requires a root block.'')
   | Some root \<Rightarrow>
       bind_result (collect_v3 root None False empty_collect) (\<lambda>s.
       bind_result (emit_all (emit_v3 recording (program_counter (entries s))) (entries s)) (\<lambda>ins.
       bind_result (maximum_session_ms ''V3'' ins prompt_durations_ms) (\<lambda>ms.
       Inr (finish_compile sha256 ''3.0.0'' (source_json f recording)
              \<lparr>version = 3, entry_pc = 0, maximum_session = Some ms, instructions = ins\<rparr>)))))"

definition COMPILER_VERSION :: string where "COMPILER_VERSION = ''4.0.0''"
definition PROMPT_BARGE_IN_COMPILER_VERSION :: string where "PROMPT_BARGE_IN_COMPILER_VERSION = ''4.1.0''"

definition uses_barge_in :: "(FlowBlock \<times> string option) list \<Rightarrow> bool" where
  "uses_barge_in es = list_ex (\<lambda>(b, _). is_CollectDigit b \<and> allow_prompt_barge_in b) es"

definition compile_flow_v4 ::
  "(string \<Rightarrow> string) \<Rightarrow> FlowDefinitionV2 \<Rightarrow> RecordingBehavior \<Rightarrow> (string \<Rightarrow> nat option) \<Rightarrow>
   compiled_flow result" where
  "compile_flow_v4 sha256 f recording prompt_durations_ms = (case flow_root f of
     None \<Rightarrow> Inl (ValueError ''A published flow requires a root block.'')
   | Some root \<Rightarrow>
       bind_result (collect_v4 root None False empty_collect) (\<lambda>s.
       let compiler = (if uses_barge_in (entries s) then PROMPT_BARGE_IN_COMPILER_VERSION else COMPILER_VERSION) in
       bind_result (emit_all (emit_v4 (compiler = PROMPT_BARGE_IN_COMPILER_VERSION) recording
                       (program_counter (entries s))) (entries s)) (\<lambda>ins.
       bind_result (maximum_session_ms ''V4'' ins prompt_durations_ms) (\<lambda>ms.
       Inr (finish_compile sha256 compiler (source_json f recording)
              \<lparr>version = 4, entry_pc = 0, maximum_session = Some ms, instructions = ins\<rparr>)))))"

end
