(* ===== verification/Tape_Laws.thy ===== *)
theory Tape_Laws
  imports Collect_Laws Flow_Compiler
begin

text \<open>
  The structure of the compiled tape. For a collectable tree with unique identifiers the emission
  succeeds and the tape is the pre-order of the tree, every reference being the position of the
  block it names. If a validator accepts the tree, control only moves forward on the tape, except
  that a return jumps back to its menu, whose return-limit path starts behind the return.
\<close>

section \<open>The tape of a tree\<close>

definition position :: "string list \<Rightarrow> FlowBlock option \<Rightarrow> nat" where
  "position ids k = index_of (block_id (the k)) ids"

fun op_of :: "bool \<Rightarrow> RecordingBehavior \<Rightarrow> string list \<Rightarrow> FlowBlock \<times> string option \<Rightarrow> operation" where
  "op_of barge rec ids (PlayPromptBlockV2 i p n, ow) = PlayPromptOp p (position ids n)"
| "op_of barge rec ids (CollectDigitBlockV2 i p g m a r bs t v l, ow) =
     CollectDigitOp p m a r (map (\<lambda>b. (digit b, position ids (branch_root b))) (sorted_branches bs))
       (position ids t) (position ids v) (position ids l) (if barge then Some g else None)"
| "op_of barge rec ids (ScheduleBranchBlockV2 i s x y z, ow) =
     ScheduleBranchOp s (position ids x) (position ids y) (position ids z)"
| "op_of barge rec ids (ReturnToMenuBlockV2 i, ow) = ReturnToMenuOp (index_of (the ow) ids)"
| "op_of barge rec ids (EndCallBlockV2 i, ow) = EndCallOp"
| "op_of barge rec ids (RecordMessageBlockV3 i n u, ow) =
     RecordMessageOp (maximum_duration_seconds rec * 1000) (finish_key rec) (position ids n) (position ids u)"
| "op_of barge rec ids (ExternalCallBlockV4 i ph tm n x f, ow) =
     ExternalCallOp ph (tm * 1000) (position ids n) (position ids x) (position ids f)"

definition tape :: "bool \<Rightarrow> RecordingBehavior \<Rightarrow> FlowBlock \<Rightarrow> instruction list" where
  "tape barge rec root =
     map (\<lambda>(i, e). \<lparr>pc = i, instruction_block = block_id (fst e), op = op_of barge rec (ids_of root) e\<rparr>)
       (zip [0..<length (preorder root)] (entries_of None root))"

lemma length_entries_of [simp]: "length (entries_of ow b) = length (preorder b)"
  by (metis length_map map_fst_entries_of)

lemma length_tape [simp]: "length (tape barge rec root) = length (preorder root)"
  by (simp add: tape_def)

lemma tape_nonempty: "tape barge rec root \<noteq> []"
proof -
  have "preorder root \<noteq> []" by (simp add: preorder.simps [of root])
  then show ?thesis using length_tape [of barge rec root] by (metis length_0_conv)
qed

lemma tape_nth:
  "j < length (preorder root) \<Longrightarrow> tape barge rec root ! j =
     \<lparr>pc = j, instruction_block = ids_of root ! j, op = op_of barge rec (ids_of root) (entries_of None root ! j)\<rparr>"
  by (simp add: tape_def) (metis length_entries_of map_fst_entries_of nth_map)

section \<open>Emission\<close>

lemma map_block_id_entries: "map (block_id \<circ> fst) (entries_of ow b) = ids_of b"
  by (metis list.map_comp map_fst_entries_of)

lemma program_counter_entries:
  assumes "distinct (ids_of root)" "i \<in> set (ids_of root)"
  shows "program_counter (entries_of None root) i = Some (index_of i (ids_of root))"
proof -
  let ?ps = "zip (ids_of root) [0..<length (ids_of root)]"
  have "map_of (rev ?ps) = map_of ?ps"
    using assms(1) by (intro map_of_rev_distinct) simp
  then show ?thesis
    using map_of_zip_index [OF assms(2)] by (simp add: program_counter_def map_block_id_entries)
qed

lemma pc_of_position:
  assumes "distinct (ids_of root)" "k \<noteq> None" "block_id (the k) \<in> set (ids_of root)"
  shows "pc_of (program_counter (entries_of None root)) k = Inr (position (ids_of root) k)"
  using assms program_counter_entries [OF assms(1,3)]
  by (auto simp: pc_of_def lookup_key_def position_def)

lemma emit_v4_op:
  assumes "distinct (ids_of root)" "None \<notin> set (child_fields b)"
    "\<And>k. k \<in> set (owned b) \<Longrightarrow> block_id k \<in> set (ids_of root)"
    "is_ReturnToMenu b \<Longrightarrow> ow \<noteq> None \<and> the ow \<in> set (ids_of root)"
  shows "emit_v4 barge rec (program_counter (entries_of None root)) (b, ow) =
    Inr (op_of barge rec (ids_of root) (b, ow))"
proof -
  have pc: "pc_of (program_counter (entries_of None root)) k = Inr (position (ids_of root) k)"
    if "k \<in> set (child_fields b)" for k
  proof -
    from that assms(2) obtain c where "k = Some c" by (cases "k = None") auto
    then show ?thesis using that assms(3) [of c] by (simp add: owned_def pc_of_position [OF assms(1)])
  qed
  have branches: "map_result (\<lambda>x. bind_result (pc_of (program_counter (entries_of None root)) (branch_root x))
        (\<lambda>t. Inr (digit x, t))) (sorted_branches bs) =
      Inr (map (\<lambda>x. (digit x, position (ids_of root) (branch_root x))) (sorted_branches bs))"
    if "\<And>x. x \<in> set bs \<Longrightarrow> branch_root x \<in> set (child_fields b)" for bs
    using that pc by (intro map_result_all) simp
  show ?thesis
  proof (cases b)
    case (ReturnToMenuBlockV2 i)
    then show ?thesis using assms(4) program_counter_entries [OF assms(1)]
      by (auto simp: emit_return_def lookup_key_def)
  qed (use pc branches in \<open>auto simp: emit_play_def emit_collect_def emit_schedule_def emit_record_def emit_external_def\<close>)
qed

lemma emit_v2_v4: "supported_v2 b \<Longrightarrow> emit_v2 counters (b, ow) = emit_v4 False rec counters (b, ow)"
  by (cases b) (auto simp: supported_v2_def)

lemma emit_v3_v4: "supported_v3 b \<Longrightarrow> emit_v3 rec counters (b, ow) = emit_v4 False rec counters (b, ow)"
  by (cases b) (auto simp: supported_v3_def)

text \<open>The owner of an entry is a menu of the tree.\<close>

lemma entry_owner:
  "(x, o') \<in> set (entries_of ow b) \<Longrightarrow> o' = ow \<or> (\<exists>menu\<in>set (preorder b). o' = Some (block_id menu))"
proof (induction b arbitrary: ow rule: owned_induct)
  case (step b)
  show ?case
  proof (cases "(x, o') = (b, ow)")
    case False
    then obtain k where "k \<in> set (owned b)" "(x, o') \<in> set (entries_of (child_owner b ow) k)"
      using step.prems by (auto simp: set_entries_of [of ow b])
    then show ?thesis using step.IH [of k "child_owner b ow"]
      by (auto simp: child_owner_def set_subtree [of b] split: if_splits)
  qed auto
qed

lemma entry_subtree: "(x, o') \<in> set (entries_of ow b) \<Longrightarrow> x \<in> set (preorder b)"
  by (metis fst_conv image_eqI map_fst_entries_of set_map)

lemma collectable_entry:
  "collectable notice allowed ow g b \<Longrightarrow> (x, o') \<in> set (entries_of ow b) \<Longrightarrow>
   None \<notin> set (child_fields x) \<and> (\<exists>g'. allowed o' g' x)"
proof (induction b arbitrary: ow g rule: owned_induct)
  case (step b)
  have b: "allowed ow g b" "None \<notin> set (child_fields b)"
    "\<And>k. k \<in> set (owned b) \<Longrightarrow> collectable notice allowed (child_owner b ow) (notice b g) k"
    using step.prems(1) by (auto simp: collectable.simps [of notice allowed ow g b])
  then show ?case using step.prems(2) step.IH
    by (auto simp: set_entries_of [of ow b]) blast+
qed

lemma entry_owned:
  "(x, o') \<in> set (entries_of ow b) \<Longrightarrow> k \<in> set (owned x) \<Longrightarrow> k \<in> set (preorder b)"
  using entries_forward [of x o' ow b k] entry_subtree [of k "child_owner x o'" ow b]
  by (auto simp: before_def)

lemma emit_all_tape:
  assumes "distinct (ids_of root)" "collectable notice allowed None g root"
    "\<And>b ow g. allowed ow g b \<Longrightarrow> is_ReturnToMenu b \<Longrightarrow> ow \<noteq> None"
    "\<And>b ow g. allowed ow g b \<Longrightarrow> emit (b, ow) = emit_v4 barge rec (program_counter (entries_of None root)) (b, ow)"
  shows "emit_all emit (entries_of None root) = Inr (tape barge rec root)"
proof -
  have op: "emit e = Inr (op_of barge rec (ids_of root) e)" if mem: "e \<in> set (entries_of None root)" for e
  proof -
    obtain x ow where e: "e = (x, ow)" "(x, ow) \<in> set (entries_of None root)"
      using mem surj_pair [of e] by blast
    have "\<exists>g'. None \<notin> set (child_fields x) \<and> allowed ow g' x"
      using collectable_entry [OF assms(2) e(2)] by simp
    then obtain g' where x: "None \<notin> set (child_fields x)" "allowed ow g' x" by blast
    have "block_id k \<in> set (ids_of root)" if "k \<in> set (owned x)" for k
      using entry_owned [OF e(2) that] by simp
    moreover have "ow \<noteq> None \<and> the ow \<in> set (ids_of root)" if "is_ReturnToMenu x"
      using entry_owner [OF e(2)] that assms(3) x(2) by auto
    ultimately show ?thesis using emit_v4_op [OF assms(1) x(1)] assms(4) [OF x(2)] e(1) by simp
  qed
  then show ?thesis unfolding emit_all_def tape_def
    by (subst map_result_all [where g = "\<lambda>(i, e). \<lparr>pc = i, instruction_block = block_id (fst e),
        op = op_of barge rec (ids_of root) e\<rparr>"]) (auto dest!: set_zip_rightD)
qed

section \<open>What the compilers return\<close>

lemma compile_flow_tape:
  assumes "flow_root f = Some root" "collectable notice_v2 allowed_v2 None False root" "distinct (ids_of root)"
  shows "compile_flow sha f = Inr (finish_compile sha ''2.0.0'' (flow_json f)
    \<lparr>version = 2, entry_pc = 0, maximum_session = None, instructions = tape False rec root\<rparr>)"
proof -
  have "emit_all (emit_v2 (program_counter (entries_of None root))) (entries_of None root) = Inr (tape False rec root)"
    using assms by (intro emit_all_tape [where notice = notice_v2 and allowed = allowed_v2 and g = False])
      (auto simp: allowed_v2_def emit_v2_v4)
  then show ?thesis using assms(1) c2.collect_root_ok [OF assms(2,3)]
    by (simp add: compile_flow_def run_v2_def)
qed

lemma compile_flow_v3_tape:
  assumes "flow_root f = Some root" "collectable notice_v3 allowed_v3 None False root" "distinct (ids_of root)"
  shows "compile_flow_v3 sha f rec dur = bind_result (maximum_session_ms ''V3'' (tape False rec root) dur)
    (\<lambda>ms. Inr (finish_compile sha ''3.0.0'' (source_json f rec)
       \<lparr>version = 3, entry_pc = 0, maximum_session = Some ms, instructions = tape False rec root\<rparr>))"
proof -
  have "emit_all (emit_v3 rec (program_counter (entries_of None root))) (entries_of None root) = Inr (tape False rec root)"
    using assms by (intro emit_all_tape [where notice = notice_v3 and allowed = allowed_v3 and g = False])
      (auto simp: allowed_v3_def emit_v3_v4)
  then show ?thesis using assms(1) c3.collect_root_ok [OF assms(2,3)]
    by (simp add: compile_flow_v3_def)
qed

text \<open>A flow with an interruptible menu is compiled for the later compiler version.\<close>

definition barge_in_tree :: "FlowBlock \<Rightarrow> bool" where
  "barge_in_tree root \<longleftrightarrow> (\<exists>b\<in>set (subtree root). allow_prompt_barge_in b)"

definition v4_compiler :: "FlowBlock \<Rightarrow> string" where
  "v4_compiler root = (if barge_in_tree root then PROMPT_BARGE_IN_COMPILER_VERSION else COMPILER_VERSION)"

definition v4_tape :: "RecordingBehavior \<Rightarrow> FlowBlock \<Rightarrow> instruction list" where
  "v4_tape rec root = tape (barge_in_tree root) rec root"

lemma uses_barge_in_entries: "uses_barge_in (entries_of ow root) \<longleftrightarrow> barge_in_tree root"
proof -
  have "is_CollectDigit b \<and> allow_prompt_barge_in b \<longleftrightarrow> allow_prompt_barge_in b" for b
    by (cases b) auto
  then have "uses_barge_in (entries_of ow root) \<longleftrightarrow> (\<exists>b\<in>set (map fst (entries_of ow root)). allow_prompt_barge_in b)"
    by (force simp: uses_barge_in_def list_ex_iff)
  then show ?thesis by (simp only: map_fst_entries_of set_preorder barge_in_tree_def)
qed

lemma compile_flow_v4_tape:
  assumes "flow_root f = Some root" "collectable notice_v4 allowed_v4 None False root" "distinct (ids_of root)"
  shows "compile_flow_v4 sha f rec dur = bind_result (maximum_session_ms ''V4'' (v4_tape rec root) dur)
    (\<lambda>ms. Inr (finish_compile sha (v4_compiler root) (source_json f rec)
       \<lparr>version = 4, entry_pc = 0, maximum_session = Some ms, instructions = v4_tape rec root\<rparr>))"
proof -
  have "emit_all (emit_v4 barge rec (program_counter (entries_of None root))) (entries_of None root) = Inr (tape barge rec root)" for barge
    using assms by (intro emit_all_tape [where notice = notice_v4 and allowed = allowed_v4 and g = False])
      (auto simp: allowed_v4_def)
  moreover have "(PROMPT_BARGE_IN_COMPILER_VERSION = COMPILER_VERSION) = False"
    by (simp add: PROMPT_BARGE_IN_COMPILER_VERSION_def COMPILER_VERSION_def)
  ultimately show ?thesis using assms(1) c4.collect_root_ok [OF assms(2,3)]
    by (simp add: compile_flow_v4_def Let_def v4_tape_def v4_compiler_def uses_barge_in_entries)
qed

text \<open>Everything else is an error.\<close>

lemma compile_ok:
  shows "compile_flow sha f = Inr r \<Longrightarrow>
      \<exists>root. flow_root f = Some root \<and> collectable notice_v2 allowed_v2 None False root \<and> distinct (ids_of root)"
    and "compile_flow_v3 sha f rec dur = Inr r \<Longrightarrow>
      \<exists>root. flow_root f = Some root \<and> collectable notice_v3 allowed_v3 None False root \<and> distinct (ids_of root)"
    and "compile_flow_v4 sha f rec dur = Inr r \<Longrightarrow>
      \<exists>root. flow_root f = Some root \<and> collectable notice_v4 allowed_v4 None False root \<and> distinct (ids_of root)"
  using c2.collect_root c3.collect_root c4.collect_root
  by (auto simp: compile_flow_def compile_flow_v3_def compile_flow_v4_def bind_result_Inr run_v2_def
      split: option.splits)

section \<open>Control flow on the tape\<close>

fun targets :: "operation \<Rightarrow> nat list" where
  "targets (PlayPromptOp p n) = [n]"
| "targets (CollectDigitOp p m a r bs t v l g) = map snd bs @ [t, v, l]"
| "targets (ScheduleBranchOp s x y z) = [x, y, z]"
| "targets (RecordMessageOp d k n u) = [n, u]"
| "targets (ExternalCallOp ph tm n x f) = [n, x, f]"
| "targets _ = []"

fun limit_target :: "operation \<Rightarrow> nat" where
  "limit_target (CollectDigitOp p m a r bs t v l g) = l"
| "limit_target _ = 0"

definition tape_ok :: "instruction list \<Rightarrow> bool" where
  "tape_ok ins \<longleftrightarrow> ins \<noteq> [] \<and> (\<forall>j<length ins.
     pc (ins ! j) = j \<and> (\<forall>ty. op (ins ! j) \<noteq> UnsupportedOp ty) \<and>
     (\<forall>t\<in>set (targets (op (ins ! j))). j < t \<and> t < length ins) \<and>
     (\<forall>m. op (ins ! j) = ReturnToMenuOp m \<longrightarrow>
        m < j \<and> is_collect_op (op (ins ! m)) \<and> j < limit_target (op (ins ! m))))"

lemma set_owned_the: "None \<notin> set (child_fields b) \<Longrightarrow> set (owned b) = the ` set (child_fields b)"
  unfolding owned_def by (subst somes_eq_map_the) auto

lemma targets_op_of:
  assumes "None \<notin> set (child_fields b)"
  shows "set (targets (op_of barge rec ids (b, ow))) = (\<lambda>k. index_of (block_id k) ids) ` set (owned b)"
proof -
  have "set (targets (op_of barge rec ids (b, ow))) = position ids ` set (child_fields b)"
    by (cases b) auto
  then show ?thesis by (simp add: set_owned_the [OF assms] image_image position_def)
qed

lemma op_of_supported: "op_of barge rec ids e \<noteq> UnsupportedOp ty"
  by (cases "(barge, rec, ids, e)" rule: op_of.cases) auto

lemma nth_index_of_map: "distinct (map f xs) \<Longrightarrow> x \<in> set xs \<Longrightarrow> xs ! index_of (f x) (map f xs) = x"
  by (induction xs) (auto simp: image_iff)

lemma tree_ok_entry:
  "tree_ok notice checks c b \<Longrightarrow> (x, o') \<in> set (entries_of (owner c) b) \<Longrightarrow> None \<notin> set (child_fields x)"
  using tree_ok_collectable [of checks "\<lambda>_ _ _. True" notice c b] collectable_entry by blast

text \<open>The positions of the blocks of an entry, and of the neighbours of a return.\<close>

lemma entries_index:
  assumes "distinct (ids_of root)" "before (entries_of None root) (x, o1) (y, o2)"
  shows "index_of (block_id x) (ids_of root) < index_of (block_id y) (ids_of root)"
    "index_of (block_id y) (ids_of root) < length (preorder root)"
  using before_index [OF assms(2), of "block_id \<circ> fst"] assms(1) by (simp_all add: map_block_id_entries)

lemma entries_nth:
  assumes "distinct (ids_of root)" "(x, o') \<in> set (entries_of None root)"
  shows "entries_of None root ! index_of (block_id x) (ids_of root) = (x, o')"
  using nth_index_of_map [of "block_id \<circ> fst", OF _ assms(2)] assms(1) by (simp add: map_block_id_entries)

lemma tape_return:
  assumes "distinct (ids_of root)" "return_between (entries_of None root) (x, o')"
  defines "m \<equiv> index_of (the o') (ids_of root)"
  shows "m < index_of (block_id x) (ids_of root) \<and> is_collect_op (op (tape barge rec root ! m)) \<and>
    index_of (block_id x) (ids_of root) < limit_target (op (tape barge rec root ! m))"
proof -
  from assms(2) obtain menu o1 l where menu: "is_CollectDigit menu" "limit_child menu = Some l"
    "o' = Some (block_id menu)" "before (entries_of None root) (menu, o1) (x, o')"
    "before (entries_of None root) (x, o') (l, o')"
    by (auto simp: return_between_def)
  have m: "m < index_of (block_id x) (ids_of root)" "m < length (preorder root)"
    using entries_index [OF assms(1) menu(4)] menu(3) by (simp_all add: m_def)
  have "(menu, o1) \<in> set (entries_of None root)" using menu(4) by (auto simp: before_def)
  then have "entries_of None root ! m = (menu, o1)"
    using entries_nth [OF assms(1)] menu(3) by (simp add: m_def)
  then show ?thesis using m menu(1,2) entries_index [OF assms(1) menu(5)]
    by (cases menu) (auto simp: tape_nth position_def)
qed

lemma tape_ok_tape:
  assumes d: "distinct (ids_of root)" and ok: "tree_ok notice checks root_context root"
    and checks: "\<And>c i. checks c (ReturnToMenuBlockV2 i) = [] \<Longrightarrow> owner c \<noteq> None \<and> owner c \<noteq> forbidden_owner c"
  shows "tape_ok (tape barge rec root)"
proof -
  have root: "owner root_context = None" by (simp add: root_context_def)
  have "pc (tape barge rec root ! j) = j \<and> (\<forall>ty. op (tape barge rec root ! j) \<noteq> UnsupportedOp ty) \<and>
      (\<forall>t\<in>set (targets (op (tape barge rec root ! j))). j < t \<and> t < length (preorder root)) \<and>
      (\<forall>m. op (tape barge rec root ! j) = ReturnToMenuOp m \<longrightarrow>
        m < j \<and> is_collect_op (op (tape barge rec root ! m)) \<and> j < limit_target (op (tape barge rec root ! m)))"
    if j: "j < length (preorder root)" for j
  proof -
    obtain x o' where e: "entries_of None root ! j = (x, o')" by force
    then have x: "(x, o') \<in> set (entries_of None root)"
      using j by (metis length_entries_of nth_mem)
    have jx: "index_of (block_id x) (ids_of root) = j"
      using index_of_nth [OF d, of j] j e
      by (metis comp_apply fst_conv length_entries_of length_map map_block_id_entries nth_map)
    have fields: "None \<notin> set (child_fields x)" using tree_ok_entry [OF ok] x root by simp
    have "j < t \<and> t < length (preorder root)" if "t \<in> set (targets (op (tape barge rec root ! j)))" for t
      using that entries_index [OF d entries_forward [OF x]] jx e j
      by (auto simp: tape_nth targets_op_of [OF fields])
    moreover have "m < j \<and> is_collect_op (op (tape barge rec root ! m)) \<and> j < limit_target (op (tape barge rec root ! m))"
      if "op (tape barge rec root ! j) = ReturnToMenuOp m" for m
    proof -
      have "\<exists>i. x = ReturnToMenuBlockV2 i" "m = index_of (the o') (ids_of root)"
        using that j e by (cases x; auto simp: tape_nth)+
      then show ?thesis
        using return_between_owned [of checks notice root_context root _ o'] checks ok x root
          tape_return [OF d, of x o' barge rec] jx by auto
    qed
    ultimately show ?thesis using j by (auto simp: tape_nth op_of_supported)
  qed
  then show ?thesis unfolding tape_ok_def length_tape using tape_nonempty by blast
qed

end
