(* ===== verification/Session_Bound.thy ===== *)
theory Session_Bound
  imports Tape_Laws
begin

text \<open>
  The worst-case duration that the V3 and V4 compilers write into the program. The relation
  \<open>session\<close> says how long an automated session may last from a program counter and the menu-return
  counts onwards; it is independent of the search. On a well-structured tape the search never
  reports a cycle, and its result is the largest duration of a session: it is attained, and no
  session is longer.
\<close>

section \<open>Durations of sessions\<close>

text \<open>
  A prompt may be interrupted; an attempt to collect a digit plays the menu prompt and waits at
  most for the timeout; a recording beeps before it starts; the conversation after a connected
  external call is not part of the automated time.
\<close>

inductive session :: "instruction list \<Rightarrow> (string \<Rightarrow> nat option) \<Rightarrow> nat \<Rightarrow> nat list \<Rightarrow> nat \<Rightarrow> bool"
  for ins dur where
  end_call: "op (ins ! p) = EndCallOp \<Longrightarrow> session ins dur p rs 0"
| play_prompt: "op (ins ! p) = PlayPromptOp i n \<Longrightarrow> d \<le> prompt_duration dur i \<Longrightarrow>
    session ins dur n rs t \<Longrightarrow> session ins dur p rs (d + t)"
| collect_digit: "op (ins ! p) = CollectDigitOp i timeout attempts r bs x v l g \<Longrightarrow>
    length ws \<le> attempts \<Longrightarrow> \<forall>w\<in>set ws. fst w \<le> prompt_duration dur i \<and> snd w \<le> timeout \<Longrightarrow>
    q \<in> set (map snd bs @ [x, v]) \<Longrightarrow> session ins dur q rs t \<Longrightarrow>
    session ins dur p rs (sum_list (map (\<lambda>w. fst w + snd w) ws) + t)"
| schedule_branch: "op (ins ! p) = ScheduleBranchOp s x y z \<Longrightarrow> q \<in> {x, y, z} \<Longrightarrow>
    session ins dur q rs t \<Longrightarrow> session ins dur p rs t"
| recorded: "op (ins ! p) = RecordMessageOp m k n u \<Longrightarrow> d \<le> m \<Longrightarrow>
    session ins dur n rs t \<Longrightarrow> session ins dur p rs (BEEP_DURATION_MS + d + t)"
| unavailable: "op (ins ! p) = RecordMessageOp m k n u \<Longrightarrow> d \<le> BEEP_DURATION_MS \<Longrightarrow>
    session ins dur u rs t \<Longrightarrow> session ins dur p rs (d + t)"
| external_call: "op (ins ! p) = ExternalCallOp ph m n x f \<Longrightarrow> w \<le> EXTERNAL_CONTROL_WATCHDOGS_MS \<Longrightarrow>
    d \<le> m \<Longrightarrow> q \<in> {n, x, f} \<Longrightarrow> session ins dur q rs t \<Longrightarrow> session ins dur p rs (w + d + t)"
| return_again: "op (ins ! p) = ReturnToMenuOp m \<Longrightarrow> collect_index ins m = Some i \<Longrightarrow>
    rs ! i < menu_limit (op (ins ! m)) \<Longrightarrow> session ins dur m (rs[i := Suc (rs ! i)]) t \<Longrightarrow>
    session ins dur p rs t"
| return_limit: "op (ins ! p) = ReturnToMenuOp m \<Longrightarrow> collect_index ins m = Some i \<Longrightarrow>
    \<not> rs ! i < menu_limit (op (ins ! m)) \<Longrightarrow> session ins dur (limit_target (op (ins ! m))) rs t \<Longrightarrow>
    session ins dur p rs t"

definition longest :: "instruction list \<Rightarrow> (string \<Rightarrow> nat option) \<Rightarrow> nat \<Rightarrow> nat list \<Rightarrow> nat \<Rightarrow> bool" where
  "longest ins dur p rs c \<longleftrightarrow> session ins dur p rs c \<and> (\<forall>t. session ins dur p rs t \<longrightarrow> t \<le> c)"

lemma longest_unique: "longest ins dur p rs c \<Longrightarrow> longest ins dur p rs c' \<Longrightarrow> c = c'"
  by (auto simp: longest_def intro: antisym)

lemma max_list_ge: "x \<in> set xs \<Longrightarrow> x \<le> max_list xs"
  by (induction xs) (auto simp: max_list_def max_def)

lemma max_list_in: "xs \<noteq> [] \<Longrightarrow> max_list xs \<in> set xs"
  by (induction xs rule: induct_list012) (auto simp: max_list_def max_def)

lemma sum_list_bound: "\<forall>x\<in>set xs. f x \<le> k \<Longrightarrow> sum_list (map f xs) \<le> length xs * (k::nat)"
  by (induction xs) auto

lemma longest_end: "op (ins ! p) = EndCallOp \<Longrightarrow> longest ins dur p rs 0"
  by (auto simp: longest_def intro: session.end_call elim: session.cases)

lemma longest_play:
  "op (ins ! p) = PlayPromptOp i n \<Longrightarrow> longest ins dur n rs c \<Longrightarrow>
   longest ins dur p rs (prompt_duration dur i + c)"
  by (auto simp: longest_def add_mono intro: session.play_prompt elim: session.cases)

lemma longest_schedule:
  assumes "op (ins ! p) = ScheduleBranchOp s x y z" "\<And>q. q \<in> {x, y, z} \<Longrightarrow> longest ins dur q rs (f q)"
  shows "longest ins dur p rs (max_list (map f [x, y, z]))"
proof -
  obtain q where "q \<in> {x, y, z}" "max_list (map f [x, y, z]) = f q"
    using max_list_in [of "map f [x, y, z]"] by auto
  then have "session ins dur p rs (max_list (map f [x, y, z]))"
    using assms by (auto simp: longest_def intro: session.schedule_branch)
  moreover have "t \<le> max_list (map f [x, y, z])" if "session ins dur p rs t" for t
    using that
  proof cases
    case (schedule_branch s' x' y' z' q)
    then have "t \<le> f q" "f q \<in> set (map f [x, y, z])" using assms by (auto simp: longest_def)
    then show ?thesis using max_list_ge le_trans by blast
  qed (use assms in auto)
  ultimately show ?thesis by (simp add: longest_def)
qed

lemma longest_external:
  assumes "op (ins ! p) = ExternalCallOp ph m n x f" "\<And>q. q \<in> {n, x, f} \<Longrightarrow> longest ins dur q rs (h q)"
  shows "longest ins dur p rs (EXTERNAL_CONTROL_WATCHDOGS_MS + m + max_list (map h [n, x, f]))"
proof -
  obtain q where q: "q \<in> {n, x, f}" "max_list (map h [n, x, f]) = h q"
    using max_list_in [of "map h [n, x, f]"] by auto
  then have "session ins dur p rs (EXTERNAL_CONTROL_WATCHDOGS_MS + m + max_list (map h [n, x, f]))"
    using assms(2) [OF q(1)] session.external_call [OF assms(1) le_refl le_refl q(1)] by (simp add: longest_def)
  moreover have "t \<le> EXTERNAL_CONTROL_WATCHDOGS_MS + m + max_list (map h [n, x, f])"
    if "session ins dur p rs t" for t
    using that
  proof cases
    case (external_call ph' m' n' x' f' w d q u)
    then have "u \<le> h q" "h q \<in> set (map h [n, x, f])" using assms by (auto simp: longest_def)
    then have "u \<le> max_list (map h [n, x, f])" using max_list_ge le_trans by blast
    then show ?thesis using external_call assms(1) by simp
  qed (use assms in auto)
  ultimately show ?thesis by (simp add: longest_def)
qed

lemma longest_record:
  assumes "op (ins ! p) = RecordMessageOp m k n u" "longest ins dur n rs c" "longest ins dur u rs c'"
  shows "longest ins dur p rs (max (BEEP_DURATION_MS + m + c) (BEEP_DURATION_MS + c'))"
proof -
  have "session ins dur p rs (max (BEEP_DURATION_MS + m + c) (BEEP_DURATION_MS + c'))"
    using assms session.recorded [OF assms(1)] session.unavailable [OF assms(1)]
    by (auto simp: max_def longest_def)
  moreover have "t \<le> max (BEEP_DURATION_MS + m + c) (BEEP_DURATION_MS + c')" if "session ins dur p rs t" for t
    using that assms by cases (auto simp: longest_def le_max_iff_disj add_mono)
  ultimately show ?thesis by (simp add: longest_def)
qed

lemma longest_collect:
  assumes op: "op (ins ! p) = CollectDigitOp i timeout attempts r bs x v l g"
    and q: "\<And>q. q \<in> set (map snd bs @ [x, v]) \<Longrightarrow> longest ins dur q rs (h q)"
  defines "bound \<equiv> attempts * (prompt_duration dur i + timeout)"
  shows "longest ins dur p rs (bound + max_list (map h (map snd bs @ [x, v])))"
proof -
  let ?qs = "map snd bs @ [x, v]"
  have "max_list (map h ?qs) \<in> set (map h ?qs)" by (rule max_list_in) simp
  then obtain q' where q': "q' \<in> set ?qs" "max_list (map h ?qs) = h q'"
    by (metis (no_types) imageE list.set_map)
  have "session ins dur p rs (sum_list (map (\<lambda>w. fst w + snd w)
      (replicate attempts (prompt_duration dur i, timeout))) + h q')"
    using q' q [OF q'(1)] by (intro session.collect_digit [OF op]) (auto simp: longest_def)
  then have "session ins dur p rs (bound + max_list (map h ?qs))"
    using q'(2) by (simp add: bound_def sum_list_replicate)
  moreover have "t \<le> bound + max_list (map h ?qs)" if "session ins dur p rs t" for t
    using that
  proof cases
    case (collect_digit i' tm at r' bs' x' v' l' g' ws q u)
    then have "u \<le> h q" "h q \<in> set (map h ?qs)" using op q by (auto simp: longest_def)
    then have u: "u \<le> max_list (map h ?qs)" using max_list_ge le_trans by blast
    have "sum_list (map (\<lambda>w. fst w + snd w) ws) \<le> length ws * (prompt_duration dur i + timeout)"
      using collect_digit op by (intro sum_list_bound) (auto simp: add_mono)
    also have "\<dots> \<le> bound" using collect_digit op by (simp add: bound_def mult_le_mono1)
    finally show ?thesis using collect_digit(1) u by simp
  qed (use op in auto)
  ultimately show ?thesis by (simp add: longest_def)
qed

lemma longest_return:
  assumes "op (ins ! p) = ReturnToMenuOp m" "collect_index ins m = Some i"
  shows "rs ! i < menu_limit (op (ins ! m)) \<Longrightarrow> longest ins dur m (rs[i := Suc (rs ! i)]) c \<Longrightarrow>
      longest ins dur p rs c"
    and "\<not> rs ! i < menu_limit (op (ins ! m)) \<Longrightarrow> longest ins dur (limit_target (op (ins ! m))) rs c \<Longrightarrow>
      longest ins dur p rs c"
  using assms by (auto simp: longest_def intro: session.return_again session.return_limit elim: session.cases)

section \<open>Progress on the tape\<close>

text \<open>
  Every step of the search either moves forward on the tape or uses up a menu return.
\<close>

lemma tape_okD:
  assumes "tape_ok ins" "j < length ins"
  shows "pc (ins ! j) = j" "op (ins ! j) \<noteq> UnsupportedOp ty"
    "t \<in> set (targets (op (ins ! j))) \<Longrightarrow> j < t \<and> t < length ins"
    "op (ins ! j) = ReturnToMenuOp m \<Longrightarrow>
       m < j \<and> is_collect_op (op (ins ! m)) \<and> j < limit_target (op (ins ! m))"
  using assms unfolding tape_ok_def by blast+

lemma collect_pcs_tape: "tape_ok ins \<Longrightarrow> collect_pcs ins = filter (\<lambda>j. is_collect_op (op (ins ! j))) [0..<length ins]"
proof -
  assume ok: "tape_ok ins"
  have "collect_pcs ins = map pc (filter (\<lambda>i. is_collect_op (op i)) (map (\<lambda>j. ins ! j) [0..<length ins]))"
    by (simp add: collect_pcs_def map_nth)
  also have "\<dots> = map (\<lambda>j. pc (ins ! j)) (filter (\<lambda>j. is_collect_op (op (ins ! j))) [0..<length ins])"
    by (simp add: filter_map comp_def)
  also have "\<dots> = filter (\<lambda>j. is_collect_op (op (ins ! j))) [0..<length ins]"
    using ok by (intro map_idI) (simp add: tape_okD(1))
  finally show ?thesis .
qed

lemma collect_index_menu:
  assumes "tape_ok ins" "m < length ins" "is_collect_op (op (ins ! m))"
  obtains i where "collect_index ins m = Some i" "i < length (collect_pcs ins)" "collect_pcs ins ! i = m"
proof -
  have m: "m \<in> set (collect_pcs ins)" "distinct (collect_pcs ins)"
    using assms by (auto simp: collect_pcs_tape)
  have "map_of (rev (zip (collect_pcs ins) [0..<length (collect_pcs ins)])) =
      map_of (zip (collect_pcs ins) [0..<length (collect_pcs ins)])"
    using m(2) by (intro map_of_rev_distinct) simp
  then have "collect_index ins m = Some (index_of m (collect_pcs ins))"
    using map_of_zip_index [OF m(1)] by (simp add: collect_index_def)
  then show ?thesis using that m(1) by (simp add: index_of_less nth_index_of)
qed

definition slack :: "instruction list \<Rightarrow> nat list \<Rightarrow> nat" where
  "slack ins rs = (\<Sum>i<length (collect_pcs ins). menu_limit (op (ins ! (collect_pcs ins ! i))) - rs ! i)"

lemma slack_return:
  assumes "i < length (collect_pcs ins)" "length rs = length (collect_pcs ins)"
    "rs ! i < menu_limit (op (ins ! (collect_pcs ins ! i)))"
  shows "slack ins (rs[i := Suc (rs ! i)]) < slack ins rs"
  unfolding slack_def using assms by (intro sum_strict_mono_ex1) (auto simp: nth_list_update)

definition ahead :: "instruction list \<Rightarrow> nat \<times> nat list \<Rightarrow> nat \<times> nat list \<Rightarrow> bool" where
  "ahead ins s s' \<longleftrightarrow>
     slack ins (snd s') < slack ins (snd s) \<or> slack ins (snd s') = slack ins (snd s) \<and> fst s < fst s'"

lemma ahead_trans: "ahead ins s s' \<Longrightarrow> ahead ins s' s'' \<Longrightarrow> ahead ins s s''"
  by (auto simp: ahead_def)

lemma ahead_irrefl: "\<not> ahead ins s s"
  by (simp add: ahead_def)

definition no_external :: "instruction list \<Rightarrow> bool" where
  "no_external ins \<longleftrightarrow> (\<forall>j<length ins. \<forall>ph tm n x f. op (ins ! j) \<noteq> ExternalCallOp ph tm n x f)"

text \<open>The search returns, and its result is the longest duration.\<close>

definition searched ::
  "string \<Rightarrow> instruction list \<Rightarrow> (string \<Rightarrow> nat option) \<Rightarrow> nat \<Rightarrow> nat list \<Rightarrow> (nat \<times> nat list) list \<Rightarrow> bool" where
  "searched release ins dur p rs active \<longleftrightarrow>
     (\<exists>c. maximum_cost release ins dur p rs active = Inr c \<and> longest ins dur p rs c)"

lemma searched_targets:
  assumes "\<And>q. q \<in> set qs \<Longrightarrow> searched release ins dur q rs active"
  obtains h where
    "map_result (\<lambda>q. maximum_cost release ins dur q rs active) qs = Inr (map h qs)"
    "\<And>q. q \<in> set qs \<Longrightarrow> longest ins dur q rs (h q)"
proof -
  from assms obtain h where "\<forall>q\<in>set qs. maximum_cost release ins dur q rs active = Inr (h q) \<and> longest ins dur q rs (h q)"
    unfolding searched_def by metis
  then show thesis using that map_result_all [of qs "\<lambda>q. maximum_cost release ins dur q rs active" h] by blast
qed

lemma searched_forward:
  assumes "\<And>q. q \<in> set (targets (op (ins ! p))) \<Longrightarrow> searched release ins dur q rs ((p, rs) # active)"
    "(p, rs) \<notin> set active" "tape_ok ins" "p < length ins" "release = ''V4'' \<or> no_external ins"
    "\<And>m. op (ins ! p) \<noteq> ReturnToMenuOp m"
  shows "searched release ins dur p rs active"
proof -
  note unfold = searched_def maximum_cost.simps [of release ins dur p rs active] assms(2)
  note p = assms(4)
  show ?thesis
  proof (cases "op (ins ! p)")
    case (PlayPromptOp i n)
    then show ?thesis using assms(1) [of n] p longest_play [OF PlayPromptOp] by (auto simp: unfold)
  next
    case (CollectDigitOp i timeout attempts r bs x v l g)
    have "searched release ins dur q rs ((p, rs) # active)" if "q \<in> set (map snd bs @ [x, v])" for q
      using that CollectDigitOp by (intro assms(1)) auto
    from searched_targets [OF this] obtain h where
      "map_result (\<lambda>q. maximum_cost release ins dur q rs ((p, rs) # active)) (map snd bs @ [x, v]) =
        Inr (map h (map snd bs @ [x, v]))"
      "\<And>q. q \<in> set (map snd bs @ [x, v]) \<Longrightarrow> longest ins dur q rs (h q)" by blast
    then show ?thesis using longest_collect [OF CollectDigitOp, of dur rs h] CollectDigitOp p by (simp add: unfold)
  next
    case (ScheduleBranchOp s x y z)
    have "searched release ins dur q rs ((p, rs) # active)" if "q \<in> set [x, y, z]" for q
      using that ScheduleBranchOp by (intro assms(1)) auto
    from searched_targets [OF this] obtain h where
      "map_result (\<lambda>q. maximum_cost release ins dur q rs ((p, rs) # active)) [x, y, z] = Inr (map h [x, y, z])"
      "\<And>q. q \<in> set [x, y, z] \<Longrightarrow> longest ins dur q rs (h q)" by blast
    then show ?thesis using longest_schedule [OF ScheduleBranchOp, of dur rs h] ScheduleBranchOp p
      by (simp add: unfold del: map_result.simps)
  next
    case EndCallOp
    then show ?thesis using longest_end [OF EndCallOp] p by (auto simp: unfold)
  next
    case (RecordMessageOp m k n u)
    then show ?thesis using assms(1) [of n] assms(1) [of u] p longest_record [OF RecordMessageOp] by (auto simp: unfold)
  next
    case (ExternalCallOp ph m n x f)
    have "searched release ins dur q rs ((p, rs) # active)" if "q \<in> set [n, x, f]" for q
      using that ExternalCallOp by (intro assms(1)) auto
    from searched_targets [OF this] obtain h where
      "map_result (\<lambda>q. maximum_cost release ins dur q rs ((p, rs) # active)) [n, x, f] = Inr (map h [n, x, f])"
      "\<And>q. q \<in> set [n, x, f] \<Longrightarrow> longest ins dur q rs (h q)" by blast
    moreover have "release = ''V4''" using assms(5) ExternalCallOp p by (auto simp: no_external_def)
    ultimately show ?thesis using longest_external [OF ExternalCallOp, of dur rs h] ExternalCallOp p
      by (simp add: searched_def maximum_cost.simps [of "''V4''" ins dur p rs active] assms(2) del: map_result.simps)
  next
    case (UnsupportedOp ty)
    then show ?thesis using tape_okD(2) [OF assms(3,4)] by blast
  qed (use assms(6) in blast)
qed

lemma searched_return:
  assumes IH: "\<And>q qs. ahead ins (p, rs) (q, qs) \<Longrightarrow> q < length ins \<Longrightarrow> length qs = length rs \<Longrightarrow>
      searched release ins dur q qs ((p, rs) # active)"
    and fresh: "(p, rs) \<notin> set active" and ok: "tape_ok ins" "p < length ins" "length rs = length (collect_pcs ins)"
    and ret: "op (ins ! p) = ReturnToMenuOp m"
  shows "searched release ins dur p rs active"
proof -
  note unfold = searched_def maximum_cost.simps [of release ins dur p rs active] fresh
  have m: "m < p" "is_collect_op (op (ins ! m))" "p < limit_target (op (ins ! m))"
    using tape_okD(4) [OF ok(1,2) ret] by auto
  have "limit_target (op (ins ! m)) \<in> set (targets (op (ins ! m)))"
    using m(2) by (cases "op (ins ! m)") auto
  then have limit: "limit_target (op (ins ! m)) < length ins"
    using tape_okD(3) [OF ok(1)] m(1) ok(2) less_trans by blast
  obtain i where i: "collect_index ins m = Some i" "i < length (collect_pcs ins)" "collect_pcs ins ! i = m"
    using collect_index_menu [OF ok(1) _ m(2)] m(1) ok(2) by auto
  show ?thesis
  proof (cases "rs ! i < menu_limit (op (ins ! m))")
    case True
    then have "ahead ins (p, rs) (m, rs[i := Suc (rs ! i)])"
      using slack_return [of i ins rs] i ok(3) by (simp add: ahead_def)
    then have "searched release ins dur m (rs[i := Suc (rs ! i)]) ((p, rs) # active)"
      using IH m(1) ok(2) by simp
    then show ?thesis using longest_return(1) [OF ret i(1) True] True ret i m ok
      by (cases "op (ins ! m)") (auto simp: unfold)
  next
    case False
    have "searched release ins dur (limit_target (op (ins ! m))) rs ((p, rs) # active)"
      using IH m(3) limit by (simp add: ahead_def)
    then show ?thesis using longest_return(2) [OF ret i(1) False] False ret i m ok
      by (cases "op (ins ! m)") (auto simp: unfold)
  qed
qed

theorem searched_tape:
  assumes ok: "tape_ok ins" and release: "release = ''V4'' \<or> no_external ins"
  shows "p < length ins \<Longrightarrow> length rs = length (collect_pcs ins) \<Longrightarrow>
    (\<And>s. s \<in> set active \<Longrightarrow> ahead ins s (p, rs)) \<Longrightarrow> searched release ins dur p rs active"
proof (induction "(slack ins rs, length ins - p)" arbitrary: p rs active
    rule: wf_induct_rule [OF wf_lex_prod [OF wf_less_than wf_less_than]])
  case less: 1
  have fresh: "(p, rs) \<notin> set active" using less.prems(3) ahead_irrefl by blast
  have IH: "searched release ins dur q qs ((p, rs) # active)"
    if "ahead ins (p, rs) (q, qs)" "q < length ins" "length qs = length rs" for q qs
  proof (rule less.hyps)
    show "((slack ins qs, length ins - q), slack ins rs, length ins - p) \<in> less_than <*lex*> less_than"
      using that by (auto simp: ahead_def)
    show "ahead ins s (q, qs)" if "s \<in> set ((p, rs) # active)" for s
      using that \<open>ahead ins (p, rs) (q, qs)\<close> less.prems(3) [of s] ahead_trans [of ins s "(p, rs)"] by auto
  qed (use that less.prems in auto)
  show ?case
  proof (cases "\<exists>m. op (ins ! p) = ReturnToMenuOp m")
    case True
    then show ?thesis using searched_return [OF IH fresh ok less.prems(1,2)] by blast
  next
    case False
    have "searched release ins dur q rs ((p, rs) # active)" if "q \<in> set (targets (op (ins ! p)))" for q
      using tape_okD(3) [OF ok less.prems(1) that] by (intro IH) (auto simp: ahead_def)
    then show ?thesis using searched_forward [OF _ fresh ok less.prems(1) release] False by blast
  qed
qed

section \<open>Validated flows compile\<close>

lemma initial_length: "length (initial_returns ins) = length (collect_pcs ins)"
  by (simp add: initial_returns_def)

definition limit_error :: py_error where
  "limit_error = ValueError ''Worst-case flow duration exceeds the ten-minute limit.''"

lemma maximum_session_tape:
  assumes "tape_ok ins" "release = ''V4'' \<or> no_external ins"
  shows "\<exists>c. longest ins dur 0 (initial_returns ins) c \<and>
    maximum_session_ms release ins dur = (if c > MAXIMUM_SESSION_MS then Inl limit_error else Inr c)"
proof -
  have "0 < length ins" using assms(1) by (auto simp: tape_ok_def)
  then have "searched release ins dur 0 (initial_returns ins) []"
    using assms by (intro searched_tape) (simp_all add: initial_length)
  then obtain c where "maximum_cost release ins dur 0 (initial_returns ins) [] = Inr c"
    "longest ins dur 0 (initial_returns ins) c" unfolding searched_def by blast
  then show ?thesis by (intro exI [of _ c]) (simp add: maximum_session_ms_def limit_error_def)
qed

lemma return_checks_v3: "checks_v3 P S c (ReturnToMenuBlockV2 i) = [] \<Longrightarrow> owner c \<noteq> None \<and> owner c \<noteq> forbidden_owner c"
  by (auto simp: checks_v3_def supported_v3_def place_errors_def prompt_errors_def split: if_splits)

lemma return_checks_v4: "checks_v4 P S c (ReturnToMenuBlockV2 i) = [] \<Longrightarrow> owner c \<noteq> None \<and> owner c \<noteq> forbidden_owner c"
  by (auto simp: checks_v4_def place_errors_def prompt_errors_def split: if_splits)

lemma accepted_tape_v4:
  assumes "tree_accepted notice_v4 (checks_v4 P S) sizes limit root"
  shows "tape_ok (tape barge rec root)" "distinct (ids_of root)" "collectable notice_v4 allowed_v4 None False root"
proof -
  show d: "distinct (ids_of root)" using accepted_distinct [OF assms] .
  show "collectable notice_v4 allowed_v4 None False root"
    by (rule accepted_collectable [OF _ assms]) (rule allowed_checks_v4)
  show "tape_ok (tape barge rec root)"
    using assms by (intro tape_ok_tape [OF d, where notice = notice_v4 and checks = "checks_v4 P S"])
      (auto simp: tree_accepted_def dest: return_checks_v4)
qed

lemma accepted_tape_v3:
  assumes "tree_accepted notice_v3 (checks_v3 P S) sizes limit root"
  shows "tape_ok (tape barge rec root)" "distinct (ids_of root)" "collectable notice_v3 allowed_v3 None False root"
    "no_external (tape barge rec root)"
proof -
  show d: "distinct (ids_of root)" using accepted_distinct [OF assms] .
  show c: "collectable notice_v3 allowed_v3 None False root"
    by (rule accepted_collectable [OF _ assms]) (rule allowed_checks_v3)
  show "tape_ok (tape barge rec root)"
    using assms by (intro tape_ok_tape [OF d, where notice = notice_v3 and checks = "checks_v3 P S"])
      (auto simp: tree_accepted_def dest: return_checks_v3)
  have "\<not> is_ExternalCall (fst e)" if "e \<in> set (entries_of None root)" for e
    using collectable_entry [OF c, of "fst e" "snd e"] that by (auto simp: allowed_v3_def supported_v3_def)
  moreover have "is_ExternalCall (fst e)" if "op_of barge rec ids e = ExternalCallOp ph tm n x f" for e ids ph tm n x f
    using that by (cases "(barge, rec, ids, e)" rule: op_of.cases) auto
  ultimately show "no_external (tape barge rec root)"
    unfolding no_external_def length_tape
    by (metis (no_types) instruction.select_convs(3) length_entries_of nth_mem tape_nth)
qed

lemma compile_v4_accepted:
  assumes "flow_root f = Some root" "tree_accepted notice_v4 (checks_v4 P S) sizes limit root"
  shows "\<exists>c. longest (v4_tape rec root) dur 0 (initial_returns (v4_tape rec root)) c \<and>
    compile_flow_v4 sha f rec dur =
      (if c > MAXIMUM_SESSION_MS then Inl limit_error
       else Inr (finish_compile sha (v4_compiler root) (source_json f rec)
         \<lparr>version = 4, entry_pc = 0, maximum_session = Some c, instructions = v4_tape rec root\<rparr>))"
  using maximum_session_tape [of "v4_tape rec root" "''V4''" dur] accepted_tape_v4(1) [OF assms(2)]
  by (auto simp: compile_flow_v4_tape [OF assms(1) accepted_tape_v4(3,2) [OF assms(2)]] v4_tape_def)

lemma compile_v3_accepted:
  assumes "flow_root f = Some root" "tree_accepted notice_v3 (checks_v3 P S) sizes limit root"
  shows "\<exists>c. longest (tape False rec root) dur 0 (initial_returns (tape False rec root)) c \<and>
    compile_flow_v3 sha f rec dur =
      (if c > MAXIMUM_SESSION_MS then Inl limit_error
       else Inr (finish_compile sha ''3.0.0'' (source_json f rec)
         \<lparr>version = 3, entry_pc = 0, maximum_session = Some c, instructions = tape False rec root\<rparr>))"
  using maximum_session_tape [of "tape False rec root" "''V3''" dur] accepted_tape_v3(1,4) [OF assms(2)]
  by (auto simp: compile_flow_v3_tape [OF assms(1) accepted_tape_v3(3,2) [OF assms(2)]])

end
