(* ===== verification/Samples.thy ===== *)
theory Samples
  imports Flow_Validation Flow_Compiler
begin

text \<open>
  A small flow that uses a prompt, a menu with a return, and a recording. The witnesses of the
  properties apply them to it; the equations collected here evaluate the validators on it.
\<close>

definition demo_id :: "char \<Rightarrow> string" where
  "demo_id c = ''00000000-0000-4000-8000-00000000000'' @ [c]"

lemma demo_id_simps [simp]:
  "demo_id c = demo_id d \<longleftrightarrow> c = d" "demo_id c \<noteq> []"
  "matches_BLOCK_ID_PATTERN (demo_id c) \<longleftrightarrow> is_hex c" "matches_PROMPT_ID_PATTERN (demo_id c) \<longleftrightarrow> is_hex c \<or> c = CHR ''-''"
  by (simp_all add: demo_id_def matches_BLOCK_ID_PATTERN_def matches_PROMPT_ID_PATTERN_def is_hex_def is_digit_def)

definition demo_end :: "char \<Rightarrow> FlowBlock option" where
  "demo_end c = Some (EndCallBlockV2 (demo_id c))"

definition demo_voicemail :: FlowBlock where
  "demo_voicemail = RecordMessageBlockV3 (demo_id CHR ''5'') (demo_end CHR ''6'') (demo_end CHR ''7'')"

definition demo_greeting :: FlowBlock where
  "demo_greeting = PlayPromptBlockV2 (demo_id CHR ''4'') (Some (demo_id CHR ''b'')) (Some demo_voicemail)"

definition demo_menu :: FlowBlock where
  "demo_menu = CollectDigitBlockV2 (demo_id CHR ''2'') None False 5000 2 1
     [DigitBranchV2 (demo_id CHR ''c'') CHR ''2'' (Some (ReturnToMenuBlockV2 (demo_id CHR ''3''))),
      DigitBranchV2 (demo_id CHR ''d'') CHR ''1'' (Some demo_greeting)]
     (demo_end CHR ''8'') (demo_end CHR ''9'') (demo_end CHR ''e'')"

definition demo_root :: FlowBlock where
  "demo_root = PlayPromptBlockV2 (demo_id CHR ''1'') (Some (demo_id CHR ''a'')) (Some demo_menu)"

definition demo_document :: FlowDocumentV3 where
  "demo_document =
     \<lparr>edit_version = 1, caller_policy = default_CallerPolicy, schedules = [],
      flow = \<lparr>flow_root = Some demo_root\<rparr>, recording_behavior = default_RecordingBehavior\<rparr>"

definition demo_plain :: FlowDocumentV2 where
  "demo_plain =
     \<lparr>edit_version = 1, caller_policy = default_CallerPolicy, schedules = [],
      flow = \<lparr>flow_root = Some (PlayPromptBlockV2 (demo_id CHR ''1'') (Some (demo_id CHR ''a'')) (demo_end CHR ''2''))\<rparr>\<rparr>"

definition demo_prompts :: "string list" where
  "demo_prompts = [demo_id CHR ''a'', demo_id CHR ''b'']"

definition demo_sizes :: "string \<Rightarrow> nat option" where
  "demo_sizes p = (if p \<in> set demo_prompts then Some 1000 else None)"

lemmas demo_defs =
  demo_document_def demo_plain_def demo_root_def demo_menu_def demo_greeting_def demo_voicemail_def
  demo_end_def demo_prompts_def demo_sizes_def

lemmas visit_eval =
  visit_v2.simps [THEN fun_cong] visit_v3.simps [THEN fun_cong] visit_v4.simps [THEN fun_cong]
  validate_configuration_v2_def validate_configuration_v3_def validate_configuration_v4_def
  check_play_prompt_def check_collect_def check_schedule_def check_return_def
  err_if_def err_def use_prompt_def mark_branch_def Let_def schedule_errors_def empty_visit_def
  finish_validation_def total_asset_bytes_def set_add_def

lemma demo_valid: "FlowDefinitionV2_valid (flow demo_document)"
  by (simp add: demo_defs FlowDefinitionV2_valid_def is_hex_def is_digit_def DTMF_KEYS_def)

lemma demo_accepted_v4: "validate_configuration_v4 (\<lambda>_. True) demo_document demo_prompts demo_sizes 5000 = []"
  by (simp add: demo_defs visit_eval)

lemma demo_accepted_v3: "validate_configuration_v3 (\<lambda>_. True) demo_document demo_prompts demo_sizes 5000 = []"
  by (simp add: demo_defs visit_eval)

lemma demo_accepted_v2: "validate_configuration_v2 (\<lambda>_. True) demo_plain demo_prompts demo_sizes 5000 = []"
  by (simp add: demo_defs visit_eval)

lemmas compile_eval =
  compile_flow_def compile_flow_v3_def compile_flow_v4_def
  collect_v2.simps [THEN fun_cong] collect_v3.simps [THEN fun_cong] collect_v4.simps [THEN fun_cong]
  empty_collect_def append_entry_def set_add_def sorted_branches_def dtmf_index_def DTMF_ORDER_def require_def
  program_counter_def pc_of_def lookup_key_def emit_play_def emit_collect_def emit_schedule_def emit_record_def
  emit_return_def emit_all_def uses_barge_in_def COMPILER_VERSION_def PROMPT_BARGE_IN_COMPILER_VERSION_def
  maximum_session_ms_def initial_returns_def collect_pcs_def collect_index_def prompt_duration_def max_list_def
  MAXIMUM_SESSION_MS_def BEEP_DURATION_MS_def EXTERNAL_CONTROL_WATCHDOGS_MS_def Let_def
  default_RecordingBehavior_def maximum_cost.simps upt_rec

lemma demo_compiles_v4:
  "\<exists>r. compile_flow_v4 (\<lambda>s. s) (flow demo_document) (recording_behavior demo_document) demo_sizes = Inr r"
  unfolding is_ok_iff [symmetric] by (simp add: demo_defs compile_eval)

lemma demo_compiles_v3:
  "\<exists>r. compile_flow_v3 (\<lambda>s. s) (flow demo_document) (recording_behavior demo_document) demo_sizes = Inr r"
  unfolding is_ok_iff [symmetric] by (simp add: demo_defs compile_eval)

end
