(* ===== verification/Flow_Simulation.thy ===== *)
theory Flow_Simulation
  imports Flow_Tree
begin

text \<open>
  The flow simulators of the dashboard (\<^verbatim>\<open>src/server/app/simulation_v2.py\<close>,
  \<^verbatim>\<open>simulation_v3.py\<close>, \<^verbatim>\<open>simulation_v4.py\<close>). A simulation walks the tree from the root,
  takes the next event wherever the flow waits for one, counts returns per menu, and stops with a
  status; it gives up after 512 transitions. The position in the event list is modelled by the
  list of events that have not been read.
\<close>

section \<open>State and result\<close>

record trace_step =
  step_block_id :: string
  step_type :: string
  step_label :: string
  step_prompt_id :: "string option option"
  step_event :: "string option"

text \<open>
  The result dictionary; \<open>available\<close> is the key and the value of the field that lists the events
  the simulation can continue with.
\<close>

record simulation_result =
  status :: string
  trace :: "trace_step list"
  message :: string
  awaiting_block_id :: "string option"
  available :: "(string \<times> string list) option"

record simulation_state =
  current :: FlowBlock
  unread :: "string list"
  menu_returns :: "string \<Rightarrow> nat option"
  steps :: "trace_step list"

datatype transition = Continue simulation_state | Stop simulation_result

definition finished :: "string \<Rightarrow> string \<Rightarrow> trace_step list \<Rightarrow> transition" where
  "finished st msg tr =
     Stop \<lparr>status = st, trace = tr, message = msg, awaiting_block_id = None, available = None\<rparr>"

definition awaiting ::
  "string \<Rightarrow> string \<Rightarrow> string \<times> string list \<Rightarrow> FlowBlock \<Rightarrow> trace_step list \<Rightarrow> transition" where
  "awaiting st msg events b tr =
     Stop \<lparr>status = st, trace = tr, message = msg, awaiting_block_id = Some (block_id b), available = Some events\<rparr>"

definition trace_of :: "FlowBlock \<Rightarrow> trace_step" where
  "trace_of b =
     \<lparr>step_block_id = block_id b, step_type = block_type b, step_label = block_label b,
      step_prompt_id = (case b of PlayPromptBlockV2 i p n \<Rightarrow> Some p
        | CollectDigitBlockV2 i p g m a r bs t v l \<Rightarrow> Some p | _ \<Rightarrow> None),
      step_event = None\<rparr>"

text \<open>\<^verbatim>\<open>trace[-1]["event"] = e\<close>\<close>

definition set_event :: "string \<Rightarrow> trace_step list \<Rightarrow> trace_step list" where
  "set_event e tr = (if tr = [] then [] else butlast tr @ [last tr\<lparr>step_event := Some e\<rparr>])"

definition set_event_option :: "string option \<Rightarrow> trace_step list \<Rightarrow> trace_step list" where
  "set_event_option e tr = (case e of None \<Rightarrow> tr | Some x \<Rightarrow> set_event x tr)"

section \<open>The owners of the returns\<close>

text \<open>
  \<open>index_owners\<close> descends into the blocks that the release indexes, in field order, and notes the
  innermost menu above every return.
\<close>

definition indexed_v2 :: "FlowBlock \<Rightarrow> bool" where
  "indexed_v2 b \<longleftrightarrow> \<not> is_RecordMessage b \<and> \<not> is_ExternalCall b"

definition indexed_v3 :: "FlowBlock \<Rightarrow> bool" where
  "indexed_v3 b \<longleftrightarrow> \<not> is_ExternalCall b"

definition indexed_v4 :: "FlowBlock \<Rightarrow> bool" where
  "indexed_v4 b \<longleftrightarrow> True"

function index_owners ::
  "(FlowBlock \<Rightarrow> bool) \<Rightarrow> FlowBlock \<Rightarrow> string option \<Rightarrow> (string \<Rightarrow> string option) \<Rightarrow> string \<Rightarrow> string option" where
  "index_owners indexed b owner_id return_owners =
     (if is_ReturnToMenu b
      then (case owner_id of None \<Rightarrow> return_owners | Some menu \<Rightarrow> return_owners(block_id b \<mapsto> menu))
      else if indexed b
      then fold (\<lambda>k. index_owners indexed k (if is_CollectDigit b then Some (block_id b) else owner_id))
             (owned b) return_owners
      else return_owners)"
  by pat_completeness auto
termination
  by (relation "measure (\<lambda>(_, b, _). weight b)") (auto dest: weight_owned_less)

declare index_owners.simps [simp del]

text \<open>\<^verbatim>\<open>{block.block_id: block for block, _ in walk_blocks(root)}\<close>\<close>

definition block_table :: "FlowBlock \<Rightarrow> string \<Rightarrow> FlowBlock option" where
  "block_table root = map_of (rev (map (\<lambda>(b, _). (block_id b, b)) (walk_blocks (Some root))))"

section \<open>One transition\<close>

definition go_to :: "FlowBlock \<Rightarrow> simulation_state \<Rightarrow> transition" where
  "go_to b s = Continue (s\<lparr>current := b\<rparr>)"

definition step_play :: "FlowBlock option \<Rightarrow> simulation_state \<Rightarrow> transition" where
  "step_play n s = (case n of
     None \<Rightarrow> finished ''invalid'' ''Play prompt has no next step.'' (steps s)
   | Some k \<Rightarrow> go_to k s)"

fun menu_fields :: "FlowBlock \<Rightarrow> (nat \<times> FlowBlock option) option" where
  "menu_fields (CollectDigitBlockV2 i p g m a r bs t v l) = Some (r, l)"
| "menu_fields _ = None"

definition step_return ::
  "(string \<Rightarrow> FlowBlock option) \<Rightarrow> (string \<Rightarrow> string option) \<Rightarrow> simulation_state \<Rightarrow> transition" where
  "step_return blocks return_owners s =
     (let owner_id = (case return_owners (block_id (current s)) of None \<Rightarrow> [] | Some i \<Rightarrow> i) in
      case Option.bind (blocks owner_id) (\<lambda>menu. map_option (Pair menu) (menu_fields menu)) of
        None \<Rightarrow> finished ''invalid'' ''Return to menu has no owning menu.'' (steps s)
      | Some (menu, maximum_menu_returns, on_return_limit) \<Rightarrow>
          let count = (case menu_returns s (block_id menu) of None \<Rightarrow> 0 | Some n \<Rightarrow> n) in
          if count \<ge> maximum_menu_returns
          then let s = s\<lparr>steps := set_event ''menu-return:limit'' (steps s)\<rparr> in
               (case on_return_limit of
                  None \<Rightarrow> finished ''invalid'' ''Menu return limit has no fallback.'' (steps s)
                | Some l \<Rightarrow> go_to l s)
          else go_to menu
            (s\<lparr>menu_returns := (menu_returns s)(block_id menu \<mapsto> count + 1),
               steps := set_event (''menu-return:'' @ str_nat (count + 1) @ ''/'' @ str_nat maximum_menu_returns)
                          (steps s)\<rparr>))"

definition step_schedule ::
  "string \<Rightarrow> FlowBlock option \<Rightarrow> FlowBlock option \<Rightarrow> FlowBlock option \<Rightarrow> simulation_state \<Rightarrow> transition" where
  "step_schedule unknown x y z s = (case unread s of
     [] \<Rightarrow> awaiting ''awaiting_schedule'' ''Choose the schedule result for this simulation.''
             (''available_schedule_states'', [''open'', ''closed'', ''holiday'']) (current s) (steps s)
   | state # rest \<Rightarrow>
       (case Option.bind (map_of [(''open'', x), (''closed'', y), (''holiday'', z)] state) id of
          None \<Rightarrow> finished ''invalid'' (unknown @ state @ ''.'') (steps s)
        | Some target \<Rightarrow>
            go_to target (s\<lparr>unread := rest, steps := set_event (''schedule:'' @ state) (steps s)\<rparr>)))"

text \<open>The attempts of a menu: wait for an event, or route to a branch with the events left.\<close>

datatype attempt_result =
    Waiting nat "string option"
  | Routed "FlowBlock option" "string list" "string option"

fun attempt_loop ::
  "(string \<Rightarrow> FlowBlock option option) \<Rightarrow> FlowBlock option \<Rightarrow> FlowBlock option \<Rightarrow> nat \<Rightarrow> nat \<Rightarrow> string list \<Rightarrow>
   string option \<Rightarrow> attempt_result" where
  "attempt_loop branch_by_digit t v maximum 0 events label = Routed None events label"
| "attempt_loop branch_by_digit t v maximum (Suc left) [] label = Waiting (maximum - left) label"
| "attempt_loop branch_by_digit t v maximum (Suc left) (event # events) label =
     (case branch_by_digit event of
        Some root \<Rightarrow> Routed root events (Some (''digit:'' @ event))
      | None \<Rightarrow>
          let label = (if event = ''timeout'' then ''timeout'' else ''invalid'') in
          if left = 0 then Routed (if event = ''timeout'' then t else v) events (Some label)
          else attempt_loop branch_by_digit t v maximum left events (Some label))"

definition step_collect ::
  "nat \<Rightarrow> DigitBranch list \<Rightarrow> FlowBlock option \<Rightarrow> FlowBlock option \<Rightarrow> simulation_state \<Rightarrow> transition" where
  "step_collect maximum_attempts branches t v s =
     (let branch_by_digit = map_of (rev (map (\<lambda>b. ([digit b], branch_root b)) branches)) in
      case attempt_loop branch_by_digit t v maximum_attempts maximum_attempts (unread s) None of
        Waiting attempt label \<Rightarrow>
          awaiting ''awaiting_input''
            (''Waiting for attempt '' @ str_nat attempt @ '' of '' @ str_nat maximum_attempts @ ''.'')
            (''available_digits'', sort (dict_fromkeys (map (\<lambda>b. [digit b]) branches)))
            (current s) (set_event_option label (steps s))
      | Routed routed events label \<Rightarrow>
          let s = s\<lparr>unread := events, steps := set_event_option label (steps s)\<rparr> in
          (case routed of
             None \<Rightarrow> finished ''invalid'' ''The selected branch is empty.'' (steps s)
           | Some k \<Rightarrow> go_to k s))"

definition step_record :: "FlowBlock option \<Rightarrow> FlowBlock option \<Rightarrow> simulation_state \<Rightarrow> transition" where
  "step_record n u s = (case unread s of
     [] \<Rightarrow> awaiting ''awaiting_recording'' ''Choose how this explicit recording step finishes.''
             (''available_recording_outcomes'', [''recorded'', ''unavailable'', ''hangup'']) (current s) (steps s)
   | outcome # rest \<Rightarrow>
       let s = s\<lparr>unread := rest, steps := set_event (''recording:'' @ outcome) (steps s)\<rparr> in
       if outcome = ''hangup''
       then finished ''complete'' ''Caller hangup finalized the message and ended the call.'' (steps s)
       else (case (if outcome = ''recorded'' then n else if outcome = ''unavailable'' then u else None) of
          None \<Rightarrow> finished ''invalid'' (''Unknown or empty recording outcome: '' @ outcome @ ''.'') (steps s)
        | Some target \<Rightarrow> go_to target s))"

definition step_external ::
  "FlowBlock option \<Rightarrow> FlowBlock option \<Rightarrow> FlowBlock option \<Rightarrow> simulation_state \<Rightarrow> transition" where
  "step_external n x f s = (case unread s of
     [] \<Rightarrow> awaiting ''awaiting_external'' ''Choose the verified external-call outcome.''
             (''available_external_outcomes'',
              [''external_completed'', ''external_not_connected'', ''external_system_failure'']) (current s) (steps s)
   | outcome # rest \<Rightarrow>
       (case Option.bind (map_of [(''external_completed'', n), (''external_not_connected'', x),
               (''external_system_failure'', f)] outcome) id of
          None \<Rightarrow> finished ''invalid'' (''Unknown or empty external-call outcome: '' @ outcome @ ''.'') (steps s)
        | Some target \<Rightarrow> go_to target (s\<lparr>unread := rest, steps := set_event outcome (steps s)\<rparr>)))"

definition enter_step :: "simulation_state \<Rightarrow> simulation_state" where
  "enter_step s = s\<lparr>steps := steps s @ [trace_of (current s)]\<rparr>"

text \<open>A block that the simulator does not know leaves the loop variable unchanged.\<close>

definition step_v2 ::
  "(string \<Rightarrow> FlowBlock option) \<Rightarrow> (string \<Rightarrow> string option) \<Rightarrow> simulation_state \<Rightarrow> transition" where
  "step_v2 blocks return_owners s0 =
     (let s = enter_step s0 in case current s of
        PlayPromptBlockV2 i p n \<Rightarrow> step_play n s
      | EndCallBlockV2 i \<Rightarrow> finished ''complete'' ''Call ended.'' (steps s)
      | ReturnToMenuBlockV2 i \<Rightarrow> step_return blocks return_owners s
      | ScheduleBranchBlockV2 i sid x y z \<Rightarrow> step_schedule ''Unknown or empty schedule result: '' x y z s
      | CollectDigitBlockV2 i p g m a r bs t v l \<Rightarrow> step_collect a bs t v s
      | _ \<Rightarrow> Continue s)"

definition step_v3 ::
  "(string \<Rightarrow> FlowBlock option) \<Rightarrow> (string \<Rightarrow> string option) \<Rightarrow> simulation_state \<Rightarrow> transition" where
  "step_v3 blocks return_owners s0 =
     (let s = enter_step s0 in case current s of
        PlayPromptBlockV2 i p n \<Rightarrow> step_play n s
      | EndCallBlockV2 i \<Rightarrow> finished ''complete'' ''Call ended.'' (steps s)
      | RecordMessageBlockV3 i n u \<Rightarrow> step_record n u s
      | ReturnToMenuBlockV2 i \<Rightarrow> step_return blocks return_owners s
      | ScheduleBranchBlockV2 i sid x y z \<Rightarrow> step_schedule ''Unknown schedule result: '' x y z s
      | CollectDigitBlockV2 i p g m a r bs t v l \<Rightarrow> step_collect a bs t v s
      | _ \<Rightarrow> Continue s)"

definition step_v4 ::
  "(string \<Rightarrow> FlowBlock option) \<Rightarrow> (string \<Rightarrow> string option) \<Rightarrow> simulation_state \<Rightarrow> transition" where
  "step_v4 blocks return_owners s0 =
     (let s = enter_step s0 in case current s of
        PlayPromptBlockV2 i p n \<Rightarrow> step_play n s
      | EndCallBlockV2 i \<Rightarrow> finished ''complete'' ''Call ended.'' (steps s)
      | RecordMessageBlockV3 i n u \<Rightarrow> step_record n u s
      | ExternalCallBlockV4 i ph tm n x f \<Rightarrow> step_external n x f s
      | ReturnToMenuBlockV2 i \<Rightarrow> step_return blocks return_owners s
      | ScheduleBranchBlockV2 i sid x y z \<Rightarrow> step_schedule ''Unknown schedule result: '' x y z s
      | CollectDigitBlockV2 i p g m a r bs t v l \<Rightarrow> step_collect a bs t v s)"

section \<open>The simulators\<close>

definition exceeded_message :: string where
  "exceeded_message = ''Simulation exceeded 512 transitions.''"

fun simulation_loop :: "(simulation_state \<Rightarrow> transition) \<Rightarrow> nat \<Rightarrow> simulation_state \<Rightarrow> simulation_result" where
  "simulation_loop step 0 s =
     \<lparr>status = ''invalid'', trace = steps s, message = exceeded_message, awaiting_block_id = None, available = None\<rparr>"
| "simulation_loop step (Suc n) s =
     (case step s of Stop r \<Rightarrow> r | Continue s' \<Rightarrow> simulation_loop step n s')"

definition start_simulation :: "FlowBlock \<Rightarrow> string list \<Rightarrow> simulation_state" where
  "start_simulation root events =
     \<lparr>current = root, unread = events, menu_returns = (\<lambda>_. None), steps = []\<rparr>"

definition empty_flow_result :: simulation_result where
  "empty_flow_result =
     \<lparr>status = ''invalid'', trace = [], message = ''The flow is empty.'', awaiting_block_id = None, available = None\<rparr>"

definition simulate :: "FlowDefinitionV2 \<Rightarrow> string list \<Rightarrow> simulation_result" where
  "simulate f events = (case flow_root f of
     None \<Rightarrow> empty_flow_result
   | Some root \<Rightarrow>
       simulation_loop (step_v2 (block_table root) (index_owners indexed_v2 root None (\<lambda>_. None))) 512
         (start_simulation root events))"

definition simulate_v3 :: "FlowDefinitionV2 \<Rightarrow> string list \<Rightarrow> simulation_result" where
  "simulate_v3 f events = (case flow_root f of
     None \<Rightarrow> empty_flow_result
   | Some root \<Rightarrow>
       simulation_loop (step_v3 (block_table root) (index_owners indexed_v3 root None (\<lambda>_. None))) 512
         (start_simulation root events))"

definition simulate_v4 :: "FlowDefinitionV2 \<Rightarrow> string list \<Rightarrow> simulation_result" where
  "simulate_v4 f events = (case flow_root f of
     None \<Rightarrow> empty_flow_result
   | Some root \<Rightarrow>
       simulation_loop (step_v4 (block_table root) (index_owners indexed_v4 root None (\<lambda>_. None))) 512
         (start_simulation root events))"

end
