(* ===== verification/Simulation_Laws.thy ===== *)
theory Simulation_Laws
  imports Validation_Laws Flow_Simulation Samples
begin

text \<open>
  What a simulation of an accepted configuration does. Returns lead only to the innermost menu, so
  a simulation never leaves the subtree of a menu it has entered; a potential on the context of
  the current block bounds the number of transitions by 144, well below the limit of 512. A
  simulation of an accepted configuration is invalid only when an event is not one the flow offers.
\<close>

section \<open>The menu above a block\<close>

lemma height_owned: "k \<in> set (owned b) \<Longrightarrow> height k < height b"
proof -
  have "x \<in> set xs \<Longrightarrow> x \<le> foldr max xs (0::nat)" for x xs
    by (induction xs) (auto simp: max_def)
  then show "k \<in> set (owned b) \<Longrightarrow> height k < height b"
    by (subst (2) height.simps) (simp add: le_imp_less_Suc)
qed

lemma menu_above:
  "context_at notice c b c' x \<Longrightarrow>
   owner c' = owner c \<and> forbidden_owner c' = forbidden_owner c \<and> height x \<le> height b \<or>
   (\<exists>M c''. context_at notice c b c'' M \<and> is_CollectDigit M \<and> owner c' = Some (block_id M) \<and>
      (forbidden_owner c' = None \<or> forbidden_owner c' = owner c') \<and> height x < height M)"
proof (induction rule: context_at.induct)
  case (here c b)
  then show ?case by simp
next
  case (below a c b k c' b')
  have k: "height k < height b" using below.hyps(1,2) arm_child_owned height_owned by blast
  from below.IH show ?case
  proof
    assume IH: "owner c' = owner (arm_context a) \<and> forbidden_owner c' = forbidden_owner (arm_context a) \<and>
      height b' \<le> height k"
    show ?thesis
    proof (cases "is_CollectDigit b")
      case True
      then have "owner (arm_context a) = Some (block_id b) \<and>
          (forbidden_owner (arm_context a) = None \<or> forbidden_owner (arm_context a) = Some (block_id b))"
        using below.hyps(1) by (cases b) (auto simp: menu_arm_def Let_def)
      then show ?thesis using IH k True context_at.here [of notice c b] by auto
    next
      case False
      then have "owner (arm_context a) = owner c \<and> forbidden_owner (arm_context a) = forbidden_owner c"
        using below.hyps(1) by (cases b) (auto simp: inherit_arm_def Let_def)
      then show ?thesis using IH k by auto
    qed
  next
    assume "\<exists>M c''. context_at notice (arm_context a) k c'' M \<and> is_CollectDigit M \<and>
      owner c' = Some (block_id M) \<and>
      (forbidden_owner c' = None \<or> forbidden_owner c' = owner c') \<and> height b' < height M"
    then show ?thesis using context_at.below [OF below.hyps(1,2)] by blast
  qed
qed

section \<open>The tables of a simulation\<close>

lemma block_table_subtree:
  assumes "distinct (map block_id (subtree root))" "b \<in> set (subtree root)"
  shows "block_table root (block_id b) = Some b"
proof -
  let ?ps = "map (\<lambda>(b, _). (block_id b, b)) (walk_blocks (Some root))"
  have ps: "?ps = map (\<lambda>b. (block_id b, b)) (preorder root)"
    by (simp add: walk_blocks_preorder map_fst_preorder_depth [of 1 root, symmetric] comp_def case_prod_beta)
  have "distinct (map fst ?ps)"
    using assms(1) unfolding ps by (simp add: comp_def distinct_map_preorder)
  moreover have "(block_id b, b) \<in> set ?ps" using assms(2) unfolding ps by auto
  ultimately show ?thesis unfolding block_table_def by (simp add: map_of_rev_distinct)
qed

lemma fold_index_owners_other:
  "\<forall>k\<in>set ks. \<forall>ow m. index_owners indexed k ow m i = m i \<Longrightarrow>
   fold (\<lambda>k. index_owners indexed k ow) ks m i = m i"
  by (induction ks arbitrary: m) auto

lemma index_owners_other:
  "i \<notin> block_id ` set (subtree b) \<Longrightarrow> index_owners indexed b ow m i = m i"
proof (induction b arbitrary: ow m rule: owned_induct)
  case (step b)
  have "\<forall>k\<in>set (owned b). \<forall>ow m. index_owners indexed k ow m i = m i"
    using step.IH step.prems subtree_owned by blast
  then show ?case using step.prems fold_index_owners_other
    by (auto simp: index_owners.simps [of indexed b] split: option.splits)
qed

lemma distinct_subtree_owned:
  assumes "distinct (map block_id (subtree b))" "owned b = us @ k # vs"
  shows "distinct (map block_id (subtree k))"
    "v \<in> set vs \<Longrightarrow> block_id ` set (subtree k) \<inter> block_id ` set (subtree v) = {}"
  using assms by (auto simp: subtree.simps [of b] dest!: distinct_map [THEN iffD1]) blast+

text \<open>The index names the innermost menu above every return.\<close>

lemma index_owners_return:
  assumes "context_at notice c b c' (ReturnToMenuBlockV2 i)" "distinct (map block_id (subtree b))"
    "\<forall>x\<in>set (subtree b). indexed x" "owner c' = Some menu"
  shows "index_owners indexed b (owner c) m i = Some menu"
  using assms
proof (induction b arbitrary: c m rule: owned_induct)
  case (step b)
  show ?case
  proof (cases "b = ReturnToMenuBlockV2 i")
    case True
    then have "c' = c" using step.prems(1)
      by (auto simp: context_at_unfold [of notice c "ReturnToMenuBlockV2 i"])
    then show ?thesis using True step.prems(4)
      by (simp add: index_owners.simps [of indexed "ReturnToMenuBlockV2 i"])
  next
    case False
    then obtain a k where a: "a \<in> set (arms notice c b)" "arm_child a = Some k"
      "context_at notice (arm_context a) k c' (ReturnToMenuBlockV2 i)"
      using step.prems(1) by (auto simp: context_at_unfold [of notice c b])
    have k: "k \<in> set (owned b)" using a arm_child_owned by blast
    then obtain us vs where owned: "owned b = us @ k # vs" by (meson split_list)
    have "i \<in> block_id ` set (subtree k)" using context_at_subtree [OF a(3)] by force
    then have "i \<notin> block_id ` set (subtree v)" if "v \<in> set vs" for v
      using distinct_subtree_owned(2) [OF step.prems(2) owned that] by blast
    then have other: "\<forall>v\<in>set vs. \<forall>ow m. index_owners indexed v ow m i = m i"
      by (simp add: index_owners_other)
    have "\<forall>x\<in>set (subtree k). indexed x" using step.prems(3) subtree_owned [OF k] by blast
    then have IH: "index_owners indexed k (owner (arm_context a)) m i = Some menu" for m
      using step.IH [OF k a(3) distinct_subtree_owned(1) [OF step.prems(2) owned]] step.prems(4) by blast
    have "owner (arm_context a) = (if is_CollectDigit b then Some (block_id b) else owner c)"
      "\<not> is_ReturnToMenu b"
      using a(1) by (cases b; auto simp: inherit_arm_def menu_arm_def Let_def)+
    then show ?thesis using IH fold_index_owners_other [OF other] owned step.prems(3)
      by (simp add: index_owners.simps [of indexed b])
  qed
qed

section \<open>The potential of a state\<close>

text \<open>
  \<open>reach h\<close> bounds the transitions from a block of height \<open>h\<close>: at most three returns repeat a menu
  before its return-limit path is taken.
\<close>

definition reach :: "nat \<Rightarrow> nat" where
  "reach h = 2 * h * (h + 1)"

lemma reach_less: "h < h' \<Longrightarrow> reach h < reach h'"
proof -
  assume "h < h'"
  then have "h * (h + 1) < h' * (h' + 1)" by (intro mult_strict_mono) auto
  then show "reach h < reach h'" by (simp add: reach_def)
qed

lemma reach_mono: "h \<le> h' \<Longrightarrow> reach h \<le> reach h'"
  using reach_less [of h h'] by (cases "h = h'") auto

lemma reach_menu: "0 < h \<Longrightarrow> 4 * h + reach (h - 1) = reach h"
  by (cases h) (simp_all add: reach_def)

lemma reach_eight: "reach 8 = 144"
  by (simp add: reach_def)

definition menu_maximum :: "FlowBlock \<Rightarrow> nat" where
  "menu_maximum b = (case menu_fields b of None \<Rightarrow> 0 | Some (r, _) \<Rightarrow> r)"

definition returns_left :: "(string \<Rightarrow> nat option) \<Rightarrow> FlowBlock \<Rightarrow> nat" where
  "returns_left counts menu =
     menu_maximum menu - (case counts (block_id menu) of None \<Rightarrow> 0 | Some n \<Rightarrow> n)"

definition potential ::
  "(string \<Rightarrow> FlowBlock option) \<Rightarrow> (string \<Rightarrow> nat option) \<Rightarrow> visit_context \<Rightarrow> FlowBlock \<Rightarrow> nat" where
  "potential blocks counts c x =
     (if is_CollectDigit x then (returns_left counts x + 1) * height x + reach (height x - 1)
      else (case owner c of
        None \<Rightarrow> reach (height x)
      | Some i \<Rightarrow>
          if forbidden_owner c = owner c then reach (height x)
          else (case blocks i of
            None \<Rightarrow> 0
          | Some menu \<Rightarrow> height x + returns_left counts menu * height menu + reach (height menu - 1))))"

text \<open>What the schema guarantees of every menu.\<close>

lemma valid_owned: "FlowBlock_valid b \<Longrightarrow> k \<in> set (owned b) \<Longrightarrow> FlowBlock_valid k"
proof (cases b)
  case (CollectDigitBlockV2 i p g m a r bs t v l)
  moreover assume "FlowBlock_valid b" "k \<in> set (owned b)"
  ultimately consider x where "x \<in> set bs" "branch_root x = Some k" "DigitBranch_valid x" | "Some k \<in> {t, v, l}"
    by (auto simp: owned_def)
  then show ?thesis
  proof cases
    case 1
    from 1(2,3) show ?thesis by (cases x) simp
  next
    case 2
    then show ?thesis using CollectDigitBlockV2 \<open>FlowBlock_valid b\<close> by auto
  qed
qed (auto simp: owned_def)

lemma valid_subtree: "FlowBlock_valid b \<Longrightarrow> x \<in> set (subtree b) \<Longrightarrow> FlowBlock_valid x"
proof (induction b rule: owned_induct)
  case (step b)
  then show ?case using valid_owned by (auto simp: set_subtree [of b])
qed

lemma returns_left_valid: "FlowBlock_valid b \<Longrightarrow> returns_left counts b \<le> 3"
  by (cases b) (auto simp: returns_left_def menu_maximum_def intro: le_trans [OF diff_le_self])

lemma menu_potential:
  assumes "is_CollectDigit x" "FlowBlock_valid x"
  shows "potential blocks counts c x \<le> reach (height x)"
proof -
  have "(returns_left counts x + 1) * height x \<le> 4 * height x"
    using returns_left_valid [OF assms(2), of counts] by (intro mult_le_mono1) simp
  then have "potential blocks counts c x \<le> 4 * height x + reach (height x - 1)"
    using assms(1) by (simp only: potential_def if_True add_le_cancel_right)
  then show ?thesis by (simp only: reach_menu [OF height_pos])
qed

lemma height_return [simp]: "height (ReturnToMenuBlockV2 i) = 1"
  by (simp add: height.simps [of "ReturnToMenuBlockV2 i"] owned_def)

lemma menu_fields_total:
  "is_CollectDigit b \<Longrightarrow> None \<notin> set (child_fields b) \<Longrightarrow> \<exists>r l. menu_fields b = Some (r, Some l)"
  by (cases b) (simp_all, metis not_None_eq)

lemma limit_arm:
  "menu_fields M = Some (r, Some l) \<Longrightarrow>
   \<exists>a\<in>set (arms notice c M). arm_child a = Some l \<and> forbidden_owner (arm_context a) = owner (arm_context a)"
  by (cases M) (simp_all add: Let_def menu_arm_def)

text \<open>
  The steps that wait for an outcome: their type, how an event is refused, and the outcomes that the
  flow knows.
\<close>

definition waiting_steps :: "(string \<times> string \<times> string list) list" where
  "waiting_steps =
     [(''schedule_branch'', ''Unknown schedule result: '', [''open'', ''closed'', ''holiday'']),
      (''record_message'', ''Unknown or empty recording outcome: '', [''recorded'', ''unavailable'', ''hangup'']),
      (''external_call'', ''Unknown or empty external-call outcome: '',
        [''external_completed'', ''external_not_connected'', ''external_system_failure''])]"

text \<open>What is expected of the result of a simulation.\<close>

definition rejects_event :: "string list \<Rightarrow> simulation_result \<Rightarrow> bool" where
  "rejects_event events r \<longleftrightarrow> trace r \<noteq> [] \<and>
     (\<exists>(type, refusal, outcomes)\<in>set waiting_steps. step_type (last (trace r)) = type \<and>
        (\<exists>e\<in>set events. e \<notin> set outcomes \<and> message r = refusal @ e @ ''.''))"

definition stops_well :: "string list \<Rightarrow> nat \<Rightarrow> simulation_result \<Rightarrow> bool" where
  "stops_well events bound r \<longleftrightarrow>
     length (trace r) \<le> bound \<and> (status r = ''invalid'' \<longrightarrow> rejects_event events r)"

lemma set_event_length [simp]: "length (set_event e tr) = length tr"
  by (simp add: set_event_def)

lemma set_event_type [simp]: "step_type (last (set_event e tr)) = step_type (last tr)" "set_event e tr = [] \<longleftrightarrow> tr = []"
  by (auto simp: set_event_def)

lemma set_event_option_length [simp]: "length (set_event_option e tr) = length tr"
  by (simp add: set_event_option_def split: option.splits)

lemma attempt_loop_routed:
  "attempt_loop D t v maximum left events label = Routed routed rest label' \<Longrightarrow> 0 < left \<Longrightarrow>
   set rest \<subseteq> set events \<and> (routed \<in> ran D \<or> routed = t \<or> routed = v)"
proof (induction D t v maximum left events label rule: attempt_loop.induct)
  case (3 D t v maximum left event events label)
  then show ?case by (auto simp: Let_def ranI split: option.splits if_splits)
qed auto

lemma enter_step_simps [simp]:
  "current (enter_step s) = current s" "unread (enter_step s) = unread s"
  "menu_returns (enter_step s) = menu_returns s" "length (steps (enter_step s)) = Suc (length (steps s))"
  "step_type (last (steps (enter_step s))) = block_type (current s)" "steps (enter_step s) \<noteq> []"
  by (simp_all add: enter_step_def trace_of_def)

text \<open>A simulated tree, and moving to a block that the current block owns.\<close>

locale simulated_tree =
  fixes root :: FlowBlock
    and notice :: "FlowBlock \<Rightarrow> bool \<Rightarrow> bool"
    and checks :: "visit_context \<Rightarrow> FlowBlock \<Rightarrow> string list"
  assumes distinct_root: "distinct (map block_id (subtree root))"
    and valid_root: "FlowBlock_valid root"
    and ok_root: "tree_ok notice checks root_context root"
    and return_checks: "checks c (ReturnToMenuBlockV2 i) = [] \<Longrightarrow> owner c \<noteq> None \<and> owner c \<noteq> forbidden_owner c"
begin

abbreviation at where "at c x \<equiv> context_at notice root_context root c x"

lemma at_subtree: "at c x \<Longrightarrow> x \<in> set (subtree root)"
  by (rule context_at_subtree)

lemma at_valid: "at c x \<Longrightarrow> FlowBlock_valid x"
  using valid_subtree valid_root at_subtree by blast

lemma at_table: "at c x \<Longrightarrow> block_table root (block_id x) = Some x"
  using block_table_subtree distinct_root at_subtree by blast

lemma at_arm: "at c x \<Longrightarrow> a \<in> set (arms notice c x) \<Longrightarrow> arm_child a = Some k \<Longrightarrow> at (arm_context a) k"
  by (rule context_at_trans) (auto intro: context_at.intros)

lemma at_owner:
  assumes "at c x" "owner c = Some i"
  obtains M c' where "at c' M" "is_CollectDigit M" "i = block_id M" "height x < height M"
    "forbidden_owner c = None \<or> forbidden_owner c = owner c" "block_table root i = Some M"
  using menu_above [OF assms(1)] assms(2) at_table by (auto simp: root_context_def)

lemma potential_confined:
  assumes "at c x" "owner c = None \<or> forbidden_owner c = owner c"
  shows "potential (block_table root) counts c x \<le> reach (height x)"
proof (cases "is_CollectDigit x")
  case True
  then show ?thesis using menu_potential at_valid [OF assms(1)] by blast
next
  case False
  then show ?thesis using assms(2) by (auto simp: potential_def split: option.splits)
qed

lemma potential_menu_child:
  assumes "at c x" "is_CollectDigit x" "a \<in> set (arms notice c x)" "arm_child a = Some k"
  shows "potential (block_table root) counts (arm_context a) k < potential (block_table root) counts c x"
proof -
  have k: "at (arm_context a) k" "height k < height x"
    using at_arm assms arm_child_owned height_owned by blast+
  have x: "potential (block_table root) counts c x = (returns_left counts x + 1) * height x + reach (height x - 1)"
    using assms(2) by (simp add: potential_def)
  have reach: "reach (height k) \<le> reach (height x - 1)" using k(2) by (intro reach_mono) simp
  have ow: "owner (arm_context a) = Some (block_id x)"
    using assms(2,3) by (cases x) (auto simp: menu_arm_def Let_def)
  show ?thesis
  proof (cases "is_CollectDigit k")
    case True
    then show ?thesis using menu_potential [OF True at_valid [OF k(1)], of "block_table root" counts "arm_context a"]
      reach x height_pos [of x] by (simp add: add.assoc le_less_trans)
  next
    case False
    then have "potential (block_table root) counts (arm_context a) k =
        (if forbidden_owner (arm_context a) = owner (arm_context a) then reach (height k)
         else height k + returns_left counts x * height x + reach (height x - 1))"
      using ow at_table [OF assms(1)] by (simp add: potential_def)
    then show ?thesis using x reach k(2) by auto
  qed
qed

lemma potential_child:
  assumes "at c x" "a \<in> set (arms notice c x)" "arm_child a = Some k"
  shows "potential (block_table root) counts (arm_context a) k < potential (block_table root) counts c x"
proof (cases "is_CollectDigit x")
  case True
  then show ?thesis using potential_menu_child assms by blast
next
  case False
  have k: "at (arm_context a) k" "height k < height x"
    using at_arm assms arm_child_owned height_owned by blast+
  have inherit: "owner (arm_context a) = owner c" "forbidden_owner (arm_context a) = forbidden_owner c"
    using False assms(2) by (cases x; auto simp: inherit_arm_def Let_def)+
  show ?thesis
  proof (cases "owner c = None \<or> forbidden_owner c = owner c")
    case True
    then have "potential (block_table root) counts c x = reach (height x)"
      using False by (auto simp: potential_def split: option.splits)
    moreover have "potential (block_table root) counts (arm_context a) k \<le> reach (height k)"
      using True inherit potential_confined [OF k(1)] by simp
    ultimately show ?thesis using reach_less [OF k(2)] by simp
  next
    case owned: False
    then obtain M c' where M: "owner c = Some (block_id M)" "height x < height M" "block_table root (block_id M) = Some M"
      using at_owner [OF assms(1)] by auto
    have x: "potential (block_table root) counts c x = height x + returns_left counts M * height M + reach (height M - 1)"
      using False owned M by (auto simp: potential_def)
    have "reach (height k) \<le> reach (height M - 1)" using k(2) M(2) by (intro reach_mono) simp
    then show ?thesis using x k inherit owned M menu_potential [OF _ at_valid [OF k(1)], of "block_table root" counts "arm_context a"]
      by (cases "is_CollectDigit k") (auto simp: potential_def)
  qed
qed

lemma potential_pos:
  assumes "at c x"
  shows "0 < potential (block_table root) counts c x"
proof (cases "owner c")
  case None
  then show ?thesis using height_pos [of x] by (auto simp: potential_def reach_def)
next
  case (Some i)
  from assms Some obtain M where "block_table root i = Some M" by (rule at_owner)
  then show ?thesis using Some height_pos [of x] by (simp add: potential_def reach_def)
qed

lemma move_child:
  assumes "at c x" "Some k \<in> set (child_fields x)"
  shows "\<exists>c'. at c' k \<and> potential (block_table root) counts c' k < potential (block_table root) counts c x"
proof -
  have "k \<in> set (owned x)" using assms(2) by (simp add: owned_def)
  then obtain a where "a \<in> set (arms notice c x)" "arm_child a = Some k" by (rule owned_arm)
  then show ?thesis using at_arm potential_child assms(1) by blast
qed

lemma at_fields: "at c x \<Longrightarrow> None \<notin> set (child_fields x)"
  using ok_root by (auto simp: tree_ok_def)

abbreviation owners where "owners \<equiv> index_owners indexed_v4 root None (\<lambda>_. None)"

text \<open>A return finds its menu and goes back to it or on to its return-limit path.\<close>

lemma return_menu:
  assumes "at c (ReturnToMenuBlockV2 i)"
  obtains M c' r l where "at c' M" "is_CollectDigit M" "menu_fields M = Some (r, Some l)"
    "owners i = Some (block_id M)" "block_table root (block_id M) = Some M"
    "potential (block_table root) counts c (ReturnToMenuBlockV2 i) =
       1 + returns_left counts M * height M + reach (height M - 1)"
proof -
  have "checks c (ReturnToMenuBlockV2 i) = []" using assms ok_root by (auto simp: tree_ok_def)
  then obtain m where m: "owner c = Some m" "forbidden_owner c \<noteq> owner c" using return_checks by fastforce
  obtain M c' where M: "at c' M" "is_CollectDigit M" "m = block_id M" "block_table root m = Some M"
    by (rule at_owner [OF assms m(1)]) blast
  obtain r l where "menu_fields M = Some (r, Some l)"
    using menu_fields_total [OF M(2) at_fields [OF M(1)]] by blast
  moreover have "owners i = Some m"
    using index_owners_return [OF assms distinct_root, of indexed_v4 m] m(1)
    by (simp add: indexed_v4_def root_context_def)
  ultimately show thesis using that [OF M(1,2)] M m by (simp add: potential_def)
qed

lemma step_return_moves:
  assumes "at c (current s)" "current s = ReturnToMenuBlockV2 i"
  shows "\<exists>s' c'. step_return (block_table root) owners s = Continue s' \<and> at c' (current s') \<and>
    unread s' = unread s \<and> length (steps s') = length (steps s) \<and>
    potential (block_table root) (menu_returns s') c' (current s') <
      potential (block_table root) (menu_returns s) c (current s)"
proof -
  obtain M c' r l where M: "at c' M" "is_CollectDigit M" "menu_fields M = Some (r, Some l)"
    "owners i = Some (block_id M)" "block_table root (block_id M) = Some M"
    and pot: "potential (block_table root) (menu_returns s) c (ReturnToMenuBlockV2 i) =
       1 + returns_left (menu_returns s) M * height M + reach (height M - 1)"
    using return_menu assms by metis
  define count where "count = (case menu_returns s (block_id M) of None \<Rightarrow> 0 | Some n \<Rightarrow> n)"
  have left: "returns_left (menu_returns s) M = r - count"
    using M(3) by (simp add: returns_left_def menu_maximum_def count_def)
  show ?thesis
  proof (cases "r \<le> count")
    case True
    obtain a where a: "a \<in> set (arms notice c' M)" "arm_child a = Some l"
      "forbidden_owner (arm_context a) = owner (arm_context a)"
      using limit_arm [OF M(3)] by blast
    have l: "at (arm_context a) l" "height l < height M"
      using at_arm [OF M(1) a(1,2)] arm_child_owned [OF a(1,2)] height_owned by blast+
    have "potential (block_table root) (menu_returns s) (arm_context a) l \<le> reach (height l)"
      using potential_confined [OF l(1)] a(3) by blast
    also have "\<dots> \<le> reach (height M - 1)" using l(2) by (intro reach_mono) simp
    finally have "\<exists>c''. at c'' l \<and> potential (block_table root) (menu_returns s) c'' l \<le> reach (height M - 1)"
      using l(1) by blast
    then show ?thesis using True M(3-5) assms pot left
      by (auto simp: step_return_def Let_def go_to_def count_def intro: le_less_trans)
  next
    case False
    define counts where "counts = (menu_returns s)(block_id M \<mapsto> count + 1)"
    have "returns_left counts M = r - count - 1"
      using M(3) by (simp add: returns_left_def menu_maximum_def counts_def)
    then have eq: "returns_left counts M + 1 = returns_left (menu_returns s) M" using False left by simp
    have "potential (block_table root) counts c' M = (returns_left counts M + 1) * height M + reach (height M - 1)"
      using M(2) by (simp only: potential_def if_True)
    then have "potential (block_table root) counts c' M < potential (block_table root) (menu_returns s) c (ReturnToMenuBlockV2 i)"
      unfolding pot eq by simp
    then show ?thesis using False M(1,3-5) assms
      by (auto simp: step_return_def Let_def go_to_def count_def counts_def)
  qed
qed

text \<open>The invariant of a simulation, and what it says of the result.\<close>

definition simulating :: "string list \<Rightarrow> nat \<Rightarrow> simulation_state \<Rightarrow> visit_context \<Rightarrow> bool" where
  "simulating events bound s c \<longleftrightarrow>
     at c (current s) \<and> set (unread s) \<subseteq> set events \<and>
     length (steps s) + potential (block_table root) (menu_returns s) c (current s) \<le> bound"

definition proceeds :: "string list \<Rightarrow> nat \<Rightarrow> simulation_state \<Rightarrow> visit_context \<Rightarrow> transition \<Rightarrow> bool" where
  "proceeds events bound s c t \<longleftrightarrow> (case t of
     Stop r \<Rightarrow> stops_well events bound r
   | Continue s' \<Rightarrow> \<exists>c'. simulating events bound s' c' \<and>
       potential (block_table root) (menu_returns s') c' (current s') <
         potential (block_table root) (menu_returns s) c (current s))"

lemma proceeds_child:
  assumes "simulating events bound s c" "Some k \<in> set (child_fields (current s))"
    "current s' = k" "menu_returns s' = menu_returns s" "set (unread s') \<subseteq> set events"
    "length (steps s') = Suc (length (steps s))"
  shows "proceeds events bound s c (Continue s')"
proof -
  obtain c' where c': "at c' k" "potential (block_table root) (menu_returns s) c' k <
      potential (block_table root) (menu_returns s) c (current s)"
    using move_child assms(1,2) unfolding simulating_def by blast
  then have "simulating events bound s' c'" using assms unfolding simulating_def by auto
  then show ?thesis using c' assms(3,4) unfolding proceeds_def by auto
qed

lemma proceeds_stop:
  assumes "simulating events bound s c" "length tr = Suc (length (steps s))"
  shows "st \<noteq> ''invalid'' \<Longrightarrow> proceeds events bound s c (finished st msg tr)"
    and "st \<noteq> ''invalid'' \<Longrightarrow> proceeds events bound s c (awaiting st msg es b tr)"
    and "e \<in> set (unread s) \<Longrightarrow> (block_type (current s), refusal, outcomes) \<in> set waiting_steps \<Longrightarrow>
      e \<notin> set outcomes \<Longrightarrow> step_type (last tr) = block_type (current s) \<Longrightarrow>
      proceeds events bound s c (finished ''invalid'' (refusal @ e @ ''.'') tr)"
proof -
  have "length tr \<le> bound"
    using assms potential_pos [of c "current s" "menu_returns s"] unfolding simulating_def by linarith
  then show "st \<noteq> ''invalid'' \<Longrightarrow> proceeds events bound s c (finished st msg tr)"
    "st \<noteq> ''invalid'' \<Longrightarrow> proceeds events bound s c (awaiting st msg es b tr)"
    "e \<in> set (unread s) \<Longrightarrow> (block_type (current s), refusal, outcomes) \<in> set waiting_steps \<Longrightarrow>
      e \<notin> set outcomes \<Longrightarrow> step_type (last tr) = block_type (current s) \<Longrightarrow>
      proceeds events bound s c (finished ''invalid'' (refusal @ e @ ''.'') tr)"
    using assms
    by (fastforce simp: proceeds_def finished_def awaiting_def stops_well_def rejects_event_def simulating_def)+
qed

lemma simulating_fields: "simulating events bound s c \<Longrightarrow> None \<notin> set (child_fields (current s))"
  unfolding simulating_def using at_fields by blast

lemma step_play_proceeds:
  assumes "simulating events bound s c" "current s = PlayPromptBlockV2 i p n"
  shows "proceeds events bound s c (step_play n (enter_step s))"
proof -
  obtain k where "n = Some k" using simulating_fields [OF assms(1)] assms(2) by (cases n) auto
  then show ?thesis using assms
    by (auto simp: step_play_def go_to_def simulating_def intro!: proceeds_child [OF assms(1), of k])
qed

lemma step_schedule_proceeds:
  assumes "simulating events bound s c" "current s = ScheduleBranchBlockV2 i sid x y z"
  shows "proceeds events bound s c (step_schedule ''Unknown schedule result: '' x y z (enter_step s))"
proof (cases "unread s")
  case Nil
  then show ?thesis using assms(1) by (auto simp: step_schedule_def intro: proceeds_stop(2))
next
  case (Cons e rest)
  have sub: "set rest \<subseteq> set events" using assms(1) Cons by (simp add: simulating_def)
  have fields: "None \<notin> set (child_fields (current s))" using simulating_fields [OF assms(1)] .
  show ?thesis
  proof (cases "Option.bind (map_of [(''open'', x), (''closed'', y), (''holiday'', z)] e) id")
    case None
    then have "e \<notin> set [''open'', ''closed'', ''holiday'']" using fields assms(2) by auto
    then show ?thesis using Cons assms None
      by (simp add: step_schedule_def del: append.simps)
        (rule proceeds_stop(3) [OF assms(1), where outcomes = "[''open'', ''closed'', ''holiday'']"], simp_all add: waiting_steps_def)
  next
    case (Some k)
    then have "Some k \<in> set (child_fields (current s))" using assms(2) by (auto split: if_splits)
    then show ?thesis using Cons Some sub
      by (auto simp: step_schedule_def go_to_def intro!: proceeds_child [OF assms(1), of k])
  qed
qed

lemma step_external_proceeds:
  assumes "simulating events bound s c" "current s = ExternalCallBlockV4 i ph tm n x f"
  shows "proceeds events bound s c (step_external n x f (enter_step s))"
proof (cases "unread s")
  case Nil
  then show ?thesis using assms(1) by (auto simp: step_external_def intro: proceeds_stop(2))
next
  case (Cons e rest)
  have sub: "set rest \<subseteq> set events" using assms(1) Cons by (simp add: simulating_def)
  have fields: "None \<notin> set (child_fields (current s))" using simulating_fields [OF assms(1)] .
  show ?thesis
  proof (cases "Option.bind (map_of [(''external_completed'', n), (''external_not_connected'', x),
      (''external_system_failure'', f)] e) id")
    case None
    then have "e \<notin> set [''external_completed'', ''external_not_connected'', ''external_system_failure'']" using fields assms(2) by auto
    then show ?thesis using Cons assms None
      by (simp add: step_external_def del: append.simps)
        (rule proceeds_stop(3) [OF assms(1), where outcomes = "[''external_completed'', ''external_not_connected'', ''external_system_failure'']"], simp_all add: waiting_steps_def)
  next
    case (Some k)
    then have "Some k \<in> set (child_fields (current s))" using assms(2) by (auto split: if_splits)
    then show ?thesis using Cons Some sub
      by (auto simp: step_external_def go_to_def intro!: proceeds_child [OF assms(1), of k])
  qed
qed

lemma step_record_proceeds:
  assumes "simulating events bound s c" "current s = RecordMessageBlockV3 i n u"
  shows "proceeds events bound s c (step_record n u (enter_step s))"
proof (cases "unread s")
  case Nil
  then show ?thesis using assms(1) by (auto simp: step_record_def intro: proceeds_stop(2))
next
  case (Cons e rest)
  have sub: "set rest \<subseteq> set events" using assms(1) Cons by (simp add: simulating_def)
  have fields: "None \<notin> set (child_fields (current s))" using simulating_fields [OF assms(1)] .
  let ?target = "if e = ''recorded'' then n else if e = ''unavailable'' then u else None"
  show ?thesis
  proof (cases ?target)
    case None
    then have e: "e \<notin> set [''recorded'', ''unavailable'']" using fields assms(2) by auto
    show ?thesis
    proof (cases "e = ''hangup''")
      case True
      then show ?thesis using Cons assms(1) by (auto simp: step_record_def Let_def intro: proceeds_stop(1))
    next
      case False
      then have "e \<notin> set [''recorded'', ''unavailable'', ''hangup'']" using e by simp
      then show ?thesis using Cons assms None
        by (simp add: step_record_def Let_def del: append.simps)
          (rule proceeds_stop(3) [OF assms(1), where outcomes = "[''recorded'', ''unavailable'', ''hangup'']"], simp_all add: waiting_steps_def)
    qed
  next
    case (Some k)
    then have "Some k \<in> set (child_fields (current s))" "e \<noteq> ''hangup''" using assms(2) by (auto split: if_splits)
    then show ?thesis using Cons Some sub
      by (auto simp: step_record_def Let_def go_to_def intro!: proceeds_child [OF assms(1), of k])
  qed
qed

lemma step_collect_proceeds:
  assumes "simulating events bound s c" "current s = CollectDigitBlockV2 i p g m a r bs t v l"
  shows "proceeds events bound s c (step_collect a bs t v (enter_step s))"
proof -
  let ?D = "map_of (rev (map (\<lambda>b. ([digit b], branch_root b)) bs))"
  have pos: "0 < a" using assms at_valid [of c "current s"] by (auto simp: simulating_def)
  have fields: "None \<notin> set (child_fields (current s))" using simulating_fields [OF assms(1)] .
  have branches: "ran ?D \<subseteq> set (map branch_root bs)"
    by (auto simp: ran_def dest!: map_of_SomeD)
  show ?thesis
  proof (cases "attempt_loop ?D t v a a (unread s) None")
    case (Waiting n label)
    then show ?thesis using assms(1) by (auto simp: step_collect_def Let_def intro!: proceeds_stop(2))
  next
    case (Routed routed rest label)
    then have r: "set rest \<subseteq> set events" "routed \<in> set (child_fields (current s))"
      using attempt_loop_routed [OF Routed pos] branches assms by (auto simp: simulating_def)
    then obtain k where "routed = Some k" using fields by (cases routed) auto
    then show ?thesis using Routed r
      by (auto simp: step_collect_def Let_def go_to_def intro!: proceeds_child [OF assms(1), of k])
  qed
qed

lemma step_return_proceeds:
  assumes "simulating events bound s c" "current s = ReturnToMenuBlockV2 i"
  shows "proceeds events bound s c (step_return (block_table root) owners (enter_step s))"
proof -
  obtain s' c' where "step_return (block_table root) owners (enter_step s) = Continue s'" "at c' (current s')"
    "unread s' = unread s" "length (steps s') = Suc (length (steps s))"
    "potential (block_table root) (menu_returns s') c' (current s') <
      potential (block_table root) (menu_returns s) c (current s)"
    using step_return_moves [of c "enter_step s" i] assms unfolding simulating_def by auto
  then show ?thesis using assms(1) by (auto simp: proceeds_def simulating_def)
qed

lemma step_v4_proceeds:
  assumes "simulating events bound s c"
  shows "proceeds events bound s c (step_v4 (block_table root) owners s)"
proof (cases "current s")
  case (EndCallBlockV2 i)
  then show ?thesis using assms by (auto simp: step_v4_def Let_def intro: proceeds_stop(1))
qed (simp_all add: step_v4_def Let_def step_play_proceeds [OF assms] step_schedule_proceeds [OF assms]
    step_external_proceeds [OF assms] step_record_proceeds [OF assms] step_collect_proceeds [OF assms]
    step_return_proceeds [OF assms])

lemma simulation_loop_stops:
  "simulating events bound s c \<Longrightarrow> potential (block_table root) (menu_returns s) c (current s) \<le> n \<Longrightarrow>
   stops_well events bound (simulation_loop (step_v4 (block_table root) owners) n s)"
proof (induction n arbitrary: s c)
  case 0
  then show ?case using potential_pos [of c "current s" "menu_returns s"] by (simp add: simulating_def)
next
  case (Suc n)
  then show ?case using step_v4_proceeds [OF Suc.prems(1)]
    by (auto simp: proceeds_def split: transition.splits)
qed

theorem simulation_stops:
  assumes "height root \<le> 8"
  shows "stops_well events 144 (simulation_loop (step_v4 (block_table root) owners) 512 (start_simulation root events))"
proof (rule simulation_loop_stops)
  have root: "at root_context root" by (rule context_at.here)
  have "potential (block_table root) (\<lambda>_. None) root_context root \<le> reach (height root)"
    using potential_confined [OF root] by (simp add: root_context_def)
  also have "\<dots> \<le> 144" using reach_mono [OF assms] reach_eight by simp
  finally have pot: "potential (block_table root) (\<lambda>_. None) root_context root \<le> 144" .
  show "simulating events 144 (start_simulation root events) root_context"
    using pot root by (simp add: simulating_def start_simulation_def)
  show "potential (block_table root) (menu_returns (start_simulation root events)) root_context
      (current (start_simulation root events)) \<le> 512"
    using pot by (simp add: start_simulation_def)
qed

end

section \<open>Accepted configurations\<close>

text \<open>
  The interface holds for every tree that satisfies its laws; other trees are replaced by a single
  End call step, so that it is interpreted for all of them.
\<close>

definition runnable :: "(FlowBlock \<Rightarrow> bool \<Rightarrow> bool) \<Rightarrow> (visit_context \<Rightarrow> FlowBlock \<Rightarrow> string list) \<Rightarrow> FlowBlock \<Rightarrow> bool" where
  "runnable notice checks root \<longleftrightarrow>
     distinct (map block_id (subtree root)) \<and> FlowBlock_valid root \<and> tree_ok notice checks root_context root"

definition runnable_tree ::
  "(FlowBlock \<Rightarrow> bool \<Rightarrow> bool) \<Rightarrow> (visit_context \<Rightarrow> FlowBlock \<Rightarrow> string list) \<Rightarrow> FlowBlock \<Rightarrow> FlowBlock" where
  "runnable_tree notice checks root =
     (if runnable notice checks root then root else EndCallBlockV2 ''00000000-0000-1000-8000-000000000000'')"

lemma runnable_end: "runnable notice_v4 (checks_v4 P S) (EndCallBlockV2 ''00000000-0000-1000-8000-000000000000'')"
proof -
  have "tree_ok notice_v4 (checks_v4 P S) c (EndCallBlockV2 i)" for c i
    by (subst tree_ok_unfold) (simp add: checks_v4_def prompt_errors_def place_errors_def)
  moreover have "subtree (EndCallBlockV2 i) = [EndCallBlockV2 i]" for i
    by (subst subtree.simps) (simp add: owned_def)
  ultimately show ?thesis
    by (simp add: runnable_def matches_BLOCK_ID_PATTERN_def is_hex_def is_digit_def)
qed

lemma runnable_tree_v4: "runnable notice_v4 (checks_v4 P S) (runnable_tree notice_v4 (checks_v4 P S) root)"
  using runnable_end by (simp add: runnable_tree_def)

interpretation sim4: simulated_tree "runnable_tree notice_v4 (checks_v4 P S) root" notice_v4 "checks_v4 P S"
proof
  show "distinct (map block_id (subtree (runnable_tree notice_v4 (checks_v4 P S) root)))"
    "FlowBlock_valid (runnable_tree notice_v4 (checks_v4 P S) root)"
    "tree_ok notice_v4 (checks_v4 P S) root_context (runnable_tree notice_v4 (checks_v4 P S) root)"
    using runnable_tree_v4 [of P S root] by (simp_all add: runnable_def)
  show "owner c \<noteq> None \<and> owner c \<noteq> forbidden_owner c" if "checks_v4 P S c (ReturnToMenuBlockV2 i) = []" for c i
    using that by (auto simp: checks_v4_def place_errors_def prompt_errors_def split: if_splits)
qed

text \<open>
  C20: The simulation of a flow that the V4 validator accepts always stops by itself: its trace has
  at most 144 steps, far from the limit of 512 transitions, and it is reported as invalid only if its
  last step waits for an outcome and one of the given events, named in the message, is none of the
  outcomes of that kind of step: open, closed and holiday of a schedule, recorded, unavailable and
  hang-up of a recording, completed, not connected and system failure of an external call.
\<close>

theorem simulate_v4_stops:
  assumes "validate_configuration_v4 zone_known d P sizes limit = []" and "FlowDefinitionV2_valid (flow d)"
  shows "length (trace (simulate_v4 (flow d) events)) \<le> 144 \<and>
    (status (simulate_v4 (flow d) events) = ''invalid'' \<longrightarrow>
      trace (simulate_v4 (flow d) events) \<noteq> [] \<and>
      (\<exists>(type, refusal, outcomes)\<in>set waiting_steps. step_type (last (trace (simulate_v4 (flow d) events))) = type \<and>
         (\<exists>e\<in>set events. e \<notin> set outcomes \<and> message (simulate_v4 (flow d) events) = refusal @ e @ ''.'')))"
proof -
  obtain root where root: "flow_root (flow d) = Some root"
    "tree_accepted notice_v4 (checks_v4 P (map schedule_id (schedules d))) sizes limit root"
    using assms(1) by (auto simp: accepted_v4)
  then have "runnable notice_v4 (checks_v4 P (map schedule_id (schedules d))) root"
    using assms(2) by (simp add: runnable_def tree_accepted_def FlowDefinitionV2_valid_def)
  then have "runnable_tree notice_v4 (checks_v4 P (map schedule_id (schedules d))) root = root"
    by (simp add: runnable_tree_def)
  then show ?thesis
    using sim4.simulation_stops [where root = root and P = P and S = "map schedule_id (schedules d)"] root
    by (simp add: simulate_v4_def tree_accepted_def stops_well_def rejects_event_def)
qed

lemma demo_invalid_event: "status (simulate_v4 (flow demo_document) [''1'', ''later'']) = ''invalid''"
  by code_simp

theorem simulate_v4_stops_witness:
  "length (trace (simulate_v4 (flow demo_document) [''1'', ''later''])) \<le> 144 \<and>
   status (simulate_v4 (flow demo_document) [''1'', ''later'']) = ''invalid'' \<and>
   (\<exists>(type, refusal, outcomes)\<in>set waiting_steps.
      step_type (last (trace (simulate_v4 (flow demo_document) [''1'', ''later'']))) = type \<and>
      (\<exists>e\<in>set [''1'', ''later'']. e \<notin> set outcomes \<and>
         message (simulate_v4 (flow demo_document) [''1'', ''later'']) = refusal @ e @ ''.''))"
  using simulate_v4_stops [OF demo_accepted_v4 demo_valid, of "[''1'', ''later'']"] demo_invalid_event by blast

section \<open>Simulations with more events\<close>

text \<open>
  A simulation that has stopped for another reason than missing input ignores further events.
\<close>

definition with_events :: "string list \<Rightarrow> simulation_state \<Rightarrow> simulation_state" where
  "with_events fs s = s\<lparr>unread := unread s @ fs\<rparr>"

definition same_with_more :: "string list \<Rightarrow> transition \<Rightarrow> transition \<Rightarrow> bool" where
  "same_with_more fs t t' \<longleftrightarrow> (case t of
     Continue s \<Rightarrow> t' = Continue (with_events fs s)
   | Stop r \<Rightarrow> awaiting_block_id r = None \<longrightarrow> t' = Stop r)"

lemma attempt_loop_more:
  "attempt_loop D t v maximum left events label = Routed routed rest label' \<Longrightarrow>
   attempt_loop D t v maximum left (events @ fs) label = Routed routed (rest @ fs) label'"
proof (induction D t v maximum left events label rule: attempt_loop.induct)
  case (3 D t v maximum left event events label)
  then show ?case by (auto simp: Let_def split: option.splits if_splits)
qed auto

lemma step_collect_more:
  "same_with_more fs (step_collect a bs t v s) (step_collect a bs t v (with_events fs s))"
proof (cases "attempt_loop (map_of (rev (map (\<lambda>b. ([digit b], branch_root b)) bs))) t v a a (unread s) None")
  case (Waiting n label)
  then show ?thesis by (simp add: step_collect_def Let_def awaiting_def same_with_more_def)
next
  case (Routed routed rest label)
  then show ?thesis using attempt_loop_more [OF Routed]
    by (cases routed) (simp_all add: step_collect_def Let_def same_with_more_def with_events_def go_to_def finished_def)
qed

lemma step_v4_more: "same_with_more fs (step_v4 blocks owners s) (step_v4 blocks owners (with_events fs s))"
proof -
  have enter: "enter_step (with_events fs s) = with_events fs (enter_step s)"
    by (simp add: with_events_def enter_step_def)
  have current: "current (with_events fs s) = current s" "current (with_events fs (enter_step s)) = current s"
    by (simp_all add: with_events_def)
  show ?thesis
  proof (cases "is_CollectDigit (current s)")
    case True
    then show ?thesis using step_collect_more [of fs _ _ _ _ "enter_step s"]
      by (cases "current s") (simp_all add: step_v4_def Let_def enter current)
  next
    case False
    then show ?thesis unfolding step_v4_def Let_def enter current
      by (cases "current s"; cases "unread (enter_step s)")
        (auto simp: step_play_def step_return_def step_schedule_def step_external_def step_record_def
          Let_def same_with_more_def with_events_def go_to_def finished_def awaiting_def split: option.splits)
  qed
qed

lemma simulation_loop_more:
  "awaiting_block_id (simulation_loop (step_v4 blocks owners) n s) = None \<Longrightarrow>
   simulation_loop (step_v4 blocks owners) n (with_events fs s) = simulation_loop (step_v4 blocks owners) n s"
proof (induction n arbitrary: s)
  case (Suc n)
  then show ?case using step_v4_more [of fs blocks owners s]
    by (auto simp: same_with_more_def split: transition.splits)
qed (simp add: with_events_def)

text \<open>
  When a simulation has stopped without waiting for input, because the call ended or an event
  was rejected, giving it more events does not change its result.
\<close>

theorem simulate_v4_more_events:
  assumes "awaiting_block_id (simulate_v4 f events) = None"
  shows "simulate_v4 f (events @ further) = simulate_v4 f events"
  using assms simulation_loop_more [of _ _ 512 "start_simulation (the (flow_root f)) events" further]
  by (auto simp: simulate_v4_def start_simulation_def with_events_def split: option.splits)

lemma simulation_loop_numeral:
  "simulation_loop step (numeral k) s =
     (case step s of Stop r \<Rightarrow> r | Continue s' \<Rightarrow> simulation_loop step (pred_numeral k) s')"
  by (simp add: numeral_eq_Suc)

theorem simulate_v4_more_events_witness:
  "simulate_v4 (flow demo_plain) ([] @ [''1'']) = simulate_v4 (flow demo_plain) []"
  by (rule simulate_v4_more_events)
    (simp add: simulate_v4_def demo_plain_def demo_end_def start_simulation_def simulation_loop_numeral step_v4_def
      enter_step_def step_play_def go_to_def finished_def)

section \<open>The V3 simulator on V3 flows\<close>

lemma index_owners_indexed:
  "\<forall>x\<in>set (subtree b). indexed x = indexed' x \<Longrightarrow> index_owners indexed b ow m = index_owners indexed' b ow m"
proof (induction b arbitrary: ow m rule: owned_induct)
  case (step b)
  have "index_owners indexed k = index_owners indexed' k" if "k \<in> set (owned b)" for k
    using step.IH [OF that] step.prems subtree_owned [OF that] by (intro ext) metis
  then have "fold (\<lambda>k. index_owners indexed k ow') (owned b) m = fold (\<lambda>k. index_owners indexed' k ow') (owned b) m" for ow' m
    by (intro fold_cong) auto
  then show ?case using step.prems
    by (simp add: index_owners.simps [of indexed b] index_owners.simps [of indexed' b])
qed

lemma subtree_trans: "x \<in> set (subtree b) \<Longrightarrow> y \<in> set (subtree x) \<Longrightarrow> y \<in> set (subtree b)"
proof (induction b rule: owned_induct)
  case (step b)
  then show ?case by (auto simp: set_subtree [of b])
qed

lemma field_subtree: "x \<in> set (subtree b) \<Longrightarrow> Some k \<in> set (child_fields x) \<Longrightarrow> k \<in> set (subtree b)"
  using subtree_trans [of x b k] subtree_owned [of k x k] by (simp add: owned_def)

lemma block_table_within: "block_table root i = Some b \<Longrightarrow> b \<in> set (subtree root)"
proof -
  assume "block_table root i = Some b"
  then have "b \<in> set (map fst (walk_blocks (Some root)))"
    by (force simp: block_table_def dest!: map_of_SomeD)
  then show ?thesis by (simp only: walk_blocks_preorder map_fst_preorder_depth set_preorder)
qed

text \<open>A simulation stays inside the tree.\<close>

lemma step_v4_within:
  assumes "step_v4 (block_table root) owners s = Continue s'" "current s \<in> set (subtree root)"
  shows "current s' \<in> set (subtree root)"
proof -
  have collect: "Some k \<in> set (map branch_root bs) \<union> {t, v}"
    if "attempt_loop (map_of (rev (map (\<lambda>b. ([digit b], branch_root b)) bs))) t v a a es None = Routed (Some k) rest l"
    for k bs t v a es rest l
    using that attempt_loop_routed [OF that] by (cases a) (auto simp: ran_def dest!: map_of_SomeD)
  have limit: "l \<in> set (subtree root)" if "block_table root i = Some b" "menu_fields b = Some (r, Some l)" for i b r l
  proof -
    have "Some l \<in> set (child_fields b)" using that(2) by (cases b) auto
    then show ?thesis using field_subtree [OF block_table_within [OF that(1)]] by blast
  qed
  note fields = field_subtree [OF assms(2)]
  show ?thesis
  proof (cases "current s")
    case (CollectDigitBlockV2 i p g m a r bs t v l)
    then show ?thesis using assms(1) fields collect
      by (auto simp: step_v4_def enter_step_def step_collect_def Let_def go_to_def finished_def awaiting_def
          split: attempt_result.splits option.splits) blast+
  next
    case (ReturnToMenuBlockV2 i)
    then show ?thesis using assms(1) limit block_table_within
      by (auto simp: step_v4_def enter_step_def step_return_def Let_def go_to_def finished_def
          bind_eq_Some_conv split: option.splits if_splits)
  qed (use assms(1) fields in \<open>auto simp: step_v4_def enter_step_def step_play_def step_schedule_def step_external_def
      step_record_def Let_def go_to_def finished_def awaiting_def split: option.splits list.splits if_splits\<close>)
qed

lemma step_v3_v4:
  "\<not> is_ExternalCall (current s) \<Longrightarrow> step_v3 blocks owners s = step_v4 blocks owners s"
  by (cases "current s") (simp_all add: step_v3_def step_v4_def Let_def enter_step_def)

lemma simulation_loop_v3_v4:
  assumes "\<forall>x\<in>set (subtree root). \<not> is_ExternalCall x"
  shows "current s \<in> set (subtree root) \<Longrightarrow>
    simulation_loop (step_v3 (block_table root) owners) n s = simulation_loop (step_v4 (block_table root) owners) n s"
proof (induction n arbitrary: s)
  case (Suc n)
  have "step_v3 (block_table root) owners s = step_v4 (block_table root) owners s"
    using step_v3_v4 assms Suc.prems by blast
  then show ?case using Suc step_v4_within [OF _ Suc.prems] by (auto split: transition.splits)
qed simp

text \<open>
  C26: On every flow without external calls, validated or not, the V3 and the V4 simulator give the
  same result for every sequence of events.
\<close>

theorem simulators_v3_v4_agree:
  assumes "\<forall>root. flow_root f = Some root \<longrightarrow> (\<forall>x\<in>set (subtree root). \<not> is_ExternalCall x)"
  shows "simulate_v3 f events = simulate_v4 f events"
proof (cases "flow_root f")
  case (Some root)
  then have no: "\<forall>x\<in>set (subtree root). \<not> is_ExternalCall x" using assms by blast
  then have "index_owners indexed_v3 root None (\<lambda>_. None) = index_owners indexed_v4 root None (\<lambda>_. None)"
    by (intro index_owners_indexed) (simp add: indexed_v3_def indexed_v4_def)
  then show ?thesis using Some simulation_loop_v3_v4 [OF no, of "start_simulation root events"]
    by (simp add: simulate_v3_def simulate_v4_def start_simulation_def)
qed (simp add: simulate_v3_def simulate_v4_def)

theorem simulators_v3_v4_agree_witness:
  "simulate_v3 (flow demo_plain) [''1''] = simulate_v4 (flow demo_plain) [''1'']"
proof (rule simulators_v3_v4_agree)
  have "is_ok (release_three_has_no_external_calls (flow demo_plain))"
    by (simp add: release_three_has_no_external_calls_def demo_plain_def demo_end_def)
  then show "\<forall>root. flow_root (flow demo_plain) = Some root \<longrightarrow> (\<forall>x\<in>set (subtree root). \<not> is_ExternalCall x)"
    using release_three_loop_ok by (auto simp: release_three_has_no_external_calls_def simp del: release_three_loop.simps)
qed

end
