(* ===== verification/Graph_Validation.thy ===== *)
theory Graph_Validation
  imports Flow_Validation Json "HOL-Library.Transitive_Closure_Table"
begin

text \<open>
  The validator of V1 configurations (\<^verbatim>\<open>validate_configuration\<close> of
  \<^verbatim>\<open>src/server/app/validation.py\<close>), whose flow is a graph of named nodes, with its four graph
  searches: the reachable nodes, a cycle of unbounded edges, the longest path and the nodes from
  which a call can end.

  An edge dictionary is an association list. A Python set is a list without repetitions; the
  iteration order of a set is unspecified in Python, so the order of the messages about prompts and
  the choice of the reported node without a terminating path are one of the possible ones.
\<close>

section \<open>The graph searches\<close>

type_synonym edges = "(string \<times> string list) list"

definition keys :: "edges \<Rightarrow> string set" where
  "keys edges = dom (map_of edges)"

lemma finite_keys [simp]: "finite (keys edges)"
  by (simp add: keys_def finite_dom_map_of)

lemma unexplored_less:
  "map_of edges node = Some ts \<Longrightarrow> node \<notin> set active \<Longrightarrow>
   card (keys edges - insert node (set active)) < card (keys edges - set active)"
  by (intro psubset_card_mono) (auto simp: keys_def finite_dom_map_of)

text \<open>
  \<^verbatim>\<open>_walk\<close>: the top of the stack \<^verbatim>\<open>pending\<close> is the head of the list, so
  \<^verbatim>\<open>pending.extend\<close> puts the reversed targets in front.
\<close>

function walk_nodes :: "edges \<Rightarrow> string list \<Rightarrow> string list \<Rightarrow> string list" where
  "walk_nodes edges visited [] = visited"
| "walk_nodes edges visited (node # pending) =
     (if node \<in> set visited then walk_nodes edges visited pending
      else case map_of edges node of
        None \<Rightarrow> walk_nodes edges visited pending
      | Some targets \<Rightarrow> walk_nodes edges (node # visited) (rev targets @ pending))"
  by pat_completeness auto
termination
  by (relation "measures [\<lambda>(edges, visited, _). card (keys edges - set visited), \<lambda>(_, _, pending). length pending]")
    (auto intro: unexplored_less)

definition walk :: "string \<Rightarrow> edges \<Rightarrow> string list" where
  "walk root edges = walk_nodes edges [] [root]"

text \<open>
  \<^verbatim>\<open>_find_cycle\<close>: \<^verbatim>\<open>visit\<close> returns the cycle it found and the updated set
  \<^verbatim>\<open>visited\<close>; the list \<^verbatim>\<open>active\<close> has the node appended during the loop over its
  targets and is restored afterwards.
\<close>

function find_visit :: "edges \<Rightarrow> string list \<Rightarrow> string list \<Rightarrow> string \<Rightarrow> string list option \<times> string list"
  and find_targets :: "edges \<Rightarrow> string list \<Rightarrow> string list \<Rightarrow> string list \<Rightarrow> string list option \<times> string list" where
  "find_visit edges active visited node =
     (if node \<in> set active then (Some (drop (index_of node active) active @ [node]), visited)
      else if node \<in> set visited then (None, visited)
      else case map_of edges node of
        None \<Rightarrow> (None, visited)
      | Some targets \<Rightarrow>
          (case find_targets edges (active @ [node]) visited targets of
            (Some found, visited') \<Rightarrow> (Some found, visited')
          | (None, visited') \<Rightarrow> (None, set_add node visited')))"
| "find_targets edges active visited [] = (None, visited)"
| "find_targets edges active visited (target # targets) =
     (case find_visit edges active visited target of
        (Some found, visited') \<Rightarrow> (Some found, visited')
      | (None, visited') \<Rightarrow> find_targets edges active visited' targets)"
  by pat_completeness auto
termination
  by (relation "measures [\<lambda>x. case x of Inl (edges, active, _) \<Rightarrow> card (keys edges - set active)
        | Inr (edges, active, _) \<Rightarrow> card (keys edges - set active),
      \<lambda>x. case x of Inl _ \<Rightarrow> 0 | Inr (_, _, _, targets) \<Rightarrow> Suc (length targets)]")
    (auto intro: unexplored_less)

definition find_cycle :: "string \<Rightarrow> edges \<Rightarrow> string list option" where
  "find_cycle root edges = fst (find_visit edges [] [] root)"

text \<open>
  \<^verbatim>\<open>_maximum_depth\<close>: \<^verbatim>\<open>depth\<close> returns its value and the updated memo table; the
  targets of the generator are evaluated from left to right.
\<close>

type_synonym memo = "(string \<times> nat) list"

function node_depth :: "edges \<Rightarrow> string list \<Rightarrow> memo \<Rightarrow> string \<Rightarrow> nat \<times> memo"
  and target_depths :: "edges \<Rightarrow> string list \<Rightarrow> memo \<Rightarrow> string list \<Rightarrow> nat list \<times> memo" where
  "node_depth edges active memo node =
     (case map_of memo node of
        Some value \<Rightarrow> (value, memo)
      | None \<Rightarrow>
          if node \<in> set active then (1, memo)
          else case map_of edges node of
            None \<Rightarrow> (1, memo)
          | Some targets \<Rightarrow>
              if targets = [] then (1, memo)
              else case target_depths edges (node # active) memo targets of
                (values, memo') \<Rightarrow> (1 + Max (set values), (node, 1 + Max (set values)) # memo'))"
| "target_depths edges active memo [] = ([], memo)"
| "target_depths edges active memo (target # targets) =
     (case node_depth edges active memo target of
        (value, memo') \<Rightarrow>
          (case target_depths edges active memo' targets of
            (values, memo'') \<Rightarrow> (value # values, memo'')))"
  by pat_completeness auto
termination
  by (relation "measures [\<lambda>x. case x of Inl (edges, active, _) \<Rightarrow> card (keys edges - set active)
        | Inr (edges, active, _) \<Rightarrow> card (keys edges - set active),
      \<lambda>x. case x of Inl _ \<Rightarrow> 0 | Inr (_, _, _, targets) \<Rightarrow> Suc (length targets)]")
    (auto intro: unexplored_less)

definition maximum_depth_of :: "string \<Rightarrow> edges \<Rightarrow> nat" where
  "maximum_depth_of root edges = fst (node_depth edges [] [] root)"

fun is_EndCall :: "FlowNode \<Rightarrow> bool" where
  "is_EndCall (EndCallNode i) = True"
| "is_EndCall _ = False"

text \<open>\<^verbatim>\<open>_can_reach_end\<close>, with the set \<^verbatim>\<open>active\<close> as a list.\<close>

function can_reach_end :: "string \<Rightarrow> (string \<times> FlowNode) list \<Rightarrow> edges \<Rightarrow> string list \<Rightarrow> bool" where
  "can_reach_end i ns edges active =
     (if i \<in> set active then False
      else case map_of ns i of
        None \<Rightarrow> False
      | Some node \<Rightarrow>
          is_EndCall node \<or>
          list_ex (\<lambda>target. can_reach_end target ns edges (i # active))
            (case map_of edges i of None \<Rightarrow> [] | Some targets \<Rightarrow> targets))"
  by pat_completeness auto
termination
proof (relation "measure (\<lambda>(_, ns, _, active). card (dom (map_of ns) - set active))")
  fix i :: string and ns :: "(string \<times> FlowNode) list" and active :: "string list" and node
  assume "i \<notin> set active" "map_of ns i = Some node"
  then have "dom (map_of ns) - insert i (set active) \<subset> dom (map_of ns) - set active" by auto
  then have "card (dom (map_of ns) - insert i (set active)) < card (dom (map_of ns) - set active)"
    by (intro psubset_card_mono) (simp add: finite_dom_map_of)
  then show "((target, ns, edges, i # active), (i, ns, edges, active))
      \<in> measure (\<lambda>(_, ns, _, active). card (dom (map_of ns) - set active))" for target :: string and edges :: edges
    by simp
qed simp

declare find_visit.simps [simp del] find_targets.simps [simp del] node_depth.simps [simp del]
  target_depths.simps [simp del] can_reach_end.simps [simp del] walk_nodes.simps [simp del]

section \<open>The validator\<close>

fun node_edges :: "FlowNode \<Rightarrow> string list" where
  "node_edges (PlayPromptNode i p n) = [n]"
| "node_edges (CollectDigitNode i p timeout_ms maximum_attempts branches t v) = map snd branches @ [t, v]"
| "node_edges (ScheduleBranchNode i s on_open on_closed on_holiday) = [on_open, on_closed, on_holiday]"
| "node_edges (RepeatMenuNode i t maximum_repeats on_exhausted) = [on_exhausted]"
| "node_edges (EndCallNode i) = []"

fun bounded_repeat_edges :: "FlowNode \<Rightarrow> string list" where
  "bounded_repeat_edges (RepeatMenuNode i t maximum_repeats on_exhausted) = [t]"
| "bounded_repeat_edges _ = []"

fun node_prompt :: "FlowNode \<Rightarrow> string list" where
  "node_prompt (PlayPromptNode i p n) = [p]"
| "node_prompt (CollectDigitNode i p timeout_ms maximum_attempts branches t v) = (if truthy p then [the p] else [])"
| "node_prompt _ = []"

fun node_schedule :: "FlowNode \<Rightarrow> string list" where
  "node_schedule (ScheduleBranchNode i s on_open on_closed on_holiday) = [s]"
| "node_schedule _ = []"

record node_scan =
  scan_errors :: "string list"
  scan_prompts :: "string list"
  regular_edges :: edges
  all_edges :: edges
  missing_node_reference :: bool

text \<open>One iteration of the loop over \<^verbatim>\<open>flow.nodes\<close>.\<close>

definition scan_node :: "string list \<Rightarrow> string list \<Rightarrow> FlowNode \<Rightarrow> node_scan \<Rightarrow> node_scan" where
  "scan_node ids schedule_ids node s =
     (let edges = node_edges node;
          every = edges @ bounded_repeat_edges node;
          missing = filter (\<lambda>target. target \<notin> set ids) every in
      s\<lparr>scan_errors := scan_errors s @
          map (\<lambda>x. ''Node '' @ node_id node @ '' references missing schedule '' @ x @ ''.'')
            (filter (\<lambda>x. x \<notin> set schedule_ids) (node_schedule node)) @
          map (\<lambda>target. ''Node '' @ node_id node @ '' references missing node '' @ target @ ''.'') missing,
        scan_prompts := fold set_add (node_prompt node) (scan_prompts s),
        regular_edges := (node_id node, edges) # regular_edges s,
        all_edges := (node_id node, every) # all_edges s,
        missing_node_reference := missing_node_reference s \<or> missing \<noteq> []\<rparr>)"

definition graph_schedule_errors :: "(string \<Rightarrow> bool) \<Rightarrow> Schedule list \<Rightarrow> string list" where
  "graph_schedule_errors zone_known ss =
     (if length (dict_fromkeys (map schedule_id ss)) \<noteq> length ss
      then [''Schedule IDs must be unique.''] else []) @
     map (\<lambda>schedule. ''Schedule '' @ schedule_id schedule @ '' has an unknown timezone.'')
       (filter (\<lambda>schedule. \<not> zone_known (timezone schedule)) ss)"

text \<open>The checks after the loop, on a graph whose references all resolve.\<close>

definition graph_errors :: "string \<Rightarrow> (string \<times> FlowNode) list \<Rightarrow> edges \<Rightarrow> edges \<Rightarrow> string list" where
  "graph_errors root ns regular every =
     (let reachable = walk root every;
          unreachable = sort (filter (\<lambda>i. i \<notin> set reachable) (map fst ns)) in
      (if unreachable \<noteq> [] then [''Unreachable flow nodes: '' @ join '', '' unreachable @ ''.''] else []) @
      (case find_cycle root regular of
         None \<Rightarrow> []
       | Some cycle \<Rightarrow> [''Unbounded flow cycle: '' @ join '' -> '' cycle @ ''.'']) @
      (if maximum_depth_of root regular > 8
       then [''Flow depth '' @ str_nat (maximum_depth_of root regular) @ '' exceeds the limit of 8.''] else []) @
      (case filter (\<lambda>i. \<not> can_reach_end i ns regular []) reachable of
         [] \<Rightarrow> []
       | i # _ \<Rightarrow> [''Node '' @ i @ '' has no terminating path.'']))"

definition validate_configuration ::
  "(string \<Rightarrow> bool) \<Rightarrow> DraftConfiguration \<Rightarrow> string list \<Rightarrow> (string \<Rightarrow> nat option) \<Rightarrow> nat \<Rightarrow> string list" where
  "validate_configuration zone_known configuration P prompt_sizes revision_asset_limit_bytes =
     (let ns = map (\<lambda>node. (node_id node, node)) (nodes (v1_flow configuration));
          ids = map fst ns;
          root = root_node (v1_flow configuration) in
      if length (dict_fromkeys ids) \<noteq> length ids then [''Flow node IDs must be unique.'']
      else
        let before = (if root \<notin> set ids then [''Flow root node does not exist.''] else []) @
              graph_schedule_errors zone_known (v1_schedules configuration);
            scan = fold (scan_node ids (map schedule_id (v1_schedules configuration)))
              (nodes (v1_flow configuration))
              \<lparr>scan_errors = before, scan_prompts = [], regular_edges = [], all_edges = [],
               missing_node_reference = False\<rparr>;
            es = scan_errors scan @
              map (\<lambda>p. ''Flow references missing prompt '' @ p @ ''.'')
                (filter (\<lambda>p. p \<notin> set P) (scan_prompts scan)) @
              (if total_asset_bytes prompt_sizes (scan_prompts scan) > revision_asset_limit_bytes
               then [''Revision prompt assets exceed the 128 MiB limit.''] else []) in
        if missing_node_reference scan \<or> root \<notin> set ids then es
        else es @ graph_errors root ns (regular_edges scan) (all_edges scan))"

end
