(* ===== verification/Graph_Laws.thy ===== *)
theory Graph_Laws
  imports Graph_Validation Validation_Laws
begin

text \<open>
  What the four searches of the V1 validator compute, in terms of the edge relation: reachability,
  cycles, longest paths and paths to an end, and from them the exact set of V1 configurations that
  the validator accepts.
\<close>

section \<open>The edge relation\<close>

definition edge :: "edges \<Rightarrow> string \<Rightarrow> string \<Rightarrow> bool" where
  "edge edges a b \<longleftrightarrow> (\<exists>ts. map_of edges a = Some ts \<and> b \<in> set ts)"

lemma edgeI: "map_of edges a = Some ts \<Longrightarrow> b \<in> set ts \<Longrightarrow> edge edges a b"
  by (auto simp: edge_def)

definition acyclic_from :: "edges \<Rightarrow> string \<Rightarrow> bool" where
  "acyclic_from edges v \<longleftrightarrow> (\<forall>c. (edge edges)\<^sup>*\<^sup>* v c \<longrightarrow> \<not> (edge edges)\<^sup>+\<^sup>+ c c)"

text \<open>A node is free of cycles as soon as its targets are.\<close>

lemma acyclic_from_targets:
  assumes "\<And>t. edge edges v t \<Longrightarrow> acyclic_from edges t"
  shows "acyclic_from edges v"
  unfolding acyclic_from_def
proof (intro allI impI notI)
  fix c
  assume vc: "(edge edges)\<^sup>*\<^sup>* v c" and cc: "(edge edges)\<^sup>+\<^sup>+ c c"
  from vc cc have "(edge edges)\<^sup>+\<^sup>+ v c" by (rule rtranclp_tranclp_tranclp)
  then obtain t where "edge edges v t" "(edge edges)\<^sup>*\<^sup>* t c" by (metis tranclpD)
  with assms cc show False by (auto simp: acyclic_from_def)
qed

lemma acyclic_from_step: "acyclic_from edges v \<Longrightarrow> edge edges v t \<Longrightarrow> acyclic_from edges t"
  unfolding acyclic_from_def by (meson converse_rtranclp_into_rtranclp)

section \<open>Reachable nodes\<close>

lemma walk_nodes_skip:
  "node \<in> set visited \<or> map_of edges node = None \<Longrightarrow>
   walk_nodes edges visited (node # pending) = walk_nodes edges visited pending"
  by (auto simp: walk_nodes.simps)

lemma walk_nodes_enter:
  "node \<notin> set visited \<Longrightarrow> map_of edges node = Some ts \<Longrightarrow>
   walk_nodes edges visited (node # pending) = walk_nodes edges (node # visited) (rev ts @ pending)"
  by (simp add: walk_nodes.simps)

text \<open>The three cases of the loop, as an induction rule.\<close>

lemma walk_nodes_rule [case_names Nil skip enter]:
  fixes edges :: edges
  assumes "\<And>visited. Q visited []"
    and "\<And>visited node pending. node \<in> set visited \<or> map_of edges node = None \<Longrightarrow> Q visited pending \<Longrightarrow>
      Q visited (node # pending)"
    and "\<And>visited node pending ts. node \<notin> set visited \<Longrightarrow> map_of edges node = Some ts \<Longrightarrow>
      Q (node # visited) (rev ts @ pending) \<Longrightarrow> Q visited (node # pending)"
  shows "Q visited pending"
proof -
  have "e = edges \<Longrightarrow> Q visited pending" for e
  proof (induction e visited pending rule: walk_nodes.induct)
    case (2 e visited node pending)
    show ?case
    proof (cases "node \<in> set visited \<or> map_of edges node = None")
      case True
      then have "Q visited pending" using 2(1,2,4) by auto
      then show ?thesis by (rule assms(2) [OF True])
    next
      case False
      then obtain ts where ts: "node \<notin> set visited" "map_of edges node = Some ts" by auto
      then have "Q (node # visited) (rev ts @ pending)" using 2(3,4) by simp
      then show ?thesis by (rule assms(3) [OF ts])
    qed
  qed (rule assms(1))
  then show ?thesis by blast
qed

lemma walk_nodes_sound:
  assumes "\<forall>v\<in>set visited. v \<in> keys edges \<and> (edge edges)\<^sup>*\<^sup>* root v"
    and "\<forall>v\<in>set pending. (edge edges)\<^sup>*\<^sup>* root v"
  shows "\<forall>v\<in>set (walk_nodes edges visited pending). v \<in> keys edges \<and> (edge edges)\<^sup>*\<^sup>* root v"
  using assms
proof (induction visited pending rule: walk_nodes_rule [of _ edges])
  case (enter visited node pending ts)
  have "\<forall>v\<in>set ts. (edge edges)\<^sup>*\<^sup>* root v"
    using enter by (auto intro: rtranclp.rtrancl_into_rtrancl edgeI)
  then have "\<forall>v\<in>set (rev ts @ pending). (edge edges)\<^sup>*\<^sup>* root v" using enter(5) by auto
  moreover have "\<forall>v\<in>set (node # visited). v \<in> keys edges \<and> (edge edges)\<^sup>*\<^sup>* root v"
    using enter(2,4,5) by (auto simp: keys_def)
  ultimately show ?case unfolding walk_nodes_enter [OF enter(1,2)] by (intro enter(3))
qed (simp_all add: walk_nodes_skip walk_nodes.simps(1))

definition closed_into :: "edges \<Rightarrow> string set \<Rightarrow> string set \<Rightarrow> bool" where
  "closed_into edges V W \<longleftrightarrow> (\<forall>v\<in>V. \<forall>t. edge edges v t \<longrightarrow> t \<in> keys edges \<longrightarrow> t \<in> W)"

lemma walk_nodes_complete:
  assumes "closed_into edges (set visited) (set visited \<union> set pending)"
  shows "set visited \<subseteq> set (walk_nodes edges visited pending) \<and>
    set pending \<inter> keys edges \<subseteq> set (walk_nodes edges visited pending) \<and>
    closed_into edges (set (walk_nodes edges visited pending)) (set (walk_nodes edges visited pending))"
  using assms
proof (induction visited pending rule: walk_nodes_rule [of _ edges])
  case (skip visited node pending)
  have "node \<in> set visited \<or> node \<notin> keys edges" using skip(1) by (auto simp: keys_def)
  moreover from this skip(3) have "closed_into edges (set visited) (set visited \<union> set pending)"
    unfolding closed_into_def by auto
  ultimately show ?case using skip(2) unfolding walk_nodes_skip [OF skip(1)] by auto
next
  case (enter visited node pending ts)
  have "closed_into edges (set (node # visited)) (set (node # visited) \<union> set (rev ts @ pending))"
    using enter(2,4) unfolding closed_into_def by (auto simp: edge_def)
  from enter(3) [OF this] show ?case unfolding walk_nodes_enter [OF enter(1,2)] by auto
qed (simp add: walk_nodes.simps(1))

lemma set_walk: "set (walk root edges) = {v \<in> keys edges. (edge edges)\<^sup>*\<^sup>* root v}"
proof -
  have complete: "{root} \<inter> keys edges \<subseteq> set (walk root edges)"
      "closed_into edges (set (walk root edges)) (set (walk root edges))"
    using walk_nodes_complete [of edges "[]" "[root]"] by (auto simp: walk_def closed_into_def)
  have "v \<in> set (walk root edges)" if "(edge edges)\<^sup>*\<^sup>* root v" "v \<in> keys edges" for v
    using that
  proof (induction rule: rtranclp_induct)
    case base
    then show ?case using complete(1) by auto
  next
    case (step a b)
    then have "a \<in> keys edges" by (auto simp: edge_def keys_def)
    with step complete(2) show ?case unfolding closed_into_def by blast
  qed
  moreover have "\<forall>v\<in>set (walk root edges). v \<in> keys edges \<and> (edge edges)\<^sup>*\<^sup>* root v"
    using walk_nodes_sound [of "[]" edges root "[root]"] by (simp add: walk_def)
  ultimately show ?thesis by blast
qed

section \<open>Cycles\<close>

definition cycle_path :: "edges \<Rightarrow> string list \<Rightarrow> bool" where
  "cycle_path edges c \<longleftrightarrow> 2 \<le> length c \<and> hd c = last c \<and> successively (edge edges) c"

text \<open>A search that finds nothing leaves only nodes from which no cycle can be reached.\<close>

lemma find_none:
  "(fst (find_visit edges active visited node) = None \<longrightarrow> (\<forall>v\<in>set visited. acyclic_from edges v) \<longrightarrow>
     acyclic_from edges node \<and> (\<forall>v\<in>set (snd (find_visit edges active visited node)). acyclic_from edges v))"
  "(fst (find_targets edges active visited targets) = None \<longrightarrow> (\<forall>v\<in>set visited. acyclic_from edges v) \<longrightarrow>
     (\<forall>t\<in>set targets. acyclic_from edges t) \<and>
     (\<forall>v\<in>set (snd (find_targets edges active visited targets)). acyclic_from edges v))"
proof (induction edges active visited node and edges active visited targets
    rule: find_visit_find_targets.induct)
  case (1 edges active visited node)
  have leaf: "acyclic_from edges node" if "map_of edges node = None"
    by (rule acyclic_from_targets) (use that in \<open>auto simp: edge_def\<close>)
  have inner: "acyclic_from edges node" if "map_of edges node = Some ts" "\<forall>t\<in>set ts. acyclic_from edges t" for ts
    by (rule acyclic_from_targets) (use that in \<open>auto simp: edge_def\<close>)
  show ?case
  proof (cases "node \<in> set active \<or> node \<in> set visited \<or> map_of edges node = None")
    case True
    then show ?thesis using leaf by (auto simp: find_visit.simps)
  next
    case False
    then obtain ts where ts: "node \<notin> set active" "node \<notin> set visited" "map_of edges node = Some ts" by auto
    obtain found visited' where result: "find_targets edges (active @ [node]) visited ts = (found, visited')"
      by fastforce
    have "find_visit edges active visited node =
        (case found of None \<Rightarrow> (None, set_add node visited') | Some c \<Rightarrow> (Some c, visited'))"
      using ts result by (simp add: find_visit.simps)
    moreover have "acyclic_from edges node \<and> (\<forall>v\<in>set visited'. acyclic_from edges v)"
      if "found = None" "\<forall>v\<in>set visited. acyclic_from edges v"
      using 1 [OF ts] inner [OF ts(3)] that unfolding result by simp
    ultimately show ?thesis by (cases found) simp_all
  qed
next
  case (3 edges active visited target targets)
  show ?case
  proof (cases "find_visit edges active visited target")
    case (Pair found visited')
    show ?thesis
    proof (cases found)
      case None
      have "find_targets edges active visited (target # targets) = find_targets edges active visited' targets"
        using Pair None by (simp add: find_targets.simps)
      moreover have "(\<forall>v\<in>set visited. acyclic_from edges v) \<longrightarrow>
          acyclic_from edges target \<and> (\<forall>v\<in>set visited'. acyclic_from edges v)"
        using 3(1) Pair None by simp
      ultimately show ?thesis using 3(2) [OF Pair [symmetric] None] by (simp only: list.set) blast
    qed (use Pair in \<open>simp add: find_targets.simps\<close>)
  qed
qed (simp add: find_targets.simps)

lemma successively_suffix: "successively P (xs @ ys) \<Longrightarrow> successively P ys"
  by (simp add: successively_append_iff)

text \<open>A cycle that a search returns is one, and it can be reached from the root.\<close>

lemma find_some:
  "successively (edge edges) (active @ [node]) \<longrightarrow> (\<forall>a\<in>set (active @ [node]). (edge edges)\<^sup>*\<^sup>* root a) \<longrightarrow>
     fst (find_visit edges active visited node) = Some c \<longrightarrow> cycle_path edges c \<and> (edge edges)\<^sup>*\<^sup>* root (hd c)"
  "active \<noteq> [] \<longrightarrow> successively (edge edges) active \<longrightarrow> (\<forall>t\<in>set targets. edge edges (last active) t) \<longrightarrow>
     (\<forall>a\<in>set active. (edge edges)\<^sup>*\<^sup>* root a) \<longrightarrow>
     fst (find_targets edges active visited targets) = Some c \<longrightarrow> cycle_path edges c \<and> (edge edges)\<^sup>*\<^sup>* root (hd c)"
proof (induction edges active visited node and edges active visited targets
    rule: find_visit_find_targets.induct)
  case (1 edges active visited node)
  show ?case
  proof (cases "node \<in> set active")
    case True
    let ?rest = "drop (index_of node active) active"
    have rest: "?rest = node # drop (Suc (index_of node active)) active"
      using True by (metis Cons_nth_drop_Suc index_of_less nth_index_of)
    have "successively (edge edges) (?rest @ [node])" if "successively (edge edges) (active @ [node])"
      using that successively_suffix [of "edge edges" "take (index_of node active) active" "?rest @ [node]"]
      by (simp only: append_assoc [symmetric] append_take_drop_id)
    then show ?thesis using True rest by (auto simp: find_visit.simps cycle_path_def)
  next
    case False
    then show ?thesis using 1
      by (auto simp: find_visit.simps edge_def split: option.splits prod.splits if_splits)
  qed
next
  case (3 edges active visited target targets)
  have "successively (edge edges) (active @ [target])"
    if "active \<noteq> []" "successively (edge edges) active" "edge edges (last active) target"
    using that by (simp add: successively_append_iff)
  moreover have "(edge edges)\<^sup>*\<^sup>* root target"
    if "active \<noteq> []" "\<forall>a\<in>set active. (edge edges)\<^sup>*\<^sup>* root a" "edge edges (last active) target"
    using that by (meson last_in_set rtranclp.rtrancl_into_rtrancl)
  ultimately show ?case using 3
    by (auto simp: find_targets.simps split: option.splits prod.splits)
qed (simp add: find_targets.simps)

lemma successively_rtranclp: "successively R (x # xs) \<Longrightarrow> R\<^sup>*\<^sup>* x (last (x # xs))"
  by (induction xs arbitrary: x) (auto simp: successively_Cons intro: converse_rtranclp_into_rtranclp)

lemma cycle_path_loop: "cycle_path edges c \<Longrightarrow> (edge edges)\<^sup>+\<^sup>+ (hd c) (hd c)"
proof -
  assume c: "cycle_path edges c"
  then obtain x y ys where xs: "c = x # y # ys" by (auto simp: cycle_path_def numeral_2_eq_2 Suc_le_length_iff)
  with c have "edge edges x y" "(edge edges)\<^sup>*\<^sup>* y x"
    using successively_rtranclp [of "edge edges" y ys] by (auto simp: cycle_path_def)
  then show ?thesis using xs by (auto intro: rtranclp_into_tranclp2)
qed

lemma find_cycle_sound:
  "find_cycle root edges = Some c \<Longrightarrow> cycle_path edges c \<and> (edge edges)\<^sup>*\<^sup>* root (hd c)"
  using find_some(1) [of edges "[]" root root "[]" c] by (simp add: find_cycle_def)

lemma find_cycle_None: "find_cycle root edges = None \<longleftrightarrow> acyclic_from edges root"
proof
  assume "find_cycle root edges = None"
  then show "acyclic_from edges root"
    using find_none(1) [of edges "[]" "[]" root] by (simp add: find_cycle_def)
next
  assume "acyclic_from edges root"
  then show "find_cycle root edges = None"
    using find_cycle_sound [of root edges] cycle_path_loop [of edges]
    by (cases "find_cycle root edges") (auto simp: acyclic_from_def)
qed

section \<open>Longest paths\<close>

text \<open>The number of nodes of a longest path from a node, counting the node itself.\<close>

definition longest_path :: "edges \<Rightarrow> string \<Rightarrow> nat \<Rightarrow> bool" where
  "longest_path edges v n \<longleftrightarrow>
     (\<exists>xs y. rtrancl_path (edge edges) v xs y \<and> Suc (length xs) = n) \<and>
     (\<forall>xs y. rtrancl_path (edge edges) v xs y \<longrightarrow> Suc (length xs) \<le> n)"

lemma longest_leaf:
  assumes "\<And>t. \<not> edge edges v t"
  shows "longest_path edges v 1"
proof -
  have "xs = []" if "rtrancl_path (edge edges) v xs y" for xs y
    using that assms by (cases rule: rtrancl_path.cases) auto
  then show ?thesis by (auto simp: longest_path_def intro: rtrancl_path.base exI [of _ "[]"])
qed

lemma longest_node:
  assumes ts: "map_of edges v = Some ts" "ts \<noteq> []" and ns: "list_all2 (longest_path edges) ts ns"
  shows "longest_path edges v (1 + Max (set ns))"
proof -
  have "set ns \<noteq> {}" using ts ns by auto
  then have "Max (set ns) \<in> set ns" by simp
  then obtain i where i: "i < length ns" "ns ! i = Max (set ns)" by (auto simp: in_set_conv_nth)
  with ns have "longest_path edges (ts ! i) (Max (set ns))" "edge edges v (ts ! i)"
    using ts by (auto simp: list_all2_conv_all_nth intro: edgeI)
  then obtain xs y where "rtrancl_path (edge edges) v (ts ! i # xs) y" "length (ts ! i # xs) = Max (set ns)"
    by (auto simp: longest_path_def intro: rtrancl_path.step)
  moreover have "length xs \<le> Max (set ns)" if "rtrancl_path (edge edges) v xs y" for xs y
    using that
  proof (cases rule: rtrancl_path.cases)
    case (step t zs)
    then have "t \<in> set ts" using ts by (auto simp: edge_def)
    then obtain j where j: "j < length ts" "t = ts ! j" by (auto simp: in_set_conv_nth)
    with ns have "longest_path edges t (ns ! j)" "ns ! j \<in> set ns"
      by (auto simp: list_all2_conv_all_nth)
    moreover from this(1) step have "length xs \<le> ns ! j" unfolding longest_path_def by auto
    ultimately show ?thesis by (meson List.finite_set Max_ge order_trans)
  qed simp
  ultimately show ?thesis unfolding longest_path_def by fastforce
qed

definition memo_ok :: "edges \<Rightarrow> memo \<Rightarrow> bool" where
  "memo_ok edges memo \<longleftrightarrow> (\<forall>v n. map_of memo v = Some n \<longrightarrow> longest_path edges v n)"

lemma node_depth_longest:
  "acyclic_from edges node \<longrightarrow> (\<forall>a\<in>set active. (edge edges)\<^sup>+\<^sup>+ a node) \<longrightarrow> memo_ok edges memo \<longrightarrow>
     longest_path edges node (fst (node_depth edges active memo node)) \<and>
     memo_ok edges (snd (node_depth edges active memo node))"
  "(\<forall>t\<in>set targets. acyclic_from edges t \<and> (\<forall>a\<in>set active. (edge edges)\<^sup>+\<^sup>+ a t)) \<longrightarrow> memo_ok edges memo \<longrightarrow>
     list_all2 (longest_path edges) targets (fst (target_depths edges active memo targets)) \<and>
     memo_ok edges (snd (target_depths edges active memo targets))"
proof (induction edges active memo node and edges active memo targets
    rule: node_depth_target_depths.induct)
  case (1 edges active memo node)
  show ?case
  proof (intro impI)
    assume clean: "acyclic_from edges node" and above: "\<forall>a\<in>set active. (edge edges)\<^sup>+\<^sup>+ a node"
      and memo: "memo_ok edges memo"
    have fresh: "node \<notin> set active" using clean above by (auto simp: acyclic_from_def)
    consider (known) n where "map_of memo node = Some n"
      | (leaf) "map_of memo node = None" "map_of edges node \<in> {None, Some []}"
      | (inner) ts where "map_of memo node = None" "map_of edges node = Some ts" "ts \<noteq> []"
      by (cases "map_of memo node"; cases "map_of edges node") auto
    then show "longest_path edges node (fst (node_depth edges active memo node)) \<and>
        memo_ok edges (snd (node_depth edges active memo node))"
    proof cases
      case known
      then show ?thesis using memo by (simp add: node_depth.simps memo_ok_def)
    next
      case leaf
      then have "longest_path edges node 1" by (intro longest_leaf) (auto simp: edge_def)
      with leaf memo fresh show ?thesis by (auto simp: node_depth.simps)
    next
      case (inner ts)
      obtain ns memo' where result: "target_depths edges (node # active) memo ts = (ns, memo')" by fastforce
      have targets: "\<forall>t\<in>set ts. acyclic_from edges t \<and> (\<forall>a\<in>set (node # active). (edge edges)\<^sup>+\<^sup>+ a t)"
        using clean above inner(2) by (auto intro: acyclic_from_step edgeI tranclp.trancl_into_trancl)
      have "list_all2 (longest_path edges) ts ns \<and> memo_ok edges memo'"
        using 1 [OF inner(1) fresh inner(2,3)] targets memo result by simp
      moreover from this inner have "longest_path edges node (1 + Max (set ns))"
        by (intro longest_node) auto
      ultimately show ?thesis using inner fresh result by (simp add: node_depth.simps memo_ok_def)
    qed
  qed
next
  case (3 edges active memo target targets)
  obtain n memo' where first: "node_depth edges active memo target = (n, memo')" by fastforce
  obtain ns memo'' where rest: "target_depths edges active memo' targets = (ns, memo'')" by fastforce
  show ?case
    using 3(1) 3(2) [OF first [symmetric]] first rest by (simp add: target_depths.simps)
qed (simp add: target_depths.simps)

lemma maximum_depth_longest: "acyclic_from edges root \<Longrightarrow> longest_path edges root (maximum_depth_of root edges)"
  using node_depth_longest(1) [of edges root "[]" "[]"] by (simp add: maximum_depth_of_def memo_ok_def)

section \<open>Paths to an end\<close>

definition ends :: "(string \<times> FlowNode) list \<Rightarrow> string \<Rightarrow> bool" where
  "ends ns v \<longleftrightarrow> (\<exists>node. map_of ns v = Some node \<and> is_EndCall node)"

text \<open>A simple path to an end that avoids the active nodes.\<close>

definition escapes :: "(string \<times> FlowNode) list \<Rightarrow> edges \<Rightarrow> string list \<Rightarrow> string \<Rightarrow> bool" where
  "escapes ns edges active v \<longleftrightarrow>
     (\<exists>xs y. rtrancl_path (edge edges) v xs y \<and> distinct (v # xs) \<and> set (v # xs) \<inter> set active = {} \<and> ends ns y)"

lemma escapes_active: "v \<in> set active \<Longrightarrow> \<not> escapes ns edges active v"
  by (auto simp: escapes_def)

lemma escapes_end: "v \<notin> set active \<Longrightarrow> ends ns v \<Longrightarrow> escapes ns edges active v"
  unfolding escapes_def by (intro exI [of _ "[]"] exI [of _ v]) (auto intro: rtrancl_path.base)

lemma escapes_step:
  assumes "v \<notin> set active" "edge edges v t" "escapes ns edges (v # active) t"
  shows "escapes ns edges active v"
proof -
  from assms(3) obtain xs y where "rtrancl_path (edge edges) t xs y" "distinct (t # xs)"
    "set (t # xs) \<inter> set (v # active) = {}" "ends ns y"
    by (auto simp: escapes_def)
  with assms show ?thesis
    unfolding escapes_def by (intro exI [of _ "t # xs"] exI [of _ y]) (auto intro: rtrancl_path.step)
qed

lemma escapes_cases:
  assumes "escapes ns edges active v"
  shows "ends ns v \<or> (\<exists>t. edge edges v t \<and> escapes ns edges (v # active) t)"
proof -
  from assms obtain xs y where path: "rtrancl_path (edge edges) v xs y" "distinct (v # xs)"
    "set (v # xs) \<inter> set active = {}" "ends ns y"
    by (auto simp: escapes_def)
  from path(1) show ?thesis
  proof (cases rule: rtrancl_path.cases)
    case (step t zs)
    then have "escapes ns edges (v # active) t"
      using path unfolding escapes_def by (intro exI [of _ zs] exI [of _ y]) auto
    with step show ?thesis by blast
  qed (use path in auto)
qed

lemma can_reach_end_step:
  "can_reach_end v ns edges active \<longleftrightarrow>
     v \<notin> set active \<and> v \<in> dom (map_of ns) \<and>
     (ends ns v \<or> (\<exists>t. edge edges v t \<and> can_reach_end t ns edges (v # active)))"
  by (subst can_reach_end.simps)
    (cases "map_of ns v"; cases "map_of edges v"; auto simp: ends_def edge_def list_ex_iff)

lemma can_reach_end_simple:
  assumes "keys edges \<subseteq> dom (map_of ns)"
  shows "can_reach_end v ns edges active \<longleftrightarrow> escapes ns edges active v"
  using assms
proof (induction v ns edges active rule: can_reach_end.induct)
  case (1 v ns edges active)
  have known: "v \<in> dom (map_of ns)" if "ends ns v \<or> (\<exists>t. edge edges v t)"
    using that 1(2) by (auto simp: ends_def edge_def keys_def)
  have IH: "can_reach_end t ns edges (v # active) \<longleftrightarrow> escapes ns edges (v # active) t"
    if "v \<notin> set active" "edge edges v t" for t
  proof -
    from that known obtain node ts where "map_of ns v = Some node" "map_of edges v = Some ts" "t \<in> set ts"
      by (auto simp: edge_def)
    with 1(1) [OF that(1), of node t] 1(2) show ?thesis by simp
  qed
  show ?case
    using known IH escapes_active escapes_end escapes_step escapes_cases
    unfolding can_reach_end_step [of v ns edges active] by metis
qed

lemma can_reach_end_iff:
  assumes "keys edges \<subseteq> dom (map_of ns)"
  shows "can_reach_end v ns edges [] \<longleftrightarrow> (\<exists>y. (edge edges)\<^sup>*\<^sup>* v y \<and> ends ns y)"
proof -
  have "(\<exists>xs. rtrancl_path (edge edges) v xs y \<and> distinct (v # xs)) \<longleftrightarrow> (edge edges)\<^sup>*\<^sup>* v y" for y
    unfolding rtranclp_eq_rtrancl_path by (metis rtrancl_path_distinct)
  then have "escapes ns edges [] v \<longleftrightarrow> (\<exists>y. (edge edges)\<^sup>*\<^sup>* v y \<and> ends ns y)"
    unfolding escapes_def by (simp only: set_simps Int_empty_right simp_thms) metis
  then show ?thesis by (simp add: can_reach_end_simple [OF assms])
qed

section \<open>The accepted V1 configurations\<close>

definition node_table :: "FlowNode list \<Rightarrow> (string \<times> FlowNode) list" where
  "node_table ns = map (\<lambda>node. (node_id node, node)) ns"

definition regular_table :: "FlowNode list \<Rightarrow> edges" where
  "regular_table ns = map (\<lambda>node. (node_id node, node_edges node)) ns"

definition full_table :: "FlowNode list \<Rightarrow> edges" where
  "full_table ns = map (\<lambda>node. (node_id node, node_edges node @ bounded_repeat_edges node)) ns"

lemma keys_tables [simp]: "keys (regular_table ns) = node_id ` set ns" "keys (full_table ns) = node_id ` set ns"
  by (auto simp: keys_def dom_map_of_conv_image_fst regular_table_def full_table_def image_comp)

lemma dom_node_table [simp]: "dom (map_of (node_table ns)) = node_id ` set ns"
  by (auto simp: dom_map_of_conv_image_fst node_table_def image_comp)

lemma fold_set_add: "set (fold set_add ps qs) = set ps \<union> set qs" "distinct (fold set_add ps qs) = distinct qs"
  by (induction ps arbitrary: qs) auto

lemma scan_node_fields [simp]:
  "regular_edges (scan_node ids S node s) = (node_id node, node_edges node) # regular_edges s"
  "all_edges (scan_node ids S node s) = (node_id node, node_edges node @ bounded_repeat_edges node) # all_edges s"
  "missing_node_reference (scan_node ids S node s) \<longleftrightarrow>
     missing_node_reference s \<or> \<not> set (node_edges node @ bounded_repeat_edges node) \<subseteq> set ids"
  "scan_errors (scan_node ids S node s) = [] \<longleftrightarrow>
     scan_errors s = [] \<and> set (node_schedule node) \<subseteq> set S \<and>
     set (node_edges node @ bounded_repeat_edges node) \<subseteq> set ids"
  "set (scan_prompts (scan_node ids S node s)) = set (node_prompt node) \<union> set (scan_prompts s)"
  "distinct (scan_prompts (scan_node ids S node s)) = distinct (scan_prompts s)"
  by (auto simp: scan_node_def Let_def filter_empty_conv fold_set_add)

text \<open>The loop over the nodes collects the two edge tables, newest entry first.\<close>

lemma scan_fields:
  "regular_edges (fold (scan_node ids S) ns s) = rev (regular_table ns) @ regular_edges s"
  "all_edges (fold (scan_node ids S) ns s) = rev (full_table ns) @ all_edges s"
  "missing_node_reference (fold (scan_node ids S) ns s) \<longleftrightarrow>
     missing_node_reference s \<or>
     \<not> (\<forall>node\<in>set ns. set (node_edges node @ bounded_repeat_edges node) \<subseteq> set ids)"
  "scan_errors (fold (scan_node ids S) ns s) = [] \<longleftrightarrow>
     scan_errors s = [] \<and>
     (\<forall>node\<in>set ns. set (node_schedule node) \<subseteq> set S \<and>
        set (node_edges node @ bounded_repeat_edges node) \<subseteq> set ids)"
  "set (scan_prompts (fold (scan_node ids S) ns s)) = (\<Union>node\<in>set ns. set (node_prompt node)) \<union> set (scan_prompts s)"
  "distinct (scan_prompts (fold (scan_node ids S) ns s)) = distinct (scan_prompts s)"
  by (induction ns arbitrary: s) (auto simp: regular_table_def full_table_def)

lemma sort_Nil: "sort xs = [] \<longleftrightarrow> xs = []"
  by (metis length_0_conv length_sort)

lemma graph_errors_Nil:
  assumes ids: "distinct (map node_id ns)"
  shows "graph_errors root (node_table ns) (rev (regular_table ns)) (rev (full_table ns)) = [] \<longleftrightarrow>
    (\<forall>node\<in>set ns. (edge (full_table ns))\<^sup>*\<^sup>* root (node_id node)) \<and>
    acyclic_from (regular_table ns) root \<and>
    (\<forall>xs y. rtrancl_path (edge (regular_table ns)) root xs y \<longrightarrow> Suc (length xs) \<le> 8) \<and>
    (\<forall>node\<in>set ns. \<exists>y. (edge (regular_table ns))\<^sup>*\<^sup>* (node_id node) y \<and> ends (node_table ns) y)"
proof -
  let ?R = "rev (regular_table ns)"
  have edge: "edge ?R = edge (regular_table ns)" "edge (rev (full_table ns)) = edge (full_table ns)"
    using ids by (simp_all add: fun_eq_iff edge_def map_of_rev_distinct regular_table_def full_table_def comp_def)
  have keys: "keys ?R = node_id ` set ns" "keys (rev (full_table ns)) = node_id ` set ns"
    by (simp_all add: keys_def dom_map_of_conv_image_fst regular_table_def full_table_def image_comp)
  have acyclic: "acyclic_from ?R root \<longleftrightarrow> acyclic_from (regular_table ns) root"
    by (simp add: acyclic_from_def edge)
  have depth: "maximum_depth_of root ?R \<le> 8 \<longleftrightarrow>
      (\<forall>xs y. rtrancl_path (edge (regular_table ns)) root xs y \<longrightarrow> Suc (length xs) \<le> 8)"
    if "acyclic_from (regular_table ns) root"
    using maximum_depth_longest [of ?R root] that unfolding acyclic longest_path_def edge
    by (metis order_trans)
  have reach: "filter (\<lambda>i. i \<notin> set (walk root (rev (full_table ns)))) (map fst (node_table ns)) = [] \<longleftrightarrow>
      (\<forall>node\<in>set ns. (edge (full_table ns))\<^sup>*\<^sup>* root (node_id node))"
    by (auto simp: filter_empty_conv set_walk keys edge node_table_def)
  have final: "filter (\<lambda>i. \<not> can_reach_end i (node_table ns) ?R []) (walk root (rev (full_table ns))) = [] \<longleftrightarrow>
      (\<forall>node\<in>set ns. \<exists>y. (edge (regular_table ns))\<^sup>*\<^sup>* (node_id node) y \<and> ends (node_table ns) y)"
    if "\<forall>node\<in>set ns. (edge (full_table ns))\<^sup>*\<^sup>* root (node_id node)"
    using that by (auto simp: filter_empty_conv set_walk keys edge can_reach_end_iff)
  have "graph_errors root (node_table ns) ?R (rev (full_table ns)) = [] \<longleftrightarrow>
      filter (\<lambda>i. i \<notin> set (walk root (rev (full_table ns)))) (map fst (node_table ns)) = [] \<and>
      find_cycle root ?R = None \<and> maximum_depth_of root ?R \<le> 8 \<and>
      filter (\<lambda>i. \<not> can_reach_end i (node_table ns) ?R []) (walk root (rev (full_table ns))) = []"
    by (auto simp: graph_errors_def Let_def sort_Nil split: option.splits list.splits)
  with depth reach final show ?thesis
    unfolding find_cycle_None acyclic by blast
qed

text \<open>A V1 configuration that can be published.\<close>

definition graph_accepted ::
  "(string \<Rightarrow> bool) \<Rightarrow> DraftConfiguration \<Rightarrow> string list \<Rightarrow> (string \<Rightarrow> nat option) \<Rightarrow> nat \<Rightarrow> bool" where
  "graph_accepted zone_known d P sizes limit \<longleftrightarrow>
     (let ns = nodes (v1_flow d); root = root_node (v1_flow d); used = (\<Union>node\<in>set ns. set (node_prompt node)) in
      distinct (map node_id ns) \<and> root \<in> node_id ` set ns \<and>
      distinct (map schedule_id (v1_schedules d)) \<and> (\<forall>s\<in>set (v1_schedules d). zone_known (timezone s)) \<and>
      (\<forall>node\<in>set ns. set (node_schedule node) \<subseteq> schedule_id ` set (v1_schedules d) \<and>
         set (node_edges node @ bounded_repeat_edges node) \<subseteq> node_id ` set ns) \<and>
      used \<subseteq> set P \<and> (\<Sum>p\<in>used. case sizes p of None \<Rightarrow> 0 | Some n \<Rightarrow> n) \<le> limit \<and>
      (\<forall>node\<in>set ns. (edge (full_table ns))\<^sup>*\<^sup>* root (node_id node)) \<and>
      acyclic_from (regular_table ns) root \<and>
      (\<forall>xs y. rtrancl_path (edge (regular_table ns)) root xs y \<longrightarrow> Suc (length xs) \<le> 8) \<and>
      (\<forall>node\<in>set ns. \<exists>y. (edge (regular_table ns))\<^sup>*\<^sup>* (node_id node) y \<and> ends (node_table ns) y))"

lemma dict_fromkeys_map: "length (dict_fromkeys (map f xs)) = length xs \<longleftrightarrow> distinct (map f xs)"
  using length_dict_fromkeys [of "map f xs"] by auto

lemma graph_schedule_errors_Nil:
  "graph_schedule_errors zone_known ss = [] \<longleftrightarrow>
     distinct (map schedule_id ss) \<and> (\<forall>s\<in>set ss. zone_known (timezone s))"
  by (auto simp: graph_schedule_errors_def filter_empty_conv dict_fromkeys_map)

lemma validate_accepted:
  "validate_configuration zone_known d P sizes limit = [] \<longleftrightarrow> graph_accepted zone_known d P sizes limit"
proof -
  let ?ns = "nodes (v1_flow d)" and ?S = "map schedule_id (v1_schedules d)"
  let ?ids = "map node_id ?ns" and ?root = "root_node (v1_flow d)"
  define before where "before = (if ?root \<notin> set ?ids then [''Flow root node does not exist.''] else []) @
    graph_schedule_errors zone_known (v1_schedules d)"
  define scan where "scan = fold (scan_node ?ids ?S) ?ns
    \<lparr>scan_errors = before, scan_prompts = [], regular_edges = [], all_edges = [], missing_node_reference = False\<rparr>"
  note fields = scan_fields [of ?ids ?S ?ns "\<lparr>scan_errors = before, scan_prompts = [], regular_edges = [],
    all_edges = [], missing_node_reference = False\<rparr>", folded scan_def, simplified]
  have total: "total_asset_bytes sizes (scan_prompts scan) =
      (\<Sum>p\<in>(\<Union>node\<in>set ?ns. set (node_prompt node)). case sizes p of None \<Rightarrow> 0 | Some n \<Rightarrow> n)"
    using fields(5,6) by (simp add: total_asset_bytes_def sum_list_distinct_conv_sum_set)
  have ids: "map fst (node_table ?ns) = ?ids" by (simp add: node_table_def)
  have before: "before = [] \<longleftrightarrow> ?root \<in> node_id ` set ?ns \<and> distinct ?S \<and>
      (\<forall>s\<in>set (v1_schedules d). zone_known (timezone s))"
    by (auto simp: before_def graph_schedule_errors_Nil)
  define es where "es = scan_errors scan @
    map (\<lambda>p. ''Flow references missing prompt '' @ p @ ''.'') (filter (\<lambda>p. p \<notin> set P) (scan_prompts scan)) @
    (if total_asset_bytes sizes (scan_prompts scan) > limit
     then [''Revision prompt assets exceed the 128 MiB limit.''] else [])"
  have es: "es = [] \<longleftrightarrow> scan_errors scan = [] \<and> (\<Union>node\<in>set ?ns. set (node_prompt node)) \<subseteq> set P \<and>
      total_asset_bytes sizes (scan_prompts scan) \<le> limit"
    by (auto simp: es_def filter_empty_conv fields)
  have "validate_configuration zone_known d P sizes limit =
      (if \<not> distinct ?ids then [''Flow node IDs must be unique.'']
       else if missing_node_reference scan \<or> ?root \<notin> set ?ids then es
       else es @ graph_errors ?root (node_table ?ns) (rev (regular_table ?ns)) (rev (full_table ?ns)))"
    unfolding validate_configuration_def Let_def node_table_def [symmetric] ids
      before_def [symmetric] scan_def [symmetric] es_def [symmetric]
    by (simp add: dict_fromkeys_map fields)
  then show ?thesis
    using graph_errors_Nil [of ?ns ?root] before
    unfolding graph_accepted_def Let_def total [symmetric] es fields
    by (cases "distinct ?ids"; cases "missing_node_reference scan \<or> ?root \<notin> set ?ids")
      (simp_all add: es fields, auto)
qed

text \<open>
  C39: The V1 validator returns no error exactly for the publishable configurations: node and schedule
  identifiers unique, every reference resolved, prompts present and within the asset limit, every
  node reachable, no cycle of unbounded edges reachable from the root, no path of more than eight
  nodes, and from every node a path to the end of the call.
\<close>

theorem validate_v1_exact:
  "validate_configuration zone_known d P sizes limit = [] \<longleftrightarrow> graph_accepted zone_known d P sizes limit"
  by (rule validate_accepted)

section \<open>A cycle that the validator does not see\<close>

text \<open>
  The search for cycles starts at the root and follows the unbounded edges only. A node that is
  reached through the bounded edge of a Repeat menu node alone is therefore not searched, although it
  counts as reachable.
\<close>

definition with_hidden_menu ::
  "string \<Rightarrow> string \<Rightarrow> nat \<Rightarrow> nat \<Rightarrow> nat \<Rightarrow> (string \<times> string) list \<Rightarrow> DraftConfiguration \<Rightarrow> DraftConfiguration" where
  "with_hidden_menu again menu repeats timeout attempts branches d =
     d\<lparr>v1_flow := \<lparr>root_node = again,
       nodes = RepeatMenuNode again menu repeats (root_node (v1_flow d)) #
         CollectDigitNode menu None timeout attempts branches menu menu # nodes (v1_flow d)\<rparr>\<rparr>"

text \<open>Two relations that agree on a closed set of nodes have the same paths there.\<close>

definition within :: "string set \<Rightarrow> (string \<Rightarrow> string \<Rightarrow> bool) \<Rightarrow> (string \<Rightarrow> string \<Rightarrow> bool) \<Rightarrow> bool" where
  "within S R Q \<longleftrightarrow> (\<forall>x\<in>S. \<forall>y. R x y \<longrightarrow> Q x y \<and> y \<in> S)"

lemma rtranclp_agree:
  assumes "within S R Q" "R\<^sup>*\<^sup>* x y" "x \<in> S"
  shows "Q\<^sup>*\<^sup>* x y \<and> y \<in> S"
  using assms(2)
proof (induction rule: rtranclp_induct)
  case (step y z)
  then have "Q y z \<and> z \<in> S" using assms(1) unfolding within_def by blast
  then show ?case using step.IH by auto
qed (simp add: assms(3))

lemma tranclp_agree:
  assumes "within S R Q" "R\<^sup>+\<^sup>+ x y" "x \<in> S"
  shows "Q\<^sup>+\<^sup>+ x y"
proof -
  obtain z where z: "R x z" "R\<^sup>*\<^sup>* z y" using tranclpD [OF assms(2)] by blast
  then have "Q x z" "z \<in> S" using assms(1,3) unfolding within_def by blast+
  then show ?thesis using rtranclp_agree [OF assms(1) z(2)] by (simp add: rtranclp_into_tranclp2)
qed

lemma rtrancl_path_agree:
  assumes "within S R Q" "rtrancl_path R x xs y" "x \<in> S"
  shows "rtrancl_path Q x xs y"
  using assms(2,3)
proof (induction rule: rtrancl_path.induct)
  case (step x y ys z)
  then have "Q x y \<and> y \<in> S" using assms(1) unfolding within_def by blast
  then show ?case using step.IH by (auto intro: rtrancl_path.step)
qed (rule rtrancl_path.base)

lemma graph_acceptedD:
  assumes "graph_accepted zone_known d P sizes limit"
  defines "ns \<equiv> nodes (v1_flow d)" and "root \<equiv> root_node (v1_flow d)"
  shows "distinct (map node_id ns)" "root \<in> node_id ` set ns"
    "\<And>node. node \<in> set ns \<Longrightarrow> set (node_edges node @ bounded_repeat_edges node) \<subseteq> node_id ` set ns"
    "\<And>node. node \<in> set ns \<Longrightarrow> (edge (full_table ns))\<^sup>*\<^sup>* root (node_id node)"
    "acyclic_from (regular_table ns) root"
    "\<And>node. node \<in> set ns \<Longrightarrow> \<exists>y. (edge (regular_table ns))\<^sup>*\<^sup>* (node_id node) y \<and> ends (node_table ns) y"
  using assms(1) unfolding graph_accepted_def ns_def root_def Let_def by auto

text \<open>What the two new nodes change: nothing between the old ones.\<close>

lemma hidden_menu_edges:
  assumes "again \<notin> node_id ` set ns" "menu \<notin> node_id ` set ns" "again \<noteq> menu"
    and ns': "ns' = RepeatMenuNode again menu repeats root # CollectDigitNode menu None timeout attempts branches menu menu # ns"
  shows "x \<in> node_id ` set ns \<Longrightarrow> edge (regular_table ns') x y = edge (regular_table ns) x y"
    "x \<in> node_id ` set ns \<Longrightarrow> edge (full_table ns') x y = edge (full_table ns) x y"
    "x \<in> node_id ` set ns \<Longrightarrow> ends (node_table ns') x = ends (node_table ns) x"
    "edge (regular_table ns') again y \<longleftrightarrow> y = root" "edge (full_table ns') again y \<longleftrightarrow> y = root \<or> y = menu"
    "edge (regular_table ns') menu y \<longleftrightarrow> y \<in> snd ` set branches \<or> y = menu"
  using assms(1-3) by (auto simp: ns' edge_def ends_def regular_table_def full_table_def node_table_def)

lemma edge_inside:
  assumes "\<And>node. node \<in> set ns \<Longrightarrow> set (node_edges node @ bounded_repeat_edges node) \<subseteq> node_id ` set ns"
  shows "edge (regular_table ns) x y \<Longrightarrow> y \<in> node_id ` set ns" "edge (full_table ns) x y \<Longrightarrow> y \<in> node_id ` set ns"
  using assms by (fastforce simp: edge_def regular_table_def full_table_def dest!: map_of_SomeD)+

text \<open>
  C40: The validator misses unbounded cycles. Every V1 configuration that it accepts, whose paths have at
  most seven nodes, can be entered through a new Repeat menu node whose bounded edge leads to a new menu
  that returns to itself by an unbounded edge, on a timeout and on an invalid key: the menu is reachable
  from the new root and is a cycle of unbounded edges, and the validator reports nothing.
\<close>

theorem hidden_cycle_accepted:
  assumes "validate_configuration zone_known d P sizes limit = []"
    and "\<And>xs y. rtrancl_path (edge (regular_table (nodes (v1_flow d)))) (root_node (v1_flow d)) xs y \<Longrightarrow> Suc (length xs) \<le> 7"
    and "again \<notin> node_id ` set (nodes (v1_flow d))" "menu \<notin> node_id ` set (nodes (v1_flow d))" "again \<noteq> menu"
    and "branches \<noteq> []" "snd ` set branches \<subseteq> node_id ` set (nodes (v1_flow d))"
    and "d' = with_hidden_menu again menu repeats timeout attempts branches d"
  shows "validate_configuration zone_known d' P sizes limit = [] \<and>
    (edge (full_table (nodes (v1_flow d'))))\<^sup>*\<^sup>* (root_node (v1_flow d')) menu \<and>
    cycle_path (regular_table (nodes (v1_flow d'))) [menu, menu]"
proof -
  define ns where "ns = nodes (v1_flow d)"
  define root where "root = root_node (v1_flow d)"
  define ns' where "ns' = RepeatMenuNode again menu repeats root # CollectDigitNode menu None timeout attempts branches menu menu # ns"
  have d': "nodes (v1_flow d') = ns'" "root_node (v1_flow d') = again" "v1_schedules d' = v1_schedules d"
    by (simp_all add: assms(8) with_hidden_menu_def ns'_def ns_def root_def)
  have acc: "graph_accepted zone_known d P sizes limit" using assms(1) by (simp add: validate_accepted)
  note old = graph_acceptedD [OF acc, folded ns_def root_def]
  note e = hidden_menu_edges [OF assms(3-5) [folded ns_def] ns'_def]
  let ?S = "node_id ` set ns"
  have R: "within ?S (edge (regular_table ns')) (edge (regular_table ns))"
    and R': "within ?S (edge (regular_table ns)) (edge (regular_table ns'))"
    and F': "within ?S (edge (full_table ns)) (edge (full_table ns'))"
    using e(1,2) edge_inside [OF old(3)] by (simp_all add: within_def)
  have menu: "(edge (full_table ns'))\<^sup>*\<^sup>* again menu" using e(5) by blast
  have reach: "(edge (full_table ns'))\<^sup>*\<^sup>* again (node_id node)" if "node \<in> set ns" for node
    using rtranclp_agree [OF F' old(4) [OF that] old(2)] e(5) [of root] converse_rtranclp_into_rtranclp [of "edge (full_table ns')" again root]
    by simp
  have from_root: "acyclic_from (regular_table ns') root"
    unfolding acyclic_from_def
  proof (intro allI impI notI)
    fix c
    assume c: "(edge (regular_table ns'))\<^sup>*\<^sup>* root c" "(edge (regular_table ns'))\<^sup>+\<^sup>+ c c"
    have "(edge (regular_table ns))\<^sup>*\<^sup>* root c" "c \<in> ?S" using rtranclp_agree [OF R c(1) old(2)] by simp_all
    then show False using tranclp_agree [OF R c(2)] old(5) unfolding acyclic_from_def by blast
  qed
  have acyclic: "acyclic_from (regular_table ns') again"
  proof (rule acyclic_from_targets)
    fix target
    assume "edge (regular_table ns') again target"
    then show "acyclic_from (regular_table ns') target" using from_root by (simp only: e(4))
  qed
  have depth: "Suc (length xs) \<le> 8" if "rtrancl_path (edge (regular_table ns')) again xs y" for xs y
    using that
  proof cases
    case (step z zs)
    then have "z = root" by (simp only: e(4))
    then have "rtrancl_path (edge (regular_table ns)) root zs y" using rtrancl_path_agree [OF R _ old(2)] step(3) by simp
    from assms(2) [OF this [unfolded ns_def root_def]] show ?thesis using step(1) by simp
  qed simp
  have final: "\<exists>y. (edge (regular_table ns'))\<^sup>*\<^sup>* x y \<and> ends (node_table ns') y" if x: "x \<in> ?S" for x
  proof -
    obtain node y where y: "x = node_id node" "(edge (regular_table ns))\<^sup>*\<^sup>* (node_id node) y" "ends (node_table ns) y"
      using x old(6) by blast
    have "(edge (regular_table ns'))\<^sup>*\<^sup>* x y \<and> y \<in> ?S" using rtranclp_agree [OF R' y(2)] x y(1) by simp
    then show ?thesis using y(3) e(3) by (intro exI [of _ y]) simp
  qed
  have "\<exists>y. (edge (regular_table ns'))\<^sup>*\<^sup>* again y \<and> ends (node_table ns') y"
    using final [OF old(2)] e(4) [of root] converse_rtranclp_into_rtranclp [of "edge (regular_table ns')" again root] by auto
  moreover obtain b where "b \<in> set branches" using assms(6) by (cases branches) auto
  then have "snd b \<in> ?S" "edge (regular_table ns') menu (snd b)" using assms(7) e(6) unfolding ns_def by auto
  then have "\<exists>y. (edge (regular_table ns'))\<^sup>*\<^sup>* menu y \<and> ends (node_table ns') y"
    using final [of "snd b"] converse_rtranclp_into_rtranclp [of "edge (regular_table ns')" menu "snd b"] by auto
  ultimately have ends: "\<forall>node\<in>set ns'. \<exists>y. (edge (regular_table ns'))\<^sup>*\<^sup>* (node_id node) y \<and> ends (node_table ns') y"
    using final by (auto simp: ns'_def)
  have "\<forall>node\<in>set ns'. (edge (full_table ns'))\<^sup>*\<^sup>* again (node_id node)" using reach menu by (auto simp: ns'_def)
  moreover have "distinct (map node_id ns')" using old(1) assms(3-5) by (auto simp: ns'_def ns_def)
  moreover have "\<forall>node\<in>set ns'. set (node_edges node @ bounded_repeat_edges node) \<subseteq> node_id ` set ns'"
    using old(2,3) assms(7) [folded ns_def] by (simp add: ns'_def) blast
  moreover have "\<forall>node\<in>set ns'. set (node_schedule node) \<subseteq> schedule_id ` set (v1_schedules d)"
    "(\<Union>node\<in>set ns'. set (node_prompt node)) = (\<Union>node\<in>set ns. set (node_prompt node))"
    using acc by (auto simp: graph_accepted_def Let_def ns'_def ns_def)
  ultimately have "graph_accepted zone_known d' P sizes limit"
    using acc acyclic depth ends unfolding graph_accepted_def Let_def d' ns_def [symmetric]
    by (intro conjI) (simp_all add: ns'_def)
  then show ?thesis using menu e(6) by (simp add: validate_accepted d' cycle_path_def)
qed

text \<open>The shortest flow: the call ends at once.\<close>

definition end_only :: DraftConfiguration where
  "end_only = \<lparr>v1_caller_policy = default_CallerPolicy, v1_schedules = [],
     v1_flow = \<lparr>root_node = ''end'', nodes = [EndCallNode ''end'']\<rparr>\<rparr>"

theorem hidden_cycle_accepted_witness:
  "DraftConfiguration_valid (with_hidden_menu ''again'' ''menu'' 1 5000 1 [(''1'', ''end'')] end_only) \<and>
   validate_configuration (\<lambda>_. True) (with_hidden_menu ''again'' ''menu'' 1 5000 1 [(''1'', ''end'')] end_only) [] (\<lambda>_. None) 0 = []"
proof
  show "DraftConfiguration_valid (with_hidden_menu ''again'' ''menu'' 1 5000 1 [(''1'', ''end'')] end_only)"
    by (simp add: end_only_def with_hidden_menu_def DraftConfiguration_valid_def CallerPolicy_valid_def default_CallerPolicy_def
        FlowDefinition_valid_def branch_target_valid_def DTMF_KEYS_def is_lower_def)
  have e: "\<not> edge (regular_table (nodes (v1_flow end_only))) x y" for x y
    by (auto simp: end_only_def edge_def regular_table_def)
  have p: "Suc (length xs) \<le> 7" if "rtrancl_path (edge (regular_table (nodes (v1_flow end_only)))) (root_node (v1_flow end_only)) xs y" for xs y
    using that by cases (use e in auto)
  have "Suc (length xs) \<le> 8" if "rtrancl_path (edge (regular_table (nodes (v1_flow end_only)))) (root_node (v1_flow end_only)) xs y" for xs y
    using p [OF that] by simp
  moreover have "acyclic_from (regular_table (nodes (v1_flow end_only))) (root_node (v1_flow end_only))"
    unfolding acyclic_from_def using e by (metis tranclpD)
  moreover have "\<forall>node\<in>set (nodes (v1_flow end_only)). ends (node_table (nodes (v1_flow end_only))) (node_id node)"
    by (simp add: end_only_def ends_def node_table_def)
  moreover have "map node_id (nodes (v1_flow end_only)) = [root_node (v1_flow end_only)]" "v1_schedules end_only = []"
    "nodes (v1_flow end_only) = [EndCallNode (root_node (v1_flow end_only))]"
    by (simp_all add: end_only_def)
  ultimately have "graph_accepted (\<lambda>_. True) end_only [] (\<lambda>_. None) 0"
    unfolding graph_accepted_def Let_def by auto
  then have v: "validate_configuration (\<lambda>_. True) end_only [] (\<lambda>_. None) 0 = []" by (simp add: validate_accepted)
  show "validate_configuration (\<lambda>_. True) (with_hidden_menu ''again'' ''menu'' 1 5000 1 [(''1'', ''end'')] end_only) [] (\<lambda>_. None) 0 = []"
    using hidden_cycle_accepted [OF v p, where again = "''again''" and menu = "''menu''" and branches = "[(''1'', ''end'')]"
        and repeats = 1 and timeout = 5000 and attempts = 1]
    by (simp add: end_only_def)
qed

end
