(* ===== verification/Draft_Store.thy ===== *)
theory Draft_Store
  imports Flow_Compiler
begin

text \<open>
  The stored state of the control plane and the drafts (\<^verbatim>\<open>src/server/app/models.py\<close> and the
  first half of \<^verbatim>\<open>src/server/app/services.py\<close>).

  A row holds the document that its encrypted text decrypts and parses to, by schema version; the
  cipher and the text form are not part of the state. A database session is the state itself: an
  operation returns the new state, and an exception leaves no state, because the request then ends
  without \<^verbatim>\<open>commit\<close>. The row that a save has read and the state on which it writes are separate
  arguments, so that a save can be interleaved with another one.
\<close>

section \<open>The state\<close>

datatype stored_document =
    DocV1 DraftConfiguration
  | DocV2 FlowDocumentV2
  | DocV3 FlowDocumentV3
  | DocV4 FlowDocumentV4

fun document_schema :: "stored_document \<Rightarrow> nat" where
  "document_schema (DocV1 d) = 1"
| "document_schema (DocV2 d) = 2"
| "document_schema (DocV3 d) = 3"
| "document_schema (DocV4 d) = 4"

record Draft =
  draft_document :: stored_document
  draft_version :: nat
  updated_by :: string

record LegacyDraftArchive =
  archive_schema :: nat
  archive_document :: stored_document
  archived_by :: string

record Prompt =
  prompt_id :: string
  prompt_name :: string
  prompt_version :: nat
  content_hash :: string
  size_bytes :: nat
  duration_ms :: nat

record Device =
  device_id :: string
  display_name :: string
  token_hash :: string
  app_version :: string
  helper_version :: string
  device_status :: "(string \<times> json) list"
  desired_revision_id :: "nat option"
  active_revision_id :: "nat option"
  revoked :: bool

record AuditLog =
  audit_actor :: string
  audit_action :: string
  audit_target :: string
  audit_details :: "(string \<times> json) list"

datatype manifest_flow =
    GraphFlow FlowDefinition
  | TreeFlow FlowDefinitionV2

text \<open>
  The signed content of a revision; a V1 manifest has no program and only V3 and V4 manifests have a
  recording behaviour.
\<close>

record manifest =
  manifest_schema :: nat
  manifest_revision_id :: nat
  manifest_published_at :: string
  manifest_policy :: CallerPolicy
  manifest_schedules :: "Schedule list"
  manifest_recording :: "RecordingBehavior option"
  manifest_flow :: manifest_flow
  manifest_compiled :: "compiled_flow option"
  manifest_prompts :: "Prompt list"
  rolled_back_from :: "nat option"

record Revision =
  revision_id :: nat
  revision_schema :: nat
  revision_manifest :: manifest
  manifest_sha256 :: string
  signature_b64 :: string
  source_revision_id :: "nat option"
  published_at :: string
  published_by :: string

text \<open>
  Revisions are kept in the order of their identifiers; \<^verbatim>\<open>next_revision_id\<close> is the sequence
  that numbers them.
\<close>

record database =
  drafts :: "nat \<Rightarrow> Draft option"
  archives :: "LegacyDraftArchive list"
  revisions :: "Revision list"
  next_revision_id :: nat
  prompts :: "Prompt list"
  devices :: "Device list"
  audit_log :: "AuditLog list"

datatype service_error =
    DraftConflictError string
  | RuntimeError string
  | ValidationError
  | IntegrityError
  | Raised py_error
  | HTTPException nat json

type_synonym 'a served = "service_error + 'a \<times> database"

definition V4_DRAFT_ID :: nat where
  "V4_DRAFT_ID = 4"

definition no_flow :: FlowDefinitionV2 where
  "no_flow = \<lparr>flow_root = None\<rparr>"

definition default_DraftConfigurationV2 :: FlowDocumentV2 where
  "default_DraftConfigurationV2 =
     \<lparr>edit_version = 0, caller_policy = default_CallerPolicy, schedules = [], flow = no_flow\<rparr>"

definition default_DraftConfigurationV3 :: FlowDocumentV3 where
  "default_DraftConfigurationV3 =
     \<lparr>edit_version = 0, caller_policy = default_CallerPolicy, schedules = [], flow = no_flow,
      recording_behavior = default_RecordingBehavior\<rparr>"

section \<open>Writing a draft row\<close>

definition conflict :: "nat \<Rightarrow> nat \<Rightarrow> service_error" where
  "conflict given_version current_version =
     DraftConflictError (''Draft changed from version '' @ str_nat given_version @ '' to '' @ str_nat current_version @ ''.'')"

definition current_version :: "Draft option \<Rightarrow> nat" where
  "current_version draft = (case draft of None \<Rightarrow> 0 | Some row \<Rightarrow> draft_version row)"

text \<open>
  \<^verbatim>\<open>INSERT\<close> of a row, which fails when another session has inserted it, and the
  \<^verbatim>\<open>UPDATE ... WHERE edit_version = current_version\<close> whose row count must be 1.
\<close>

definition write_draft :: "nat \<Rightarrow> Draft option \<Rightarrow> stored_document \<Rightarrow> string \<Rightarrow> database \<Rightarrow> service_error + database" where
  "write_draft i seen document actor db =
     (let row = \<lparr>draft_document = document, draft_version = current_version seen + 1, updated_by = actor\<rparr> in
      case seen of
        None \<Rightarrow>
          (if drafts db i = None then Inr (db\<lparr>drafts := (drafts db)(i \<mapsto> row)\<rparr>) else Inl IntegrityError)
      | Some draft \<Rightarrow>
          (case drafts db i of
            Some now \<Rightarrow>
              if draft_version now = current_version seen then Inr (db\<lparr>drafts := (drafts db)(i \<mapsto> row)\<rparr>)
              else Inl (DraftConflictError ''Draft changed while this save was being applied.'')
          | None \<Rightarrow> Inl (DraftConflictError ''Draft changed while this save was being applied.'')))"

section \<open>V1 drafts\<close>

definition load_draft :: "database \<Rightarrow> service_error + DraftConfiguration" where
  "load_draft db =
     (case drafts db 1 of
        None \<Rightarrow> Inr default_DraftConfiguration
      | Some draft \<Rightarrow> (case draft_document draft of DocV1 d \<Rightarrow> Inr d | _ \<Rightarrow> Inl ValidationError))"

definition store_draft :: "DraftConfiguration \<Rightarrow> string \<Rightarrow> database \<Rightarrow> database" where
  "store_draft configuration actor db =
     (let row = \<lparr>draft_document = DocV1 configuration, draft_version = current_version (drafts db 1) + 1,
                 updated_by = actor\<rparr> in
      db\<lparr>drafts := (drafts db)(1 \<mapsto> row)\<rparr>)"

section \<open>V2 drafts\<close>

definition blank_v2 :: "nat \<Rightarrow> DraftConfiguration \<Rightarrow> FlowDocumentV2" where
  "blank_v2 v legacy =
     \<lparr>edit_version = v, caller_policy = v1_caller_policy legacy, schedules = v1_schedules legacy, flow = no_flow\<rparr>"

definition load_draft_v2 :: "database \<Rightarrow> service_error + FlowDocumentV2" where
  "load_draft_v2 db =
     (case drafts db 1 of
        None \<Rightarrow> Inr default_DraftConfigurationV2
      | Some draft \<Rightarrow>
          (case draft_document draft of
            DocV2 d \<Rightarrow> Inr (d\<lparr>edit_version := draft_version draft\<rparr>)
          | DocV1 legacy \<Rightarrow> Inr (blank_v2 (draft_version draft) legacy)
          | _ \<Rightarrow> Inl ValidationError))"

text \<open>The V1 document that a V2 save replaces is archived, once.\<close>

definition archive_v1 :: "Draft option \<Rightarrow> database \<Rightarrow> database" where
  "archive_v1 seen db =
     (case seen of
        Some draft \<Rightarrow>
          if document_schema (draft_document draft) = 1 \<and> archives db = []
          then db\<lparr>archives := archives db @
                 [\<lparr>archive_schema = 1, archive_document = draft_document draft, archived_by = updated_by draft\<rparr>]\<rparr>
          else db
      | None \<Rightarrow> db)"

definition store_draft_v2_at :: "Draft option \<Rightarrow> FlowDocumentV2 \<Rightarrow> string \<Rightarrow> database \<Rightarrow> FlowDocumentV2 served" where
  "store_draft_v2_at seen configuration actor db =
     (if edit_version configuration \<noteq> current_version seen
      then Inl (conflict (edit_version configuration) (current_version seen))
      else bind_result (write_draft 1 seen (DocV2 (configuration\<lparr>edit_version := 0\<rparr>)) actor (archive_v1 seen db))
        (\<lambda>db'. Inr (configuration\<lparr>edit_version := current_version seen + 1\<rparr>, db')))"

definition store_draft_v2 :: "FlowDocumentV2 \<Rightarrow> string \<Rightarrow> database \<Rightarrow> FlowDocumentV2 served" where
  "store_draft_v2 configuration actor db = store_draft_v2_at (drafts db 1) configuration actor db"

definition initialize_v2_draft :: "string \<Rightarrow> database \<Rightarrow> FlowDocumentV2 served" where
  "initialize_v2_draft actor db =
     (case drafts db 1 of
        None \<Rightarrow> store_draft_v2 default_DraftConfigurationV2 actor db
      | Some draft \<Rightarrow>
          (case draft_document draft of
            DocV2 d \<Rightarrow> bind_result (load_draft_v2 db) (\<lambda>c. Inr (c, db))
          | DocV1 legacy \<Rightarrow> store_draft_v2 (blank_v2 (draft_version draft) legacy) actor db
          | _ \<Rightarrow> Inl ValidationError))"

section \<open>V3 drafts\<close>

definition load_draft_v3 :: "database \<Rightarrow> service_error + FlowDocumentV3" where
  "load_draft_v3 db =
     (case drafts db 1 of
        None \<Rightarrow> Inr default_DraftConfigurationV3
      | Some draft \<Rightarrow>
          (case draft_document draft of
            DocV3 d \<Rightarrow> Inr (d\<lparr>edit_version := draft_version draft\<rparr>)
          | _ \<Rightarrow> Inl (RuntimeError ''The editable draft has not been migrated to V3.'')))"

definition store_draft_v3_at :: "Draft option \<Rightarrow> FlowDocumentV3 \<Rightarrow> string \<Rightarrow> database \<Rightarrow> FlowDocumentV3 served" where
  "store_draft_v3_at seen configuration actor db =
     (if edit_version configuration \<noteq> current_version seen
      then Inl (conflict (edit_version configuration) (current_version seen))
      else bind_result (write_draft 1 seen (DocV3 (configuration\<lparr>edit_version := 0\<rparr>)) actor db)
        (\<lambda>db'. Inr (configuration\<lparr>edit_version := current_version seen + 1\<rparr>, db')))"

definition store_draft_v3 :: "FlowDocumentV3 \<Rightarrow> string \<Rightarrow> database \<Rightarrow> FlowDocumentV3 served" where
  "store_draft_v3 configuration actor db = store_draft_v3_at (drafts db 1) configuration actor db"

definition promote_v3 :: "nat \<Rightarrow> stored_document \<Rightarrow> service_error + FlowDocumentV3" where
  "promote_v3 v document =
     (case document of
        DocV2 d \<Rightarrow> Inr \<lparr>edit_version = v, caller_policy = caller_policy d, schedules = schedules d, flow = flow d,
                      recording_behavior = default_RecordingBehavior\<rparr>
      | DocV1 d \<Rightarrow> Inr \<lparr>edit_version = v, caller_policy = v1_caller_policy d, schedules = v1_schedules d, flow = no_flow,
                      recording_behavior = default_RecordingBehavior\<rparr>
      | _ \<Rightarrow> Inl ValidationError)"

definition initialize_v3_draft :: "string \<Rightarrow> database \<Rightarrow> FlowDocumentV3 served" where
  "initialize_v3_draft actor db =
     (case drafts db 1 of
        None \<Rightarrow> store_draft_v3 default_DraftConfigurationV3 actor db
      | Some draft \<Rightarrow>
          if document_schema (draft_document draft) = 3 then bind_result (load_draft_v3 db) (\<lambda>c. Inr (c, db))
          else
            let db' = db\<lparr>archives := archives db @
                  [\<lparr>archive_schema = document_schema (draft_document draft), archive_document = draft_document draft,
                    archived_by = updated_by draft\<rparr>]\<rparr> in
            bind_result (promote_v3 (draft_version draft) (draft_document draft))
              (\<lambda>promoted. store_draft_v3 promoted actor db'))"

section \<open>V4 drafts\<close>

definition load_draft_v4 :: "database \<Rightarrow> service_error + FlowDocumentV4" where
  "load_draft_v4 db =
     (case drafts db V4_DRAFT_ID of
        None \<Rightarrow> Inr default_DraftConfigurationV3
      | Some draft \<Rightarrow>
          (case draft_document draft of
            DocV4 d \<Rightarrow> Inr (d\<lparr>edit_version := draft_version draft\<rparr>)
          | _ \<Rightarrow> Inl (RuntimeError ''The editable draft has not been cloned to V4.'')))"

definition store_draft_v4_at :: "Draft option \<Rightarrow> FlowDocumentV4 \<Rightarrow> string \<Rightarrow> database \<Rightarrow> FlowDocumentV4 served" where
  "store_draft_v4_at seen configuration actor db =
     (if edit_version configuration \<noteq> current_version seen
      then Inl (conflict (edit_version configuration) (current_version seen))
      else bind_result (write_draft V4_DRAFT_ID seen (DocV4 (configuration\<lparr>edit_version := 0\<rparr>)) actor db)
        (\<lambda>db'. Inr (configuration\<lparr>edit_version := current_version seen + 1\<rparr>, db')))"

definition store_draft_v4 :: "FlowDocumentV4 \<Rightarrow> string \<Rightarrow> database \<Rightarrow> FlowDocumentV4 served" where
  "store_draft_v4 configuration actor db = store_draft_v4_at (drafts db V4_DRAFT_ID) configuration actor db"

definition clone_v4 :: "stored_document \<Rightarrow> service_error + FlowDocumentV4" where
  "clone_v4 document =
     (case document of
        DocV3 d \<Rightarrow> Inr \<lparr>edit_version = 0, caller_policy = caller_policy d, schedules = schedules d, flow = flow d,
                      recording_behavior = recording_behavior d\<rparr>
      | DocV2 d \<Rightarrow> Inr \<lparr>edit_version = 0, caller_policy = caller_policy d, schedules = schedules d, flow = flow d,
                      recording_behavior = default_RecordingBehavior\<rparr>
      | DocV1 d \<Rightarrow> Inr \<lparr>edit_version = 0, caller_policy = v1_caller_policy d, schedules = v1_schedules d, flow = no_flow,
                      recording_behavior = default_RecordingBehavior\<rparr>
      | _ \<Rightarrow> Inl ValidationError)"

definition initialize_v4_draft :: "string \<Rightarrow> database \<Rightarrow> FlowDocumentV4 served" where
  "initialize_v4_draft actor db =
     (case drafts db V4_DRAFT_ID of
        Some v4_draft \<Rightarrow> bind_result (load_draft_v4 db) (\<lambda>c. Inr (c, db))
      | None \<Rightarrow>
          (case drafts db 1 of
            None \<Rightarrow> store_draft_v4 default_DraftConfigurationV3 actor db
          | Some source \<Rightarrow>
              bind_result (clone_v4 (draft_document source)) (\<lambda>promoted. store_draft_v4 promoted actor db)))"

definition audit :: "string \<Rightarrow> string \<Rightarrow> string \<Rightarrow> (string \<times> json) list \<Rightarrow> database \<Rightarrow> database" where
  "audit actor action target details db =
     db\<lparr>audit_log := audit_log db @
        [\<lparr>audit_actor = actor, audit_action = action, audit_target = target, audit_details = details\<rparr>]\<rparr>"

section \<open>The contract of a versioned draft\<close>

text \<open>
  What the three versioned drafts promise: a save is accepted exactly when it was prepared from the
  current version, it then replaces the draft and takes the next version number, and the draft that
  is loaded afterwards is the saved one.
\<close>

locale versioned_draft =
  fixes version_in :: "database \<Rightarrow> nat"
    and version_of :: "'d \<Rightarrow> nat"
    and renumber :: "nat \<Rightarrow> 'd \<Rightarrow> 'd"
    and store :: "'d \<Rightarrow> string \<Rightarrow> database \<Rightarrow> 'd served"
    and load :: "database \<Rightarrow> service_error + 'd"
  assumes version_renumber: "version_of (renumber n d) = n"
    and renumber_same: "renumber (version_of d) d = d"
    and renumber_twice: "renumber n (renumber m d) = renumber n d"
    and refused: "version_of d \<noteq> version_in db \<Longrightarrow> store d actor db = Inl (conflict (version_of d) (version_in db))"
    and accepted: "version_of d = version_in db \<Longrightarrow> \<exists>db'. store d actor db = Inr (renumber (Suc (version_in db)) d, db')"
    and loaded: "store d actor db = Inr (d', db') \<Longrightarrow> load db' = Inr d' \<and> version_in db' = version_of d'"
begin

lemma store_Inr:
  assumes "store d actor db = Inr (d', db')"
  shows "version_of d = version_in db" "d' = renumber (Suc (version_in db)) d"
    "version_in db' = Suc (version_in db)" "load db' = Inr d'"
proof -
  show current: "version_of d = version_in db"
    using assms refused [of d db actor] by (cases "version_of d = version_in db") auto
  show "d' = renumber (Suc (version_in db)) d"
    using accepted [OF current, of actor] assms by auto
  then show "version_in db' = Suc (version_in db)" "load db' = Inr d'"
    using loaded [OF assms] version_renumber by auto
qed

text \<open>Of two saves prepared from the same version, the later one is refused.\<close>

lemma second_refused:
  assumes "store d actor db = Inr (d', db')" "version_of e = version_of d"
  shows "store e other db' = Inl (conflict (version_of e) (Suc (version_of e)))"
  using store_Inr [OF assms(1)] assms(2) refused [of e db' other] by simp

text \<open>Any sequence of saves: the version counts the accepted ones.\<close>

fun attempts :: "('d \<times> string) list \<Rightarrow> database \<Rightarrow> nat \<times> database" where
  "attempts [] db = (0, db)"
| "attempts ((d, actor) # rest) db =
     (case store d actor db of
        Inl e \<Rightarrow> attempts rest db
      | Inr (d', db') \<Rightarrow> (case attempts rest db' of (n, db'') \<Rightarrow> (Suc n, db'')))"

lemma attempts_version: "attempts xs db = (n, db') \<Longrightarrow> version_in db' = version_in db + n"
proof (induction xs arbitrary: db db' n)
  case (Cons x xs)
  obtain d actor where x: "x = (d, actor)" by fastforce
  show ?case
  proof (cases "store d actor db")
    case (Inl e)
    with Cons x show ?thesis by simp
  next
    case (Inr r)
    obtain d1 db1 where r: "r = (d1, db1)" by fastforce
    obtain m db2 where m: "attempts xs db1 = (m, db2)" by fastforce
    with Cons.prems Inr x r have "n = Suc m" "db' = db2" by auto
    with Cons.IH [OF m] store_Inr(3) Inr r show ?thesis by simp
  qed
qed simp

end

lemma write_draft_same:
  "write_draft i (drafts db i) document actor db =
   Inr (db\<lparr>drafts := (drafts db)(i \<mapsto>
     \<lparr>draft_document = document, draft_version = current_version (drafts db i) + 1, updated_by = actor\<rparr>)\<rparr>)"
  by (simp add: write_draft_def Let_def current_version_def split: option.splits)

lemma archive_v1_drafts [simp]: "drafts (archive_v1 seen db) = drafts db"
  by (simp add: archive_v1_def split: option.splits)

lemma write_draft_archived:
  "write_draft i (drafts db i) document actor (archive_v1 seen db) =
   Inr (archive_v1 seen db\<lparr>drafts := (drafts db)(i \<mapsto>
     \<lparr>draft_document = document, draft_version = current_version (drafts db i) + 1, updated_by = actor\<rparr>)\<rparr>)"
  using write_draft_same [of i "archive_v1 seen db"] by simp

lemmas store_defs =
  store_draft_v2_def store_draft_v2_at_def store_draft_v3_def store_draft_v3_at_def store_draft_v4_def
  store_draft_v4_at_def

lemmas load_defs = load_draft_def load_draft_v2_def load_draft_v3_def load_draft_v4_def

abbreviation draft_version_in :: "nat \<Rightarrow> database \<Rightarrow> nat" where
  "draft_version_in i db \<equiv> current_version (drafts db i)"

interpretation draft2: versioned_draft "draft_version_in 1" edit_version "\<lambda>n d. d\<lparr>edit_version := n\<rparr>"
    store_draft_v2 load_draft_v2
  by unfold_locales
    (auto simp: store_defs load_defs write_draft_archived current_version_def split: if_splits)

interpretation draft3: versioned_draft "draft_version_in 1" edit_version "\<lambda>n d. d\<lparr>edit_version := n\<rparr>"
    store_draft_v3 load_draft_v3
  by unfold_locales
    (auto simp: store_defs load_defs write_draft_same current_version_def split: if_splits)

interpretation draft4: versioned_draft "draft_version_in V4_DRAFT_ID" edit_version "\<lambda>n d. d\<lparr>edit_version := n\<rparr>"
    store_draft_v4 load_draft_v4
  by unfold_locales
    (auto simp: store_defs load_defs write_draft_same current_version_def split: if_splits)

section \<open>Properties\<close>

definition empty_database :: database where
  "empty_database =
     \<lparr>drafts = (\<lambda>_. None), archives = [], revisions = [], next_revision_id = 1, prompts = [], devices = [],
      audit_log = []\<rparr>"

lemma first_save:
  "\<exists>db'. store_draft_v4 default_DraftConfigurationV3 actor empty_database =
     Inr (default_DraftConfigurationV3\<lparr>edit_version := 1\<rparr>, db')"
  using draft4.accepted [of default_DraftConfigurationV3 empty_database actor]
  by (simp add: empty_database_def default_DraftConfigurationV3_def current_version_def)

text \<open>
  A V4 draft that has been saved is the draft that is loaded: same policy, schedules, recording
  behaviour and flow, and the version that the save returned, which is the one after the version the
  save was prepared from.
\<close>

theorem store_load_v4:
  assumes "store_draft_v4 d actor db = Inr (d', db')"
  shows "load_draft_v4 db' = Inr d' \<and> d' = d\<lparr>edit_version := edit_version d + 1\<rparr> \<and>
    edit_version d = draft_version_in V4_DRAFT_ID db"
  using draft4.store_Inr [OF assms] by simp

theorem store_load_v4_witness:
  "\<exists>db'. store_draft_v4 default_DraftConfigurationV3 ''admin'' empty_database =
       Inr (default_DraftConfigurationV3\<lparr>edit_version := 1\<rparr>, db') \<and>
     load_draft_v4 db' = Inr (default_DraftConfigurationV3\<lparr>edit_version := 1\<rparr>)"
proof -
  obtain db' where "store_draft_v4 default_DraftConfigurationV3 ''admin'' empty_database =
      Inr (default_DraftConfigurationV3\<lparr>edit_version := 1\<rparr>, db')"
    using first_save [of "''admin''"] by blast
  with store_load_v4 [OF this] show ?thesis by blast
qed

text \<open>A save of the V4 draft that was accepted.\<close>

definition saved_v4 :: "database \<Rightarrow> database \<Rightarrow> bool" where
  "saved_v4 db db' \<longleftrightarrow> (\<exists>d actor d'. store_draft_v4 d actor db = Inr (d', db'))"

lemma saved_v4_newer:
  assumes "saved_v4\<^sup>+\<^sup>+ db db'"
  shows "\<exists>row. drafts db' V4_DRAFT_ID = Some row \<and> draft_version_in V4_DRAFT_ID db < draft_version row"
proof -
  have saved: "\<exists>row. drafts y V4_DRAFT_ID = Some row \<and> draft_version row = Suc (draft_version_in V4_DRAFT_ID x)"
    if "saved_v4 x y" for x y
    using that draft4.store_Inr(3) unfolding saved_v4_def
    by (cases "drafts y V4_DRAFT_ID") (fastforce simp: current_version_def)+
  from assms show ?thesis
  proof (induction rule: tranclp_induct)
    case (step y z)
    with saved [of y z] show ?case by (auto simp: current_version_def)
  qed (use saved in force)
qed

text \<open>
  C27: No save is lost. Let one or more saves of the V4 draft be accepted after a request has read the
  row. A save of that request that is applied to the row it read is refused at the write, whatever
  document and version it carries; and a save that reads the row afresh but was prepared from a version
  at most the old one is refused with a conflict that names both versions.
\<close>

theorem no_lost_update_v4:
  assumes "saved_v4\<^sup>+\<^sup>+ db db'"
  shows "(\<exists>error. store_draft_v4_at (drafts db V4_DRAFT_ID) e other db' = Inl error) \<and>
    (edit_version f \<le> draft_version_in V4_DRAFT_ID db \<longrightarrow>
       store_draft_v4 f other db' = Inl (conflict (edit_version f) (draft_version_in V4_DRAFT_ID db')))"
proof -
  obtain row where row: "drafts db' V4_DRAFT_ID = Some row" "draft_version_in V4_DRAFT_ID db < draft_version row"
    using saved_v4_newer [OF assms] by blast
  then have "\<exists>error. store_draft_v4_at (drafts db V4_DRAFT_ID) e other db' = Inl error"
    by (auto simp: store_draft_v4_at_def write_draft_def Let_def split: option.splits)
  moreover have "edit_version f \<le> draft_version_in V4_DRAFT_ID db \<Longrightarrow> edit_version f \<noteq> draft_version_in V4_DRAFT_ID db'"
    using row by (simp add: current_version_def)
  ultimately show ?thesis using draft4.refused [of f db' other] by blast
qed

theorem no_lost_update_v4_witness:
  "\<exists>db' db''. store_draft_v4 default_DraftConfigurationV3 ''anna'' empty_database =
       Inr (default_DraftConfigurationV3\<lparr>edit_version := 1\<rparr>, db') \<and>
     store_draft_v4 (default_DraftConfigurationV3\<lparr>edit_version := 1\<rparr>) ''anna'' db' =
       Inr (default_DraftConfigurationV3\<lparr>edit_version := 2\<rparr>, db'') \<and>
     (\<exists>error. store_draft_v4_at (drafts empty_database V4_DRAFT_ID) default_DraftConfigurationV3 ''bert'' db'' = Inl error) \<and>
     store_draft_v4 default_DraftConfigurationV3 ''bert'' db'' = Inl (conflict 0 2)"
proof -
  obtain db' where first: "store_draft_v4 default_DraftConfigurationV3 ''anna'' empty_database =
      Inr (default_DraftConfigurationV3\<lparr>edit_version := 1\<rparr>, db')"
    using first_save [of "''anna''"] by blast
  have v: "draft_version_in V4_DRAFT_ID db' = 1"
    using draft4.store_Inr(3) [OF first] by (simp add: empty_database_def current_version_def)
  obtain db'' where second: "store_draft_v4 (default_DraftConfigurationV3\<lparr>edit_version := 1\<rparr>) ''anna'' db' =
      Inr (default_DraftConfigurationV3\<lparr>edit_version := 2\<rparr>, db'')"
    using draft4.accepted [of "default_DraftConfigurationV3\<lparr>edit_version := 1\<rparr>" db' "''anna''"] v by auto
  have w: "draft_version_in V4_DRAFT_ID db'' = 2"
    using draft4.store_Inr(3) [OF second] v by simp
  have "saved_v4 empty_database db'" "saved_v4 db' db''" using first second unfolding saved_v4_def by blast+
  then have "saved_v4\<^sup>+\<^sup>+ empty_database db''" by (meson tranclp.intros)
  moreover have "edit_version default_DraftConfigurationV3 = 0" by (simp add: default_DraftConfigurationV3_def)
  ultimately show ?thesis
    using no_lost_update_v4 [of empty_database db'' default_DraftConfigurationV3 "''bert''" default_DraftConfigurationV3] first second w
    by auto
qed

text \<open>
  Opening the V4 editor copies the older draft once: the copy keeps the policy and the schedules,
  and the flow and recording behaviour where the older document has them; the older draft, the
  archives, the revisions and the devices are untouched, and opening the editor again returns the
  same draft without a change.
\<close>

theorem initialize_v4_once:
  assumes "drafts db V4_DRAFT_ID = None" "drafts db 1 = Some source"
    and "initialize_v4_draft actor db = Inr (d, db')"
  shows "clone_v4 (draft_document source) = Inr (d\<lparr>edit_version := 0\<rparr>) \<and> edit_version d = 1 \<and>
    drafts db' 1 = drafts db 1 \<and> archives db' = archives db \<and> revisions db' = revisions db \<and>
    devices db' = devices db \<and> initialize_v4_draft other db' = Inr (d, db')"
proof -
  obtain p where p: "clone_v4 (draft_document source) = Inr p" "store_draft_v4 p actor db = Inr (d, db')"
    using assms by (auto simp: initialize_v4_draft_def bind_result_Inr)
  have zero: "edit_version p = 0" "p\<lparr>edit_version := 0\<rparr> = p"
    using p(1) by (auto simp: clone_v4_def split: stored_document.splits)
  have db': "db' = db\<lparr>drafts := (drafts db)(V4_DRAFT_ID \<mapsto>
      \<lparr>draft_document = DocV4 p, draft_version = 1, updated_by = actor\<rparr>)\<rparr>" "d = p\<lparr>edit_version := 1\<rparr>"
    using p(2) assms(1) zero by (auto simp: store_defs write_draft_def current_version_def split: if_splits)
  then have "initialize_v4_draft other db' = Inr (d, db')"
    by (simp add: initialize_v4_draft_def load_draft_v4_def)
  with p(1) zero db' show ?thesis by (simp add: V4_DRAFT_ID_def)
qed

theorem initialize_v4_once_witness:
  "\<exists>d db'. initialize_v4_draft ''admin''
       (store_draft default_DraftConfiguration ''admin'' empty_database) = Inr (d, db') \<and>
     initialize_v4_draft ''other'' db' = Inr (d, db')"
proof -
  let ?db = "store_draft default_DraftConfiguration ''admin'' empty_database"
  have start: "drafts ?db V4_DRAFT_ID = None" "drafts ?db 1 =
      Some \<lparr>draft_document = DocV1 default_DraftConfiguration, draft_version = 1, updated_by = ''admin''\<rparr>"
    by (simp_all add: store_draft_def empty_database_def V4_DRAFT_ID_def current_version_def)
  then obtain d db' where opened: "initialize_v4_draft ''admin'' ?db = Inr (d, db')"
    by (simp add: initialize_v4_draft_def clone_v4_def store_defs write_draft_def current_version_def)
  from initialize_v4_once [OF start opened] opened show ?thesis by blast
qed

end
