(* ===== verification/Revision_Store.thy ===== *)
theory Revision_Store
  imports Draft_Store
begin

text \<open>
  Building, signing and storing revisions (the second half of \<^verbatim>\<open>src/server/app/services.py\<close>,
  with \<^verbatim>\<open>RevisionSigner.sign\<close> of \<^verbatim>\<open>src/server/app/crypto.py\<close>).

  A manifest is kept as a record; \<^verbatim>\<open>manifest_json\<close> is the document that is signed. SHA-256 and
  the Ed25519 signature are parameters, and the clock reading enters as its ISO text.
\<close>

section \<open>The application state\<close>

record app_state =
  sha256_hex :: "string \<Rightarrow> string"
  ed25519_sign :: "string \<Rightarrow> string"
  known_zone :: "string \<Rightarrow> bool"
  revision_asset_limit_bytes :: nat

section \<open>Manifests\<close>

fun node_json :: "FlowNode \<Rightarrow> json" where
  "node_json (PlayPromptNode i p n) = JObject
     [(''id'', JString i), (''type'', JString ''play_prompt''), (''prompt_id'', JString p), (''next'', JString n)]"
| "node_json (CollectDigitNode i p timeout_ms maximum_attempts branches t v) = JObject
     [(''id'', JString i), (''type'', JString ''collect_digit''), (''prompt_id'', json_of_string_option p),
      (''timeout_ms'', json_nat timeout_ms), (''maximum_attempts'', json_nat maximum_attempts),
      (''branches'', JObject (map (\<lambda>(d, x). (d, JString x)) branches)),
      (''on_timeout'', JString t), (''on_invalid'', JString v)]"
| "node_json (ScheduleBranchNode i s on_open on_closed on_holiday) = JObject
     [(''id'', JString i), (''type'', JString ''schedule_branch''), (''schedule_id'', JString s),
      (''on_open'', JString on_open), (''on_closed'', JString on_closed), (''on_holiday'', JString on_holiday)]"
| "node_json (RepeatMenuNode i t maximum_repeats on_exhausted) = JObject
     [(''id'', JString i), (''type'', JString ''repeat_menu''), (''target'', JString t),
      (''maximum_repeats'', json_nat maximum_repeats), (''on_exhausted'', JString on_exhausted)]"
| "node_json (EndCallNode i) = JObject [(''id'', JString i), (''type'', JString ''end_call'')]"

definition flow_definition_json :: "FlowDefinition \<Rightarrow> json" where
  "flow_definition_json f = JObject
     [(''root_node'', JString (root_node f)), (''nodes'', JList (map node_json (nodes f)))]"

fun manifest_flow_json :: "manifest_flow \<Rightarrow> json" where
  "manifest_flow_json (GraphFlow f) = flow_definition_json f"
| "manifest_flow_json (TreeFlow f) = flow_json f"

definition prompt_json :: "Prompt \<Rightarrow> json" where
  "prompt_json p = JObject
     [(''id'', JString (prompt_id p)), (''name'', JString (prompt_name p)), (''version'', json_nat (prompt_version p)),
      (''content_hash'', JString (content_hash p)), (''size_bytes'', json_nat (size_bytes p)),
      (''duration_ms'', json_nat (duration_ms p)),
      (''format'', JString ''audio/wav;codec=pcm_s16le;rate=48000;channels=2'')]"

definition manifest_fields :: "manifest \<Rightarrow> (string \<times> json) list" where
  "manifest_fields m =
     [(''schema_version'', json_nat (manifest_schema m)), (''revision_id'', json_nat (manifest_revision_id m)),
      (''published_at'', JString (manifest_published_at m)), (''caller_policy'', caller_policy_json (manifest_policy m)),
      (''schedules'', JList (map schedule_json (manifest_schedules m)))] @
     (case manifest_recording m of None \<Rightarrow> [] | Some r \<Rightarrow> [(''recording_behavior'', recording_behavior_json r)]) @
     [(''flow'', manifest_flow_json (manifest_flow m))] @
     (case manifest_compiled m of
        None \<Rightarrow> []
      | Some c \<Rightarrow> [(''compiler_version'', JString (compiler_version c)), (''source_sha256'', JString (source_sha256 c)),
          (''program_sha256'', JString (program_sha256 c)), (''program'', program_json (compiled_program c))]) @
     [(''prompts'', JList (map prompt_json (manifest_prompts m)))] @
     (case rolled_back_from m of None \<Rightarrow> [] | Some i \<Rightarrow> [(''rolled_back_from'', json_nat i)])"

definition manifest_json :: "manifest \<Rightarrow> json" where
  "manifest_json m = JObject (manifest_fields m)"

definition prompt_durations :: "Prompt list \<Rightarrow> string \<Rightarrow> nat option" where
  "prompt_durations ps = map_of (rev (map (\<lambda>p. (prompt_id p, duration_ms p)) ps))"

definition build_manifest :: "nat \<Rightarrow> DraftConfiguration \<Rightarrow> Prompt list \<Rightarrow> string \<Rightarrow> nat option \<Rightarrow> manifest" where
  "build_manifest rid configuration ps now rolled =
     \<lparr>manifest_schema = 1, manifest_revision_id = rid, manifest_published_at = now,
      manifest_policy = v1_caller_policy configuration, manifest_schedules = v1_schedules configuration,
      manifest_recording = None, manifest_flow = GraphFlow (v1_flow configuration), manifest_compiled = None,
      manifest_prompts = sort_key prompt_id ps, rolled_back_from = rolled\<rparr>"

definition build_manifest_v2 ::
  "(string \<Rightarrow> string) \<Rightarrow> nat \<Rightarrow> FlowDocumentV2 \<Rightarrow> Prompt list \<Rightarrow> string \<Rightarrow> nat option \<Rightarrow> manifest result" where
  "build_manifest_v2 sha256 rid configuration ps now rolled =
     bind_result (compile_flow sha256 (flow configuration)) (\<lambda>compiled.
     Inr \<lparr>manifest_schema = 2, manifest_revision_id = rid, manifest_published_at = now,
      manifest_policy = caller_policy configuration, manifest_schedules = schedules configuration,
      manifest_recording = None, manifest_flow = TreeFlow (flow configuration), manifest_compiled = Some compiled,
      manifest_prompts = sort_key prompt_id ps, rolled_back_from = rolled\<rparr>)"

definition build_manifest_v3 ::
  "(string \<Rightarrow> string) \<Rightarrow> nat \<Rightarrow> FlowDocumentV3 \<Rightarrow> Prompt list \<Rightarrow> string \<Rightarrow> nat option \<Rightarrow> manifest result" where
  "build_manifest_v3 sha256 rid configuration ps now rolled =
     bind_result (compile_flow_v3 sha256 (flow configuration) (recording_behavior configuration) (prompt_durations ps))
       (\<lambda>compiled.
     Inr \<lparr>manifest_schema = 3, manifest_revision_id = rid, manifest_published_at = now,
      manifest_policy = caller_policy configuration, manifest_schedules = schedules configuration,
      manifest_recording = Some (recording_behavior configuration), manifest_flow = TreeFlow (flow configuration),
      manifest_compiled = Some compiled, manifest_prompts = sort_key prompt_id ps, rolled_back_from = rolled\<rparr>)"

definition build_manifest_v4 ::
  "(string \<Rightarrow> string) \<Rightarrow> nat \<Rightarrow> FlowDocumentV4 \<Rightarrow> Prompt list \<Rightarrow> string \<Rightarrow> nat option \<Rightarrow> manifest result" where
  "build_manifest_v4 sha256 rid configuration ps now rolled =
     bind_result (compile_flow_v4 sha256 (flow configuration) (recording_behavior configuration) (prompt_durations ps))
       (\<lambda>compiled.
     Inr \<lparr>manifest_schema = 4, manifest_revision_id = rid, manifest_published_at = now,
      manifest_policy = caller_policy configuration, manifest_schedules = schedules configuration,
      manifest_recording = Some (recording_behavior configuration), manifest_flow = TreeFlow (flow configuration),
      manifest_compiled = Some compiled, manifest_prompts = sort_key prompt_id ps, rolled_back_from = rolled\<rparr>)"

section \<open>Revisions\<close>

text \<open>\<^verbatim>\<open>RevisionSigner.sign\<close>: the digest and the signature of the canonical text.\<close>

definition sign :: "app_state \<Rightarrow> manifest \<Rightarrow> string \<times> string" where
  "sign app m =
     (let canonical = canonical_json_bytes (manifest_json m) in
      (sha256_hex app canonical, ed25519_sign app canonical))"

text \<open>
  The pending row is inserted first, which fixes the identifier, and is completed with the manifest,
  digest and signature; a failing compilation ends the request, and the pending row with it.
\<close>

definition insert_revision ::
  "app_state \<Rightarrow> nat \<Rightarrow> (nat \<Rightarrow> manifest result) \<Rightarrow> string \<Rightarrow> nat option \<Rightarrow> string \<Rightarrow> database \<Rightarrow> Revision served" where
  "insert_revision app schema build actor source now db =
     (let rid = next_revision_id db in
      case build rid of
        Inl e \<Rightarrow> Inl (Raised e)
      | Inr m \<Rightarrow>
          (let revision = \<lparr>revision_id = rid, revision_schema = schema, revision_manifest = m,
                 manifest_sha256 = fst (sign app m), signature_b64 = snd (sign app m), source_revision_id = source,
                 published_at = now, published_by = actor\<rparr> in
           Inr (revision, db\<lparr>revisions := revisions db @ [revision], next_revision_id := rid + 1\<rparr>)))"

definition create_revision ::
  "app_state \<Rightarrow> DraftConfiguration \<Rightarrow> Prompt list \<Rightarrow> string \<Rightarrow> nat option \<Rightarrow> string \<Rightarrow> database \<Rightarrow> Revision served" where
  "create_revision app configuration ps actor source now =
     insert_revision app 1 (\<lambda>rid. Inr (build_manifest rid configuration ps now source)) actor source now"

definition create_revision_v2 ::
  "app_state \<Rightarrow> FlowDocumentV2 \<Rightarrow> Prompt list \<Rightarrow> string \<Rightarrow> nat option \<Rightarrow> string \<Rightarrow> database \<Rightarrow> Revision served" where
  "create_revision_v2 app configuration ps actor source now =
     insert_revision app 2 (\<lambda>rid. build_manifest_v2 (sha256_hex app) rid configuration ps now source) actor source now"

definition create_revision_v3 ::
  "app_state \<Rightarrow> FlowDocumentV3 \<Rightarrow> Prompt list \<Rightarrow> string \<Rightarrow> nat option \<Rightarrow> string \<Rightarrow> database \<Rightarrow> Revision served" where
  "create_revision_v3 app configuration ps actor source now =
     insert_revision app 3 (\<lambda>rid. build_manifest_v3 (sha256_hex app) rid configuration ps now source) actor source now"

definition create_revision_v4 ::
  "app_state \<Rightarrow> FlowDocumentV4 \<Rightarrow> Prompt list \<Rightarrow> string \<Rightarrow> nat option \<Rightarrow> string \<Rightarrow> database \<Rightarrow> Revision served" where
  "create_revision_v4 app configuration ps actor source now =
     insert_revision app 4 (\<lambda>rid. build_manifest_v4 (sha256_hex app) rid configuration ps now source) actor source now"

definition load_manifest :: "Revision \<Rightarrow> manifest" where
  "load_manifest revision = revision_manifest revision"

section \<open>The prompts of a configuration\<close>

fun node_prompt_id :: "FlowNode \<Rightarrow> string option" where
  "node_prompt_id (PlayPromptNode i p n) = Some p"
| "node_prompt_id (CollectDigitNode i p timeout_ms maximum_attempts branches t v) = p"
| "node_prompt_id _ = None"

definition select_prompts :: "string list \<Rightarrow> database \<Rightarrow> Prompt list" where
  "select_prompts ids db = (if ids = [] then [] else filter (\<lambda>p. prompt_id p \<in> set ids) (prompts db))"

definition prompts_for_configuration :: "database \<Rightarrow> DraftConfiguration \<Rightarrow> Prompt list" where
  "prompts_for_configuration db configuration =
     select_prompts
       (fold (\<lambda>node ids. if truthy (node_prompt_id node) then set_add (the (node_prompt_id node)) ids else ids)
         (nodes (v1_flow configuration)) []) db"

definition prompts_for_configuration_v2 :: "database \<Rightarrow> FlowDocumentV2 \<Rightarrow> Prompt list" where
  "prompts_for_configuration_v2 db configuration = select_prompts (prompt_ids (flow configuration)) db"

definition prompts_for_configuration_v3 :: "database \<Rightarrow> FlowDocumentV3 \<Rightarrow> Prompt list" where
  "prompts_for_configuration_v3 db configuration = select_prompts (prompt_ids (flow configuration)) db"

definition prompts_for_configuration_v4 :: "database \<Rightarrow> FlowDocumentV4 \<Rightarrow> Prompt list" where
  "prompts_for_configuration_v4 db configuration = select_prompts (prompt_ids (flow configuration)) db"

section \<open>Laws\<close>

text \<open>A stored revision carries the digest and the signature of its own manifest, under its own number.\<close>

definition sealed :: "app_state \<Rightarrow> Revision \<Rightarrow> bool" where
  "sealed app r \<longleftrightarrow>
     manifest_revision_id (revision_manifest r) = revision_id r \<and>
     manifest_schema (revision_manifest r) = revision_schema r \<and>
     rolled_back_from (revision_manifest r) = source_revision_id r \<and>
     manifest_sha256 r = sha256_hex app (canonical_json_bytes (manifest_json (revision_manifest r))) \<and>
     signature_b64 r = ed25519_sign app (canonical_json_bytes (manifest_json (revision_manifest r)))"

lemma insert_revision_Inr:
  "insert_revision app schema build actor source now db = Inr (r, db') \<longleftrightarrow>
   (\<exists>m. build (next_revision_id db) = Inr m \<and>
     r = \<lparr>revision_id = next_revision_id db, revision_schema = schema, revision_manifest = m,
          manifest_sha256 = fst (sign app m), signature_b64 = snd (sign app m), source_revision_id = source,
          published_at = now, published_by = actor\<rparr> \<and>
     db' = db\<lparr>revisions := revisions db @ [r], next_revision_id := next_revision_id db + 1\<rparr>)"
  by (auto simp: insert_revision_def Let_def split: sum.splits)

lemma create_revision_v4_sealed:
  "create_revision_v4 app d ps actor source now db = Inr (r, db') \<Longrightarrow> sealed app r"
  by (auto simp: create_revision_v4_def insert_revision_Inr sealed_def sign_def Let_def build_manifest_v4_def
      bind_result_Inr)

lemma manifest_get:
  "json_get (manifest_fields m) ''caller_policy'' = caller_policy_json (manifest_policy m)"
  "json_get (manifest_fields m) ''schedules'' = JList (map schedule_json (manifest_schedules m))"
  "json_get (manifest_fields m) ''recording_behavior'' =
     (case manifest_recording m of None \<Rightarrow> JNull | Some r \<Rightarrow> recording_behavior_json r)"
  by (simp_all add: json_get_def manifest_fields_def map_add_def split: option.splits)

end
