(* ===== verification/Flow_Diff.thy ===== *)
theory Flow_Diff
  imports Json Validation_Laws Samples
begin

text \<open>
  The comparison of two flows that the dashboard shows before a publication
  (\<^verbatim>\<open>src/server/app/diff_v2.py\<close>): blocks are matched by their identifier and compared by
  their own fields, without the blocks they own. The properties state what the counts of the
  comparison mean.
\<close>

section \<open>Definitions\<close>

definition CHILD_FIELDS :: "string list" where
  "CHILD_FIELDS =
     [''next'', ''branches'', ''on_timeout'', ''on_invalid'', ''on_return_limit'', ''on_open'', ''on_closed'',
      ''on_holiday'', ''on_unavailable'', ''on_not_connected'', ''on_system_failure'']"

text \<open>\<^verbatim>\<open>model_dump(mode="json", exclude=CHILD_FIELDS)\<close>.\<close>

fun fields_of :: "json \<Rightarrow> (string \<times> json) list" where
  "fields_of (JObject kvs) = kvs"
| "fields_of _ = []"

definition own_fields :: "FlowBlock \<Rightarrow> (string \<times> json) list" where
  "own_fields block = filter (\<lambda>kv. fst kv \<notin> set CHILD_FIELDS) (fields_of (block_json block))"

fun digit_field :: "FlowBlock \<Rightarrow> (string \<times> json) list" where
  "digit_field (CollectDigitBlockV2 i p barge timeout_ms maximum_attempts maximum_menu_returns branches t v l) =
     [(''digits'', JList (map JString (sort (map (\<lambda>b. case b of DigitBranchV2 bid d r \<Rightarrow> [d]) branches))))]"
| "digit_field _ = []"

definition block_document :: "FlowBlock \<Rightarrow> json" where
  "block_document block = JObject (own_fields block @ digit_field block)"

text \<open>\<^verbatim>\<open>_block_documents\<close>: a dictionary, the latest entry of a key first.\<close>

type_synonym documents = "(string \<times> string \<times> json) list"

definition put_document :: "FlowBlock \<times> nat \<Rightarrow> documents \<Rightarrow> documents" where
  "put_document x result =
     AList.update (block_id (fst x)) (block_label (fst x), block_document (fst x)) result"

definition block_documents :: "FlowDefinitionV2 \<Rightarrow> documents" where
  "block_documents f = fold put_document (walk_blocks (flow_root f)) []"

record flow_diff =
  added :: nat
  removed :: nat
  changed :: nat
  changes :: "string list"

definition sorted_set :: "string list \<Rightarrow> string list" where
  "sorted_set xs = sort (remdups xs)"

definition label_in :: "documents \<Rightarrow> string \<Rightarrow> string" where
  "label_in d i = (case map_of d i of None \<Rightarrow> [] | Some (label, _) \<Rightarrow> label)"

definition document_differs :: "documents \<Rightarrow> documents \<Rightarrow> string \<Rightarrow> bool" where
  "document_differs before after i =
     (case (map_of before i, map_of after i) of
        (Some (_, x), Some (_, y)) \<Rightarrow> \<not> py_eq x y
      | _ \<Rightarrow> False)"

definition diff_flows :: "FlowDefinitionV2 option \<Rightarrow> FlowDefinitionV2 \<Rightarrow> flow_diff" where
  "diff_flows base current =
     (let before = (case base of None \<Rightarrow> [] | Some f \<Rightarrow> block_documents f);
          after = block_documents current;
          added_ids = sorted_set (filter (\<lambda>i. i \<notin> fst ` set before) (map fst after));
          removed_ids = sorted_set (filter (\<lambda>i. i \<notin> fst ` set after) (map fst before));
          changed_ids = sorted_set (filter (\<lambda>i. i \<in> fst ` set after \<and> document_differs before after i) (map fst before)) in
      \<lparr>added = length added_ids, removed = length removed_ids, changed = length changed_ids,
       changes = take 256
         (map (\<lambda>i. ''Added '' @ label_in after i) added_ids @
          map (\<lambda>i. ''Removed '' @ label_in before i) removed_ids @
          map (\<lambda>i. ''Changed '' @ label_in after i) changed_ids)\<rparr>)"

section \<open>What a comparison counts\<close>

lemma sorted_set [simp]:
  "set (sorted_set xs) = set xs" "length (sorted_set xs) = card (set xs)" "sorted_set xs = [] \<longleftrightarrow> xs = []"
  by (simp_all add: sorted_set_def length_remdups_card_conv)
    (metis length_0_conv length_sort remdups_eq_nil_iff)

definition flow_blocks :: "FlowDefinitionV2 \<Rightarrow> FlowBlock set" where
  "flow_blocks f = (case flow_root f of None \<Rightarrow> {} | Some r \<Rightarrow> set (subtree r))"

definition unique_ids :: "FlowDefinitionV2 \<Rightarrow> bool" where
  "unique_ids f \<longleftrightarrow> inj_on block_id (flow_blocks f)"

lemma set_walk_blocks: "fst ` set (walk_blocks (flow_root f)) = flow_blocks f"
proof (cases "flow_root f")
  case None
  then show ?thesis by (simp add: walk_blocks_def flow_blocks_def)
next
  case (Some r)
  have "fst ` set (preorder_depth 1 r) = set (preorder r)"
    using map_fst_preorder_depth [of 1 r] by (metis list.set_map)
  with Some show ?thesis by (simp add: walk_blocks_preorder flow_blocks_def set_preorder)
qed

lemma map_of_put_document:
  "map_of (put_document x d) =
   (map_of d)(block_id (fst x) \<mapsto> (block_label (fst x), block_document (fst x)))"
  by (simp add: put_document_def update_conv')

lemma map_of_fold_documents:
  "inj_on block_id (fst ` set xs) \<Longrightarrow> b \<in> fst ` set xs \<Longrightarrow>
   map_of (fold put_document xs d) (block_id b) = Some (block_label b, block_document b)"
proof (induction xs rule: rev_induct)
  case (snoc x xs)
  show ?case
  proof (cases "block_id (fst x) = block_id b")
    case True
    then have "fst x = b" using snoc.prems by (auto dest: inj_onD)
    then show ?thesis by (simp add: map_of_put_document)
  next
    case False
    then have "b \<in> fst ` set xs" using snoc.prems by auto
    moreover have "inj_on block_id (fst ` set xs)" using snoc.prems(1) by (rule inj_on_subset) auto
    ultimately show ?thesis using False snoc.IH by (simp add: map_of_put_document)
  qed
qed simp

lemma dom_fold_documents:
  "dom (map_of (fold put_document xs d)) = block_id ` fst ` set xs \<union> dom (map_of d)"
  by (induction xs arbitrary: d) (auto simp: map_of_put_document)

lemma map_of_block_documents:
  assumes "unique_ids f" "b \<in> flow_blocks f"
  shows "map_of (block_documents f) (block_id b) = Some (block_label b, block_document b)"
  using map_of_fold_documents [of "walk_blocks (flow_root f)" b "[]"] assms
  by (simp add: block_documents_def set_walk_blocks unique_ids_def)

lemma keys_block_documents: "fst ` set (block_documents f) = block_id ` flow_blocks f"
  using dom_fold_documents [of "walk_blocks (flow_root f)" "[]"]
  by (simp add: block_documents_def set_walk_blocks dom_map_of_conv_image_fst)

text \<open>Whether a block has the same own fields in two flows.\<close>

definition same_document :: "FlowBlock \<Rightarrow> FlowBlock \<Rightarrow> bool" where
  "same_document b c \<longleftrightarrow> py_eq (block_document b) (block_document c)"

lemma document_differs_iff:
  assumes "unique_ids f" "unique_ids g" "b \<in> flow_blocks f" "c \<in> flow_blocks g" "block_id c = block_id b"
  shows "document_differs (block_documents f) (block_documents g) (block_id b) \<longleftrightarrow> \<not> same_document b c"
  using map_of_block_documents [OF assms(1,3)] map_of_block_documents [OF assms(2,4)] assms(5)
  by (simp add: document_differs_def same_document_def)

lemma json_wf_block_document: "json_wf (block_document b)"
  by (cases b) (auto simp: block_document_def own_fields_def CHILD_FIELDS_def json_of_string_option_def
      json_nat_def list_all_iff split: option.splits)

lemma changed_ids:
  assumes "unique_ids f" "unique_ids g"
  shows "{i \<in> block_id ` flow_blocks f. i \<in> block_id ` flow_blocks g \<and>
      document_differs (block_documents f) (block_documents g) i} =
    {block_id b |b c. b \<in> flow_blocks f \<and> c \<in> flow_blocks g \<and> block_id c = block_id b \<and> \<not> same_document b c}"
  (is "?L = ?R")
proof (rule set_eqI)
  note differs = document_differs_iff [OF assms]
  fix i
  show "i \<in> ?L \<longleftrightarrow> i \<in> ?R"
  proof
    assume "i \<in> ?L"
    then obtain b c where "i = block_id b" "b \<in> flow_blocks f" "c \<in> flow_blocks g" "block_id c = block_id b"
      "document_differs (block_documents f) (block_documents g) (block_id b)"
      by (smt (verit) imageE mem_Collect_eq)
    with differs [of b c] show "i \<in> ?R" by blast
  next
    assume "i \<in> ?R"
    then obtain b c where "i = block_id b" "b \<in> flow_blocks f" "c \<in> flow_blocks g" "block_id c = block_id b"
      "\<not> same_document b c"
      by auto
    with differs [of b c] show "i \<in> ?L" by (metis (mono_tags, lifting) image_eqI mem_Collect_eq)
  qed
qed

text \<open>
  For two flows whose block identifiers are unique, the comparison counts the identifiers that
  only the new flow has, those that only the old flow has, and those of the blocks that both have with
  different own fields; the list of changes has one entry per counted block, up to 256.
\<close>

theorem diff_flows_counts:
  assumes "unique_ids f" "unique_ids g"
  shows "added (diff_flows (Some f) g) = card (block_id ` flow_blocks g - block_id ` flow_blocks f) \<and>
    removed (diff_flows (Some f) g) = card (block_id ` flow_blocks f - block_id ` flow_blocks g) \<and>
    changed (diff_flows (Some f) g) =
      card {block_id b |b c. b \<in> flow_blocks f \<and> c \<in> flow_blocks g \<and> block_id c = block_id b \<and> \<not> same_document b c} \<and>
    length (changes (diff_flows (Some f) g)) =
      min 256 (added (diff_flows (Some f) g) + removed (diff_flows (Some f) g) + changed (diff_flows (Some f) g))"
proof -
  have minus: "{i \<in> A. i \<notin> B} = A - B" for A B :: "string set" by auto
  show ?thesis
    by (simp add: diff_flows_def Let_def keys_block_documents minus changed_ids [OF assms] min.commute)
qed

lemma accepted_unique: "tree_accepted notice checks sizes limit r \<Longrightarrow> flow_root f = Some r \<Longrightarrow> unique_ids f"
  by (simp add: tree_accepted_def unique_ids_def flow_blocks_def distinct_map)

lemma demo_unique: "unique_ids (flow demo_document)" "unique_ids (flow demo_plain)"
  using demo_accepted_v4 demo_accepted_v2 unfolding accepted_v4 accepted_v2 by (auto intro: accepted_unique)

theorem diff_flows_counts_witness:
  "added (diff_flows (Some (flow demo_plain)) (flow demo_document)) =
     card (block_id ` flow_blocks (flow demo_document) - block_id ` flow_blocks (flow demo_plain))"
  using diff_flows_counts [OF demo_unique(2,1)] by simp

text \<open>
  A flow compared with itself shows no change, whatever its identifiers, and a first publication
  shows every block of the flow as added.
\<close>

theorem diff_flows_self:
  "diff_flows (Some f) f = \<lparr>added = 0, removed = 0, changed = 0, changes = []\<rparr> \<and>
   added (diff_flows None f) = card (block_id ` flow_blocks f) \<and>
   removed (diff_flows None f) = 0 \<and> changed (diff_flows None f) = 0"
proof -
  have wf: "\<forall>v\<in>ran (map_of (block_documents f)). json_wf (snd v)"
  proof -
    have "\<forall>v\<in>ran (map_of d). json_wf (snd v) \<Longrightarrow> \<forall>v\<in>ran (map_of (fold put_document xs d)). json_wf (snd v)" for d xs
    proof (induction xs arbitrary: d)
      case (Cons x xs)
      have "\<forall>v\<in>ran (map_of (put_document x d)). json_wf (snd v)"
        using Cons.prems by (auto simp: map_of_put_document ran_def json_wf_block_document split: if_splits)
      with Cons.IH show ?case by simp
    qed simp
    from this [of "[]"] show ?thesis by (simp add: block_documents_def)
  qed
  have "\<not> document_differs (block_documents f) (block_documents f) i" for i
  proof (cases "map_of (block_documents f) i")
    case (Some v)
    then have "json_wf (snd v)" using wf by (auto dest: ranI)
    with Some show ?thesis by (cases v) (simp add: document_differs_def py_eq_refl)
  qed (simp add: document_differs_def)
  then show ?thesis by (simp add: diff_flows_def Let_def keys_block_documents)
qed

end
