(* ===== verification/Revision_Diff.thy ===== *)
theory Revision_Diff
  imports Flow_Diff
begin

text \<open>
  The comparison of a draft with the manifest of the active revision
  (\<^verbatim>\<open>src/server/app/revision_diff.py\<close>): the changes of the caller policy, the schedules and
  the recording behaviour that the dashboard lists, and whether the publication needs an explicit
  confirmation because it routes more callers to the IVR.

  The base manifest is a decoded JSON value of any shape; every \<^verbatim>\<open>isinstance\<close> test of the code
  is a case distinction. Two characters of the messages, the bullet and the arrow, lie outside the
  character type; they are written as their UTF-8 bytes.
\<close>

section \<open>Formatting\<close>

definition ARROW :: string where
  "ARROW = CHR '' '' # [CHR 0xE2, CHR 0x86, CHR 0x92] @ '' ''"

definition BULLETS :: string where
  "BULLETS = concat (replicate 4 [CHR 0xE2, CHR 0x80, CHR 0xA2])"

text \<open>\<^verbatim>\<open>repr\<close> of a string: single quotes unless the string has one and no double quote.\<close>

definition printable :: "nat \<Rightarrow> bool" where
  "printable n \<longleftrightarrow> 32 \<le> n \<and> n \<le> 126 \<or> 161 \<le> n \<and> n \<noteq> 173"

definition py_escape :: "char \<Rightarrow> char \<Rightarrow> string" where
  "py_escape quote c =
     (let n = of_char c :: nat in
      if c = json_backslash \<or> c = quote then [json_backslash, c]
      else if n = 10 then [json_backslash, CHR ''n'']
      else if n = 13 then [json_backslash, CHR ''r'']
      else if n = 9 then [json_backslash, CHR ''t'']
      else if printable n then [c]
      else [json_backslash, CHR ''x'', hex_digit (n div 16), hex_digit (n mod 16)])"

definition repr_string :: "string \<Rightarrow> string" where
  "repr_string s =
     (let quote = (if CHR 0x27 \<in> set s \<and> CHR 0x22 \<notin> set s then CHR 0x22 else CHR 0x27) in
      quote # concat (map (py_escape quote) s) @ [quote])"

fun py_repr :: "json \<Rightarrow> string" where
  "py_repr JNull = ''None''"
| "py_repr (JBool b) = (if b then ''True'' else ''False'')"
| "py_repr (JInt i) = str_int i"
| "py_repr (JString s) = repr_string s"
| "py_repr (JList xs) = ''['' @ join '', '' (map py_repr xs) @ '']''"
| "py_repr (JObject kvs) =
     ''{'' @ join '', '' (map (\<lambda>(k, t). repr_string k @ '': '' @ t) (map (\<lambda>(k, x). (k, py_repr x)) kvs)) @ ''}''"

definition py_str :: "json \<Rightarrow> string" where
  "py_str v = (case v of JString s \<Rightarrow> s | _ \<Rightarrow> py_repr v)"

text \<open>\<^verbatim>\<open>str.title\<close> on the letters of ASCII.\<close>

definition is_alpha :: "char \<Rightarrow> bool" where
  "is_alpha c \<longleftrightarrow> (CHR ''a'' \<le> c \<and> c \<le> CHR ''z'') \<or> (CHR ''A'' \<le> c \<and> c \<le> CHR ''Z'')"

definition upper_char :: "char \<Rightarrow> char" where
  "upper_char c = (if CHR ''a'' \<le> c \<and> c \<le> CHR ''z'' then char_of (of_char c - 32 :: nat) else c)"

definition lower_char :: "char \<Rightarrow> char" where
  "lower_char c = (if CHR ''A'' \<le> c \<and> c \<le> CHR ''Z'' then char_of (of_char c + 32 :: nat) else c)"

fun title_from :: "bool \<Rightarrow> string \<Rightarrow> string" where
  "title_from inside [] = []"
| "title_from inside (c # cs) = (if inside then lower_char c else upper_char c) # title_from (is_alpha c) cs"

definition POLICY_MODE_LABELS :: "(string \<times> string) list" where
  "POLICY_MODE_LABELS =
     [(''IVR_DISABLED'', ''IVR disabled''), (''ALLOWLIST_ONLY'', ''Allowlist only''), (''ACCEPT_ALL'', ''Accept all''),
      (''ACCEPT_ALL_EXCEPT_BLOCKLIST'', ''All except exclusion list'')]"

definition BROAD_POLICY_MODES :: "string list" where
  "BROAD_POLICY_MODES = [''ACCEPT_ALL'', ''ACCEPT_ALL_EXCEPT_BLOCKLIST'']"

definition policy_mode_label :: "json \<Rightarrow> string" where
  "policy_mode_label v =
     (case map_of POLICY_MODE_LABELS (py_str v) of
        Some label \<Rightarrow> label
      | None \<Rightarrow> title_from False (map (\<lambda>c. if c = CHR ''_'' then CHR '' '' else c) (py_str v)))"

text \<open>\<^verbatim>\<open>str.isdigit\<close> also holds of the three superscript digits of Latin-1.\<close>

definition py_isdigit :: "char \<Rightarrow> bool" where
  "py_isdigit c \<longleftrightarrow> is_digit c \<or> (of_char c :: nat) \<in> {178, 179, 185}"

definition masked_number :: "string \<Rightarrow> string" where
  "masked_number v =
     (let digits = filter py_isdigit v in
      if digits \<noteq> [] then BULLETS @ drop (length digits - 4) digits else ''number unavailable'')"

section \<open>The caller policy\<close>

text \<open>\<^verbatim>\<open>_entry_map\<close>: entries of the wrong shape are skipped, a later number replaces an earlier one.\<close>

definition entry_pair :: "json \<Rightarrow> (string \<times> string) option" where
  "entry_pair entry =
     (case entry of
        JObject kvs \<Rightarrow>
          (case (json_get kvs ''e164'', json_get kvs ''label'') of
            (JString number, JString label) \<Rightarrow> Some (number, label)
          | _ \<Rightarrow> None)
      | _ \<Rightarrow> None)"

definition entry_map :: "json \<Rightarrow> (string \<times> string) list" where
  "entry_map items =
     (case items of
        JList xs \<Rightarrow> fold (\<lambda>(number, label). AList.update number label) (somes (map entry_pair xs)) []
      | _ \<Rightarrow> [])"

definition in_dict :: "(string \<times> 'a) list \<Rightarrow> string \<Rightarrow> bool" where
  "in_dict d k \<longleftrightarrow> map_of d k \<noteq> None"

definition caller_list_changes :: "json \<Rightarrow> json \<Rightarrow> string \<Rightarrow> string list" where
  "caller_list_changes before after list_label =
     (let previous = entry_map before; current = entry_map after in
      map (\<lambda>number. ''Added to '' @ list_label @ '': '' @ the (map_of current number) @ '' ('' @ masked_number number @ '')'')
        (sorted_set (filter (\<lambda>n. \<not> in_dict previous n) (map fst current))) @
      map (\<lambda>number. ''Removed from '' @ list_label @ '': '' @ the (map_of previous number) @ '' ('' @ masked_number number @ '')'')
        (sorted_set (filter (\<lambda>n. \<not> in_dict current n) (map fst previous))) @
      map (\<lambda>number. ''Renamed in '' @ list_label @ '': '' @ the (map_of previous number) @ ARROW @ the (map_of current number)
            @ '' ('' @ masked_number number @ '')'')
        (filter (\<lambda>n. map_of previous n \<noteq> map_of current n) (sorted_set (filter (in_dict current) (map fst previous)))))"

definition unknown_label :: "bool \<Rightarrow> string" where
  "unknown_label routed = (if routed then ''IVR'' else ''stock dialer'')"

text \<open>The truth value of a decoded JSON value.\<close>

fun py_truthy :: "json \<Rightarrow> bool" where
  "py_truthy JNull = False"
| "py_truthy (JBool b) = b"
| "py_truthy (JInt i) = (i \<noteq> 0)"
| "py_truthy (JString s) = (s \<noteq> [])"
| "py_truthy (JList xs) = (xs \<noteq> [])"
| "py_truthy (JObject kvs) = (kvs \<noteq> [])"

definition previous_unknown :: "(string \<times> json) list \<Rightarrow> json" where
  "previous_unknown previous =
     (case map_of previous ''route_unknown_callers'' of None \<Rightarrow> JBool False | Some v \<Rightarrow> v)"

definition caller_policy_diff :: "json \<Rightarrow> CallerPolicy \<Rightarrow> string list \<times> bool" where
  "caller_policy_diff base_policy policy =
     (let current_mode = JString (mode_value (mode policy));
          unknown = route_unknown_callers policy;
          current_allow = JList (map caller_entry_json (allowlist policy));
          current_block = JList (map caller_entry_json (blocklist policy));
          broad = mode_value (mode policy) \<in> set BROAD_POLICY_MODES in
      case base_policy of
        JObject previous \<Rightarrow>
          ((if \<not> py_eq (json_get previous ''mode'') current_mode
            then [''Policy mode: '' @ policy_mode_label (json_get previous ''mode'') @ ARROW @ policy_mode_label current_mode]
            else []) @
           (if \<not> py_eq (previous_unknown previous) (JBool unknown)
            then [''Hidden or unknown callers: '' @ unknown_label (py_truthy (previous_unknown previous)) @ ARROW @
                  unknown_label unknown]
            else []) @
           caller_list_changes (json_get previous ''allowlist'') current_allow ''allowlist'' @
           caller_list_changes (json_get previous ''blocklist'') current_block ''exclusion list'',
           \<not> py_eq (json_get previous ''mode'') current_mode \<and> broad \<or>
           previous_unknown previous \<noteq> JBool True \<and> unknown)
      | _ \<Rightarrow>
          ([''Initial policy mode: '' @ policy_mode_label current_mode,
            (if unknown then ''Hidden or unknown callers: IVR'' else ''Hidden or unknown callers: stock dialer'')] @
           caller_list_changes (JList []) current_allow ''allowlist'' @
           caller_list_changes (JList []) current_block ''exclusion list'',
           broad \<or> unknown))"

section \<open>Schedules and recording behaviour\<close>

definition schedule_entry :: "json \<Rightarrow> (string \<times> (string \<times> json) list) option" where
  "schedule_entry item =
     (case item of
        JObject kvs \<Rightarrow> (case json_get kvs ''id'' of JString i \<Rightarrow> Some (i, kvs) | _ \<Rightarrow> None)
      | _ \<Rightarrow> None)"

definition schedule_table :: "json list \<Rightarrow> (string \<times> (string \<times> json) list) list" where
  "schedule_table items = fold (\<lambda>(i, kvs). AList.update i kvs) (somes (map schedule_entry items)) []"

definition item_name :: "(string \<times> (string \<times> json) list) list \<Rightarrow> string \<Rightarrow> json" where
  "item_name table i =
     (case map_of (the (map_of table i)) ''name'' of None \<Rightarrow> JString i | Some v \<Rightarrow> v)"

definition schedule_diff :: "json \<Rightarrow> Schedule list \<Rightarrow> string list" where
  "schedule_diff base_schedules ss =
     (let previous = schedule_table (case base_schedules of JList xs \<Rightarrow> xs | _ \<Rightarrow> []);
          current = schedule_table (map schedule_json ss) in
      map (\<lambda>i. ''Added schedule: '' @ py_str (item_name current i))
        (sorted_set (filter (\<lambda>i. \<not> in_dict previous i) (map fst current))) @
      map (\<lambda>i. ''Removed schedule: '' @ py_str (item_name previous i))
        (sorted_set (filter (\<lambda>i. \<not> in_dict current i) (map fst previous))) @
      map (\<lambda>i. ''Changed schedule: '' @
             (if py_eq (item_name previous i) (item_name current i) then py_str (item_name current i)
              else py_str (item_name previous i) @ ARROW @ py_str (item_name current i)))
        (filter (\<lambda>i. \<not> py_eq (JObject (the (map_of previous i))) (JObject (the (map_of current i))))
          (sorted_set (filter (in_dict current) (map fst previous)))))"

definition finish_key_label :: "json \<Rightarrow> string" where
  "finish_key_label v = (if v = JNull then ''disabled'' else py_str v)"

definition recording_behavior_diff :: "json \<Rightarrow> RecordingBehavior \<Rightarrow> string list" where
  "recording_behavior_diff base_behavior behavior =
     (let maximum = json_nat (maximum_duration_seconds behavior);
          key = json_of_string_option (finish_key behavior) in
      case base_behavior of
        JObject previous \<Rightarrow>
          (if \<not> py_eq (json_get previous ''maximum_duration_seconds'') maximum
           then [''Maximum recording duration: '' @ py_str (json_get previous ''maximum_duration_seconds'') @ ARROW @
                 py_str maximum @ '' seconds'']
           else []) @
          (if \<not> py_eq (json_get previous ''finish_key'') key
           then [''Recording finish key: '' @ finish_key_label (json_get previous ''finish_key'') @ ARROW @ finish_key_label key]
           else [])
      | _ \<Rightarrow>
          [''Initial maximum recording duration: '' @ py_str maximum @ '' seconds'',
           ''Initial recording finish key: '' @ finish_key_label key])"

record configuration_diff =
  caller_policy_changes :: "string list"
  schedule_changes :: "string list"
  recording_changes :: "string list"
  requires_policy_confirmation :: bool

text \<open>An absent base manifest and an empty one are the same.\<close>

definition revision_configuration_diff :: "(string \<times> json) list option \<Rightarrow> FlowDocumentV4 \<Rightarrow> configuration_diff" where
  "revision_configuration_diff base_manifest configuration =
     (let manifest = (case base_manifest of None \<Rightarrow> [] | Some kvs \<Rightarrow> kvs);
          policy = caller_policy_diff (json_get manifest ''caller_policy'') (caller_policy configuration) in
      \<lparr>caller_policy_changes = fst policy,
       schedule_changes = schedule_diff (json_get manifest ''schedules'') (schedules configuration),
       recording_changes =
         recording_behavior_diff (json_get manifest ''recording_behavior'') (recording_behavior configuration),
       requires_policy_confirmation = snd policy\<rparr>)"

section \<open>What the comparison shows\<close>

lemma map_of_fold_update:
  "map_of (fold (\<lambda>(k, v). AList.update k v) ps d) = map_of d ++ map_of (rev ps)"
  by (induction ps arbitrary: d) (auto simp: update_conv' fun_eq_iff map_add_def split: option.splits)

definition entry_pairs :: "CallerEntry list \<Rightarrow> (string \<times> string) list" where
  "entry_pairs es = map (\<lambda>e. (e164 e, entry_label e)) es"

lemma map_of_entry_map:
  assumes "distinct (map e164 es)"
  shows "map_of (entry_map (JList (map caller_entry_json es))) = map_of (entry_pairs es)"
proof -
  have "map entry_pair (map caller_entry_json es) = map Some (entry_pairs es)"
    by (simp add: entry_pair_def caller_entry_json_def json_get_def entry_pairs_def)
  then have "entry_map (JList (map caller_entry_json es)) = fold (\<lambda>(k, v). AList.update k v) (entry_pairs es) []"
    by (simp add: entry_map_def somes_map_Some)
  moreover have "distinct (map fst (entry_pairs es))" using assms by (simp add: entry_pairs_def comp_def)
  ultimately show ?thesis by (simp add: map_of_fold_update map_of_rev_distinct)
qed

lemma set_keys: "set (map fst d) = {k. in_dict d k}"
  by (auto simp: in_dict_def map_of_eq_None_iff)

lemma caller_list_changes_Nil:
  "caller_list_changes before after l = [] \<longleftrightarrow> map_of (entry_map before) = map_of (entry_map after)"
proof -
  let ?B = "entry_map before" and ?A = "entry_map after"
  have "caller_list_changes before after l = [] \<longleftrightarrow>
      (\<forall>k\<in>set (map fst ?A). in_dict ?B k) \<and> (\<forall>k\<in>set (map fst ?B). in_dict ?A k) \<and>
      (\<forall>k\<in>set (map fst ?B). in_dict ?A k \<longrightarrow> map_of ?B k = map_of ?A k)"
    by (simp add: caller_list_changes_def Let_def filter_empty_conv) blast
  also have "\<dots> \<longleftrightarrow> (\<forall>k. map_of ?B k = map_of ?A k)"
    unfolding set_keys in_dict_def mem_Collect_eq Ball_def by metis
  finally show ?thesis by (simp add: fun_eq_iff)
qed

lemma entry_pairs_inject:
  assumes "distinct (map e164 es)" "distinct (map e164 es')"
  shows "map_of (entry_pairs es) = map_of (entry_pairs es') \<longleftrightarrow> set es = set es'"
proof -
  have "inj (\<lambda>e :: CallerEntry. (e164 e, entry_label e))" by (auto intro!: injI CallerEntry.equality)
  moreover have "distinct (map fst (entry_pairs es))" "distinct (map fst (entry_pairs es'))"
    using assms by (simp_all add: entry_pairs_def comp_def)
  ultimately show ?thesis by (simp add: map_of_inject_set entry_pairs_def inj_image_eq_iff)
qed

lemma caller_list_changes_entries:
  "distinct (map e164 es) \<Longrightarrow> distinct (map e164 es') \<Longrightarrow>
   caller_list_changes (JList (map caller_entry_json es)) (JList (map caller_entry_json es')) l = [] \<longleftrightarrow> set es = set es'"
  by (simp add: caller_list_changes_Nil map_of_entry_map entry_pairs_inject)

text \<open>
  Against the caller policy of the active revision, the comparison of a valid policy lists no
  change exactly when both policies have the same mode, the same treatment of unknown callers and the
  same entries, and it asks for a confirmation exactly when the mode changes to one that accepts
  callers by default or unknown callers are newly routed to the IVR.
\<close>

theorem caller_policy_diff_spec:
  assumes "CallerPolicy_valid p" "CallerPolicy_valid q"
  shows "(fst (caller_policy_diff (caller_policy_json p) q) = [] \<longleftrightarrow>
       mode p = mode q \<and> route_unknown_callers p = route_unknown_callers q \<and>
       set (allowlist p) = set (allowlist q) \<and> set (blocklist p) = set (blocklist q)) \<and>
    (snd (caller_policy_diff (caller_policy_json p) q) \<longleftrightarrow>
       mode p \<noteq> mode q \<and> mode q \<in> {ACCEPT_ALL, ACCEPT_ALL_EXCEPT_BLOCKLIST} \<or>
       \<not> route_unknown_callers p \<and> route_unknown_callers q)"
proof -
  have "mode_value m \<in> set BROAD_POLICY_MODES \<longleftrightarrow> m \<in> {ACCEPT_ALL, ACCEPT_ALL_EXCEPT_BLOCKLIST}" for m
    by (cases m) (auto simp: BROAD_POLICY_MODES_def)
  moreover have "distinct (map e164 (allowlist p))" "distinct (map e164 (allowlist q))"
    "distinct (map e164 (blocklist p))" "distinct (map e164 (blocklist q))"
    using assms by (auto simp: CallerPolicy_valid_def)
  ultimately show ?thesis
    by (simp add: caller_policy_diff_def caller_policy_json_def json_get_def previous_unknown_def Let_def
        caller_list_changes_entries)
qed

theorem caller_policy_diff_spec_witness:
  "snd (caller_policy_diff (caller_policy_json default_CallerPolicy) (default_CallerPolicy\<lparr>mode := ACCEPT_ALL\<rparr>))"
  using caller_policy_diff_spec [of default_CallerPolicy "default_CallerPolicy\<lparr>mode := ACCEPT_ALL\<rparr>"]
  by (simp add: default_CallerPolicy_def CallerPolicy_valid_def)

text \<open>The schedules of a document, by identifier.\<close>

definition schedule_pairs :: "Schedule list \<Rightarrow> (string \<times> (string \<times> json) list) list" where
  "schedule_pairs ss = map (\<lambda>s. (schedule_id s, fields_of (schedule_json s))) ss"

lemma schedule_table_schedules:
  assumes "distinct (map schedule_id ss)"
  shows "map_of (schedule_table (map schedule_json ss)) = map_of (schedule_pairs ss)"
proof -
  have "map schedule_entry (map schedule_json ss) = map Some (schedule_pairs ss)"
    by (simp add: schedule_entry_def schedule_json_def json_get_def schedule_pairs_def)
  then have "schedule_table (map schedule_json ss) = fold (\<lambda>(k, v). AList.update k v) (schedule_pairs ss) []"
    by (simp add: schedule_table_def somes_map_Some)
  moreover have "distinct (map fst (schedule_pairs ss))" using assms by (simp add: schedule_pairs_def comp_def)
  ultimately show ?thesis by (simp add: map_of_fold_update map_of_rev_distinct)
qed

lemma json_wf_schedule: "json_wf (schedule_json s)"
  by (auto simp: schedule_json_def list_all_iff weekly_window_json_def schedule_exception_json_def json_nat_def)

lemma schedule_diff_same:
  assumes "distinct (map schedule_id ss)"
  shows "schedule_diff (JList (map schedule_json ss)) ss = []"
proof -
  let ?T = "schedule_table (map schedule_json ss)"
  have "py_eq (JObject (the (map_of ?T i))) (JObject (the (map_of ?T i)))" if "in_dict ?T i" for i
  proof -
    from that obtain kvs where kvs: "map_of ?T i = Some kvs" by (auto simp: in_dict_def)
    then obtain s where "s \<in> set ss" "kvs = fields_of (schedule_json s)"
      unfolding schedule_table_schedules [OF assms] by (auto simp: schedule_pairs_def dest!: map_of_SomeD)
    with kvs have "map_of ?T i = Some (fields_of (schedule_json s))" by simp
    moreover have "JObject (fields_of (schedule_json s)) = schedule_json s" by (simp add: schedule_json_def)
    ultimately show ?thesis using json_wf_schedule [of s] by (simp add: py_eq_refl del: py_eq.simps)
  qed
  moreover have "\<forall>i\<in>set (map fst ?T). in_dict ?T i" using set_keys [of ?T] by auto
  ultimately show ?thesis
    by (simp add: schedule_diff_def Let_def filter_empty_conv del: py_eq.simps)
qed

text \<open>
  A valid draft compared with a manifest that carries its own policy, schedules and recording
  behaviour shows no change and asks for no confirmation.
\<close>

theorem revision_diff_same:
  assumes "CallerPolicy_valid (caller_policy d)" "distinct (map schedule_id (schedules d))"
    and "json_get manifest ''caller_policy'' = caller_policy_json (caller_policy d)"
      "json_get manifest ''schedules'' = JList (map schedule_json (schedules d))"
      "json_get manifest ''recording_behavior'' = recording_behavior_json (recording_behavior d)"
  shows "revision_configuration_diff (Some manifest) d =
    \<lparr>caller_policy_changes = [], schedule_changes = [], recording_changes = [], requires_policy_confirmation = False\<rparr>"
proof -
  have lists: "caller_list_changes x x l = []" for x l by (simp add: caller_list_changes_Nil)
  have "caller_policy_diff (caller_policy_json p) p = ([], False)" for p
    by (auto simp: caller_policy_diff_def caller_policy_json_def json_get_def previous_unknown_def Let_def lists)
  moreover have "recording_behavior_diff (recording_behavior_json r) r = []" for r
    by (simp add: recording_behavior_diff_def recording_behavior_json_def json_get_def json_nat_def
        json_of_string_option_def split: option.splits)
  ultimately show ?thesis
    using assms by (simp add: revision_configuration_diff_def Let_def schedule_diff_same)
qed

theorem revision_diff_same_witness:
  "\<not> requires_policy_confirmation (revision_configuration_diff
     (Some [(''caller_policy'', caller_policy_json (caller_policy demo_document)),
            (''schedules'', JList (map schedule_json (schedules demo_document))),
            (''recording_behavior'', recording_behavior_json (recording_behavior demo_document))]) demo_document)"
  by (subst revision_diff_same)
    (simp_all add: json_get_def demo_document_def default_CallerPolicy_def CallerPolicy_valid_def)

end
