(* ===== verification/Publishing.thy ===== *)
theory Publishing
  imports Revision_Store Revision_Diff Flow_Simulation
begin

text \<open>
  The administration interface of release 4 (\<^verbatim>\<open>src/server/app/v4_api.py\<close>): reading and saving
  the draft, validating, simulating and comparing it, publishing it as a revision, and returning to an
  older revision. A handler takes the state of the database and returns its result with the committed
  state, or the exception that ends the request; in the latter case nothing is committed.
\<close>

section \<open>Validation before publication\<close>

definition prompt_sizes_of :: "Prompt list \<Rightarrow> string \<Rightarrow> nat option" where
  "prompt_sizes_of ps = map_of (rev (map (\<lambda>p. (prompt_id p, size_bytes p)) ps))"

text \<open>Only \<^verbatim>\<open>TypeError\<close> and \<^verbatim>\<open>ValueError\<close> of the compiler become messages.\<close>

fun compile_message :: "'a result \<Rightarrow> service_error + string list" where
  "compile_message (Inr r) = Inr []"
| "compile_message (Inl (ValueError text)) = Inr [text]"
| "compile_message (Inl (TypeError text)) = Inr [text]"
| "compile_message (Inl e) = Inl (Raised e)"

definition validation_errors :: "app_state \<Rightarrow> database \<Rightarrow> FlowDocumentV4 \<Rightarrow> service_error + string list" where
  "validation_errors app db configuration =
     (let ps = prompts_for_configuration_v4 db configuration;
          es = validate_configuration_v4 (known_zone app) configuration (map prompt_id ps) (prompt_sizes_of ps)
            (revision_asset_limit_bytes app) in
      bind_result
        (if es = []
         then compile_message (compile_flow_v4 (sha256_hex app) (flow configuration) (recording_behavior configuration)
                (prompt_durations ps))
         else Inr es)
        (\<lambda>errors. Inr (dict_fromkeys errors)))"

section \<open>Device capabilities\<close>

text \<open>
  The children that \<^verbatim>\<open>_uses_prompt_barge_in\<close> pushes on its stack, in the order of the pushes;
  the top of the stack is the head of the list.
\<close>

fun barge_children :: "FlowBlock \<Rightarrow> FlowBlock list" where
  "barge_children (PlayPromptBlockV2 i p n) = somes [n]"
| "barge_children (CollectDigitBlockV2 i p g m a r branches t v l) = somes [t, v, l] @ somes (map branch_root branches)"
| "barge_children (ScheduleBranchBlockV2 i s x y z) = somes [x, y, z]"
| "barge_children (ReturnToMenuBlockV2 i) = []"
| "barge_children (EndCallBlockV2 i) = []"
| "barge_children (RecordMessageBlockV3 i n u) = somes [n, u]"
| "barge_children (ExternalCallBlockV4 i ph a n c f) = somes [n, c, f]"

lemma mset_barge_children: "mset (barge_children b) = mset (owned b)"
  by (cases b) (simp_all add: owned_def)

lemma weight_barge_children: "sum_list (map weight (barge_children b)) < weight b"
proof -
  have "sum_mset (image_mset weight (mset (barge_children b))) = sum_mset (image_mset weight (mset (owned b)))"
    by (simp add: mset_barge_children)
  then show ?thesis using weight_owned [of b] by (simp add: sum_mset_sum_list flip: mset_map)
qed

function barge_loop :: "FlowBlock list \<Rightarrow> bool" where
  "barge_loop [] = False"
| "barge_loop (block # pending) =
     (if allow_prompt_barge_in block then True else barge_loop (rev (barge_children block) @ pending))"
  by pat_completeness auto
termination
proof (relation "measure (\<lambda>p. sum_list (map weight p))")
  fix block :: FlowBlock and pending
  show "(rev (barge_children block) @ pending, block # pending) \<in> measure (\<lambda>p. sum_list (map weight p))"
    using weight_barge_children [of block] by (simp add: rev_map [symmetric])
qed simp

definition uses_prompt_barge_in :: "FlowDocumentV4 \<Rightarrow> bool" where
  "uses_prompt_barge_in configuration =
     barge_loop (case flow_root (flow configuration) of None \<Rightarrow> [] | Some root \<Rightarrow> [root])"

text \<open>The membership test \<^verbatim>\<open>n in value\<close> on a decoded JSON value.\<close>

fun json_contains :: "int \<Rightarrow> json \<Rightarrow> bool result" where
  "json_contains n (JList xs) = Inr (list_ex (\<lambda>x. py_eq x (JInt n)) xs)"
| "json_contains n (JObject kvs) = Inr False"
| "json_contains n (JString s) = Inl (TypeError ''in <string> requires string as left operand, not int'')"
| "json_contains n v = Inl (TypeError ''argument is not iterable'')"

text \<open>The test \<^verbatim>\<open>value in {1, 2}\<close>, which hashes the value.\<close>

fun in_protocols :: "json \<Rightarrow> bool result" where
  "in_protocols (JList xs) = Inl (TypeError ''unhashable type: list'')"
| "in_protocols (JObject kvs) = Inl (TypeError ''unhashable type: dict'')"
| "in_protocols v = Inr (py_eq v (JInt 1) \<or> py_eq v (JInt 2))"

definition runtime_versions :: "Device \<Rightarrow> json" where
  "runtime_versions d =
     (case map_of (device_status d) ''runtime_versions'' of None \<Rightarrow> JList [JInt 1, JInt 2] | Some v \<Rightarrow> v)"

definition active_devices :: "database \<Rightarrow> Device list" where
  "active_devices db = filter (\<lambda>d. \<not> revoked d) (devices db)"

definition compatible_v4 :: "bool \<Rightarrow> Device \<Rightarrow> bool result" where
  "compatible_v4 prompt_barge_in_required d =
     bind_result (json_contains 4 (runtime_versions d)) (\<lambda>runtime.
       if \<not> (runtime \<and> json_get (device_status d) ''external_call_control_capable'' = JBool True \<and>
             json_get (device_status d) ''conversation_recording_capable'' = JBool True)
       then Inr False
       else bind_result (in_protocols (json_get (device_status d) ''call_control_protocol_version'')) (\<lambda>protocol.
         Inr (protocol \<and> (\<not> prompt_barge_in_required \<or>
           json_get (device_status d) ''prompt_barge_in_capable'' = JBool True))))"

text \<open>The display names of the devices for which a test fails, in order.\<close>

fun incompatible_devices :: "(Device \<Rightarrow> bool result) \<Rightarrow> Device list \<Rightarrow> service_error + string list" where
  "incompatible_devices compatible [] = Inr []"
| "incompatible_devices compatible (d # ds) =
     (case compatible d of
        Inl e \<Rightarrow> Inl (Raised e)
      | Inr ok \<Rightarrow> bind_result (incompatible_devices compatible ds)
          (\<lambda>names. Inr (if ok then names else display_name d # names)))"

definition http :: "nat \<Rightarrow> string \<Rightarrow> service_error" where
  "http code detail = HTTPException code (JString detail)"

definition require_v4_device_capabilities :: "database \<Rightarrow> FlowDocumentV4 \<Rightarrow> service_error + unit" where
  "require_v4_device_capabilities db configuration =
     (let needed = uses_prompt_barge_in configuration in
      if active_devices db = []
      then Inl (http 409 ''V4 cannot be published until at least one active device reports capability status.'')
      else bind_result (incompatible_devices (compatible_v4 needed) (active_devices db)) (\<lambda>incompatible.
        if incompatible = [] then Inr ()
        else Inl (http 409
          (''V4 cannot be assigned until every active device reports runtime V4, '' @
           ''external-call control, conversation recording, call-control protocol 1'' @
           (if needed then '', and prompt interruption'' else []) @ '': '' @ join '', '' incompatible))))"

fun is_record_op :: "operation \<Rightarrow> bool" where
  "is_record_op (RecordMessageOp a b c d) = True"
| "is_record_op _ = False"

definition manifest_instructions :: "manifest \<Rightarrow> instruction list" where
  "manifest_instructions m =
     (case manifest_compiled m of None \<Rightarrow> [] | Some c \<Rightarrow> instructions (compiled_program c))"

definition compatible_immutable :: "nat \<Rightarrow> bool \<Rightarrow> Device \<Rightarrow> bool result" where
  "compatible_immutable schema recording_required d =
     bind_result (json_contains (int schema) (runtime_versions d)) (\<lambda>runtime.
       Inr (runtime \<and> \<not> (recording_required \<and> json_get (device_status d) ''recording_capable'' \<noteq> JBool True)))"

definition require_immutable_revision_capabilities :: "database \<Rightarrow> Revision \<Rightarrow> manifest \<Rightarrow> service_error + unit" where
  "require_immutable_revision_capabilities db revision m =
     (let recording_required = revision_schema revision = 3 \<and>
            list_ex (\<lambda>instruction. is_record_op (op instruction)) (manifest_instructions m) in
      bind_result
        (incompatible_devices (compatible_immutable (revision_schema revision) recording_required) (active_devices db))
        (\<lambda>incompatible.
          if incompatible = [] then Inr ()
          else Inl (http 409
            (''Rollback revision is incompatible with active devices: '' @ join '', '' incompatible))))"

section \<open>The draft\<close>

definition clone_audited :: "string \<Rightarrow> database \<Rightarrow> FlowDocumentV4 served" where
  "clone_audited actor db =
     bind_result (initialize_v4_draft actor db) (\<lambda>(cloned, db').
       Inr (cloned, audit actor ''draft.v4_cloned'' ''configuration''
              [(''edit_version'', json_nat (edit_version cloned))] db'))"

definition get_draft_v4 :: "string \<Rightarrow> database \<Rightarrow> FlowDocumentV4 served" where
  "get_draft_v4 actor db =
     (case drafts db V4_DRAFT_ID of
        Some draft \<Rightarrow>
          (case load_draft_v4 db of
            Inr configuration \<Rightarrow> Inr (configuration, db)
          | Inl (RuntimeError text) \<Rightarrow> clone_audited actor db
          | Inl e \<Rightarrow> Inl e)
      | None \<Rightarrow> clone_audited actor db)"

definition put_draft_v4 :: "FlowDocumentV4 \<Rightarrow> string \<Rightarrow> database \<Rightarrow> FlowDocumentV4 served" where
  "put_draft_v4 configuration actor db =
     (case store_draft_v4 configuration actor db of
        Inl (DraftConflictError text) \<Rightarrow> Inl (http 409 text)
      | Inl e \<Rightarrow> Inl e
      | Inr (saved, db') \<Rightarrow>
          Inr (saved, audit actor ''draft.v4_updated'' ''configuration''
                 [(''edit_version'', json_nat (edit_version saved))] db'))"

definition validate_draft_v4 ::
  "app_state \<Rightarrow> FlowDocumentV4 option \<Rightarrow> database \<Rightarrow> service_error + bool \<times> string list" where
  "validate_draft_v4 app configuration db =
     bind_result (case configuration of Some c \<Rightarrow> Inr c | None \<Rightarrow> load_draft_v4 db) (\<lambda>candidate.
     bind_result (validation_errors app db candidate) (\<lambda>es. Inr (es = [], es)))"

definition simulate_draft_v4 ::
  "app_state \<Rightarrow> FlowDocumentV4 \<Rightarrow> string list \<Rightarrow> database \<Rightarrow> service_error + simulation_result" where
  "simulate_draft_v4 app configuration events db =
     bind_result (validation_errors app db configuration) (\<lambda>es.
       Inr (if es \<noteq> []
            then \<lparr>status = ''invalid'', trace = [], message = join '' '' es, awaiting_block_id = None, available = None\<rparr>
            else simulate_v4 (flow configuration) events))"

definition latest_revision :: "database \<Rightarrow> Revision option" where
  "latest_revision db = (if revisions db = [] then None else Some (last (revisions db)))"

definition find_revision :: "nat \<Rightarrow> database \<Rightarrow> Revision option" where
  "find_revision rid db = find (\<lambda>r. revision_id r = rid) (revisions db)"

record FlowDiffResult =
  base_revision_id :: "nat option"
  legacy_base :: bool
  configuration_changes :: configuration_diff
  flow_changes :: flow_diff

definition tree_of :: "manifest_flow \<Rightarrow> service_error + FlowDefinitionV2" where
  "tree_of f = (case f of TreeFlow t \<Rightarrow> Inr t | GraphFlow g \<Rightarrow> Inl ValidationError)"

definition diff_draft_v4 :: "FlowDocumentV4 \<Rightarrow> nat option \<Rightarrow> database \<Rightarrow> service_error + FlowDiffResult" where
  "diff_draft_v4 configuration requested db =
     (let base = (case requested of
            Some rid \<Rightarrow> if rid \<noteq> 0 then find_revision rid db else latest_revision db
          | None \<Rightarrow> latest_revision db) in
      if requested \<noteq> None \<and> base = None then Inl (http 404 ''Base revision not found'')
      else
        bind_result
          (case base of
            None \<Rightarrow> Inr None
          | Some r \<Rightarrow>
              if revision_schema r = 4 then bind_result (tree_of (manifest_flow (load_manifest r))) (\<lambda>t. Inr (Some t))
              else Inr None)
          (\<lambda>base_flow.
            Inr \<lparr>base_revision_id = map_option revision_id base,
                 legacy_base = (case base of None \<Rightarrow> False | Some r \<Rightarrow> revision_schema r \<noteq> 4),
                 configuration_changes =
                   revision_configuration_diff (map_option (manifest_fields \<circ> load_manifest) base) configuration,
                 flow_changes = diff_flows base_flow (flow configuration)\<rparr>))"

section \<open>Publication and rollback\<close>

definition assign_devices :: "nat \<Rightarrow> database \<Rightarrow> database" where
  "assign_devices rid db =
     db\<lparr>devices := map (\<lambda>d. if revoked d then d else d\<lparr>desired_revision_id := Some rid\<rparr>) (devices db)\<rparr>"

record PublishDraftRequestV4 =
  reviewed_edit_version :: nat
  reviewed_base_revision_id :: "nat option"

definition reviewed :: "PublishDraftRequestV4 option \<Rightarrow> FlowDocumentV4 \<Rightarrow> database \<Rightarrow> service_error + unit" where
  "reviewed body configuration db =
     (case body of
        None \<Rightarrow> Inr ()
      | Some b \<Rightarrow>
          if edit_version configuration \<noteq> reviewed_edit_version b
          then Inl (http 409 ''The draft changed after review. Review the current draft before publishing.'')
          else if map_option revision_id (latest_revision db) \<noteq> reviewed_base_revision_id b
          then Inl (http 409 ''The published revision changed after review. Review the draft again.'')
          else Inr ())"

definition no_errors :: "nat \<Rightarrow> string list \<Rightarrow> service_error + unit" where
  "no_errors code es = (if es = [] then Inr () else Inl (HTTPException code (JList (map JString es))))"

definition publish_draft_v4 ::
  "app_state \<Rightarrow> PublishDraftRequestV4 option \<Rightarrow> string \<Rightarrow> string \<Rightarrow> database \<Rightarrow> Revision served" where
  "publish_draft_v4 app body actor now db =
     bind_result (load_draft_v4 db) (\<lambda>configuration.
     bind_result (reviewed body configuration db) (\<lambda>_.
     bind_result (validation_errors app db configuration) (\<lambda>es.
     bind_result (no_errors 422 es) (\<lambda>_.
     bind_result (require_v4_device_capabilities db configuration) (\<lambda>_.
     bind_result (create_revision_v4 app configuration (prompts_for_configuration_v4 db configuration) actor None now db)
       (\<lambda>(revision, db').
     Inr (revision, audit actor ''revision.v4_published'' (''revision:'' @ str_nat (revision_id revision)) []
            (assign_devices (revision_id revision) db'))))))))"

record RevisionDetail =
  detail_revision :: Revision
  detail_flow :: json
  legacy :: bool

definition revision_detail_v4 :: "nat \<Rightarrow> database \<Rightarrow> service_error + RevisionDetail" where
  "revision_detail_v4 rid db =
     (case find_revision rid db of
        None \<Rightarrow> Inl (http 404 ''Revision not found'')
      | Some revision \<Rightarrow>
          Inr \<lparr>detail_revision = revision, detail_flow = json_get (manifest_fields (load_manifest revision)) ''flow'',
               legacy = (revision_schema revision \<noteq> 4)\<rparr>)"

text \<open>The configuration that the manifest of a V4 revision describes, under the version of the draft.\<close>

definition restored :: "manifest \<Rightarrow> nat \<Rightarrow> service_error + FlowDocumentV4" where
  "restored m v =
     (case (manifest_recording m, manifest_flow m) of
        (Some r, TreeFlow f) \<Rightarrow>
          Inr \<lparr>edit_version = v, caller_policy = manifest_policy m, schedules = manifest_schedules m, flow = f,
               recording_behavior = r\<rparr>
      | (None, _) \<Rightarrow> Inl (Raised (KeyError ''recording_behavior''))
      | _ \<Rightarrow> Inl ValidationError)"

definition rollback_v4_revision :: "app_state \<Rightarrow> nat \<Rightarrow> string \<Rightarrow> string \<Rightarrow> database \<Rightarrow> Revision served" where
  "rollback_v4_revision app rid actor now db =
     (case find_revision rid db of
        None \<Rightarrow> Inl (http 404 ''Revision not found'')
      | Some source \<Rightarrow>
          if revision_schema source \<noteq> 4
          then Inl (http 409 ''Use activate-rollback for an immutable V1/V2/V3 revision.'')
          else
            bind_result (load_draft_v4 db) (\<lambda>current.
            bind_result (restored (load_manifest source) (edit_version current)) (\<lambda>configuration.
            bind_result (validation_errors app db configuration) (\<lambda>es.
            bind_result (no_errors 409 es) (\<lambda>_.
            bind_result (require_v4_device_capabilities db configuration) (\<lambda>_.
            bind_result (create_revision_v4 app configuration (prompts_for_configuration_v4 db configuration) actor
                (Some (revision_id source)) now db) (\<lambda>(revision, db1).
            bind_result (store_draft_v4 configuration actor db1) (\<lambda>(saved, db2).
            Inr (revision, audit actor ''revision.rollback_published'' (''revision:'' @ str_nat (revision_id revision))
                   [(''source_revision_id'', json_nat (revision_id source))]
                   (assign_devices (revision_id revision) db2)))))))))) "

definition activate_immutable_revision :: "nat \<Rightarrow> string \<Rightarrow> database \<Rightarrow> Revision served" where
  "activate_immutable_revision rid actor db =
     (case find_revision rid db of
        None \<Rightarrow> Inl (http 404 ''Revision not found'')
      | Some source \<Rightarrow>
          if revision_schema source \<notin> {1, 2, 3}
          then Inl (http 409 ''Only immutable V1/V2/V3 rollback uses this endpoint.'')
          else
            bind_result (require_immutable_revision_capabilities db source (load_manifest source)) (\<lambda>_.
            Inr (source, audit actor ''revision.legacy_rollback_activated'' (''revision:'' @ str_nat (revision_id source))
                   [(''schema_version'', json_nat (revision_schema source)),
                    (''affected_devices'', json_nat (length (active_devices db)))]
                   (assign_devices (revision_id source) db))))"

end
