(* ===== verification/Publishing_Laws.thy ===== *)
theory Publishing_Laws
  imports Publishing Session_Bound
begin

text \<open>
  What the requests of release 4 guarantee: every published revision was accepted by the
  validator, compiled within the session limit, signed, and given to all active devices that can run
  it, and a rollback restores the flow of the revision it names. The theory of all sequences of
  requests builds on these lemmas.
\<close>

section \<open>Validation\<close>

lemma compile_message_Nil: "compile_message r = Inr [] \<longleftrightarrow> (\<exists>c. r = Inr c)"
  by (cases r rule: compile_message.cases) auto

abbreviation validates :: "app_state \<Rightarrow> database \<Rightarrow> FlowDocumentV4 \<Rightarrow> bool" where
  "validates app db d \<equiv>
     validate_configuration_v4 (known_zone app) d (map prompt_id (prompts_for_configuration_v4 db d))
       (prompt_sizes_of (prompts_for_configuration_v4 db d)) (revision_asset_limit_bytes app) = []"

abbreviation compiled_by :: "app_state \<Rightarrow> database \<Rightarrow> FlowDocumentV4 \<Rightarrow> compiled_flow result" where
  "compiled_by app db d \<equiv>
     compile_flow_v4 (sha256_hex app) (flow d) (recording_behavior d) (prompt_durations (prompts_for_configuration_v4 db d))"

lemma validation_errors_Nil:
  "validation_errors app db d = Inr [] \<longleftrightarrow> validates app db d \<and> (\<exists>c. compiled_by app db d = Inr c)"
  by (auto simp: validation_errors_def Let_def bind_result_Inr compile_message_Nil)

text \<open>The compiler either succeeds on a validated configuration or reports the session limit.\<close>

lemma validated_compiles:
  assumes "validates app db d"
  shows "\<exists>root. flow_root (flow d) = Some root \<and>
    tree_accepted notice_v4
      (checks_v4 (map prompt_id (prompts_for_configuration_v4 db d)) (map schedule_id (schedules d)))
      (prompt_sizes_of (prompts_for_configuration_v4 db d)) (revision_asset_limit_bytes app) root \<and>
    (compiled_by app db d = Inl limit_error \<or>
     (\<exists>c ms. compiled_by app db d = Inr c \<and> maximum_session (compiled_program c) = Some ms \<and> ms \<le> MAXIMUM_SESSION_MS \<and>
        instructions (compiled_program c) = v4_tape (recording_behavior d) root \<and>
        compiler_version c = v4_compiler root))"
proof -
  obtain root where root: "flow_root (flow d) = Some root"
    "tree_accepted notice_v4
      (checks_v4 (map prompt_id (prompts_for_configuration_v4 db d)) (map schedule_id (schedules d)))
      (prompt_sizes_of (prompts_for_configuration_v4 db d)) (revision_asset_limit_bytes app) root"
    using assms unfolding accepted_v4 by blast
  obtain c where c: "compiled_by app db d =
      (if c > MAXIMUM_SESSION_MS then Inl limit_error
       else Inr (finish_compile (sha256_hex app) (v4_compiler root) (source_json (flow d) (recording_behavior d))
         \<lparr>version = 4, entry_pc = 0, maximum_session = Some c, instructions = v4_tape (recording_behavior d) root\<rparr>))"
    using compile_v4_accepted [OF root] by blast
  with root show ?thesis by (cases "c > MAXIMUM_SESSION_MS") (simp_all add: finish_compile_def)
qed

text \<open>
  The V4 validation step answers every request: whatever the draft, it returns a list of messages
  and lets no exception of the compiler through, because the compiler can only fail on a validated
  flow by reporting the session limit.
\<close>

theorem validation_always_answers: "\<exists>es. validation_errors app db d = Inr es"
proof (cases "validates app db d")
  case True
  from validated_compiles [OF True] have "\<exists>es. compile_message (compiled_by app db d) = Inr es"
    by (auto simp: limit_error_def)
  then show ?thesis using True by (auto simp: validation_errors_def Let_def)
qed (simp add: validation_errors_def Let_def)

section \<open>Prompt interruption\<close>

lemma barge_loop_iff: "barge_loop p \<longleftrightarrow> (\<exists>b\<in>set p. \<exists>c\<in>set (subtree b). allow_prompt_barge_in c)"
proof (induction p rule: barge_loop.induct)
  case (2 block pending)
  have "set (barge_children block) = set (owned block)"
    using mset_barge_children by (metis set_mset_mset)
  moreover have "set (subtree block) = insert block (\<Union>k\<in>set (owned block). set (subtree k))"
    by (rule set_subtree)
  ultimately show ?case using 2 by (cases "allow_prompt_barge_in block") auto
qed simp

lemma uses_prompt_barge_in_iff:
  "uses_prompt_barge_in d \<longleftrightarrow> (\<exists>b\<in>flow_blocks (flow d). allow_prompt_barge_in b)"
  by (simp add: uses_prompt_barge_in_def barge_loop_iff flow_blocks_def split: option.splits)

section \<open>Device capabilities\<close>

lemma incompatible_Nil:
  "incompatible_devices compatible ds = Inr [] \<longleftrightarrow> (\<forall>d\<in>set ds. compatible d = Inr True)"
  by (induction ds) (auto simp: bind_result_Inr split: sum.splits)

lemma require_v4_Inr:
  "require_v4_device_capabilities db d = Inr u \<longleftrightarrow>
     active_devices db \<noteq> [] \<and>
     (\<forall>device\<in>set (active_devices db). compatible_v4 (uses_prompt_barge_in d) device = Inr True)"
  by (auto simp: require_v4_device_capabilities_def Let_def bind_result_Inr incompatible_Nil split: if_splits)

text \<open>What a compatible device reports.\<close>

definition runs_v4 :: "bool \<Rightarrow> Device \<Rightarrow> bool" where
  "runs_v4 interruption d \<longleftrightarrow>
     json_contains 4 (runtime_versions d) = Inr True \<and>
     json_get (device_status d) ''external_call_control_capable'' = JBool True \<and>
     json_get (device_status d) ''conversation_recording_capable'' = JBool True \<and>
     (\<exists>protocol\<in>{1, 2}. py_eq (json_get (device_status d) ''call_control_protocol_version'') (JInt protocol)) \<and>
     (interruption \<longrightarrow> json_get (device_status d) ''prompt_barge_in_capable'' = JBool True)"

lemma in_protocols_True: "in_protocols v = Inr True \<Longrightarrow> \<exists>protocol\<in>{1, 2}. py_eq v (JInt protocol)"
  by (cases v) auto

lemma compatible_v4_runs: "compatible_v4 interruption d = Inr True \<Longrightarrow> runs_v4 interruption d"
  using in_protocols_True [of "json_get (device_status d) ''call_control_protocol_version''"]
  by (auto simp: compatible_v4_def runs_v4_def bind_result_Inr split: if_splits)

section \<open>Publication\<close>

lemma no_errors_Inr: "no_errors code es = Inr u \<longleftrightarrow> es = []"
  by (simp add: no_errors_def)

lemma assign_devices_simps [simp]:
  "drafts (assign_devices rid db) = drafts db" "revisions (assign_devices rid db) = revisions db"
  "next_revision_id (assign_devices rid db) = next_revision_id db" "archives (assign_devices rid db) = archives db"
  "prompts (assign_devices rid db) = prompts db"
  by (simp_all add: assign_devices_def)

lemma audit_simps [simp]:
  "drafts (audit a b c e db) = drafts db" "revisions (audit a b c e db) = revisions db"
  "next_revision_id (audit a b c e db) = next_revision_id db" "archives (audit a b c e db) = archives db"
  "prompts (audit a b c e db) = prompts db" "devices (audit a b c e db) = devices db"
  by (simp_all add: audit_def)

text \<open>A revision made from a configuration by the V4 compiler.\<close>

definition made_from :: "app_state \<Rightarrow> database \<Rightarrow> FlowDocumentV4 \<Rightarrow> Revision \<Rightarrow> bool" where
  "made_from app db d r \<longleftrightarrow>
     revision_schema r = 4 \<and> sealed app r \<and> revision_id r = next_revision_id db \<and>
     manifest_policy (revision_manifest r) = caller_policy d \<and> manifest_schedules (revision_manifest r) = schedules d \<and>
     manifest_recording (revision_manifest r) = Some (recording_behavior d) \<and>
     manifest_flow (revision_manifest r) = TreeFlow (flow d) \<and>
     (\<exists>c. manifest_compiled (revision_manifest r) = Some c \<and> compiled_by app db d = Inr c)"

lemma create_revision_v4_made:
  assumes "create_revision_v4 app d (prompts_for_configuration_v4 db d) actor source now db = Inr (r, db')"
  shows "made_from app db d r" "source_revision_id r = source"
    "db' = db\<lparr>revisions := revisions db @ [r], next_revision_id := next_revision_id db + 1\<rparr>"
  using assms create_revision_v4_sealed [OF assms]
  by (auto simp: create_revision_v4_def insert_revision_Inr made_from_def build_manifest_v4_def bind_result_Inr)

lemma publish_Inr:
  assumes "publish_draft_v4 app body actor now db = Inr (r, db')"
  obtains d where "load_draft_v4 db = Inr d" "reviewed body d db = Inr ()" "validates app db d"
    "active_devices db \<noteq> []"
    "\<And>device. device \<in> set (active_devices db) \<Longrightarrow> runs_v4 (uses_prompt_barge_in d) device"
    "made_from app db d r" "source_revision_id r = None"
    "db' = audit actor ''revision.v4_published'' (''revision:'' @ str_nat (revision_id r)) []
       (assign_devices (revision_id r)
         (db\<lparr>revisions := revisions db @ [r], next_revision_id := next_revision_id db + 1\<rparr>))"
proof -
  obtain d db1 where d: "load_draft_v4 db = Inr d" "reviewed body d db = Inr ()"
    "validation_errors app db d = Inr []" "require_v4_device_capabilities db d = Inr ()"
    and create: "create_revision_v4 app d (prompts_for_configuration_v4 db d) actor None now db = Inr (r, db1)"
    and db': "db' = audit actor ''revision.v4_published'' (''revision:'' @ str_nat (revision_id r)) []
       (assign_devices (revision_id r) db1)"
    using assms by (auto simp: publish_draft_v4_def bind_result_Inr no_errors_Inr)
  show thesis
  proof (rule that [of d])
    show "runs_v4 (uses_prompt_barge_in d) device" if "device \<in> set (active_devices db)" for device
      using d(4) that by (auto simp: require_v4_Inr intro: compatible_v4_runs)
  qed (use d create_revision_v4_made [OF create] db' in \<open>auto simp: validation_errors_Nil require_v4_Inr\<close>)
qed

lemma publish_drafts:
  assumes "publish_draft_v4 app body actor now db = Inr (r, db')"
  shows "drafts db' = drafts db"
  by (rule publish_Inr [OF assms]) simp

text \<open>A state with one V4 draft, its prompts and one capable device.\<close>

definition demo_prompt :: "char \<Rightarrow> Prompt" where
  "demo_prompt c = \<lparr>prompt_id = demo_id c, prompt_name = [c], prompt_version = 1, content_hash = [c],
     size_bytes = 1000, duration_ms = 1000\<rparr>"

definition demo_device :: Device where
  "demo_device = \<lparr>device_id = ''d'', display_name = ''Tablet'', token_hash = ''t'', app_version = ''1'', helper_version = ''1'',
     device_status = [(''runtime_versions'', JList [JInt 4]), (''external_call_control_capable'', JBool True),
       (''conversation_recording_capable'', JBool True), (''call_control_protocol_version'', JInt 2)],
     desired_revision_id = None, active_revision_id = None, revoked = False\<rparr>"

definition demo_state :: database where
  "demo_state = empty_database\<lparr>
     drafts := [V4_DRAFT_ID \<mapsto> \<lparr>draft_document = DocV4 demo_document, draft_version = 1, updated_by = ''admin''\<rparr>],
     prompts := [demo_prompt CHR ''a'', demo_prompt CHR ''b''], devices := [demo_device]\<rparr>"

definition demo_app :: app_state where
  "demo_app = \<lparr>sha256_hex = (\<lambda>s. s), ed25519_sign = (\<lambda>s. s), known_zone = (\<lambda>_. True), revision_asset_limit_bytes = 5000\<rparr>"

lemma demo_prompt_ids: "set (prompt_ids (flow demo_document)) = set demo_prompts"
  by (simp add: prompt_ids_def walk_blocks_def walk_loop.simps demo_defs children_def sorted_branches_def
      dtmf_index_def DTMF_ORDER_def insert_commute)

lemma demo_loads: "load_draft_v4 demo_state = Inr (demo_document)"
  by (simp add: load_draft_v4_def demo_state_def demo_document_def)

lemma demo_prompts_selected:
  "prompts_for_configuration_v4 demo_state demo_document = [demo_prompt CHR ''a'', demo_prompt CHR ''b'']"
proof -
  have "prompt_ids (flow demo_document) \<noteq> []"
    using demo_prompt_ids by (auto simp: demo_prompts_def)
  then show ?thesis
    by (simp add: prompts_for_configuration_v4_def select_prompts_def demo_prompt_ids)
      (simp add: demo_state_def demo_prompts_def demo_prompt_def)
qed

lemma demo_tables:
  "prompt_sizes_of [demo_prompt CHR ''a'', demo_prompt CHR ''b''] = demo_sizes"
  "prompt_durations [demo_prompt CHR ''a'', demo_prompt CHR ''b''] = demo_sizes"
  by (auto simp: prompt_sizes_of_def prompt_durations_def demo_prompt_def demo_sizes_def demo_prompts_def fun_eq_iff)

lemma demo_validation: "validation_errors demo_app demo_state demo_document = Inr []"
  using demo_accepted_v4 demo_compiles_v4
  by (simp add: validation_errors_Nil demo_prompts_selected demo_tables)
    (simp add: demo_app_def demo_prompt_def demo_prompts_def)

lemma demo_no_barge_in: "\<not> uses_prompt_barge_in demo_document"
  by (simp add: uses_prompt_barge_in_def demo_defs)

lemma demo_capable: "require_v4_device_capabilities demo_state demo_document = Inr ()"
  using demo_no_barge_in
  by (simp add: require_v4_Inr active_devices_def demo_state_def demo_device_def compatible_v4_def runtime_versions_def
      json_get_def)

lemma demo_publishes: "\<exists>r db'. publish_draft_v4 demo_app None actor now demo_state = Inr (r, db')"
proof -
  obtain c where "compiled_by demo_app demo_state demo_document = Inr c"
    using demo_validation by (auto simp: validation_errors_Nil)
  then obtain r db' where "create_revision_v4 demo_app demo_document (prompts_for_configuration_v4 demo_state demo_document)
      actor None now demo_state = Inr (r, db')"
    by (simp add: create_revision_v4_def insert_revision_def build_manifest_v4_def Let_def)
  then show ?thesis
    by (simp add: publish_draft_v4_def demo_loads reviewed_def demo_validation no_errors_def demo_capable)
qed

text \<open>
  C5: A publication that succeeds publishes the stored draft, and only after the validator accepted
  it: the new revision is the last one, takes the next number, carries the policy, schedules,
  recording behaviour and flow of the draft and a program whose longest session is at most ten
  minutes, and its digest and signature are those of its own manifest. There was at least one active
  device; every active device reported that it can run the revision (runtime 4, external calls,
  conversation recording, a known version of the call control protocol, and the interruption of
  prompts where the flow uses it); and every active device, and no revoked one, is assigned it.
\<close>

theorem publish_v4_spec:
  assumes "publish_draft_v4 app body actor now db = Inr (r, db')"
  shows "\<exists>d c ms. load_draft_v4 db = Inr d \<and> validates app db d \<and>
    revisions db' = revisions db @ [r] \<and> revision_id r = next_revision_id db \<and> sealed app r \<and>
    manifest_policy (revision_manifest r) = caller_policy d \<and> manifest_schedules (revision_manifest r) = schedules d \<and>
    manifest_recording (revision_manifest r) = Some (recording_behavior d) \<and>
    manifest_flow (revision_manifest r) = TreeFlow (flow d) \<and>
    manifest_compiled (revision_manifest r) = Some c \<and> maximum_session (compiled_program c) = Some ms \<and> ms \<le> 600000 \<and>
    (\<exists>device\<in>set (devices db). \<not> revoked device) \<and>
    (\<forall>device\<in>set (devices db). \<not> revoked device \<longrightarrow> runs_v4 (uses_prompt_barge_in d) device) \<and>
    devices db' = map (\<lambda>device. if revoked device then device else device\<lparr>desired_revision_id := Some (revision_id r)\<rparr>)
      (devices db) \<and>
    drafts db' = drafts db"
proof -
  obtain d where d: "load_draft_v4 db = Inr d" "validates app db d" "active_devices db \<noteq> []"
    "\<And>device. device \<in> set (active_devices db) \<Longrightarrow> runs_v4 (uses_prompt_barge_in d) device"
    and made: "made_from app db d r"
    and db': "db' = audit actor ''revision.v4_published'' (''revision:'' @ str_nat (revision_id r)) []
       (assign_devices (revision_id r)
         (db\<lparr>revisions := revisions db @ [r], next_revision_id := next_revision_id db + 1\<rparr>))"
    using publish_Inr [OF assms] by metis
  obtain c where c: "manifest_compiled (revision_manifest r) = Some c" "compiled_by app db d = Inr c"
    using made by (auto simp: made_from_def)
  obtain ms where ms: "maximum_session (compiled_program c) = Some ms" "ms \<le> 600000"
    using validated_compiles [OF d(2)] c(2) by (auto simp: limit_error_def MAXIMUM_SESSION_MS_def)
  have "\<exists>device\<in>set (devices db). \<not> revoked device"
    using d(3) by (auto simp: active_devices_def filter_empty_conv)
  moreover have "\<forall>device\<in>set (devices db). \<not> revoked device \<longrightarrow> runs_v4 (uses_prompt_barge_in d) device"
    using d(4) by (simp add: active_devices_def)
  ultimately show ?thesis
    using d(1,2) made c ms unfolding made_from_def
    by (intro exI [of _ d] exI [of _ c] exI [of _ ms]) (simp add: db' assign_devices_def)
qed

theorem publish_v4_spec_witness:
  "\<exists>r db'. publish_draft_v4 demo_app None ''admin'' ''now'' demo_state = Inr (r, db') \<and>
     revisions db' = [r] \<and> map desired_revision_id (devices db') = [Some 1]"
proof -
  obtain r db' where p: "publish_draft_v4 demo_app None ''admin'' ''now'' demo_state = Inr (r, db')"
    using demo_publishes by blast
  from publish_v4_spec [OF p] have "revisions db' = revisions demo_state @ [r]"
    "revision_id r = next_revision_id demo_state"
    "devices db' = map (\<lambda>device. if revoked device then device else device\<lparr>desired_revision_id := Some (revision_id r)\<rparr>)
      (devices demo_state)"
    by blast+
  then have "revisions db' = [r] \<and> map desired_revision_id (devices db') = [Some 1]"
    by (simp add: demo_state_def empty_database_def demo_device_def)
  with p show ?thesis by (intro exI [of _ r] exI [of _ db'] conjI) simp_all
qed

text \<open>
  A reviewed publication, which names the version and the revision the administrator looked at, is
  refused when the draft or the latest revision has changed since.
\<close>

theorem publish_requires_review:
  assumes "publish_draft_v4 app (Some b) actor now db = Inr (r, db')"
  shows "(\<exists>d. load_draft_v4 db = Inr d \<and> edit_version d = reviewed_edit_version b) \<and>
    map_option revision_id (latest_revision db) = reviewed_base_revision_id b"
proof -
  obtain d where "load_draft_v4 db = Inr d" "reviewed (Some b) d db = Inr ()"
    using publish_Inr [OF assms] by metis
  then show ?thesis by (auto simp: reviewed_def split: if_splits)
qed

theorem publish_requires_review_witness:
  "\<exists>r db'. publish_draft_v4 demo_app (Some \<lparr>reviewed_edit_version = 1, reviewed_base_revision_id = None\<rparr>)
       ''admin'' ''now'' demo_state = Inr (r, db') \<and> map_option revision_id (latest_revision demo_state) = None"
proof -
  let ?b = "\<lparr>reviewed_edit_version = 1, reviewed_base_revision_id = None\<rparr>"
  have "reviewed (Some ?b) demo_document demo_state = Inr ()"
    by (simp add: reviewed_def demo_document_def latest_revision_def demo_state_def empty_database_def)
  then obtain r db' where p: "publish_draft_v4 demo_app (Some ?b) ''admin'' ''now'' demo_state = Inr (r, db')"
    using demo_publishes [of "''admin''" "''now''"] by (auto simp: publish_draft_v4_def demo_loads reviewed_def [of None])
  from publish_requires_review [OF p] p show ?thesis by auto
qed

text \<open>
  Right after a publication, the comparison of the published draft with the latest revision shows
  no change of the flow, the policy, the schedules or the recording behaviour, and asks for no
  confirmation.
\<close>

theorem diff_after_publish:
  assumes "publish_draft_v4 app body actor now db = Inr (r, db')" "load_draft_v4 db' = Inr d"
    and "CallerPolicy_valid (caller_policy d)"
  shows "diff_draft_v4 d None db' = Inr
    \<lparr>base_revision_id = Some (revision_id r), legacy_base = False,
     configuration_changes = \<lparr>caller_policy_changes = [], schedule_changes = [], recording_changes = [],
       requires_policy_confirmation = False\<rparr>,
     flow_changes = \<lparr>added = 0, removed = 0, changed = 0, changes = []\<rparr>\<rparr>"
proof -
  obtain e where e: "load_draft_v4 db = Inr e" "validates app db e" "made_from app db e r"
    and db': "db' = audit actor ''revision.v4_published'' (''revision:'' @ str_nat (revision_id r)) []
       (assign_devices (revision_id r)
         (db\<lparr>revisions := revisions db @ [r], next_revision_id := next_revision_id db + 1\<rparr>))"
    using publish_Inr [OF assms(1)] by metis
  have "d = e" using assms(2) e(1) by (simp add: load_draft_v4_def db')
  moreover have "distinct (map schedule_id (schedules e))"
    using e(2) unfolding accepted_v4 schedules_ok_def by simp
  moreover have "latest_revision db' = Some r" by (simp add: latest_revision_def db')
  ultimately show ?thesis
    using e(3) assms(3) diff_flows_self [of "flow e"]
    by (simp add: diff_draft_v4_def made_from_def load_manifest_def tree_of_def manifest_get
        revision_diff_same)
qed

theorem diff_after_publish_witness:
  "\<exists>r db'. publish_draft_v4 demo_app None ''admin'' ''now'' demo_state = Inr (r, db') \<and>
     (\<exists>x. diff_draft_v4 demo_document None db' = Inr x \<and> \<not> requires_policy_confirmation (configuration_changes x))"
proof -
  obtain r db' where p: "publish_draft_v4 demo_app None ''admin'' ''now'' demo_state = Inr (r, db')"
    using demo_publishes by blast
  have "load_draft_v4 db' = Inr demo_document"
    using demo_loads publish_drafts [OF p] by (simp add: load_draft_v4_def)
  moreover have "CallerPolicy_valid (caller_policy demo_document)"
    by (simp add: demo_document_def default_CallerPolicy_def CallerPolicy_valid_def)
  ultimately show ?thesis using diff_after_publish [OF p, of demo_document] p
    by (intro exI [of _ r] exI [of _ db'] conjI) simp_all
qed

section \<open>Rollback\<close>

lemma restored_Inr:
  "restored m v = Inr d \<longleftrightarrow>
     manifest_recording m = Some (recording_behavior d) \<and> manifest_flow m = TreeFlow (flow d) \<and>
     manifest_policy m = caller_policy d \<and> manifest_schedules m = schedules d \<and> edit_version d = v"
proof -
  obtain v' p s f r where "d = \<lparr>edit_version = v', caller_policy = p, schedules = s, flow = f, recording_behavior = r\<rparr>"
    by (cases d) blast
  then show ?thesis by (auto simp: restored_def split: option.splits manifest_flow.splits)
qed

lemma find_revision_Some: "find_revision rid db = Some r \<Longrightarrow> r \<in> set (revisions db) \<and> revision_id r = rid"
  by (auto simp: find_revision_def find_Some_iff)

lemma rollback_Inr:
  assumes "rollback_v4_revision app rid actor now db = Inr (r, db')"
  obtains source current d db1 saved db2 where "find_revision rid db = Some source" "revision_schema source = 4"
    "load_draft_v4 db = Inr current" "restored (revision_manifest source) (edit_version current) = Inr d"
    "validates app db d" "\<And>device. device \<in> set (active_devices db) \<Longrightarrow> runs_v4 (uses_prompt_barge_in d) device"
    "made_from app db d r" "source_revision_id r = Some (revision_id source)"
    "db1 = db\<lparr>revisions := revisions db @ [r], next_revision_id := next_revision_id db + 1\<rparr>"
    "store_draft_v4 d actor db1 = Inr (saved, db2)"
    "db' = audit actor ''revision.rollback_published'' (''revision:'' @ str_nat (revision_id r))
       [(''source_revision_id'', json_nat (revision_id source))] (assign_devices (revision_id r) db2)"
proof -
  obtain source current d db1 saved db2 where source: "find_revision rid db = Some source" "revision_schema source = 4"
    "load_draft_v4 db = Inr current" "restored (revision_manifest source) (edit_version current) = Inr d"
    and checked: "validation_errors app db d = Inr []" "require_v4_device_capabilities db d = Inr ()"
    and create: "create_revision_v4 app d (prompts_for_configuration_v4 db d) actor (Some (revision_id source)) now db = Inr (r, db1)"
    and rest: "store_draft_v4 d actor db1 = Inr (saved, db2)"
    "db' = audit actor ''revision.rollback_published'' (''revision:'' @ str_nat (revision_id r))
       [(''source_revision_id'', json_nat (revision_id source))] (assign_devices (revision_id r) db2)"
    using assms
    by (auto simp: rollback_v4_revision_def bind_result_Inr no_errors_Inr load_manifest_def split: option.splits if_splits)
  show thesis
  proof (rule that [OF source _ _ _ _ _ rest])
    show "runs_v4 (uses_prompt_barge_in d) device" if "device \<in> set (active_devices db)" for device
      using checked(2) that by (auto simp: require_v4_Inr intro: compatible_v4_runs)
  qed (use create_revision_v4_made [OF create] checked in \<open>auto simp: validation_errors_Nil\<close>)
qed

lemma store_draft_v4_frame:
  "store_draft_v4 d actor db = Inr (saved, db') \<Longrightarrow>
   \<exists>row. db' = db\<lparr>drafts := (drafts db)(V4_DRAFT_ID \<mapsto> row)\<rparr> \<and> (\<exists>e. draft_document row = DocV4 e)"
  by (auto simp: store_defs write_draft_same split: if_splits)

text \<open>
  C36: A rollback to a V4 revision publishes a new revision with the policy, schedules, recording
  behaviour and flow of the named one, recorded as its source, makes the same configuration the
  current draft under the next version, and leaves all older revisions in place.
\<close>

theorem rollback_v4_spec:
  assumes "rollback_v4_revision app rid actor now db = Inr (r, db')"
  shows "\<exists>source current d. find_revision rid db = Some source \<and> revision_schema source = 4 \<and>
    load_draft_v4 db = Inr current \<and> load_draft_v4 db' = Inr d \<and> edit_version d = edit_version current + 1 \<and>
    source_revision_id r = Some rid \<and> sealed app r \<and> revisions db' = revisions db @ [r] \<and>
    manifest_flow (revision_manifest source) = TreeFlow (flow d) \<and>
    manifest_policy (revision_manifest source) = caller_policy d \<and>
    manifest_schedules (revision_manifest source) = schedules d \<and>
    manifest_recording (revision_manifest source) = Some (recording_behavior d) \<and>
    manifest_flow (revision_manifest r) = manifest_flow (revision_manifest source) \<and>
    manifest_policy (revision_manifest r) = manifest_policy (revision_manifest source) \<and>
    manifest_schedules (revision_manifest r) = manifest_schedules (revision_manifest source) \<and>
    manifest_recording (revision_manifest r) = manifest_recording (revision_manifest source) \<and>
    (\<forall>device\<in>set (devices db'). \<not> revoked device \<longrightarrow> desired_revision_id device = Some (revision_id r))"
proof -
  obtain source current d db1 saved db2 where source: "find_revision rid db = Some source" "revision_schema source = 4"
    "load_draft_v4 db = Inr current" and restored: "restored (revision_manifest source) (edit_version current) = Inr d"
    and made: "made_from app db d r" "source_revision_id r = Some (revision_id source)"
    and db1: "db1 = db\<lparr>revisions := revisions db @ [r], next_revision_id := next_revision_id db + 1\<rparr>"
    and store: "store_draft_v4 d actor db1 = Inr (saved, db2)"
    and db': "db' = audit actor ''revision.rollback_published'' (''revision:'' @ str_nat (revision_id r))
       [(''source_revision_id'', json_nat (revision_id source))] (assign_devices (revision_id r) db2)"
    using rollback_Inr [OF assms] by metis
  have saved: "load_draft_v4 db2 = Inr saved" "saved = d\<lparr>edit_version := edit_version d + 1\<rparr>"
    using draft4.store_Inr [OF store] by auto
  have "load_draft_v4 db' = Inr saved" using saved(1) by (simp add: load_draft_v4_def db')
  moreover have "revisions db2 = revisions db1" "devices db2 = devices db1"
    using store_draft_v4_frame [OF store] by auto
  moreover have "\<forall>device\<in>set (devices db'). \<not> revoked device \<longrightarrow> desired_revision_id device = Some (revision_id r)"
    by (auto simp: db' assign_devices_def)
  moreover have "revision_id source = rid" using find_revision_Some [OF source(1)] by simp
  ultimately show ?thesis
    using source made restored saved(2) unfolding made_from_def restored_Inr
    by (intro exI [of _ source] exI [of _ current] exI [of _ saved]) (auto simp: db' db1)
qed

lemma publish_demo_rollback:
  assumes p: "publish_draft_v4 demo_app None ''admin'' ''now'' demo_state = Inr (r, db)"
  shows "\<exists>r' db'. rollback_v4_revision demo_app 1 actor now db = Inr (r', db')"
proof -
  have made: "made_from demo_app demo_state demo_document r"
    and db: "db = audit ''admin'' ''revision.v4_published'' (''revision:'' @ str_nat (revision_id r)) []
      (assign_devices (revision_id r)
        (demo_state\<lparr>revisions := revisions demo_state @ [r], next_revision_id := next_revision_id demo_state + 1\<rparr>))"
    using publish_Inr [OF p] demo_loads by (metis sum.inject(2))+
  then have found: "find_revision 1 db = Some r" "revision_schema r = 4"
    by (simp_all add: find_revision_def made_from_def demo_state_def empty_database_def)
  have same: "prompts_for_configuration_v4 db d = prompts_for_configuration_v4 demo_state d" for d
    by (simp add: prompts_for_configuration_v4_def select_prompts_def db)
  have loads: "load_draft_v4 db = Inr demo_document" using demo_loads by (simp add: load_draft_v4_def db)
  have restored: "restored (load_manifest r) (edit_version demo_document) = Inr demo_document"
    using made by (simp add: restored_Inr made_from_def load_manifest_def)
  have valid: "validation_errors demo_app db demo_document = Inr []"
    using demo_validation by (simp add: validation_errors_def same)
  have capable: "require_v4_device_capabilities db demo_document = Inr ()"
    using demo_no_barge_in
    by (simp add: require_v4_Inr active_devices_def db assign_devices_def demo_state_def demo_device_def compatible_v4_def
        runtime_versions_def json_get_def)
  obtain c where "compiled_by demo_app db demo_document = Inr c"
    using valid by (auto simp: validation_errors_Nil)
  then obtain r' where create: "create_revision_v4 demo_app demo_document (prompts_for_configuration_v4 db demo_document)
      actor (Some (revision_id r)) now db =
      Inr (r', db\<lparr>revisions := revisions db @ [r'], next_revision_id := next_revision_id db + 1\<rparr>)"
    by (simp add: create_revision_v4_def insert_revision_def build_manifest_v4_def Let_def)
  have "edit_version demo_document =
      draft_version_in V4_DRAFT_ID (db\<lparr>revisions := revisions db @ [r'], next_revision_id := next_revision_id db + 1\<rparr>)"
    by (simp add: db demo_state_def demo_document_def current_version_def)
  from draft4.accepted [OF this, of actor] obtain saved db2 where
    "store_draft_v4 demo_document actor (db\<lparr>revisions := revisions db @ [r'], next_revision_id := next_revision_id db + 1\<rparr>) =
      Inr (saved, db2)"
    by blast
  with loads restored valid capable create found show ?thesis
    by (simp add: rollback_v4_revision_def no_errors_def)
qed

theorem rollback_v4_spec_witness:
  "\<exists>r db r' db'. publish_draft_v4 demo_app None ''admin'' ''now'' demo_state = Inr (r, db) \<and>
     rollback_v4_revision demo_app 1 ''admin'' ''later'' db = Inr (r', db') \<and> source_revision_id r' = Some 1"
proof -
  obtain r db where p: "publish_draft_v4 demo_app None ''admin'' ''now'' demo_state = Inr (r, db)"
    using demo_publishes by blast
  then obtain r' db' where q: "rollback_v4_revision demo_app 1 ''admin'' ''later'' db = Inr (r', db')"
    using publish_demo_rollback by blast
  from rollback_v4_spec [OF q] have "source_revision_id r' = Some 1" by blast
  with p q show ?thesis by (intro exI [of _ r] exI [of _ db] exI [of _ r'] exI [of _ db'] conjI) simp_all
qed

section \<open>The unreachable fallback of the draft request\<close>

text \<open>
  C38: When the V4 draft row does not hold a V4 document, the draft request fails with the error that
  its handler means to recover from: the recovery calls the initialisation, which loads the same row
  and raises the error again, so no clone is ever made.
\<close>

theorem get_draft_v4_fallback_fails:
  assumes "drafts db V4_DRAFT_ID = Some row" "document_schema (draft_document row) \<noteq> 4"
  shows "get_draft_v4 actor db = Inl (RuntimeError ''The editable draft has not been cloned to V4.'')"
  using assms
  by (cases "draft_document row")
    (simp_all add: get_draft_v4_def load_draft_v4_def clone_audited_def initialize_v4_draft_def)

theorem get_draft_v4_fallback_fails_witness:
  "get_draft_v4 ''admin''
     (empty_database\<lparr>drafts := [V4_DRAFT_ID \<mapsto> \<lparr>draft_document = DocV1 default_DraftConfiguration,
        draft_version = 1, updated_by = ''admin''\<rparr>]\<rparr>) =
   Inl (RuntimeError ''The editable draft has not been cloned to V4.'')"
  by (rule get_draft_v4_fallback_fails [where row = "\<lparr>draft_document = DocV1 default_DraftConfiguration,
        draft_version = 1, updated_by = ''admin''\<rparr>"]) simp_all

end
