(* ===== verification/Publishing_V3.thy ===== *)
theory Publishing_V3
  imports Publishing Session_Bound
begin

text \<open>
  The administration interface of release 3 (\<^verbatim>\<open>src/server/app/v3_api.py\<close>). It shares the
  revisions, devices and the first draft row with the interface of release 4; helpers that are written
  the same way in both files are shared.
\<close>

section \<open>Validation and capabilities\<close>

definition validation_errors_v3 :: "app_state \<Rightarrow> database \<Rightarrow> FlowDocumentV3 \<Rightarrow> service_error + string list" where
  "validation_errors_v3 app db configuration =
     (let ps = prompts_for_configuration_v3 db configuration;
          es = validate_configuration_v3 (known_zone app) configuration (map prompt_id ps) (prompt_sizes_of ps)
            (revision_asset_limit_bytes app) in
      bind_result
        (if es = []
         then compile_message (compile_flow_v3 (sha256_hex app) (flow configuration) (recording_behavior configuration)
                (prompt_durations ps))
         else Inr es)
        (\<lambda>errors. Inr (dict_fromkeys errors)))"

definition compatible_v3 :: "bool \<Rightarrow> Device \<Rightarrow> bool result" where
  "compatible_v3 recording_required d =
     bind_result (json_contains 3 (runtime_versions d)) (\<lambda>runtime.
       Inr (runtime \<and> \<not> (recording_required \<and> \<not> py_truthy (json_get (device_status d) ''recording_capable''))))"

definition records_messages :: "FlowDocumentV3 \<Rightarrow> bool" where
  "records_messages configuration =
     list_ex (\<lambda>(block, _). is_RecordMessage block) (walk_blocks (flow_root (flow configuration)))"

definition require_device_capabilities :: "database \<Rightarrow> FlowDocumentV3 \<Rightarrow> service_error + unit" where
  "require_device_capabilities db configuration =
     (let recording_required = records_messages configuration in
      bind_result (incompatible_devices (compatible_v3 recording_required) (active_devices db)) (\<lambda>incompatible.
        if incompatible = [] then Inr ()
        else Inl (http 409
          (''V3 cannot be assigned until every active device reports runtime V3'' @
           (if recording_required then '' and recording capability'' else []) @ '': '' @ join '', '' incompatible))))"

section \<open>The draft\<close>

definition get_draft_v3 :: "database \<Rightarrow> service_error + FlowDocumentV3" where
  "get_draft_v3 db = load_draft_v3 db"

definition put_draft_v3 :: "FlowDocumentV3 \<Rightarrow> string \<Rightarrow> database \<Rightarrow> FlowDocumentV3 served" where
  "put_draft_v3 configuration actor db =
     (case store_draft_v3 configuration actor db of
        Inl (DraftConflictError text) \<Rightarrow> Inl (http 409 text)
      | Inl e \<Rightarrow> Inl e
      | Inr (saved, db') \<Rightarrow>
          Inr (saved, audit actor ''draft.v3_updated'' ''configuration''
                 [(''edit_version'', json_nat (edit_version saved))] db'))"

definition validate_draft_v3 ::
  "app_state \<Rightarrow> FlowDocumentV3 option \<Rightarrow> database \<Rightarrow> service_error + bool \<times> string list" where
  "validate_draft_v3 app configuration db =
     bind_result (case configuration of Some c \<Rightarrow> Inr c | None \<Rightarrow> load_draft_v3 db) (\<lambda>candidate.
     bind_result (validation_errors_v3 app db candidate) (\<lambda>es. Inr (es = [], es)))"

definition simulate_draft_v3 ::
  "app_state \<Rightarrow> FlowDocumentV3 \<Rightarrow> string list \<Rightarrow> database \<Rightarrow> service_error + simulation_result" where
  "simulate_draft_v3 app configuration events db =
     bind_result (validation_errors_v3 app db configuration) (\<lambda>es.
       Inr (if es \<noteq> []
            then \<lparr>status = ''invalid'', trace = [], message = join '' '' es, awaiting_block_id = None, available = None\<rparr>
            else simulate_v3 (flow configuration) events))"

definition latest_of_schema :: "nat \<Rightarrow> database \<Rightarrow> Revision option" where
  "latest_of_schema schema db =
     (let rs = filter (\<lambda>r. revision_schema r = schema) (revisions db) in if rs = [] then None else Some (last rs))"

record FlowDiffResultV3 =
  v3_base_revision_id :: "nat option"
  v3_legacy_base :: bool
  v3_flow_changes :: flow_diff

definition diff_draft_v3 :: "FlowDocumentV3 \<Rightarrow> nat option \<Rightarrow> database \<Rightarrow> service_error + FlowDiffResultV3" where
  "diff_draft_v3 configuration requested db =
     (let base = (case requested of
            Some rid \<Rightarrow> if rid \<noteq> 0 then find_revision rid db else latest_of_schema 3 db
          | None \<Rightarrow> latest_of_schema 3 db);
          v3_base = (case base of Some r \<Rightarrow> if revision_schema r = 3 then Some r else None | None \<Rightarrow> None) in
      bind_result
        (case v3_base of
          None \<Rightarrow> Inr None
        | Some r \<Rightarrow> bind_result (tree_of (manifest_flow (load_manifest r))) (\<lambda>t. Inr (Some t)))
        (\<lambda>base_flow.
          let behavior_changes = (case v3_base of
                None \<Rightarrow> []
              | Some r \<Rightarrow>
                  if \<not> py_eq (json_get (manifest_fields (load_manifest r)) ''recording_behavior'')
                         (recording_behavior_json (recording_behavior configuration))
                  then [''Changed shared recording behavior''] else []);
              result = diff_flows base_flow (flow configuration) in
          Inr \<lparr>v3_base_revision_id = map_option revision_id base,
               v3_legacy_base = (v3_base = None \<and> (base \<noteq> None \<or> revisions db \<noteq> [])),
               v3_flow_changes = result\<lparr>changed := changed result + length behavior_changes,
                 changes := take 256 (behavior_changes @ changes result)\<rparr>\<rparr>))"

section \<open>Publication and rollback\<close>

definition publish_draft_v3 :: "app_state \<Rightarrow> string \<Rightarrow> string \<Rightarrow> database \<Rightarrow> Revision served" where
  "publish_draft_v3 app actor now db =
     bind_result (load_draft_v3 db) (\<lambda>configuration.
     bind_result (validation_errors_v3 app db configuration) (\<lambda>es.
     bind_result (no_errors 422 es) (\<lambda>_.
     bind_result (require_device_capabilities db configuration) (\<lambda>_.
     bind_result (create_revision_v3 app configuration (prompts_for_configuration_v3 db configuration) actor None now db)
       (\<lambda>(revision, db').
     Inr (revision, audit actor ''revision.v3_published'' (''revision:'' @ str_nat (revision_id revision)) []
            (assign_devices (revision_id revision) db')))))))"

definition revision_detail_v3 :: "nat \<Rightarrow> database \<Rightarrow> service_error + RevisionDetail" where
  "revision_detail_v3 rid db =
     (case find_revision rid db of
        None \<Rightarrow> Inl (http 404 ''Revision not found'')
      | Some revision \<Rightarrow>
          Inr \<lparr>detail_revision = revision, detail_flow = json_get (manifest_fields (load_manifest revision)) ''flow'',
               legacy = (revision_schema revision \<noteq> 3)\<rparr>)"

definition rollback_v3_revision :: "app_state \<Rightarrow> nat \<Rightarrow> string \<Rightarrow> string \<Rightarrow> database \<Rightarrow> Revision served" where
  "rollback_v3_revision app rid actor now db =
     (case find_revision rid db of
        None \<Rightarrow> Inl (http 404 ''Revision not found'')
      | Some source \<Rightarrow>
          if revision_schema source \<noteq> 3
          then Inl (http 409 ''Use activate-rollback for an immutable V1/V2 revision.'')
          else
            bind_result (load_draft_v3 db) (\<lambda>current.
            bind_result (restored (load_manifest source) (edit_version current)) (\<lambda>configuration.
            bind_result (validation_errors_v3 app db configuration) (\<lambda>es.
            bind_result (no_errors 409 es) (\<lambda>_.
            bind_result (require_device_capabilities db configuration) (\<lambda>_.
            bind_result (create_revision_v3 app configuration (prompts_for_configuration_v3 db configuration) actor
                (Some (revision_id source)) now db) (\<lambda>(revision, db1).
            bind_result (store_draft_v3 configuration actor db1) (\<lambda>(saved, db2).
            Inr (revision, audit actor ''revision.rollback_published'' (''revision:'' @ str_nat (revision_id revision))
                   [(''source_revision_id'', json_nat (revision_id source))]
                   (assign_devices (revision_id revision) db2)))))))))) "

definition activate_immutable_revision_v3 :: "nat \<Rightarrow> string \<Rightarrow> database \<Rightarrow> Revision served" where
  "activate_immutable_revision_v3 rid actor db =
     (case find_revision rid db of
        None \<Rightarrow> Inl (http 404 ''Revision not found'')
      | Some source \<Rightarrow>
          if revision_schema source \<notin> {1, 2}
          then Inl (http 409 ''Only immutable V1/V2 rollback uses this endpoint.'')
          else
            Inr (source, audit actor ''revision.legacy_rollback_activated'' (''revision:'' @ str_nat (revision_id source))
                   [(''schema_version'', json_nat (revision_schema source)),
                    (''affected_devices'', json_nat (length (active_devices db)))]
                   (assign_devices (revision_id source) db)))"

end
