(* ===== verification/Admin_Requests.thy ===== *)
theory Admin_Requests
  imports Publishing_Laws Publishing_V3
begin

text \<open>
  All sequences of requests to the administration interfaces of releases 3 and 4, which share the
  revisions and the devices: a step relation with one rule per request that can change the state, the
  invariant of the state, and what it gives for every reachable state.
\<close>

section \<open>Release 3\<close>

abbreviation validates_v3 :: "app_state \<Rightarrow> database \<Rightarrow> FlowDocumentV3 \<Rightarrow> bool" where
  "validates_v3 app db d \<equiv>
     validate_configuration_v3 (known_zone app) d (map prompt_id (prompts_for_configuration_v3 db d))
       (prompt_sizes_of (prompts_for_configuration_v3 db d)) (revision_asset_limit_bytes app) = []"

abbreviation compiled_by_v3 :: "app_state \<Rightarrow> database \<Rightarrow> FlowDocumentV3 \<Rightarrow> compiled_flow result" where
  "compiled_by_v3 app db d \<equiv>
     compile_flow_v3 (sha256_hex app) (flow d) (recording_behavior d) (prompt_durations (prompts_for_configuration_v3 db d))"

lemma validation_errors_v3_Nil:
  "validation_errors_v3 app db d = Inr [] \<longleftrightarrow> validates_v3 app db d \<and> (\<exists>c. compiled_by_v3 app db d = Inr c)"
  by (auto simp: validation_errors_v3_def Let_def bind_result_Inr compile_message_Nil)

section \<open>Safe revisions\<close>

text \<open>A revision of release 3 or 4 that devices may run.\<close>

definition bounded_program :: "(FlowBlock \<Rightarrow> bool) \<Rightarrow> (RecordingBehavior \<Rightarrow> FlowBlock \<Rightarrow> instruction list) \<Rightarrow> manifest \<Rightarrow> bool" where
  "bounded_program tree_safe code m \<longleftrightarrow>
     (\<exists>f rec root c ms. manifest_flow m = TreeFlow f \<and> manifest_recording m = Some rec \<and> flow_root f = Some root \<and>
        tree_safe root \<and> manifest_compiled m = Some c \<and> maximum_session (compiled_program c) = Some ms \<and>
        ms \<le> 600000 \<and> instructions (compiled_program c) = code rec root)"

definition safe_revision :: "app_state \<Rightarrow> Revision \<Rightarrow> bool" where
  "safe_revision app r \<longleftrightarrow> sealed app r \<and>
     (revision_schema r = 4 \<longrightarrow>
        (\<exists>P S sizes. bounded_program (tree_accepted notice_v4 (checks_v4 P S) sizes (revision_asset_limit_bytes app))
           v4_tape (revision_manifest r))) \<and>
     (revision_schema r = 3 \<longrightarrow>
        (\<exists>P S sizes. bounded_program (tree_accepted notice_v3 (checks_v3 P S) sizes (revision_asset_limit_bytes app))
           (tape False) (revision_manifest r)))"

lemma made_safe:
  assumes "validates app db d" "made_from app db d r"
  shows "safe_revision app r"
proof -
  obtain c where c: "manifest_compiled (revision_manifest r) = Some c" "compiled_by app db d = Inr c"
    using assms(2) by (auto simp: made_from_def)
  obtain root ms where "flow_root (flow d) = Some root"
    "tree_accepted notice_v4
      (checks_v4 (map prompt_id (prompts_for_configuration_v4 db d)) (map schedule_id (schedules d)))
      (prompt_sizes_of (prompts_for_configuration_v4 db d)) (revision_asset_limit_bytes app) root"
    "maximum_session (compiled_program c) = Some ms" "ms \<le> 600000"
    "instructions (compiled_program c) = v4_tape (recording_behavior d) root"
    using validated_compiles [OF assms(1)] c(2) by (auto simp: MAXIMUM_SESSION_MS_def)
  with c(1) assms(2) have "bounded_program (tree_accepted notice_v4
      (checks_v4 (map prompt_id (prompts_for_configuration_v4 db d)) (map schedule_id (schedules d)))
      (prompt_sizes_of (prompts_for_configuration_v4 db d)) (revision_asset_limit_bytes app)) v4_tape (revision_manifest r)"
    unfolding bounded_program_def made_from_def by blast
  with assms(2) show ?thesis unfolding safe_revision_def made_from_def by auto
qed

text \<open>What storing a new revision does to the state.\<close>

definition adds_revision :: "app_state \<Rightarrow> database \<Rightarrow> Revision \<Rightarrow> database \<Rightarrow> bool" where
  "adds_revision app db r db' \<longleftrightarrow>
     safe_revision app r \<and> revision_id r = next_revision_id db \<and>
     db' = db\<lparr>revisions := revisions db @ [r], next_revision_id := next_revision_id db + 1\<rparr>"

lemma create_v3_adds:
  assumes "create_revision_v3 app d (prompts_for_configuration_v3 db d) actor source now db = Inr (r, db')"
    and "validates_v3 app db d"
  shows "adds_revision app db r db'"
proof -
  obtain c where c: "compiled_by_v3 app db d = Inr c"
    and r: "revision_id r = next_revision_id db" "revision_schema r = 3" "sealed app r"
      "manifest_compiled (revision_manifest r) = Some c" "manifest_flow (revision_manifest r) = TreeFlow (flow d)"
      "manifest_recording (revision_manifest r) = Some (recording_behavior d)"
    and db': "db' = db\<lparr>revisions := revisions db @ [r], next_revision_id := next_revision_id db + 1\<rparr>"
    using assms(1)
    by (auto simp: create_revision_v3_def insert_revision_Inr build_manifest_v3_def bind_result_Inr sealed_def sign_def
        Let_def)
  let ?ok = "tree_accepted notice_v3
      (checks_v3 (map prompt_id (prompts_for_configuration_v3 db d)) (map schedule_id (schedules d)))
      (prompt_sizes_of (prompts_for_configuration_v3 db d)) (revision_asset_limit_bytes app)"
  obtain root where root: "flow_root (flow d) = Some root" "?ok root"
    using assms(2) unfolding accepted_v3 by blast
  obtain ms where "maximum_session (compiled_program c) = Some ms" "ms \<le> 600000"
    "instructions (compiled_program c) = tape False (recording_behavior d) root"
    using compile_v3_accepted [OF root, of "recording_behavior d" "prompt_durations (prompts_for_configuration_v3 db d)"
        "sha256_hex app"] c
    by (auto simp: finish_compile_def MAXIMUM_SESSION_MS_def split: if_splits)
  with r root have "bounded_program ?ok (tape False) (revision_manifest r)"
    unfolding bounded_program_def by blast
  with r db' show ?thesis unfolding adds_revision_def safe_revision_def by auto
qed

lemma create_v4_adds:
  assumes "made_from app db d r" "validates app db d"
  shows "adds_revision app db r (db\<lparr>revisions := revisions db @ [r], next_revision_id := next_revision_id db + 1\<rparr>)"
  using made_safe [OF assms(2,1)] assms(1) by (simp add: adds_revision_def made_from_def)

section \<open>The step relation\<close>

text \<open>One committed request that can change the state.\<close>

inductive admin_step :: "app_state \<Rightarrow> database \<Rightarrow> database \<Rightarrow> bool" for app where
  get_v4: "get_draft_v4 actor db = Inr (d, db') \<Longrightarrow> admin_step app db db'"
| put_v4: "put_draft_v4 d actor db = Inr (d', db') \<Longrightarrow> admin_step app db db'"
| publish_v4: "publish_draft_v4 app body actor now db = Inr (r, db') \<Longrightarrow> admin_step app db db'"
| rollback_v4: "rollback_v4_revision app rid actor now db = Inr (r, db') \<Longrightarrow> admin_step app db db'"
| activate_v4: "activate_immutable_revision rid actor db = Inr (r, db') \<Longrightarrow> admin_step app db db'"
| put_v3: "put_draft_v3 d actor db = Inr (d', db') \<Longrightarrow> admin_step app db db'"
| publish_v3: "publish_draft_v3 app actor now db = Inr (r, db') \<Longrightarrow> admin_step app db db'"
| rollback_v3: "rollback_v3_revision app rid actor now db = Inr (r, db') \<Longrightarrow> admin_step app db db'"
| activate_v3: "activate_immutable_revision_v3 rid actor db = Inr (r, db') \<Longrightarrow> admin_step app db db'"

text \<open>
  The invariant of the state: revisions are numbered in increasing order below the sequence, each of
  them is safe, every device is assigned a stored revision or none, and V4 documents are kept in the
  row of the V4 draft only.
\<close>

definition consistent :: "app_state \<Rightarrow> database \<Rightarrow> bool" where
  "consistent app db \<longleftrightarrow>
     sorted_wrt (<) (map revision_id (revisions db)) \<and>
     (\<forall>r\<in>set (revisions db). revision_id r < next_revision_id db \<and> safe_revision app r) \<and>
     (\<forall>device\<in>set (devices db). \<forall>rid. desired_revision_id device = Some rid \<longrightarrow>
        rid \<in> revision_id ` set (revisions db)) \<and>
     (\<forall>row. drafts db V4_DRAFT_ID = Some row \<longrightarrow> document_schema (draft_document row) = 4) \<and>
     (\<forall>row. drafts db 1 = Some row \<longrightarrow> document_schema (draft_document row) \<noteq> 4)"

text \<open>The rows of the drafts after a step: unchanged, or a document of the lane of the row.\<close>

definition rows_kept :: "database \<Rightarrow> database \<Rightarrow> bool" where
  "rows_kept db db' \<longleftrightarrow>
     (\<forall>row. drafts db' V4_DRAFT_ID = Some row \<longrightarrow>
        drafts db V4_DRAFT_ID = Some row \<or> document_schema (draft_document row) = 4) \<and>
     (\<forall>row. drafts db' 1 = Some row \<longrightarrow> drafts db 1 = Some row \<or> document_schema (draft_document row) \<noteq> 4)"

lemma rows_kept_refl: "drafts db' = drafts db \<Longrightarrow> rows_kept db db'"
  by (simp add: rows_kept_def)

lemma rows_kept_trans: "rows_kept db db1 \<Longrightarrow> rows_kept db1 db2 \<Longrightarrow> rows_kept db db2"
  unfolding rows_kept_def by metis

lemma consistentI:
  assumes "consistent app db" "revisions db' = revisions db" "next_revision_id db' = next_revision_id db"
    "\<And>device rid. device \<in> set (devices db') \<Longrightarrow> desired_revision_id device = Some rid \<Longrightarrow>
       (\<exists>device\<in>set (devices db). desired_revision_id device = Some rid) \<or> rid \<in> revision_id ` set (revisions db)"
    "rows_kept db db'"
  shows "consistent app db'"
  using assms unfolding consistent_def rows_kept_def by (metis (no_types, lifting))

lemma consistent_audit [simp]: "consistent app (audit a b c e db) = consistent app db"
  by (simp add: consistent_def)

lemma consistent_adds:
  assumes "consistent app db" "adds_revision app db r db'"
  shows "consistent app db'" "revisions db' = revisions db @ [r]"
  using assms unfolding consistent_def adds_revision_def
  by (auto simp: sorted_wrt_append less_Suc_eq)

lemma consistent_assign:
  assumes "consistent app db" "r \<in> set (revisions db)"
  shows "consistent app (assign_devices (revision_id r) db)"
  by (rule consistentI [OF assms(1)])
    (use assms(2) in \<open>auto simp: assign_devices_def rows_kept_def split: if_splits\<close>)

lemma consistent_rows:
  assumes "consistent app db" "db' = db\<lparr>drafts := ds\<rparr>" "rows_kept db db'"
  shows "consistent app db'"
  by (rule consistentI [OF assms(1) _ _ _ assms(3)]) (use assms(2) in auto)

text \<open>A save touches its own row only.\<close>

lemma store_v4_rows:
  assumes "store_draft_v4 d actor db = Inr (saved, db')"
  shows "\<exists>ds. db' = db\<lparr>drafts := ds\<rparr> \<and> rows_kept db db'"
proof -
  obtain row e where "db' = db\<lparr>drafts := (drafts db)(V4_DRAFT_ID \<mapsto> row)\<rparr>" "draft_document row = DocV4 e"
    using store_draft_v4_frame [OF assms] by blast
  then show ?thesis
    by (intro exI [of _ "(drafts db)(V4_DRAFT_ID \<mapsto> row)"]) (simp add: rows_kept_def V4_DRAFT_ID_def)
qed

lemma store_v3_rows:
  assumes "store_draft_v3 d actor db = Inr (saved, db')"
  shows "\<exists>ds. db' = db\<lparr>drafts := ds\<rparr> \<and> rows_kept db db'"
proof -
  obtain row e where "db' = db\<lparr>drafts := (drafts db)(1 \<mapsto> row)\<rparr>" "draft_document row = DocV3 e"
    using assms by (auto simp: store_defs write_draft_same split: if_splits)
  then show ?thesis
    by (intro exI [of _ "(drafts db)(1 \<mapsto> row)"]) (simp add: rows_kept_def V4_DRAFT_ID_def)
qed

section \<open>Requests keep the invariant\<close>

text \<open>The revisions only grow, no device is revoked, restored or activated, and the state stays consistent.\<close>

definition kept :: "app_state \<Rightarrow> database \<Rightarrow> database \<Rightarrow> bool" where
  "kept app db db' \<longleftrightarrow> consistent app db' \<and> (\<exists>rs. revisions db' = revisions db @ rs) \<and>
     map revoked (devices db') = map revoked (devices db) \<and>
     map active_revision_id (devices db') = map active_revision_id (devices db)"

lemma kept_refl: "consistent app db \<Longrightarrow> kept app db db"
  by (simp add: kept_def)

lemma kept_audit: "kept app db db' \<Longrightarrow> kept app db (audit a b c e db')"
  by (simp add: kept_def)

lemma kept_trans: "kept app db db1 \<Longrightarrow> kept app db1 db2 \<Longrightarrow> kept app db db2"
  by (auto simp: kept_def)

lemma kept_store_v4: "consistent app db \<Longrightarrow> store_draft_v4 d actor db = Inr (saved, db') \<Longrightarrow> kept app db db'"
  unfolding kept_def by (drule store_v4_rows) (auto intro: consistent_rows)

lemma kept_store_v3: "consistent app db \<Longrightarrow> store_draft_v3 d actor db = Inr (saved, db') \<Longrightarrow> kept app db db'"
  unfolding kept_def by (drule store_v3_rows) (auto intro: consistent_rows)

lemma kept_adds:
  assumes "consistent app db" "adds_revision app db r db'"
  shows "kept app db db'"
proof -
  have "devices db' = devices db" using assms(2) by (simp add: adds_revision_def)
  with consistent_adds [OF assms] show ?thesis by (simp add: kept_def)
qed

lemma kept_assign: "consistent app db \<Longrightarrow> r \<in> set (revisions db) \<Longrightarrow> kept app db (assign_devices (revision_id r) db)"
  using consistent_assign by (simp add: kept_def) (simp add: assign_devices_def comp_def)

text \<open>A publication: a new revision, perhaps a save of the draft, and the assignment to the devices.\<close>

lemma kept_publication:
  assumes "consistent app db" "adds_revision app db r db1" "kept app db1 db2"
  shows "kept app db (audit a b c e (assign_devices (revision_id r) db2))"
proof -
  have one: "kept app db db1" "r \<in> set (revisions db1)"
    using kept_adds [OF assms(1,2)] consistent_adds [OF assms(1,2)] by auto
  then have "r \<in> set (revisions db2)" using assms(3) by (auto simp: kept_def)
  then have "kept app db2 (assign_devices (revision_id r) db2)"
    using assms(3) by (intro kept_assign) (simp_all add: kept_def)
  with one assms(3) show ?thesis by (blast intro: kept_audit kept_trans)
qed

lemma initialize_v4_cases:
  assumes "initialize_v4_draft actor db = Inr (d, db')"
  shows "db' = db \<or> (\<exists>p. store_draft_v4 p actor db = Inr (d, db'))"
  using assms by (auto simp: initialize_v4_draft_def bind_result_Inr split: option.splits)

lemma get_draft_cases:
  assumes "get_draft_v4 actor db = Inr (d, db')"
  shows "db' = db \<or> (\<exists>db1 e. initialize_v4_draft actor db = Inr (d, db1) \<and>
    db' = audit actor ''draft.v4_cloned'' ''configuration'' e db1)"
  using assms
  by (auto simp: get_draft_v4_def clone_audited_def bind_result_Inr split: option.splits sum.splits service_error.splits)

lemma kept_get_v4:
  assumes "consistent app db" "get_draft_v4 actor db = Inr (d, db')"
  shows "kept app db db'"
  using get_draft_cases [OF assms(2)]
proof (elim disjE exE conjE)
  fix db1 e
  assume init: "initialize_v4_draft actor db = Inr (d, db1)"
    and db': "db' = audit actor ''draft.v4_cloned'' ''configuration'' e db1"
  from initialize_v4_cases [OF init] have "kept app db db1"
    by (auto intro: kept_refl [OF assms(1)] kept_store_v4 [OF assms(1)])
  then show ?thesis unfolding db' by (rule kept_audit)
qed (simp add: kept_refl [OF assms(1)])

lemma kept_put_v4:
  assumes "consistent app db" "put_draft_v4 e actor db = Inr (d, db')"
  shows "kept app db db'"
  using assms
  by (auto simp: put_draft_v4_def split: sum.splits service_error.splits prod.splits intro: kept_audit kept_store_v4)

lemma kept_put_v3:
  assumes "consistent app db" "put_draft_v3 e actor db = Inr (d, db')"
  shows "kept app db db'"
  using assms
  by (auto simp: put_draft_v3_def split: sum.splits service_error.splits prod.splits intro: kept_audit kept_store_v3)

lemma kept_publish_v4:
  assumes "consistent app db" "publish_draft_v4 app body actor now db = Inr (r, db')"
  shows "kept app db db'"
proof -
  obtain d where made: "validates app db d" "made_from app db d r"
    and db': "db' = audit actor ''revision.v4_published'' (''revision:'' @ str_nat (revision_id r)) []
       (assign_devices (revision_id r)
         (db\<lparr>revisions := revisions db @ [r], next_revision_id := next_revision_id db + 1\<rparr>))"
    using publish_Inr [OF assms(2)] by metis
  note adds = create_v4_adds [OF made(2,1)]
  from kept_publication [OF assms(1) adds kept_refl] consistent_adds [OF assms(1) adds] show ?thesis by (simp add: db')
qed

lemma kept_rollback_v4:
  assumes "consistent app db" "rollback_v4_revision app rid actor now db = Inr (r, db')"
  shows "kept app db db'"
proof -
  obtain source current d db1 saved db2 where "find_revision rid db = Some source"
    and made: "validates app db d" "made_from app db d r"
    and db1: "db1 = db\<lparr>revisions := revisions db @ [r], next_revision_id := next_revision_id db + 1\<rparr>"
    and store: "store_draft_v4 d actor db1 = Inr (saved, db2)"
    and db': "db' = audit actor ''revision.rollback_published'' (''revision:'' @ str_nat (revision_id r))
       [(''source_revision_id'', json_nat (revision_id source))] (assign_devices (revision_id r) db2)"
    by (rule rollback_Inr [OF assms(2)])
  have adds: "adds_revision app db r db1" using create_v4_adds [OF made(2,1)] db1 by simp
  from kept_publication [OF assms(1) adds kept_store_v4 [OF consistent_adds(1) [OF assms(1) adds] store]]
  show ?thesis by (simp add: db')
qed

lemma kept_publish_v3:
  assumes "consistent app db" "publish_draft_v3 app actor now db = Inr (r, db')"
  shows "kept app db db'"
proof -
  obtain d db1 where valid: "validates_v3 app db d"
    and create: "create_revision_v3 app d (prompts_for_configuration_v3 db d) actor None now db = Inr (r, db1)"
    and db': "db' = audit actor ''revision.v3_published'' (''revision:'' @ str_nat (revision_id r)) []
       (assign_devices (revision_id r) db1)"
    using assms(2) by (auto simp: publish_draft_v3_def bind_result_Inr no_errors_Inr validation_errors_v3_Nil)
  note adds = create_v3_adds [OF create valid]
  from kept_publication [OF assms(1) adds kept_refl] consistent_adds [OF assms(1) adds] show ?thesis by (simp add: db')
qed

lemma kept_rollback_v3:
  assumes "consistent app db" "rollback_v3_revision app rid actor now db = Inr (r, db')"
  shows "kept app db db'"
proof -
  obtain source d db1 saved db2 where "find_revision rid db = Some source" and valid: "validates_v3 app db d"
    and create: "create_revision_v3 app d (prompts_for_configuration_v3 db d) actor (Some (revision_id source)) now db = Inr (r, db1)"
    and store: "store_draft_v3 d actor db1 = Inr (saved, db2)"
    and db': "db' = audit actor ''revision.rollback_published'' (''revision:'' @ str_nat (revision_id r))
       [(''source_revision_id'', json_nat (revision_id source))] (assign_devices (revision_id r) db2)"
    using assms(2)
    by (auto simp: rollback_v3_revision_def bind_result_Inr no_errors_Inr validation_errors_v3_Nil
        split: option.splits if_splits)
  note adds = create_v3_adds [OF create valid]
  from kept_publication [OF assms(1) adds kept_store_v3 [OF consistent_adds(1) [OF assms(1) adds] store]]
  show ?thesis by (simp add: db')
qed

lemma kept_activate_v4:
  assumes "consistent app db" "activate_immutable_revision rid actor db = Inr (r, db')"
  shows "kept app db db'"
  using assms
  by (auto simp: activate_immutable_revision_def bind_result_Inr split: option.splits if_splits
      dest: find_revision_Some intro!: kept_audit kept_assign)

lemma kept_activate_v3:
  assumes "consistent app db" "activate_immutable_revision_v3 rid actor db = Inr (r, db')"
  shows "kept app db db'"
  using assms
  by (auto simp: activate_immutable_revision_v3_def split: option.splits if_splits
      dest: find_revision_Some intro!: kept_audit kept_assign)

lemmas kept_requests =
  kept_get_v4 kept_put_v4 kept_publish_v4 kept_rollback_v4 kept_activate_v4
  kept_put_v3 kept_publish_v3 kept_rollback_v3 kept_activate_v3

lemma admin_step_kept: "admin_step app db db' \<Longrightarrow> consistent app db \<Longrightarrow> kept app db db'"
  by (induction rule: admin_step.induct) (auto intro: kept_requests)

lemma admin_steps_kept:
  assumes "(admin_step app)\<^sup>*\<^sup>* db db'" "consistent app db"
  shows "kept app db db'"
  using assms
proof (induction rule: rtranclp_induct)
  case (step db1 db2)
  then show ?case using admin_step_kept [of app db1 db2] kept_trans [of app db db1 db2] by (auto simp: kept_def)
qed (rule kept_refl)

section \<open>All reachable states\<close>

text \<open>
  C4: Over any sequence of requests to the administration interfaces of releases 3 and 4 that starts in
  a consistent state: a stored revision is never changed or removed, revision numbers increase, every
  revision is sealed by the digest and signature of its manifest, and whatever revision a device is
  assigned exists and, when it is a V3 or V4 revision, is an accepted flow with its own program and a
  session of at most ten minutes.
\<close>

theorem admin_requests_safe:
  assumes "(admin_step app)\<^sup>*\<^sup>* db db'" "consistent app db"
  shows "(\<exists>rs. revisions db' = revisions db @ rs) \<and> sorted_wrt (<) (map revision_id (revisions db')) \<and>
    (\<forall>r\<in>set (revisions db'). safe_revision app r) \<and>
    (\<forall>device\<in>set (devices db'). \<forall>rid. desired_revision_id device = Some rid \<longrightarrow>
       (\<exists>r\<in>set (revisions db'). revision_id r = rid \<and> safe_revision app r))"
proof -
  have kept: "kept app db db'" by (rule admin_steps_kept [OF assms])
  moreover from kept have "\<exists>r\<in>set (revisions db'). revision_id r = rid \<and> safe_revision app r"
    if "device \<in> set (devices db')" "desired_revision_id device = Some rid" for device rid
    using that unfolding kept_def consistent_def by (metis imageE)
  ultimately show ?thesis unfolding kept_def consistent_def by blast
qed

theorem admin_requests_safe_witness:
  "\<exists>db'. admin_step demo_app demo_state db' \<and> revisions db' \<noteq> [] \<and> (\<forall>r\<in>set (revisions db'). safe_revision demo_app r)"
proof -
  obtain r db' where p: "publish_draft_v4 demo_app None ''admin'' ''now'' demo_state = Inr (r, db')"
    using demo_publishes by blast
  have start: "consistent demo_app demo_state"
    by (simp add: consistent_def demo_state_def empty_database_def demo_device_def V4_DRAFT_ID_def)
  have step: "admin_step demo_app demo_state db'" using p by (rule admin_step.publish_v4)
  from admin_requests_safe [OF r_into_rtranclp [of "admin_step demo_app", OF step] start]
  have "\<forall>r\<in>set (revisions db'). safe_revision demo_app r" by blast
  moreover have "revisions db' \<noteq> []" using publish_Inr [OF p] by fastforce
  ultimately show ?thesis using step by blast
qed

lemma clone_v4_total: "document_schema document \<noteq> 4 \<Longrightarrow> \<exists>p. clone_v4 document = Inr p \<and> edit_version p = 0"
  by (cases document) (auto simp: clone_v4_def)

lemma initialize_v4_total:
  assumes "consistent app db" "drafts db V4_DRAFT_ID = None"
  shows "\<exists>d db'. initialize_v4_draft actor db = Inr (d, db') \<and> load_draft_v4 db' = Inr d"
proof -
  obtain p where p: "edit_version p = 0" "initialize_v4_draft actor db = store_draft_v4 p actor db"
  proof (cases "drafts db 1")
    case (Some row)
    then have "document_schema (draft_document row) \<noteq> 4" using assms(1) by (simp add: consistent_def)
    then obtain q where "clone_v4 (draft_document row) = Inr q" "edit_version q = 0"
      using clone_v4_total by blast
    with Some assms(2) that show ?thesis by (simp add: initialize_v4_draft_def)
  next
    case None
    with assms(2) that [of default_DraftConfigurationV3] show ?thesis
      by (simp add: initialize_v4_draft_def default_DraftConfigurationV3_def)
  qed
  moreover have "draft_version_in V4_DRAFT_ID db = 0" using assms(2) by (simp add: current_version_def)
  ultimately obtain d db' where "store_draft_v4 p actor db = Inr (d, db')"
    using draft4.accepted [of p db actor] by auto
  with p(2) draft4.store_Inr(4) show ?thesis by auto
qed

text \<open>
  C37: In every state that the administration interfaces reach from a consistent one, asking for the V4
  draft succeeds, and the draft it returns is the one that is stored from then on.
\<close>

theorem draft_always_available:
  assumes "(admin_step app)\<^sup>*\<^sup>* db db'" "consistent app db"
  shows "\<exists>d db''. get_draft_v4 actor db' = Inr (d, db'') \<and> load_draft_v4 db'' = Inr d"
proof -
  have consistent: "consistent app db'" using admin_steps_kept [OF assms] by (simp add: kept_def)
  show ?thesis
  proof (cases "drafts db' V4_DRAFT_ID")
    case (Some row)
    with consistent obtain d where "draft_document row = DocV4 d"
      by (cases "draft_document row") (auto simp: consistent_def)
    with Some show ?thesis by (simp add: get_draft_v4_def load_draft_v4_def)
  next
    case None
    from initialize_v4_total [OF consistent None, of actor] None show ?thesis
      by (auto simp: get_draft_v4_def clone_audited_def load_draft_v4_def)
  qed
qed

theorem draft_always_available_witness:
  "\<exists>d db''. get_draft_v4 ''admin'' empty_database = Inr (d, db'') \<and> load_draft_v4 db'' = Inr d"
proof -
  have "consistent demo_app empty_database" by (simp add: consistent_def empty_database_def)
  then show ?thesis by (rule draft_always_available [OF rtranclp.rtrancl_refl])
qed

end
