(* ===== verification/Enrollment.thy ===== *)
theory Enrollment
  imports Revision_Store
begin

text \<open>
  Enrolment, authentication and revocation of devices (the pairing requests of
  \<^verbatim>\<open>src/server/app/main.py\<close> and \<^verbatim>\<open>require_device\<close> of \<^verbatim>\<open>src/server/app/auth.py\<close>).

  A rejected enrolment commits the failed attempt before it raises, so a request returns its outcome
  together with the new state. One clock reading serves a whole request; random numbers, the token and
  the identifiers that the request draws are its arguments, and the two digests are parameters.
\<close>

section \<open>State\<close>

record PairingCode =
  pairing_id :: string
  code_digest :: string
  pairing_name :: string
  expires_at :: int
  failures :: nat
  used_at :: "int option"
  created_by :: string

record EnrollmentAttempt =
  attempt_ip :: string
  succeeded :: bool
  attempted_at :: int

record enrollment_state =
  control :: database
  pairing_codes :: "PairingCode list"
  enrollment_attempts :: "EnrollmentAttempt list"

record enrollment_settings =
  production :: bool
  enrollment_code_ttl_seconds :: int
  enrollment_failure_window_seconds :: int
  enrollment_max_failures :: nat
  pairing_hmac :: "string \<Rightarrow> string"
  device_token_sha256 :: "string \<Rightarrow> string"

type_synonym 'a outcome = "(service_error + 'a) \<times> enrollment_state"

definition http_error :: "nat \<Rightarrow> string \<Rightarrow> service_error" where
  "http_error code detail = HTTPException code (JString detail)"

definition digest_pairing_code :: "enrollment_settings \<Rightarrow> string \<Rightarrow> string" where
  "digest_pairing_code settings code = pairing_hmac settings code"

definition digest_device_token :: "enrollment_settings \<Rightarrow> string \<Rightarrow> string" where
  "digest_device_token settings token = device_token_sha256 settings token"

section \<open>Pairing codes\<close>

text \<open>\<^verbatim>\<open>f"{n:08d}"\<close>.\<close>

definition eight_digits :: "nat \<Rightarrow> string" where
  "eight_digits n = zero_padded 8 (str_nat n)"

text \<open>The first of at most ten random codes that is not in use.\<close>

definition allocate_code :: "enrollment_settings \<Rightarrow> nat list \<Rightarrow> enrollment_state \<Rightarrow> string option" where
  "allocate_code settings draws s =
     find (\<lambda>code. digest_pairing_code settings code \<notin> set (map code_digest (pairing_codes s)))
       (map eight_digits (take 10 draws))"

definition create_pairing_code ::
  "enrollment_settings \<Rightarrow> string \<Rightarrow> string \<Rightarrow> nat list \<Rightarrow> string \<Rightarrow> int \<Rightarrow> enrollment_state \<Rightarrow> (string \<times> int) outcome" where
  "create_pairing_code settings name actor draws new_id now s =
     (case allocate_code settings draws s of
        None \<Rightarrow> (Inl (http_error 503 ''Could not allocate pairing code''), s)
      | Some code \<Rightarrow>
          let expiry = now + enrollment_code_ttl_seconds settings;
              pairing = \<lparr>pairing_id = new_id, code_digest = digest_pairing_code settings code, pairing_name = name,
                expires_at = expiry, failures = 0, used_at = None, created_by = actor\<rparr> in
          (Inr (code, expiry),
           s\<lparr>pairing_codes := pairing_codes s @ [pairing],
             control := audit actor ''device.pairing_code_created'' (''pairing:'' @ new_id) [] (control s)\<rparr>))"

section \<open>Enrolment\<close>

definition source_ip :: "enrollment_settings \<Rightarrow> string option \<Rightarrow> string option \<Rightarrow> string" where
  "source_ip settings client_host cf_ip =
     (if production settings \<and> truthy cf_ip then take 64 (the cf_ip)
      else take 64 (case client_host of None \<Rightarrow> ''unknown'' | Some host \<Rightarrow> host))"

definition recent_failures :: "enrollment_settings \<Rightarrow> string \<Rightarrow> int \<Rightarrow> enrollment_state \<Rightarrow> nat" where
  "recent_failures settings ip now s =
     length (filter (\<lambda>a. attempt_ip a = ip \<and> \<not> succeeded a \<and>
         attempted_at a \<ge> now - enrollment_failure_window_seconds settings) (enrollment_attempts s))"

text \<open>The change of the row of a pairing code.\<close>

definition update_pairing :: "string \<Rightarrow> (PairingCode \<Rightarrow> PairingCode) \<Rightarrow> enrollment_state \<Rightarrow> enrollment_state" where
  "update_pairing i f s = s\<lparr>pairing_codes := map (\<lambda>p. if pairing_id p = i then f p else p) (pairing_codes s)\<rparr>"

definition record_failed_enrollment :: "string \<Rightarrow> PairingCode option \<Rightarrow> int \<Rightarrow> enrollment_state \<Rightarrow> enrollment_state" where
  "record_failed_enrollment ip pairing now s =
     (let s = (case pairing of
            None \<Rightarrow> s
          | Some p \<Rightarrow> update_pairing (pairing_id p) (\<lambda>q. q\<lparr>failures := failures q + 1\<rparr>) s) in
      s\<lparr>enrollment_attempts := enrollment_attempts s @ [\<lparr>attempt_ip = ip, succeeded = False, attempted_at = now\<rparr>]\<rparr>)"

record DeviceEnrollmentRequest =
  request_code :: string
  request_device_name :: string
  request_app_version :: string
  request_helper_version :: string

definition pairing_valid :: "enrollment_settings \<Rightarrow> int \<Rightarrow> PairingCode \<Rightarrow> bool" where
  "pairing_valid settings now p \<longleftrightarrow>
     used_at p = None \<and> expires_at p > now \<and> failures p < enrollment_max_failures settings"

definition find_pairing :: "enrollment_settings \<Rightarrow> string \<Rightarrow> enrollment_state \<Rightarrow> PairingCode option" where
  "find_pairing settings code s =
     find (\<lambda>p. code_digest p = digest_pairing_code settings code) (pairing_codes s)"

definition new_device ::
  "enrollment_settings \<Rightarrow> DeviceEnrollmentRequest \<Rightarrow> PairingCode \<Rightarrow> string \<Rightarrow> string \<Rightarrow> database \<Rightarrow> Device" where
  "new_device settings body pairing token new_id db =
     \<lparr>device_id = new_id,
      display_name = (if pairing_name pairing \<noteq> [] then pairing_name pairing else request_device_name body),
      token_hash = digest_device_token settings token, app_version = request_app_version body,
      helper_version = request_helper_version body, device_status = [(''enrollment'', JString ''complete'')],
      desired_revision_id = (if revisions db = [] then None else Some (revision_id (last (revisions db)))),
      active_revision_id = None, revoked = False\<rparr>"

definition enroll_device ::
  "enrollment_settings \<Rightarrow> DeviceEnrollmentRequest \<Rightarrow> string \<Rightarrow> string \<Rightarrow> string \<Rightarrow> int \<Rightarrow> enrollment_state \<Rightarrow>
   (string \<times> string) outcome" where
  "enroll_device settings body ip token new_id now s =
     (if recent_failures settings ip now s \<ge> enrollment_max_failures settings
      then (Inl (http_error 429 ''Too many enrollment attempts''), s)
      else
        let pairing = find_pairing settings (request_code body) s in
        case (case pairing of Some p \<Rightarrow> if pairing_valid settings now p then Some p else None | None \<Rightarrow> None) of
          None \<Rightarrow>
            (Inl (http_error 401 ''Pairing code is invalid or expired''), record_failed_enrollment ip pairing now s)
        | Some p \<Rightarrow>
            if list_ex (\<lambda>d. \<not> revoked d) (devices (control s))
            then (Inl (http_error 409 ''Release one already has an enrolled tablet; revoke it before re-pairing''), s)
            else
              let db = control s;
                  device = new_device settings body p token new_id db;
                  s = update_pairing (pairing_id p) (\<lambda>q. q\<lparr>used_at := Some now\<rparr>) s in
              (Inr (new_id, token),
               s\<lparr>control := audit (''device:'' @ new_id) ''device.enrolled'' (''device:'' @ new_id) []
                   (db\<lparr>devices := devices db @ [device]\<rparr>),
                 enrollment_attempts := enrollment_attempts s @ [\<lparr>attempt_ip = ip, succeeded = True, attempted_at = now\<rparr>]\<rparr>))"

section \<open>Revocation and authentication\<close>

definition find_device :: "string \<Rightarrow> database \<Rightarrow> Device option" where
  "find_device i db = find (\<lambda>d. device_id d = i) (devices db)"

definition revoke_device :: "string \<Rightarrow> string \<Rightarrow> database \<Rightarrow> Device served" where
  "revoke_device i actor db =
     (case find_device i db of
        None \<Rightarrow> Inl (http_error 404 ''Device not found'')
      | Some device \<Rightarrow>
          Inr (device\<lparr>revoked := True\<rparr>,
               audit actor ''device.revoked'' (''device:'' @ i) []
                 (db\<lparr>devices := map (\<lambda>d. if device_id d = i then d\<lparr>revoked := True\<rparr> else d) (devices db)\<rparr>)))"

definition py_space :: "char \<Rightarrow> bool" where
  "py_space c \<longleftrightarrow> (let n = of_char c :: nat in 9 \<le> n \<and> n \<le> 13 \<or> 28 \<le> n \<and> n \<le> 32 \<or> n = 133 \<or> n = 160)"

definition py_strip :: "string \<Rightarrow> string" where
  "py_strip s = rev (dropWhile py_space (rev (dropWhile py_space s)))"

definition require_device :: "enrollment_settings \<Rightarrow> string option \<Rightarrow> database \<Rightarrow> service_error + Device" where
  "require_device settings authorization db =
     (if \<not> truthy authorization \<or> \<not> startswith (the authorization) ''Bearer ''
      then Inl (http_error 401 ''Device credential required'')
      else
        let token = py_strip (removeprefix ''Bearer '' (the authorization)) in
        if length token < 32 \<or> length token > 256 then Inl (http_error 401 ''Invalid device credential'')
        else case find (\<lambda>d. token_hash d = digest_device_token settings token) (devices db) of
          None \<Rightarrow> Inl (http_error 401 ''Device credential revoked'')
        | Some device \<Rightarrow>
            if revoked device then Inl (http_error 401 ''Device credential revoked'') else Inr device)"

end
