(* ===== verification/Device_Requests.thy ===== *)
theory Device_Requests
  imports Admin_Requests Enrollment
begin

text \<open>
  What enrolment guarantees, and the invariants of all sequences of administration, pairing, enrolment
  and revocation requests.
\<close>

section \<open>Enrolment\<close>

lemma enroll_Inr:
  assumes "enroll_device settings body ip token new_id now s = (Inr (i, t), s')"
  obtains p where "recent_failures settings ip now s < enrollment_max_failures settings"
    "find_pairing settings (request_code body) s = Some p" "pairing_valid settings now p"
    "\<forall>d\<in>set (devices (control s)). revoked d" "i = new_id" "t = token"
    "devices (control s') = devices (control s) @ [new_device settings body p token new_id (control s)]"
    "revisions (control s') = revisions (control s)"
    "next_revision_id (control s') = next_revision_id (control s)" "drafts (control s') = drafts (control s)"
    "pairing_codes s' = map (\<lambda>q. if pairing_id q = pairing_id p then q\<lparr>used_at := Some now\<rparr> else q) (pairing_codes s)"
  using assms
  by (auto simp: enroll_device_def Let_def update_pairing_def list_ex_iff not_le split: if_splits option.splits)

lemma enroll_Inl_control:
  assumes "enroll_device settings body ip token new_id now s = (Inl e, s')"
  shows "control s' = control s"
  using assms
  by (auto simp: enroll_device_def Let_def record_failed_enrollment_def update_pairing_def
      split: if_splits option.splits)

lemma find_map_same:
  assumes "\<And>x. P (f x) = P x"
  shows "find P (map f xs) = map_option f (find P xs)"
  by (induction xs) (auto simp: assms)

definition demo_settings :: enrollment_settings where
  "demo_settings = \<lparr>production = True, enrollment_code_ttl_seconds = 600, enrollment_failure_window_seconds = 900,
     enrollment_max_failures = 5, pairing_hmac = (\<lambda>s. s), device_token_sha256 = (\<lambda>s. s)\<rparr>"

definition demo_request :: DeviceEnrollmentRequest where
  "demo_request = \<lparr>request_code = ''12345678'', request_device_name = ''Tablet'', request_app_version = ''1'',
     request_helper_version = ''1''\<rparr>"

definition demo_pairing :: enrollment_state where
  "demo_pairing = \<lparr>control = empty_database,
     pairing_codes = [\<lparr>pairing_id = ''p'', code_digest = ''12345678'', pairing_name = ''Tablet'', expires_at = 600,
       failures = 0, used_at = None, created_by = ''admin''\<rparr>],
     enrollment_attempts = []\<rparr>"

lemma demo_enrolls: "\<exists>s'. enroll_device demo_settings demo_request ''ip'' ''token'' ''d'' 0 demo_pairing = (Inr (''d'', ''token''), s')"
  by (simp add: enroll_device_def recent_failures_def find_pairing_def pairing_valid_def demo_settings_def
      demo_request_def demo_pairing_def digest_pairing_code_def empty_database_def Let_def)

section \<open>All sequences of requests\<close>

inductive control_step :: "app_state \<Rightarrow> enrollment_settings \<Rightarrow> enrollment_state \<Rightarrow> enrollment_state \<Rightarrow> bool"
  for app settings where
  admin: "admin_step app (control s) db' \<Longrightarrow> control_step app settings s (s\<lparr>control := db'\<rparr>)"
| pair: "create_pairing_code settings name actor draws new_id now s = (out, s') \<Longrightarrow> control_step app settings s s'"
| enroll: "enroll_device settings body ip token new_id now s = (result, s') \<Longrightarrow> control_step app settings s s'"
| revoke: "revoke_device i actor (control s) = Inr (d, db') \<Longrightarrow> control_step app settings s (s\<lparr>control := db'\<rparr>)"

definition active_count :: "database \<Rightarrow> nat" where
  "active_count db = length (filter (\<lambda>d. \<not> revoked d) (devices db))"

lemma active_count_map: "active_count db = length (filter Not (map revoked (devices db)))"
  by (simp add: active_count_def filter_map comp_def)

definition one_device :: "app_state \<Rightarrow> database \<Rightarrow> bool" where
  "one_device app db \<longleftrightarrow> consistent app db \<and> active_count db \<le> 1"

lemma one_device_admin: "one_device app db \<Longrightarrow> admin_step app db db' \<Longrightarrow> one_device app db'"
  using admin_step_kept [of app db db'] by (auto simp: one_device_def kept_def active_count_map)

lemma one_device_revoke:
  assumes "one_device app db" "revoke_device i actor db = Inr (d, db')"
  shows "one_device app db'"
proof -
  have db': "devices db' = map (\<lambda>d. if device_id d = i then d\<lparr>revoked := True\<rparr> else d) (devices db)"
    "revisions db' = revisions db" "next_revision_id db' = next_revision_id db" "drafts db' = drafts db"
    using assms(2) by (auto simp: revoke_device_def split: option.splits)
  have "consistent app db'"
    by (rule consistentI [of app db])
      (use assms(1) db' in \<open>auto simp: one_device_def rows_kept_def split: if_splits\<close>)
  moreover have "length (filter (\<lambda>d. \<not> revoked d) (map (\<lambda>d. if device_id d = i then d\<lparr>revoked := True\<rparr> else d) ds))
      \<le> length (filter (\<lambda>d. \<not> revoked d) ds)" for ds :: "Device list"
    by (induction ds) auto
  then have "active_count db' \<le> active_count db" by (simp add: active_count_def db'(1))
  ultimately show ?thesis using assms(1) by (simp add: one_device_def)
qed

lemma one_device_enroll:
  assumes "one_device app (control s)" "enroll_device settings body ip token new_id now s = (result, s')"
  shows "one_device app (control s')"
proof (cases result)
  case (Inl e)
  then show ?thesis using enroll_Inl_control assms by metis
next
  case (Inr r)
  obtain i t where r: "r = (i, t)" by fastforce
  obtain p where p: "\<forall>d\<in>set (devices (control s)). revoked d"
    "devices (control s') = devices (control s) @ [new_device settings body p token new_id (control s)]"
    "revisions (control s') = revisions (control s)"
    "next_revision_id (control s') = next_revision_id (control s)" "drafts (control s') = drafts (control s)"
    by (rule enroll_Inr [of settings body ip token new_id now s i t s']) (use assms(2) Inr r in auto)
  have "consistent app (control s')"
    by (rule consistentI [of app "control s"])
      (use assms(1) p in \<open>auto simp: one_device_def rows_kept_def new_device_def split: if_splits\<close>)
  moreover have "active_count (control s') \<le> 1"
    using p(1,2) by (simp add: active_count_def filter_False)
  ultimately show ?thesis by (simp add: one_device_def)
qed

lemma one_device_pair:
  assumes "one_device app (control s)" "create_pairing_code settings name actor draws new_id now s = (out, s')"
  shows "one_device app (control s')"
  using assms
  by (auto simp: create_pairing_code_def Let_def one_device_def active_count_def split: option.splits)

lemma control_step_one_device: "control_step app settings s s' \<Longrightarrow> one_device app (control s) \<Longrightarrow> one_device app (control s')"
  by (induction rule: control_step.induct)
    (auto intro: one_device_admin one_device_revoke one_device_enroll one_device_pair)

text \<open>
  C6: Over any sequence of administration, pairing, enrolment and revocation requests that starts in a
  consistent state with at most one active device, there is never more than one active device, and the
  revision that any device is assigned is stored and safe to run.
\<close>

theorem at_most_one_active_device:
  assumes "(control_step app settings)\<^sup>*\<^sup>* s s'" "one_device app (control s)"
  shows "length (filter (\<lambda>d. \<not> revoked d) (devices (control s'))) \<le> 1 \<and>
    (\<forall>d\<in>set (devices (control s')). \<forall>rid. desired_revision_id d = Some rid \<longrightarrow>
       (\<exists>r\<in>set (revisions (control s')). revision_id r = rid \<and> safe_revision app r))"
proof -
  from assms have "one_device app (control s')"
    by (induction rule: rtranclp_induct) (auto intro: control_step_one_device)
  moreover from this have "\<exists>r\<in>set (revisions (control s')). revision_id r = rid \<and> safe_revision app r"
    if "d \<in> set (devices (control s'))" "desired_revision_id d = Some rid" for d rid
    using that unfolding one_device_def consistent_def by (metis imageE)
  ultimately show ?thesis unfolding one_device_def active_count_def by blast
qed

theorem at_most_one_active_device_witness:
  "\<exists>s'. control_step demo_app demo_settings demo_pairing s' \<and>
     length (filter (\<lambda>d. \<not> revoked d) (devices (control s'))) \<le> 1"
proof -
  obtain s' where e: "enroll_device demo_settings demo_request ''ip'' ''token'' ''d'' 0 demo_pairing = (Inr (''d'', ''token''), s')"
    using demo_enrolls by blast
  have step: "control_step demo_app demo_settings demo_pairing s'" using e by (rule control_step.enroll)
  have "one_device demo_app (control demo_pairing)"
    by (simp add: one_device_def consistent_def active_count_def demo_pairing_def empty_database_def)
  with at_most_one_active_device [OF r_into_rtranclp [of "control_step demo_app demo_settings", OF step]] step
  show ?thesis by blast
qed

section \<open>Pairing codes work once\<close>

text \<open>A code that has been used, and how it is refused.\<close>

definition spent :: "enrollment_settings \<Rightarrow> string \<Rightarrow> enrollment_state \<Rightarrow> bool" where
  "spent settings code s \<longleftrightarrow> (\<exists>p. find_pairing settings code s = Some p \<and> used_at p \<noteq> None)"

lemma spent_refused:
  assumes "spent settings (request_code body) s"
  shows "fst (enroll_device settings body ip token new_id now s) \<in>
    {Inl (http_error 429 ''Too many enrollment attempts''), Inl (http_error 401 ''Pairing code is invalid or expired'')}"
  using assms by (auto simp: spent_def enroll_device_def Let_def pairing_valid_def)

lemma spent_frame [simp]:
  "spent settings code (s\<lparr>control := db\<rparr>) = spent settings code s"
  "spent settings code (s\<lparr>enrollment_attempts := xs\<rparr>) = spent settings code s"
  by (simp_all add: spent_def find_pairing_def)

lemma spent_update:
  assumes "spent settings code s" "\<And>q. code_digest (f q) = code_digest q" "\<And>q. used_at q \<noteq> None \<Longrightarrow> used_at (f q) \<noteq> None"
  shows "spent settings code (update_pairing i f s)"
proof -
  have "find (\<lambda>p. code_digest p = x) (map (\<lambda>p. if pairing_id p = i then f p else p) ps) =
      map_option (\<lambda>p. if pairing_id p = i then f p else p) (find (\<lambda>p. code_digest p = x) ps)" for x ps
    by (rule find_map_same) (simp add: assms(2))
  then have "find_pairing settings code (update_pairing i f s) =
      map_option (\<lambda>p. if pairing_id p = i then f p else p) (find_pairing settings code s)"
    by (simp add: find_pairing_def update_pairing_def)
  moreover obtain p where "find_pairing settings code s = Some p" "used_at p \<noteq> None"
    using assms(1) unfolding spent_def by blast
  ultimately show ?thesis using assms(3) [of p] unfolding spent_def by simp
qed

lemma spent_enroll:
  assumes "enroll_device settings body ip token new_id now s = (result, s')" "spent settings code s"
  shows "spent settings code s'"
proof -
  have "spent settings code (update_pairing i (\<lambda>q. q\<lparr>failures := failures q + 1\<rparr>) s)"
    "spent settings code (update_pairing i (\<lambda>q. q\<lparr>used_at := Some now\<rparr>) s)" for i
    using spent_update [OF assms(2)] by simp_all
  with assms show ?thesis
    by (auto simp: enroll_device_def Let_def record_failed_enrollment_def split: if_splits option.splits)
qed

lemma find_append_Some: "find P xs = Some x \<Longrightarrow> find P (xs @ ys) = Some x"
  by (induction xs) (auto split: if_splits)

lemma spent_step: "control_step app settings s s' \<Longrightarrow> spent settings code s \<Longrightarrow> spent settings code s'"
proof (induction rule: control_step.induct)
  case (pair name actor draws new_id now s out s')
  then show ?case
    by (auto simp: create_pairing_code_def Let_def spent_def find_pairing_def find_append_Some split: option.splits)
next
  case (enroll body ip token new_id now s result s')
  then show ?case by (rule spent_enroll)
qed simp_all

text \<open>
  C7: A device is enrolled only with a pairing code that exists, is unused and unexpired and has fewer
  failures than the limit, from an address below the limit of recent failures, and while no other
  device is active. The code works once: after any further administration, pairing, enrolment and
  revocation requests, also when the device has been revoked, whoever presents the code again is told
  that it is not valid, or that there were too many attempts.
\<close>

theorem enrollment_guarded:
  assumes "enroll_device settings body ip token new_id now s = (Inr (i, t), s')"
  shows "(\<exists>p. find_pairing settings (request_code body) s = Some p \<and> used_at p = None \<and> expires_at p > now \<and>
      failures p < enrollment_max_failures settings) \<and>
    recent_failures settings ip now s < enrollment_max_failures settings \<and>
    (\<forall>d\<in>set (devices (control s)). revoked d) \<and>
    (\<forall>s'' body' ip' token' new_id' now'.
      (control_step app settings)\<^sup>*\<^sup>* s' s'' \<and> request_code body' = request_code body \<longrightarrow>
      fst (enroll_device settings body' ip' token' new_id' now' s'') \<in>
        {Inl (http_error 429 ''Too many enrollment attempts''), Inl (http_error 401 ''Pairing code is invalid or expired'')})"
proof -
  obtain p where p: "recent_failures settings ip now s < enrollment_max_failures settings"
    "find_pairing settings (request_code body) s = Some p" "pairing_valid settings now p"
    "\<forall>d\<in>set (devices (control s)). revoked d"
    "pairing_codes s' = map (\<lambda>q. if pairing_id q = pairing_id p then q\<lparr>used_at := Some now\<rparr> else q) (pairing_codes s)"
    by (rule enroll_Inr [OF assms])
  have "find_pairing settings (request_code body) s' = Some (p\<lparr>used_at := Some now\<rparr>)"
    using p(2) unfolding find_pairing_def p(5) by (subst find_map_same) auto
  then have used: "spent settings (request_code body) s'" by (simp add: spent_def)
  have "spent settings (request_code body) s''" if "(control_step app settings)\<^sup>*\<^sup>* s' s''" for s''
    using that used by (induction rule: rtranclp_induct) (auto intro: spent_step)
  with p show ?thesis by (auto simp: pairing_valid_def simp del: insert_iff intro!: spent_refused)
qed

theorem enrollment_guarded_witness:
  "\<exists>s' d db. enroll_device demo_settings demo_request ''ip'' ''token'' ''d'' 0 demo_pairing = (Inr (''d'', ''token''), s') \<and>
     revoke_device ''d'' ''admin'' (control s') = Inr (d, db) \<and>
     fst (enroll_device demo_settings demo_request ''other'' ''token2'' ''d2'' 1 (s'\<lparr>control := db\<rparr>)) \<in>
       {Inl (http_error 429 ''Too many enrollment attempts''), Inl (http_error 401 ''Pairing code is invalid or expired'')}"
proof -
  obtain s' where e: "enroll_device demo_settings demo_request ''ip'' ''token'' ''d'' 0 demo_pairing = (Inr (''d'', ''token''), s')"
    using demo_enrolls by blast
  have "\<exists>p. devices (control s') = devices (control demo_pairing) @ [new_device demo_settings demo_request p ''token'' ''d'' (control demo_pairing)]"
    by (rule enroll_Inr [OF e]) blast
  then obtain d db where r: "revoke_device ''d'' ''admin'' (control s') = Inr (d, db)"
    by (auto simp: revoke_device_def find_device_def demo_pairing_def empty_database_def new_device_def)
  have "(control_step demo_app demo_settings)\<^sup>*\<^sup>* s' (s'\<lparr>control := db\<rparr>)"
    by (intro r_into_rtranclp control_step.revoke [OF r])
  with enrollment_guarded [OF e, of demo_app] e r show ?thesis by blast
qed

section \<open>Credentials\<close>

text \<open>A revoked device is refused from then on.\<close>

lemma revoked_refused:
  assumes "revoke_device i actor db = Inr (d, db')" "require_device settings authorization db' = Inr e"
  shows "device_id e \<noteq> i"
  using assms
  by (auto simp: revoke_device_def require_device_def Let_def find_Some_iff split: option.splits if_splits)

end
