(* ===== verification/Recording_Cipher.thy ===== *)
theory Recording_Cipher
  imports Json
begin

text \<open>
  The encryption envelope of recordings (\<^verbatim>\<open>RecordingCipher\<close> of
  \<^verbatim>\<open>src/server/app/recording_service.py\<close>): versioned master keys, a key per recording, and the
  two wire formats \<^verbatim>\<open>magic + version + nonce + ciphertext\<close> of an upload chunk and of a stored
  recording.

  Bytes are strings (every character has a code point below 256). The authenticated cipher and the key
  derivation are third-party code: they are the fields of \<^verbatim>\<open>crypto_library\<close>, and what the
  format relies on is \<^verbatim>\<open>crypto_correct\<close>. The random nonce is an argument. The value that
  \<^verbatim>\<open>json.loads\<close> returns for the configured previous keys is an argument too,
  \<^verbatim>\<open>None\<close> when it raises.
\<close>

type_synonym bytes = string

text \<open>
  \<^verbatim>\<open>RecordingError message status_code\<close> is the error class of the recording service;
  \<^verbatim>\<open>OtherError\<close> is any other exception, by the name of its class.
\<close>

datatype recording_error =
    RecordingError string nat
  | OtherError string

type_synonym 'a recording_result = "recording_error + 'a"

section \<open>Numbers and text as bytes\<close>

definition from_big_endian :: "bytes \<Rightarrow> nat" where
  "from_big_endian bs = foldl (\<lambda>n b. 256 * n + of_char b) 0 bs"

definition from_little_endian :: "bytes \<Rightarrow> nat" where
  "from_little_endian bs = from_big_endian (rev bs)"

fun big_endian :: "nat \<Rightarrow> nat \<Rightarrow> bytes" where
  "big_endian 0 n = []"
| "big_endian (Suc w) n = big_endian w (n div 256) @ [char_of (n mod 256)]"

text \<open>\<^verbatim>\<open>n.to_bytes(width, "big")\<close>.\<close>

definition to_bytes :: "nat \<Rightarrow> int \<Rightarrow> bytes recording_result" where
  "to_bytes w n =
     (if 0 \<le> n \<and> n < 256 ^ w then Inr (big_endian w (nat n)) else Inl (OtherError ''OverflowError''))"

lemma length_big_endian [simp]: "length (big_endian w n) = w"
  by (induction w arbitrary: n) auto

lemma from_big_endian_append [simp]: "from_big_endian (bs @ [b]) = 256 * from_big_endian bs + of_char b"
  by (simp add: from_big_endian_def)

lemma big_endian_inverse: "n < 256 ^ w \<Longrightarrow> from_big_endian (big_endian w n) = n"
proof (induction w arbitrary: n)
  case 0
  then show ?case by (simp add: from_big_endian_def)
next
  case (Suc w)
  then have "n div 256 < 256 ^ w" by (simp add: less_mult_imp_div_less mult.commute)
  then show ?case using Suc by simp
qed

text \<open>\<^verbatim>\<open>s.encode("ascii")\<close>.\<close>

definition is_ascii :: "string \<Rightarrow> bool" where
  "is_ascii s = list_all (\<lambda>c. (of_char c :: nat) < 128) s"

definition encode_ascii :: "string \<Rightarrow> bytes recording_result" where
  "encode_ascii s = (if is_ascii s then Inr s else Inl (OtherError ''UnicodeEncodeError''))"

lemma is_ascii_append [simp]: "is_ascii (s @ t) \<longleftrightarrow> is_ascii s \<and> is_ascii t"
  by (simp add: is_ascii_def)

lemma is_ascii_Cons [simp]: "is_ascii (c # s) \<longleftrightarrow> (of_char c :: nat) < 128 \<and> is_ascii s"
  by (simp add: is_ascii_def)

lemma is_ascii_Nil [simp]: "is_ascii []"
  by (simp add: is_ascii_def)

lemma is_ascii_str_nat [simp]: "is_ascii (str_nat n)"
proof (induction n rule: str_nat.induct)
  case (1 n)
  then show ?case by (subst str_nat.simps) (auto simp: of_char_of)
qed

lemma is_ascii_str_int [simp]: "is_ascii (str_int i)"
  by (simp add: str_int_def)

text \<open>
  \<^verbatim>\<open>int(text)\<close>: surrounding white space, a sign, digits with single underscores between them,
  at most 4300 digits.
\<close>

definition is_space :: "char \<Rightarrow> bool" where
  "is_space c \<longleftrightarrow> (of_char c :: nat) \<in> {9..13} \<union> {28..32} \<union> {0x85, 0xA0}"

definition strip :: "string \<Rightarrow> string" where
  "strip s = rev (dropWhile is_space (rev (dropWhile is_space s)))"

definition is_digit :: "char \<Rightarrow> bool" where
  "is_digit c \<longleftrightarrow> (of_char c :: nat) \<in> {48..57}"

definition decimal_value :: "string \<Rightarrow> nat" where
  "decimal_value ds = foldl (\<lambda>n c. 10 * n + (of_char c - 48)) 0 ds"

text \<open>The digits of a literal; a single underscore may stand between two digits.\<close>

fun literal_digits :: "string \<Rightarrow> string option" where
  "literal_digits [] = None"
| "literal_digits [c] = (if is_digit c then Some [c] else None)"
| "literal_digits (c # d # cs) =
     (if \<not> is_digit c then None
      else map_option (Cons c) (literal_digits (if d = CHR ''_'' then cs else d # cs)))"

definition unsigned_int :: "string \<Rightarrow> nat option" where
  "unsigned_int s =
     (case literal_digits s of
        None \<Rightarrow> None
      | Some ds \<Rightarrow> if length ds > 4300 then None else Some (decimal_value ds))"

definition py_int :: "string \<Rightarrow> int option" where
  "py_int text =
     (case strip text of
        [] \<Rightarrow> None
      | c # cs \<Rightarrow>
          if c = CHR ''-'' then map_option (\<lambda>n. - int n) (unsigned_int cs)
          else if c = CHR ''+'' then map_option int (unsigned_int cs)
          else map_option int (unsigned_int (c # cs)))"

section \<open>Base64\<close>

definition base64_value :: "char \<Rightarrow> nat option" where
  "base64_value c =
     (let n = of_char c :: nat in
      if n \<in> {65..90} then Some (n - 65)
      else if n \<in> {97..122} then Some (n - 71)
      else if n \<in> {48..57} then Some (n + 4)
      else if c = CHR ''+'' then Some 62
      else if c = CHR ''/'' then Some 63
      else None)"

fun base64_quads :: "nat list \<Rightarrow> bytes" where
  "base64_quads (a # b # c # d # rest) =
     big_endian 3 (((a * 64 + b) * 64 + c) * 64 + d) @ base64_quads rest"
| "base64_quads [a, b, c] = big_endian 2 (((a * 64 + b) * 64 + c) div 4)"
| "base64_quads [a, b] = big_endian 1 ((a * 64 + b) div 16)"
| "base64_quads _ = []"

text \<open>
  \<^verbatim>\<open>base64.b64decode(text, validate=True)\<close>: data characters, then padding only, never padding
  first; the last group of two or three characters has exactly the padding it needs.
\<close>

definition b64decode :: "string \<Rightarrow> bytes option" where
  "b64decode text =
     (let data = takeWhile (\<lambda>c. base64_value c \<noteq> None) text;
          pads = dropWhile (\<lambda>c. base64_value c \<noteq> None) text in
      if list_all (\<lambda>c. c = CHR ''='') pads \<and> (data \<noteq> [] \<or> pads = []) \<and>
         (length data mod 4 = 0 \<or> length data mod 4 = 2 \<and> length pads = 2 \<or>
          length data mod 4 = 3 \<and> length pads = 1)
      then Some (base64_quads (map (the \<circ> base64_value) data))
      else None)"

section \<open>The cipher\<close>

record crypto_library =
  hkdf_sha256 :: "bytes \<Rightarrow> bytes \<Rightarrow> bytes"
  aesgcm_encrypt :: "bytes \<Rightarrow> bytes \<Rightarrow> bytes \<Rightarrow> bytes \<Rightarrow> bytes"
  aesgcm_decrypt :: "bytes \<Rightarrow> bytes \<Rightarrow> bytes \<Rightarrow> bytes \<Rightarrow> bytes option"

record RecordingCipher =
  master_keys :: "(int \<times> bytes) list"
  cipher_version :: int
  library :: crypto_library

definition UPLOAD_MAGIC :: bytes where
  "UPLOAD_MAGIC = ''IVRUP1'' @ [CHR 0x00]"

definition MEDIA_MAGIC :: bytes where
  "MEDIA_MAGIC = ''IVREC1'' @ [CHR 0x00]"

text \<open>One entry of the previous keys.\<close>

definition add_previous_key ::
  "int \<Rightarrow> string \<times> json \<Rightarrow> (int \<times> bytes) list \<Rightarrow> (string + (int \<times> bytes) list)" where
  "add_previous_key version entry keys =
     (case (py_int (fst entry), (case snd entry of JString raw \<Rightarrow> b64decode raw | _ \<Rightarrow> None)) of
        (Some previous_version, Some previous_key) \<Rightarrow>
          if previous_version < 1 \<or> previous_version = version \<or> length previous_key \<noteq> 32
          then Inl ''a previous recording encryption key version is invalid''
          else if previous_version \<in> set (map fst keys)
          then Inl ''a previous recording encryption key version is duplicated''
          else Inr (keys @ [(previous_version, previous_key)])
      | _ \<Rightarrow> Inl ''a previous recording encryption key is invalid'')"

text \<open>
  The constructor; the left summand is the message of the \<^verbatim>\<open>RuntimeError\<close> it raises.
\<close>

definition make_cipher :: "crypto_library \<Rightarrow> string \<Rightarrow> int \<Rightarrow> json option \<Rightarrow> string + RecordingCipher" where
  "make_cipher lib key_b64 version previous =
     (if version < 1 then Inl ''recording encryption key version is invalid''
      else case previous of
        None \<Rightarrow> Inl ''previous recording encryption keys are not valid JSON''
      | Some (JObject entries) \<Rightarrow>
          bind_result (run_result (map (add_previous_key version) entries) []) (\<lambda>keys.
            case b64decode key_b64 of
              None \<Rightarrow> Inl ''recording encryption key is not valid base64''
            | Some key \<Rightarrow>
                if length key \<noteq> 32 then Inl ''recording encryption key must decode to 32 bytes''
                else Inr \<lparr>master_keys = keys @ [(version, key)], cipher_version = version, library = lib\<rparr>)
      | Some _ \<Rightarrow> Inl ''previous recording encryption keys must be a JSON object'')"

definition recording_key :: "RecordingCipher \<Rightarrow> string \<Rightarrow> int \<Rightarrow> bytes recording_result" where
  "recording_key cipher recording_id version =
     (case map_of (master_keys cipher) version of
        None \<Rightarrow> Inl (RecordingError ''Recording key version is unavailable.'' 503)
      | Some master_key \<Rightarrow>
          bind_result (encode_ascii recording_id) (\<lambda>i.
            Inr (hkdf_sha256 (library cipher) master_key (''ivrdroid-recording:'' @ i))))"

definition encrypt_chunk :: "RecordingCipher \<Rightarrow> bytes \<Rightarrow> string \<Rightarrow> nat \<Rightarrow> bytes \<Rightarrow> bytes recording_result" where
  "encrypt_chunk cipher nonce recording_id offset plaintext =
     bind_result (encode_ascii
         (''upload:'' @ str_int (cipher_version cipher) @ '':'' @ recording_id @ '':'' @ str_nat offset)) (\<lambda>aad.
       bind_result (recording_key cipher recording_id (cipher_version cipher)) (\<lambda>key.
         bind_result (to_bytes 4 (cipher_version cipher)) (\<lambda>version.
           Inr (UPLOAD_MAGIC @ version @ nonce @ aesgcm_encrypt (library cipher) key nonce plaintext aad))))"

definition decrypt_chunk :: "RecordingCipher \<Rightarrow> string \<Rightarrow> nat \<Rightarrow> bytes \<Rightarrow> bytes recording_result" where
  "decrypt_chunk cipher recording_id offset payload =
     (let position = length UPLOAD_MAGIC in
      if length payload < length UPLOAD_MAGIC + 4 + 12 + 16 \<or> take position payload \<noteq> UPLOAD_MAGIC
      then Inl (RecordingError ''Encrypted upload chunk is malformed.'' 503)
      else
        let version = int (from_big_endian (take 4 (drop position payload)));
            nonce = take 12 (drop (position + 4) payload);
            ciphertext = drop (position + 16) payload in
        bind_result (encode_ascii
            (''upload:'' @ str_int version @ '':'' @ recording_id @ '':'' @ str_nat offset)) (\<lambda>aad.
          bind_result (recording_key cipher recording_id version) (\<lambda>key.
            case aesgcm_decrypt (library cipher) key nonce ciphertext aad of
              None \<Rightarrow> Inl (RecordingError ''Encrypted upload chunk failed authentication.'' 503)
            | Some plaintext \<Rightarrow> Inr plaintext)))"

definition encrypt_media :: "RecordingCipher \<Rightarrow> bytes \<Rightarrow> string \<Rightarrow> bytes \<Rightarrow> bytes recording_result" where
  "encrypt_media cipher nonce recording_id plaintext =
     bind_result (encode_ascii (''media:'' @ str_int (cipher_version cipher) @ '':'' @ recording_id)) (\<lambda>aad.
       bind_result (recording_key cipher recording_id (cipher_version cipher)) (\<lambda>key.
         bind_result (to_bytes 4 (cipher_version cipher)) (\<lambda>version.
           Inr (MEDIA_MAGIC @ version @ nonce @ aesgcm_encrypt (library cipher) key nonce plaintext aad))))"

definition decrypt_media :: "RecordingCipher \<Rightarrow> string \<Rightarrow> bytes \<Rightarrow> bytes recording_result" where
  "decrypt_media cipher recording_id payload =
     (let position = length MEDIA_MAGIC in
      if length payload < length MEDIA_MAGIC + 4 + 12 + 16 \<or> take position payload \<noteq> MEDIA_MAGIC
      then Inl (RecordingError ''Encrypted recording is malformed.'' 503)
      else
        let version = int (from_big_endian (take 4 (drop position payload)));
            nonce = take 12 (drop (position + 4) payload) in
        bind_result (encode_ascii (''media:'' @ str_int version @ '':'' @ recording_id)) (\<lambda>aad.
          bind_result (recording_key cipher recording_id version) (\<lambda>key.
            case aesgcm_decrypt (library cipher) key nonce (drop (position + 16) payload) aad of
              None \<Rightarrow> Inl (RecordingError ''Encrypted recording failed authentication.'' 503)
            | Some plaintext \<Rightarrow> Inr plaintext)))"

definition media_version :: "bytes \<Rightarrow> int recording_result" where
  "media_version payload =
     (if length payload < length MEDIA_MAGIC + 4 \<or> take (length MEDIA_MAGIC) payload \<noteq> MEDIA_MAGIC
      then Inl (RecordingError ''Encrypted recording is malformed.'' 503)
      else Inr (int (from_big_endian (take 4 (drop (length MEDIA_MAGIC) payload)))))"

section \<open>Round trips\<close>

text \<open>
  What the wire formats rely on: decryption with the same key, nonce and associated data inverts
  encryption, and the ciphertext carries a tag of 16 bytes.
\<close>

definition crypto_correct :: "crypto_library \<Rightarrow> bool" where
  "crypto_correct lib \<longleftrightarrow>
     (\<forall>key nonce plaintext aad.
        aesgcm_decrypt lib key nonce (aesgcm_encrypt lib key nonce plaintext aad) aad = Some plaintext \<and>
        length (aesgcm_encrypt lib key nonce plaintext aad) = length plaintext + 16)"

lemma crypto_decrypt [simp]:
  "crypto_correct lib \<Longrightarrow> aesgcm_decrypt lib key nonce (aesgcm_encrypt lib key nonce p aad) aad = Some p"
  by (simp add: crypto_correct_def)

lemma crypto_length [simp]:
  "crypto_correct lib \<Longrightarrow> length (aesgcm_encrypt lib key nonce p aad) = length p + 16"
  by (simp add: crypto_correct_def)

text \<open>A cipher that can write: its own version fits the header and has a key.\<close>

definition cipher_ready :: "RecordingCipher \<Rightarrow> bool" where
  "cipher_ready cipher \<longleftrightarrow>
     crypto_correct (library cipher) \<and> 0 \<le> cipher_version cipher \<and> cipher_version cipher < 2 ^ 32 \<and>
     map_of (master_keys cipher) (cipher_version cipher) \<noteq> None"

text \<open>A cipher that can read what another cipher wrote: it kept the key of that version.\<close>

definition keeps_key :: "RecordingCipher \<Rightarrow> RecordingCipher \<Rightarrow> bool" where
  "keeps_key old new \<longleftrightarrow>
     library new = library old \<and>
     map_of (master_keys new) (cipher_version old) = map_of (master_keys old) (cipher_version old)"

lemma keeps_key_refl [simp]: "keeps_key cipher cipher"
  by (simp add: keeps_key_def)

lemma version_bytes:
  assumes c: "cipher_ready cipher"
  shows "to_bytes 4 (cipher_version cipher) = Inr (big_endian 4 (nat (cipher_version cipher))) \<and>
     int (from_big_endian (big_endian 4 (nat (cipher_version cipher)))) = cipher_version cipher"
proof
  show "to_bytes 4 (cipher_version cipher) = Inr (big_endian 4 (nat (cipher_version cipher)))"
    using c by (simp add: cipher_ready_def to_bytes_def)
  have "nat (cipher_version cipher) < 256 ^ 4" using c by (simp add: cipher_ready_def nat_less_iff)
  then show "int (from_big_endian (big_endian 4 (nat (cipher_version cipher)))) = cipher_version cipher"
    using c by (simp add: big_endian_inverse cipher_ready_def)
qed

lemma magic_length [simp]: "length UPLOAD_MAGIC = 7" "length MEDIA_MAGIC = 7"
  by (simp_all add: UPLOAD_MAGIC_def MEDIA_MAGIC_def)

text \<open>Taking an envelope apart.\<close>

lemma envelope:
  assumes "length m = 7" "length v = 4" "length n = 12"
  shows "take 7 (m @ v @ n @ c) = m" "take 4 (drop 7 (m @ v @ n @ c)) = v"
    "take 12 (drop 11 (m @ v @ n @ c)) = n" "drop 23 (m @ v @ n @ c) = c"
  using assms by simp_all

lemma recording_key_ready:
  assumes "cipher_ready cipher" "is_ascii i"
  obtains key where "recording_key cipher i (cipher_version cipher) = Inr key"
  using assms by (auto simp: cipher_ready_def recording_key_def encode_ascii_def)

lemma recording_key_kept:
  "keeps_key old new \<Longrightarrow> recording_key new i (cipher_version old) = recording_key old i (cipher_version old)"
  by (auto simp: keeps_key_def recording_key_def split: option.splits)

text \<open>
  A chunk that was written decrypts to its plaintext, by the cipher that wrote it and by every later
  cipher that kept the key.
\<close>

lemma chunk_round_trip:
  assumes "cipher_ready cipher" "is_ascii i" "length nonce = 12"
  obtains payload where "encrypt_chunk cipher nonce i offset plaintext = Inr payload"
    "length payload = length plaintext + 39"
    "\<And>new. keeps_key cipher new \<Longrightarrow> decrypt_chunk new i offset payload = Inr plaintext"
proof -
  obtain key where key: "recording_key cipher i (cipher_version cipher) = Inr key"
    using recording_key_ready [OF assms(1,2)] by blast
  have lib: "crypto_correct (library cipher)" using assms(1) by (simp add: cipher_ready_def)
  let ?aad = "''upload:'' @ str_int (cipher_version cipher) @ '':'' @ i @ '':'' @ str_nat offset"
  let ?v = "big_endian 4 (nat (cipher_version cipher))"
  let ?p = "UPLOAD_MAGIC @ ?v @ nonce @ aesgcm_encrypt (library cipher) key nonce plaintext ?aad"
  have e: "encrypt_chunk cipher nonce i offset plaintext = Inr ?p"
    using version_bytes [OF assms(1)] by (simp add: encrypt_chunk_def encode_ascii_def assms(2) key)
  have "decrypt_chunk new i offset ?p = Inr plaintext" if "keeps_key cipher new" for new
  proof -
    have "library new = library cipher" using that by (simp add: keeps_key_def)
    then show ?thesis
      using version_bytes [OF assms(1)] lib assms(3)
      by (simp add: decrypt_chunk_def encode_ascii_def assms(2) key recording_key_kept [OF that] envelope)
  qed
  with e show thesis using that [of ?p] lib assms(3) by simp
qed

lemma media_round_trip:
  assumes "cipher_ready cipher" "is_ascii i" "length nonce = 12"
  obtains payload where "encrypt_media cipher nonce i plaintext = Inr payload"
    "length payload = length plaintext + 39" "media_version payload = Inr (cipher_version cipher)"
    "\<And>new. keeps_key cipher new \<Longrightarrow> decrypt_media new i payload = Inr plaintext"
proof -
  obtain key where key: "recording_key cipher i (cipher_version cipher) = Inr key"
    using recording_key_ready [OF assms(1,2)] by blast
  have lib: "crypto_correct (library cipher)" using assms(1) by (simp add: cipher_ready_def)
  let ?aad = "''media:'' @ str_int (cipher_version cipher) @ '':'' @ i"
  let ?v = "big_endian 4 (nat (cipher_version cipher))"
  let ?p = "MEDIA_MAGIC @ ?v @ nonce @ aesgcm_encrypt (library cipher) key nonce plaintext ?aad"
  have e: "encrypt_media cipher nonce i plaintext = Inr ?p"
    using version_bytes [OF assms(1)] by (simp add: encrypt_media_def encode_ascii_def assms(2) key)
  have "decrypt_media new i ?p = Inr plaintext" if "keeps_key cipher new" for new
  proof -
    have "library new = library cipher" using that by (simp add: keeps_key_def)
    then show ?thesis
      using version_bytes [OF assms(1)] lib assms(3)
      by (simp add: decrypt_media_def encode_ascii_def assms(2) key recording_key_kept [OF that] envelope)
  qed
  moreover have "media_version ?p = Inr (cipher_version cipher)"
    using version_bytes [OF assms(1)] by (simp add: media_version_def)
  ultimately show thesis using e that [of ?p] lib assms(3) by simp
qed

end
