(* ===== verification/Audit_Reports.thy ===== *)
theory Audit_Reports
  imports Prelude
begin

text \<open>
  The receipt of a whole-call recording, as \<^verbatim>\<open>SessionAuditReport\<close> of
  \<^verbatim>\<open>src/server/app/schemas.py\<close> describes it. A call stores the receipt that its device reported,
  and the recording that is uploaded for it stores a copy.
\<close>

record SessionAuditEvent =
  audit_offset_ms :: nat
  audit_type :: string
  audit_block_id :: "string option"
  audit_detail :: string

record SessionAuditReport =
  report_recording_id :: "string option"
  report_policy_version :: nat
  report_state :: string
  report_captured_at :: "string option"
  report_duration_ms :: nat
  report_partial :: bool
  report_stop_reason :: string
  report_events :: "SessionAuditEvent list"

end
