(* ===== verification/Recording_Storage.thy ===== *)
theory Recording_Storage
  imports Recording_Cipher Audit_Reports
begin

text \<open>
  The recording volume (\<^verbatim>\<open>src/server/app/recording_service.py\<close>): the media files below the
  recording root, the upload directories below \<^verbatim>\<open>.uploads\<close> with one encrypted file per chunk,
  and the operations that write, read, quarantine and recover them.

  Storage is a list of named entries in the order in which a directory listing returns them. An entry
  has what \<^verbatim>\<open>lstat\<close> reports; a symbolic link also tells whether its target exists, which is
  what \<^verbatim>\<open>Path.exists\<close> sees. Writing a temporary file and renaming it over its destination is
  one update: the temporary file never outlives the call. Flushing has no effect on the model. Clock
  readings, nonces and fresh names are arguments.
\<close>

section \<open>Entries\<close>

datatype file_kind = RegularFile | DirectoryEntry | SymbolicLink bool | SpecialFile

record entry =
  entry_kind :: file_kind
  entry_uid :: nat
  entry_mode :: nat

record disk_file = entry +
  file_content :: bytes

record directory = entry +
  children :: "(string \<times> disk_file) list"

record storage =
  media :: "(string \<times> disk_file) list"
  uploads :: "(string \<times> directory) list"

record recording_settings =
  geteuid :: nat
  recording_quota_bytes :: nat
  recording_upload_limit_bytes :: nat
  recording_chunk_limit_bytes :: nat
  recording_abandoned_upload_hours :: int
  development_admin_email :: string
  content_sha256 :: "bytes \<Rightarrow> string"

text \<open>\<^verbatim>\<open>details.st_mode & 0o077\<close> is the value of the six lowest bits.\<close>

definition owned_privately :: "recording_settings \<Rightarrow> 'a entry_scheme \<Rightarrow> bool" where
  "owned_privately settings e \<longleftrightarrow> entry_uid e = geteuid settings \<and> entry_mode e mod 64 = 0"

definition require_safe_directory :: "recording_settings \<Rightarrow> 'a entry_scheme option \<Rightarrow> unit recording_result" where
  "require_safe_directory settings path =
     (case path of
        None \<Rightarrow> Inl (RecordingError ''Upload storage is unavailable.'' 503)
      | Some details \<Rightarrow>
          if entry_kind details \<noteq> DirectoryEntry
          then Inl (RecordingError ''Upload storage is not a private directory.'' 503)
          else if \<not> owned_privately settings details
          then Inl (RecordingError ''Upload storage ownership or permissions are unsafe.'' 503)
          else Inr ())"

text \<open>The entry itself is returned, for the caller that goes on to read it.\<close>

definition require_safe_file :: "recording_settings \<Rightarrow> disk_file option \<Rightarrow> disk_file recording_result" where
  "require_safe_file settings path =
     (case path of
        None \<Rightarrow> Inl (RecordingError ''Recording storage is unavailable.'' 503)
      | Some details \<Rightarrow>
          if entry_kind details \<noteq> RegularFile
          then Inl (RecordingError ''Recording storage is not a regular file.'' 503)
          else if \<not> owned_privately settings details
          then Inl (RecordingError ''Recording storage ownership or permissions are unsafe.'' 503)
          else Inr details)"

definition path_exists :: "'a entry_scheme option \<Rightarrow> bool" where
  "path_exists path =
     (case path of
        None \<Rightarrow> False
      | Some e \<Rightarrow> (case entry_kind e of SymbolicLink target \<Rightarrow> target | _ \<Rightarrow> True))"

definition private_file :: "recording_settings \<Rightarrow> bytes \<Rightarrow> disk_file" where
  "private_file settings content =
     \<lparr>entry_kind = RegularFile, entry_uid = geteuid settings, entry_mode = 384, file_content = content\<rparr>"

definition private_directory :: "recording_settings \<Rightarrow> directory" where
  "private_directory settings =
     \<lparr>entry_kind = DirectoryEntry, entry_uid = geteuid settings, entry_mode = 448, children = []\<rparr>"

lemma require_safe_file_Inr:
  "require_safe_file settings path = Inr f \<longleftrightarrow>
     path = Some f \<and> entry_kind f = RegularFile \<and> owned_privately settings f"
  by (auto simp: require_safe_file_def split: option.splits)

lemma private_file_safe [simp]:
  "require_safe_file settings (Some (private_file settings content)) = Inr (private_file settings content)"
  "file_content (private_file settings content) = content"
  by (simp_all add: require_safe_file_def private_file_def owned_privately_def)

lemma safe_file_exists: "require_safe_file settings path = Inr f \<Longrightarrow> path_exists path"
  by (simp add: require_safe_file_Inr path_exists_def)

section \<open>Rows\<close>

text \<open>
  The columns that an upload of a voicemail and an upload of a conversation segment share; the upload
  routines use only these.
\<close>

record upload_row =
  expected_size_bytes :: nat
  upload_offset :: nat
  storage_name :: string
  source_sha256 :: string
  upload_updated_at :: int

record RecordingUpload = upload_row +
  upload_recording_id :: string

record ConversationRecordingSegment = upload_row +
  segment_recording_id :: string
  segment_index :: nat
  segment_captured_at :: int
  segment_duration_ms :: nat
  segment_stop_reason :: string
  segment_partial :: bool
  segment_status :: string

record Recording =
  recording_id :: string
  recording_device_id :: string
  recording_call_id :: string
  recording_revision_id :: "nat option"
  recording_block_id :: "string option"
  recording_sequence :: int
  recording_kind :: string
  audit_metadata :: "SessionAuditReport option"
  recording_operator :: "string option"
  recording_operator_last4 :: string
  recording_segment_count :: nat
  recording_captured_at :: int
  recording_duration_ms :: nat
  recording_stop_reason :: string
  recording_source_size_bytes :: nat
  recording_source_sha256 :: string
  recording_status :: string
  recording_source_format :: string
  recording_partial :: bool
  media_key_version :: "int option"
  media_storage_name :: "string option"
  media_size_bytes :: "nat option"
  media_sha256 :: "string option"
  listened_at :: "int option"
  deleted_at :: "int option"
  deletion_reason :: "string option"
  processing_error :: "string option"
  recording_updated_at :: int

section \<open>Uploads in chunks\<close>

definition hex_char :: "char \<Rightarrow> bool" where
  "hex_char c \<longleftrightarrow> c \<in> set ''0123456789abcdef''"

fun hex :: "nat \<Rightarrow> string" where
  "hex n = (if n < 16 then [hex_digit n] else hex (n div 16) @ [hex_digit (n mod 16)])"

declare hex.simps [simp del]

text \<open>\<^verbatim>\<open>f"{offset:012x}.chunk"\<close>.\<close>

definition chunk_name :: "nat \<Rightarrow> string" where
  "chunk_name offset = zero_padded 12 (hex offset) @ ''.chunk''"

definition create_upload_directory :: "recording_settings \<Rightarrow> string \<Rightarrow> storage \<Rightarrow> storage recording_result" where
  "create_upload_directory settings name disk =
     (if map_of (uploads disk) name \<noteq> None then Inl (OtherError ''FileExistsError'')
      else Inr (disk\<lparr>uploads := uploads disk @ [(name, private_directory settings)]\<rparr>))"

definition upload_directory :: "recording_settings \<Rightarrow> 'a upload_row_scheme \<Rightarrow> storage \<Rightarrow> directory recording_result" where
  "upload_directory settings upload disk =
     (if length (storage_name upload) \<noteq> 32 \<or> \<not> list_all hex_char (storage_name upload)
      then Inl (RecordingError ''Upload storage metadata is invalid.'' 503)
      else
        let path = map_of (uploads disk) (storage_name upload) in
        bind_result (require_safe_directory settings path) (\<lambda>_. Inr (the path)))"

text \<open>Reading one chunk of an upload: the file must be safe and authentic.\<close>

definition read_chunk ::
  "recording_settings \<Rightarrow> RecordingCipher \<Rightarrow> string \<Rightarrow> directory \<Rightarrow> nat \<Rightarrow> bytes recording_result" where
  "read_chunk settings cipher identity d offset =
     bind_result (require_safe_file settings (map_of (children d) (chunk_name offset))) (\<lambda>f.
       decrypt_chunk cipher identity offset (file_content f))"

definition write_chunk :: "recording_settings \<Rightarrow> string \<Rightarrow> nat \<Rightarrow> bytes \<Rightarrow> directory \<Rightarrow> storage \<Rightarrow> storage" where
  "write_chunk settings name offset content d disk =
     disk\<lparr>uploads := AList.update name
        (d\<lparr>children := AList.update (chunk_name offset) (private_file settings content) (children d)\<rparr>) (uploads disk)\<rparr>"

definition store_chunk ::
  "recording_settings \<Rightarrow> RecordingCipher \<Rightarrow> string option \<Rightarrow> bytes \<Rightarrow> int \<Rightarrow> nat \<Rightarrow> bytes \<Rightarrow>
   Recording \<times> 'a upload_row_scheme \<times> storage \<Rightarrow> (Recording \<times> 'a upload_row_scheme \<times> storage) recording_result" where
  "store_chunk settings cipher cipher_identity nonce now offset plaintext s =
     (case s of (recording, upload, disk) \<Rightarrow>
      if plaintext = [] then Inl (RecordingError ''Recording chunk is empty.'' 422)
      else if length plaintext > recording_chunk_limit_bytes settings
      then Inl (RecordingError ''Recording chunk exceeds 1 MiB.'' 413)
      else if offset + length plaintext > expected_size_bytes upload
      then Inl (RecordingError ''Recording chunk exceeds the declared size.'' 413)
      else bind_result (upload_directory settings upload disk) (\<lambda>d.
        let destination = map_of (children d) (chunk_name offset);
            identity = (if truthy cipher_identity then the cipher_identity else recording_id recording) in
        if offset < upload_offset upload
        then (if \<not> path_exists destination
              then Inl (RecordingError ''Upload replay does not match stored content.'' 409)
              else bind_result (read_chunk settings cipher identity d offset) (\<lambda>existing.
                if existing \<noteq> plaintext \<or> offset + length plaintext > upload_offset upload
                then Inl (RecordingError ''Upload replay does not match stored content.'' 409)
                else Inr (recording, upload, disk)))
        else if offset \<noteq> upload_offset upload
        then Inl (RecordingError ''Upload offset does not match the server offset.'' 409)
        else bind_result (encrypt_chunk cipher nonce identity offset plaintext) (\<lambda>encrypted.
          bind_result
            (if path_exists destination
             then bind_result (read_chunk settings cipher identity d offset) (\<lambda>existing.
               if existing \<noteq> plaintext
               then Inl (RecordingError ''A different chunk already exists at this offset.'' 409)
               else Inr disk)
             else Inr (write_chunk settings (storage_name upload) offset encrypted d disk)) (\<lambda>disk.
            Inr (recording\<lparr>recording_updated_at := now\<rparr>,
                 upload\<lparr>upload_offset := offset + length plaintext, upload_updated_at := now\<rparr>, disk)))))"

text \<open>
  The loop that reads the chunks back, from one offset to the declared size; the error is the one that
  the calling routine raises for an empty or overlong chunk.
\<close>

function read_chunks ::
  "(nat \<Rightarrow> bytes recording_result) \<Rightarrow> recording_error \<Rightarrow> nat \<Rightarrow> nat \<Rightarrow> bytes list recording_result" where
  "read_chunks read inconsistent expected offset =
     (if offset < expected
      then bind_result (read offset) (\<lambda>plaintext.
        if plaintext = [] \<or> offset + length plaintext > expected then Inl inconsistent
        else bind_result (read_chunks read inconsistent expected (offset + length plaintext)) (\<lambda>rest.
          Inr (plaintext # rest)))
      else Inr [])"
  by pat_completeness auto
termination
  by (relation "measure (\<lambda>(read, inconsistent, expected, offset). expected - offset)") (auto simp: neq_Nil_conv)

declare read_chunks.simps [simp del]

definition read_uploaded_wav ::
  "recording_settings \<Rightarrow> RecordingCipher \<Rightarrow> string option \<Rightarrow> Recording \<Rightarrow> 'a upload_row_scheme \<Rightarrow> storage \<Rightarrow>
   bytes recording_result" where
  "read_uploaded_wav settings cipher cipher_identity recording upload disk =
     (if upload_offset upload \<noteq> expected_size_bytes upload
      then Inl (RecordingError ''Recording upload is incomplete.'' 409)
      else bind_result (upload_directory settings upload disk) (\<lambda>d.
        let identity = (if truthy cipher_identity then the cipher_identity else recording_id recording) in
        bind_result (read_chunks (read_chunk settings cipher identity d)
            (RecordingError ''Encrypted upload chunks are inconsistent.'' 422) (expected_size_bytes upload) 0) (\<lambda>chunks.
          let source = concat chunks in
          if length source \<noteq> expected_size_bytes upload
          then Inl (RecordingError ''Recording size does not match its receipt.'' 422)
          else if content_sha256 settings source \<noteq> source_sha256 upload
          then Inl (RecordingError ''Recording hash does not match its receipt.'' 422)
          else Inr source)))"

text \<open>
  Decrypting one conversation segment into a private file of the workspace; the model returns the
  content of that file, which a failure removes.
\<close>

definition write_uploaded_wav_to_path ::
  "recording_settings \<Rightarrow> RecordingCipher \<Rightarrow> ConversationRecordingSegment \<Rightarrow> storage \<Rightarrow> bytes recording_result" where
  "write_uploaded_wav_to_path settings cipher segment disk =
     (if upload_offset segment \<noteq> expected_size_bytes segment
      then Inl (RecordingError ''Conversation segment upload is incomplete.'' 409)
      else bind_result (upload_directory settings segment disk) (\<lambda>d.
        let identity = segment_recording_id segment @ '':'' @ str_nat (segment_index segment) in
        bind_result (read_chunks (read_chunk settings cipher identity d)
            (RecordingError ''Encrypted conversation chunks are inconsistent.'' 422) (expected_size_bytes segment) 0) (\<lambda>chunks.
          let written = concat chunks in
          if length written \<noteq> expected_size_bytes segment
          then Inl (RecordingError ''Conversation segment size does not match its receipt.'' 422)
          else if content_sha256 settings written \<noteq> source_sha256 segment
          then Inl (RecordingError ''Conversation segment hash does not match its receipt.'' 422)
          else Inr written)))"

text \<open>
  Removing an upload directory: the regular files go first, and a directory that still has entries then
  cannot be removed. The result is the exception that is raised, if any, with the new storage.
\<close>

definition remove_upload_files ::
  "recording_settings \<Rightarrow> 'a upload_row_scheme \<Rightarrow> storage \<Rightarrow> unit recording_result \<times> storage" where
  "remove_upload_files settings upload disk =
     (case upload_directory settings upload disk of
        Inl (RecordingError m c) \<Rightarrow> (Inr (), disk)
      | Inl e \<Rightarrow> (Inl e, disk)
      | Inr d \<Rightarrow>
          let rest = filter (\<lambda>f. entry_kind (snd f) \<noteq> RegularFile) (children d) in
          if rest = []
          then (Inr (), disk\<lparr>uploads := AList.delete (storage_name upload) (uploads disk)\<rparr>)
          else (Inl (OtherError ''OSError''),
                disk\<lparr>uploads := AList.update (storage_name upload) (d\<lparr>children := rest\<rparr>) (uploads disk)\<rparr>))"

section \<open>Media files\<close>

record QuarantinedMedia =
  original :: string
  quarantine :: string

definition media_name_valid :: "string \<Rightarrow> bool" where
  "media_name_valid name \<longleftrightarrow>
     length name = 36 \<and> drop 32 name = ''.rec'' \<and> list_all hex_char (take 32 name)"

definition media_path :: "recording_settings \<Rightarrow> Recording \<Rightarrow> storage \<Rightarrow> (string \<times> disk_file) recording_result" where
  "media_path settings recording disk =
     (case media_storage_name recording of
        None \<Rightarrow> Inl (RecordingError ''Recording storage metadata is invalid.'' 503)
      | Some name \<Rightarrow>
          if \<not> media_name_valid name
          then Inl (RecordingError ''Recording storage metadata is invalid.'' 503)
          else bind_result (require_safe_file settings (map_of (media disk) name)) (\<lambda>f. Inr (name, f)))"

text \<open>\<^verbatim>\<open>os.replace(source, destination)\<close> for two names below the recording root.\<close>

definition os_replace :: "string \<Rightarrow> string \<Rightarrow> storage \<Rightarrow> storage" where
  "os_replace source destination disk =
     (case map_of (media disk) source of
        None \<Rightarrow> disk
      | Some f \<Rightarrow> disk\<lparr>media := AList.update destination f (AList.delete source (media disk))\<rparr>)"

definition unlink :: "string \<Rightarrow> storage \<Rightarrow> storage" where
  "unlink name disk = disk\<lparr>media := AList.delete name (media disk)\<rparr>"

definition quarantine_name :: "string \<Rightarrow> string" where
  "quarantine_name name = ''.delete-'' @ name"

definition quarantine_media ::
  "recording_settings \<Rightarrow> Recording \<Rightarrow> storage \<Rightarrow> (QuarantinedMedia \<times> storage) recording_result" where
  "quarantine_media settings recording disk =
     bind_result (media_path settings recording disk) (\<lambda>(name, _).
       let target = quarantine_name name in
       if map_of (media disk) target \<noteq> None
       then Inl (RecordingError ''Recording deletion is already in progress.'' 409)
       else Inr (\<lparr>original = name, quarantine = target\<rparr>, os_replace name target disk))"

definition restore_quarantined_media ::
  "recording_settings \<Rightarrow> QuarantinedMedia \<Rightarrow> storage \<Rightarrow> storage recording_result" where
  "restore_quarantined_media settings item disk =
     (if path_exists (map_of (media disk) (quarantine item)) \<and> \<not> path_exists (map_of (media disk) (original item))
      then bind_result (require_safe_file settings (map_of (media disk) (quarantine item))) (\<lambda>_.
        Inr (os_replace (quarantine item) (original item) disk))
      else Inr disk)"

definition discard_quarantined_media ::
  "recording_settings \<Rightarrow> QuarantinedMedia \<Rightarrow> storage \<Rightarrow> storage recording_result" where
  "discard_quarantined_media settings item disk =
     (if path_exists (map_of (media disk) (quarantine item))
      then bind_result (require_safe_file settings (map_of (media disk) (quarantine item))) (\<lambda>_.
        Inr (unlink (quarantine item) disk))
      else Inr disk)"

definition delete_media_file :: "recording_settings \<Rightarrow> Recording \<Rightarrow> storage \<Rightarrow> storage" where
  "delete_media_file settings recording disk =
     (if \<not> truthy (media_storage_name recording) then disk
      else case require_safe_file settings (map_of (media disk) (the (media_storage_name recording))) of
        Inl _ \<Rightarrow> disk
      | Inr _ \<Rightarrow> unlink (the (media_storage_name recording)) disk)"

definition tombstone_recording :: "int \<Rightarrow> string \<Rightarrow> Recording \<Rightarrow> Recording" where
  "tombstone_recording now reason recording =
     recording\<lparr>recording_status := ''deleted'', deleted_at := Some now, deletion_reason := Some reason,
       media_storage_name := None, media_key_version := None, media_size_bytes := None, media_sha256 := None,
       recording_updated_at := now\<rparr>"

definition load_media :: "recording_settings \<Rightarrow> RecordingCipher \<Rightarrow> Recording \<Rightarrow> storage \<Rightarrow> bytes recording_result" where
  "load_media settings cipher recording disk =
     (if recording_status recording \<noteq> ''ready'' \<or> \<not> truthy (media_storage_name recording)
      then Inl (RecordingError ''Voicemail audio is unavailable.'' 404)
      else bind_result (media_path settings recording disk) (\<lambda>(_, path).
        let payload = file_content path in
        if media_size_bytes recording \<noteq> Some (length payload)
        then Inl (RecordingError ''Recording media size verification failed.'' 503)
        else bind_result
            (case media_key_version recording of
               None \<Rightarrow> Inr False
             | Some version \<Rightarrow> bind_result (media_version payload) (\<lambda>v. Inr (v = version))) (\<lambda>same_version.
          if \<not> same_version
          then Inl (RecordingError ''Recording media key-version verification failed.'' 503)
          else bind_result (decrypt_media cipher (recording_id recording) payload) (\<lambda>plaintext.
            if truthy (media_sha256 recording) \<and>
               content_sha256 settings plaintext \<noteq> the (media_sha256 recording)
            then Inl (RecordingError ''Recording media hash verification failed.'' 503)
            else Inr plaintext))))"

end
