(* ===== verification/Continuous_Receipts.thy ===== *)
theory Continuous_Receipts
  imports Audit_Reports
begin

text \<open>
  The receipt with which a device announces a continuous recording: the request bodies of
  \<^verbatim>\<open>src/server/app/continuous_recording_api.py\<close> with their validators. The row of a continuous
  recording keeps the body as its manifest, so that a repeated announcement can be compared with it.

  A \<^verbatim>\<open>datetime\<close> is a wall clock reading with the offset of its zone, if it has one.
\<close>

type_synonym py_datetime = "int \<times> int option"

record CaptureReceipt =
  receipt_version :: nat
  boot_id :: string
  started_elapsed_ms :: nat
  ended_elapsed_ms :: nat
  finalized_elapsed_ms :: "nat option"

definition CaptureReceipt_valid :: "CaptureReceipt \<Rightarrow> bool" where
  "CaptureReceipt_valid c \<longleftrightarrow>
     receipt_version c = 2 \<and>
     0 < started_elapsed_ms c \<and> 0 < ended_elapsed_ms c \<and>
     (case finalized_elapsed_ms c of None \<Rightarrow> True | Some n \<Rightarrow> 0 < n) \<and>
     \<not> (ended_elapsed_ms c < started_elapsed_ms c \<or>
        (case finalized_elapsed_ms c of None \<Rightarrow> False | Some n \<Rightarrow> n < ended_elapsed_ms c))"

record ContinuousRecordingCreate =
  format_version :: nat
  capture_receipt :: "CaptureReceipt option"
  announced_id :: string
  announced_call_id :: string
  announced_kind :: string
  announced_revision_id :: "nat option"
  announced_block_id :: "string option"
  announced_policy_version :: "nat option"
  announced_captured_at :: py_datetime
  announced_source_format :: string
  announced_frames :: nat
  announced_duration_ms :: nat
  announced_size_bytes :: nat
  announced_sha256 :: string
  announced_partial :: bool
  announced_stop_reason :: string

definition complete_stop_reasons :: "string list" where
  "complete_stop_reasons = [''session_complete'', ''caller_hangup'', ''operator_hangup'', ''max_call_duration'', ''completed'']"

definition validate_pcm :: "ContinuousRecordingCreate \<Rightarrow> bool" where
  "validate_pcm b \<longleftrightarrow>
     \<not> ((format_version b = 2) \<noteq> (capture_receipt b \<noteq> None)) \<and>
     \<not> (announced_size_bytes b \<noteq> announced_frames b * 4 \<or> announced_duration_ms b \<noteq> announced_frames b * 1000 div 48000) \<and>
     snd (announced_captured_at b) \<noteq> None \<and>
     \<not> (announced_kind b = ''conversation'' \<and>
        (announced_revision_id b = None \<or> announced_block_id b = None \<or> announced_policy_version b \<noteq> None)) \<and>
     \<not> (announced_kind b = ''session_audit'' \<and> (announced_policy_version b = None \<or> announced_block_id b \<noteq> None)) \<and>
     \<not> (announced_stop_reason b \<notin> set complete_stop_reasons \<and> \<not> announced_partial b)"

definition ContinuousRecordingCreate_valid :: "(string \<Rightarrow> bool) \<Rightarrow> ContinuousRecordingCreate \<Rightarrow> bool" where
  "ContinuousRecordingCreate_valid sha256_text b \<longleftrightarrow>
     format_version b \<in> {1, 2} \<and> (case capture_receipt b of None \<Rightarrow> True | Some c \<Rightarrow> CaptureReceipt_valid c) \<and>
     announced_kind b \<in> {''conversation'', ''session_audit''} \<and>
     (case announced_revision_id b of None \<Rightarrow> True | Some n \<Rightarrow> 1 \<le> n) \<and>
     (case announced_policy_version b of None \<Rightarrow> True | Some n \<Rightarrow> 1 \<le> n) \<and>
     announced_source_format b = ''pcm_s16le_48000_stereo'' \<and>
     1 \<le> announced_frames b \<and> announced_frames b \<le> 48000 * 86400 \<and> 1 \<le> announced_duration_ms b \<and> announced_duration_ms b \<le> 86400000 \<and>
     4 \<le> announced_size_bytes b \<and> announced_size_bytes b \<le> 192000 * 86400 \<and> sha256_text (announced_sha256 b) \<and>
     announced_stop_reason b \<in> set (complete_stop_reasons @
       [''preempted'', ''capture_failure'', ''storage_full'', ''interrupted'', ''writer_failure'', ''buffer_overrun'', ''recording_failure'']) \<and>
     validate_pcm b"

end
