(* ===== verification/Wave_Files.thy ===== *)
theory Wave_Files
  imports Recording_Cipher
begin

text \<open>
  The checks on uploaded audio and the choice of the conversion filter
  (\<^verbatim>\<open>inspect_caller_wav\<close>, \<^verbatim>\<open>inspect_pcm_wav_path\<close>,
  \<^verbatim>\<open>_voicemail_filter\<close> and \<^verbatim>\<open>transcode_voicemail\<close> of
  \<^verbatim>\<open>src/server/app/recording_service.py\<close>), over a model of the reader of the standard
  library's \<^verbatim>\<open>wave\<close> module.

  Both checks compare the declared RIFF size with the size of the file before they open it, so the RIFF
  chunk ends with the file; \<^verbatim>\<open>body\<close> below is its content, from the form type on. The
  conversion program \<^verbatim>\<open>ffmpeg\<close> is a parameter: for a filter and an input, its return code
  and output, or \<^verbatim>\<open>None\<close> when it cannot run or takes too long.
\<close>

section \<open>The wave reader\<close>

text \<open>\<^verbatim>\<open>wave.Error\<close>, \<^verbatim>\<open>EOFError\<close>, and the \<^verbatim>\<open>RuntimeError\<close> of a seek past the end of a chunk.\<close>

datatype wave_error = WaveError | EndOfFile | SeekError

record wave_format =
  nchannels :: nat
  sampwidth :: nat
  framerate :: nat

record wave_file = wave_format +
  data_start :: nat
  data_size :: nat

definition framesize :: "'a wave_format_scheme \<Rightarrow> nat" where
  "framesize w = nchannels w * sampwidth w"

definition nframes :: "wave_file \<Rightarrow> nat" where
  "nframes w = data_size w div framesize w"

text \<open>
  Reading within a chunk that starts at \<^verbatim>\<open>start\<close> and has \<^verbatim>\<open>chunksize\<close> bytes, from a
  position in it; the pad byte of an odd chunk is consumed with its last byte.
\<close>

definition chunk_read :: "bytes \<Rightarrow> nat \<Rightarrow> nat \<Rightarrow> nat \<Rightarrow> nat \<Rightarrow> bytes \<times> nat" where
  "chunk_read body start chunksize n position =
     (if position \<ge> chunksize then ([], position)
      else
        let data = take (min n (chunksize - position)) (drop (start + position) body);
            position = position + length data in
        if position = chunksize \<and> odd chunksize
        then (data, position + length (take 1 (drop (start + position) body)))
        else (data, position))"

lemma chunk_read_progress:
  assumes "chunk_read body start chunksize n position = (block, position')" "block \<noteq> []"
  shows "position < chunksize \<and> position < position'"
proof -
  have "position + length block \<le> position'" "position < chunksize"
    using assms by (auto simp: chunk_read_def Let_def split: if_splits)
  then show ?thesis using assms(2) by (cases block) auto
qed

definition WAVE_FORMAT_PCM :: nat where "WAVE_FORMAT_PCM = 1"
definition WAVE_FORMAT_EXTENSIBLE :: nat where "WAVE_FORMAT_EXTENSIBLE = 0xFFFE"

definition KSDATAFORMAT_SUBTYPE_PCM :: bytes where
  "KSDATAFORMAT_SUBTYPE_PCM = map char_of
     [1, 0, 0, 0, 0, 0, 16, 0, 128, 0, 0, 170, 0, 56, 155, 113 :: nat]"

definition read_fmt_chunk :: "bytes \<Rightarrow> nat \<Rightarrow> nat \<Rightarrow> wave_error + wave_format" where
  "read_fmt_chunk body start chunksize =
     (case chunk_read body start chunksize 14 0 of (header, p) \<Rightarrow>
      if length header < 14 then Inl EndOfFile
      else
        let tag = from_little_endian (take 2 header);
            channels = from_little_endian (take 2 (drop 2 header));
            rate = from_little_endian (take 4 (drop 4 header)) in
        if tag \<noteq> WAVE_FORMAT_PCM \<and> tag \<noteq> WAVE_FORMAT_EXTENSIBLE then Inl WaveError
        else case chunk_read body start chunksize 2 p of (bits, p) \<Rightarrow>
          if length bits < 2 then Inl EndOfFile
          else bind_result
            (if tag = WAVE_FORMAT_EXTENSIBLE
             then (case chunk_read body start chunksize 8 p of (extension, p) \<Rightarrow>
               if length extension < 8 then Inl EndOfFile
               else
                 let subformat = fst (chunk_read body start chunksize 16 p) in
                 if length subformat < 16 then Inl EndOfFile
                 else if subformat \<noteq> KSDATAFORMAT_SUBTYPE_PCM then Inl WaveError
                 else Inr ())
             else Inr ()) (\<lambda>_.
            let width = (from_little_endian bits + 7) div 8 in
            if width = 0 then Inl WaveError
            else if channels = 0 then Inl WaveError
            else Inr \<lparr>nchannels = channels, sampwidth = width, framerate = rate\<rparr>))"

text \<open>\<^verbatim>\<open>chunk.skip()\<close>: the position after a chunk and its pad byte.\<close>

definition chunk_skip :: "bytes \<Rightarrow> nat \<Rightarrow> nat \<Rightarrow> wave_error + nat" where
  "chunk_skip body start chunksize =
     (let target = start + chunksize + chunksize mod 2 in
      if target > length body then Inl SeekError else Inr target)"

lemma chunk_skip_Inr: "chunk_skip body start chunksize = Inr target \<Longrightarrow> start \<le> target \<and> target \<le> length body"
  by (auto simp: chunk_skip_def Let_def split: if_splits)

text \<open>The loop over the chunks, up to the data chunk.\<close>

function scan_chunks :: "bytes \<Rightarrow> nat \<Rightarrow> wave_format option \<Rightarrow> wave_error + wave_file" where
  "scan_chunks body position fmt =
     (let name = take 4 (drop position body);
          size_bytes = take 4 (drop (position + 4) body);
          chunksize = from_little_endian size_bytes;
          start = position + 8 in
      if length name < 4 \<or> length size_bytes < 4 then Inl WaveError
      else if name = ''fmt ''
      then bind_result (read_fmt_chunk body start chunksize) (\<lambda>fmt'.
        bind_result (chunk_skip body start chunksize) (\<lambda>position'. scan_chunks body position' (Some fmt')))
      else if name = ''data''
      then (case fmt of
          None \<Rightarrow> Inl WaveError
        | Some f \<Rightarrow> Inr \<lparr>nchannels = nchannels f, sampwidth = sampwidth f, framerate = framerate f,
            data_start = start, data_size = chunksize\<rparr>)
      else bind_result (chunk_skip body start chunksize) (\<lambda>position'. scan_chunks body position' fmt))"
  by pat_completeness auto
termination
  by (relation "measure (\<lambda>(body, position, fmt). length body - position)") (auto dest!: chunk_skip_Inr)

declare scan_chunks.simps [simp del]

definition wave_open :: "bytes \<Rightarrow> wave_error + wave_file" where
  "wave_open source =
     (let body = drop 8 source in
      if length source < 8 then Inl EndOfFile
      else if take 4 source \<noteq> ''RIFF'' then Inl WaveError
      else if take 4 body \<noteq> ''WAVE'' then Inl WaveError
      else scan_chunks body 4 None)"

text \<open>\<^verbatim>\<open>readframes\<close> from a position of the data chunk.\<close>

definition readframes :: "bytes \<Rightarrow> wave_file \<Rightarrow> nat \<Rightarrow> nat \<Rightarrow> bytes \<times> nat" where
  "readframes source w n position =
     (if n = 0 then ([], position)
      else chunk_read (drop 8 source) (data_start w) (data_size w) (n * framesize w) position)"

section \<open>Inspection\<close>

record WavDetails =
  details_duration_ms :: nat
  details_frames :: nat

text \<open>
  \<^verbatim>\<open>round(frames * 1000 / 48_000)\<close>. The quotient is a multiple of 1/48, so that the division of
  numbers of this size in floating point does not move it across a half; halves round to the even
  neighbour.
\<close>

definition round_half_even :: "nat \<Rightarrow> nat \<Rightarrow> nat" where
  "round_half_even a b =
     (let q = a div b; r = a mod b in
      if 2 * r < b then q else if 2 * r > b then q + 1 else if even q then q else q + 1)"

definition wav_duration_ms :: "nat \<Rightarrow> nat" where
  "wav_duration_ms n = round_half_even (n * 1000) 48000"

definition wave_failure :: "string \<Rightarrow> wave_error \<Rightarrow> recording_error" where
  "wave_failure message e = (if e = SeekError then OtherError ''RuntimeError'' else RecordingError message 422)"

definition stereo_pcm16 :: "wave_file \<Rightarrow> bool" where
  "stereo_pcm16 w \<longleftrightarrow> nchannels w = 2 \<and> sampwidth w = 2 \<and> framerate w = 48000"

definition inspect_caller_wav :: "bytes \<Rightarrow> nat \<Rightarrow> WavDetails recording_result" where
  "inspect_caller_wav source expected_duration_ms =
     (if length source < 44 \<or> take 4 source \<noteq> ''RIFF'' \<or> take 4 (drop 8 source) \<noteq> ''WAVE''
      then Inl (RecordingError ''Caller recording is not a RIFF/WAVE file.'' 422)
      else if from_little_endian (take 4 (drop 4 source)) + 8 \<noteq> length source
      then Inl (RecordingError ''Caller WAV length header does not match its content.'' 422)
      else case wave_open source of
        Inl e \<Rightarrow> Inl (wave_failure ''Caller recording is not a valid WAV file.'' e)
      | Inr audio \<Rightarrow>
          if \<not> stereo_pcm16 audio
          then Inl (RecordingError ''Caller recording must be 48 kHz stereo PCM16 WAV.'' 422)
          else
            let frames = nframes audio;
                duration = wav_duration_ms frames in
            if length (fst (readframes source audio frames 0)) \<noteq> frames * 4
            then Inl (RecordingError ''Caller WAV audio is truncated.'' 422)
            else if duration \<le> 0 \<or> duration > 180000
            then Inl (RecordingError ''Caller recording duration is outside the allowed range.'' 422)
            else if \<bar>int duration - int expected_duration_ms\<bar> > 100
            then Inl (RecordingError ''Caller recording duration does not match its receipt.'' 422)
            else Inr \<lparr>details_duration_ms = duration, details_frames = frames\<rparr>)"

text \<open>The loop that reads the frames of a segment, one second at a time.\<close>

function pcm_complete :: "bytes \<Rightarrow> wave_file \<Rightarrow> nat \<Rightarrow> nat \<Rightarrow> bool" where
  "pcm_complete source audio remaining position =
     (if remaining = 0 then True
      else
        let count = min 48000 remaining in
        case readframes source audio count position of (payload, position') \<Rightarrow>
          length payload = count * 4 \<and> pcm_complete source audio (remaining - count) position')"
  by pat_completeness auto
termination
  by (relation "measure (\<lambda>(source, audio, remaining, position). remaining)") auto

declare pcm_complete.simps [simp del]

text \<open>The file of a segment has been created by the service itself, private and regular.\<close>

definition inspect_pcm_wav_path :: "bytes \<Rightarrow> nat \<Rightarrow> WavDetails recording_result" where
  "inspect_pcm_wav_path source expected_duration_ms =
     (if take 4 source \<noteq> ''RIFF''
      then Inl (RecordingError ''Conversation segment is not a RIFF/WAVE file.'' 422)
      else if length source < 8 then Inl (OtherError ''struct.error'')
      else if take 4 (drop 8 source) \<noteq> ''WAVE'' \<or> from_little_endian (take 4 (drop 4 source)) + 8 \<noteq> length source
      then Inl (RecordingError ''Conversation WAV length header does not match its content.'' 422)
      else case wave_open source of
        Inl e \<Rightarrow> Inl (wave_failure ''Conversation segment is not a valid WAV file.'' e)
      | Inr audio \<Rightarrow>
          if \<not> stereo_pcm16 audio
          then Inl (RecordingError ''Conversation segments must be 48 kHz stereo PCM16 WAV.'' 422)
          else
            let frames = nframes audio;
                duration = wav_duration_ms frames in
            if \<not> pcm_complete source audio frames 0
            then Inl (RecordingError ''Conversation WAV audio is truncated.'' 422)
            else if duration \<le> 0 \<or> duration > 180000
            then Inl (RecordingError ''Conversation segment duration is outside the allowed range.'' 422)
            else if \<bar>int duration - int expected_duration_ms\<bar> > 100
            then Inl (RecordingError ''Conversation segment duration does not match its receipt.'' 422)
            else Inr \<lparr>details_duration_ms = duration, details_frames = frames\<rparr>)"

section \<open>Conversion\<close>

definition VOICEMAIL_MONO_FILTER :: string where
  "VOICEMAIL_MONO_FILTER = ''pan=mono|c0=c0''"

definition VOICEMAIL_AUDIO_FILTER :: string where
  "VOICEMAIL_AUDIO_FILTER = VOICEMAIL_MONO_FILTER @ '',loudnorm=I=-18:TP=-1.5:LRA=7''"

text \<open>The loop that looks for a sample that is not silence.\<close>

function any_sound :: "bytes \<Rightarrow> wave_file \<Rightarrow> nat \<Rightarrow> bool" where
  "any_sound source audio position =
     (case readframes source audio 48000 position of (block, position') \<Rightarrow>
        if block = [] then False
        else if list_ex (\<lambda>b. b \<noteq> CHR 0x00) block then True
        else any_sound source audio position')"
  by pat_completeness auto
termination
  by (relation "measure (\<lambda>(source, audio, position). data_size audio - position)")
    (auto simp: readframes_def dest!: chunk_read_progress [OF sym] split: if_splits)

declare any_sound.simps [simp del]

definition voicemail_filter :: "bytes \<Rightarrow> wave_error + string" where
  "voicemail_filter source =
     bind_result (wave_open source) (\<lambda>audio.
       if nframes audio < 24000 then Inr VOICEMAIL_MONO_FILTER
       else if any_sound source audio 0 then Inr VOICEMAIL_AUDIO_FILTER
       else Inr VOICEMAIL_MONO_FILTER)"

definition transcode_voicemail ::
  "(string \<Rightarrow> bytes \<Rightarrow> (int \<times> bytes) option) \<Rightarrow> bytes \<Rightarrow> bytes recording_result" where
  "transcode_voicemail ffmpeg source =
     (case voicemail_filter source of
        Inl e \<Rightarrow> Inl (OtherError (if e = WaveError then ''wave.Error'' else if e = EndOfFile then ''EOFError'' else ''RuntimeError''))
      | Inr audio_filter \<Rightarrow>
          (case ffmpeg audio_filter source of
             None \<Rightarrow> Inl (RecordingError ''Voicemail audio conversion is unavailable.'' 503)
           | Some (returncode, stdout) \<Rightarrow>
               if returncode \<noteq> 0 \<or> \<not> (take 3 stdout = ''ID3'' \<or> take 1 stdout = [CHR 0xFF])
               then Inl (RecordingError ''Voicemail audio conversion failed.'' 422)
               else Inr stdout))"

section \<open>What an accepted file has\<close>

text \<open>A block of frames is complete exactly when the file reaches that far.\<close>

lemma readframes_length:
  assumes "stereo_pcm16 w" "4 * k + 4 * n \<le> data_size w" "0 < n"
  shows "length (fst (readframes source w n (4 * k))) = n * 4 \<longleftrightarrow> 8 + data_start w + 4 * (k + n) \<le> length source"
    "8 + data_start w + 4 * (k + n) \<le> length source \<Longrightarrow> snd (readframes source w n (4 * k)) = 4 * (k + n)"
proof -
  have f: "framesize w = 4" using assms(1) by (simp add: framesize_def stereo_pcm16_def)
  have p: "4 * k < data_size w" "min (n * 4) (data_size w - 4 * k) = n * 4" using assms(2,3) by auto
  show "length (fst (readframes source w n (4 * k))) = n * 4 \<longleftrightarrow> 8 + data_start w + 4 * (k + n) \<le> length source"
    using p assms(3) by (auto simp: readframes_def chunk_read_def f Let_def)
  have "odd (data_size w) \<Longrightarrow> 4 * k + n * 4 \<noteq> data_size w" by presburger
  then show "8 + data_start w + 4 * (k + n) \<le> length source \<Longrightarrow> snd (readframes source w n (4 * k)) = 4 * (k + n)"
    using p assms(3) by (auto simp: readframes_def chunk_read_def f Let_def min_def)
qed

lemma pcm_complete_iff:
  assumes "stereo_pcm16 w" "4 * k + 4 * n \<le> data_size w"
  shows "pcm_complete source w n (4 * k) \<longleftrightarrow> n = 0 \<or> 8 + data_start w + 4 * (k + n) \<le> length source"
  using assms(2)
proof (induction n arbitrary: k rule: less_induct)
  case (less n)
  show ?case
  proof (cases "n = 0")
    case False
    let ?c = "min 48000 n"
    have c: "0 < ?c" "4 * k + 4 * ?c \<le> data_size w" using False less.prems by auto
    note r = readframes_length [OF assms(1) c(2,1), of source]
    have rest: "pcm_complete source w (n - ?c) (4 * (k + ?c)) \<longleftrightarrow>
        n - ?c = 0 \<or> 8 + data_start w + 4 * (k + ?c + (n - ?c)) \<le> length source"
      by (rule less.IH) (use False less.prems in auto)
    have "pcm_complete source w n (4 * k) \<longleftrightarrow>
        length (fst (readframes source w ?c (4 * k))) = ?c * 4 \<and>
        pcm_complete source w (n - ?c) (snd (readframes source w ?c (4 * k)))"
      using False by (subst pcm_complete.simps) (simp add: Let_def split_beta)
    also have "\<dots> \<longleftrightarrow> 8 + data_start w + 4 * (k + ?c) \<le> length source \<and> pcm_complete source w (n - ?c) (4 * (k + ?c))"
      using r by auto
    also have "\<dots> \<longleftrightarrow> 8 + data_start w + 4 * (k + n) \<le> length source"
      unfolding rest by auto
    finally show ?thesis using False by simp
  qed (simp add: pcm_complete.simps)
qed

lemma nframes_stereo: "stereo_pcm16 w \<Longrightarrow> 4 * nframes w \<le> data_size w"
  by (simp add: nframes_def framesize_def stereo_pcm16_def)

text \<open>The two inspections, one in a single read and one in blocks of a second, agree.\<close>

lemma blockwise_read_agrees:
  assumes "stereo_pcm16 w"
  shows "pcm_complete source w (nframes w) 0 \<longleftrightarrow> length (fst (readframes source w (nframes w) 0)) = nframes w * 4"
proof (cases "nframes w = 0")
  case True
  then show ?thesis by (simp add: pcm_complete.simps readframes_def)
next
  case False
  then show ?thesis
    using pcm_complete_iff [OF assms, of 0 "nframes w" source] readframes_length(1) [OF assms, of 0 "nframes w" source]
      nframes_stereo [OF assms] by simp
qed

text \<open>
  C28: What an accepted caller recording has: a data chunk of 48 kHz stereo PCM16 whose frames all lie
  within the file, a duration of at most three minutes that the frames determine and that differs from
  the receipt by at most a tenth of a second.
\<close>

theorem accepted_wav_spec:
  assumes "inspect_caller_wav source expected = Inr details"
  shows "\<exists>w. wave_open source = Inr w \<and> stereo_pcm16 w \<and> details_frames details = nframes w \<and>
    0 < details_frames details \<and> 8 + data_start w + 4 * details_frames details \<le> length source \<and>
    details_duration_ms details = wav_duration_ms (details_frames details) \<and>
    0 < details_duration_ms details \<and> details_duration_ms details \<le> 180000 \<and> \<bar>int (details_duration_ms details) - int expected\<bar> \<le> 100"
proof -
  obtain w where w: "wave_open source = Inr w" using assms
    by (cases "wave_open source") (auto simp: inspect_caller_wav_def split: if_splits)
  have d: "stereo_pcm16 w" "length (fst (readframes source w (nframes w) 0)) = nframes w * 4"
    "0 < wav_duration_ms (nframes w)" "wav_duration_ms (nframes w) \<le> 180000"
    "\<bar>int (wav_duration_ms (nframes w)) - int expected\<bar> \<le> 100"
    "details = \<lparr>details_duration_ms = wav_duration_ms (nframes w), details_frames = nframes w\<rparr>"
    using assms w by (auto simp: inspect_caller_wav_def Let_def split: if_splits)
  have "0 < nframes w" using d(3) by (cases "nframes w") (auto simp: wav_duration_ms_def round_half_even_def)
  then have "8 + data_start w + 4 * nframes w \<le> length source"
    using readframes_length(1) [OF d(1), of 0 "nframes w" source] nframes_stereo [OF d(1)] d(2) by simp
  then show ?thesis using w d \<open>0 < nframes w\<close> by auto
qed

text \<open>
  The inspection of a voicemail, which reads all frames at once, and the inspection of a conversation
  segment, which reads them second by second, accept the same files with the same details.
\<close>

theorem inspections_agree:
  assumes "44 \<le> length source"
  shows "inspect_pcm_wav_path source expected = Inr details \<longleftrightarrow> inspect_caller_wav source expected = Inr details"
proof (cases "wave_open source")
  case (Inl e)
  then show ?thesis by (simp add: inspect_pcm_wav_path_def inspect_caller_wav_def)
next
  case (Inr w)
  then show ?thesis
    using assms blockwise_read_agrees [of w source]
    by (cases "stereo_pcm16 w") (auto simp: inspect_pcm_wav_path_def inspect_caller_wav_def Let_def)
qed

section \<open>The file that a recorder writes\<close>

definition little_endian :: "nat \<Rightarrow> nat \<Rightarrow> bytes" where
  "little_endian w n = rev (big_endian w n)"

lemma length_little_endian [simp]: "length (little_endian w n) = w"
  by (simp add: little_endian_def)

lemma little_endian_inverse [simp]: "n < 256 ^ w \<Longrightarrow> from_little_endian (little_endian w n) = n"
  by (simp add: little_endian_def from_little_endian_def big_endian_inverse)

definition fmt_header :: bytes where
  "fmt_header = little_endian 2 1 @ little_endian 2 2 @ little_endian 4 48000 @ little_endian 4 192000 @
     little_endian 2 4 @ little_endian 2 16"

definition wav_file :: "bytes \<Rightarrow> bytes" where
  "wav_file pcm = ''RIFF'' @ little_endian 4 (36 + length pcm) @ ''WAVEfmt '' @ little_endian 4 16 @ fmt_header @
     ''data'' @ little_endian 4 (length pcm) @ pcm"

lemma length_fmt_header [simp]: "length fmt_header = 16"
  by (simp add: fmt_header_def)

lemma read_fmt_header:
  "read_fmt_chunk (a @ fmt_header @ b) (length a) 16 = Inr \<lparr>nchannels = 2, sampwidth = 2, framerate = 48000\<rparr>"
  by (simp add: read_fmt_chunk_def chunk_read_def fmt_header_def Let_def WAVE_FORMAT_PCM_def WAVE_FORMAT_EXTENSIBLE_def)

lemma wave_open_wav_file:
  assumes "length pcm < 2 ^ 32"
  shows "wave_open (wav_file pcm) =
    Inr \<lparr>nchannels = 2, sampwidth = 2, framerate = 48000, data_start = 36, data_size = length pcm\<rparr>"
proof -
  define body where "body = ''WAVEfmt '' @ little_endian 4 16 @ fmt_header @ ''data'' @ little_endian 4 (length pcm) @ pcm"
  have fmt: "read_fmt_chunk body 12 16 = Inr \<lparr>nchannels = 2, sampwidth = 2, framerate = 48000\<rparr>"
    using read_fmt_header [of "''WAVEfmt '' @ little_endian 4 16" "''data'' @ little_endian 4 (length pcm) @ pcm"]
    by (simp add: body_def)
  have b: "take 4 (drop 4 body) = ''fmt ''" "take 4 (drop 8 body) = little_endian 4 16"
    "take 4 (drop 28 body) = ''data''" "take 4 (drop 32 body) = little_endian 4 (length pcm)" "28 \<le> length body"
    by (simp_all add: body_def)
  have "scan_chunks body 28 (Some f) = Inr \<lparr>nchannels = nchannels f, sampwidth = sampwidth f, framerate = framerate f,
      data_start = 36, data_size = length pcm\<rparr>" for f
    using assms b by (subst scan_chunks.simps) (simp add: Let_def)
  then have "scan_chunks body 4 None = Inr \<lparr>nchannels = 2, sampwidth = 2, framerate = 48000, data_start = 36, data_size = length pcm\<rparr>"
    using b fmt by (subst scan_chunks.simps) (simp add: Let_def chunk_skip_def)
  moreover have "drop 8 (wav_file pcm) = body" "take 4 (wav_file pcm) = ''RIFF''" "take 4 body = ''WAVE''" "8 \<le> length (wav_file pcm)"
    by (simp_all add: wav_file_def body_def)
  ultimately show ?thesis by (simp add: wave_open_def)
qed

lemma wav_file_inspected:
  assumes "length pcm = 4 * n" "n < 2 ^ 29"
  shows "inspect_caller_wav (wav_file pcm) expected =
    (if wav_duration_ms n = 0 \<or> wav_duration_ms n > 180000
     then Inl (RecordingError ''Caller recording duration is outside the allowed range.'' 422)
     else if \<bar>int (wav_duration_ms n) - int expected\<bar> > 100
     then Inl (RecordingError ''Caller recording duration does not match its receipt.'' 422)
     else Inr \<lparr>details_duration_ms = wav_duration_ms n, details_frames = n\<rparr>)"
proof -
  let ?w = "\<lparr>nchannels = 2, sampwidth = 2, framerate = 48000, data_start = 36, data_size = length pcm\<rparr>"
  have open_ok: "wave_open (wav_file pcm) = Inr ?w" using wave_open_wav_file assms by simp
  have w: "stereo_pcm16 ?w" "nframes ?w = n" using assms(1) by (simp_all add: stereo_pcm16_def nframes_def framesize_def)
  have size: "length (wav_file pcm) = 44 + length pcm" by (simp add: wav_file_def)
  have "length (fst (readframes (wav_file pcm) ?w n 0)) = n * 4"
  proof (cases "n = 0")
    case False
    then show ?thesis using readframes_length(1) [OF w(1), of 0 n "wav_file pcm"] assms(1) size by simp
  qed (simp add: readframes_def)
  moreover have "take 4 (wav_file pcm) = ''RIFF''" "take 4 (drop 8 (wav_file pcm)) = ''WAVE''"
    "from_little_endian (take 4 (drop 4 (wav_file pcm))) = 36 + length pcm"
    using assms by (simp_all add: wav_file_def)
  ultimately show ?thesis
    using size w by (simp add: inspect_caller_wav_def open_ok Let_def)
qed

text \<open>
  A file in the recorder's layout with \<^verbatim>\<open>n\<close> stereo frames passes the inspection exactly when
  its duration is within three minutes and matches the receipt.
\<close>

theorem recorder_wav_accepted:
  assumes "length pcm = 4 * n" "n < 2 ^ 29"
  shows "inspect_caller_wav (wav_file pcm) expected =
    (if wav_duration_ms n = 0 \<or> wav_duration_ms n > 180000
     then Inl (RecordingError ''Caller recording duration is outside the allowed range.'' 422)
     else if \<bar>int (wav_duration_ms n) - int expected\<bar> > 100
     then Inl (RecordingError ''Caller recording duration does not match its receipt.'' 422)
     else Inr \<lparr>details_duration_ms = wav_duration_ms n, details_frames = n\<rparr>)"
  using assms by (rule wav_file_inspected)

theorem recorder_wav_accepted_witness:
  "inspect_caller_wav (wav_file (replicate 192 CHR 0x00)) 50 = Inr \<lparr>details_duration_ms = 1, details_frames = 48\<rparr>"
  using recorder_wav_accepted [of "replicate 192 CHR 0x00" 48 50]
  by (simp add: wav_duration_ms_def round_half_even_def)

lemma silent_wav_accepted:
  "inspect_caller_wav (wav_file (replicate 192 CHR 0x00)) 50 = Inr \<lparr>details_duration_ms = 1, details_frames = 48\<rparr>"
  using wav_file_inspected [of "replicate 192 CHR 0x00" 48 50]
  by (simp add: wav_duration_ms_def round_half_even_def)

theorem accepted_wav_spec_witness:
  "\<exists>w. wave_open (wav_file (replicate 192 CHR 0x00)) = Inr w \<and> stereo_pcm16 w \<and> nframes w = 48"
  using accepted_wav_spec [OF silent_wav_accepted] by auto

theorem inspections_agree_witness:
  "inspect_pcm_wav_path (wav_file (replicate 192 CHR 0x00)) 50 = Inr \<lparr>details_duration_ms = 1, details_frames = 48\<rparr>"
  using inspections_agree [of "wav_file (replicate 192 CHR 0x00)"] silent_wav_accepted by (simp add: wav_file_def)

section \<open>Overlong chunks\<close>








end
