(* ===== verification/Recording_Store.thy ===== *)
theory Recording_Store
  imports Recording_Storage Continuous_Receipts Wave_Files Publishing
begin

text \<open>
  The rows that describe recordings, and the service routines that work on rows and storage together
  (\<^verbatim>\<open>src/server/app/recording_service.py\<close>, the tables of \<^verbatim>\<open>src/server/app/models.py\<close>
  and \<^verbatim>\<open>maintain_recordings\<close> of \<^verbatim>\<open>src/server/app/main.py\<close>).

  A state has the committed rows and the storage. An exception rolls the rows back and leaves the
  storage as it is, so a routine that changes the storage returns its error together with the storage.
  Instants are microseconds since the epoch, and one clock reading serves a whole request.
\<close>

section \<open>Tables\<close>

record CallRecord =
  call_id :: string
  call_device_id :: string
  call_started_at :: int
  call_revision_id :: "nat option"
  call_result :: string
  call_duration_seconds :: int

record RecordingRetentionPolicy =
  policy_mode :: string
  policy_days :: int
  policy_updated_at :: int
  policy_updated_by :: string

record ContinuousRecording =
  continuous_recording_id :: string
  validation_error :: "string option"
  continuous_manifest :: ContinuousRecordingCreate
  continuous_state :: string
  attempts :: nat
  retry_at :: "int option"
  accepted_at :: "int option"
  operation_duration_ms :: "nat option"
  continuous_updated_at :: int

record recording_tables =
  control_rows :: database
  calls :: "CallRecord list"
  recordings :: "Recording list"
  recording_uploads :: "RecordingUpload list"
  segments :: "ConversationRecordingSegment list"
  continuous_recordings :: "ContinuousRecording list"
  retention_policy :: "RecordingRetentionPolicy option"

record recording_state =
  tables :: recording_tables
  disk :: storage

definition find_recording :: "string \<Rightarrow> recording_tables \<Rightarrow> Recording option" where
  "find_recording i t = find (\<lambda>r. recording_id r = i) (recordings t)"

definition find_upload :: "string \<Rightarrow> recording_tables \<Rightarrow> RecordingUpload option" where
  "find_upload i t = find (\<lambda>u. upload_recording_id u = i) (recording_uploads t)"

definition put_recording :: "Recording \<Rightarrow> recording_tables \<Rightarrow> recording_tables" where
  "put_recording r t =
     t\<lparr>recordings := map (\<lambda>q. if recording_id q = recording_id r then r else q) (recordings t)\<rparr>"

definition put_upload :: "RecordingUpload \<Rightarrow> recording_tables \<Rightarrow> recording_tables" where
  "put_upload u t =
     t\<lparr>recording_uploads := map (\<lambda>v. if upload_recording_id v = upload_recording_id u then u else v) (recording_uploads t)\<rparr>"

definition delete_upload :: "string \<Rightarrow> recording_tables \<Rightarrow> recording_tables" where
  "delete_upload i t = t\<lparr>recording_uploads := filter (\<lambda>u. upload_recording_id u \<noteq> i) (recording_uploads t)\<rparr>"

definition hours :: "int \<Rightarrow> int" where "hours n = n * 3600 * 1000000"
definition minutes :: "int \<Rightarrow> int" where "minutes n = n * 60 * 1000000"
definition seconds :: "int \<Rightarrow> int" where "seconds n = n * 1000000"
definition days :: "int \<Rightarrow> int" where "days n = n * 86400 * 1000000"

section \<open>Retention policy and quota\<close>

definition initialize_retention_policy ::
  "string \<Rightarrow> int \<Rightarrow> recording_tables \<Rightarrow> RecordingRetentionPolicy \<times> recording_tables" where
  "initialize_retention_policy actor now t =
     (case retention_policy t of
        Some policy \<Rightarrow> (policy, t)
      | None \<Rightarrow>
          let policy = \<lparr>policy_mode = ''automatic'', policy_days = 30, policy_updated_at = now, policy_updated_by = actor\<rparr> in
          (policy, t\<lparr>retention_policy := Some policy\<rparr>))"

definition media_bytes :: "Recording \<Rightarrow> nat" where
  "media_bytes r = (case media_size_bytes r of None \<Rightarrow> 0 | Some n \<Rightarrow> n)"

definition recording_used_bytes :: "string option \<Rightarrow> string option \<Rightarrow> recording_tables \<Rightarrow> nat" where
  "recording_used_bytes exclude_upload exclude_conversation t =
     (\<Sum>r\<leftarrow>filter (\<lambda>r. recording_status r = ''ready'') (recordings t). media_bytes r) +
     (\<Sum>u\<leftarrow>filter (\<lambda>u. exclude_upload \<noteq> Some (upload_recording_id u)) (recording_uploads t). expected_size_bytes u) +
     (\<Sum>s\<leftarrow>filter (\<lambda>s. segment_status s \<in> {''uploading'', ''verified''} \<and>
        exclude_conversation \<noteq> Some (segment_recording_id s)) (segments t). expected_size_bytes s)"

section \<open>Completion of a voicemail\<close>

text \<open>
  The media file is written before the row is; the row is returned for the caller to commit. The new
  storage name is the random part of the file name.
\<close>

definition finalize_recording ::
  "recording_settings \<Rightarrow> RecordingCipher \<Rightarrow> (string \<Rightarrow> bytes \<Rightarrow> (int \<times> bytes) option) \<Rightarrow> bytes \<Rightarrow> string \<Rightarrow> int \<Rightarrow>
   Recording \<Rightarrow> RecordingUpload \<Rightarrow> recording_state \<Rightarrow> (Recording \<times> storage) recording_result" where
  "finalize_recording settings cipher ffmpeg nonce uuid now recording upload s =
     bind_result (read_uploaded_wav settings cipher None recording upload (disk s)) (\<lambda>source.
     bind_result (inspect_caller_wav source (recording_duration_ms recording)) (\<lambda>details.
     bind_result (transcode_voicemail ffmpeg source) (\<lambda>encoded.
     bind_result (encrypt_media cipher nonce (recording_id recording) encoded) (\<lambda>encrypted.
       if retention_policy (tables s) = None
       then Inl (RecordingError ''Voicemail retention state is unavailable.'' 503)
       else if recording_used_bytes (Some (recording_id recording)) None (tables s) + length encrypted
          > recording_quota_bytes settings
       then Inl (RecordingError ''Voicemail storage quota is full; the device must retain its spool.'' 507)
       else
         let storage_name = uuid @ ''.rec'' in
         Inr (recording\<lparr>recording_duration_ms := details_duration_ms details, media_key_version := Some (cipher_version cipher),
                media_storage_name := Some storage_name, media_size_bytes := Some (length encrypted),
                media_sha256 := Some (content_sha256 settings encoded), recording_status := ''ready'',
                recording_updated_at := now\<rparr>,
              (disk s)\<lparr>media := AList.update storage_name (private_file settings encrypted) (media (disk s))\<rparr>)))))"

section \<open>Retention\<close>

text \<open>Applying an operation to items one after the other, up to the first exception.\<close>

fun each_item ::
  "('i \<Rightarrow> storage \<Rightarrow> storage recording_result) \<Rightarrow> 'i list \<Rightarrow> storage \<Rightarrow> unit recording_result \<times> storage" where
  "each_item f [] d = (Inr (), d)"
| "each_item f (x # xs) d = (case f x d of Inl e \<Rightarrow> (Inl e, d) | Inr d' \<Rightarrow> each_item f xs d')"

fun quarantine_all ::
  "recording_settings \<Rightarrow> Recording list \<Rightarrow> QuarantinedMedia list \<Rightarrow> storage \<Rightarrow>
   recording_error option \<times> QuarantinedMedia list \<times> storage" where
  "quarantine_all settings [] quarantined d = (None, quarantined, d)"
| "quarantine_all settings (r # rs) quarantined d =
     (case quarantine_media settings r d of
        Inl e \<Rightarrow> (Some e, quarantined, d)
      | Inr (item, d') \<Rightarrow> quarantine_all settings rs (quarantined @ [item]) d')"

definition expired_recordings :: "RecordingRetentionPolicy \<Rightarrow> int \<Rightarrow> recording_tables \<Rightarrow> Recording list" where
  "expired_recordings policy now t =
     filter (\<lambda>r. recording_status r = ''ready'' \<and> recording_captured_at r < now - days (policy_days policy)) (recordings t)"

definition purge_expired_recordings ::
  "recording_settings \<Rightarrow> RecordingRetentionPolicy \<Rightarrow> int \<Rightarrow> recording_tables \<Rightarrow> storage \<Rightarrow>
   (QuarantinedMedia list \<times> recording_tables) recording_result \<times> storage" where
  "purge_expired_recordings settings policy now t d =
     (if policy_mode policy \<noteq> ''automatic'' then (Inr ([], t), d)
      else
        let expired = expired_recordings policy now t in
        case quarantine_all settings expired [] d of
          (Some e, quarantined, d) \<Rightarrow>
            (case each_item (restore_quarantined_media settings) (rev quarantined) d of
               (Inl e', d') \<Rightarrow> (Inl e', d')
             | (Inr _, d') \<Rightarrow> (Inl e, d'))
        | (None, quarantined, d) \<Rightarrow>
            (Inr (quarantined,
               t\<lparr>recordings := map (\<lambda>r. if r \<in> set expired then tombstone_recording now ''retention'' r else r) (recordings t)\<rparr>),
             d))"

definition cleanup_abandoned_uploads ::
  "recording_settings \<Rightarrow> int \<Rightarrow> recording_tables \<Rightarrow> upload_row list \<times> recording_tables" where
  "cleanup_abandoned_uploads settings now t =
     (let cutoff = now - hours (recording_abandoned_upload_hours settings);
          abandoned = filter (\<lambda>u. upload_updated_at u < cutoff \<and>
            upload_recording_id u \<notin> set (map continuous_recording_id (continuous_recordings t))) (recording_uploads t);
          abandoned_ids = map upload_recording_id abandoned;
          stale = (\<lambda>s. segment_status s = ''uploading'' \<and> upload_updated_at s < cutoff) in
      (map upload_row.truncate abandoned @ map upload_row.truncate (filter stale (segments t)),
       t\<lparr>recording_uploads := filter (\<lambda>u. u \<notin> set abandoned) (recording_uploads t),
         recordings := map (\<lambda>r. if recording_id r \<in> set abandoned_ids \<and> recording_status r = ''uploading''
           then r\<lparr>recording_status := ''failed'', recording_updated_at := now\<rparr> else r) (recordings t),
         segments := map (\<lambda>s. if stale s then s\<lparr>segment_status := ''failed'', upload_updated_at := now\<rparr> else s) (segments t)\<rparr>))"

fun remove_all_uploads ::
  "recording_settings \<Rightarrow> upload_row list \<Rightarrow> storage \<Rightarrow> unit recording_result \<times> storage" where
  "remove_all_uploads settings [] d = (Inr (), d)"
| "remove_all_uploads settings (u # us) d =
     (case remove_upload_files settings u d of
        (Inl e, d') \<Rightarrow> (Inl e, d')
      | (Inr _, d') \<Rightarrow> remove_all_uploads settings us d')"

section \<open>Recovery\<close>

text \<open>The names that match \<^verbatim>\<open>.delete-*.rec\<close>.\<close>

definition is_quarantine_name :: "string \<Rightarrow> bool" where
  "is_quarantine_name name \<longleftrightarrow>
     length name \<ge> 12 \<and> take 8 name = ''.delete-'' \<and> drop (length name - 4) name = ''.rec''"

fun reconcile_names ::
  "recording_settings \<Rightarrow> recording_tables \<Rightarrow> string list \<Rightarrow> storage \<Rightarrow> unit recording_result \<times> storage" where
  "reconcile_names settings t [] d = (Inr (), d)"
| "reconcile_names settings t (name # names) d =
     (case require_safe_file settings (map_of (media d) name) of
        Inl e \<Rightarrow> (Inl e, d)
      | Inr _ \<Rightarrow>
          let storage_name = drop 8 name in
          if list_ex (\<lambda>r. media_storage_name r = Some storage_name \<and> recording_status r = ''ready'') (recordings t)
          then (if map_of (media d) storage_name \<noteq> None
                then (Inl (RecordingError ''Recording deletion recovery found conflicting media.'' 503), d)
                else reconcile_names settings t names (os_replace name storage_name d))
          else reconcile_names settings t names (unlink name d))"

definition reconcile_quarantined_media ::
  "recording_settings \<Rightarrow> recording_tables \<Rightarrow> storage \<Rightarrow> unit recording_result \<times> storage" where
  "reconcile_quarantined_media settings t d =
     reconcile_names settings t (filter is_quarantine_name (map fst (media d))) d"

definition starts_with :: "string \<Rightarrow> string \<Rightarrow> bool" where
  "starts_with prefix s \<longleftrightarrow> take (length prefix) s = prefix"

fun reconcile_entries ::
  "recording_settings \<Rightarrow> recording_tables \<Rightarrow> string list \<Rightarrow> storage \<Rightarrow> unit recording_result \<times> storage" where
  "reconcile_entries settings t [] d = (Inr (), d)"
| "reconcile_entries settings t (name # names) d =
     (if name = ''.processing''
      then (case map_of (media d) name of
              None \<Rightarrow> (Inl (OtherError ''FileNotFoundError''), d)
            | Some e \<Rightarrow>
                if entry_kind e \<noteq> DirectoryEntry \<or> \<not> owned_privately settings e
                then (Inl (RecordingError ''Recording processing directory is unsafe.'' 503), d)
                else reconcile_entries settings t names d)
      else if name = ''.uploads'' \<or> starts_with ''.delete-'' name then reconcile_entries settings t names d
      else if starts_with ''.media-'' name \<or> starts_with ''.playback-'' name
      then (case require_safe_file settings (map_of (media d) name) of
              Inl e \<Rightarrow> (Inl e, d)
            | Inr _ \<Rightarrow> reconcile_entries settings t names (unlink name d))
      else if length name \<ge> 4 \<and> drop (length name - 4) name = ''.rec''
      then (if \<not> media_name_valid name
            then (Inl (RecordingError ''Recording storage contains an unknown media file.'' 503), d)
            else case require_safe_file settings (map_of (media d) name) of
              Inl e \<Rightarrow> (Inl e, d)
            | Inr _ \<Rightarrow>
                if list_ex (\<lambda>r. media_storage_name r = Some name \<and> recording_status r \<in> {''ready'', ''processing''}) (recordings t)
                then reconcile_entries settings t names d
                else reconcile_entries settings t names (unlink name d))
      else (Inl (RecordingError ''Recording storage contains an unknown entry.'' 503), d))"

definition active_upload_names :: "recording_tables \<Rightarrow> string list" where
  "active_upload_names t =
     map storage_name (recording_uploads t) @
     map storage_name (filter (\<lambda>s. segment_status s \<in> {''uploading'', ''verified''}) (segments t))"

text \<open>The entries of an upload directory are removed one after the other; what is left is returned.\<close>

fun remove_children ::
  "recording_settings \<Rightarrow> (string \<times> disk_file) list \<Rightarrow> unit recording_result \<times> (string \<times> disk_file) list" where
  "remove_children settings [] = (Inr (), [])"
| "remove_children settings ((name, child) # rest) =
     (case require_safe_file settings (Some child) of
        Inl e \<Rightarrow> (Inl e, (name, child) # rest)
      | Inr _ \<Rightarrow> remove_children settings rest)"

fun reconcile_uploads ::
  "recording_settings \<Rightarrow> recording_tables \<Rightarrow> string list \<Rightarrow> storage \<Rightarrow> unit recording_result \<times> storage" where
  "reconcile_uploads settings t [] d = (Inr (), d)"
| "reconcile_uploads settings t (name # names) d =
     (if length name \<noteq> 32 \<or> \<not> list_all hex_char name
      then (Inl (RecordingError ''Recording upload storage contains an unknown entry.'' 503), d)
      else case require_safe_directory settings (map_of (uploads d) name) of
        Inl e \<Rightarrow> (Inl e, d)
      | Inr _ \<Rightarrow>
          if name \<in> set (active_upload_names t) then reconcile_uploads settings t names d
          else
            let path = the (map_of (uploads d) name) in
            case remove_children settings (children path) of
              (Inl e, rest) \<Rightarrow> (Inl e, d\<lparr>uploads := AList.update name (path\<lparr>children := rest\<rparr>) (uploads d)\<rparr>)
            | (Inr _, _) \<Rightarrow> reconcile_uploads settings t names (d\<lparr>uploads := AList.delete name (uploads d)\<rparr>))"

definition reconcile_recording_storage ::
  "recording_settings \<Rightarrow> recording_tables \<Rightarrow> storage \<Rightarrow> unit recording_result \<times> storage" where
  "reconcile_recording_storage settings t d =
     (case reconcile_entries settings t (map fst (media d)) d of
        (Inl e, d) \<Rightarrow> (Inl e, d)
      | (Inr _, d) \<Rightarrow> reconcile_uploads settings t (map fst (uploads d)) d)"

section \<open>Maintenance\<close>

text \<open>
  What follows a purge: the rows are committed and the quarantined files discarded, or, when the
  database does not accept the commit, the rows stay as they were and the files are restored.
\<close>

definition settle_purge ::
  "recording_settings \<Rightarrow> bool \<Rightarrow> recording_tables \<Rightarrow> QuarantinedMedia list \<Rightarrow> recording_tables \<Rightarrow> storage \<Rightarrow>
   unit recording_result \<times> recording_state" where
  "settle_purge settings commit_ok t quarantined t' d =
     (if commit_ok
      then (case each_item (discard_quarantined_media settings) quarantined d of
              (r, d') \<Rightarrow> (r, \<lparr>tables = t', disk = d'\<rparr>))
      else (case each_item (restore_quarantined_media settings) (rev quarantined) d of
              (Inl e, d') \<Rightarrow> (Inl e, \<lparr>tables = t, disk = d'\<rparr>)
            | (Inr _, d') \<Rightarrow> (Inl (OtherError ''commit failed''), \<lparr>tables = t, disk = d'\<rparr>)))"

definition maintain_recordings ::
  "recording_settings \<Rightarrow> int \<Rightarrow> bool \<Rightarrow> recording_state \<Rightarrow> unit recording_result \<times> recording_state" where
  "maintain_recordings settings now commit_ok s =
     (let t = tables s in
      case reconcile_quarantined_media settings t (disk s) of
        (Inl e, d) \<Rightarrow> (Inl e, s\<lparr>disk := d\<rparr>)
      | (Inr _, d) \<Rightarrow>
        (case reconcile_recording_storage settings t d of
           (Inl e, d) \<Rightarrow> (Inl e, s\<lparr>disk := d\<rparr>)
         | (Inr _, d) \<Rightarrow>
           (case initialize_retention_policy (development_admin_email settings) now t of (policy, t1) \<Rightarrow>
            case purge_expired_recordings settings policy now t1 d of
              (Inl e, d) \<Rightarrow> (Inl e, s\<lparr>disk := d\<rparr>)
            | (Inr (quarantined, t2), d) \<Rightarrow>
              (case cleanup_abandoned_uploads settings now t2 of (abandoned, t3) \<Rightarrow>
               case settle_purge settings commit_ok t quarantined t3 d of
                 (Inl e, s') \<Rightarrow> (Inl e, s')
               | (Inr _, s') \<Rightarrow>
                   (case remove_all_uploads settings abandoned (disk s') of (r, d) \<Rightarrow> (r, s'\<lparr>disk := d\<rparr>))))))"

end
