(* ===== verification/Recording_Requests.thy ===== *)
theory Recording_Requests
  imports Recording_Store Enrollment
begin

text \<open>
  The requests on voicemail recordings (\<^verbatim>\<open>src/server/app/recording_api.py\<close>): a device
  announces, uploads and completes a recording, the administrator lists, marks and deletes recordings
  and sets the retention policy.

  A request returns its outcome and the new state. \<^verbatim>\<open>commit_ok\<close> tells whether the database
  accepts the commit; if it does not, the rows stay as they were and the storage keeps what was written.
  The device is the one that \<^verbatim>\<open>require_device\<close> returned; the random name and the nonce that
  a request draws are arguments.
\<close>

datatype request_error =
    Refused nat string
  | Crashed recording_error

type_synonym 'a reply = "(request_error + 'a) \<times> recording_state"

fun as_http :: "recording_error \<Rightarrow> request_error" where
  "as_http (RecordingError detail code) = Refused code detail"
| "as_http (OtherError name) = Crashed (OtherError name)"

definition commit_failed :: request_error where
  "commit_failed = Crashed (OtherError ''commit failed'')"

section \<open>Responses and guards\<close>

record RecordingUploadResponse =
  response_id :: string
  response_status :: string
  response_upload_offset :: nat
  response_expected_size_bytes :: nat
  response_source_sha256 :: string
  acknowledged :: bool

definition as_upload_response :: "Recording \<Rightarrow> RecordingUpload option \<Rightarrow> RecordingUploadResponse" where
  "as_upload_response recording upload =
     \<lparr>response_id = recording_id recording,
      response_status = (if recording_status recording = ''deleted'' then ''ready'' else recording_status recording),
      response_upload_offset = (case upload of None \<Rightarrow> 0 | Some u \<Rightarrow> upload_offset u),
      response_expected_size_bytes =
        (case upload of None \<Rightarrow> recording_source_size_bytes recording | Some u \<Rightarrow> expected_size_bytes u),
      response_source_sha256 = recording_source_sha256 recording,
      acknowledged = (recording_status recording \<in> {''ready'', ''deleted''})\<rparr>"

definition get_owned_recording :: "recording_tables \<Rightarrow> string \<Rightarrow> Device \<Rightarrow> request_error + Recording" where
  "get_owned_recording t i device =
     (case find_recording i t of
        None \<Rightarrow> Inl (Refused 404 ''Recording not found'')
      | Some recording \<Rightarrow>
          if recording_device_id recording \<noteq> device_id device
          then Inl (Refused 403 ''Recording belongs to another device'')
          else if recording_source_format recording \<noteq> ''legacy_wav''
          then Inl (Refused 409 ''Use the continuous recording API for this recording'')
          else Inr recording)"

definition recording_instruction_exists :: "manifest \<Rightarrow> string \<Rightarrow> bool" where
  "recording_instruction_exists m block =
     list_ex (\<lambda>i. is_record_op (op i) \<and> instruction_block i = block) (manifest_instructions m)"

text \<open>\<^verbatim>\<open>_utc\<close> takes a reading without a zone as UTC.\<close>

definition utc :: "py_datetime \<Rightarrow> int" where
  "utc value = (case value of (wall, None) \<Rightarrow> wall | (wall, Some offset) \<Rightarrow> wall - offset)"

definition require_recording_capacity ::
  "recording_settings \<Rightarrow> nat \<Rightarrow> int \<Rightarrow> recording_tables \<Rightarrow> request_error + recording_tables" where
  "require_recording_capacity settings required_bytes now t =
     (let t = snd (initialize_retention_policy (development_admin_email settings) now t) in
      if recording_used_bytes None None t + required_bytes > recording_quota_bytes settings
      then Inl (Refused 507 ''Voicemail storage quota is full; retain the encrypted device spool'')
      else Inr t)"

text \<open>The parts of the body arrive one after the other.\<close>

fun read_parts :: "nat \<Rightarrow> bytes \<Rightarrow> bytes list \<Rightarrow> request_error + bytes" where
  "read_parts limit body [] = Inr body"
| "read_parts limit body (part # parts) =
     (if length body + length part > limit then Inl (Refused 413 ''Recording chunk exceeds 1 MiB'')
      else read_parts limit (body @ part) parts)"

definition read_bounded_chunk :: "string option \<Rightarrow> bytes list \<Rightarrow> nat \<Rightarrow> request_error + bytes" where
  "read_bounded_chunk content_length parts limit =
     bind_result
       (case content_length of
          None \<Rightarrow> Inr ()
        | Some declared \<Rightarrow>
            (case py_int declared of
               None \<Rightarrow> Inl (Refused 400 ''Content-Length is invalid'')
             | Some declared_size \<Rightarrow>
                 if declared_size < 0 then Inl (Refused 400 ''Content-Length is invalid'')
                 else if declared_size > int limit then Inl (Refused 413 ''Recording chunk exceeds 1 MiB'')
                 else Inr ()))
       (\<lambda>_. read_parts limit [] parts)"

section \<open>Requests of the device\<close>

record RecordingCreateRequest =
  create_recording_id :: string
  create_call_id :: string
  create_revision_id :: nat
  create_block_id :: string
  create_sequence :: nat
  create_captured_at :: py_datetime
  create_duration_ms :: nat
  create_stop_reason :: string
  create_expected_size_bytes :: nat
  create_source_sha256 :: string

definition same_metadata :: "Recording \<Rightarrow> RecordingCreateRequest \<Rightarrow> bool" where
  "same_metadata existing body \<longleftrightarrow>
     recording_call_id existing = create_call_id body \<and>
     recording_revision_id existing = Some (create_revision_id body) \<and>
     recording_block_id existing = Some (create_block_id body) \<and>
     recording_sequence existing = int (create_sequence body) \<and>
     recording_duration_ms existing = create_duration_ms body \<and>
     recording_stop_reason existing = create_stop_reason body \<and>
     recording_source_size_bytes existing = create_expected_size_bytes body \<and>
     recording_source_sha256 existing = create_source_sha256 body"

definition new_upload :: "RecordingCreateRequest \<Rightarrow> string \<Rightarrow> int \<Rightarrow> RecordingUpload" where
  "new_upload body name now =
     \<lparr>expected_size_bytes = create_expected_size_bytes body, upload_offset = 0, storage_name = name,
      source_sha256 = create_source_sha256 body, upload_updated_at = now,
      upload_recording_id = create_recording_id body\<rparr>"

definition new_recording :: "RecordingCreateRequest \<Rightarrow> Device \<Rightarrow> int \<Rightarrow> Recording" where
  "new_recording body device now =
     \<lparr>recording_id = create_recording_id body, recording_device_id = device_id device,
      recording_call_id = create_call_id body, recording_revision_id = Some (create_revision_id body),
      recording_block_id = Some (create_block_id body), recording_sequence = int (create_sequence body),
      recording_kind = ''voicemail'', audit_metadata = None, recording_operator = None, recording_operator_last4 = [],
      recording_segment_count = 0,
      recording_captured_at = utc (create_captured_at body), recording_duration_ms = create_duration_ms body,
      recording_stop_reason = create_stop_reason body, recording_source_size_bytes = create_expected_size_bytes body,
      recording_source_sha256 = create_source_sha256 body, recording_status = ''uploading'',
      recording_source_format = ''legacy_wav'', recording_partial = False, media_key_version = None,
      media_storage_name = None, media_size_bytes = None, media_sha256 = None, listened_at = None,
      deleted_at = None, deletion_reason = None, processing_error = None, recording_updated_at = now\<rparr>"

text \<open>A recording that was announced before: a failed upload may start again.\<close>

definition resume_recording ::
  "recording_settings \<Rightarrow> Device \<Rightarrow> RecordingCreateRequest \<Rightarrow> string \<Rightarrow> int \<Rightarrow> bool \<Rightarrow> Recording \<Rightarrow> recording_state \<Rightarrow>
   RecordingUploadResponse reply" where
  "resume_recording settings device body uuid now commit_ok existing s =
     (if recording_source_format existing \<noteq> ''legacy_wav''
      then (Inl (Refused 409 ''Use the continuous recording API for this recording''), s)
      else if recording_device_id existing \<noteq> device_id device
      then (Inl (Refused 409 ''Recording ID belongs to another device''), s)
      else if \<not> same_metadata existing body
      then (Inl (Refused 409 ''Recording ID was reused with different metadata''), s)
      else
        let existing_upload = find_upload (create_recording_id body) (tables s) in
        if recording_status existing = ''failed'' \<and> existing_upload = None
        then (case require_recording_capacity settings (create_expected_size_bytes body) now (tables s) of
                Inl e \<Rightarrow> (Inl e, s)
              | Inr t \<Rightarrow>
                  (case create_upload_directory settings uuid (disk s) of
                     Inl e \<Rightarrow> (Inl (Crashed e), s)
                   | Inr d \<Rightarrow>
                       let recording = existing\<lparr>recording_status := ''uploading'', recording_updated_at := now\<rparr>;
                           upload = new_upload body uuid now;
                           t = put_recording recording t\<lparr>recording_uploads := recording_uploads t @ [upload]\<rparr> in
                       if commit_ok
                       then (Inr (as_upload_response recording (Some upload)), \<lparr>tables = t, disk = d\<rparr>)
                       else (Inl commit_failed, s\<lparr>disk := d\<rparr>)))
        else (Inr (as_upload_response existing existing_upload), s))"

text \<open>What the signed revision allows a recording to be.\<close>

definition signed_recording_limits :: "RecordingCreateRequest \<Rightarrow> manifest \<Rightarrow> request_error + unit" where
  "signed_recording_limits body m =
     (let finish = (case manifest_recording m of None \<Rightarrow> None | Some b \<Rightarrow> finish_key b);
          signed_maximum_ms = (case manifest_recording m of None \<Rightarrow> 0 | Some b \<Rightarrow> maximum_duration_seconds b) * 1000 in
      if \<not> recording_instruction_exists m (create_block_id body)
      then Inl (Refused 422 ''Recording block is not present in the signed revision'')
      else if create_stop_reason body = ''finish_key'' \<and> finish = None
      then Inl (Refused 422 ''The signed revision disables finish-key stopping'')
      else if create_duration_ms body > signed_maximum_ms
      then Inl (Refused 422 ''Recording duration exceeds the signed limit'')
      else if create_stop_reason body = ''maximum_duration'' \<and> int (create_duration_ms body) < int signed_maximum_ms - 100
      then Inl (Refused 422 ''Maximum-duration receipt ended too early'')
      else Inr ())"

definition recording_admissible ::
  "recording_settings \<Rightarrow> Device \<Rightarrow> RecordingCreateRequest \<Rightarrow> int \<Rightarrow> recording_tables \<Rightarrow> request_error + unit" where
  "recording_admissible settings device body now t =
     (case find (\<lambda>c. call_id c = create_call_id body) (calls t) of
        None \<Rightarrow> Inl (Refused 409 ''Call event must be acknowledged before its recording'')
      | Some call \<Rightarrow>
          if call_device_id call \<noteq> device_id device then Inl (Refused 403 ''Call belongs to another device'')
          else
            let captured_at = utc (create_captured_at body) in
            if captured_at < call_started_at call - seconds 5 \<or> captured_at > call_started_at call + minutes 10 \<or>
               captured_at > now + minutes 5
            then Inl (Refused 422 ''Recording timestamp is outside its call session'')
            else case find_revision (create_revision_id body) (control_rows t) of
              None \<Rightarrow> Inl (Refused 422 ''Recording revision is not a V3/V4 revision'')
            | Some revision \<Rightarrow>
                if revision_schema revision \<notin> {3, 4} then Inl (Refused 422 ''Recording revision is not a V3/V4 revision'')
                else if call_revision_id call \<noteq> Some (create_revision_id body)
                then Inl (Refused 409 ''Recording revision does not match the call'')
                else bind_result (signed_recording_limits body (load_manifest revision)) (\<lambda>_.
                  if create_expected_size_bytes body > recording_upload_limit_bytes settings \<or>
                     create_expected_size_bytes body > 44 + create_duration_ms body * 192 + 4096
                  then Inl (Refused 413 ''Recording size exceeds its duration bound'')
                  else Inr ()))"

text \<open>The unique constraints of the two tables.\<close>

definition recording_duplicate :: "Recording \<Rightarrow> RecordingUpload \<Rightarrow> recording_tables \<Rightarrow> bool" where
  "recording_duplicate r u t \<longleftrightarrow>
     list_ex (\<lambda>q. recording_id q = recording_id r \<or>
       recording_device_id q = recording_device_id r \<and> recording_call_id q = recording_call_id r \<and>
       recording_sequence q = recording_sequence r) (recordings t) \<or>
     list_ex (\<lambda>v. upload_recording_id v = upload_recording_id u \<or> storage_name v = storage_name u) (recording_uploads t)"

definition create_recording ::
  "recording_settings \<Rightarrow> Device \<Rightarrow> RecordingCreateRequest \<Rightarrow> string \<Rightarrow> int \<Rightarrow> bool \<Rightarrow> recording_state \<Rightarrow>
   RecordingUploadResponse reply" where
  "create_recording settings device body uuid now commit_ok s =
     (case find_recording (create_recording_id body) (tables s) of
        Some existing \<Rightarrow> resume_recording settings device body uuid now commit_ok existing s
      | None \<Rightarrow>
        (case bind_result (recording_admissible settings device body now (tables s)) (\<lambda>_.
             require_recording_capacity settings (create_expected_size_bytes body) now (tables s)) of
           Inl e \<Rightarrow> (Inl e, s)
         | Inr t \<Rightarrow>
             (case create_upload_directory settings uuid (disk s) of
                Inl e \<Rightarrow> (Inl (Crashed e), s)
              | Inr d \<Rightarrow>
                  let recording = new_recording body device now;
                      upload = new_upload body uuid now in
                  if recording_duplicate recording upload t
                  then (Inl (Refused 409 ''Duplicate recording for this call step''),
                        s\<lparr>disk := d\<lparr>uploads := AList.delete uuid (uploads d)\<rparr>\<rparr>)
                  else if commit_ok
                  then (Inr (as_upload_response recording (Some upload)),
                        \<lparr>tables = t\<lparr>recordings := recordings t @ [recording],
                           recording_uploads := recording_uploads t @ [upload]\<rparr>, disk = d\<rparr>)
                  else (Inl commit_failed, s\<lparr>disk := d\<rparr>))))"

definition recording_upload_status :: "string \<Rightarrow> Device \<Rightarrow> recording_state \<Rightarrow> RecordingUploadResponse reply" where
  "recording_upload_status i device s =
     (bind_result (get_owned_recording (tables s) i device) (\<lambda>recording.
        Inr (as_upload_response recording (find_upload (recording_id recording) (tables s)))), s)"

record content_request =
  header_upload_offset :: "int option"
  header_content_type :: string
  header_content_length :: "string option"
  body_parts :: "bytes list"

text \<open>The row of the upload, for a recording that still accepts content; a finished one is only reported.\<close>

definition open_upload ::
  "string \<Rightarrow> string \<Rightarrow> Device \<Rightarrow> recording_tables \<Rightarrow> request_error + (RecordingUploadResponse + Recording \<times> RecordingUpload)" where
  "open_upload refusal i device t =
     bind_result (get_owned_recording t i device) (\<lambda>recording.
       if recording_status recording \<in> {''ready'', ''deleted''} then Inr (Inl (as_upload_response recording None))
       else if recording_status recording \<noteq> ''uploading'' then Inl (Refused 409 refusal)
       else case find_upload (recording_id recording) t of
         None \<Rightarrow> Inl (Refused 409 ''Recording upload is unavailable'')
       | Some upload \<Rightarrow> Inr (Inr (recording, upload)))"

definition upload_recording_content ::
  "recording_settings \<Rightarrow> RecordingCipher \<Rightarrow> string \<Rightarrow> Device \<Rightarrow> content_request \<Rightarrow> bytes \<Rightarrow> int \<Rightarrow> bool \<Rightarrow> recording_state \<Rightarrow>
   RecordingUploadResponse reply" where
  "upload_recording_content settings cipher i device request nonce now commit_ok s =
     (case header_upload_offset request of
        None \<Rightarrow> (Inl (Refused 400 ''Upload-Offset is required''), s)
      | Some offset \<Rightarrow>
        if offset < 0 then (Inl (Refused 400 ''Upload-Offset is required''), s)
        else if takeWhile (\<lambda>c. c \<noteq> CHR '';'') (header_content_type request) \<noteq> ''application/offset+octet-stream''
        then (Inl (Refused 415 ''Use application/offset+octet-stream''), s)
        else case open_upload ''Recording is not accepting content'' i device (tables s) of
          Inl e \<Rightarrow> (Inl e, s)
        | Inr (Inl response) \<Rightarrow> (Inr response, s)
        | Inr (Inr (recording, upload)) \<Rightarrow>
            (case bind_result
                (read_bounded_chunk (header_content_length request) (body_parts request) (recording_chunk_limit_bytes settings))
                (\<lambda>body. case store_chunk settings cipher None nonce now (nat offset) body (recording, upload, disk s) of
                   Inl e \<Rightarrow> Inl (as_http e) | Inr r \<Rightarrow> Inr r) of
               Inl e \<Rightarrow> (Inl e, s)
             | Inr (recording, upload, d) \<Rightarrow>
                 if commit_ok
                 then (Inr (as_upload_response recording (Some upload)),
                       \<lparr>tables = put_upload upload (put_recording recording (tables s)), disk = d\<rparr>)
                 else (Inl commit_failed, s\<lparr>disk := d\<rparr>)))"

text \<open>
  The media file is written first, then the rows are committed, then the upload directory is removed; a
  commit that fails removes the media file again.
\<close>

definition complete_recording ::
  "recording_settings \<Rightarrow> RecordingCipher \<Rightarrow> (string \<Rightarrow> bytes \<Rightarrow> (int \<times> bytes) option) \<Rightarrow> string \<Rightarrow> Device \<Rightarrow>
   bytes \<Rightarrow> string \<Rightarrow> int \<Rightarrow> bool \<Rightarrow> recording_state \<Rightarrow> RecordingUploadResponse reply" where
  "complete_recording settings cipher ffmpeg i device nonce uuid now commit_ok s =
     (case open_upload ''Recording cannot be completed'' i device (tables s) of
        Inl e \<Rightarrow> (Inl e, s)
      | Inr (Inl response) \<Rightarrow> (Inr response, s)
      | Inr (Inr (recording, upload)) \<Rightarrow>
          (case finalize_recording settings cipher ffmpeg nonce uuid now recording upload s of
             Inl e \<Rightarrow> (Inl (as_http e), s)
           | Inr (recording, d) \<Rightarrow>
               if \<not> commit_ok then (Inl commit_failed, s\<lparr>disk := unlink (the (media_storage_name recording)) d\<rparr>)
               else case remove_upload_files settings upload d of (r, d) \<Rightarrow>
                 (case r of Inl e \<Rightarrow> Inl (Crashed e) | Inr _ \<Rightarrow> Inr (as_upload_response recording None),
                  \<lparr>tables = delete_upload (recording_id recording) (put_recording recording (tables s)), disk = d\<rparr>)))"

section \<open>Requests of the administrator\<close>

definition crashed :: "unit recording_result \<times> recording_state \<Rightarrow> 'a \<Rightarrow> 'a reply" where
  "crashed r x = (case fst r of Inl e \<Rightarrow> (Inl (Crashed e), snd r) | Inr _ \<Rightarrow> (Inr x, snd r))"

definition apply_retention ::
  "recording_settings \<Rightarrow> int \<Rightarrow> bool \<Rightarrow> recording_state \<Rightarrow> unit recording_result \<times> recording_state" where
  "apply_retention settings now commit_ok s =
     (case initialize_retention_policy (development_admin_email settings) now (tables s) of (policy, t1) \<Rightarrow>
      case purge_expired_recordings settings policy now t1 (disk s) of
        (Inl e, d) \<Rightarrow> (Inl e, s\<lparr>disk := d\<rparr>)
      | (Inr (quarantined, t2), d) \<Rightarrow> settle_purge settings commit_ok (tables s) quarantined t2 d)"

definition select_recordings :: "string option \<Rightarrow> bool option \<Rightarrow> recording_tables \<Rightarrow> Recording list" where
  "select_recordings kind only_unread t =
     filter (\<lambda>r. recording_status r \<noteq> ''deleted'' \<and>
       (case kind of None \<Rightarrow> recording_kind r \<noteq> ''session_audit''
        | Some k \<Rightarrow> k = ''all'' \<or> recording_kind r = k) \<and>
       (only_unread = Some True \<longrightarrow> listened_at r = None)) (recordings t)"

text \<open>The rows of one page, latest first, and the total number of matching rows.\<close>

definition list_recordings ::
  "recording_settings \<Rightarrow> bool option \<Rightarrow> nat \<Rightarrow> nat \<Rightarrow> string option \<Rightarrow> int \<Rightarrow> bool \<Rightarrow> recording_state \<Rightarrow>
   (Recording list \<times> nat) reply" where
  "list_recordings settings only_unread page page_size kind now commit_ok s =
     (let r = apply_retention settings now commit_ok s;
          rows = select_recordings kind only_unread (tables (snd r)) in
      crashed r (take page_size (drop ((page - 1) * page_size) (sort_key (\<lambda>r. - recording_captured_at r) rows)), length rows))"

definition set_recording_listened :: "string \<Rightarrow> bool \<Rightarrow> string \<Rightarrow> int \<Rightarrow> bool \<Rightarrow> recording_state \<Rightarrow> Recording reply" where
  "set_recording_listened i listened actor now commit_ok s =
     (case find_recording i (tables s) of
        None \<Rightarrow> (Inl (Refused 404 ''Recording not found''), s)
      | Some recording \<Rightarrow>
          if recording_status recording = ''deleted'' then (Inl (Refused 404 ''Recording not found''), s)
          else if recording_status recording \<noteq> ''ready''
          then (Inl (Refused 409 ''Only completed recordings can be marked listened''), s)
          else
            let recording = recording\<lparr>listened_at := (if listened then Some now else None), recording_updated_at := now\<rparr>;
                t = put_recording recording (tables s);
                t = t\<lparr>control_rows := audit actor ''recording.listened_changed'' (''recording:'' @ recording_id recording)
                  [(''listened'', JBool listened)] (control_rows t)\<rparr> in
            if commit_ok then (Inr recording, s\<lparr>tables := t\<rparr>) else (Inl commit_failed, s))"

definition delete_recording :: "recording_settings \<Rightarrow> string \<Rightarrow> string \<Rightarrow> int \<Rightarrow> bool \<Rightarrow> recording_state \<Rightarrow> unit reply" where
  "delete_recording settings i actor now commit_ok s =
     (case find_recording i (tables s) of
        None \<Rightarrow> (Inl (Refused 404 ''Recording not found''), s)
      | Some recording \<Rightarrow>
          if recording_status recording = ''deleted'' then (Inr (), s)
          else if recording_status recording \<noteq> ''ready''
          then (Inl (Refused 409 ''Pending device recordings cannot be deleted''), s)
          else case quarantine_media settings recording (disk s) of
            Inl e \<Rightarrow> (Inl (as_http e), s)
          | Inr (quarantined, d) \<Rightarrow>
              let t = put_recording (tombstone_recording now ''manual'' recording) (tables s);
                  t = t\<lparr>control_rows := audit actor ''recording.deleted'' (''recording:'' @ recording_id recording) [] (control_rows t)\<rparr> in
              crashed (settle_purge settings commit_ok (tables s) [quarantined] t d) ())"

record RetentionPolicyResponse =
  retention_mode :: string
  retention_days :: int
  retention_quota_bytes :: nat
  retention_used_bytes :: nat
  retention_pending_count :: nat
  retention_updated_at :: int
  retention_updated_by :: string

definition policy_response :: "recording_settings \<Rightarrow> recording_tables \<Rightarrow> RecordingRetentionPolicy \<Rightarrow> RetentionPolicyResponse" where
  "policy_response settings t policy =
     \<lparr>retention_mode = policy_mode policy, retention_days = policy_days policy,
      retention_quota_bytes = recording_quota_bytes settings, retention_used_bytes = recording_used_bytes None None t,
      retention_pending_count = length (filter (\<lambda>r. recording_status r \<in> {''uploading'', ''processing''}) (recordings t)),
      retention_updated_at = policy_updated_at policy, retention_updated_by = policy_updated_by policy\<rparr>"

definition get_recording_settings ::
  "recording_settings \<Rightarrow> int \<Rightarrow> bool \<Rightarrow> recording_state \<Rightarrow> RetentionPolicyResponse reply" where
  "get_recording_settings settings now commit_ok s =
     (case initialize_retention_policy (development_admin_email settings) now (tables s) of (policy, t1) \<Rightarrow>
      case purge_expired_recordings settings policy now t1 (disk s) of
        (Inl e, d) \<Rightarrow> (Inl (Crashed e), s\<lparr>disk := d\<rparr>)
      | (Inr (quarantined, t2), d) \<Rightarrow>
          (case cleanup_abandoned_uploads settings now t2 of (abandoned, t3) \<Rightarrow>
           case settle_purge settings commit_ok (tables s) quarantined t3 d of
             (Inl e, s') \<Rightarrow> (Inl (Crashed e), s')
           | (Inr _, s') \<Rightarrow>
               (case remove_all_uploads settings abandoned (disk s') of (r, d) \<Rightarrow>
                  crashed (r, s'\<lparr>disk := d\<rparr>) (policy_response settings t3 policy))))"

definition put_recording_settings ::
  "recording_settings \<Rightarrow> string \<Rightarrow> int \<Rightarrow> string \<Rightarrow> int \<Rightarrow> bool \<Rightarrow> recording_state \<Rightarrow> RetentionPolicyResponse reply" where
  "put_recording_settings settings new_mode retention actor now commit_ok s =
     (case initialize_retention_policy actor now (tables s) of (policy, t1) \<Rightarrow>
      let policy = policy\<lparr>policy_mode := new_mode, policy_days := retention, policy_updated_at := now, policy_updated_by := actor\<rparr>;
          t1 = t1\<lparr>retention_policy := Some policy\<rparr> in
      case purge_expired_recordings settings policy now t1 (disk s) of
        (Inl e, d) \<Rightarrow> (Inl (Crashed e), s\<lparr>disk := d\<rparr>)
      | (Inr (quarantined, t2), d) \<Rightarrow>
          let t3 = t2\<lparr>control_rows := audit actor ''recording.retention_updated'' ''recording-retention-policy''
            [(''mode'', JString new_mode), (''days'', JInt retention)] (control_rows t2)\<rparr> in
          crashed (settle_purge settings commit_ok (tables s) quarantined t3 d) (policy_response settings t3 policy))"

section \<open>Playback\<close>

definition no_range :: "string \<Rightarrow> request_error" where
  "no_range detail = Refused 416 detail"

definition parse_range :: "string option \<Rightarrow> nat \<Rightarrow> request_error + (int \<times> int) option" where
  "parse_range header media_size =
     (case header of
        None \<Rightarrow> Inr None
      | Some range_value \<Rightarrow>
          if \<not> starts_with ''bytes='' range_value \<or> CHR '','' \<in> set range_value
          then Inl (no_range ''Only one byte range is supported'')
          else
            let bounds = drop 6 range_value;
                first = takeWhile (\<lambda>c. c \<noteq> CHR ''-'') bounds;
                second = (case dropWhile (\<lambda>c. c \<noteq> CHR ''-'') bounds of [] \<Rightarrow> None | _ # rest \<Rightarrow> Some rest) in
            bind_result
              (if first = []
               then (case second of
                       None \<Rightarrow> Inl (Crashed (OtherError ''IndexError''))
                     | Some text \<Rightarrow>
                         (case py_int text of
                            None \<Rightarrow> Inl (no_range ''Invalid byte range'')
                          | Some n \<Rightarrow>
                              if n \<le> 0 then Inl (no_range ''Invalid byte range'')
                              else Inr (max 0 (int media_size - n), int media_size - 1)))
               else (case py_int first of
                       None \<Rightarrow> Inl (no_range ''Invalid byte range'')
                     | Some start \<Rightarrow>
                         (case second of
                            None \<Rightarrow> Inl (Crashed (OtherError ''IndexError''))
                          | Some [] \<Rightarrow> Inr (start, int media_size - 1)
                          | Some text \<Rightarrow>
                              (case py_int text of
                                 None \<Rightarrow> Inl (no_range ''Invalid byte range'')
                               | Some end_byte \<Rightarrow> Inr (start, end_byte)))))
              (\<lambda>(start, end_byte).
                if start < 0 \<or> start \<ge> int media_size \<or> end_byte < start
                then Inl (no_range ''Byte range is outside the recording'')
                else Inr (Some (start, min end_byte (int media_size - 1)))))"

text \<open>The status code, the content and the selected range of the answer that carries a voicemail.\<close>

definition media_response ::
  "bytes \<Rightarrow> string option \<Rightarrow> request_error + nat \<times> bytes \<times> (int \<times> int) option" where
  "media_response content range_header =
     bind_result (parse_range range_header (length content)) (\<lambda>selected.
       case selected of
         None \<Rightarrow> Inr (200, content, None)
       | Some (start, end_byte) \<Rightarrow>
           Inr (206, take (nat (end_byte + 1 - start)) (drop (nat start) content), Some (start, end_byte)))"

end
