(* ===== verification/Upload_Laws.thy ===== *)
theory Upload_Laws
  imports Recording_Storage
begin

text \<open>
  Correctness of chunked uploads: what the chunk files of an upload directory hold is at every moment
  the prefix of the caller's audio that the server has acknowledged, whatever replays, retries with
  other chunk sizes, refused requests and lost commits came before; and a complete upload reads back
  exactly.
\<close>

section \<open>Names of chunks\<close>

definition hex_value :: "char \<Rightarrow> nat" where
  "hex_value c = (let n = of_char c in if n < 58 then n - 48 else n - 87)"

definition of_hex :: "string \<Rightarrow> nat" where
  "of_hex s = foldl (\<lambda>n c. 16 * n + hex_value c) 0 s"

lemma hex_value_digit: "n < 16 \<Longrightarrow> hex_value (hex_digit n) = n"
  by (simp add: hex_value_def hex_digit_def of_char_of Let_def)

lemma of_hex_hex: "of_hex (hex n) = n"
proof (induction n rule: hex.induct)
  case (1 n)
  show ?case
  proof (cases "n < 16")
    case True
    then show ?thesis by (subst hex.simps) (simp add: of_hex_def hex_value_digit)
  next
    case False
    then show ?thesis using 1 by (subst hex.simps) (simp add: of_hex_def hex_value_digit)
  qed
qed

lemma of_hex_padded: "of_hex (zero_padded k s) = of_hex s"
proof -
  have "foldl (\<lambda>n c. 16 * n + hex_value c) 0 (replicate j CHR ''0'') = 0" for j
    by (induction j) (simp_all add: hex_value_def)
  then show ?thesis by (simp add: of_hex_def zero_padded_def)
qed

lemma chunk_name_inject [simp]: "chunk_name a = chunk_name b \<longleftrightarrow> a = b"
  using of_hex_hex of_hex_padded by (metis append_same_eq chunk_name_def)

section \<open>The content of an upload\<close>

text \<open>A reader delivers these chunks one after the other, from the offset on.\<close>

fun laid_out :: "(nat \<Rightarrow> bytes recording_result) \<Rightarrow> nat \<Rightarrow> bytes list \<Rightarrow> bool" where
  "laid_out read offset [] = True"
| "laid_out read offset (p # ps) = (p \<noteq> [] \<and> read offset = Inr p \<and> laid_out read (offset + length p) ps)"

text \<open>The offsets at which these chunks start.\<close>

fun boundaries :: "nat \<Rightarrow> bytes list \<Rightarrow> nat set" where
  "boundaries offset [] = {}"
| "boundaries offset (p # ps) = insert offset (boundaries (offset + length p) ps)"

lemma read_chunks_laid_out:
  "laid_out read offset ps \<Longrightarrow> offset + length (concat ps) = expected \<Longrightarrow>
     read_chunks read e expected offset = Inr ps"
proof (induction ps arbitrary: offset)
  case Nil
  then show ?case by (simp add: read_chunks.simps)
next
  case (Cons p ps)
  then have "read_chunks read e expected (offset + length p) = Inr ps" by simp
  then show ?case using Cons.prems by (subst read_chunks.simps) (auto simp: neq_Nil_conv)
qed

lemma laid_out_append:
  "laid_out read offset (ps @ qs) \<longleftrightarrow>
     laid_out read offset ps \<and> laid_out read (offset + length (concat ps)) qs"
  by (induction ps arbitrary: offset) (auto simp: add.assoc)

lemma boundaries_append:
  "boundaries offset (ps @ qs) = boundaries offset ps \<union> boundaries (offset + length (concat ps)) qs"
  by (induction ps arbitrary: offset) (auto simp: add.assoc)

lemma boundaries_range:
  "laid_out read offset ps \<Longrightarrow> b \<in> boundaries offset ps \<Longrightarrow> offset \<le> b \<and> b < offset + length (concat ps)"
  by (induction ps arbitrary: offset) (fastforce simp: neq_Nil_conv)+

lemma laid_out_cong:
  "laid_out read offset ps \<Longrightarrow> (\<And>b. b \<in> boundaries offset ps \<Longrightarrow> read' b = read b) \<Longrightarrow> laid_out read' offset ps"
  by (induction ps arbitrary: offset) auto

lemma laid_out_slice:
  "laid_out read offset ps \<Longrightarrow> b \<in> boundaries offset ps \<Longrightarrow> read b = Inr p \<Longrightarrow>
     take (length p) (drop (b - offset) (concat ps)) = p"
proof (induction ps arbitrary: offset)
  case (Cons q ps)
  show ?case
  proof (cases "b = offset")
    case False
    then have b: "b \<in> boundaries (offset + length q) ps" using Cons.prems by simp
    then have "offset + length q \<le> b" using boundaries_range Cons.prems(1) by fastforce
    then show ?thesis using Cons b by simp
  qed (use Cons.prems in simp)
qed simp

text \<open>
  The invariant of an upload with the content received so far. Files start only where chunks start; one
  more file, at the acknowledged offset itself, can be left over by a request whose commit was lost.
\<close>

definition upload_holds ::
  "recording_settings \<Rightarrow> RecordingCipher \<Rightarrow> string \<Rightarrow> 'a upload_row_scheme \<Rightarrow> storage \<Rightarrow> bytes \<Rightarrow> bool" where
  "upload_holds settings cipher identity upload disk content \<longleftrightarrow>
     (\<exists>d ps. upload_directory settings upload disk = Inr d \<and>
        laid_out (read_chunk settings cipher identity d) 0 ps \<and> concat ps = content \<and>
        length content = upload_offset upload \<and> upload_offset upload \<le> expected_size_bytes upload \<and>
        (\<forall>b. map_of (children d) (chunk_name b) \<noteq> None \<longrightarrow> b \<in> boundaries 0 ps \<or> b = upload_offset upload))"

lemma read_complete:
  assumes "upload_holds settings cipher identity upload disk content"
    "upload_offset upload = expected_size_bytes upload" "content_sha256 settings content = source_sha256 upload"
    "identity = (if truthy ci then the ci else recording_id recording)"
  shows "read_uploaded_wav settings cipher ci recording upload disk = Inr content"
proof -
  obtain d ps where h: "upload_directory settings upload disk = Inr d"
    "laid_out (read_chunk settings cipher identity d) 0 ps" "concat ps = content"
    "length content = upload_offset upload"
    using assms(1) unfolding upload_holds_def by blast
  have "read_chunks (read_chunk settings cipher identity d) e (expected_size_bytes upload) 0 = Inr ps" for e
    using read_chunks_laid_out [OF h(2)] h(3,4) assms(2) by simp
  then show ?thesis
    using h(1,3,4) assms(2-4) by (simp add: read_uploaded_wav_def Let_def)
qed

lemma read_incomplete:
  "upload_offset upload \<noteq> expected_size_bytes upload \<Longrightarrow>
     read_uploaded_wav settings cipher ci recording upload disk =
       Inl (RecordingError ''Recording upload is incomplete.'' 409)"
  by (simp add: read_uploaded_wav_def)

text \<open>What is read back was held, whatever the state of the directory.\<close>

lemma read_uploaded_wav_Inr:
  assumes "read_uploaded_wav settings cipher ci recording upload disk = Inr content"
  shows "length content = expected_size_bytes upload \<and> content_sha256 settings content = source_sha256 upload"
  using assms by (auto simp: read_uploaded_wav_def bind_result_Inr Let_def split: if_splits)

section \<open>Writing one chunk\<close>

lemma upload_directory_Inr:
  "upload_directory settings upload disk = Inr d \<longleftrightarrow>
     length (storage_name upload) = 32 \<and> list_all hex_char (storage_name upload) \<and>
     map_of (uploads disk) (storage_name upload) = Some d \<and> entry_kind d = DirectoryEntry \<and> owned_privately settings d"
  by (auto simp: upload_directory_def require_safe_directory_def Let_def bind_result_Inr split: option.splits if_splits)

lemma write_chunk_directory:
  assumes "upload_directory settings upload disk = Inr d"
    "storage_name upload' = storage_name upload"
  shows "upload_directory settings upload' (write_chunk settings (storage_name upload) offset content d disk) =
    Inr (d\<lparr>children := AList.update (chunk_name offset) (private_file settings content) (children d)\<rparr>)"
  using assms by (simp add: upload_directory_Inr write_chunk_def update_conv owned_privately_def)

lemma read_chunk_update:
  "read_chunk settings cipher identity
     (d\<lparr>children := AList.update (chunk_name offset) (private_file settings content) (children d)\<rparr>) b =
   (if b = offset then decrypt_chunk cipher identity offset content else read_chunk settings cipher identity d b)"
  by (simp add: read_chunk_def update_conv)

text \<open>Appending a chunk that the reader then finds at the acknowledged offset.\<close>

lemma upload_holds_append:
  assumes "upload_holds settings cipher identity upload disk content"
    and d': "upload_directory settings upload' disk' = Inr d'"
    and p: "p \<noteq> []" "read_chunk settings cipher identity d' (upload_offset upload) = Inr p"
    and same: "\<And>d b. upload_directory settings upload disk = Inr d \<Longrightarrow> b \<noteq> upload_offset upload \<Longrightarrow>
      map_of (children d') (chunk_name b) = map_of (children d) (chunk_name b)"
    and row: "upload_offset upload' = upload_offset upload + length p"
      "expected_size_bytes upload' = expected_size_bytes upload"
      "upload_offset upload + length p \<le> expected_size_bytes upload"
  shows "upload_holds settings cipher identity upload' disk' (content @ p)"
proof -
  obtain d ps where h: "upload_directory settings upload disk = Inr d"
    "laid_out (read_chunk settings cipher identity d) 0 ps" "concat ps = content"
    "length content = upload_offset upload"
    "\<forall>b. map_of (children d) (chunk_name b) \<noteq> None \<longrightarrow> b \<in> boundaries 0 ps \<or> b = upload_offset upload"
    using assms(1) unfolding upload_holds_def by blast
  have "read_chunk settings cipher identity d' b = read_chunk settings cipher identity d b"
    if "b \<in> boundaries 0 ps" for b
  proof -
    have "b \<noteq> upload_offset upload" using boundaries_range [OF h(2) that] h(3,4) by simp
    then show ?thesis using same [OF h(1)] by (simp add: read_chunk_def)
  qed
  then have "laid_out (read_chunk settings cipher identity d') 0 ps" using laid_out_cong [OF h(2)] by blast
  then have "laid_out (read_chunk settings cipher identity d') 0 (ps @ [p])"
    using p h(3,4) by (simp add: laid_out_append)
  moreover have "b \<in> boundaries 0 (ps @ [p])" if "map_of (children d') (chunk_name b) \<noteq> None" for b
    using same [OF h(1), of b] h(3,4,5) that by (cases "b = upload_offset upload") (auto simp: boundaries_append)
  ultimately show ?thesis
    unfolding upload_holds_def using d' h(3,4) row
    by (intro exI [of _ d'] exI [of _ "ps @ [p]"]) simp
qed

text \<open>
  The two ways in which a chunk is accepted: a replay of content that is already held changes nothing;
  a chunk at the acknowledged offset extends the content.
\<close>

lemma store_chunk_Inr:
  assumes "store_chunk settings cipher ci nonce now offset p (recording, upload, disk) = Inr (recording', upload', disk')"
    and identity: "identity = (if truthy ci then the ci else recording_id recording)"
    and holds: "upload_holds settings cipher identity upload disk content"
    and cipher: "cipher_ready cipher" "is_ascii identity" "length nonce = 12"
  shows "recording_id recording' = recording_id recording \<and> expected_size_bytes upload' = expected_size_bytes upload \<and>
    source_sha256 upload' = source_sha256 upload \<and> storage_name upload' = storage_name upload \<and>
    (offset < upload_offset upload \<and> upload' = upload \<and> disk' = disk \<and> take (length p) (drop offset content) = p \<or>
     offset = upload_offset upload \<and> upload_offset upload' = offset + length p \<and>
     upload_holds settings cipher identity upload' disk' (content @ p))"
proof -
  obtain d ps where h: "upload_directory settings upload disk = Inr d"
    "laid_out (read_chunk settings cipher identity d) 0 ps" "concat ps = content"
    "length content = upload_offset upload"
    "\<forall>b. map_of (children d) (chunk_name b) \<noteq> None \<longrightarrow> b \<in> boundaries 0 ps \<or> b = upload_offset upload"
    using holds unfolding upload_holds_def by blast
  note run = assms(1) [unfolded store_chunk_def, simplified, unfolded h(1), simplified, folded identity]
  from run have p: "p \<noteq> []" "offset + length p \<le> expected_size_bytes upload"
    by (auto split: if_splits)
  consider (replay) "offset < upload_offset upload" | (extend) "offset = upload_offset upload"
    using run by (fastforce split: if_splits)
  then show ?thesis
  proof cases
    case replay
    then have r: "read_chunk settings cipher identity d offset = Inr p"
      "recording' = recording" "upload' = upload" "disk' = disk"
      using run p by (auto simp: Let_def bind_result_Inr identity split: if_splits)
    have "map_of (children d) (chunk_name offset) \<noteq> None"
      using r(1) by (auto simp: read_chunk_def bind_result_Inr require_safe_file_Inr)
    then have "offset \<in> boundaries 0 ps" using h(5) replay by auto
    then have "take (length p) (drop offset content) = p" using laid_out_slice [OF h(2) _ r(1)] h(3) by simp
    then show ?thesis using replay r by simp
  next
    case extend
    obtain payload where e: "encrypt_chunk cipher nonce identity offset p = Inr payload"
      "decrypt_chunk cipher identity offset payload = Inr p"
      using chunk_round_trip [OF cipher, of offset p] keeps_key_refl by metis
    let ?row = "upload\<lparr>upload_offset := offset + length p, upload_updated_at := now\<rparr>"
    from run extend p e(1) have row: "recording' = recording\<lparr>recording_updated_at := now\<rparr>" "upload' = ?row"
      and written: "read_chunk settings cipher identity d offset = Inr p \<and> disk' = disk \<or>
        disk' = write_chunk settings (storage_name upload) offset payload d disk"
      by (auto simp: Let_def bind_result_Inr identity split: if_splits)
    have "upload_holds settings cipher identity upload' disk' (content @ p)"
      using written
    proof
      assume "read_chunk settings cipher identity d offset = Inr p \<and> disk' = disk"
      then show ?thesis
        using h(1) extend p row
        by (intro upload_holds_append [OF holds, where d' = d]) (auto simp: upload_directory_Inr)
    next
      assume w: "disk' = write_chunk settings (storage_name upload) offset payload d disk"
      have "upload_directory settings upload' disk' =
          Inr (d\<lparr>children := AList.update (chunk_name offset) (private_file settings payload) (children d)\<rparr>)"
        unfolding w row(2) by (rule write_chunk_directory [OF h(1)]) simp
      then show ?thesis
        by (rule upload_holds_append [OF holds])
          (use h(1) extend p row e(2) in \<open>auto simp: read_chunk_update update_conv\<close>)
    qed
    then show ?thesis using extend row by simp
  qed
qed

section \<open>Resumable uploads\<close>

text \<open>What an accepted request does to the storage.\<close>

lemma store_chunk_disk:
  assumes "store_chunk settings cipher ci nonce now offset p (recording, upload, disk) = Inr (recording', upload', disk')"
  shows "disk' = disk \<or> (\<exists>payload d. upload_directory settings upload disk = Inr d \<and>
    disk' = write_chunk settings (storage_name upload) (upload_offset upload) payload d disk \<and>
    \<not> path_exists (map_of (children d) (chunk_name (upload_offset upload))))"
proof (cases "upload_directory settings upload disk")
  case (Inl e)
  then show ?thesis using assms by (simp add: store_chunk_def split: if_splits)
next
  case (Inr d)
  note run = assms [unfolded store_chunk_def, simplified, unfolded Inr, simplified]
  show ?thesis
  proof (cases "offset = upload_offset upload")
    case True
    then show ?thesis using run Inr by (auto simp: Let_def bind_result_Inr split: if_splits)
  next
    case False
    then have "disk' = disk" using run by (auto simp: Let_def bind_result_Inr split: if_splits)
    then show ?thesis by simp
  qed
qed

text \<open>A file at the acknowledged offset that no row knows of does not disturb the content.\<close>

lemma upload_holds_leftover:
  assumes "upload_holds settings cipher identity upload disk content" "upload_directory settings upload disk = Inr d"
  shows "upload_holds settings cipher identity upload
    (write_chunk settings (storage_name upload) (upload_offset upload) payload d disk) content"
proof -
  obtain ps where h: "laid_out (read_chunk settings cipher identity d) 0 ps" "concat ps = content"
    "length content = upload_offset upload" "upload_offset upload \<le> expected_size_bytes upload"
    "\<forall>b. map_of (children d) (chunk_name b) \<noteq> None \<longrightarrow> b \<in> boundaries 0 ps \<or> b = upload_offset upload"
    using assms unfolding upload_holds_def by auto
  let ?d = "d\<lparr>children := AList.update (chunk_name (upload_offset upload)) (private_file settings payload) (children d)\<rparr>"
  have "b \<noteq> upload_offset upload" if "b \<in> boundaries 0 ps" for b
    using boundaries_range [OF h(1) that] h(2,3) by simp
  then have "laid_out (read_chunk settings cipher identity ?d) 0 ps"
    using laid_out_cong [OF h(1)] by (simp add: read_chunk_update)
  then show ?thesis
    unfolding upload_holds_def using h write_chunk_directory [OF assms(2) refl]
    by (intro exI [of _ ?d] exI [of _ ps]) (auto simp: update_conv)
qed

text \<open>
  The requests of a device that uploads one recording: each carries the bytes of the recording at the
  offset that it names. A request is accepted and committed, or it is accepted and its commit is lost, in
  which case the storage keeps what was written and the rows do not. A refused request changes nothing.
\<close>

inductive upload_step ::
  "recording_settings \<Rightarrow> RecordingCipher \<Rightarrow> string option \<Rightarrow> bytes \<Rightarrow>
   Recording \<times> 'a upload_row_scheme \<times> storage \<Rightarrow> Recording \<times> 'a upload_row_scheme \<times> storage \<Rightarrow> bool"
  for settings cipher ci source where
  accepted: "upload_step settings cipher ci source s s'"
    if "store_chunk settings cipher ci nonce now offset p s = Inr s'" "length nonce = 12"
      "p = take (length p) (drop offset source)"
| lost: "upload_step settings cipher ci source (recording, upload, disk) (recording, upload, disk')"
    if "store_chunk settings cipher ci nonce now offset p (recording, upload, disk) = Inr (recording', upload', disk')"

text \<open>The rows keep describing this upload, and the storage holds the acknowledged prefix of the recording.\<close>

definition holds_prefix ::
  "recording_settings \<Rightarrow> RecordingCipher \<Rightarrow> string option \<Rightarrow> string \<Rightarrow> bytes \<Rightarrow>
   Recording \<times> 'a upload_row_scheme \<times> storage \<Rightarrow> bool" where
  "holds_prefix settings cipher ci i source s =
     (case s of (recording, upload, disk) \<Rightarrow>
        recording_id recording = i \<and> expected_size_bytes upload = length source \<and>
        source_sha256 upload = content_sha256 settings source \<and>
        upload_holds settings cipher (if truthy ci then the ci else i) upload disk
          (take (upload_offset upload) source))"

lemma take_extend:
  "p = take (length p) (drop n source) \<Longrightarrow> take n source @ p = take (n + length p) source"
  by (metis take_add)

lemma upload_step_holds_prefix:
  assumes "upload_step settings cipher ci source s s'" "holds_prefix settings cipher ci i source s"
    and cipher: "cipher_ready cipher" "is_ascii (if truthy ci then the ci else i)"
  shows "holds_prefix settings cipher ci i source s'"
  using assms(1,2)
proof cases
  case (accepted nonce now offset p)
  obtain recording upload disk recording' upload' disk' where s: "s = (recording, upload, disk)" "s' = (recording', upload', disk')"
    by (cases s, cases s') auto
  have h: "recording_id recording = i" "expected_size_bytes upload = length source"
    "source_sha256 upload = content_sha256 settings source"
    "upload_holds settings cipher (if truthy ci then the ci else i) upload disk (take (upload_offset upload) source)"
    using assms(2) by (simp_all add: holds_prefix_def s)
  from store_chunk_Inr [OF accepted(1) [unfolded s] _ h(4) cipher accepted(2)] h(1)
  have o: "recording_id recording' = i" "expected_size_bytes upload' = expected_size_bytes upload"
    "source_sha256 upload' = source_sha256 upload"
    "upload' = upload \<and> disk' = disk \<or> offset = upload_offset upload \<and> upload_offset upload' = offset + length p \<and>
      upload_holds settings cipher (if truthy ci then the ci else i) upload' disk' (take (upload_offset upload) source @ p)"
    by auto
  from o(4) show ?thesis
  proof
    assume "upload' = upload \<and> disk' = disk"
    then show ?thesis using h o(1) by (simp add: holds_prefix_def s)
  next
    assume a: "offset = upload_offset upload \<and> upload_offset upload' = offset + length p \<and>
      upload_holds settings cipher (if truthy ci then the ci else i) upload' disk' (take (upload_offset upload) source @ p)"
    with take_extend [OF accepted(3)] h(2,3) o(1-3) show ?thesis by (simp add: holds_prefix_def s)
  qed
next
  case (lost nonce now offset p recording upload disk recording' upload' disk')
  have h: "upload_holds settings cipher (if truthy ci then the ci else i) upload disk (take (upload_offset upload) source)"
    using assms(2) by (simp add: holds_prefix_def lost(1))
  have "upload_holds settings cipher (if truthy ci then the ci else i) upload disk' (take (upload_offset upload) source)"
    using store_chunk_disk [OF lost(3)] upload_holds_leftover [OF h] h by blast
  then show ?thesis using assms(2) by (simp add: holds_prefix_def lost(1,2))
qed

lemma upload_steps_hold_prefix:
  assumes "(upload_step settings cipher ci source)\<^sup>*\<^sup>* s s'" "holds_prefix settings cipher ci i source s"
    "cipher_ready cipher" "is_ascii (if truthy ci then the ci else i)"
  shows "holds_prefix settings cipher ci i source s'"
  using assms by (induction rule: rtranclp_induct) (auto intro: upload_step_holds_prefix)

text \<open>A fresh upload directory holds the empty prefix.\<close>

lemma fresh_upload_holds:
  "upload_directory settings upload disk = Inr d \<Longrightarrow> children d = [] \<Longrightarrow> upload_offset upload = 0 \<Longrightarrow>
     upload_holds settings cipher identity upload disk []"
  unfolding upload_holds_def by (intro exI [of _ d] exI [of _ "[]"]) simp

text \<open>What is acknowledged is read back.\<close>

lemma upload_reads_back:
  assumes "(upload_step settings cipher ci source)\<^sup>*\<^sup>* (recording, upload, disk) (recording', upload', disk')"
    and "upload_directory settings upload disk = Inr d" "children d = []" "upload_offset upload = 0"
    and "expected_size_bytes upload = length source" "source_sha256 upload = content_sha256 settings source"
    and "cipher_ready cipher" "is_ascii (if truthy ci then the ci else recording_id recording)"
  shows "upload_offset upload' \<le> length source \<and>
    read_uploaded_wav settings cipher ci recording' upload' disk' =
      (if upload_offset upload' = length source then Inr source
       else Inl (RecordingError ''Recording upload is incomplete.'' 409))"
proof -
  have "holds_prefix settings cipher ci (recording_id recording) source (recording, upload, disk)"
    using fresh_upload_holds [OF assms(2-4)] assms(4-6) by (simp add: holds_prefix_def)
  from upload_steps_hold_prefix [OF assms(1) this assms(7,8)]
  have h: "recording_id recording' = recording_id recording" "expected_size_bytes upload' = length source"
    "source_sha256 upload' = content_sha256 settings source"
    "upload_holds settings cipher (if truthy ci then the ci else recording_id recording) upload' disk'
      (take (upload_offset upload') source)"
    by (simp_all add: holds_prefix_def)
  have "upload_offset upload' \<le> length source" using h(2,4) unfolding upload_holds_def by auto
  moreover have "read_uploaded_wav settings cipher ci recording' upload' disk' = Inr source"
    if "upload_offset upload' = length source"
    using read_complete [OF h(4)] h(1-3) that by simp
  ultimately show ?thesis using read_incomplete h(2) by (metis (no_types))
qed

section \<open>Uploads complete\<close>

text \<open>A device that sends the pieces of its recording one after the other, each at the acknowledged offset.\<close>

fun send_pieces ::
  "recording_settings \<Rightarrow> RecordingCipher \<Rightarrow> string option \<Rightarrow> bytes \<Rightarrow> int \<Rightarrow> bytes list \<Rightarrow>
   Recording \<times> 'a upload_row_scheme \<times> storage \<Rightarrow> (Recording \<times> 'a upload_row_scheme \<times> storage) recording_result" where
  "send_pieces settings cipher ci nonce now [] s = Inr s"
| "send_pieces settings cipher ci nonce now (p # ps) s =
     bind_result (store_chunk settings cipher ci nonce now (upload_offset (fst (snd s))) p s)
       (send_pieces settings cipher ci nonce now ps)"

definition no_leftover :: "recording_settings \<Rightarrow> 'a upload_row_scheme \<Rightarrow> storage \<Rightarrow> bool" where
  "no_leftover settings upload disk \<longleftrightarrow>
     (\<exists>d. upload_directory settings upload disk = Inr d \<and> (\<forall>b \<ge> upload_offset upload. map_of (children d) (chunk_name b) = None))"

lemma store_chunk_accepts:
  assumes "no_leftover settings upload disk" "cipher_ready cipher" "length nonce = 12"
    "is_ascii (if truthy ci then the ci else recording_id recording)"
    "p \<noteq> []" "length p \<le> recording_chunk_limit_bytes settings" "upload_offset upload + length p \<le> expected_size_bytes upload"
  obtains recording' upload' disk' where
    "store_chunk settings cipher ci nonce now (upload_offset upload) p (recording, upload, disk) = Inr (recording', upload', disk')"
    "upload_offset upload' = upload_offset upload + length p" "expected_size_bytes upload' = expected_size_bytes upload"
    "recording_id recording' = recording_id recording" "no_leftover settings upload' disk'"
proof -
  let ?identity = "if truthy ci then the ci else recording_id recording"
  obtain d where d: "upload_directory settings upload disk = Inr d"
    "\<forall>b \<ge> upload_offset upload. map_of (children d) (chunk_name b) = None"
    using assms(1) unfolding no_leftover_def by blast
  obtain payload where e: "encrypt_chunk cipher nonce ?identity (upload_offset upload) p = Inr payload"
    using chunk_round_trip [OF assms(2,4,3)] by metis
  let ?upload = "upload\<lparr>upload_offset := upload_offset upload + length p, upload_updated_at := now\<rparr>"
  let ?disk = "write_chunk settings (storage_name upload) (upload_offset upload) payload d disk"
  have "store_chunk settings cipher ci nonce now (upload_offset upload) p (recording, upload, disk) =
      Inr (recording\<lparr>recording_updated_at := now\<rparr>, ?upload, ?disk)"
    using assms(5-7) d e by (auto simp: store_chunk_def Let_def path_exists_def)
  moreover have "no_leftover settings ?upload ?disk"
    unfolding no_leftover_def using write_chunk_directory [OF d(1), of ?upload] d(2) assms(5)
    by (intro exI conjI) (auto simp: update_conv)
  ultimately show thesis using that by simp
qed

lemma send_pieces_accepts:
  assumes "no_leftover settings upload disk" "cipher_ready cipher" "length nonce = 12"
    "is_ascii (if truthy ci then the ci else recording_id recording)"
    "\<forall>p\<in>set ps. p \<noteq> [] \<and> length p \<le> recording_chunk_limit_bytes settings"
    "upload_offset upload + length (concat ps) = expected_size_bytes upload"
    "concat ps = drop (upload_offset upload) source"
  shows "\<exists>recording' upload' disk'. send_pieces settings cipher ci nonce now ps (recording, upload, disk) =
      Inr (recording', upload', disk') \<and> upload_offset upload' = expected_size_bytes upload \<and>
      (upload_step settings cipher ci source)\<^sup>*\<^sup>* (recording, upload, disk) (recording', upload', disk')"
  using assms
proof (induction ps arbitrary: recording upload disk)
  case Nil
  then show ?case by auto
next
  case (Cons p ps)
  have fit: "upload_offset upload + length p \<le> expected_size_bytes upload" using Cons.prems(6) by simp
  obtain recording1 upload1 disk1 where s:
    "store_chunk settings cipher ci nonce now (upload_offset upload) p (recording, upload, disk) = Inr (recording1, upload1, disk1)"
    "upload_offset upload1 = upload_offset upload + length p" "expected_size_bytes upload1 = expected_size_bytes upload"
    "recording_id recording1 = recording_id recording" "no_leftover settings upload1 disk1"
    by (rule store_chunk_accepts [OF Cons.prems(1-4), of p]) (use Cons.prems(5) fit in auto)
  have rest: "drop (length p) (drop (upload_offset upload) source) = concat ps"
    "take (length p) (drop (upload_offset upload) source) = p"
    using Cons.prems(7) by (metis append_eq_conv_conj concat.simps(2))+
  then have "concat ps = drop (upload_offset upload1) source" using s(2) by (simp add: add.commute)
  moreover have "upload_offset upload1 + length (concat ps) = expected_size_bytes upload1" using Cons.prems(6) s(2,3) by simp
  ultimately obtain recording' upload' disk' where r:
    "send_pieces settings cipher ci nonce now ps (recording1, upload1, disk1) = Inr (recording', upload', disk')"
    "upload_offset upload' = expected_size_bytes upload1"
    "(upload_step settings cipher ci source)\<^sup>*\<^sup>* (recording1, upload1, disk1) (recording', upload', disk')"
    using Cons.IH [OF s(5) Cons.prems(2,3)] Cons.prems(4,5) s(4) by (metis list.set_intros(2))
  have "upload_step settings cipher ci source (recording, upload, disk) (recording1, upload1, disk1)"
    using s(1) Cons.prems(3) rest(2) by (metis upload_step.accepted)
  then show ?case using s r by (auto intro: converse_rtranclp_into_rtranclp)
qed

text \<open>
  C14: Resumable uploads are exact. Over every sequence of requests of one upload, with replayed chunks,
  chunks of any size, refused requests and accepted requests whose commit was lost, the server never
  acknowledges more than the recording has, and it reads back exactly the bytes that the device recorded
  once the whole size is acknowledged, and refuses to read before.
\<close>

theorem resumable_upload_exact:
  assumes "(upload_step settings cipher ci source)\<^sup>*\<^sup>* (recording, upload, disk) (recording', upload', disk')"
    and "upload_directory settings upload disk = Inr d" "children d = []" "upload_offset upload = 0"
    and "expected_size_bytes upload = length source" "source_sha256 upload = content_sha256 settings source"
    and "cipher_ready cipher" "is_ascii (if truthy ci then the ci else recording_id recording)"
  shows "upload_offset upload' \<le> length source \<and>
    read_uploaded_wav settings cipher ci recording' upload' disk' =
      (if upload_offset upload' = length source then Inr source
       else Inl (RecordingError ''Recording upload is incomplete.'' 409))"
  using assms by (rule upload_reads_back)

text \<open>A cipher library for examples: the ciphertext is the plaintext with a tag of sixteen characters.\<close>

definition demo_library :: crypto_library where
  "demo_library =
     \<lparr>hkdf_sha256 = (\<lambda>key info. key), aesgcm_encrypt = (\<lambda>key nonce p aad. p @ replicate 16 CHR ''t''),
      aesgcm_decrypt = (\<lambda>key nonce c aad. Some (take (length c - 16) c))\<rparr>"

definition demo_cipher :: RecordingCipher where
  "demo_cipher = \<lparr>master_keys = [(1, replicate 32 CHR ''k'')], cipher_version = 1, library = demo_library\<rparr>"

definition demo_recording_settings :: recording_settings where
  "demo_recording_settings =
     \<lparr>geteuid = 7, recording_quota_bytes = 10000, recording_upload_limit_bytes = 5000, recording_chunk_limit_bytes = 100,
      recording_abandoned_upload_hours = 24, development_admin_email = ''admin'', content_sha256 = (\<lambda>content. content)\<rparr>"

definition demo_upload :: upload_row where
  "demo_upload =
     \<lparr>expected_size_bytes = 5, upload_offset = 0, storage_name = replicate 32 CHR ''0'', source_sha256 = ''voice'',
      upload_updated_at = 0\<rparr>"

definition demo_disk :: storage where
  "demo_disk = \<lparr>media = [], uploads = [(replicate 32 CHR ''0'', private_directory demo_recording_settings)]\<rparr>"

definition demo_recording :: Recording where
  "demo_recording =
     \<lparr>recording_id = ''r1'', recording_device_id = ''d1'', recording_call_id = ''c1'', recording_revision_id = Some 1,
      recording_block_id = Some ''b1'', recording_sequence = 0, recording_kind = ''voicemail'', audit_metadata = None,
      recording_operator = None, recording_operator_last4 = [], recording_segment_count = 0,
      recording_captured_at = 0, recording_duration_ms = 1000, recording_stop_reason = ''caller_hangup'',
      recording_source_size_bytes = 5, recording_source_sha256 = ''voice'', recording_status = ''uploading'',
      recording_source_format = ''legacy_wav'', recording_partial = False, media_key_version = None,
      media_storage_name = None, media_size_bytes = None, media_sha256 = None, listened_at = None, deleted_at = None,
      deletion_reason = None, processing_error = None, recording_updated_at = 0\<rparr>"

lemma demo_cipher_ready [simp]: "cipher_ready demo_cipher"
  by (simp add: cipher_ready_def crypto_correct_def demo_cipher_def demo_library_def)

lemma demo_upload_directory:
  "upload_directory demo_recording_settings demo_upload demo_disk = Inr (private_directory demo_recording_settings)"
  by (simp add: upload_directory_Inr demo_upload_def demo_disk_def private_directory_def owned_privately_def
      demo_recording_settings_def hex_char_def list_all_iff)

lemmas demo_upload_defs = demo_upload_def demo_recording_def demo_recording_settings_def private_directory_def

lemma demo_pieces_sent:
  "\<exists>recording' upload' disk'.
     (upload_step demo_recording_settings demo_cipher None ''voice'')\<^sup>*\<^sup>*
       (demo_recording, demo_upload, demo_disk) (recording', upload', disk') \<and> upload_offset upload' = 5"
  using send_pieces_accepts [of demo_recording_settings demo_upload demo_disk demo_cipher "replicate 12 CHR ''n''" None
      demo_recording "[''vo'', ''ice'']" "''voice''" 9] demo_upload_directory
  by (auto simp: demo_upload_defs no_leftover_def)

theorem resumable_upload_exact_witness:
  "\<exists>recording' upload' disk'.
     (upload_step demo_recording_settings demo_cipher None ''voice'')\<^sup>*\<^sup>*
       (demo_recording, demo_upload, demo_disk) (recording', upload', disk') \<and>
     read_uploaded_wav demo_recording_settings demo_cipher None recording' upload' disk' = Inr ''voice''"
proof -
  obtain recording' upload' disk' where steps:
    "(upload_step demo_recording_settings demo_cipher None ''voice'')\<^sup>*\<^sup>*
       (demo_recording, demo_upload, demo_disk) (recording', upload', disk')" "upload_offset upload' = 5"
    using demo_pieces_sent by blast
  have "read_uploaded_wav demo_recording_settings demo_cipher None recording' upload' disk' = Inr ''voice''"
    using resumable_upload_exact [OF steps(1) demo_upload_directory] steps(2) by (simp add: demo_upload_defs)
  with steps(1) show ?thesis by blast
qed

text \<open>
  A device that sends its recording in pieces within the size limit, each at the offset that the
  server acknowledged, is never refused, and the server then reads back exactly the recording.
\<close>

theorem upload_completes:
  assumes "upload_directory settings upload disk = Inr d" "children d = []" "upload_offset upload = 0"
    and "expected_size_bytes upload = length (concat pieces)" "source_sha256 upload = content_sha256 settings (concat pieces)"
    and "cipher_ready cipher" "is_ascii (if truthy ci then the ci else recording_id recording)" "length nonce = 12"
    and "\<forall>p\<in>set pieces. p \<noteq> [] \<and> length p \<le> recording_chunk_limit_bytes settings"
  shows "\<exists>recording' upload' disk'.
    send_pieces settings cipher ci nonce now pieces (recording, upload, disk) = Inr (recording', upload', disk') \<and>
    read_uploaded_wav settings cipher ci recording' upload' disk' = Inr (concat pieces)"
proof -
  have "no_leftover settings upload disk" using assms(1-3) by (simp add: no_leftover_def)
  then obtain recording' upload' disk' where r:
    "send_pieces settings cipher ci nonce now pieces (recording, upload, disk) = Inr (recording', upload', disk')"
    "upload_offset upload' = expected_size_bytes upload"
    "(upload_step settings cipher ci (concat pieces))\<^sup>*\<^sup>* (recording, upload, disk) (recording', upload', disk')"
    using send_pieces_accepts [of settings upload disk cipher nonce ci recording pieces "concat pieces" now] assms by auto
  then show ?thesis using upload_reads_back [OF r(3) assms(1-7)] assms(4) by auto
qed

theorem upload_completes_witness:
  "\<exists>recording' upload' disk'.
     send_pieces demo_recording_settings demo_cipher None (replicate 12 CHR ''n'') 9 [''vo'', ''ice'']
       (demo_recording, demo_upload, demo_disk) = Inr (recording', upload', disk') \<and>
     read_uploaded_wav demo_recording_settings demo_cipher None recording' upload' disk' = Inr ''voice''"
  using upload_completes [OF demo_upload_directory, where pieces = "[''vo'', ''ice'']" and ci = None
      and cipher = demo_cipher and recording = demo_recording and nonce = "replicate 12 CHR ''n''" and now = 9]
  by (simp add: demo_upload_defs)

end
