(* ===== verification/Media_Laws.thy ===== *)
theory Media_Laws
  imports Recording_Store
begin

text \<open>
  Deletion of media is all or nothing: a file is moved into quarantine, then the rows are committed and
  the quarantine is emptied, or the commit fails and the file moves back. The lemmas follow the files of
  the recording root by name; the names of media files and the names of quarantined files never meet.
\<close>

section \<open>Names\<close>

lemma os_replace_conv:
  assumes "map_of (media d) a = Some f" "a \<noteq> b"
  shows "map_of (media (os_replace a b d)) = (map_of (media d))(a := None, b \<mapsto> f)"
  using assms by (auto simp: os_replace_def update_conv delete_conv' fun_eq_iff)

lemma unlink_conv: "map_of (media (unlink a d)) = (map_of (media d))(a := None)"
  by (simp add: unlink_def delete_conv')

lemma disk_uploads [simp]: "uploads (os_replace a b d) = uploads d" "uploads (unlink a d) = uploads d"
  by (simp_all add: os_replace_def unlink_def split: option.splits)

lemma quarantine_name_invalid [simp]: "\<not> media_name_valid (quarantine_name name)"
  by (simp add: media_name_valid_def hex_char_def quarantine_name_def)

lemma quarantine_name_inject [simp]: "quarantine_name a = quarantine_name b \<longleftrightarrow> a = b"
  by (simp add: quarantine_name_def)

lemma quarantine_name_other [simp]:
  "media_name_valid name \<Longrightarrow> quarantine_name other \<noteq> name" "media_name_valid name \<Longrightarrow> name \<noteq> quarantine_name other"
  using quarantine_name_invalid by metis+

lemma media_path_Inr:
  "media_path settings recording d = Inr (name, f) \<longleftrightarrow>
     media_storage_name recording = Some name \<and> media_name_valid name \<and>
     require_safe_file settings (map_of (media d) name) = Inr f"
  by (auto simp: media_path_def bind_result_Inr split: option.splits)

lemma load_media_path:
  assumes "load_media settings cipher r d = Inr content"
  obtains name f where "media_storage_name r = Some name" "media_name_valid name"
    "require_safe_file settings (map_of (media d) name) = Inr f" "recording_status r = ''ready''"
proof -
  from assms obtain p where "media_path settings r d = Inr p" "recording_status r = ''ready''"
    by (auto simp: load_media_def bind_result_Inr split: if_splits)
  then show thesis using that by (cases p) (auto simp: media_path_Inr)
qed

text \<open>Playback depends only on the file of the recording.\<close>

lemma load_media_cong:
  assumes "\<And>name. media_storage_name r = Some name \<Longrightarrow> media_name_valid name \<Longrightarrow>
    map_of (media d') name = map_of (media d) name"
  shows "load_media settings cipher r d' = load_media settings cipher r d"
proof -
  have "media_path settings r d' = media_path settings r d"
    using assms by (simp add: media_path_def split: option.splits)
  then show ?thesis by (simp add: load_media_def)
qed

section \<open>Quarantine\<close>

text \<open>
  The storage \<^verbatim>\<open>d\<close> is \<^verbatim>\<open>d0\<close> with the media files of these items in quarantine.
\<close>

definition quarantined_from ::
  "recording_settings \<Rightarrow> storage \<Rightarrow> QuarantinedMedia list \<Rightarrow> storage \<Rightarrow> bool" where
  "quarantined_from settings d0 items d \<longleftrightarrow>
     uploads d = uploads d0 \<and> distinct (map original items) \<and>
     (\<forall>item\<in>set items. quarantine item = quarantine_name (original item) \<and> media_name_valid (original item) \<and>
        is_ok (require_safe_file settings (map_of (media d0) (original item))) \<and>
        map_of (media d) (quarantine_name (original item)) = map_of (media d0) (original item)) \<and>
     (\<forall>name. media_name_valid name \<longrightarrow>
        map_of (media d) name = (if name \<in> original ` set items then None else map_of (media d0) name))"

lemma quarantined_none [simp]: "quarantined_from settings d [] d"
  by (simp add: quarantined_from_def)

lemma quarantined_rev [simp]: "quarantined_from settings d0 (rev items) d = quarantined_from settings d0 items d"
  by (simp add: quarantined_from_def rev_map [symmetric])

lemma quarantine_media_Inr:
  assumes "quarantine_media settings r d = Inr (item, d')"
  obtains name f where "media_storage_name r = Some name" "media_name_valid name"
    "map_of (media d) name = Some f" "is_ok (require_safe_file settings (Some f))"
    "item = \<lparr>original = name, quarantine = quarantine_name name\<rparr>" "uploads d' = uploads d"
    "map_of (media d') = (map_of (media d))(name := None, quarantine_name name \<mapsto> f)"
proof -
  obtain name f where p: "media_storage_name r = Some name" "media_name_valid name"
    "require_safe_file settings (map_of (media d) name) = Inr f"
    and i: "item = \<lparr>original = name, quarantine = quarantine_name name\<rparr>" "d' = os_replace name (quarantine_name name) d"
    using assms by (auto simp: quarantine_media_def bind_result_Inr media_path_Inr Let_def split: if_splits)
  have f: "map_of (media d) name = Some f" using p(3) by (simp add: require_safe_file_Inr)
  have "map_of (media d') = (map_of (media d))(name := None, quarantine_name name \<mapsto> f)"
    unfolding i(2) by (rule os_replace_conv [OF f]) (use p(2) in simp)
  then show thesis using that [of name f] p f i by (auto simp: is_ok_iff)
qed

lemma quarantine_media_step:
  assumes "quarantine_media settings r d = Inr (item, d')" "quarantined_from settings d0 items d"
  shows "quarantined_from settings d0 (items @ [item]) d' \<and> media_storage_name r = Some (original item)"
proof -
  obtain name f where q: "media_storage_name r = Some name" "media_name_valid name"
    "map_of (media d) name = Some f" "is_ok (require_safe_file settings (Some f))"
    "item = \<lparr>original = name, quarantine = quarantine_name name\<rparr>" "uploads d' = uploads d"
    "map_of (media d') = (map_of (media d))(name := None, quarantine_name name \<mapsto> f)"
    by (rule quarantine_media_Inr [OF assms(1)])
  have n: "name \<notin> original ` set items \<and> map_of (media d0) name = Some f"
    using assms(2) q(2,3) unfolding quarantined_from_def by (metis option.distinct(1))
  then have other: "original x \<noteq> name" if "x \<in> set items" for x using that by auto
  show ?thesis using assms(2) q n other unfolding quarantined_from_def by simp
qed

lemma restore_step:
  assumes "quarantined_from settings d0 (x # xs) d"
  obtains d' where "restore_quarantined_media settings x d = Inr d'" "quarantined_from settings d0 xs d'"
proof -
  have x: "quarantine x = quarantine_name (original x)" "media_name_valid (original x)"
    "is_ok (require_safe_file settings (map_of (media d0) (original x)))"
    "map_of (media d) (quarantine_name (original x)) = map_of (media d0) (original x)"
    "map_of (media d) (original x) = None"
    using assms unfolding quarantined_from_def by auto
  obtain f where f: "require_safe_file settings (map_of (media d0) (original x)) = Inr f"
    using x(3) by (auto simp: is_ok_iff)
  have f0: "map_of (media d0) (original x) = Some f" using f by (simp add: require_safe_file_Inr)
  define d' where "d' = os_replace (quarantine x) (original x) d"
  have r: "restore_quarantined_media settings x d = Inr d'"
    using x f safe_file_exists [OF f] by (simp add: restore_quarantined_media_def d'_def path_exists_def [of None])
  have m: "map_of (media d') = (map_of (media d))(quarantine x := None, original x \<mapsto> f)"
    unfolding d'_def by (rule os_replace_conv) (use x f0 in simp_all)
  have other: "original q \<noteq> original x" if "q \<in> set xs" for q
    using assms that unfolding quarantined_from_def by (metis distinct.simps(2) image_eqI list.set_map list.simps(9))
  have "quarantined_from settings d0 xs d'"
    using assms m f0 x other unfolding quarantined_from_def by (simp add: d'_def)
  with r show thesis by (rule that)
qed

lemma restore_all:
  "quarantined_from settings d0 items d \<Longrightarrow>
     \<exists>d'. each_item (restore_quarantined_media settings) items d = (Inr (), d') \<and> quarantined_from settings d0 [] d'"
proof (induction items arbitrary: d)
  case (Cons x xs)
  obtain d' where "restore_quarantined_media settings x d = Inr d'" "quarantined_from settings d0 xs d'"
    using restore_step [OF Cons.prems] by blast
  then show ?case using Cons.IH by auto
qed simp

lemma discard_all:
  assumes "\<forall>item\<in>set items. is_ok (require_safe_file settings (map_of (media d) (quarantine item)))"
    "distinct (map quarantine items)"
  shows "\<exists>d'. each_item (discard_quarantined_media settings) items d = (Inr (), d') \<and> uploads d' = uploads d \<and>
    map_of (media d') = (\<lambda>n. if n \<in> quarantine ` set items then None else map_of (media d) n)"
  using assms
proof (induction items arbitrary: d)
  case (Cons x xs)
  obtain f where f: "require_safe_file settings (map_of (media d) (quarantine x)) = Inr f"
    using Cons.prems(1) by (auto simp: is_ok_iff)
  let ?d = "unlink (quarantine x) d"
  have step: "discard_quarantined_media settings x d = Inr ?d"
    using f safe_file_exists [OF f] by (simp add: discard_quarantined_media_def)
  have "\<forall>item\<in>set xs. is_ok (require_safe_file settings (map_of (media ?d) (quarantine item)))"
    using Cons.prems by (simp add: unlink_conv rev_image_eqI) (metis rev_image_eqI)
  then obtain d' where d': "each_item (discard_quarantined_media settings) xs ?d = (Inr (), d')" "uploads d' = uploads ?d"
    "map_of (media d') = (\<lambda>n. if n \<in> quarantine ` set xs then None else map_of (media ?d) n)"
    using Cons.IH [of ?d] Cons.prems(2) by auto
  show ?case
    by (rule exI [of _ d']) (use step d' in \<open>auto simp: unlink_conv fun_eq_iff\<close>)
qed simp

text \<open>
  How a purge ends. The names of media files are all that playback reads: after a commit exactly the
  purged files are gone, and after a failed commit none is.
\<close>

lemma settle_purge_commit:
  assumes "quarantined_from settings d0 items d"
  shows "\<exists>d'. settle_purge settings True t items t' d = (Inr (), \<lparr>tables = t', disk = d'\<rparr>) \<and> uploads d' = uploads d0 \<and>
    (\<forall>name. media_name_valid name \<longrightarrow>
       map_of (media d') name = (if name \<in> original ` set items then None else map_of (media d0) name))"
proof -
  have safe: "\<forall>item\<in>set items. is_ok (require_safe_file settings (map_of (media d) (quarantine item)))"
    using assms unfolding quarantined_from_def by simp
  have "quarantine item = quarantine_name (original item)" if "item \<in> set items" for item
    using assms that unfolding quarantined_from_def by blast
  then have eq: "map quarantine items = map quarantine_name (map original items)" by simp
  have dist: "distinct (map quarantine items)"
    unfolding eq using assms by (subst distinct_map) (auto simp: quarantined_from_def inj_on_def)
  obtain d' where d': "each_item (discard_quarantined_media settings) items d = (Inr (), d')" "uploads d' = uploads d"
    "map_of (media d') = (\<lambda>n. if n \<in> quarantine ` set items then None else map_of (media d) n)"
    using discard_all [OF safe dist] by blast
  have "map_of (media d') name = (if name \<in> original ` set items then None else map_of (media d0) name)"
    if "media_name_valid name" for name
  proof -
    have "quarantine ` set items = quarantine_name ` original ` set items"
      using arg_cong [OF eq, of set] by (simp add: image_image)
    then have "name \<notin> quarantine ` set items" using that by auto
    then show ?thesis using d'(3) assms that unfolding quarantined_from_def by simp
  qed
  then show ?thesis using d' assms by (auto simp: settle_purge_def quarantined_from_def)
qed

lemma settle_purge_rollback:
  assumes "quarantined_from settings d0 items d"
  shows "\<exists>d'. settle_purge settings False t items t' d = (Inl (OtherError ''commit failed''), \<lparr>tables = t, disk = d'\<rparr>) \<and>
    uploads d' = uploads d0 \<and> (\<forall>name. media_name_valid name \<longrightarrow> map_of (media d') name = map_of (media d0) name)"
proof -
  have "quarantined_from settings d0 (rev items) d" using assms by simp
  from restore_all [OF this] show ?thesis by (auto simp: settle_purge_def quarantined_from_def)
qed

section \<open>Purging\<close>

lemma quarantine_all_state:
  "quarantine_all settings rs items d = (e, items', d') \<Longrightarrow> quarantined_from settings d0 items d \<Longrightarrow>
     quarantined_from settings d0 items' d' \<and>
     (\<exists>k \<le> length rs. map (\<lambda>i. Some (original i)) items' = map (\<lambda>i. Some (original i)) items @ map media_storage_name (take k rs) \<and>
        (e = None \<longrightarrow> k = length rs))"
proof (induction rs arbitrary: items d)
  case (Cons r rs)
  show ?case
  proof (cases "quarantine_media settings r d")
    case (Inl err)
    then show ?thesis using Cons.prems by (auto intro!: exI [of _ 0])
  next
    case (Inr p)
    obtain item d1 where p: "p = (item, d1)" by fastforce
    have step: "quarantined_from settings d0 (items @ [item]) d1" "media_storage_name r = Some (original item)"
      using quarantine_media_step Inr p Cons.prems(2) by metis+
    have run: "quarantine_all settings rs (items @ [item]) d1 = (e, items', d')" using Cons.prems(1) Inr p by simp
    obtain k where "k \<le> length rs" "e = None \<longrightarrow> k = length rs" "quarantined_from settings d0 items' d'"
      "map (\<lambda>i. Some (original i)) items' = map (\<lambda>i. Some (original i)) (items @ [item]) @ map media_storage_name (take k rs)"
      using Cons.IH [OF run step(1)] by blast
    then show ?thesis using step(2) by (intro conjI exI [of _ "Suc k"]) auto
  qed
qed auto

lemma purge_Inr:
  assumes "purge_expired_recordings settings policy now t d = (Inr (items, t'), d')"
  shows "quarantined_from settings d items d' \<and>
    (\<exists>gone. set gone \<subseteq> set (recordings t) \<and> (\<forall>r\<in>set gone. recording_status r = ''ready'') \<and>
      map (\<lambda>i. Some (original i)) items = map media_storage_name gone \<and>
      t' = t\<lparr>recordings := map (\<lambda>r. if r \<in> set gone then tombstone_recording now ''retention'' r else r) (recordings t)\<rparr>)"
proof (cases "policy_mode policy = ''automatic''")
  case False
  then show ?thesis using assms by (auto simp: purge_expired_recordings_def intro!: exI [of _ "[]"])
next
  case True
  let ?gone = "expired_recordings policy now t"
  have q: "quarantine_all settings ?gone [] d = (None, items, d')"
    "t' = t\<lparr>recordings := map (\<lambda>r. if r \<in> set ?gone then tombstone_recording now ''retention'' r else r) (recordings t)\<rparr>"
    using assms True by (auto simp: purge_expired_recordings_def Let_def split: prod.splits option.splits sum.splits)
  have "quarantined_from settings d items d'" "map (\<lambda>i. Some (original i)) items = map media_storage_name ?gone"
    using quarantine_all_state [OF q(1) quarantined_none] by auto
  then show ?thesis using q(2) by (intro conjI exI [of _ ?gone]) (auto simp: expired_recordings_def)
qed

lemma purge_Inl:
  assumes "purge_expired_recordings settings policy now t d = (Inl e, d')"
  shows "uploads d' = uploads d \<and> (\<forall>name. media_name_valid name \<longrightarrow> map_of (media d') name = map_of (media d) name)"
proof -
  obtain items d1 err where q: "quarantine_all settings (expired_recordings policy now t) [] d = (Some err, items, d1)"
    and r: "snd (each_item (restore_quarantined_media settings) (rev items) d1) = d'"
    using assms
    by (auto simp: purge_expired_recordings_def Let_def split: prod.splits option.splits sum.splits if_splits)
  have "quarantined_from settings d (rev items) d1" using quarantine_all_state [OF q quarantined_none] by simp
  from restore_all [OF this] r show ?thesis by (auto simp: quarantined_from_def)
qed

end
