(* ===== verification/Media_Stream.thy ===== *)
theory Media_Stream
  imports Recording_Requests Upload_Laws Media_Laws
begin

text \<open>
  Encryption and decryption of media files in blocks of one MiB
  (\<^verbatim>\<open>encrypt_media_file\<close>, \<^verbatim>\<open>decrypt_media_file\<close> and \<^verbatim>\<open>materialize_media\<close> of
  \<^verbatim>\<open>src/server/app/recording_service.py\<close>) and the answers that carry audio
  (\<^verbatim>\<open>_audio_response\<close> of \<^verbatim>\<open>src/server/app/recording_api.py\<close>).

  The incremental cipher objects of the \<^verbatim>\<open>cryptography\<close> package are a parameter. What the service
  relies on: feeding the data in pieces gives the same output as feeding it at once, and the output with
  the tag is what the one-shot interface computes. Under this contract the incremental routines are the
  one-shot routines, so that a conversation is played exactly when \<^verbatim>\<open>load_media\<close> would deliver it.
\<close>

section \<open>The incremental cipher\<close>

record 'c gcm_library =
  encryptor :: "bytes \<Rightarrow> bytes \<Rightarrow> bytes \<Rightarrow> 'c"
  decryptor :: "bytes \<Rightarrow> bytes \<Rightarrow> bytes \<Rightarrow> bytes \<Rightarrow> 'c"
  cipher_update :: "'c \<Rightarrow> bytes \<Rightarrow> bytes \<times> 'c"
  finalize_encryption :: "'c \<Rightarrow> bytes \<times> bytes"
  finalize_decryption :: "'c \<Rightarrow> bytes option"

definition streams_agree :: "'c gcm_library \<Rightarrow> crypto_library \<Rightarrow> bool" where
  "streams_agree gcm lib \<longleftrightarrow>
     (\<forall>c. cipher_update gcm c [] = ([], c)) \<and>
     (\<forall>c a b. cipher_update gcm c (a @ b) =
        (fst (cipher_update gcm c a) @ fst (cipher_update gcm (snd (cipher_update gcm c a)) b),
         snd (cipher_update gcm (snd (cipher_update gcm c a)) b))) \<and>
     (\<forall>key nonce aad p.
        (case cipher_update gcm (encryptor gcm key nonce aad) p of (x, c) \<Rightarrow>
         case finalize_encryption gcm c of (y, tag) \<Rightarrow> x @ y @ tag) = aesgcm_encrypt lib key nonce p aad) \<and>
     (\<forall>key nonce aad p tag. length tag = 16 \<longrightarrow>
        (case cipher_update gcm (decryptor gcm key nonce tag aad) p of (x, c) \<Rightarrow>
           map_option (\<lambda>y. x @ y) (finalize_decryption gcm c)) = aesgcm_decrypt lib key nonce (p @ tag) aad)"

text \<open>\<^verbatim>\<open>while chunk := incoming.read(n)\<close>: the blocks of a file.\<close>

function file_blocks :: "nat \<Rightarrow> bytes \<Rightarrow> bytes list" where
  "file_blocks n content = (if n = 0 \<or> content = [] then [] else take n content # file_blocks n (drop n content))"
  by pat_completeness auto
termination
  by (relation "measure (\<lambda>(n, content). length content)") auto

declare file_blocks.simps [simp del]

lemma concat_file_blocks: "0 < n \<Longrightarrow> concat (file_blocks n content) = content"
  by (induction n content rule: file_blocks.induct) (subst file_blocks.simps, auto)

fun feed :: "'c gcm_library \<Rightarrow> 'c \<Rightarrow> bytes list \<Rightarrow> bytes \<times> 'c" where
  "feed gcm c [] = ([], c)"
| "feed gcm c (block # blocks) =
     (case cipher_update gcm c block of (out, c') \<Rightarrow>
      case feed gcm c' blocks of (rest, c'') \<Rightarrow> (out @ rest, c''))"

lemma feed_concat:
  assumes "streams_agree gcm lib"
  shows "feed gcm c blocks = cipher_update gcm c (concat blocks)"
proof (induction blocks arbitrary: c)
  case (Cons b bs)
  have "cipher_update gcm c (b @ concat bs) =
      (fst (cipher_update gcm c b) @ fst (cipher_update gcm (snd (cipher_update gcm c b)) (concat bs)),
       snd (cipher_update gcm (snd (cipher_update gcm c b)) (concat bs)))"
    using assms unfolding streams_agree_def by blast
  then show ?case using Cons.IH by (simp add: split_beta)
qed (use assms in \<open>simp add: streams_agree_def\<close>)

section \<open>Media files\<close>

text \<open>The content of the destination, its size and the hash of the plaintext.\<close>

definition encrypt_media_file ::
  "(bytes \<Rightarrow> string) \<Rightarrow> 'c gcm_library \<Rightarrow> RecordingCipher \<Rightarrow> bytes \<Rightarrow> string \<Rightarrow> bytes \<Rightarrow> (bytes \<times> nat \<times> string) recording_result" where
  "encrypt_media_file sha256 gcm cipher nonce identity source =
     bind_result (encode_ascii (''media:'' @ str_int (cipher_version cipher) @ '':'' @ identity)) (\<lambda>aad.
     bind_result (recording_key cipher identity (cipher_version cipher)) (\<lambda>key.
     bind_result (to_bytes 4 (cipher_version cipher)) (\<lambda>version.
       let chunks = file_blocks (1024 * 1024) source in
       case feed gcm (encryptor gcm key nonce aad) chunks of (body, c) \<Rightarrow>
       case finalize_encryption gcm c of (tail, tag) \<Rightarrow>
         let written = MEDIA_MAGIC @ version @ nonce @ body @ tail @ tag in
         Inr (written, length written, sha256 (concat chunks)))))"

text \<open>
  The loop over the ciphertext: the bytes still to be read and the position in the file. The file
  descriptor could deliver less than its size, which is an error.
\<close>

function decrypt_blocks ::
  "'c gcm_library \<Rightarrow> bytes \<Rightarrow> nat \<Rightarrow> nat \<Rightarrow> 'c \<Rightarrow> (bytes \<times> 'c) recording_result" where
  "decrypt_blocks gcm source position remaining c =
     (if remaining = 0 then Inr ([], c)
      else
        let chunk = take (min (1024 * 1024) remaining) (drop position source) in
        if chunk = [] then Inl (RecordingError ''Encrypted recording is truncated.'' 503)
        else case cipher_update gcm c chunk of (plaintext, c') \<Rightarrow>
          bind_result (decrypt_blocks gcm source (position + length chunk) (remaining - length chunk) c') (\<lambda>(rest, c'').
            Inr (plaintext @ rest, c'')))"
  by pat_completeness auto
termination
  by (relation "measure (\<lambda>(gcm, source, position, remaining, c). remaining)") auto

declare decrypt_blocks.simps [simp del]

text \<open>The version, the plaintext and its hash; a failure removes the destination.\<close>

definition decrypt_media_file ::
  "(bytes \<Rightarrow> string) \<Rightarrow> 'c gcm_library \<Rightarrow> RecordingCipher \<Rightarrow> string \<Rightarrow> bytes \<Rightarrow> (int \<times> bytes \<times> string) recording_result" where
  "decrypt_media_file sha256 gcm cipher identity source =
     (let header_size = length MEDIA_MAGIC + 4 + 12 in
      if length source < header_size + 16 then Inl (RecordingError ''Encrypted recording is malformed.'' 503)
      else if take (length MEDIA_MAGIC) source \<noteq> MEDIA_MAGIC then Inl (RecordingError ''Encrypted recording is malformed.'' 503)
      else
        let version = int (from_big_endian (take 4 (drop (length MEDIA_MAGIC) source)));
            nonce = take 12 (drop (length MEDIA_MAGIC + 4) source);
            tag = drop (length source - 16) source;
            ciphertext_size = length source - header_size - 16 in
        bind_result (recording_key cipher identity version) (\<lambda>key.
        bind_result (encode_ascii (''media:'' @ str_int version @ '':'' @ identity)) (\<lambda>aad.
        bind_result (decrypt_blocks gcm source header_size ciphertext_size (decryptor gcm key nonce tag aad)) (\<lambda>(body, c).
          case finalize_decryption gcm c of
            None \<Rightarrow> Inl (RecordingError ''Encrypted recording failed authentication.'' 503)
          | Some tail \<Rightarrow> Inr (version, body @ tail, sha256 (body @ tail))))))"

definition materialize_media ::
  "recording_settings \<Rightarrow> 'c gcm_library \<Rightarrow> RecordingCipher \<Rightarrow> Recording \<Rightarrow> storage \<Rightarrow> bytes recording_result" where
  "materialize_media settings gcm cipher recording d =
     (if recording_status recording \<noteq> ''ready'' \<or> \<not> truthy (media_storage_name recording)
      then Inl (RecordingError ''Recording audio is unavailable.'' 404)
      else bind_result (media_path settings recording d) (\<lambda>(_, path).
        if media_size_bytes recording \<noteq> Some (length (file_content path))
        then Inl (RecordingError ''Recording media size verification failed.'' 503)
        else bind_result (decrypt_media_file (content_sha256 settings) gcm cipher (recording_id recording) (file_content path))
          (\<lambda>(version, plaintext, digest).
            if media_key_version recording \<noteq> Some version
            then Inl (RecordingError ''Recording media key-version verification failed.'' 503)
            else if truthy (media_sha256 recording) \<and> digest \<noteq> the (media_sha256 recording)
            then Inl (RecordingError ''Recording media hash verification failed.'' 503)
            else Inr plaintext)))"

section \<open>Answers that carry audio\<close>

text \<open>
  A conversation or an audit is materialised and sent as a file, for which the web framework serves byte
  ranges; a voicemail is sent from memory with the selected range. The download name, if any, comes last.
\<close>

datatype audio_answer =
    FileAnswer bytes "string option"
  | RangeAnswer nat bytes "(int \<times> int) option" "string option"

definition audio_response ::
  "recording_settings \<Rightarrow> 'c gcm_library \<Rightarrow> RecordingCipher \<Rightarrow> string \<Rightarrow> string option \<Rightarrow> bool \<Rightarrow> recording_state \<Rightarrow>
   request_error + audio_answer" where
  "audio_response settings gcm cipher i range_header download s =
     (case find_recording i (tables s) of
        None \<Rightarrow> Inl (Refused 404 ''Recording not found'')
      | Some recording \<Rightarrow>
          if recording_status recording = ''deleted'' then Inl (Refused 404 ''Recording not found'')
          else if recording_status recording \<noteq> ''ready'' then Inl (Refused 409 ''Recording audio is not ready'')
          else if recording_kind recording \<in> {''conversation'', ''session_audit''}
          then (case materialize_media settings gcm cipher recording (disk s) of
                  Inl e \<Rightarrow> Inl (as_http e)
                | Inr plaintext \<Rightarrow> Inr (FileAnswer plaintext
                    (if download then Some (recording_kind recording @ ''-'' @ recording_id recording @ ''.mp3'') else None)))
          else (case load_media settings cipher recording (disk s) of
                  Inl e \<Rightarrow> Inl (as_http e)
                | Inr content \<Rightarrow> bind_result (media_response content range_header) (\<lambda>(code, part, selected).
                    Inr (RangeAnswer code part selected
                      (if download then Some (''voicemail-'' @ recording_id recording @ ''.mp3'') else None)))))"

definition play_recording ::
  "recording_settings \<Rightarrow> 'c gcm_library \<Rightarrow> RecordingCipher \<Rightarrow> string \<Rightarrow> string option \<Rightarrow> recording_state \<Rightarrow> request_error + audio_answer" where
  "play_recording settings gcm cipher i range_header s = audio_response settings gcm cipher i range_header False s"

definition download_recording ::
  "recording_settings \<Rightarrow> 'c gcm_library \<Rightarrow> RecordingCipher \<Rightarrow> string \<Rightarrow> string option \<Rightarrow> recording_state \<Rightarrow> request_error + audio_answer" where
  "download_recording settings gcm cipher i range_header s = audio_response settings gcm cipher i range_header True s"

section \<open>The incremental routines are the one-shot routines\<close>

lemma encrypt_media_file_eq:
  assumes "streams_agree gcm (library cipher)"
  shows "encrypt_media_file sha256 gcm cipher nonce i source =
    bind_result (encrypt_media cipher nonce i source) (\<lambda>payload. Inr (payload, length payload, sha256 source))"
proof -
  have one: "(case cipher_update gcm (encryptor gcm key nonce aad) source of (x, c) \<Rightarrow>
      case finalize_encryption gcm c of (y, tag) \<Rightarrow> x @ y @ tag) = aesgcm_encrypt (library cipher) key nonce source aad" for key aad
    using assms unfolding streams_agree_def by blast
  have c: "concat (file_blocks 1048576 source) = source" by (rule concat_file_blocks) simp
  then have fed: "feed gcm c (file_blocks 1048576 source) = cipher_update gcm c source" for c
    using feed_concat [OF assms] by metis
  show ?thesis
    unfolding encrypt_media_file_def encrypt_media_def one [symmetric]
    by (cases "encode_ascii (''media:'' @ str_int (cipher_version cipher) @ '':'' @ i)";
        cases "recording_key cipher i (cipher_version cipher)"; cases "to_bytes 4 (cipher_version cipher)")
      (simp_all add: fed c Let_def split_beta)
qed

lemma decrypt_blocks_eq:
  assumes "streams_agree gcm lib" "position + remaining \<le> length source"
  shows "decrypt_blocks gcm source position remaining c = Inr (cipher_update gcm c (take remaining (drop position source)))"
  using assms(2)
proof (induction remaining arbitrary: position c rule: less_induct)
  case (less remaining)
  have laws: "cipher_update gcm c [] = ([], c)"
    "cipher_update gcm c (a @ b) = (fst (cipher_update gcm c a) @ fst (cipher_update gcm (snd (cipher_update gcm c a)) b),
       snd (cipher_update gcm (snd (cipher_update gcm c a)) b))" for a b
    using assms(1) unfolding streams_agree_def by blast+
  show ?case
  proof (cases "remaining = 0")
    case True
    then show ?thesis by (simp add: decrypt_blocks.simps laws(1))
  next
    case False
    define k where "k = min 1048576 remaining"
    define chunk where "chunk = take k (drop position source)"
    have k: "length chunk = k" "0 < k" "k \<le> remaining" using False less.prems by (auto simp: k_def chunk_def)
    then have "chunk \<noteq> []" by auto
    have whole: "take remaining (drop position source) = chunk @ take (remaining - k) (drop (position + k) source)"
      using k(3) take_add [of k "remaining - k" "drop position source"] by (simp add: chunk_def add.commute)
    have rest: "decrypt_blocks gcm source (position + k) (remaining - k) c' =
        Inr (cipher_update gcm c' (take (remaining - k) (drop (position + k) source)))" for c'
      by (rule less.IH) (use k less.prems in auto)
    have "decrypt_blocks gcm source position remaining c =
      bind_result (decrypt_blocks gcm source (position + k) (remaining - k) (snd (cipher_update gcm c chunk)))
        (\<lambda>(rest, c''). Inr (fst (cipher_update gcm c chunk) @ rest, c''))"
      using False \<open>chunk \<noteq> []\<close> k(1) by (subst decrypt_blocks.simps) (simp add: Let_def split_beta k_def [symmetric] chunk_def [symmetric])
    then show ?thesis unfolding rest whole laws(2) by (simp add: split_beta)
  qed
qed

text \<open>Decryption of a file agrees with the one-shot decryption, up to the order in which errors are found.\<close>

lemma decrypt_media_file_Inr:
  assumes agree: "streams_agree gcm (library cipher)"
  shows "decrypt_media_file sha256 gcm cipher i source = Inr (ver, plaintext, digest) \<longleftrightarrow>
    media_version source = Inr ver \<and> decrypt_media cipher i source = Inr plaintext \<and> digest = sha256 plaintext"
proof (cases "length source < 39 \<or> take 7 source \<noteq> MEDIA_MAGIC")
  case True
  then show ?thesis by (auto simp: decrypt_media_file_def decrypt_media_def Let_def)
next
  case False
  define v where "v = int (from_big_endian (take 4 (drop 7 source)))"
  define tag where "tag = drop (length source - 16) source"
  define body where "body = take (length source - 39) (drop 23 source)"
  have tag: "length tag = 16" using False by (simp add: tag_def)
  have split: "drop 23 source = body @ tag"
  proof -
    have "drop (length source - 39) (drop 23 source) = tag" using False by (simp add: tag_def)
    then show ?thesis using append_take_drop_id [of "length source - 39" "drop 23 source"] by (simp add: body_def)
  qed
  have blocks: "decrypt_blocks gcm source 23 (length source - 39) c = Inr (cipher_update gcm c body)" for c
    unfolding body_def by (rule decrypt_blocks_eq [OF agree]) (use False in simp)
  have one: "aesgcm_decrypt (library cipher) key n (drop 23 source) aad =
      (case cipher_update gcm (decryptor gcm key n tag aad) body of (x, c) \<Rightarrow>
         map_option (\<lambda>y. x @ y) (finalize_decryption gcm c))" for key n aad
    using agree tag unfolding streams_agree_def split by metis
  have size: "length source - 23 - 16 = length source - 39" by simp
  show ?thesis
    using False
    by (cases "recording_key cipher i v"; cases "encode_ascii (''media:'' @ str_int v @ '':'' @ i)")
      (auto simp: decrypt_media_file_def decrypt_media_def media_version_def Let_def v_def [symmetric] tag_def [symmetric]
        blocks one size split_beta split: option.splits)
qed

lemma materialize_media_Inr:
  assumes "streams_agree gcm (library cipher)"
  shows "materialize_media settings gcm cipher recording d = Inr content \<longleftrightarrow> load_media settings cipher recording d = Inr content"
proof -
  have "bind_result (decrypt_media_file (content_sha256 settings) gcm cipher (recording_id recording) payload)
        (\<lambda>(ver, plaintext, digest). if media_key_version recording \<noteq> Some ver then Inl e1
          else if truthy (media_sha256 recording) \<and> digest \<noteq> the (media_sha256 recording) then Inl e2 else Inr plaintext) = Inr content \<longleftrightarrow>
    bind_result (case media_key_version recording of None \<Rightarrow> Inr False
        | Some ver \<Rightarrow> bind_result (media_version payload) (\<lambda>v. Inr (v = ver))) (\<lambda>same_version.
      if \<not> same_version then Inl e1 else bind_result (decrypt_media cipher (recording_id recording) payload) (\<lambda>plaintext.
        if truthy (media_sha256 recording) \<and> content_sha256 settings plaintext \<noteq> the (media_sha256 recording)
        then Inl e2 else Inr plaintext)) = Inr content" for payload e1 e2
    by (auto simp: bind_result_Inr decrypt_media_file_Inr [OF assms] split: if_splits option.splits)
  then show ?thesis
    unfolding materialize_media_def load_media_def Let_def
    by (cases "media_path settings recording d") (simp_all add: split_beta)
qed

end
