(* ===== verification/Segment_Store.thy ===== *)
theory Segment_Store
  imports Media_Stream
begin

text \<open>
  Assembly of a recording that was uploaded in segments
  (\<^verbatim>\<open>assemble_conversation_recording\<close> of \<^verbatim>\<open>src/server/app/recording_service.py\<close>): the segments
  are decrypted, inspected and copied second by second into one stream of samples, which ffmpeg, a
  parameter, converts to the media file.

  The files of the workspace are private to one call, so that the model passes their contents; the
  workspace is removed when the call ends, whatever its outcome.
\<close>

section \<open>Copying the samples\<close>

function copy_frames :: "bytes \<Rightarrow> wave_file \<Rightarrow> nat \<Rightarrow> nat \<Rightarrow> bytes recording_result" where
  "copy_frames source audio remaining position =
     (if remaining = 0 then Inr []
      else
        let count = min 48000 remaining in
        case readframes source audio count position of (frames, position') \<Rightarrow>
          if length frames \<noteq> count * 4
          then Inl (RecordingError ''Conversation segment changed during assembly.'' 503)
          else bind_result (copy_frames source audio (remaining - count) position') (\<lambda>rest. Inr (frames @ rest)))"
  by pat_completeness auto
termination
  by (relation "measure (\<lambda>(source, audio, remaining, position). remaining)") auto

declare copy_frames.simps [simp del]

text \<open>One decrypted segment: its duration and its samples.\<close>

definition segment_audio :: "bytes \<Rightarrow> nat \<Rightarrow> (nat \<times> bytes) recording_result" where
  "segment_audio source expected_duration_ms =
     bind_result (inspect_pcm_wav_path source expected_duration_ms) (\<lambda>details.
       case wave_open source of
         Inl e \<Rightarrow> Inl (OtherError ''wave.Error'')
       | Inr audio \<Rightarrow> bind_result (copy_frames source audio (nframes audio) 0) (\<lambda>pcm.
           Inr (details_duration_ms details, pcm)))"

fun combine_segments ::
  "recording_settings \<Rightarrow> RecordingCipher \<Rightarrow> storage \<Rightarrow> int option \<Rightarrow> ConversationRecordingSegment list \<Rightarrow>
   (nat \<times> bytes) recording_result" where
  "combine_segments settings cipher d previous_captured_at [] = Inr (0, [])"
| "combine_segments settings cipher d previous_captured_at (segment # rest) =
     (if (case previous_captured_at of None \<Rightarrow> False | Some previous \<Rightarrow> segment_captured_at segment < previous)
      then Inl (RecordingError ''Conversation segment timestamps are out of order.'' 422)
      else bind_result (write_uploaded_wav_to_path settings cipher segment d) (\<lambda>source.
        bind_result (segment_audio source (segment_duration_ms segment)) (\<lambda>(duration, pcm).
        bind_result (combine_segments settings cipher d (Some (segment_captured_at segment)) rest) (\<lambda>(total, combined).
          Inr (duration + total, pcm @ combined)))))"

section \<open>Assembly\<close>

definition segments_complete :: "bool \<Rightarrow> ConversationRecordingSegment list \<Rightarrow> unit recording_result" where
  "segments_complete confirmed_abandoned segs =
     (if segs = [] then Inl (RecordingError ''Conversation recording has no segments.'' 409)
      else if map segment_index segs \<noteq> [0..<length segs]
      then Inl (RecordingError ''Conversation segment indexes are not contiguous.'' 409)
      else if list_ex (\<lambda>s. segment_status s \<noteq> ''verified'') segs
      then Inl (RecordingError ''Conversation recording has unverified segments.'' 409)
      else if list_ex (\<lambda>s. segment_stop_reason s \<noteq> ''segment_boundary'') (butlast segs)
      then Inl (RecordingError ''Only the final conversation segment may have a terminal stop reason.'' 409)
      else if segment_stop_reason (last segs) = ''segment_boundary'' \<and> \<not> confirmed_abandoned
      then Inl (RecordingError ''Final conversation segment must have a terminal stop reason.'' 409)
      else Inr ())"

text \<open>
  The conversion by ffmpeg of the samples to an MP3 file: it may be unavailable, or end with a code and
  perhaps without a file.
\<close>

definition encode_conversation :: "(bytes \<Rightarrow> (int \<times> bytes option) option) \<Rightarrow> bytes \<Rightarrow> bytes recording_result" where
  "encode_conversation ffmpeg combined =
     (case ffmpeg combined of
        None \<Rightarrow> Inl (RecordingError ''Conversation audio assembly is unavailable.'' 503)
      | Some (returncode, result) \<Rightarrow>
          if returncode \<noteq> 0 \<or> result = None then Inl (RecordingError ''Conversation audio assembly failed.'' 422)
          else if take 3 (the result) \<noteq> ''ID3'' \<and> take 1 (take 3 (the result)) \<noteq> [CHR 0xFF]
          then Inl (RecordingError ''Conversation audio assembly produced invalid media.'' 422)
          else Inr (the result))"

definition assembled_segment :: "int \<Rightarrow> ConversationRecordingSegment \<Rightarrow> ConversationRecordingSegment" where
  "assembled_segment now segment = segment\<lparr>segment_status := ''assembled'', upload_updated_at := now\<rparr>"

definition assemble_conversation_recording ::
  "recording_settings \<Rightarrow> 'c gcm_library \<Rightarrow> RecordingCipher \<Rightarrow> (bytes \<Rightarrow> (int \<times> bytes option) option) \<Rightarrow> bytes \<Rightarrow> string \<Rightarrow> int \<Rightarrow>
   bool \<Rightarrow> Recording \<Rightarrow> ConversationRecordingSegment list \<Rightarrow> recording_state \<Rightarrow>
   (Recording \<times> ConversationRecordingSegment list \<times> storage) recording_result" where
  "assemble_conversation_recording settings gcm cipher ffmpeg nonce uuid now confirmed_abandoned recording segs s =
     bind_result (segments_complete confirmed_abandoned segs) (\<lambda>_.
     bind_result (combine_segments settings cipher (disk s) None segs) (\<lambda>(total_duration_ms, combined).
     bind_result (encode_conversation ffmpeg combined) (\<lambda>encoded.
       if retention_policy (tables s) = None
       then Inl (RecordingError ''Recording retention state is unavailable.'' 503)
       else if recording_used_bytes None (Some (recording_id recording)) (tables s) +
            (length encoded + length MEDIA_MAGIC + 4 + 12 + 16) > recording_quota_bytes settings
       then Inl (RecordingError ''Recording storage quota is full; the device must retain its spool.'' 507)
       else bind_result (encrypt_media_file (content_sha256 settings) gcm cipher nonce (recording_id recording) encoded)
         (\<lambda>(payload, media_size, media_hash).
           let storage_name = uuid @ ''.rec'' in
           Inr (recording\<lparr>recording_duration_ms := total_duration_ms,
                  recording_stop_reason := (if confirmed_abandoned then ''recording_failure'' else segment_stop_reason (last segs)),
                  recording_partial := (confirmed_abandoned \<or> list_ex segment_partial segs),
                  recording_source_size_bytes := (\<Sum>x\<leftarrow>segs. expected_size_bytes x),
                  recording_source_sha256 := content_sha256 settings combined,
                  recording_segment_count := length segs, media_key_version := Some (cipher_version cipher),
                  media_storage_name := Some storage_name, media_size_bytes := Some media_size,
                  media_sha256 := Some media_hash, recording_status := ''ready'', recording_updated_at := now\<rparr>,
                map (assembled_segment now) segs,
                (disk s)\<lparr>media := AList.update storage_name (private_file settings payload) (media (disk s))\<rparr>)))))"

section \<open>What is assembled\<close>

text \<open>The samples of a wave file: the frames of its data chunk.\<close>

definition pcm_data :: "bytes \<Rightarrow> bytes" where
  "pcm_data source =
     (case wave_open source of Inl _ \<Rightarrow> [] | Inr w \<Rightarrow> take (4 * nframes w) (drop (8 + data_start w) source))"

lemma readframes_block:
  assumes "stereo_pcm16 w" "4 * k + 4 * n \<le> data_size w" "0 < n" "length (fst (readframes source w n (4 * k))) = n * 4"
  shows "readframes source w n (4 * k) = (take (4 * n) (drop (8 + data_start w + 4 * k) source), 4 * (k + n))"
proof -
  have f: "framesize w = 4" using assms(1) by (simp add: framesize_def stereo_pcm16_def)
  have p: "4 * k < data_size w" "min (n * 4) (data_size w - 4 * k) = 4 * n" using assms(2,3) by auto
  have "fst (readframes source w n (4 * k)) = take (4 * n) (drop (8 + data_start w + 4 * k) source)"
    using p assms(3) by (auto simp: readframes_def chunk_read_def f Let_def add.commute add.left_commute)
  moreover have "snd (readframes source w n (4 * k)) = 4 * (k + n)"
    using readframes_length [OF assms(1-3), of source] assms(4) by simp
  ultimately show ?thesis by (metis prod.collapse)
qed

lemma copy_frames_exact:
  assumes "stereo_pcm16 w" "4 * k + 4 * n \<le> data_size w" "copy_frames source w n (4 * k) = Inr pcm"
  shows "pcm = take (4 * n) (drop (8 + data_start w + 4 * k) source)"
  using assms(2,3)
proof (induction n arbitrary: k pcm rule: less_induct)
  case (less n)
  show ?case
  proof (cases "n = 0")
    case True
    then show ?thesis using less.prems(2) by (simp add: copy_frames.simps)
  next
    case False
    define c where "c = min 48000 n"
    have c: "0 < c" "c \<le> n" "4 * k + 4 * c \<le> data_size w" using False less.prems(1) by (auto simp: c_def)
    have step: "copy_frames source w n (4 * k) =
      (if length (fst (readframes source w c (4 * k))) \<noteq> c * 4
       then Inl (RecordingError ''Conversation segment changed during assembly.'' 503)
       else bind_result (copy_frames source w (n - c) (snd (readframes source w c (4 * k))))
         (\<lambda>rest. Inr (fst (readframes source w c (4 * k)) @ rest)))"
      using False by (subst copy_frames.simps) (simp add: Let_def split_beta c_def)
    have len: "length (fst (readframes source w c (4 * k))) = c * 4"
      using less.prems(2) unfolding step by (simp split: if_splits)
    note block = readframes_block [OF assms(1) c(3,1) len]
    obtain rest where rest: "copy_frames source w (n - c) (4 * (k + c)) = Inr rest"
      "pcm = take (4 * c) (drop (8 + data_start w + 4 * k) source) @ rest"
      using less.prems(2) len unfolding step block by (auto simp: bind_result_Inr)
    have "rest = take (4 * (n - c)) (drop (8 + data_start w + 4 * (k + c)) source)"
      by (rule less.IH [OF _ _ rest(1)]) (use c less.prems(1) in auto)
    moreover have "drop (8 + data_start w + 4 * (k + c)) source = drop (4 * c) (drop (8 + data_start w + 4 * k) source)"
      by (simp add: algebra_simps)
    moreover have "4 * n = 4 * c + 4 * (n - c)" using c(2) by simp
    ultimately show ?thesis using rest(2) take_add [of "4 * c" "4 * (n - c)" "drop (8 + data_start w + 4 * k) source"] by simp
  qed
qed

lemma inspect_pcm_Inr:
  assumes "inspect_pcm_wav_path source expected = Inr details"
  obtains w where "wave_open source = Inr w" "stereo_pcm16 w" "pcm_complete source w (nframes w) 0"
    "details_duration_ms details = wav_duration_ms (nframes w)" "details_frames details = nframes w"
    "0 < wav_duration_ms (nframes w)" "wav_duration_ms (nframes w) \<le> 180000"
    "\<bar>int (wav_duration_ms (nframes w)) - int expected\<bar> \<le> 100"
  using assms that by (auto simp: inspect_pcm_wav_path_def Let_def split: if_splits sum.splits)

lemma segment_audio_Inr:
  assumes "segment_audio source expected = Inr (duration, pcm)"
  obtains w where "wave_open source = Inr w" "pcm = pcm_data source" "duration = wav_duration_ms (nframes w)"
proof -
  obtain details where d: "inspect_pcm_wav_path source expected = Inr details"
    using assms by (auto simp: segment_audio_def bind_result_Inr)
  obtain w where w: "wave_open source = Inr w" "stereo_pcm16 w" "details_duration_ms details = wav_duration_ms (nframes w)"
    by (rule inspect_pcm_Inr [OF d])
  have c: "copy_frames source w (nframes w) (4 * 0) = Inr pcm" "duration = details_duration_ms details"
    using assms d w(1) by (auto simp: segment_audio_def bind_result_Inr)
  have "pcm = pcm_data source"
    using copy_frames_exact [OF w(2) _ c(1)] nframes_stereo [OF w(2)] by (simp add: pcm_data_def w(1))
  then show thesis using that [OF w(1)] c(2) w(3) by simp
qed

lemma combine_segments_Inr:
  assumes "combine_segments settings cipher d previous segs = Inr (span, combined)"
  shows "\<exists>sources. list_all2 (\<lambda>x source. write_uploaded_wav_to_path settings cipher x d = Inr source \<and>
        (\<exists>pcm. segment_audio source (segment_duration_ms x) = Inr pcm)) segs sources \<and>
     combined = concat (map pcm_data sources) \<and>
     span = (\<Sum>source\<leftarrow>sources. (case wave_open source of Inl _ \<Rightarrow> 0 | Inr w \<Rightarrow> wav_duration_ms (nframes w))) \<and>
     sorted (map segment_captured_at segs) \<and> (\<forall>p. previous = Some p \<longrightarrow> (\<forall>x\<in>set segs. p \<le> segment_captured_at x))"
  using assms
proof (induction segs arbitrary: previous span combined)
  case (Cons x xs)
  obtain source where src: "write_uploaded_wav_to_path settings cipher x d = Inr source"
    and order: "\<forall>p. previous = Some p \<longrightarrow> p \<le> segment_captured_at x"
    using Cons.prems by (cases "write_uploaded_wav_to_path settings cipher x d") (auto split: if_splits option.splits)
  obtain duration pcm where a: "segment_audio source (segment_duration_ms x) = Inr (duration, pcm)"
    using Cons.prems src by (cases "segment_audio source (segment_duration_ms x)") (auto split: if_splits option.splits)
  obtain span' combined' where rest: "combine_segments settings cipher d (Some (segment_captured_at x)) xs = Inr (span', combined')"
    and sum: "span = duration + span'" "combined = pcm @ combined'"
    using Cons.prems src a by (auto simp: bind_result_Inr split: if_splits option.splits)
  obtain w where w: "wave_open source = Inr w" "pcm = pcm_data source" "duration = wav_duration_ms (nframes w)"
    by (rule segment_audio_Inr [OF a])
  obtain sources where s: "list_all2 (\<lambda>x source. write_uploaded_wav_to_path settings cipher x d = Inr source \<and>
        (\<exists>pcm. segment_audio source (segment_duration_ms x) = Inr pcm)) xs sources"
    "combined' = concat (map pcm_data sources)"
    "span' = (\<Sum>source\<leftarrow>sources. (case wave_open source of Inl _ \<Rightarrow> 0 | Inr w \<Rightarrow> wav_duration_ms (nframes w)))"
    "sorted (map segment_captured_at xs)" "\<forall>y\<in>set xs. segment_captured_at x \<le> segment_captured_at y"
    using Cons.IH [OF rest] by auto
  show ?case
    by (rule exI [of _ "source # sources"]) (use s src a w sum order in \<open>auto intro: order_trans\<close>)
qed simp

lemma assemble_Inr:
  assumes run: "assemble_conversation_recording settings gcm cipher ffmpeg nonce uuid now confirmed recording segs s = Inr (recording', segs', d)"
    and agree: "streams_agree gcm (library cipher)" and cipher: "cipher_ready cipher" "length nonce = 12" "is_ascii (recording_id recording)"
    and uuid: "length uuid = 32" "list_all hex_char uuid"
  obtains span combined encoded payload where
    "segments_complete confirmed segs = Inr ()" "combine_segments settings cipher (disk s) None segs = Inr (span, combined)"
    "encode_conversation ffmpeg combined = Inr encoded" "length payload = length encoded + 39"
    "recording_used_bytes None (Some (recording_id recording)) (tables s) + length payload \<le> recording_quota_bytes settings"
    "recording' = recording\<lparr>recording_duration_ms := span,
        recording_stop_reason := (if confirmed then ''recording_failure'' else segment_stop_reason (last segs)),
        recording_partial := (confirmed \<or> list_ex segment_partial segs),
        recording_source_size_bytes := (\<Sum>x\<leftarrow>segs. expected_size_bytes x),
        recording_source_sha256 := content_sha256 settings combined,
        recording_segment_count := length segs, media_key_version := Some (cipher_version cipher),
        media_storage_name := Some (uuid @ ''.rec''), media_size_bytes := Some (length payload),
        media_sha256 := Some (content_sha256 settings encoded), recording_status := ''ready'', recording_updated_at := now\<rparr>"
    "segs' = map (assembled_segment now) segs"
    "d = (disk s)\<lparr>media := AList.update (uuid @ ''.rec'') (private_file settings payload) (media (disk s))\<rparr>"
    "load_media settings cipher recording' d = Inr encoded"
proof -
  obtain span combined encoded where a: "segments_complete confirmed segs = Inr ()"
    "combine_segments settings cipher (disk s) None segs = Inr (span, combined)"
    "encode_conversation ffmpeg combined = Inr encoded"
    using run by (auto simp: assemble_conversation_recording_def bind_result_Inr)
  obtain payload where p: "encrypt_media cipher nonce (recording_id recording) encoded = Inr payload"
    "length payload = length encoded + 39" "media_version payload = Inr (cipher_version cipher)"
    "decrypt_media cipher (recording_id recording) payload = Inr encoded"
    using media_round_trip [OF cipher(1,3,2), of encoded] keeps_key_refl by metis
  have run': "(if retention_policy (tables s) = None then Inl (RecordingError ''Recording retention state is unavailable.'' 503)
       else if recording_used_bytes None (Some (recording_id recording)) (tables s) + (length encoded + length MEDIA_MAGIC + 4 + 12 + 16)
            > recording_quota_bytes settings
       then Inl (RecordingError ''Recording storage quota is full; the device must retain its spool.'' 507)
       else Inr (recording\<lparr>recording_duration_ms := span,
            recording_stop_reason := (if confirmed then ''recording_failure'' else segment_stop_reason (last segs)),
            recording_partial := (confirmed \<or> list_ex segment_partial segs),
            recording_source_size_bytes := (\<Sum>x\<leftarrow>segs. expected_size_bytes x),
            recording_source_sha256 := content_sha256 settings combined,
            recording_segment_count := length segs, media_key_version := Some (cipher_version cipher),
            media_storage_name := Some (uuid @ ''.rec''), media_size_bytes := Some (length payload),
            media_sha256 := Some (content_sha256 settings encoded), recording_status := ''ready'', recording_updated_at := now\<rparr>,
          map (assembled_segment now) segs,
          (disk s)\<lparr>media := AList.update (uuid @ ''.rec'') (private_file settings payload) (media (disk s))\<rparr>)) = Inr (recording', segs', d)"
    using run unfolding assemble_conversation_recording_def a bind_result.simps prod.case encrypt_media_file_eq [OF agree] p(1) Let_def .
  have space: "recording_used_bytes None (Some (recording_id recording)) (tables s) + length payload \<le> recording_quota_bytes settings"
    using run' p(2) by (simp split: if_splits)
  have d: "d = (disk s)\<lparr>media := AList.update (uuid @ ''.rec'') (private_file settings payload) (media (disk s))\<rparr>"
    "segs' = map (assembled_segment now) segs"
    using run' by (simp_all split: if_splits)
  have "media_name_valid (uuid @ ''.rec'')" using uuid by (simp add: media_name_valid_def)
  then have "load_media settings cipher recording' d = Inr encoded"
    using p(3,4) run' by (auto simp: load_media_def media_path_def update_conv split: if_splits)
  then show thesis
    by (intro that [OF a p(2) space _ d(2,1)]) (use run' in \<open>simp_all split: if_splits\<close>)
qed

text \<open>
  C9: Assembly is exact. A recording that is assembled from segments has contiguous indexes from 0, all of
  them verified; the encoder is given exactly the samples of the segments in order, nothing repeated or
  left out; the duration is the sum of the durations of the segments; and the media file that is stored,
  once encrypted in blocks, plays back exactly what the encoder returned.
\<close>

theorem assembly_exact:
  assumes "assemble_conversation_recording settings gcm cipher ffmpeg nonce uuid now confirmed recording segs s = Inr (recording', segs', d)"
    and "streams_agree gcm (library cipher)" "cipher_ready cipher" "length nonce = 12" "is_ascii (recording_id recording)"
    and "length uuid = 32" "list_all hex_char uuid"
  shows "\<exists>sources encoded.
    list_all2 (\<lambda>x source. write_uploaded_wav_to_path settings cipher x (disk s) = Inr source) segs sources \<and>
    map segment_index segs = [0..<length segs] \<and> list_all (\<lambda>x. segment_status x = ''verified'') segs \<and>
    sorted (map segment_captured_at segs) \<and>
    ffmpeg (concat (map pcm_data sources)) = Some (0, Some encoded) \<and>
    recording_source_sha256 recording' = content_sha256 settings (concat (map pcm_data sources)) \<and>
    recording_duration_ms recording' =
      (\<Sum>source\<leftarrow>sources. (case wave_open source of Inl _ \<Rightarrow> 0 | Inr w \<Rightarrow> wav_duration_ms (nframes w))) \<and>
    load_media settings cipher recording' d = Inr encoded"
proof -
  obtain span combined encoded payload where a: "segments_complete confirmed segs = Inr ()"
    "combine_segments settings cipher (disk s) None segs = Inr (span, combined)" "encode_conversation ffmpeg combined = Inr encoded"
    "recording_source_sha256 recording' = content_sha256 settings combined" "recording_duration_ms recording' = span"
    "load_media settings cipher recording' d = Inr encoded"
    by (rule assemble_Inr [OF assms]) auto
  obtain sources where s: "list_all2 (\<lambda>x source. write_uploaded_wav_to_path settings cipher x (disk s) = Inr source \<and>
        (\<exists>pcm. segment_audio source (segment_duration_ms x) = Inr pcm)) segs sources"
    "combined = concat (map pcm_data sources)"
    "span = (\<Sum>source\<leftarrow>sources. (case wave_open source of Inl _ \<Rightarrow> 0 | Inr w \<Rightarrow> wav_duration_ms (nframes w)))"
    "sorted (map segment_captured_at segs)"
    using combine_segments_Inr [OF a(2)] by blast
  have "list_all2 (\<lambda>x source. write_uploaded_wav_to_path settings cipher x (disk s) = Inr source) segs sources"
    using s(1) by (rule list_all2_mono) blast
  moreover have "map segment_index segs = [0..<length segs]" "list_all (\<lambda>x. segment_status x = ''verified'') segs"
    using a(1) by (auto simp: segments_complete_def list_ex_iff list_all_iff split: if_splits)
  moreover have "ffmpeg combined = Some (0, Some encoded)"
    using a(3) by (auto simp: encode_conversation_def split: option.splits if_splits)
  ultimately show ?thesis using s a by blast
qed

section \<open>Assembly succeeds\<close>

lemma copy_frames_total: "pcm_complete source w n position \<Longrightarrow> \<exists>pcm. copy_frames source w n position = Inr pcm"
proof (induction n arbitrary: position rule: less_induct)
  case (less n)
  show ?case
  proof (cases "n = 0")
    case False
    define c where "c = min 48000 n"
    have step: "length (fst (readframes source w c position)) = c * 4" "pcm_complete source w (n - c) (snd (readframes source w c position))"
      using less.prems False by (subst (asm) pcm_complete.simps, simp add: Let_def split_beta c_def)+
    obtain rest where "copy_frames source w (n - c) (snd (readframes source w c position)) = Inr rest"
      using less.IH [OF _ step(2)] False by (auto simp: c_def)
    then show ?thesis using False step(1) by (subst copy_frames.simps) (simp add: Let_def split_beta c_def)
  qed (simp add: copy_frames.simps)
qed

lemma segment_audio_total:
  assumes "inspect_pcm_wav_path source expected = Inr details"
  shows "\<exists>pcm. segment_audio source expected = Inr (details_duration_ms details, pcm)"
proof -
  obtain w where w: "wave_open source = Inr w" "pcm_complete source w (nframes w) 0" by (rule inspect_pcm_Inr [OF assms])
  then show ?thesis using copy_frames_total [OF w(2)] assms by (auto simp: segment_audio_def)
qed

text \<open>A segment whose chunks still decrypt to a file that passes the inspection.\<close>

definition segment_readable :: "recording_settings \<Rightarrow> RecordingCipher \<Rightarrow> storage \<Rightarrow> ConversationRecordingSegment \<Rightarrow> bytes \<Rightarrow> bool" where
  "segment_readable settings cipher d x source \<longleftrightarrow>
     write_uploaded_wav_to_path settings cipher x d = Inr source \<and>
     (\<exists>details. inspect_pcm_wav_path source (segment_duration_ms x) = Inr details)"

lemma combine_segments_total:
  assumes "list_all2 (segment_readable settings cipher d) segs sources" "sorted (map segment_captured_at segs)"
    "\<forall>p. previous = Some p \<longrightarrow> (\<forall>x\<in>set segs. p \<le> segment_captured_at x)"
  shows "\<exists>span. combine_segments settings cipher d previous segs = Inr (span, concat (map pcm_data sources))"
  using assms
proof (induction segs arbitrary: previous sources)
  case (Cons x xs)
  then obtain source rest where sources: "sources = source # rest" by (cases sources) auto
  obtain details where s: "write_uploaded_wav_to_path settings cipher x d = Inr source"
    "inspect_pcm_wav_path source (segment_duration_ms x) = Inr details"
    using Cons.prems(1) by (auto simp: segment_readable_def sources)
  obtain pcm where a: "segment_audio source (segment_duration_ms x) = Inr (details_duration_ms details, pcm)"
    using segment_audio_total [OF s(2)] by blast
  have pcm: "pcm = pcm_data source" by (rule segment_audio_Inr [OF a])
  obtain span where r: "combine_segments settings cipher d (Some (segment_captured_at x)) xs = Inr (span, concat (map pcm_data rest))"
    using Cons.IH [of rest "Some (segment_captured_at x)"] Cons.prems by (auto simp: sources)
  have "\<not> (case previous of None \<Rightarrow> False | Some p \<Rightarrow> segment_captured_at x < p)"
    using Cons.prems(3) by (auto split: option.splits)
  then show ?case using s a r by (simp add: sources pcm)
qed simp

lemma assembly_total:
  assumes "segments_complete confirmed segs = Inr ()" "list_all2 (segment_readable settings cipher (disk s)) segs sources"
    "sorted (map segment_captured_at segs)"
    and e: "encode_conversation ffmpeg (concat (map pcm_data sources)) = Inr encoded"
    and "retention_policy (tables s) \<noteq> None"
    and space: "recording_used_bytes None (Some (recording_id recording)) (tables s) + length encoded + 39 \<le> recording_quota_bytes settings"
    and lib: "streams_agree gcm (library cipher)" "cipher_ready cipher" "length nonce = 12" "is_ascii (recording_id recording)"
  shows "\<exists>r. assemble_conversation_recording settings gcm cipher ffmpeg nonce uuid now confirmed recording segs s = Inr r"
proof -
  obtain span where c: "combine_segments settings cipher (disk s) None segs = Inr (span, concat (map pcm_data sources))"
    using combine_segments_total [OF assms(2,3), of None] by auto
  obtain payload where "encrypt_media cipher nonce (recording_id recording) encoded = Inr payload"
    by (rule media_round_trip [OF lib(2,4,3), of encoded])
  then show ?thesis
    using assms(1,5) c e space by (simp add: assemble_conversation_recording_def encrypt_media_file_eq [OF lib(1)] Let_def)
qed

text \<open>
  C10: Nothing that a verified segment was accepted for stops the assembly. When the segments are complete
  and verified, each still decrypts to a file that passes the inspection, their times do not decrease, and
  the encoder converts the samples of these files, in order, to a file that fits into the quota, then the
  assembly succeeds.
\<close>

theorem assembly_succeeds:
  assumes "segments_complete confirmed segs = Inr ()" "list_all2 (segment_readable settings cipher (disk s)) segs sources"
    "sorted (map segment_captured_at segs)"
    and "encode_conversation ffmpeg (concat (map pcm_data sources)) = Inr encoded"
    and "retention_policy (tables s) \<noteq> None"
    and "recording_used_bytes None (Some (recording_id recording)) (tables s) + length encoded + 39 \<le> recording_quota_bytes settings"
    and "streams_agree gcm (library cipher)" "cipher_ready cipher" "length nonce = 12" "is_ascii (recording_id recording)"
  shows "\<exists>r. assemble_conversation_recording settings gcm cipher ffmpeg nonce uuid now confirmed recording segs s = Inr r"
  using assms by (rule assembly_total)

text \<open>A conversation of one segment of a millisecond.\<close>

definition demo_gcm :: "unit gcm_library" where
  "demo_gcm = \<lparr>encryptor = (\<lambda>key nonce aad. ()), decryptor = (\<lambda>key nonce tag aad. ()), cipher_update = (\<lambda>c p. (p, c)),
     finalize_encryption = (\<lambda>c. ([], replicate 16 CHR ''t'')), finalize_decryption = (\<lambda>c. Some [])\<rparr>"

lemma demo_gcm_agrees [simp]: "streams_agree demo_gcm (library demo_cipher)"
  by (simp add: streams_agree_def demo_gcm_def demo_cipher_def demo_library_def)

definition silence :: bytes where
  "silence = wav_file (replicate 192 CHR 0x00)"

definition demo_segment :: ConversationRecordingSegment where
  "demo_segment =
     \<lparr>expected_size_bytes = 236, upload_offset = 236, storage_name = replicate 32 CHR ''0'', source_sha256 = silence,
      upload_updated_at = 0, segment_recording_id = ''r1'', segment_index = 0, segment_captured_at = 0, segment_duration_ms = 50,
      segment_stop_reason = ''caller_hangup'', segment_partial = False, segment_status = ''verified''\<rparr>"

definition demo_segment_storage :: "bytes \<Rightarrow> storage" where
  "demo_segment_storage payload = \<lparr>media = [], uploads = [(replicate 32 CHR ''0'',
     (private_directory demo_recording_settings)\<lparr>children := [(chunk_name 0, private_file demo_recording_settings payload)]\<rparr>)]\<rparr>"

definition demo_segment_state :: "bytes \<Rightarrow> recording_state" where
  "demo_segment_state payload =
     \<lparr>tables = \<lparr>control_rows = empty_database, calls = [], recordings = [demo_recording], recording_uploads = [], segments = [demo_segment],
        continuous_recordings = [], retention_policy = Some \<lparr>policy_mode = ''manual'', policy_days = 30, policy_updated_at = 0, policy_updated_by = ''admin''\<rparr>\<rparr>,
      disk = demo_segment_storage payload\<rparr>"

lemma silence_length: "length silence = 236"
  by (simp add: silence_def wav_file_def)

lemma silence_inspected: "inspect_pcm_wav_path silence 50 = Inr \<lparr>details_duration_ms = 1, details_frames = 48\<rparr>"
proof -
  have "inspect_caller_wav silence 50 = Inr \<lparr>details_duration_ms = 1, details_frames = 48\<rparr>" unfolding silence_def by (rule silent_wav_accepted)
  then show ?thesis using inspections_agree [of silence] silence_length by simp
qed

lemma demo_segment_written:
  obtains payload where
    "write_uploaded_wav_to_path demo_recording_settings demo_cipher demo_segment (demo_segment_storage payload) = Inr silence"
proof -
  obtain payload where p: "decrypt_chunk demo_cipher ''r1:0'' 0 payload = Inr silence"
  proof (rule chunk_round_trip [OF demo_cipher_ready, of "''r1:0''" "replicate 12 CHR ''n''" 0 silence])
    fix payload assume "\<And>new. keeps_key demo_cipher new \<Longrightarrow> decrypt_chunk new ''r1:0'' 0 payload = Inr silence"
    then show thesis using that keeps_key_refl by blast
  qed simp_all
  let ?d = "(private_directory demo_recording_settings)\<lparr>children := [(chunk_name 0, private_file demo_recording_settings payload)]\<rparr>"
  have dir: "upload_directory demo_recording_settings demo_segment (demo_segment_storage payload) = Inr ?d"
    by (simp add: upload_directory_Inr demo_segment_def demo_segment_storage_def private_directory_def owned_privately_def
        demo_recording_settings_def hex_char_def list_all_iff)
  have read: "read_chunk demo_recording_settings demo_cipher ''r1:0'' ?d 0 = Inr silence" by (simp add: read_chunk_def p)
  have "silence \<noteq> []" using silence_length by auto
  then have "read_chunks (read_chunk demo_recording_settings demo_cipher ''r1:0'' ?d) e 236 0 = Inr [silence]" for e
    by (intro read_chunks_laid_out) (simp_all add: read silence_length)
  moreover have "segment_recording_id demo_segment @ '':'' @ str_nat (segment_index demo_segment) = ''r1:0''"
    by (simp add: demo_segment_def str_nat.simps char_of_def bit_0)
  ultimately have "write_uploaded_wav_to_path demo_recording_settings demo_cipher demo_segment (demo_segment_storage payload) = Inr silence"
    unfolding write_uploaded_wav_to_path_def dir Let_def
    by (simp add: demo_segment_def silence_length demo_recording_settings_def)
  then show thesis by (rule that)
qed

lemma demo_segment_readable:
  obtains payload where "segment_readable demo_recording_settings demo_cipher (demo_segment_storage payload) demo_segment silence"
proof -
  obtain payload where "write_uploaded_wav_to_path demo_recording_settings demo_cipher demo_segment (demo_segment_storage payload) = Inr silence"
    by (rule demo_segment_written)
  moreover have "segment_duration_ms demo_segment = 50" by (simp add: demo_segment_def)
  ultimately show thesis using that silence_inspected unfolding segment_readable_def by auto
qed

definition demo_encoder :: "bytes \<Rightarrow> (int \<times> bytes option) option" where
  "demo_encoder combined = Some (0, Some ''ID3'')"

lemma demo_encoder_works: "encode_conversation demo_encoder combined = Inr ''ID3''"
  by (simp add: encode_conversation_def demo_encoder_def)

lemmas demo_segment_defs = demo_segment_state_def demo_segment_def demo_recording_settings_def demo_recording_def

lemma demo_segment_hypotheses:
  "segments_complete False [demo_segment] = Inr ()" "sorted (map segment_captured_at [demo_segment])"
  "retention_policy (tables (demo_segment_state payload)) \<noteq> None"
  "recording_used_bytes None (Some (recording_id demo_recording)) (tables (demo_segment_state payload)) + length ''ID3'' + 39
     \<le> recording_quota_bytes demo_recording_settings"
  "is_ascii (recording_id demo_recording)" "disk (demo_segment_state payload) = demo_segment_storage payload"
  by (simp_all add: segments_complete_def demo_segment_defs recording_used_bytes_def is_ascii_def)

theorem assembly_succeeds_witness:
  "\<exists>payload r. assemble_conversation_recording demo_recording_settings demo_gcm demo_cipher demo_encoder (replicate 12 CHR ''n'')
     (replicate 32 CHR ''1'') 9 False demo_recording [demo_segment] (demo_segment_state payload) = Inr r"
proof -
  obtain payload where "segment_readable demo_recording_settings demo_cipher (demo_segment_storage payload) demo_segment silence"
    by (rule demo_segment_readable)
  then have "list_all2 (segment_readable demo_recording_settings demo_cipher (disk (demo_segment_state payload))) [demo_segment] [silence]"
    by (simp add: demo_segment_hypotheses(6))
  from assembly_succeeds [OF demo_segment_hypotheses(1) this demo_segment_hypotheses(2) demo_encoder_works demo_segment_hypotheses(3,4)
      demo_gcm_agrees demo_cipher_ready _ demo_segment_hypotheses(5), of "replicate 12 CHR ''n''" "replicate 32 CHR ''1''" 9]
  show ?thesis by auto
qed

theorem assembly_exact_witness:
  "\<exists>payload recording' segs' d source.
     assemble_conversation_recording demo_recording_settings demo_gcm demo_cipher demo_encoder (replicate 12 CHR ''n'')
       (replicate 32 CHR ''1'') 9 False demo_recording [demo_segment] (demo_segment_state payload) = Inr (recording', segs', d) \<and>
     recording_source_sha256 recording' = content_sha256 demo_recording_settings (pcm_data source) \<and>
     load_media demo_recording_settings demo_cipher recording' d = Inr ''ID3''"
proof -
  obtain payload where "segment_readable demo_recording_settings demo_cipher (demo_segment_storage payload) demo_segment silence"
    by (rule demo_segment_readable)
  then have "list_all2 (segment_readable demo_recording_settings demo_cipher (disk (demo_segment_state payload))) [demo_segment] [silence]"
    by (simp add: demo_segment_hypotheses(6))
  from assembly_total [OF demo_segment_hypotheses(1) this demo_segment_hypotheses(2) demo_encoder_works demo_segment_hypotheses(3,4)
      demo_gcm_agrees demo_cipher_ready _ demo_segment_hypotheses(5), of "replicate 12 CHR ''n''" "replicate 32 CHR ''1''" 9]
  obtain recording' segs' d where r: "assemble_conversation_recording demo_recording_settings demo_gcm demo_cipher demo_encoder
      (replicate 12 CHR ''n'') (replicate 32 CHR ''1'') 9 False demo_recording [demo_segment] (demo_segment_state payload) = Inr (recording', segs', d)"
    by auto
  have "length (replicate 12 CHR ''n'') = 12" "length (replicate 32 CHR ''1'') = 32" "list_all hex_char (replicate 32 CHR ''1'')"
    by (simp_all add: list_all_iff hex_char_def)
  from assembly_exact [OF r demo_gcm_agrees demo_cipher_ready this(1) demo_segment_hypotheses(5) this(2,3)]
  obtain sources encoded where "list_all2 (\<lambda>x source. write_uploaded_wav_to_path demo_recording_settings demo_cipher x
        (disk (demo_segment_state payload)) = Inr source) [demo_segment] sources"
    "demo_encoder (concat (map pcm_data sources)) = Some (0, Some encoded)"
    "recording_source_sha256 recording' = content_sha256 demo_recording_settings (concat (map pcm_data sources))"
    "load_media demo_recording_settings demo_cipher recording' d = Inr encoded" by blast
  moreover from this(1) obtain z where "sources = [z]" by (auto simp: list_all2_Cons1)
  ultimately show ?thesis
    using r by (intro exI [of _ payload] exI [of _ recording'] exI [of _ segs'] exI [of _ d] exI [of _ z]) (simp add: demo_encoder_def)
qed

end
