(* ===== verification/Call_History.thy ===== *)
theory Call_History
  imports Recording_Store
begin

text \<open>
  The history of calls: what devices report about a call and its events, and which notifications follow
  (\<^verbatim>\<open>src/server/app/call_history.py\<close>, the event requests of \<^verbatim>\<open>src/server/app/main.py\<close>,
  \<^verbatim>\<open>validate_call_report\<close> of \<^verbatim>\<open>src/server/app/audit_settings.py\<close> and
  \<^verbatim>\<open>classify_call_notifications\<close> of \<^verbatim>\<open>src/server/app/ntfy.py\<close>).

  An event document is the dump of the model that the request parser has accepted. SHA-256 and the
  conversion of a time to its text in UTC are parameters. A request that raises leaves no new state. The
  text of the notifications, which is built from the claimed keys, is left out.
\<close>

section \<open>Reports\<close>

datatype CallSubEvent =
    ExternalCallSubEvent string string string string string
  | LegacyCallSubEvent string

record CallEventInput =
  input_session_audit :: "SessionAuditReport option"
  input_call_id :: string
  input_started_at :: int
  input_caller :: "string option"
  input_policy_decision :: string
  input_revision_id :: "nat option"
  input_menu_path :: "string list"
  input_result :: string
  input_duration_seconds :: int
  input_ended_at :: "int option"
  input_cleanup_status :: "string option"
  input_events :: "CallSubEvent list"

text \<open>
  The values that the request parser accepts: the patterns and literals of the fields and the model
  validators. A label or reason never carries eight digits, so no telephone number is stored in clear.
\<close>

definition is_upper :: "char \<Rightarrow> bool" where
  "is_upper c \<longleftrightarrow> CHR ''A'' \<le> c \<and> c \<le> CHR ''Z''"

definition digit_count :: "string \<Rightarrow> nat" where
  "digit_count s = length (filter Flow_Schema.is_digit s)"

definition matches_reason :: "string \<Rightarrow> bool" where
  "matches_reason s \<longleftrightarrow> s = ''-'' \<or>
     (case s of [] \<Rightarrow> False
      | c # cs \<Rightarrow> is_upper c \<and> length cs \<le> 63 \<and> list_all (\<lambda>x. is_upper x \<or> Flow_Schema.is_digit x \<or> x = CHR ''_'') cs)"

definition matches_label :: "string \<Rightarrow> bool" where
  "matches_label s \<longleftrightarrow>
     (case s of [] \<Rightarrow> False
      | c # cs \<Rightarrow> (is_upper c \<or> is_lower c) \<and> length cs \<le> 63 \<and>
          list_all (\<lambda>x. is_upper x \<or> is_lower x \<or> Flow_Schema.is_digit x \<or> x \<in> set '' _-'') cs)"

fun CallSubEvent_valid :: "CallSubEvent \<Rightarrow> bool" where
  "CallSubEvent_valid (ExternalCallSubEvent event _ outcome block reason) \<longleftrightarrow>
     event \<in> {''external_call'', ''recording_failure''} \<and>
     outcome \<in> {''ACK'', ''CALLER_HELD'', ''DIALING'', ''OPERATOR_ANSWERED'', ''MERGING'', ''CONFERENCED'', ''COMPLETED'',
       ''NOT_CONNECTED'', ''SYSTEM_FAILURE'', ''RECORDING_FAILURE''} \<and>
     matches_BLOCK_ID_PATTERN block \<and> matches_reason reason \<and> digit_count reason < 8"
| "CallSubEvent_valid (LegacyCallSubEvent event) \<longleftrightarrow>
     matches_label event \<and> event \<notin> {''external_call'', ''recording_failure''} \<and> digit_count event < 8"

definition SessionAuditEvent_valid :: "SessionAuditEvent \<Rightarrow> bool" where
  "SessionAuditEvent_valid e \<longleftrightarrow>
     audit_offset_ms e \<le> 86400000 \<and>
     audit_type e \<in> {''answered'', ''prompt'', ''digit'', ''timeout'', ''invalid'', ''schedule'', ''return'', ''voicemail'',
       ''external_call'', ''ended'', ''gap''} \<and>
     pred_option matches_BLOCK_ID_PATTERN (audit_block_id e) \<and> length (audit_detail e) \<le> 80 \<and>
     list_all (\<lambda>x. is_upper x \<or> is_lower x \<or> Flow_Schema.is_digit x \<or> x \<in> set ''_ .:#/*-'') (audit_detail e) \<and>
     digit_count (audit_detail e) < 8"

definition valid_report :: "SessionAuditReport \<Rightarrow> bool" where
  "valid_report r \<longleftrightarrow>
     (report_state r = ''pending_upload'' \<longrightarrow>
        report_recording_id r \<noteq> None \<and> report_captured_at r \<noteq> None \<and> 0 < report_duration_ms r) \<and>
     sorted (map audit_offset_ms (report_events r)) \<and>
     list_all (\<lambda>e. audit_offset_ms e \<le> report_duration_ms r + 1000) (report_events r)"

definition SessionAuditReport_valid :: "SessionAuditReport \<Rightarrow> bool" where
  "SessionAuditReport_valid r \<longleftrightarrow>
     report_state r \<in> {''disabled'', ''pending_upload'', ''unavailable''} \<and> report_duration_ms r \<le> 86400000 \<and>
     length (report_stop_reason r) \<le> 32 \<and> list_all (\<lambda>x. is_lower x \<or> x = CHR ''_'') (report_stop_reason r) \<and>
     length (report_events r) \<le> 4096 \<and> list_all SessionAuditEvent_valid (report_events r) \<and> valid_report r"

section \<open>Tables\<close>

record CallHistoryRecord = CallRecord +
  history_caller :: "string option"
  history_caller_last4 :: string
  history_policy_decision :: string
  history_menu_path :: "string list"
  history_ended_at :: "int option"
  history_cleanup_status :: "string option"
  terminal_notification_scheduled :: bool
  history_events :: "CallSubEvent list"
  history_session_audit :: "SessionAuditReport option"
  history_received_at :: int

record CallEventReceipt =
  receipt_device_id :: string
  receipt_call_id :: string
  receipt_identity :: string
  receipt_document :: CallSubEvent
  notification_scheduled :: bool

record SessionAuditPolicy =
  audit_policy_version :: nat
  audit_policy_enabled :: bool

record call_tables =
  call_rows :: "CallHistoryRecord list"
  receipts :: "CallEventReceipt list"
  audit_policies :: "SessionAuditPolicy list"
  audit_acknowledgements :: "(string \<times> nat) list"
  last_seen :: "(string \<times> int) list"

record call_environment =
  identity_sha256 :: "string \<Rightarrow> string"
  utc_isoformat :: "string \<Rightarrow> string"

definition find_call :: "string \<Rightarrow> call_tables \<Rightarrow> CallHistoryRecord option" where
  "find_call i t = find (\<lambda>c. call_id c = i) (call_rows t)"

definition put_call :: "CallHistoryRecord \<Rightarrow> call_tables \<Rightarrow> call_tables" where
  "put_call c t = t\<lparr>call_rows := map (\<lambda>d. if call_id d = call_id c then c else d) (call_rows t)\<rparr>"

section \<open>Events and their identities\<close>

fun event_document :: "CallSubEvent \<Rightarrow> json" where
  "event_document (ExternalCallSubEvent event occurred_at outcome block reason) = JObject
     [(''event'', JString event), (''occurred_at'', JString occurred_at), (''status'', JString outcome),
      (''block_id'', JString block), (''reason'', JString reason)]"
| "event_document (LegacyCallSubEvent event) = JObject [(''event'', JString event)]"

fun normalized_event :: "call_environment \<Rightarrow> CallSubEvent \<Rightarrow> CallSubEvent" where
  "normalized_event env (ExternalCallSubEvent event occurred_at outcome block reason) =
     ExternalCallSubEvent event (utc_isoformat env occurred_at) outcome block reason"
| "normalized_event env (LegacyCallSubEvent event) = LegacyCallSubEvent event"

definition event_identity :: "call_environment \<Rightarrow> CallSubEvent \<Rightarrow> string" where
  "event_identity env document = identity_sha256 env (json_dumps (event_document (normalized_event env document)))"

text \<open>\<^verbatim>\<open>d.get("occurred_at", "")\<close>.\<close>

fun occurred_at :: "CallSubEvent \<Rightarrow> string" where
  "occurred_at (ExternalCallSubEvent _ t _ _ _) = t"
| "occurred_at (LegacyCallSubEvent _) = ''''"

definition receipt_of :: "string \<Rightarrow> string \<Rightarrow> CallEventReceipt \<Rightarrow> bool" where
  "receipt_of device call row \<longleftrightarrow> receipt_device_id row = device \<and> receipt_call_id row = call"

definition add_receipt ::
  "call_environment \<Rightarrow> string \<Rightarrow> string \<Rightarrow> bool \<Rightarrow> CallSubEvent \<Rightarrow> CallEventReceipt list \<Rightarrow> CallEventReceipt list" where
  "add_receipt env device call scheduled document rows =
     (let identity = event_identity env document in
      if list_ex (\<lambda>row. receipt_of device call row \<and> receipt_identity row = identity) rows then rows
      else rows @ [\<lparr>receipt_device_id = device, receipt_call_id = call, receipt_identity = identity,
                     receipt_document = document, notification_scheduled = scheduled\<rparr>])"

text \<open>The documents of all receipts of a call, by time and identity.\<close>

definition sorted_events :: "call_environment \<Rightarrow> string \<Rightarrow> string \<Rightarrow> CallEventReceipt list \<Rightarrow> CallSubEvent list" where
  "sorted_events env device call rows =
     sort_key (\<lambda>d. (occurred_at d, event_identity env d)) (map receipt_document (filter (receipt_of device call) rows))"

definition merge_events ::
  "call_environment \<Rightarrow> string \<Rightarrow> string \<Rightarrow> CallSubEvent list \<Rightarrow> CallHistoryRecord option \<Rightarrow> CallEventReceipt list \<Rightarrow>
   service_error + CallHistoryRecord option \<times> CallEventReceipt list" where
  "merge_events env device i documents call rows =
     (case call of
        None \<Rightarrow> Inr (None, fold (add_receipt env device i False) documents rows)
      | Some c \<Rightarrow>
          if call_device_id c \<noteq> device then Inl (HTTPException 409 (JString ''Call ID belongs to another device''))
          else
            let rows = fold (add_receipt env device i (call_result c \<noteq> ''IN_PROGRESS'')) (history_events c) rows;
                rows = fold (add_receipt env device i False) documents rows in
            Inr (Some (c\<lparr>history_events := sorted_events env device i rows\<rparr>), rows))"

section \<open>Notifications\<close>

definition IVR_FAILURE_RESULTS :: "string list" where
  "IVR_FAILURE_RESULTS =
     [''HELPER_BUSY'', ''HELPER_CLAIM_TIMEOUT'', ''HELPER_REQUEST_FAILED'', ''ANSWER_PERMISSION_MISSING'', ''FAILED_RESTORE'',
      ''FAILED_AUDIO'', ''FAILED_CAPTURE'', ''FAILED_END_CALL'', ''REJECTED_REQUEST'', ''REJECTED_BUSY'', ''REVISION_REJECTED'',
      ''INCOMPATIBLE_DEVICE'', ''RECOVERY_HANGUP_SKIPPED'']"

definition IVR_COMPLETED_RESULTS :: "string list" where
  "IVR_COMPLETED_RESULTS = [''SESSION_COMPLETE'', ''REMOTE_HANGUP'', ''RECOVERED_AND_ENDED'']"

definition STOCK_DIALER_POLICIES :: "string list" where
  "STOCK_DIALER_POLICIES =
     [''NOT_ALLOWLISTED'', ''IVR_DISABLED'', ''EXCLUDED_CALLER'', ''UNKNOWN_TO_STOCK_DIALER'', ''LOCAL_KILL_SWITCH'',
      ''NO_ACTIVE_CONFIGURATION'', ''INVALID_POLICY'']"

text \<open>A notification has its key and, for a failed external call, the status of that call.\<close>

type_synonym notification = "string \<times> string option"

fun external_failure :: "CallSubEvent \<Rightarrow> notification list" where
  "external_failure (ExternalCallSubEvent event _ outcome _ _) =
     (if event = ''external_call'' \<and> outcome \<in> {''NOT_CONNECTED'', ''SYSTEM_FAILURE''} then [(''external_call_failed'', Some outcome)] else [])"
| "external_failure (LegacyCallSubEvent _) = []"

definition classify_call_notifications :: "string \<Rightarrow> string \<Rightarrow> CallSubEvent list \<Rightarrow> notification list" where
  "classify_call_notifications decision result events =
     (if result = ''IN_PROGRESS'' then []
      else
        (if result \<in> set IVR_FAILURE_RESULTS then [(''ivr_session_failed'', None)] else []) @
        (if result \<in> set IVR_COMPLETED_RESULTS then [(''ivr_session_completed'', None)] else []) @
        (if result = ''STOCK_DIALER'' \<or>
            decision \<in> set STOCK_DIALER_POLICIES \<and> result \<notin> set IVR_FAILURE_RESULTS \<and> result \<notin> set IVR_COMPLETED_RESULTS
         then [(''stock_dialer_routing'', None)] else []) @
        concat (map external_failure events))"

definition claimable :: "CallHistoryRecord \<Rightarrow> CallEventReceipt \<Rightarrow> bool" where
  "claimable call row \<longleftrightarrow> receipt_of (call_device_id call) (call_id call) row \<and> \<not> notification_scheduled row"

definition claim_notifications ::
  "CallHistoryRecord \<Rightarrow> CallEventReceipt list \<Rightarrow> notification list \<times> CallHistoryRecord \<times> CallEventReceipt list" where
  "claim_notifications call rows =
     (if call_result call \<in> {''IN_PROGRESS'', ''END_DETAILS_UNAVAILABLE''} then ([], call, rows)
      else
        ((if terminal_notification_scheduled call then []
          else classify_call_notifications (history_policy_decision call) (call_result call) []) @
         concat (map (\<lambda>row. filter (\<lambda>(key, _). key = ''external_call_failed'')
             (classify_call_notifications (history_policy_decision call) (call_result call) [receipt_document row]))
           (filter (claimable call) rows)),
         call\<lparr>terminal_notification_scheduled := True\<rparr>,
         map (\<lambda>row. if claimable call row then row\<lparr>notification_scheduled := True\<rparr> else row) rows))"

section \<open>The requests\<close>

definition validate_call_report ::
  "call_tables \<Rightarrow> SessionAuditReport option \<Rightarrow> string \<Rightarrow> string \<Rightarrow> service_error + unit" where
  "validate_call_report t report result device =
     (case report of
        None \<Rightarrow> Inr ()
      | Some r \<Rightarrow>
          if report_state r = ''disabled'' then Inr ()
          else case find (\<lambda>p. audit_policy_version p = report_policy_version r) (audit_policies t) of
            None \<Rightarrow> Inl (HTTPException 422 (JString ''Audit audio requires an enabled session policy and an IVR call''))
          | Some policy \<Rightarrow>
              if \<not> audit_policy_enabled policy \<or> result = ''STOCK_DIALER'' \<or>
                 (device, report_policy_version r) \<notin> set (audit_acknowledgements t)
              then Inl (HTTPException 422 (JString ''Audit audio requires an enabled session policy and an IVR call''))
              else Inr ())"

text \<open>Storing a merged call with its receipts, and claiming the notifications that are due.\<close>

definition settle_call ::
  "CallHistoryRecord \<Rightarrow> call_tables \<Rightarrow> (string \<times> notification) list \<times> call_tables" where
  "settle_call call t =
     (case claim_notifications call (receipts t) of
        (notes, call, rows) \<Rightarrow> (map (Pair (call_id call)) notes, (put_call call t)\<lparr>receipts := rows\<rparr>))"

type_synonym call_reply = "(string \<times> notification) list \<times> call_tables"

definition upload_call_item ::
  "call_environment \<Rightarrow> string \<Rightarrow> string \<times> CallSubEvent list \<Rightarrow> call_tables \<Rightarrow> service_error + call_reply" where
  "upload_call_item env device item t =
     bind_result (merge_events env device (fst item) (snd item) (find_call (fst item) t) (receipts t)) (\<lambda>(call, rows).
       let t = t\<lparr>receipts := rows\<rparr> in
       case call of None \<Rightarrow> Inr ([], t) | Some c \<Rightarrow> Inr (settle_call c t))"

definition final_report :: "CallEventInput \<Rightarrow> int \<Rightarrow> CallHistoryRecord \<Rightarrow> CallHistoryRecord" where
  "final_report call now existing =
     (if call_result existing \<in> {''IN_PROGRESS'', ''END_DETAILS_UNAVAILABLE''} \<and> input_result call \<noteq> ''IN_PROGRESS''
      then existing\<lparr>history_menu_path := input_menu_path call, call_result := input_result call,
        call_duration_seconds := input_duration_seconds call, history_ended_at := input_ended_at call,
        history_cleanup_status := input_cleanup_status call, history_received_at := now\<rparr>
      else existing)"

definition report_audit ::
  "string \<Rightarrow> CallEventInput \<Rightarrow> call_tables \<Rightarrow> CallHistoryRecord \<Rightarrow> service_error + CallHistoryRecord" where
  "report_audit device call t existing =
     (case input_session_audit call of
        None \<Rightarrow> Inr existing
      | Some report \<Rightarrow>
          (case history_session_audit existing of
             None \<Rightarrow> bind_result (validate_call_report t (Some report) (call_result existing) device) (\<lambda>_.
               Inr (existing\<lparr>history_session_audit := Some report\<rparr>))
           | Some old \<Rightarrow>
               if old \<noteq> report then Inl (HTTPException 409 (JString ''A terminal audit report cannot be replaced''))
               else Inr existing))"

definition new_call :: "string \<Rightarrow> CallEventInput \<Rightarrow> int \<Rightarrow> CallHistoryRecord" where
  "new_call device call now =
     \<lparr>call_id = input_call_id call, call_device_id = device, call_started_at = input_started_at call,
      call_revision_id = input_revision_id call, call_result = input_result call,
      call_duration_seconds = input_duration_seconds call,
      history_caller = (if truthy (input_caller call) then input_caller call else None),
      history_caller_last4 = (if truthy (input_caller call)
        then drop (length (the (input_caller call)) - 4) (the (input_caller call)) else ''''),
      history_policy_decision = input_policy_decision call, history_menu_path = input_menu_path call,
      history_ended_at = input_ended_at call, history_cleanup_status = input_cleanup_status call,
      terminal_notification_scheduled = False, history_events = [], history_session_audit = input_session_audit call,
      history_received_at = now\<rparr>"

definition upload_event_item ::
  "call_environment \<Rightarrow> string \<Rightarrow> int \<Rightarrow> CallEventInput \<Rightarrow> call_tables \<Rightarrow> service_error + call_reply" where
  "upload_event_item env device now call t =
     bind_result (validate_call_report t (input_session_audit call) (input_result call) device) (\<lambda>_.
       case find_call (input_call_id call) t of
         Some existing \<Rightarrow>
           if call_device_id existing \<noteq> device then Inl (HTTPException 409 (JString ''Call ID belongs to another device''))
           else bind_result (merge_events env device (input_call_id call) (input_events call) (Some existing) (receipts t)) (\<lambda>(merged, rows).
             bind_result (report_audit device call t (final_report call now (the merged))) (\<lambda>existing.
               Inr (settle_call existing (t\<lparr>receipts := rows\<rparr>))))
       | None \<Rightarrow>
           let existing = new_call device call now; t = t\<lparr>call_rows := call_rows t @ [existing]\<rparr> in
           bind_result (merge_events env device (input_call_id call) (input_events call) (Some existing) (receipts t)) (\<lambda>(merged, rows).
             Inr (settle_call (the merged) (t\<lparr>receipts := rows\<rparr>))))"

text \<open>The items of a batch one after the other, with the notifications collected for after the commit.\<close>

fun upload_items :: "('i \<Rightarrow> call_tables \<Rightarrow> service_error + call_reply) \<Rightarrow> 'i list \<Rightarrow> call_tables \<Rightarrow> service_error + call_reply" where
  "upload_items f [] t = Inr ([], t)"
| "upload_items f (x # xs) t =
     bind_result (f x t) (\<lambda>(notes, t).
     bind_result (upload_items f xs t) (\<lambda>(more, t). Inr (notes @ more, t)))"

definition upload_call_events ::
  "call_environment \<Rightarrow> string \<Rightarrow> int \<Rightarrow> (string \<times> CallSubEvent list) list \<Rightarrow> call_tables \<Rightarrow>
   service_error + string list \<times> (string \<times> notification) list \<times> call_tables" where
  "upload_call_events env device now batch t =
     bind_result (upload_items (upload_call_item env device) batch t) (\<lambda>(notes, t).
       Inr (map fst batch, notes, t\<lparr>last_seen := AList.update device now (last_seen t)\<rparr>))"

definition upload_events ::
  "call_environment \<Rightarrow> string \<Rightarrow> int \<Rightarrow> CallEventInput list \<Rightarrow> call_tables \<Rightarrow>
   service_error + string list \<times> (string \<times> notification) list \<times> call_tables" where
  "upload_events env device now batch t =
     bind_result (upload_items (upload_event_item env device now) batch t) (\<lambda>(notes, t).
       Inr (map input_call_id batch, notes, t\<lparr>last_seen := AList.update device now (last_seen t)\<rparr>))"

end
