(* ===== verification/Segment_Requests.thy ===== *)
theory Segment_Requests
  imports Segment_Store Call_History
begin

text \<open>
  Recordings that a device uploads in segments: the conversations of external calls
  (\<^verbatim>\<open>src/server/app/conversation_recording_api.py\<close>) and the audits of whole calls
  (\<^verbatim>\<open>src/server/app/session_audit_api.py\<close>). The two interfaces repeat the same handlers with other
  messages; what they share takes the messages as an argument.

  The requests read the history of calls and do not change it, so it is an argument. How the validation
  library reads a time is a parameter. A telephone number is stored encrypted; the model keeps the number.
  Notifications are sent after the answer and are left out.
\<close>

section \<open>Bodies of the requests\<close>

record ConversationRecordingCreateRequest =
  conversation_recording_id :: string
  conversation_call_id :: string
  conversation_revision_id :: nat
  conversation_block_id :: string
  conversation_captured_at :: py_datetime

record SessionAuditRecordingCreateRequest =
  session_recording_id :: string
  session_call_id :: string
  session_policy_version :: nat
  session_captured_at :: py_datetime

record segment_receipt =
  part_kind :: string
  part_recording_id :: string
  part_call_id :: string
  part_index :: nat
  part_captured_at :: py_datetime
  part_duration_ms :: nat
  part_stop_reason :: string
  part_expected_size_bytes :: nat
  part_source_sha256 :: string
  part_partial :: bool

record ConversationSegmentCreateRequest = segment_receipt +
  part_revision_id :: nat
  part_block_id :: string
  part_sequence :: nat

record SessionAuditSegmentCreateRequest = segment_receipt +
  part_policy_version :: nat

definition sha256_text :: "string \<Rightarrow> bool" where
  "sha256_text s \<longleftrightarrow> length s = 64 \<and> list_all hex_char s"

definition ConversationRecordingCreateRequest_valid :: "ConversationRecordingCreateRequest \<Rightarrow> bool" where
  "ConversationRecordingCreateRequest_valid b \<longleftrightarrow>
     1 \<le> conversation_revision_id b \<and> matches_BLOCK_ID_PATTERN (conversation_block_id b)"

definition ConversationSegmentCreateRequest_valid :: "ConversationSegmentCreateRequest \<Rightarrow> bool" where
  "ConversationSegmentCreateRequest_valid b \<longleftrightarrow>
     part_kind b = ''conversation'' \<and> 1 \<le> part_revision_id b \<and> matches_BLOCK_ID_PATTERN (part_block_id b) \<and>
     part_sequence b \<le> 65535 \<and> part_index b \<le> 65535 \<and> 0 < part_duration_ms b \<and> part_duration_ms b \<le> 180000 \<and>
     part_stop_reason b \<in> {''segment_boundary'', ''operator_hangup'', ''caller_hangup'', ''recording_failure''} \<and>
     44 < part_expected_size_bytes b \<and> part_expected_size_bytes b \<le> 40 * 1024 * 1024 \<and> sha256_text (part_source_sha256 b) \<and>
     part_sequence b = part_index b \<and> part_partial b = (part_stop_reason b = ''recording_failure'')"

definition SessionAuditSegmentCreateRequest_valid :: "SessionAuditSegmentCreateRequest \<Rightarrow> bool" where
  "SessionAuditSegmentCreateRequest_valid b \<longleftrightarrow>
     part_kind b = ''session_audit'' \<and> 1 \<le> part_policy_version b \<and> part_index b \<le> 5759 \<and>
     0 < part_duration_ms b \<and> part_duration_ms b \<le> 15000 \<and>
     part_stop_reason b \<in> {''segment_boundary'', ''session_complete'', ''caller_hangup'', ''preempted'', ''capture_failure'',
       ''storage_full'', ''interrupted'', ''writer_failure''} \<and>
     44 < part_expected_size_bytes b \<and> part_expected_size_bytes b \<le> 3 * 1024 ^ 2 \<and> sha256_text (part_source_sha256 b) \<and>
     part_partial b = (part_stop_reason b \<notin> {''segment_boundary'', ''session_complete'', ''caller_hangup''})"

section \<open>Answers and guards\<close>

record ConversationRecordingUploadResponse =
  answer_id :: string
  answer_status :: string
  answer_segment_count :: nat
  answer_duration_ms :: nat
  answer_acknowledged :: bool

record ConversationSegmentUploadResponse =
  part_answer_id :: string
  part_answer_index :: nat
  part_answer_status :: string
  part_answer_offset :: nat
  part_answer_expected_size_bytes :: nat
  part_answer_sha256 :: string
  part_answer_acknowledged :: bool

definition recording_response :: "Recording \<Rightarrow> ConversationRecordingUploadResponse" where
  "recording_response recording =
     \<lparr>answer_id = recording_id recording,
      answer_status = (if recording_status recording = ''deleted'' then ''ready'' else recording_status recording),
      answer_segment_count = recording_segment_count recording, answer_duration_ms = recording_duration_ms recording,
      answer_acknowledged = (recording_status recording \<in> {''ready'', ''deleted''})\<rparr>"

definition segment_response :: "ConversationRecordingSegment \<Rightarrow> ConversationSegmentUploadResponse" where
  "segment_response segment =
     \<lparr>part_answer_id = segment_recording_id segment, part_answer_index = segment_index segment,
      part_answer_status = segment_status segment, part_answer_offset = upload_offset segment,
      part_answer_expected_size_bytes = expected_size_bytes segment, part_answer_sha256 = upload_row.source_sha256 segment,
      part_answer_acknowledged = (segment_status segment \<in> {''verified'', ''assembled''})\<rparr>"

text \<open>The messages in which the two interfaces differ.\<close>

record segment_interface =
  served_kind :: string
  no_such_recording :: string
  foreign_recording :: string
  other_kind :: string
  no_such_segment :: string
  already_complete :: string
  not_accepting :: string
  outside_call :: string
  over_duration_bound :: string
  duplicate_part :: string
  content_refused :: string
  overlong_chunk :: string
  segment_refused :: string
  recording_refused :: string
  count_mismatch :: string

definition conversations :: segment_interface where
  "conversations =
     \<lparr>served_kind = ''conversation'', no_such_recording = ''Conversation recording not found'',
      foreign_recording = ''Conversation recording belongs to another device'', other_kind = ''Recording ID belongs to voicemail'',
      no_such_segment = ''Conversation segment not found'', already_complete = ''Conversation recording is already complete'',
      not_accepting = ''Conversation recording is not accepting segments'',
      outside_call = ''Segment timestamp is outside its conversation'',
      over_duration_bound = ''Conversation segment exceeds its duration bound'', duplicate_part = ''Duplicate conversation segment'',
      content_refused = ''Conversation segment is not accepting content'', overlong_chunk = ''Conversation chunk exceeds 1 MiB'',
      segment_refused = ''Conversation segment cannot be completed'',
      recording_refused = ''Conversation recording cannot be completed'', count_mismatch = ''Conversation segment count does not match''\<rparr>"

definition session_audits :: segment_interface where
  "session_audits =
     \<lparr>served_kind = ''session_audit'', no_such_recording = ''Session audit recording not found'',
      foreign_recording = ''Session audit recording belongs to another device'',
      other_kind = ''Recording ID belongs to another recording kind'',
      no_such_segment = ''Session audit segment not found'', already_complete = ''Session audit recording is already complete'',
      not_accepting = ''Session audit recording is not accepting segments'',
      outside_call = ''Segment timestamp is outside its session'',
      over_duration_bound = ''Session audit segment exceeds its duration bound'', duplicate_part = ''Duplicate audit segment'',
      content_refused = ''Session audit segment is not accepting content'', overlong_chunk = ''Audit chunk exceeds 1 MiB'',
      segment_refused = ''Session audit segment cannot be completed'',
      recording_refused = ''Session audit recording cannot be completed'', count_mismatch = ''Session audit segment count does not match''\<rparr>"

definition owned_recording :: "segment_interface \<Rightarrow> recording_tables \<Rightarrow> string \<Rightarrow> Device \<Rightarrow> request_error + Recording" where
  "owned_recording api t i device =
     (case find_recording i t of
        None \<Rightarrow> Inl (Refused 404 (no_such_recording api))
      | Some recording \<Rightarrow>
          if recording_device_id recording \<noteq> device_id device then Inl (Refused 403 (foreign_recording api))
          else if recording_kind recording \<noteq> served_kind api then Inl (Refused 409 (other_kind api))
          else if recording_source_format recording \<noteq> ''legacy_wav''
          then Inl (Refused 409 ''Use the continuous recording API for this recording'')
          else Inr recording)"

definition find_segment :: "string \<Rightarrow> int \<Rightarrow> recording_tables \<Rightarrow> ConversationRecordingSegment option" where
  "find_segment i index t = find (\<lambda>x. segment_recording_id x = i \<and> int (segment_index x) = index) (segments t)"

definition put_segment :: "ConversationRecordingSegment \<Rightarrow> recording_tables \<Rightarrow> recording_tables" where
  "put_segment x t =
     t\<lparr>segments := map (\<lambda>y. if segment_recording_id y = segment_recording_id x \<and> segment_index y = segment_index x then x else y)
        (segments t)\<rparr>"

definition owned_segment ::
  "segment_interface \<Rightarrow> recording_tables \<Rightarrow> Recording \<Rightarrow> int \<Rightarrow> request_error + ConversationRecordingSegment" where
  "owned_segment api t recording index =
     (case find_segment (recording_id recording) index t of
        None \<Rightarrow> Inl (Refused 404 (no_such_segment api))
      | Some segment \<Rightarrow> Inr segment)"

definition recording_progress ::
  "segment_interface \<Rightarrow> string \<Rightarrow> Device \<Rightarrow> recording_state \<Rightarrow> ConversationRecordingUploadResponse reply" where
  "recording_progress api i device s = (bind_result (owned_recording api (tables s) i device) (\<lambda>r. Inr (recording_response r)), s)"

definition segment_progress ::
  "segment_interface \<Rightarrow> string \<Rightarrow> int \<Rightarrow> Device \<Rightarrow> recording_state \<Rightarrow> ConversationSegmentUploadResponse reply" where
  "segment_progress api i index device s =
     (bind_result (owned_recording api (tables s) i device) (\<lambda>r.
        bind_result (owned_segment api (tables s) r index) (\<lambda>x. Inr (segment_response x))), s)"

definition conversation_recording_status ::
  "string \<Rightarrow> Device \<Rightarrow> recording_state \<Rightarrow> ConversationRecordingUploadResponse reply" where
  "conversation_recording_status = recording_progress conversations"

definition conversation_segment_upload_status ::
  "string \<Rightarrow> int \<Rightarrow> Device \<Rightarrow> recording_state \<Rightarrow> ConversationSegmentUploadResponse reply" where
  "conversation_segment_upload_status = segment_progress conversations"

definition session_recording_status ::
  "string \<Rightarrow> Device \<Rightarrow> recording_state \<Rightarrow> ConversationRecordingUploadResponse reply" where
  "session_recording_status = recording_progress session_audits"

definition session_segment_upload_status ::
  "string \<Rightarrow> int \<Rightarrow> Device \<Rightarrow> recording_state \<Rightarrow> ConversationSegmentUploadResponse reply" where
  "session_segment_upload_status = segment_progress session_audits"

section \<open>Space\<close>

definition require_conversation_capacity ::
  "recording_settings \<Rightarrow> nat \<Rightarrow> int \<Rightarrow> recording_tables \<Rightarrow> request_error + recording_tables" where
  "require_conversation_capacity settings required_bytes now t =
     (let t = snd (initialize_retention_policy (development_admin_email settings) now t) in
      if recording_used_bytes None None t + required_bytes > recording_quota_bytes settings
      then Inl (Refused 507 ''Recording storage quota is full; retain the encrypted device spool'')
      else Inr t)"

text \<open>
  Audits have a quota of their own and leave a reserve, in the recording quota and on the file system,
  whose free space is an argument.
\<close>

record audit_limits =
  audit_recording_quota_bytes :: nat
  audit_recording_reserve_bytes :: nat
  free_bytes :: nat

definition is_audit :: "recording_tables \<Rightarrow> ConversationRecordingSegment \<Rightarrow> bool" where
  "is_audit t x \<longleftrightarrow>
     list_ex (\<lambda>r. recording_id r = segment_recording_id x \<and> recording_kind r = ''session_audit'') (recordings t)"

definition audit_ready_bytes :: "recording_tables \<Rightarrow> nat" where
  "audit_ready_bytes t =
     (\<Sum>r\<leftarrow>filter (\<lambda>r. recording_kind r = ''session_audit'' \<and> recording_status r = ''ready'') (recordings t). media_bytes r)"

definition audit_pending_bytes :: "recording_tables \<Rightarrow> nat" where
  "audit_pending_bytes t =
     (\<Sum>x\<leftarrow>filter (\<lambda>x. is_audit t x \<and> segment_status x \<in> {''uploading'', ''verified''}) (segments t). expected_size_bytes x)"

definition require_audit_capacity ::
  "recording_settings \<Rightarrow> audit_limits \<Rightarrow> nat \<Rightarrow> int \<Rightarrow> recording_tables \<Rightarrow> request_error + recording_tables" where
  "require_audit_capacity settings limits required_bytes now t =
     (let t = snd (initialize_retention_policy (development_admin_email settings) now t) in
      if audit_ready_bytes t + audit_pending_bytes t + required_bytes > audit_recording_quota_bytes limits \<or>
         recording_used_bytes None None t + required_bytes + audit_recording_reserve_bytes limits > recording_quota_bytes settings \<or>
         free_bytes limits < required_bytes + audit_recording_reserve_bytes limits
      then Inl (Refused 507 ''Audit storage is full; retain the encrypted tablet spool'')
      else Inr t)"

section \<open>Announcing a recording\<close>

fun external_number :: "operation \<Rightarrow> string option" where
  "external_number (ExternalCallOp phone_number _ _ _ _) = Some phone_number"
| "external_number _ = None"

text \<open>The number of the first external call of the block.\<close>

definition external_instruction :: "manifest \<Rightarrow> string \<Rightarrow> string option" where
  "external_instruction m block =
     (case find (\<lambda>i. external_number (op i) \<noteq> None \<and> instruction_block i = block) (manifest_instructions m) of
        None \<Rightarrow> None
      | Some i \<Rightarrow> external_number (op i))"

text \<open>The first time at which the two calls were joined, among the stored events that still validate.\<close>

fun conference_time :: "(string \<Rightarrow> py_datetime option) \<Rightarrow> string \<Rightarrow> CallSubEvent \<Rightarrow> int list" where
  "conference_time parse block (ExternalCallSubEvent event occurred outcome b reason) =
     (case parse occurred of
        None \<Rightarrow> []
      | Some at \<Rightarrow>
          if CallSubEvent_valid (ExternalCallSubEvent event occurred outcome b reason) \<and> b = block \<and> outcome = ''CONFERENCED''
          then [utc at] else [])"
| "conference_time parse block (LegacyCallSubEvent event) = []"

definition conference_at :: "(string \<Rightarrow> py_datetime option) \<Rightarrow> CallHistoryRecord \<Rightarrow> string \<Rightarrow> int option" where
  "conference_at parse call block =
     (case concat (map (conference_time parse block) (history_events call)) of
        [] \<Rightarrow> None
      | x # xs \<Rightarrow> Some (fold min xs x))"

text \<open>The unique constraints of the recordings.\<close>

definition recording_taken :: "Recording \<Rightarrow> recording_tables \<Rightarrow> bool" where
  "recording_taken r t \<longleftrightarrow>
     list_ex (\<lambda>q. recording_id q = recording_id r \<or>
       recording_device_id q = recording_device_id r \<and> recording_call_id q = recording_call_id r \<and>
         (recording_sequence q = recording_sequence r \<or>
          recording_kind q = ''session_audit'' \<and> recording_kind r = ''session_audit'')) (recordings t)"

definition add_recording ::
  "string \<Rightarrow> Recording \<Rightarrow> bool \<Rightarrow> recording_state \<Rightarrow> ConversationRecordingUploadResponse reply" where
  "add_recording refusal recording commit_ok s =
     (if recording_taken recording (tables s) then (Inl (Refused 409 refusal), s)
      else if \<not> commit_ok then (Inl commit_failed, s)
      else (Inr (recording_response recording), s\<lparr>tables := (tables s)\<lparr>recordings := recordings (tables s) @ [recording]\<rparr>\<rparr>))"

definition next_sequence :: "string \<Rightarrow> string \<Rightarrow> recording_tables \<Rightarrow> int" where
  "next_sequence device call t =
     (case map recording_sequence (filter (\<lambda>r. recording_device_id r = device \<and> recording_call_id r = call) (recordings t)) of
        [] \<Rightarrow> 0
      | x # xs \<Rightarrow> fold max xs x + 1)"

text \<open>A row of a recording whose segments are still to come.\<close>

definition segmented_recording :: "string \<Rightarrow> string \<Rightarrow> string \<Rightarrow> string \<Rightarrow> int \<Rightarrow> int \<Rightarrow> Recording" where
  "segmented_recording i device call kind captured_at now =
     \<lparr>recording_id = i, recording_device_id = device, recording_call_id = call, recording_revision_id = None,
      recording_block_id = None, recording_sequence = 0, recording_kind = kind, audit_metadata = None,
      recording_operator = None, recording_operator_last4 = [], recording_segment_count = 0,
      recording_captured_at = captured_at, recording_duration_ms = 0, recording_stop_reason = ''recording_failure'',
      recording_source_size_bytes = 0, recording_source_sha256 = replicate 64 CHR ''0'', recording_status = ''uploading'',
      recording_source_format = ''legacy_wav'', recording_partial = False, media_key_version = None,
      media_storage_name = None, media_size_bytes = None, media_sha256 = None, listened_at = None,
      deleted_at = None, deletion_reason = None, processing_error = None, recording_updated_at = now\<rparr>"

text \<open>The number of the operator, when a conversation may be announced.\<close>

definition conversation_admissible ::
  "(string \<Rightarrow> py_datetime option) \<Rightarrow> call_tables \<Rightarrow> Device \<Rightarrow> ConversationRecordingCreateRequest \<Rightarrow> recording_tables \<Rightarrow>
   request_error + string" where
  "conversation_admissible parse history device body t =
     (case find_call (conversation_call_id body) history of
        None \<Rightarrow> Inl (Refused 409 ''Call event must be acknowledged before its conversation'')
      | Some call \<Rightarrow>
        if call_device_id call \<noteq> device_id device then Inl (Refused 403 ''Call belongs to another device'')
        else if call_result call = ''IN_PROGRESS'' then Inl (Refused 409 ''A terminal call event is required before upload'')
        else case find_revision (conversation_revision_id body) (control_rows t) of
          None \<Rightarrow> Inl (Refused 422 ''Conversation revision is not a V4 revision'')
        | Some revision \<Rightarrow>
          if revision_schema revision \<noteq> 4 then Inl (Refused 422 ''Conversation revision is not a V4 revision'')
          else if call_revision_id call \<noteq> Some (conversation_revision_id body)
          then Inl (Refused 409 ''Conversation revision does not match the call'')
          else case external_instruction (load_manifest revision) (conversation_block_id body) of
            None \<Rightarrow> Inl (Refused 422 ''External-call block is absent from the signed revision'')
          | Some phone_number \<Rightarrow>
            let captured_at = utc (conversation_captured_at body);
                started_at = call_started_at call;
                ended_at = started_at + seconds (call_duration_seconds call) in
            case conference_at parse call (conversation_block_id body) of
              None \<Rightarrow> Inl (Refused 409 ''A verified CONFERENCED call event is required before conversation upload'')
            | Some joined \<Rightarrow>
              if captured_at < started_at - seconds 5 \<or> captured_at > ended_at + seconds 5 \<or>
                 joined < started_at - seconds 5 \<or> joined > ended_at + seconds 5 \<or> captured_at < joined - seconds 1
              then Inl (Refused 422 ''Conversation timestamp is outside its verified conference session'')
              else Inr phone_number)"

definition create_conversation_recording ::
  "(string \<Rightarrow> py_datetime option) \<Rightarrow> call_tables \<Rightarrow> Device \<Rightarrow> ConversationRecordingCreateRequest \<Rightarrow> int \<Rightarrow> bool \<Rightarrow> recording_state \<Rightarrow>
   ConversationRecordingUploadResponse reply" where
  "create_conversation_recording parse history device body now commit_ok s =
     (case find_recording (conversation_recording_id body) (tables s) of
        Some existing \<Rightarrow>
          if recording_source_format existing \<noteq> ''legacy_wav''
          then (Inl (Refused 409 ''Use the continuous recording API for this recording''), s)
          else if recording_device_id existing \<noteq> device_id device
          then (Inl (Refused 409 ''Recording ID belongs to another device''), s)
          else if \<not> (recording_kind existing = ''conversation'' \<and> recording_call_id existing = conversation_call_id body \<and>
              recording_revision_id existing = Some (conversation_revision_id body) \<and>
              recording_block_id existing = Some (conversation_block_id body) \<and>
              recording_captured_at existing = utc (conversation_captured_at body))
          then (Inl (Refused 409 ''Recording ID was reused with different metadata''), s)
          else (Inr (recording_response existing), s)
      | None \<Rightarrow>
          (case conversation_admissible parse history device body (tables s) of
             Inl e \<Rightarrow> (Inl e, s)
           | Inr phone_number \<Rightarrow>
               add_recording ''Duplicate conversation recording''
                 ((segmented_recording (conversation_recording_id body) (device_id device) (conversation_call_id body) ''conversation''
                     (utc (conversation_captured_at body)) now)
                   \<lparr>recording_revision_id := Some (conversation_revision_id body),
                    recording_block_id := Some (conversation_block_id body),
                    recording_sequence := next_sequence (device_id device) (conversation_call_id body) (tables s),
                    recording_operator := Some phone_number,
                    recording_operator_last4 := drop (length phone_number - 4) phone_number\<rparr>) commit_ok s))"

text \<open>
  Two times are equal when both have a zone and denote the same instant, or neither has one and the
  readings agree.
\<close>

definition same_time :: "py_datetime \<Rightarrow> py_datetime \<Rightarrow> bool" where
  "same_time a b \<longleftrightarrow> (snd a = None) = (snd b = None) \<and> utc a = utc b"

fun http_error :: "service_error \<Rightarrow> request_error" where
  "http_error (HTTPException code (JString detail)) = Refused code detail"
| "http_error _ = Crashed (OtherError ''exception'')"

definition session_admissible ::
  "(string \<Rightarrow> py_datetime option) \<Rightarrow> call_tables \<Rightarrow> Device \<Rightarrow> SessionAuditRecordingCreateRequest \<Rightarrow>
   request_error + CallHistoryRecord \<times> SessionAuditReport" where
  "session_admissible parse history device body =
     (case find_call (session_call_id body) history of
        None \<Rightarrow> Inl (Refused 409 ''A terminal call event must be acknowledged before audit upload'')
      | Some call \<Rightarrow>
        if call_result call = ''IN_PROGRESS''
        then Inl (Refused 409 ''A terminal call event must be acknowledged before audit upload'')
        else if call_device_id call \<noteq> device_id device then Inl (Refused 403 ''Call belongs to another device'')
        else case history_session_audit call of
          None \<Rightarrow> Inl (Refused 409 ''The acknowledged call has no audit receipt'')
        | Some report \<Rightarrow>
          if \<not> SessionAuditReport_valid report \<or> (report_captured_at report \<noteq> None \<and> parse (the (report_captured_at report)) = None)
          then Inl (Crashed (OtherError ''ValidationError''))
          else case validate_call_report history (Some report) (call_result call) (device_id device) of
            Inl e \<Rightarrow> Inl (http_error e)
          | Inr _ \<Rightarrow>
            if report_state report \<noteq> ''pending_upload'' \<or> report_recording_id report \<noteq> Some (session_recording_id body) \<or>
               report_policy_version report \<noteq> session_policy_version body \<or>
               \<not> (case Option.bind (report_captured_at report) parse of None \<Rightarrow> False | Some at \<Rightarrow> same_time at (session_captured_at body))
            then Inl (Refused 409 ''Audit receipt does not match the acknowledged call'')
            else
              let captured_at = utc (session_captured_at body) in
              if call_started_at call - seconds 5 \<le> captured_at \<and>
                 captured_at \<le> call_started_at call + seconds (call_duration_seconds call + 5)
              then Inr (call, report)
              else Inl (Refused 422 ''Audit timestamp is outside its call''))"

definition create_session_recording ::
  "(string \<Rightarrow> py_datetime option) \<Rightarrow> call_tables \<Rightarrow> Device \<Rightarrow> SessionAuditRecordingCreateRequest \<Rightarrow> int \<Rightarrow> bool \<Rightarrow> recording_state \<Rightarrow>
   ConversationRecordingUploadResponse reply" where
  "create_session_recording parse history device body now commit_ok s =
     (case session_admissible parse history device body of
        Inl e \<Rightarrow> (Inl e, s)
      | Inr (call, report) \<Rightarrow>
          (case find_recording (session_recording_id body) (tables s) of
             Some existing \<Rightarrow>
               if recording_source_format existing \<noteq> ''legacy_wav''
               then (Inl (Refused 409 ''Use the continuous recording API for this recording''), s)
               else if recording_device_id existing \<noteq> device_id device \<or> recording_kind existing \<noteq> ''session_audit'' \<or>
                  recording_call_id existing \<noteq> session_call_id body
               then (Inl (Refused 409 ''Recording identity was reused''), s)
               else (Inr (recording_response existing), s)
           | None \<Rightarrow>
               add_recording ''This call already has an audit recording''
                 ((segmented_recording (session_recording_id body) (device_id device) (session_call_id body) ''session_audit''
                     (utc (session_captured_at body)) now)
                   \<lparr>recording_revision_id := call_revision_id call, recording_sequence := - 1, audit_metadata := Some report,
                    recording_stop_reason := report_stop_reason report\<rparr>) commit_ok s))"

section \<open>Announcing a segment\<close>

definition same_receipt :: "ConversationRecordingSegment \<Rightarrow> 'a segment_receipt_scheme \<Rightarrow> bool" where
  "same_receipt existing body \<longleftrightarrow>
     segment_captured_at existing = utc (part_captured_at body) \<and> segment_duration_ms existing = part_duration_ms body \<and>
     segment_stop_reason existing = part_stop_reason body \<and> segment_partial existing = part_partial body \<and>
     expected_size_bytes existing = part_expected_size_bytes body \<and>
     upload_row.source_sha256 existing = part_source_sha256 body"

definition new_segment :: "Recording \<Rightarrow> 'a segment_receipt_scheme \<Rightarrow> string \<Rightarrow> int \<Rightarrow> ConversationRecordingSegment" where
  "new_segment recording body name now =
     \<lparr>expected_size_bytes = part_expected_size_bytes body, upload_offset = 0, storage_name = name,
      source_sha256 = part_source_sha256 body, upload_updated_at = now, segment_recording_id = recording_id recording,
      segment_index = part_index body, segment_captured_at = utc (part_captured_at body),
      segment_duration_ms = part_duration_ms body, segment_stop_reason = part_stop_reason body,
      segment_partial = part_partial body, segment_status = ''uploading''\<rparr>"

definition segment_name_taken :: "string \<Rightarrow> recording_tables \<Rightarrow> bool" where
  "segment_name_taken name t \<longleftrightarrow> list_ex (\<lambda>x. storage_name x = name) (segments t)"

text \<open>A segment that was announced before: a failed upload may start again in a new directory.\<close>

definition resume_segment ::
  "recording_settings \<Rightarrow> (recording_tables \<Rightarrow> request_error + recording_tables) \<Rightarrow> 'a segment_receipt_scheme \<Rightarrow> string \<Rightarrow> int \<Rightarrow> bool \<Rightarrow>
   ConversationRecordingSegment \<Rightarrow> recording_state \<Rightarrow> ConversationSegmentUploadResponse reply" where
  "resume_segment settings capacity body uuid now commit_ok existing s =
     (if \<not> same_receipt existing body
      then (Inl (Refused 409 ''Segment index was reused with different metadata''), s)
      else if segment_status existing = ''failed''
      then (case capacity (tables s) of
              Inl e \<Rightarrow> (Inl e, s)
            | Inr t \<Rightarrow>
                (case create_upload_directory settings uuid (disk s) of
                   Inl e \<Rightarrow> (Inl (Crashed e), s)
                 | Inr d \<Rightarrow>
                     let existing = existing\<lparr>storage_name := uuid, upload_offset := 0, segment_status := ''uploading'',
                           upload_updated_at := now\<rparr> in
                     if segment_name_taken uuid t \<or> \<not> commit_ok then (Inl commit_failed, s\<lparr>disk := d\<rparr>)
                     else (Inr (segment_response existing), \<lparr>tables = put_segment existing t, disk = d\<rparr>)))
      else (Inr (segment_response existing), s))"

text \<open>The new row and its directory; a row that breaks a unique constraint takes the directory with it.\<close>

definition add_segment ::
  "segment_interface \<Rightarrow> recording_settings \<Rightarrow> (recording_tables \<Rightarrow> request_error + recording_tables) \<Rightarrow> Recording \<Rightarrow>
   'a segment_receipt_scheme \<Rightarrow> string \<Rightarrow> int \<Rightarrow> bool \<Rightarrow> recording_state \<Rightarrow> ConversationSegmentUploadResponse reply" where
  "add_segment api settings capacity recording body uuid now commit_ok s =
     (case capacity (tables s) of
        Inl e \<Rightarrow> (Inl e, s)
      | Inr t \<Rightarrow>
          (case create_upload_directory settings uuid (disk s) of
             Inl e \<Rightarrow> (Inl (Crashed e), s)
           | Inr d \<Rightarrow>
               let segment = new_segment recording body uuid now in
               if segment_name_taken uuid t \<or> find_segment (recording_id recording) (int (part_index body)) t \<noteq> None
               then (Inl (Refused 409 (duplicate_part api)), s\<lparr>disk := d\<lparr>uploads := AList.delete uuid (uploads d)\<rparr>\<rparr>)
               else if \<not> commit_ok then (Inl commit_failed, s\<lparr>disk := d\<rparr>)
               else (Inr (segment_response segment), \<lparr>tables = t\<lparr>segments := segments t @ [segment]\<rparr>, disk = d\<rparr>)))"

text \<open>
  What both interfaces check of a new segment; \<^verbatim>\<open>timing\<close> is the check of the audits that comes
  between the two.
\<close>

definition segment_admissible ::
  "segment_interface \<Rightarrow> recording_settings \<Rightarrow> call_tables \<Rightarrow> (int \<Rightarrow> request_error + unit) \<Rightarrow> Recording \<Rightarrow> 'a segment_receipt_scheme \<Rightarrow>
   request_error + unit" where
  "segment_admissible api settings history timing recording body =
     (if recording_status recording \<in> {''ready'', ''deleted''} then Inl (Refused 409 (already_complete api))
      else if recording_status recording \<noteq> ''uploading'' then Inl (Refused 409 (not_accepting api))
      else
        let captured_at = utc (part_captured_at body) in
        case find_call (recording_call_id recording) history of
          None \<Rightarrow> Inl (Refused 409 ''A terminal call event is required before upload'')
        | Some call \<Rightarrow>
          if call_result call = ''IN_PROGRESS'' then Inl (Refused 409 ''A terminal call event is required before upload'')
          else
            let ended_at = call_started_at call + seconds (call_duration_seconds call) in
            if captured_at < max (call_started_at call) (recording_captured_at recording) - seconds 5 \<or>
               captured_at > ended_at + seconds 5
            then Inl (Refused 422 (outside_call api))
            else bind_result (timing captured_at) (\<lambda>_.
              if part_expected_size_bytes body > recording_upload_limit_bytes settings \<or>
                 part_expected_size_bytes body > 44 + part_duration_ms body * 192 + 4096
              then Inl (Refused 413 (over_duration_bound api))
              else Inr ()))"

definition create_segment ::
  "segment_interface \<Rightarrow> recording_settings \<Rightarrow> call_tables \<Rightarrow> (recording_tables \<Rightarrow> request_error + recording_tables) \<Rightarrow>
   (Recording \<Rightarrow> bool) \<Rightarrow> (Recording \<Rightarrow> int \<Rightarrow> request_error + unit) \<Rightarrow> string \<Rightarrow> int \<Rightarrow> Device \<Rightarrow> 'a segment_receipt_scheme \<Rightarrow>
   string \<Rightarrow> int \<Rightarrow> bool \<Rightarrow> recording_state \<Rightarrow> ConversationSegmentUploadResponse reply" where
  "create_segment api settings history capacity matches timing i index device body uuid now commit_ok s =
     (case owned_recording api (tables s) i device of
        Inl e \<Rightarrow> (Inl e, s)
      | Inr recording \<Rightarrow>
          if index \<noteq> int (part_index body) then (Inl (Refused 409 ''Segment path and receipt indexes do not match''), s)
          else if part_recording_id body \<noteq> recording_id recording \<or> part_call_id body \<noteq> recording_call_id recording \<or> \<not> matches recording
          then (Inl (Refused 409 ''Segment receipt does not match its logical recording''), s)
          else case find_segment (recording_id recording) (int (part_index body)) (tables s) of
            Some existing \<Rightarrow> resume_segment settings capacity body uuid now commit_ok existing s
          | None \<Rightarrow>
              (case segment_admissible api settings history (timing recording) recording body of
                 Inl e \<Rightarrow> (Inl e, s)
               | Inr _ \<Rightarrow> add_segment api settings capacity recording body uuid now commit_ok s))"

definition create_conversation_segment ::
  "recording_settings \<Rightarrow> call_tables \<Rightarrow> string \<Rightarrow> int \<Rightarrow> Device \<Rightarrow> ConversationSegmentCreateRequest \<Rightarrow> string \<Rightarrow> int \<Rightarrow> bool \<Rightarrow>
   recording_state \<Rightarrow> ConversationSegmentUploadResponse reply" where
  "create_conversation_segment settings history i index device body uuid now commit_ok s =
     create_segment conversations settings history (require_conversation_capacity settings (part_expected_size_bytes body) now)
       (\<lambda>recording. Some (part_revision_id body) = recording_revision_id recording \<and>
          Some (part_block_id body) = recording_block_id recording)
       (\<lambda>_ _. Inr ()) i index device body uuid now commit_ok s"

definition create_session_segment ::
  "recording_settings \<Rightarrow> audit_limits \<Rightarrow> call_tables \<Rightarrow> string \<Rightarrow> int \<Rightarrow> Device \<Rightarrow> SessionAuditSegmentCreateRequest \<Rightarrow> string \<Rightarrow> int \<Rightarrow> bool \<Rightarrow>
   recording_state \<Rightarrow> ConversationSegmentUploadResponse reply" where
  "create_session_segment settings limits history i index device body uuid now commit_ok s =
     create_segment session_audits settings history (require_audit_capacity settings limits (part_expected_size_bytes body) now)
       (\<lambda>recording. map_option report_policy_version (audit_metadata recording) = Some (part_policy_version body))
       (\<lambda>recording captured_at.
          if \<bar>captured_at - (recording_captured_at recording + seconds (int (part_index body) * 15))\<bar> > 100000
          then Inl (Refused 422 ''Audit segment timing is not contiguous'') else Inr ())
       i index device body uuid now commit_ok s"

section \<open>Content of a segment\<close>

fun bounded_parts :: "string \<Rightarrow> nat \<Rightarrow> bytes \<Rightarrow> bytes list \<Rightarrow> request_error + bytes" where
  "bounded_parts detail limit body [] = Inr body"
| "bounded_parts detail limit body (part # parts) =
     (if length body + length part > limit then Inl (Refused 413 detail)
      else bounded_parts detail limit (body @ part) parts)"

definition read_segment_chunk :: "string \<Rightarrow> string option \<Rightarrow> bytes list \<Rightarrow> nat \<Rightarrow> request_error + bytes" where
  "read_segment_chunk detail content_length parts limit =
     bind_result
       (case content_length of
          None \<Rightarrow> Inr ()
        | Some declared \<Rightarrow>
            (case py_int declared of
               None \<Rightarrow> Inl (Refused 400 ''Content-Length is invalid'')
             | Some declared_size \<Rightarrow>
                 if declared_size < 0 then Inl (Refused 400 ''Content-Length is invalid'')
                 else if declared_size > int limit then Inl (Refused 413 detail)
                 else Inr ()))
       (\<lambda>_. bounded_parts detail limit [] parts)"

text \<open>
  The row of a segment that is still being uploaded; a finished one is only reported.
\<close>

definition open_segment ::
  "segment_interface \<Rightarrow> string \<Rightarrow> string \<Rightarrow> int \<Rightarrow> Device \<Rightarrow> recording_tables \<Rightarrow>
   request_error + (ConversationSegmentUploadResponse + Recording \<times> ConversationRecordingSegment)" where
  "open_segment api refusal i index device t =
     bind_result (owned_recording api t i device) (\<lambda>recording.
     bind_result (owned_segment api t recording index) (\<lambda>segment.
       if segment_status segment \<in> {''verified'', ''assembled''} then Inr (Inl (segment_response segment))
       else if segment_status segment \<noteq> ''uploading'' then Inl (Refused 409 refusal)
       else Inr (Inr (recording, segment))))"

definition segment_identity :: "ConversationRecordingSegment \<Rightarrow> string" where
  "segment_identity segment = segment_recording_id segment @ '':'' @ str_nat (segment_index segment)"

text \<open>
  The segment is both rows that \<^verbatim>\<open>store_chunk\<close> updates; with an identity of its own, the routine
  reads nothing of the row of the recording, whose copy is dropped.
\<close>

definition upload_segment_content ::
  "segment_interface \<Rightarrow> recording_settings \<Rightarrow> RecordingCipher \<Rightarrow> string \<Rightarrow> int \<Rightarrow> Device \<Rightarrow> content_request \<Rightarrow> bytes \<Rightarrow> int \<Rightarrow> bool \<Rightarrow>
   recording_state \<Rightarrow> ConversationSegmentUploadResponse reply" where
  "upload_segment_content api settings cipher i index device request nonce now commit_ok s =
     (case header_upload_offset request of
        None \<Rightarrow> (Inl (Refused 400 ''Upload-Offset is required''), s)
      | Some offset \<Rightarrow>
        if offset < 0 then (Inl (Refused 400 ''Upload-Offset is required''), s)
        else if takeWhile (\<lambda>c. c \<noteq> CHR '';'') (header_content_type request) \<noteq> ''application/offset+octet-stream''
        then (Inl (Refused 415 ''Use application/offset+octet-stream''), s)
        else case open_segment api (content_refused api) i index device (tables s) of
          Inl e \<Rightarrow> (Inl e, s)
        | Inr (Inl response) \<Rightarrow> (Inr response, s)
        | Inr (Inr (recording, segment)) \<Rightarrow>
            (case bind_result
                (read_segment_chunk (overlong_chunk api) (header_content_length request) (body_parts request)
                   (recording_chunk_limit_bytes settings))
                (\<lambda>body. case store_chunk settings cipher (Some (segment_identity segment)) nonce now (nat offset) body
                     (recording, segment, disk s) of
                   Inl e \<Rightarrow> Inl (as_http e) | Inr (_, segment, d) \<Rightarrow> Inr (segment, d)) of
               Inl e \<Rightarrow> (Inl e, s)
             | Inr (segment, d) \<Rightarrow>
                 if commit_ok then (Inr (segment_response segment), \<lparr>tables = put_segment segment (tables s), disk = d\<rparr>)
                 else (Inl commit_failed, s\<lparr>disk := d\<rparr>)))"

definition upload_conversation_segment_content ::
  "recording_settings \<Rightarrow> RecordingCipher \<Rightarrow> string \<Rightarrow> int \<Rightarrow> Device \<Rightarrow> content_request \<Rightarrow> bytes \<Rightarrow> int \<Rightarrow> bool \<Rightarrow>
   recording_state \<Rightarrow> ConversationSegmentUploadResponse reply" where
  "upload_conversation_segment_content = upload_segment_content conversations"

definition upload_session_segment_content ::
  "recording_settings \<Rightarrow> RecordingCipher \<Rightarrow> string \<Rightarrow> int \<Rightarrow> Device \<Rightarrow> content_request \<Rightarrow> bytes \<Rightarrow> int \<Rightarrow> bool \<Rightarrow>
   recording_state \<Rightarrow> ConversationSegmentUploadResponse reply" where
  "upload_session_segment_content = upload_segment_content session_audits"

section \<open>Verification of a segment\<close>

definition verify_segment ::
  "recording_settings \<Rightarrow> RecordingCipher \<Rightarrow> ConversationRecordingSegment \<Rightarrow> storage \<Rightarrow> WavDetails recording_result" where
  "verify_segment settings cipher segment d =
     bind_result (write_uploaded_wav_to_path settings cipher segment d) (\<lambda>source.
       inspect_pcm_wav_path source (segment_duration_ms segment))"

definition verified_segment :: "WavDetails \<Rightarrow> int \<Rightarrow> ConversationRecordingSegment \<Rightarrow> ConversationRecordingSegment" where
  "verified_segment details now segment =
     segment\<lparr>segment_duration_ms := details_duration_ms details, segment_status := ''verified'', upload_updated_at := now\<rparr>"

definition accept_segment ::
  "WavDetails \<Rightarrow> int \<Rightarrow> bool \<Rightarrow> ConversationRecordingSegment \<Rightarrow> recording_state \<Rightarrow> ConversationSegmentUploadResponse reply" where
  "accept_segment details now commit_ok segment s =
     (let segment = verified_segment details now segment in
      if commit_ok then (Inr (segment_response segment), s\<lparr>tables := put_segment segment (tables s)\<rparr>)
      else (Inl commit_failed, s))"

definition complete_conversation_segment ::
  "recording_settings \<Rightarrow> RecordingCipher \<Rightarrow> string \<Rightarrow> int \<Rightarrow> Device \<Rightarrow> int \<Rightarrow> bool \<Rightarrow> recording_state \<Rightarrow>
   ConversationSegmentUploadResponse reply" where
  "complete_conversation_segment settings cipher i index device now commit_ok s =
     (case open_segment conversations (segment_refused conversations) i index device (tables s) of
        Inl e \<Rightarrow> (Inl e, s)
      | Inr (Inl response) \<Rightarrow> (Inr response, s)
      | Inr (Inr (recording, segment)) \<Rightarrow>
          (case verify_segment settings cipher segment (disk s) of
             Inl e \<Rightarrow> (Inl (as_http e), s)
           | Inr details \<Rightarrow> accept_segment details now commit_ok segment s))"

text \<open>An audit segment that is corrupt is marked as failed, so that its upload can start again.\<close>

definition reject_segment ::
  "recording_settings \<Rightarrow> recording_error \<Rightarrow> int \<Rightarrow> bool \<Rightarrow> ConversationRecordingSegment \<Rightarrow> recording_state \<Rightarrow>
   ConversationSegmentUploadResponse reply" where
  "reject_segment settings e now commit_ok segment s =
     (let segment = segment\<lparr>segment_status := ''failed'', upload_updated_at := now\<rparr> in
      if \<not> commit_ok then (Inl commit_failed, s)
      else case remove_upload_files settings segment (disk s) of (r, d) \<Rightarrow>
        (Inl (case r of Inl e' \<Rightarrow> Crashed e' | Inr _ \<Rightarrow> as_http e), \<lparr>tables = put_segment segment (tables s), disk = d\<rparr>))"

fun corrupt :: "recording_error \<Rightarrow> bool" where
  "corrupt (RecordingError _ code) = (code = 400 \<or> code = 422)"
| "corrupt (OtherError _) = False"

definition complete_session_segment ::
  "recording_settings \<Rightarrow> RecordingCipher \<Rightarrow> string \<Rightarrow> int \<Rightarrow> Device \<Rightarrow> int \<Rightarrow> bool \<Rightarrow> recording_state \<Rightarrow>
   ConversationSegmentUploadResponse reply" where
  "complete_session_segment settings cipher i index device now commit_ok s =
     (case open_segment session_audits (segment_refused session_audits) i index device (tables s) of
        Inl e \<Rightarrow> (Inl e, s)
      | Inr (Inl response) \<Rightarrow> (Inr response, s)
      | Inr (Inr (recording, segment)) \<Rightarrow>
          (case verify_segment settings cipher segment (disk s) of
             Inl e \<Rightarrow> if corrupt e then reject_segment settings e now commit_ok segment s else (Inl (as_http e), s)
           | Inr details \<Rightarrow> accept_segment details now commit_ok segment s))"

section \<open>Completion of a recording\<close>

definition segments_of :: "string \<Rightarrow> recording_tables \<Rightarrow> ConversationRecordingSegment list" where
  "segments_of i t = sort_key segment_index (filter (\<lambda>x. segment_recording_id x = i) (segments t))"

definition put_segments :: "ConversationRecordingSegment list \<Rightarrow> recording_tables \<Rightarrow> recording_tables" where
  "put_segments xs t = fold put_segment xs t"

text \<open>The recording and its segments, when the recording can be completed.\<close>

definition open_recording ::
  "segment_interface \<Rightarrow> string \<Rightarrow> Device \<Rightarrow> nat \<Rightarrow> recording_tables \<Rightarrow>
   request_error + (ConversationRecordingUploadResponse + Recording \<times> ConversationRecordingSegment list)" where
  "open_recording api i device segment_count t =
     bind_result (owned_recording api t i device) (\<lambda>recording.
       if recording_status recording \<in> {''ready'', ''deleted''} then Inr (Inl (recording_response recording))
       else if recording_status recording \<noteq> ''uploading'' then Inl (Refused 409 (recording_refused api))
       else if length (segments_of (recording_id recording) t) \<noteq> segment_count then Inl (Refused 409 (count_mismatch api))
       else Inr (Inr (recording, segments_of (recording_id recording) t)))"

text \<open>
  The media file is written first, then the rows are committed, then the upload directories are removed; a
  commit that fails removes the media file again. The rows of the session, which may have a new policy, are
  the argument of the assembly.
\<close>

definition finish_recording ::
  "recording_settings \<Rightarrow> 'c gcm_library \<Rightarrow> RecordingCipher \<Rightarrow> (bytes \<Rightarrow> (int \<times> bytes option) option) \<Rightarrow> bytes \<Rightarrow> string \<Rightarrow> int \<Rightarrow> bool \<Rightarrow>
   Recording \<Rightarrow> ConversationRecordingSegment list \<Rightarrow> recording_tables \<Rightarrow> recording_state \<Rightarrow>
   ConversationRecordingUploadResponse reply" where
  "finish_recording settings gcm cipher ffmpeg nonce uuid now commit_ok recording segs t s =
     (case assemble_conversation_recording settings gcm cipher ffmpeg nonce uuid now False recording segs (s\<lparr>tables := t\<rparr>) of
        Inl e \<Rightarrow> (Inl (as_http e), s)
      | Inr (recording, segs, d) \<Rightarrow>
          if \<not> commit_ok then (Inl commit_failed, s\<lparr>disk := unlink (the (media_storage_name recording)) d\<rparr>)
          else case remove_all_uploads settings (map upload_row.truncate segs) d of (r, d) \<Rightarrow>
            (case r of Inl e \<Rightarrow> Inl (Crashed e) | Inr _ \<Rightarrow> Inr (recording_response recording),
             \<lparr>tables = put_segments segs (put_recording recording t), disk = d\<rparr>))"

definition complete_conversation_recording ::
  "recording_settings \<Rightarrow> 'c gcm_library \<Rightarrow> RecordingCipher \<Rightarrow> (bytes \<Rightarrow> (int \<times> bytes option) option) \<Rightarrow> string \<Rightarrow> Device \<Rightarrow> nat \<Rightarrow>
   bytes \<Rightarrow> string \<Rightarrow> int \<Rightarrow> bool \<Rightarrow> recording_state \<Rightarrow> ConversationRecordingUploadResponse reply" where
  "complete_conversation_recording settings gcm cipher ffmpeg i device segment_count nonce uuid now commit_ok s =
     (case open_recording conversations i device segment_count (tables s) of
        Inl e \<Rightarrow> (Inl e, s)
      | Inr (Inl response) \<Rightarrow> (Inr response, s)
      | Inr (Inr (recording, segs)) \<Rightarrow>
          finish_recording settings gcm cipher ffmpeg nonce uuid now commit_ok recording segs (tables s) s)"

definition audit_coverage :: "Recording \<Rightarrow> ConversationRecordingSegment list \<Rightarrow> request_error + unit" where
  "audit_coverage recording segs =
     (let report = audit_metadata recording;
          reported_ms = (case report of None \<Rightarrow> 0 | Some r \<Rightarrow> report_duration_ms r) in
      if \<bar>(\<Sum>x\<leftarrow>segs. int (segment_duration_ms x)) - int reported_ms\<bar> > 30
      then Inl (Refused 409 ''Audit duration disagrees with call report'')
      else if list_ex (\<lambda>x. segment_duration_ms x \<noteq> 15000) (butlast segs)
      then Inl (Refused 409 ''Non-terminal audit segments must cover 15 seconds'')
      else if segs \<noteq> [] \<and>
        (Some (segment_stop_reason (last segs)) \<noteq> map_option report_stop_reason report \<or>
         Some (segment_partial (last segs)) \<noteq> map_option report_partial report)
      then Inl (Refused 409 ''Audit termination disagrees with call report'')
      else Inr ())"

definition complete_session_recording ::
  "recording_settings \<Rightarrow> audit_limits \<Rightarrow> 'c gcm_library \<Rightarrow> RecordingCipher \<Rightarrow> (bytes \<Rightarrow> (int \<times> bytes option) option) \<Rightarrow> string \<Rightarrow> Device \<Rightarrow> nat \<Rightarrow>
   bytes \<Rightarrow> string \<Rightarrow> int \<Rightarrow> bool \<Rightarrow> recording_state \<Rightarrow> ConversationRecordingUploadResponse reply" where
  "complete_session_recording settings limits gcm cipher ffmpeg i device segment_count nonce uuid now commit_ok s =
     (case open_recording session_audits i device segment_count (tables s) of
        Inl e \<Rightarrow> (Inl e, s)
      | Inr (Inl response) \<Rightarrow> (Inr response, s)
      | Inr (Inr (recording, segs)) \<Rightarrow>
          (case bind_result (audit_coverage recording segs) (\<lambda>_. require_audit_capacity settings limits 0 now (tables s)) of
             Inl e \<Rightarrow> (Inl e, s)
           | Inr t \<Rightarrow>
               let workspace_bytes = (\<Sum>x\<leftarrow>segs. expected_size_bytes x) + (\<Sum>x\<leftarrow>segs. segment_duration_ms x) * 12 + 4 * 1024 * 1024 in
               if free_bytes limits < workspace_bytes + audit_recording_reserve_bytes limits
               then (Inl (Refused 507 ''Audit assembly filesystem reserve reached; retain the tablet spool''), s)
               else finish_recording settings gcm cipher ffmpeg nonce uuid now commit_ok recording segs t s))"

end
