(* ===== verification/Recording_Laws.thy ===== *)
theory Recording_Laws
  imports Recording_Requests Upload_Laws Media_Laws
begin

text \<open>
  The invariant of the recording service and its preservation by every request: the quota is never
  exceeded, what a device has uploaded so far can be read back, and every recording that is reported as
  ready can be played.
\<close>

section \<open>The invariant\<close>

abbreviation ready_rows :: "recording_tables \<Rightarrow> Recording list" where
  "ready_rows t \<equiv> filter (\<lambda>r. recording_status r = ''ready'') (recordings t)"

abbreviation active_segments :: "recording_tables \<Rightarrow> ConversationRecordingSegment list" where
  "active_segments t \<equiv> filter (\<lambda>s. segment_status s \<in> {''uploading'', ''verified''}) (segments t)"

text \<open>Keys are unique, and an upload belongs to a recording that is being uploaded.\<close>

definition rows_ok :: "recording_tables \<Rightarrow> bool" where
  "rows_ok t \<longleftrightarrow>
     distinct (map recording_id (recordings t)) \<and> distinct (map upload_recording_id (recording_uploads t)) \<and>
     distinct (map storage_name (recording_uploads t)) \<and>
     (\<forall>a\<in>set (ready_rows t). \<forall>b\<in>set (ready_rows t).
        media_storage_name a = media_storage_name b \<longrightarrow> recording_id a = recording_id b) \<and>
     (\<forall>u\<in>set (recording_uploads t). is_ascii (upload_recording_id u) \<and>
        storage_name u \<notin> storage_name ` set (active_segments t) \<and>
        (\<exists>r\<in>set (recordings t). recording_id r = upload_recording_id u \<and> recording_status r = ''uploading''))"

definition storage_ok :: "recording_settings \<Rightarrow> RecordingCipher \<Rightarrow> recording_tables \<Rightarrow> storage \<Rightarrow> bool" where
  "storage_ok settings cipher t d \<longleftrightarrow>
     (\<forall>u\<in>set (recording_uploads t). \<exists>content. upload_holds settings cipher (upload_recording_id u) u d content) \<and>
     (\<forall>r\<in>set (ready_rows t). is_ok (load_media settings cipher r d))"

definition recording_inv :: "recording_settings \<Rightarrow> RecordingCipher \<Rightarrow> recording_state \<Rightarrow> bool" where
  "recording_inv settings cipher s \<longleftrightarrow>
     rows_ok (tables s) \<and> storage_ok settings cipher (tables s) (disk s) \<and>
     recording_used_bytes None None (tables s) \<le> recording_quota_bytes settings"

text \<open>Storage that still has everything the rows refer to.\<close>

definition keeps_owned :: "recording_tables \<Rightarrow> storage \<Rightarrow> storage \<Rightarrow> bool" where
  "keeps_owned t d d' \<longleftrightarrow>
     (\<forall>u\<in>set (recording_uploads t). map_of (uploads d') (storage_name u) = map_of (uploads d) (storage_name u)) \<and>
     (\<forall>r\<in>set (ready_rows t). \<forall>name. media_storage_name r = Some name \<longrightarrow> media_name_valid name \<longrightarrow>
        map_of (media d') name = map_of (media d) name)"

lemma keeps_owned_refl [simp]: "keeps_owned t d d"
  by (simp add: keeps_owned_def)

lemma keeps_owned_trans: "keeps_owned t d d' \<Longrightarrow> keeps_owned t d' d'' \<Longrightarrow> keeps_owned t d d''"
  unfolding keeps_owned_def by simp

lemma upload_holds_cong:
  "map_of (uploads d') (storage_name u) = map_of (uploads d) (storage_name u) \<Longrightarrow>
     upload_holds settings cipher identity u d' content = upload_holds settings cipher identity u d content"
  by (simp add: upload_holds_def upload_directory_def)

lemma storage_ok_frame:
  assumes "storage_ok settings cipher t d" "keeps_owned t d d'"
  shows "storage_ok settings cipher t d'"
  unfolding storage_ok_def
proof (intro conjI ballI)
  fix u assume u: "u \<in> set (recording_uploads t)"
  then obtain content where "upload_holds settings cipher (upload_recording_id u) u d content"
    using assms(1) unfolding storage_ok_def by blast
  moreover have "map_of (uploads d') (storage_name u) = map_of (uploads d) (storage_name u)"
    using assms(2) u unfolding keeps_owned_def by blast
  ultimately show "\<exists>content. upload_holds settings cipher (upload_recording_id u) u d' content"
    using upload_holds_cong by blast
next
  fix r assume r: "r \<in> set (ready_rows t)"
  have "load_media settings cipher r d' = load_media settings cipher r d"
    by (rule load_media_cong) (use assms(2) r in \<open>unfold keeps_owned_def, blast\<close>)
  then show "is_ok (load_media settings cipher r d')" using assms(1) r unfolding storage_ok_def by simp
qed

lemma inv_frame:
  "recording_inv settings cipher s \<Longrightarrow> keeps_owned (tables s) (disk s) d' \<Longrightarrow> recording_inv settings cipher (s\<lparr>disk := d'\<rparr>)"
  by (auto simp: recording_inv_def intro: storage_ok_frame)

section \<open>Rows\<close>

lemma find_recording_Some: "find_recording i t = Some r \<Longrightarrow> r \<in> set (recordings t) \<and> recording_id r = i"
  by (auto simp: find_recording_def find_Some_iff)

lemma find_recording_None: "find_recording i t = None \<Longrightarrow> r \<in> set (recordings t) \<Longrightarrow> recording_id r \<noteq> i"
  by (auto simp: find_recording_def find_None_iff)

lemma find_upload_Some: "find_upload i t = Some u \<Longrightarrow> u \<in> set (recording_uploads t) \<and> upload_recording_id u = i"
  by (auto simp: find_upload_def find_Some_iff)

lemma find_upload_None: "find_upload i t = None \<Longrightarrow> u \<in> set (recording_uploads t) \<Longrightarrow> upload_recording_id u \<noteq> i"
  by (auto simp: find_upload_def find_None_iff)

lemma row_unique:
  "distinct (map f xs) \<Longrightarrow> x \<in> set xs \<Longrightarrow> y \<in> set xs \<Longrightarrow> f x = f y \<Longrightarrow> x = y"
  by (auto simp: distinct_map inj_on_def)

text \<open>Replacing the row with the key of \<^verbatim>\<open>x\<close> changes the sum of a column by the difference.\<close>

lemma sum_replace_row:
  fixes g :: "'a \<Rightarrow> nat"
  assumes "distinct (map f xs)" "x \<in> set xs"
  shows "(\<Sum>q\<leftarrow>map (\<lambda>q. if f q = f x then y else q) xs. g q) + g x = (\<Sum>q\<leftarrow>xs. g q) + g y"
  using assms
proof (induction xs)
  case (Cons a xs)
  show ?case
  proof (cases "f a = f x")
    case True
    then have "a = x" "\<forall>q\<in>set xs. f q \<noteq> f x" using Cons.prems by (auto simp: image_iff)
    then have "map (\<lambda>q. if f q = f x then y else q) xs = xs" by (simp add: map_idI)
    then show ?thesis using \<open>a = x\<close> by simp
  next
    case False
    then have "x \<in> set xs" using Cons.prems by auto
    then show ?thesis using Cons False by simp
  qed
qed simp

definition ready_bytes :: "Recording \<Rightarrow> nat" where
  "ready_bytes r = (if recording_status r = ''ready'' then media_bytes r else 0)"

lemma used_bytes_alt:
  "recording_used_bytes ex None t =
     (\<Sum>r\<leftarrow>recordings t. ready_bytes r) +
     (\<Sum>u\<leftarrow>filter (\<lambda>u. ex \<noteq> Some (upload_recording_id u)) (recording_uploads t). expected_size_bytes u) +
     (\<Sum>s\<leftarrow>active_segments t. expected_size_bytes s)"
proof -
  have "(\<Sum>r\<leftarrow>filter (\<lambda>r. recording_status r = ''ready'') xs. media_bytes r) = (\<Sum>r\<leftarrow>xs. ready_bytes r)" for xs
    by (induction xs) (auto simp: ready_bytes_def)
  then show ?thesis by (simp add: recording_used_bytes_def)
qed

lemma put_recording_rows [simp]:
  "recording_uploads (put_recording r t) = recording_uploads t" "segments (put_recording r t) = segments t"
  "recordings (put_recording r t) = map (\<lambda>q. if recording_id q = recording_id r then r else q) (recordings t)"
  by (simp_all add: put_recording_def)

lemma put_upload_rows [simp]:
  "recordings (put_upload u t) = recordings t" "segments (put_upload u t) = segments t"
  "recording_uploads (put_upload u t) =
     map (\<lambda>v. if upload_recording_id v = upload_recording_id u then u else v) (recording_uploads t)"
  by (simp_all add: put_upload_def)

lemma replaced_keys: "map f (map (\<lambda>q. if f q = f r then r else q) qs) = map f qs"
  by (induction qs) auto

lemma filter_map_same:
  "(\<And>x. x \<in> set xs \<Longrightarrow> f x = x \<or> \<not> P x \<and> \<not> P (f x)) \<Longrightarrow> filter P (map f xs) = filter P xs"
proof (induction xs)
  case (Cons a xs)
  have "filter P (map f xs) = filter P xs" by (rule Cons.IH) (rule Cons.prems, simp)
  moreover have "f a = a \<or> \<not> P a \<and> \<not> P (f a)" by (rule Cons.prems) simp
  ultimately show ?case by (elim disjE) simp_all
qed simp

text \<open>Columns of other tables do not matter.\<close>

lemma other_columns [simp]:
  "rows_ok (t\<lparr>retention_policy := p\<rparr>) = rows_ok t" "rows_ok (t\<lparr>control_rows := c\<rparr>) = rows_ok t"
  "storage_ok settings cipher (t\<lparr>retention_policy := p\<rparr>) d = storage_ok settings cipher t d"
  "storage_ok settings cipher (t\<lparr>control_rows := c\<rparr>) d = storage_ok settings cipher t d"
  "recording_used_bytes ex ec (t\<lparr>retention_policy := p\<rparr>) = recording_used_bytes ex ec t"
  "recording_used_bytes ex ec (t\<lparr>control_rows := c\<rparr>) = recording_used_bytes ex ec t"
  "keeps_owned (t\<lparr>retention_policy := p\<rparr>) d d' = keeps_owned t d d'"
  "keeps_owned (t\<lparr>control_rows := c\<rparr>) d d' = keeps_owned t d d'"
  by (simp_all add: rows_ok_def storage_ok_def recording_used_bytes_def keeps_owned_def)

lemma policy_tables:
  obtains p where "snd (initialize_retention_policy actor now t) = t\<lparr>retention_policy := p\<rparr>"
proof (cases "retention_policy t")
  case None
  then show ?thesis using that by (auto simp: initialize_retention_policy_def Let_def)
next
  case (Some q)
  then have "snd (initialize_retention_policy actor now t) = t\<lparr>retention_policy := Some q\<rparr>"
    by (simp add: initialize_retention_policy_def)
  then show ?thesis by (rule that)
qed

lemma ready_rows_put:
  assumes "distinct (map recording_id qs)" "r \<in> set qs" "recording_id r' = recording_id r"
    "recording_status r \<noteq> ''ready''" "recording_status r' \<noteq> ''ready''"
  shows "filter (\<lambda>q. recording_status q = ''ready'') (map (\<lambda>q. if recording_id q = recording_id r' then r' else q) qs) =
    filter (\<lambda>q. recording_status q = ''ready'') qs"
proof (rule filter_map_same)
  fix x assume "x \<in> set qs"
  then have "x = r" if "recording_id x = recording_id r" using row_unique [OF assms(1)] assms(2) that by blast
  then show "(if recording_id x = recording_id r' then r' else x) = x \<or>
      recording_status x \<noteq> ''ready'' \<and> recording_status (if recording_id x = recording_id r' then r' else x) \<noteq> ''ready''"
    using assms(3-5) by (cases "recording_id x = recording_id r") auto
qed

lemma put_recording_ids: "map recording_id (recordings (put_recording r t)) = map recording_id (recordings t)"
  by (simp only: put_recording_rows(3) replaced_keys)

section \<open>Announcing a recording\<close>

text \<open>Names that the service draws are new.\<close>

definition fresh_uuid :: "string \<Rightarrow> recording_state \<Rightarrow> bool" where
  "fresh_uuid uuid s \<longleftrightarrow>
     length uuid = 32 \<and> list_all hex_char uuid \<and> uuid \<notin> storage_name ` set (segments (tables s)) \<and>
     Some (uuid @ ''.rec'') \<notin> media_storage_name ` set (recordings (tables s))"

lemma create_directory:
  assumes "create_upload_directory settings uuid d = Inr d'"
  shows "media d' = media d" "map_of (uploads d) uuid = None" "map_of (uploads d') uuid = Some (private_directory settings)"
    "n \<noteq> uuid \<Longrightarrow> map_of (uploads d') n = map_of (uploads d) n"
  using assms by (auto simp: create_upload_directory_def map_add_def split: if_splits option.splits)

lemma held_directory:
  "upload_holds settings cipher i u d content \<Longrightarrow> map_of (uploads d) (storage_name u) \<noteq> None"
  by (auto simp: upload_holds_def upload_directory_Inr)

lemma upload_names_old:
  assumes "storage_ok settings cipher t d" "create_upload_directory settings uuid d = Inr d'" "u \<in> set (recording_uploads t)"
  shows "storage_name u \<noteq> uuid"
  using assms create_directory(2) [OF assms(2)] held_directory unfolding storage_ok_def by metis

lemma keeps_owned_create:
  assumes "storage_ok settings cipher t d" "create_upload_directory settings uuid d = Inr d'"
  shows "keeps_owned t d d'"
  using create_directory(1,4) [OF assms(2)] upload_names_old [OF assms] by (simp add: keeps_owned_def)

text \<open>A new upload row with its empty directory.\<close>

lemma new_upload_holds:
  assumes "create_upload_directory settings uuid d = Inr d'" "length uuid = 32" "list_all hex_char uuid"
  shows "upload_holds settings cipher i (new_upload body uuid now) d' []"
proof (rule fresh_upload_holds)
  show "upload_directory settings (new_upload body uuid now) d' = Inr (private_directory settings)"
    using assms create_directory(3) [OF assms(1)]
    by (simp add: upload_directory_Inr new_upload_def private_directory_def owned_privately_def)
qed (simp_all add: private_directory_def new_upload_def)

lemma capacity_Inr:
  assumes "require_recording_capacity settings required now t = Inr t'"
  obtains p where "t' = t\<lparr>retention_policy := p\<rparr>"
    "recording_used_bytes None None t + required \<le> recording_quota_bytes settings"
proof -
  obtain p where "snd (initialize_retention_policy (development_admin_email settings) now t) = t\<lparr>retention_policy := p\<rparr>"
    by (rule policy_tables)
  then show thesis
    using assms that [of p] by (auto simp: require_recording_capacity_def Let_def split: if_splits)
qed

text \<open>
  Adding an upload row whose recording is in the new rows as being uploaded, when the space was checked.
\<close>

lemma inv_add_upload:
  assumes inv: "recording_inv settings cipher s" and fresh: "fresh_uuid uuid s" "is_ascii (create_recording_id body)"
    and dir: "create_upload_directory settings uuid (disk s) = Inr d"
    and space: "recording_used_bytes None None (tables s) + create_expected_size_bytes body \<le> recording_quota_bytes settings"
    and new: "create_recording_id body \<notin> upload_recording_id ` set (recording_uploads (tables s))"
    and rows: "recording_uploads t = recording_uploads (tables s) @ [new_upload body uuid now]" "segments t = segments (tables s)"
      "distinct (map recording_id (recordings t))" "ready_rows t = ready_rows (tables s)"
      "(\<Sum>r\<leftarrow>recordings t. ready_bytes r) = (\<Sum>r\<leftarrow>recordings (tables s). ready_bytes r)"
      "\<And>i. i = create_recording_id body \<or> (\<exists>r\<in>set (recordings (tables s)). recording_id r = i \<and> recording_status r = ''uploading'') \<Longrightarrow>
         \<exists>r\<in>set (recordings t). recording_id r = i \<and> recording_status r = ''uploading''"
  shows "recording_inv settings cipher \<lparr>tables = t, disk = d\<rparr>"
proof -
  let ?u = "new_upload body uuid now"
  have ok: "rows_ok (tables s)" "storage_ok settings cipher (tables s) (disk s)" using inv by (simp_all add: recording_inv_def)
  have u: "upload_recording_id ?u = create_recording_id body" "storage_name ?u = uuid"
    "expected_size_bytes ?u = create_expected_size_bytes body"
    by (simp_all add: new_upload_def)
  have seg: "uuid \<notin> storage_name ` set (active_segments t)" using fresh(1) rows(2) by (auto simp: fresh_uuid_def)
  have "rows_ok t"
    unfolding rows_ok_def rows(1,4)
  proof (intro conjI)
    show "distinct (map recording_id (recordings t))" by (rule rows(3))
    show "distinct (map upload_recording_id (recording_uploads (tables s) @ [?u]))"
      using ok(1) new u by (auto simp: rows_ok_def)
    show "distinct (map storage_name (recording_uploads (tables s) @ [?u]))"
      using ok(1) upload_names_old [OF ok(2) dir] u by (auto simp: rows_ok_def)
    show "\<forall>a\<in>set (ready_rows (tables s)). \<forall>b\<in>set (ready_rows (tables s)).
        media_storage_name a = media_storage_name b \<longrightarrow> recording_id a = recording_id b"
      using ok(1) unfolding rows_ok_def by blast
    show "\<forall>v\<in>set (recording_uploads (tables s) @ [?u]). is_ascii (upload_recording_id v) \<and>
        storage_name v \<notin> storage_name ` set (active_segments t) \<and>
        (\<exists>r\<in>set (recordings t). recording_id r = upload_recording_id v \<and> recording_status r = ''uploading'')"
    proof
      fix v assume v: "v \<in> set (recording_uploads (tables s) @ [?u])"
      show "is_ascii (upload_recording_id v) \<and> storage_name v \<notin> storage_name ` set (active_segments t) \<and>
        (\<exists>r\<in>set (recordings t). recording_id r = upload_recording_id v \<and> recording_status r = ''uploading'')"
      proof (cases "v = ?u")
        case True
        then show ?thesis using fresh(2) seg rows(6) [of "create_recording_id body"] u by auto
      next
        case False
        then have "v \<in> set (recording_uploads (tables s))" using v by simp
        then have "is_ascii (upload_recording_id v)" "storage_name v \<notin> storage_name ` set (active_segments t)"
          "\<exists>r\<in>set (recordings (tables s)). recording_id r = upload_recording_id v \<and> recording_status r = ''uploading''"
          using ok(1) rows(2) unfolding rows_ok_def by auto
        then show ?thesis using rows(6) by blast
      qed
    qed
  qed
  moreover have "storage_ok settings cipher (tables s) d"
    using storage_ok_frame [OF ok(2) keeps_owned_create [OF ok(2) dir]] .
  then have "storage_ok settings cipher t d"
    using new_upload_holds [OF dir, of cipher "upload_recording_id ?u" body now] fresh(1)
    unfolding storage_ok_def rows(1,4) fresh_uuid_def by (simp add: exI [of _ "[]"])
  moreover have "recording_used_bytes None None t \<le> recording_quota_bytes settings"
    using space u(3) by (simp add: used_bytes_alt rows)
  ultimately show ?thesis by (simp add: recording_inv_def)
qed

lemma create_recording_inv:
  assumes inv: "recording_inv settings cipher s" and fresh: "fresh_uuid uuid s" "is_ascii (create_recording_id body)"
    and run: "create_recording settings device body uuid now commit_ok s = (r, s')"
  shows "recording_inv settings cipher s'"
proof (cases "find_recording (create_recording_id body) (tables s)")
  case None
  have ok: "rows_ok (tables s)" "storage_ok settings cipher (tables s) (disk s)" using inv by (simp_all add: recording_inv_def)
  show ?thesis
  proof (cases "bind_result (recording_admissible settings device body now (tables s)) (\<lambda>_.
      require_recording_capacity settings (create_expected_size_bytes body) now (tables s))")
    case (Inl e)
    then show ?thesis using run None inv by (simp add: create_recording_def)
  next
    case (Inr t)
    then have "require_recording_capacity settings (create_expected_size_bytes body) now (tables s) = Inr t"
      by (auto simp: bind_result_Inr)
    then obtain p where t: "t = (tables s)\<lparr>retention_policy := p\<rparr>"
      "recording_used_bytes None None (tables s) + create_expected_size_bytes body \<le> recording_quota_bytes settings"
      by (rule capacity_Inr)
    show ?thesis
    proof (cases "create_upload_directory settings uuid (disk s)")
      case (Inl e)
      then show ?thesis using run None Inr inv by (simp add: create_recording_def)
    next
      case dir: (Inr d)
      let ?r = "new_recording body device now" and ?u = "new_upload body uuid now"
      let ?t = "t\<lparr>recordings := recordings t @ [?r], recording_uploads := recording_uploads t @ [?u]\<rparr>"
      have kept: "recording_inv settings cipher (s\<lparr>disk := d\<rparr>)"
        by (rule inv_frame [OF inv keeps_owned_create [OF ok(2) dir]])
      have removed: "recording_inv settings cipher (s\<lparr>disk := d\<lparr>uploads := AList.delete uuid (uploads d)\<rparr>\<rparr>)"
        by (rule inv_frame [OF inv])
          (use keeps_owned_create [OF ok(2) dir] upload_names_old [OF ok(2) dir] in \<open>simp add: keeps_owned_def delete_conv'\<close>)
      have added: "recording_inv settings cipher \<lparr>tables = ?t, disk = d\<rparr>" if dup: "\<not> recording_duplicate ?r ?u t"
      proof (rule inv_add_upload [OF inv fresh dir t(2)])
        show "create_recording_id body \<notin> upload_recording_id ` set (recording_uploads (tables s))"
          using dup t(1) by (auto simp: recording_duplicate_def new_upload_def list_ex_iff)
        show "distinct (map recording_id (recordings ?t))"
        proof -
          have "distinct (map recording_id (recordings (tables s)))" using ok(1) by (simp add: rows_ok_def)
          moreover have "recording_id ?r \<notin> recording_id ` set (recordings (tables s))"
            using dup by (auto simp: recording_duplicate_def list_ex_iff t(1))
          ultimately show ?thesis by (simp add: t(1))
        qed
      qed (auto simp: t(1) new_recording_def ready_bytes_def)
      have "s' = (if recording_duplicate ?r ?u t then s\<lparr>disk := d\<lparr>uploads := AList.delete uuid (uploads d)\<rparr>\<rparr>
          else if commit_ok then \<lparr>tables = ?t, disk = d\<rparr> else s\<lparr>disk := d\<rparr>)"
        using run None Inr dir by (auto simp: create_recording_def Let_def)
      then show ?thesis using kept removed added by (cases "recording_duplicate ?r ?u t"; cases commit_ok) metis+
    qed
  qed
next
  case (Some existing)
  have e: "existing \<in> set (recordings (tables s))" "recording_id existing = create_recording_id body"
    using find_recording_Some [OF Some] by simp_all
  have ok: "rows_ok (tables s)" "storage_ok settings cipher (tables s) (disk s)" using inv by (simp_all add: recording_inv_def)
  have run': "resume_recording settings device body uuid now commit_ok existing s = (r, s')"
    using run Some by (simp add: create_recording_def)
  show ?thesis
  proof (cases "s' = s")
    case False
    then obtain t d where f: "recording_status existing = ''failed''" "find_upload (create_recording_id body) (tables s) = None"
      "require_recording_capacity settings (create_expected_size_bytes body) now (tables s) = Inr t"
      "create_upload_directory settings uuid (disk s) = Inr d"
      and s': "s' = s\<lparr>disk := d\<rparr> \<or>
        s' = \<lparr>tables = put_recording (existing\<lparr>recording_status := ''uploading'', recording_updated_at := now\<rparr>) t
           \<lparr>recording_uploads := recording_uploads t @ [new_upload body uuid now]\<rparr>, disk = d\<rparr>"
      using run' by (auto simp: resume_recording_def Let_def split: if_splits sum.splits)
    obtain p where t: "t = (tables s)\<lparr>retention_policy := p\<rparr>"
      "recording_used_bytes None None (tables s) + create_expected_size_bytes body \<le> recording_quota_bytes settings"
      using f(3) by (rule capacity_Inr)
    let ?r = "existing\<lparr>recording_status := ''uploading'', recording_updated_at := now\<rparr>"
    let ?t = "put_recording ?r t\<lparr>recording_uploads := recording_uploads t @ [new_upload body uuid now]\<rparr>"
    have "recording_inv settings cipher \<lparr>tables = ?t, disk = d\<rparr>"
    proof (rule inv_add_upload [OF inv fresh f(4) t(2)])
      show "create_recording_id body \<notin> upload_recording_id ` set (recording_uploads (tables s))"
        by (metis find_upload_None [OF f(2)] imageE)
      show "distinct (map recording_id (recordings ?t))"
      proof -
        have "recordings ?t = recordings (put_recording ?r t)" "recordings t = recordings (tables s)" by (simp_all add: t(1))
        then have "map recording_id (recordings ?t) = map recording_id (recordings (tables s))"
          using put_recording_ids [of ?r t] by (simp only:)
        then show ?thesis using ok(1) by (simp only: rows_ok_def)
      qed
      show "ready_rows ?t = ready_rows (tables s)"
        using ready_rows_put [of "recordings (tables s)" existing ?r] ok(1) e(1) f(1) by (simp add: t(1) rows_ok_def)
      show "(\<Sum>r\<leftarrow>recordings ?t. ready_bytes r) = (\<Sum>r\<leftarrow>recordings (tables s). ready_bytes r)"
        using sum_replace_row [of recording_id "recordings (tables s)" existing ready_bytes ?r] ok(1) e(1) f(1)
        by (simp add: t(1) rows_ok_def ready_bytes_def)
      show "\<exists>r\<in>set (recordings ?t). recording_id r = i \<and> recording_status r = ''uploading''"
        if i: "i = create_recording_id body \<or> (\<exists>r\<in>set (recordings (tables s)). recording_id r = i \<and> recording_status r = ''uploading'')" for i
      proof (cases "i = create_recording_id body")
        case True
        have "?r \<in> set (recordings ?t)" using e(1) by (auto simp: t(1) image_iff intro!: bexI [of _ existing])
        then show ?thesis using True e(2) by (intro bexI [of _ ?r]) simp_all
      next
        case False
        then obtain q where q: "q \<in> set (recordings (tables s))" "recording_id q = i" "recording_status q = ''uploading''"
          using i by blast
        then have "q \<in> set (recordings ?t)" using False e(2) by (auto simp: t(1) image_iff intro!: bexI [of _ q])
        then show ?thesis using q by blast
      qed
    qed (simp_all add: t(1))
    moreover have "recording_inv settings cipher (s\<lparr>disk := d\<rparr>)"
      by (rule inv_frame [OF inv keeps_owned_create [OF ok(2) f(4)]])
    ultimately show ?thesis using s' by auto
  qed (use inv in simp)
qed

section \<open>Uploading content\<close>

lemma open_upload_rows:
  assumes "open_upload refusal i device t = Inr (Inr (recording, upload))"
  shows "recording \<in> set (recordings t)" "recording_status recording = ''uploading''"
    "upload \<in> set (recording_uploads t)" "upload_recording_id upload = recording_id recording"
    "recording_id recording = i" "recording_source_format recording = ''legacy_wav''"
    "recording_device_id recording = device_id device"
  using assms find_recording_Some find_upload_Some
  by (auto simp: open_upload_def get_owned_recording_def bind_result_Inr split: if_splits option.splits)

lemma store_chunk_rows:
  assumes "store_chunk settings cipher ci nonce now offset p (recording, upload, d) = Inr (recording', upload', d')"
  shows "(recording' = recording \<or> recording' = recording\<lparr>recording_updated_at := now\<rparr>) \<and>
    (upload' = upload \<or> (\<exists>n. upload' = upload\<lparr>upload_offset := n, upload_updated_at := now\<rparr>))"
  using assms by (auto simp: store_chunk_def Let_def bind_result_Inr split: if_splits)

lemma store_chunk_elsewhere:
  assumes "store_chunk settings cipher ci nonce now offset p (recording, upload, d) = Inr (recording', upload', d')"
  shows "media d' = media d" "n \<noteq> storage_name upload \<Longrightarrow> map_of (uploads d') n = map_of (uploads d) n"
  using store_chunk_disk [OF assms] by (auto simp: write_chunk_def update_conv)

text \<open>Replacing the row of a pending recording by another pending row, and its upload row by one of the same size.\<close>

lemma rows_ok_pending:
  assumes rows: "rows_ok t" and r: "r \<in> set (recordings t)" "recording_id r' = recording_id r"
      "recording_status r = ''uploading''" "recording_status r' = ''uploading''"
    and u: "u \<in> set (recording_uploads t)" "upload_recording_id u' = upload_recording_id u" "storage_name u' = storage_name u"
  shows "rows_ok (put_upload u' (put_recording r' t))" "ready_rows (put_upload u' (put_recording r' t)) = ready_rows t"
proof -
  have sameu: "v = u" if "v \<in> set (recording_uploads t)" "upload_recording_id v = upload_recording_id u" for v
    using row_unique that u(1) rows unfolding rows_ok_def by metis
  let ?t = "put_upload u' (put_recording r' t)"
  show ready: "ready_rows ?t = ready_rows t"
    using ready_rows_put [of "recordings t" r r'] rows r by (simp add: rows_ok_def)
  have names: "map storage_name (recording_uploads ?t) = map storage_name (recording_uploads t)"
    using sameu u by auto
  have ids: "map upload_recording_id (recording_uploads ?t) = map upload_recording_id (recording_uploads t)"
    using replaced_keys [of upload_recording_id u'] by simp
  have rids: "map recording_id (recordings ?t) = map recording_id (recordings t)"
    using put_recording_ids [of r' t] by simp
  show "rows_ok ?t"
    unfolding rows_ok_def names ids rids ready
  proof (intro conjI)
    show "\<forall>v\<in>set (recording_uploads ?t). is_ascii (upload_recording_id v) \<and>
        storage_name v \<notin> storage_name ` set (active_segments ?t) \<and>
        (\<exists>q\<in>set (recordings ?t). recording_id q = upload_recording_id v \<and> recording_status q = ''uploading'')"
    proof
      fix v assume "v \<in> set (recording_uploads ?t)"
      then obtain w where w: "w \<in> set (recording_uploads t)" "upload_recording_id v = upload_recording_id w"
        "storage_name v = storage_name w"
        using u sameu by (auto split: if_splits)
      obtain q where q: "q \<in> set (recordings t)" "recording_id q = upload_recording_id w" "recording_status q = ''uploading''"
        and a: "is_ascii (upload_recording_id w)" "storage_name w \<notin> storage_name ` set (active_segments t)"
        using rows w(1) unfolding rows_ok_def by blast
      have "(if recording_id q = recording_id r' then r' else q) \<in> set (recordings ?t)" using q(1) by auto
      then show "is_ascii (upload_recording_id v) \<and> storage_name v \<notin> storage_name ` set (active_segments ?t) \<and>
          (\<exists>q\<in>set (recordings ?t). recording_id q = upload_recording_id v \<and> recording_status q = ''uploading'')"
        using q a w r(4) by (metis put_recording_rows(2) put_upload_rows(2))
    qed
  qed (use rows in \<open>unfold rows_ok_def, blast\<close>)+
qed

lemma used_bytes_pending:
  assumes rows: "rows_ok t" and r: "r \<in> set (recordings t)" "recording_id r' = recording_id r"
      "recording_status r = ''uploading''" "recording_status r' = ''uploading''"
    and u: "u \<in> set (recording_uploads t)" "upload_recording_id u' = upload_recording_id u"
      "expected_size_bytes u' = expected_size_bytes u"
  shows "recording_used_bytes None None (put_upload u' (put_recording r' t)) = recording_used_bytes None None t"
proof -
  have d: "distinct (map recording_id (recordings t))" "distinct (map upload_recording_id (recording_uploads t))"
    using rows by (simp_all add: rows_ok_def)
  show ?thesis
    using sum_replace_row [OF d(1) r(1), of ready_bytes r'] sum_replace_row [OF d(2) u(1), of expected_size_bytes u'] r u(2,3)
    by (simp add: used_bytes_alt ready_bytes_def)
qed

lemma upload_content_cases:
  assumes run: "upload_recording_content settings cipher i device request nonce now commit_ok s = (r, s')" and "s' \<noteq> s"
  obtains recording upload offset body recording' upload' d where
    "open_upload ''Recording is not accepting content'' i device (tables s) = Inr (Inr (recording, upload))"
    "store_chunk settings cipher None nonce now offset body (recording, upload, disk s) = Inr (recording', upload', d)"
    "s' = (if commit_ok then \<lparr>tables = put_upload upload' (put_recording recording' (tables s)), disk = d\<rparr> else s\<lparr>disk := d\<rparr>)"
    "commit_ok \<Longrightarrow> r = Inr (as_upload_response recording' (Some upload'))"
proof -
  obtain offset recording upload where o: "header_upload_offset request = Some offset"
    "open_upload ''Recording is not accepting content'' i device (tables s) = Inr (Inr (recording, upload))"
    using assms by (auto simp: upload_recording_content_def split: option.splits if_splits sum.splits)
  obtain body where b: "read_bounded_chunk (header_content_length request) (body_parts request) (recording_chunk_limit_bytes settings) = Inr body"
    using assms o by (cases "read_bounded_chunk (header_content_length request) (body_parts request) (recording_chunk_limit_bytes settings)")
      (auto simp: upload_recording_content_def split: if_splits)
  obtain x where c: "store_chunk settings cipher None nonce now (nat offset) body (recording, upload, disk s) = Inr x"
    using assms o b by (cases "store_chunk settings cipher None nonce now (nat offset) body (recording, upload, disk s)")
      (auto simp: upload_recording_content_def split: if_splits)
  obtain recording' upload' d where x: "x = (recording', upload', d)" by (cases x) auto
  show thesis
    by (rule that [OF o(2) c [unfolded x]]) (use assms o b c x in \<open>auto simp: upload_recording_content_def split: if_splits\<close>)
qed

lemma upload_content_inv:
  assumes inv: "recording_inv settings cipher s" and cipher: "cipher_ready cipher" "length nonce = 12"
    and run: "upload_recording_content settings cipher i device request nonce now commit_ok s = (r, s')"
  shows "recording_inv settings cipher s'"
proof (cases "s' = s")
  case False
  obtain recording upload offset body recording' upload' d where
    o: "open_upload ''Recording is not accepting content'' i device (tables s) = Inr (Inr (recording, upload))"
    and c: "store_chunk settings cipher None nonce now offset body (recording, upload, disk s) = Inr (recording', upload', d)"
    and s': "s' = (if commit_ok then \<lparr>tables = put_upload upload' (put_recording recording' (tables s)), disk = d\<rparr> else s\<lparr>disk := d\<rparr>)"
    by (rule upload_content_cases [OF run False])
  note rows = open_upload_rows [OF o]
  have ok: "rows_ok (tables s)" "storage_ok settings cipher (tables s) (disk s)"
    "recording_used_bytes None None (tables s) \<le> recording_quota_bytes settings" using inv by (simp_all add: recording_inv_def)
  obtain content where h: "upload_holds settings cipher (upload_recording_id upload) upload (disk s) content"
    using ok(2) rows(3) unfolding storage_ok_def by blast
  have ascii: "is_ascii (upload_recording_id upload)" using ok(1) rows(3) unfolding rows_ok_def by blast
  have id: "upload_recording_id upload = (if truthy None then the None else recording_id recording)" using rows(4) by simp
  note chunk = store_chunk_Inr [OF c id h cipher(1) ascii cipher(2)]
  have row: "recording_id recording' = recording_id recording" "recording_status recording' = ''uploading''"
    "upload_recording_id upload' = upload_recording_id upload" "storage_name upload' = storage_name upload"
    "expected_size_bytes upload' = expected_size_bytes upload"
    using store_chunk_rows [OF c] rows(2) by auto
  have other: "map_of (uploads d) (storage_name v) = map_of (uploads (disk s)) (storage_name v)"
    if "v \<in> set (recording_uploads (tables s))" "v \<noteq> upload" for v
    using store_chunk_elsewhere(2) [OF c] row_unique [of storage_name] ok(1) that rows(3) unfolding rows_ok_def by metis
  have old: "\<exists>content. upload_holds settings cipher (upload_recording_id upload) upload d content"
    using store_chunk_disk [OF c] h upload_holds_leftover [OF h] by metis
  have new: "\<exists>content. upload_holds settings cipher (upload_recording_id upload') upload' d content"
    using chunk h row(3) by metis
  have load: "is_ok (load_media settings cipher q d)" if "q \<in> set (ready_rows (tables s))" for q
    using load_media_cong [of q d "disk s"] store_chunk_elsewhere(1) [OF c] ok(2) that unfolding storage_ok_def by metis
  have "storage_ok settings cipher (tables s) d"
    unfolding storage_ok_def using other old load ok(2) upload_holds_cong unfolding storage_ok_def by metis
  then have kept: "recording_inv settings cipher (s\<lparr>disk := d\<rparr>)" using ok by (simp add: recording_inv_def)
  let ?t = "put_upload upload' (put_recording recording' (tables s))"
  note put = rows_ok_pending [OF ok(1) rows(1) row(1) rows(2) row(2) rows(3) row(3,4)]
  have "\<exists>content. upload_holds settings cipher (upload_recording_id v) v d content" if "v \<in> set (recording_uploads ?t)" for v
  proof (cases "v = upload'")
    case False
    then have v: "v \<in> set (recording_uploads (tables s))" "upload_recording_id v \<noteq> upload_recording_id upload"
      using that row(3) by (auto split: if_splits)
    then have "map_of (uploads d) (storage_name v) = map_of (uploads (disk s)) (storage_name v)" using other by blast
    then show ?thesis using v(1) ok(2) upload_holds_cong unfolding storage_ok_def by metis
  qed (use new in simp)
  then have "storage_ok settings cipher ?t d" unfolding storage_ok_def put(2) using load by blast
  moreover have "recording_used_bytes None None ?t = recording_used_bytes None None (tables s)"
    by (rule used_bytes_pending [OF ok(1) rows(1) row(1) rows(2) row(2) rows(3) row(3,5)])
  ultimately have "recording_inv settings cipher \<lparr>tables = ?t, disk = d\<rparr>" using ok put(1) by (simp add: recording_inv_def)
  then show ?thesis using s' kept by (cases commit_ok) simp_all
qed (use inv in simp)

section \<open>Completing a recording\<close>

lemma finalize_Inr:
  assumes "finalize_recording settings cipher ffmpeg nonce uuid now recording upload s = Inr (recording', d)"
    and cipher: "cipher_ready cipher" "length nonce = 12" "is_ascii (recording_id recording)"
    and uuid: "length uuid = 32" "list_all hex_char uuid"
  obtains n f where "recording_id recording' = recording_id recording" "recording_status recording' = ''ready''"
    "media_storage_name recording' = Some (uuid @ ''.rec'')" "media_bytes recording' = n"
    "recording_used_bytes (Some (recording_id recording)) None (tables s) + n \<le> recording_quota_bytes settings"
    "d = (disk s)\<lparr>media := AList.update (uuid @ ''.rec'') f (media (disk s))\<rparr>"
    "is_ok (load_media settings cipher recording' d)"
proof -
  obtain source where 1: "read_uploaded_wav settings cipher None recording upload (disk s) = Inr source"
    using assms(1) by (cases "read_uploaded_wav settings cipher None recording upload (disk s)") (auto simp: finalize_recording_def)
  obtain details where 2: "inspect_caller_wav source (recording_duration_ms recording) = Inr details"
    using assms(1) 1 by (cases "inspect_caller_wav source (recording_duration_ms recording)") (auto simp: finalize_recording_def)
  obtain encoded where 3: "transcode_voicemail ffmpeg source = Inr encoded"
    using assms(1) 1 2 by (cases "transcode_voicemail ffmpeg source") (auto simp: finalize_recording_def)
  obtain encrypted where e: "encrypt_media cipher nonce (recording_id recording) encoded = Inr encrypted"
    using assms(1) 1 2 3 by (cases "encrypt_media cipher nonce (recording_id recording) encoded") (auto simp: finalize_recording_def)
  have space: "recording_used_bytes (Some (recording_id recording)) None (tables s) + length encrypted \<le> recording_quota_bytes settings"
    and r: "recording' = recording\<lparr>recording_duration_ms := details_duration_ms details, media_key_version := Some (cipher_version cipher),
        media_storage_name := Some (uuid @ ''.rec''), media_size_bytes := Some (length encrypted),
        media_sha256 := Some (content_sha256 settings encoded), recording_status := ''ready'', recording_updated_at := now\<rparr>"
    and d: "d = (disk s)\<lparr>media := AList.update (uuid @ ''.rec'') (private_file settings encrypted) (media (disk s))\<rparr>"
    using assms(1) 1 2 3 e by (auto simp: finalize_recording_def Let_def split: if_splits)
  have trip: "media_version encrypted = Inr (cipher_version cipher)"
    "decrypt_media cipher (recording_id recording) encrypted = Inr encoded"
    using media_round_trip [OF cipher(1,3,2), of encoded] e keeps_key_refl by (metis sum.inject(2))+
  have "media_name_valid (uuid @ ''.rec'')" using uuid by (simp add: media_name_valid_def)
  then have "load_media settings cipher recording' d = Inr encoded"
    using trip by (simp add: load_media_def media_path_def r d update_conv)
  then show thesis using that [of "length encrypted"] space d by (simp add: r media_bytes_def)
qed

lemma complete_cases:
  assumes run: "complete_recording settings cipher ffmpeg i device nonce uuid now commit_ok s = (r, s')" and "s' \<noteq> s"
  obtains recording upload recording' d where
    "open_upload ''Recording cannot be completed'' i device (tables s) = Inr (Inr (recording, upload))"
    "finalize_recording settings cipher ffmpeg nonce uuid now recording upload s = Inr (recording', d)"
    "s' = (if commit_ok then \<lparr>tables = delete_upload (recording_id recording') (put_recording recording' (tables s)),
        disk = snd (remove_upload_files settings upload d)\<rparr> else s\<lparr>disk := unlink (the (media_storage_name recording')) d\<rparr>)"
proof -
  obtain recording upload where o: "open_upload ''Recording cannot be completed'' i device (tables s) = Inr (Inr (recording, upload))"
    using assms by (auto simp: complete_recording_def split: sum.splits)
  obtain x where f: "finalize_recording settings cipher ffmpeg nonce uuid now recording upload s = Inr x"
    using assms o by (cases "finalize_recording settings cipher ffmpeg nonce uuid now recording upload s")
      (auto simp: complete_recording_def)
  obtain recording' d where x: "x = (recording', d)" by (cases x) auto
  show thesis
    by (rule that [OF o f [unfolded x]])
      (use assms o f x in \<open>auto simp: complete_recording_def split: if_splits prod.splits\<close>)
qed

lemma remove_upload_elsewhere:
  "media (snd (remove_upload_files settings upload d)) = media d"
  "n \<noteq> storage_name upload \<Longrightarrow> map_of (uploads (snd (remove_upload_files settings upload d))) n = map_of (uploads d) n"
  by (auto simp: remove_upload_files_def Let_def update_conv delete_conv' split: sum.splits recording_error.splits)

lemma rows_ok_complete:
  assumes rows: "rows_ok t" and r: "r \<in> set (recordings t)" "recording_id r' = recording_id r"
      "recording_status r' = ''ready''" "media_storage_name r' \<notin> media_storage_name ` set (recordings t)"
  shows "rows_ok (delete_upload (recording_id r') (put_recording r' t))"
proof -
  let ?t = "delete_upload (recording_id r') (put_recording r' t)"
  have u: "recording_uploads ?t = filter (\<lambda>u. upload_recording_id u \<noteq> recording_id r') (recording_uploads t)"
    "recordings ?t = recordings (put_recording r' t)" "segments ?t = segments t"
    by (simp_all add: delete_upload_def)
  have ids: "map recording_id (recordings ?t) = map recording_id (recordings t)" using put_recording_ids u(2) by metis
  have old: "q \<in> set (recordings t) \<and> recording_id q \<noteq> recording_id r'" if "q \<in> set (recordings ?t)" "q \<noteq> r'" for q
    using that u(2) by auto
  show ?thesis
    unfolding rows_ok_def ids
  proof (intro conjI ballI impI)
    show "distinct (map recording_id (recordings t))" using rows unfolding rows_ok_def by blast
    show "distinct (map upload_recording_id (recording_uploads ?t))" "distinct (map storage_name (recording_uploads ?t))"
      using rows by (simp_all add: u(1) rows_ok_def distinct_map_filter)
  next
    fix a b assume "a \<in> set (ready_rows ?t)" "b \<in> set (ready_rows ?t)" and eq: "media_storage_name a = media_storage_name b"
    then have ab: "a \<in> set (recordings ?t)" "b \<in> set (recordings ?t)" "recording_status a = ''ready''" "recording_status b = ''ready''"
      by auto
    show "recording_id a = recording_id b"
    proof (cases "a = r' \<or> b = r'")
      case True
      then show ?thesis using ab eq old r(4) by (metis image_eqI)
    next
      case False
      then have "a \<in> set (ready_rows t)" "b \<in> set (ready_rows t)" using ab old by auto
      then show ?thesis using rows eq unfolding rows_ok_def by blast
    qed
  next
    fix u assume v: "u \<in> set (recording_uploads ?t)"
    then have m: "u \<in> set (recording_uploads t)" "upload_recording_id u \<noteq> recording_id r'" using u(1) by auto
    then show "is_ascii (upload_recording_id u)" "storage_name u \<notin> storage_name ` set (active_segments ?t)"
      using rows u(3) unfolding rows_ok_def by auto
    obtain q where "q \<in> set (recordings t)" "recording_id q = upload_recording_id u" "recording_status q = ''uploading''"
      using rows m(1) unfolding rows_ok_def by blast
    then show "\<exists>q\<in>set (recordings ?t). recording_id q = upload_recording_id u \<and> recording_status q = ''uploading''"
      using m(2) u(2) by (intro bexI [of _ q]) auto
  qed
qed

lemma used_bytes_complete:
  assumes "rows_ok t" "r \<in> set (recordings t)" "recording_id r' = recording_id r"
    "recording_status r = ''uploading''" "recording_status r' = ''ready''"
  shows "recording_used_bytes None None (delete_upload (recording_id r') (put_recording r' t)) =
    recording_used_bytes (Some (recording_id r)) None t + media_bytes r'"
proof -
  have d: "distinct (map recording_id (recordings t))" using assms(1) by (simp add: rows_ok_def)
  have f: "filter (\<lambda>u. upload_recording_id u \<noteq> recording_id r) us = filter (\<lambda>u. recording_id r \<noteq> upload_recording_id u) us" for us
    by (rule filter_cong) auto
  show ?thesis
    using sum_replace_row [OF d assms(2), of ready_bytes r'] assms(3-5)
    by (simp add: used_bytes_alt ready_bytes_def delete_upload_def f)
qed

lemma complete_recording_inv:
  assumes inv: "recording_inv settings cipher s" and cipher: "cipher_ready cipher" "length nonce = 12"
    and fresh: "fresh_uuid uuid s"
    and run: "complete_recording settings cipher ffmpeg i device nonce uuid now commit_ok s = (r, s')"
  shows "recording_inv settings cipher s'"
proof (cases "s' = s")
  case False
  obtain recording upload recording' d where
    o: "open_upload ''Recording cannot be completed'' i device (tables s) = Inr (Inr (recording, upload))"
    and f: "finalize_recording settings cipher ffmpeg nonce uuid now recording upload s = Inr (recording', d)"
    and s': "s' = (if commit_ok then \<lparr>tables = delete_upload (recording_id recording') (put_recording recording' (tables s)),
        disk = snd (remove_upload_files settings upload d)\<rparr> else s\<lparr>disk := unlink (the (media_storage_name recording')) d\<rparr>)"
    by (rule complete_cases [OF run False])
  note rows = open_upload_rows [OF o]
  have ok: "rows_ok (tables s)" "storage_ok settings cipher (tables s) (disk s)" using inv by (simp_all add: recording_inv_def)
  have ascii: "is_ascii (recording_id recording)" using ok(1) rows(3,4) unfolding rows_ok_def by metis
  have uuid: "length uuid = 32" "list_all hex_char uuid" "Some (uuid @ ''.rec'') \<notin> media_storage_name ` set (recordings (tables s))"
    using fresh by (simp_all add: fresh_uuid_def)
  obtain n file' where m: "recording_id recording' = recording_id recording" "recording_status recording' = ''ready''"
    "media_storage_name recording' = Some (uuid @ ''.rec'')" "media_bytes recording' = n"
    "recording_used_bytes (Some (recording_id recording)) None (tables s) + n \<le> recording_quota_bytes settings"
    "d = (disk s)\<lparr>media := AList.update (uuid @ ''.rec'') file' (media (disk s))\<rparr>"
    "is_ok (load_media settings cipher recording' d)"
    by (rule finalize_Inr [OF f cipher ascii uuid(1,2)])
  have name: "media_storage_name q \<noteq> Some (uuid @ ''.rec'')" if "q \<in> set (ready_rows (tables s))" for q
    using that uuid(3) by (metis filter_is_subset image_eqI subsetD)
  have "keeps_owned (tables s) (disk s) (unlink (uuid @ ''.rec'') d)"
    using name by (auto simp: keeps_owned_def unlink_conv m(6) update_conv)
  then have kept: "recording_inv settings cipher (s\<lparr>disk := unlink (the (media_storage_name recording')) d\<rparr>)"
    using inv_frame [OF inv] m(3) by simp
  let ?t = "delete_upload (recording_id recording') (put_recording recording' (tables s))"
  let ?d = "snd (remove_upload_files settings upload d)"
  have media: "media ?d = media d" by (rule remove_upload_elsewhere)
  have "is_ok (load_media settings cipher q ?d)" if q: "q \<in> set (ready_rows ?t)" for q
  proof (cases "q = recording'")
    case True
    then show ?thesis using m(7) load_media_cong [of q ?d d settings cipher] media by simp
  next
    case False
    then have old: "q \<in> set (ready_rows (tables s))" using q by (auto simp: delete_upload_def)
    have "load_media settings cipher q ?d = load_media settings cipher q (disk s)"
      by (rule load_media_cong) (use name [OF old] in \<open>simp add: remove_upload_elsewhere(1) m(6) update_conv\<close>)
    then show ?thesis using ok(2) old unfolding storage_ok_def by metis
  qed
  moreover have "\<exists>content. upload_holds settings cipher (upload_recording_id v) v ?d content" if "v \<in> set (recording_uploads ?t)" for v
  proof -
    have v: "v \<in> set (recording_uploads (tables s))" "v \<noteq> upload" using that rows(4) m(1) by (auto simp: delete_upload_def)
    have "storage_name v \<noteq> storage_name upload" using row_unique [of storage_name] ok(1) v rows(3) unfolding rows_ok_def by metis
    then have "map_of (uploads ?d) (storage_name v) = map_of (uploads (disk s)) (storage_name v)"
      by (simp add: remove_upload_elsewhere m(6))
    then show ?thesis using ok(2) v(1) upload_holds_cong unfolding storage_ok_def by metis
  qed
  ultimately have "storage_ok settings cipher ?t ?d" unfolding storage_ok_def by blast
  moreover have "rows_ok ?t"
    by (rule rows_ok_complete [OF ok(1) rows(1) m(1,2)]) (use uuid(3) m(3) in simp)
  moreover have "recording_used_bytes None None ?t \<le> recording_quota_bytes settings"
    using used_bytes_complete [OF ok(1) rows(1) m(1) rows(2) m(2)] m(4,5) by simp
  ultimately show ?thesis using s' kept by (cases commit_ok) (simp_all add: recording_inv_def)
qed (use inv in simp)

end
