(* ===== verification/Recording_Safety.thy ===== *)
theory Recording_Safety
  imports Recording_Laws
begin

text \<open>
  Deletion, retention and maintenance keep the invariant of the recording service, and so does every
  sequence of requests. The last sections show what a crash in the middle of a deletion leaves to the
  recovery, and the two ways in which maintenance and unfinished work get in each other's way.
\<close>

section \<open>Removing recordings\<close>

lemma rows_okD:
  assumes "rows_ok t"
  shows "distinct (map recording_id (recordings t))"
    "a \<in> set (ready_rows t) \<Longrightarrow> b \<in> set (ready_rows t) \<Longrightarrow> media_storage_name a = media_storage_name b \<Longrightarrow> a = b"
proof -
  show d: "distinct (map recording_id (recordings t))" using assms by (simp add: rows_ok_def)
  assume ab: "a \<in> set (ready_rows t)" "b \<in> set (ready_rows t)" "media_storage_name a = media_storage_name b"
  then have "recording_id a = recording_id b" using assms unfolding rows_ok_def by blast
  moreover have "a \<in> set (recordings t)" "b \<in> set (recordings t)" using ab(1,2) by simp_all
  ultimately show "a = b" using row_unique [OF d] by blast
qed

text \<open>Rows in which some ready recordings became tombstones.\<close>

definition removed_rows :: "Recording list \<Rightarrow> (Recording \<Rightarrow> Recording) \<Rightarrow> recording_tables \<Rightarrow> recording_tables" where
  "removed_rows gone f t = t\<lparr>recordings := map (\<lambda>r. if r \<in> set gone then f r else r) (recordings t)\<rparr>"

lemma tombstone_fields [simp]:
  "recording_id (tombstone_recording now reason r) = recording_id r"
  "recording_status (tombstone_recording now reason r) = ''deleted''"
  by (simp_all add: tombstone_recording_def)

lemma removed_rows_ready:
  assumes "\<And>r. recording_status (f r) = ''deleted''"
  shows "set (ready_rows (removed_rows gone f t)) = set (ready_rows t) - set gone"
  using assms by (auto simp: removed_rows_def)

lemma removed_rows_ok:
  assumes rows: "rows_ok t" and gone: "\<forall>r\<in>set gone. recording_status r = ''ready''"
    and f: "\<And>r. recording_id (f r) = recording_id r" "\<And>r. recording_status (f r) = ''deleted''"
  shows "rows_ok (removed_rows gone f t)"
proof -
  let ?t = "removed_rows gone f t"
  have ids: "map recording_id (recordings ?t) = map recording_id (recordings t)"
    by (simp add: removed_rows_def f(1) cong: if_cong)
  have other: "recording_uploads ?t = recording_uploads t" "segments ?t = segments t" by (simp_all add: removed_rows_def)
  have sub: "set (ready_rows ?t) \<subseteq> set (ready_rows t)" using removed_rows_ready [of f, OF f(2)] by blast
  show ?thesis
    unfolding rows_ok_def ids other
  proof (intro conjI ballI impI)
    fix a b assume "a \<in> set (ready_rows ?t)" "b \<in> set (ready_rows ?t)" "media_storage_name a = media_storage_name b"
    then show "recording_id a = recording_id b" using sub rows unfolding rows_ok_def by blast
  next
    fix u assume u: "u \<in> set (recording_uploads t)"
    then show "is_ascii (upload_recording_id u)" "storage_name u \<notin> storage_name ` set (active_segments t)"
      using rows unfolding rows_ok_def by blast+
    obtain r where r: "r \<in> set (recordings t)" "recording_id r = upload_recording_id u" "recording_status r = ''uploading''"
      using rows u unfolding rows_ok_def by blast
    then have "r \<notin> set gone" using gone by auto
    then have "r \<in> set (recordings ?t)" using r(1) by (force simp: removed_rows_def)
    then show "\<exists>r\<in>set (recordings ?t). recording_id r = upload_recording_id u \<and> recording_status r = ''uploading''"
      using r by blast
  qed (use rows in \<open>unfold rows_ok_def, blast\<close>)+
qed

lemma removed_rows_used:
  assumes "\<And>r. recording_status (f r) = ''deleted''"
  shows "recording_used_bytes None None (removed_rows gone f t) \<le> recording_used_bytes None None t"
proof -
  have "(\<Sum>r\<leftarrow>map (\<lambda>r. if r \<in> set gone then f r else r) rs. ready_bytes r) \<le> (\<Sum>r\<leftarrow>rs. ready_bytes r)" for rs
    by (induction rs) (auto simp: ready_bytes_def assms)
  then show ?thesis by (simp add: used_bytes_alt removed_rows_def)
qed

text \<open>
  The storage after the removal is committed: exactly the media files of the removed recordings are gone.
\<close>

lemma removed_storage_ok:
  assumes rows: "rows_ok t" and ok: "storage_ok settings cipher t d"
    and gone: "set gone \<subseteq> set (ready_rows t)" and names: "map (\<lambda>i. Some (original i)) items = map media_storage_name gone"
    and f: "\<And>r. recording_status (f r) = ''deleted''"
    and d': "uploads d' = uploads d" "\<And>name. media_name_valid name \<Longrightarrow>
      map_of (media d') name = (if name \<in> original ` set items then None else map_of (media d) name)"
  shows "storage_ok settings cipher (removed_rows gone f t) d'"
proof -
  let ?t = "removed_rows gone f t"
  have "is_ok (load_media settings cipher r d')" if r: "r \<in> set (ready_rows ?t)" for r
  proof -
    have old: "r \<in> set (ready_rows t)" "r \<notin> set gone" using r removed_rows_ready [of f, OF f] by auto
    have keep: "name \<notin> original ` set items" if "media_storage_name r = Some name" for name
    proof
      assume "name \<in> original ` set items"
      then have "Some name \<in> set (map (\<lambda>i. Some (original i)) items)" by auto
      then obtain g where g: "g \<in> set gone" "media_storage_name g = Some name" unfolding names by auto
      have "g \<in> set (ready_rows t)" using gone g(1) by blast
      then have "g = r" by (rule rows_okD(2) [OF rows _ old(1)]) (simp add: g(2) that)
      then show False using g(1) old(2) by simp
    qed
    have "load_media settings cipher r d' = load_media settings cipher r d"
      by (rule load_media_cong) (use keep d'(2) in simp)
    then show ?thesis using ok old(1) unfolding storage_ok_def by metis
  qed
  moreover have "\<exists>content. upload_holds settings cipher (upload_recording_id u) u d' content"
    if "u \<in> set (recording_uploads ?t)" for u
  proof -
    have "u \<in> set (recording_uploads t)" using that by (simp add: removed_rows_def)
    then obtain content where "upload_holds settings cipher (upload_recording_id u) u d content"
      using ok unfolding storage_ok_def by blast
    then show ?thesis using upload_holds_cong [of d' u d] d'(1) by auto
  qed
  ultimately show ?thesis unfolding storage_ok_def by blast
qed

lemma same_media_keeps:
  "uploads d' = uploads d \<Longrightarrow> (\<And>name. media_name_valid name \<Longrightarrow> map_of (media d') name = map_of (media d) name) \<Longrightarrow>
     keeps_owned t d d'"
  by (simp add: keeps_owned_def)

text \<open>How a removal ends, in the rows and in the storage.\<close>

lemma settle_inv:
  assumes inv: "recording_inv settings cipher s" and q: "quarantined_from settings (disk s) items d"
    and gone: "set gone \<subseteq> set (ready_rows (tables s))" and names: "map (\<lambda>i. Some (original i)) items = map media_storage_name gone"
    and f: "\<And>r. recording_id (f r) = recording_id r" "\<And>r. recording_status (f r) = ''deleted''"
    and t': "\<And>d'. rows_ok (removed_rows gone f (tables s)) \<Longrightarrow>
        recording_used_bytes None None (removed_rows gone f (tables s)) \<le> recording_quota_bytes settings \<Longrightarrow>
        storage_ok settings cipher (removed_rows gone f (tables s)) d' \<Longrightarrow>
        recording_inv settings cipher \<lparr>tables = t', disk = d'\<rparr>"
    and s': "s' = snd (settle_purge settings commit_ok (tables s) items t' d)"
  shows "recording_inv settings cipher s'"
proof (cases commit_ok)
  case True
  obtain d' where d': "s' = \<lparr>tables = t', disk = d'\<rparr>" "uploads d' = uploads (disk s)"
    "\<forall>name. media_name_valid name \<longrightarrow>
       map_of (media d') name = (if name \<in> original ` set items then None else map_of (media (disk s)) name)"
    using settle_purge_commit [OF q, of "tables s" t'] s' True by auto
  have ok: "rows_ok (tables s)" "storage_ok settings cipher (tables s) (disk s)"
    "recording_used_bytes None None (tables s) \<le> recording_quota_bytes settings" using inv by (simp_all add: recording_inv_def)
  have "\<forall>r\<in>set gone. recording_status r = ''ready''" using gone by auto
  then show ?thesis unfolding d'(1)
    using removed_rows_ok [OF ok(1) _ f] removed_rows_used [of f gone "tables s", OF f(2)] ok(3)
      removed_storage_ok [OF ok(1,2) gone names f(2) d'(2)] d'(3)
    by (intro t') auto
next
  case False
  obtain d' where d': "s' = \<lparr>tables = tables s, disk = d'\<rparr>" "uploads d' = uploads (disk s)"
    "\<forall>name. media_name_valid name \<longrightarrow> map_of (media d') name = map_of (media (disk s)) name"
    using settle_purge_rollback [OF q, of "tables s" t'] s' False by auto
  then have "recording_inv settings cipher (s\<lparr>disk := d'\<rparr>)"
    by (intro inv_frame [OF inv] same_media_keeps) auto
  then show ?thesis using d'(1) by (cases s) simp
qed

lemma settle_plain:
  "rows_ok t \<Longrightarrow> recording_used_bytes None None t \<le> recording_quota_bytes settings \<Longrightarrow> storage_ok settings cipher t d \<Longrightarrow>
     recording_inv settings cipher \<lparr>tables = t, disk = d\<rparr>"
  by (simp add: recording_inv_def)

lemma put_is_removed:
  assumes "rows_ok t" "r \<in> set (recordings t)" "\<And>q. recording_id (f q) = recording_id q"
  shows "put_recording (f r) t = removed_rows [r] f t"
proof -
  have "(if recording_id q = recording_id (f r) then f r else q) = (if q \<in> set [r] then f q else q)"
    if "q \<in> set (recordings t)" for q
    using row_unique [of recording_id "recordings t" q r] assms that unfolding rows_ok_def by auto
  then show ?thesis by (simp add: put_recording_def removed_rows_def cong: map_cong)
qed

lemma crashed_state: "snd (crashed r x) = snd r"
  by (simp add: crashed_def split: sum.splits)

lemma delete_recording_inv:
  assumes inv: "recording_inv settings cipher s" and run: "delete_recording settings i actor now commit_ok s = (r, s')"
  shows "recording_inv settings cipher s'"
proof (cases "find_recording i (tables s)")
  case None
  then show ?thesis using run inv by (simp add: delete_recording_def)
next
  case (Some recording)
  note row = find_recording_Some [OF Some]
  show ?thesis
  proof (cases "recording_status recording = ''ready'' \<and> is_ok (quarantine_media settings recording (disk s))")
    case False
    then show ?thesis using run inv Some
      by (auto simp: delete_recording_def Let_def split: if_splits sum.splits)
  next
    case True
    obtain item d where q: "quarantine_media settings recording (disk s) = Inr (item, d)" using True by (auto simp: is_ok_iff)
    have rows: "rows_ok (tables s)" using inv by (simp add: recording_inv_def)
    let ?f = "tombstone_recording now ''manual''"
    let ?c = "audit actor ''recording.deleted'' (''recording:'' @ recording_id recording) [] (control_rows (tables s))"
    have "control_rows (removed_rows [recording] ?f (tables s)) = control_rows (tables s)" by (simp add: removed_rows_def)
    then have "(r, s') = crashed (settle_purge settings commit_ok (tables s) [item]
        ((removed_rows [recording] ?f (tables s))\<lparr>control_rows := ?c\<rparr>) d) ()"
      using run Some True q put_is_removed [of "tables s" recording ?f] rows row by (simp add: delete_recording_def Let_def)
    then have settle: "s' = snd (settle_purge settings commit_ok (tables s) [item]
        ((removed_rows [recording] ?f (tables s))\<lparr>control_rows := ?c\<rparr>) d)"
      using crashed_state by (metis snd_conv)
    note step = quarantine_media_step [OF q quarantined_none, simplified]
    show ?thesis
      by (rule settle_inv [OF inv, of "[item]" d "[recording]" ?f, OF _ _ _ _ _ _ settle])
        (use step row True in \<open>auto simp: recording_inv_def\<close>)
  qed
qed

lemma listened_inv:
  assumes inv: "recording_inv settings cipher s" and run: "set_recording_listened i listened actor now commit_ok s = (r, s')"
  shows "recording_inv settings cipher s'"
proof (cases "s' = s")
  case False
  obtain recording where f: "find_recording i (tables s) = Some recording"
    using run False by (auto simp: set_recording_listened_def split: option.splits)
  let ?r = "recording\<lparr>listened_at := (if listened then Some now else None), recording_updated_at := now\<rparr>"
  let ?t = "put_recording ?r (tables s)"
  obtain c where s': "s' = s\<lparr>tables := ?t\<lparr>control_rows := c\<rparr>\<rparr>"
    using run False f by (auto simp: set_recording_listened_def Let_def split: if_splits)
  have row: "recording \<in> set (recordings (tables s))" using find_recording_Some [OF f] by simp
  have ok: "rows_ok (tables s)" "storage_ok settings cipher (tables s) (disk s)"
    "recording_used_bytes None None (tables s) \<le> recording_quota_bytes settings" using inv by (simp_all add: recording_inv_def)
  define g where "g q = (if q = recording then ?r else q)" for q
  have "recordings ?t = map g (recordings (tables s))"
    using row_unique [OF rows_okD(1) [OF ok(1)] _ row] by (auto simp: g_def)
  then have t: "?t = (tables s)\<lparr>recordings := map g (recordings (tables s))\<rparr>" by (simp add: put_recording_def)
  have load: "load_media settings cipher (recording\<lparr>listened_at := x, recording_updated_at := y\<rparr>) d = load_media settings cipher recording d" for x y d
    by (simp add: load_media_def media_path_def cong: if_cong option.case_cong)
  have g: "recording_id (g q) = recording_id q" "recording_status (g q) = recording_status q" "media_bytes (g q) = media_bytes q"
    "media_storage_name (g q) = media_storage_name q" "load_media settings cipher (g q) d = load_media settings cipher q d" for q d
    by (simp_all add: g_def media_bytes_def load)
  have sets: "set (ready_rows ?t) = g ` set (ready_rows (tables s))" by (auto simp: t g)
  have "rows_ok ?t"
    unfolding rows_ok_def
  proof (intro conjI ballI impI)
    fix a b assume "a \<in> set (ready_rows ?t)" "b \<in> set (ready_rows ?t)" and eq: "media_storage_name a = media_storage_name b"
    then obtain a' b' where "a = g a'" "b = g b'" "a' \<in> set (ready_rows (tables s))" "b' \<in> set (ready_rows (tables s))"
      unfolding sets by blast
    then show "recording_id a = recording_id b" using rows_okD(2) [OF ok(1), of a' b'] eq g by simp
  next
    fix u assume "u \<in> set (recording_uploads ?t)"
    then have u: "u \<in> set (recording_uploads (tables s))" by simp
    then show "is_ascii (upload_recording_id u)" "storage_name u \<notin> storage_name ` set (active_segments ?t)"
      using ok(1) unfolding rows_ok_def by auto
    obtain q where q: "q \<in> set (recordings (tables s))" "recording_id q = upload_recording_id u" "recording_status q = ''uploading''"
      using ok(1) u unfolding rows_ok_def by blast
    then show "\<exists>q\<in>set (recordings ?t). recording_id q = upload_recording_id u \<and> recording_status q = ''uploading''"
      by (intro bexI [of _ "g q"]) (simp_all add: t g)
  next
    show "distinct (map recording_id (recordings ?t))" using rows_okD(1) [OF ok(1)] by (simp add: t g o_def)
  qed (use ok(1) in \<open>simp_all add: rows_ok_def\<close>)
  moreover have "storage_ok settings cipher ?t (disk s)" using ok(2) unfolding storage_ok_def sets by (simp add: g)
  moreover have "recording_used_bytes None None ?t = recording_used_bytes None None (tables s)"
  proof -
    have "ready_bytes (g q) = ready_bytes q" for q by (simp add: ready_bytes_def g)
    then show ?thesis by (simp add: used_bytes_alt t o_def)
  qed
  ultimately show ?thesis using ok(3) s' by (simp add: recording_inv_def)
qed (use inv in simp)

section \<open>Retention and abandoned uploads\<close>

text \<open>A purge that ends with an exception, or with rows that are built from the purged rows.\<close>

lemma purge_inv:
  assumes inv: "recording_inv settings cipher s"
    and run: "purge_expired_recordings settings policy now ((tables s)\<lparr>retention_policy := p\<rparr>) (disk s) = (res, d)"
  shows "res = Inl e \<Longrightarrow> recording_inv settings cipher (s\<lparr>disk := d\<rparr>)"
    "res = Inr (items, t2) \<Longrightarrow>
      (\<And>d'. recording_inv settings cipher \<lparr>tables = t2, disk = d'\<rparr> \<Longrightarrow> recording_inv settings cipher \<lparr>tables = t3, disk = d'\<rparr>) \<Longrightarrow>
      recording_inv settings cipher (snd (settle_purge settings commit_ok (tables s) items t3 d))"
proof -
  assume "res = Inl e"
  then show "recording_inv settings cipher (s\<lparr>disk := d\<rparr>)"
    using purge_Inl run by (intro inv_frame [OF inv] same_media_keeps) blast+
next
  assume res: "res = Inr (items, t2)"
    and t3: "\<And>d'. recording_inv settings cipher \<lparr>tables = t2, disk = d'\<rparr> \<Longrightarrow> recording_inv settings cipher \<lparr>tables = t3, disk = d'\<rparr>"
  let ?f = "tombstone_recording now ''retention''"
  obtain gone where q: "quarantined_from settings (disk s) items d" "set gone \<subseteq> set (recordings (tables s))"
    "\<forall>r\<in>set gone. recording_status r = ''ready''" "map (\<lambda>i. Some (original i)) items = map media_storage_name gone"
    "t2 = (removed_rows gone ?f (tables s))\<lparr>retention_policy := p\<rparr>"
    using purge_Inr [OF run [unfolded res]] by (auto simp: removed_rows_def)
  show "recording_inv settings cipher (snd (settle_purge settings commit_ok (tables s) items t3 d))"
  proof (rule settle_inv [OF inv q(1) _ q(4), of ?f])
    show "set gone \<subseteq> set (ready_rows (tables s))" using q(2,3) by auto
    show "recording_inv settings cipher \<lparr>tables = t3, disk = d'\<rparr>"
      if "rows_ok (removed_rows gone ?f (tables s))"
        "recording_used_bytes None None (removed_rows gone ?f (tables s)) \<le> recording_quota_bytes settings"
        "storage_ok settings cipher (removed_rows gone ?f (tables s)) d'" for d'
      by (rule t3) (use that in \<open>simp add: q(5) recording_inv_def\<close>)
  qed simp_all
qed

lemma remove_all_elsewhere:
  "media (snd (remove_all_uploads settings us d)) = media d \<and>
   (\<forall>n. n \<notin> storage_name ` set us \<longrightarrow> map_of (uploads (snd (remove_all_uploads settings us d))) n = map_of (uploads d) n)"
proof (induction us arbitrary: d)
  case (Cons u us)
  obtain r d' where r: "remove_upload_files settings u d = (r, d')" by fastforce
  have "media d' = media d" "\<And>n. n \<noteq> storage_name u \<Longrightarrow> map_of (uploads d') n = map_of (uploads d) n"
    using remove_upload_elsewhere(1) [of settings u d] remove_upload_elsewhere(2) [where upload = u and settings = settings and d = d] r by simp_all
  then show ?case using Cons.IH [of d'] r by (cases r) auto
qed simp

lemma cleanup_inv:
  assumes inv: "recording_inv settings cipher \<lparr>tables = t, disk = d\<rparr>"
    and run: "cleanup_abandoned_uploads settings now t = (abandoned, t')"
  shows "recording_inv settings cipher \<lparr>tables = t', disk = d\<rparr>"
proof -
  define cutoff where "cutoff = now - hours (recording_abandoned_upload_hours settings)"
  define old where "old u \<longleftrightarrow> upload_updated_at u < cutoff \<and>
    upload_recording_id u \<notin> set (map continuous_recording_id (continuous_recordings t))" for u :: RecordingUpload
  define stale where "stale s \<longleftrightarrow> segment_status s = ''uploading'' \<and> upload_updated_at s < cutoff" for s :: ConversationRecordingSegment
  define gone where "gone = filter old (recording_uploads t)"
  define fail where "fail r = (if recording_id r \<in> set (map upload_recording_id gone) \<and> recording_status r = ''uploading''
    then r\<lparr>recording_status := ''failed'', recording_updated_at := now\<rparr> else r)" for r :: Recording
  define drop_segment where "drop_segment s = (if stale s then s\<lparr>segment_status := ''failed'', upload_updated_at := now\<rparr> else s)" for s :: ConversationRecordingSegment
  have c: "abandoned = map upload_row.truncate gone @ map upload_row.truncate (filter stale (segments t))"
    "t' = t\<lparr>recording_uploads := filter (\<lambda>u. u \<notin> set gone) (recording_uploads t),
       recordings := map fail (recordings t), segments := map drop_segment (segments t)\<rparr>"
    using run by (auto simp: cleanup_abandoned_uploads_def Let_def cutoff_def old_def [abs_def] stale_def [abs_def]
        gone_def fail_def [abs_def] drop_segment_def [abs_def])
  have ok: "rows_ok t" "storage_ok settings cipher t d" "recording_used_bytes None None t \<le> recording_quota_bytes settings"
    using inv by (simp_all add: recording_inv_def)
  have up: "distinct (map upload_recording_id (recording_uploads t))" "distinct (map storage_name (recording_uploads t))"
    "distinct (map recording_id (recordings t))" using ok(1) by (simp_all add: rows_ok_def)
  have ready: "ready_rows t' = ready_rows t" unfolding c(2) by simp (rule filter_map_same, auto simp: fail_def)
  have seg: "set (active_segments t') \<subseteq> set (active_segments t)" by (auto simp: c(2) drop_segment_def split: if_splits)
  have ids: "map recording_id (recordings t') = map recording_id (recordings t)" by (simp add: c(2) fail_def)
  show "recording_inv settings cipher \<lparr>tables = t', disk = d\<rparr>"
  proof (rule settle_plain)
    show "rows_ok t'"
      unfolding rows_ok_def ids ready
    proof (intro conjI ballI impI)
      show "distinct (map upload_recording_id (recording_uploads t'))" "distinct (map storage_name (recording_uploads t'))"
        using up by (simp_all add: c(2) distinct_map_filter)
      fix u assume "u \<in> set (recording_uploads t')"
      then have u: "u \<in> set (recording_uploads t)" "u \<notin> set gone" by (simp_all add: c(2))
      then show "is_ascii (upload_recording_id u)" "storage_name u \<notin> storage_name ` set (active_segments t')"
        using ok(1) seg unfolding rows_ok_def by blast+
      obtain r where r: "r \<in> set (recordings t)" "recording_id r = upload_recording_id u" "recording_status r = ''uploading''"
        using ok(1) u(1) unfolding rows_ok_def by blast
      have "upload_recording_id u \<notin> set (map upload_recording_id gone)"
        using row_unique [OF up(1) u(1)] u(2) by (auto simp: gone_def)
      then have "fail r = r" by (simp add: fail_def r(2))
      then show "\<exists>r\<in>set (recordings t'). recording_id r = upload_recording_id u \<and> recording_status r = ''uploading''"
        using r by (force simp: c(2))
    qed (use ok(1) in \<open>unfold rows_ok_def, blast\<close>)+
    show "storage_ok settings cipher t' d"
      using ok(2) unfolding storage_ok_def ready by (auto simp: c(2))
    have "(\<Sum>r\<leftarrow>map fail rs. ready_bytes r) = (\<Sum>r\<leftarrow>rs. ready_bytes r)" for rs
      by (induction rs) (auto simp: fail_def ready_bytes_def)
    moreover have "(\<Sum>u\<leftarrow>filter P us. expected_size_bytes u) \<le> (\<Sum>u\<leftarrow>us. expected_size_bytes u)" for P and us :: "RecordingUpload list"
      by (induction us) auto
    moreover have "(\<Sum>s\<leftarrow>filter (\<lambda>s. segment_status s \<in> {''uploading'', ''verified''}) (map drop_segment ss). expected_size_bytes s)
        \<le> (\<Sum>s\<leftarrow>filter (\<lambda>s. segment_status s \<in> {''uploading'', ''verified''}) ss. expected_size_bytes s)" for ss
      by (induction ss) (auto simp: drop_segment_def)
    ultimately have "recording_used_bytes None None t' \<le> recording_used_bytes None None t"
      unfolding used_bytes_alt c(2) by (simp add: add_mono)
    then show "recording_used_bytes None None t' \<le> recording_quota_bytes settings" using ok(3) by simp
  qed
qed

lemma cleanup_names:
  assumes rows: "rows_ok t" and run: "cleanup_abandoned_uploads settings now t = (abandoned, t')"
    and that: "u \<in> set (recording_uploads t')"
  shows "storage_name u \<notin> storage_name ` set abandoned"
proof
  let ?cutoff = "now - hours (recording_abandoned_upload_hours settings)"
  define gone where "gone = filter (\<lambda>u. upload_updated_at u < ?cutoff \<and>
    upload_recording_id u \<notin> set (map continuous_recording_id (continuous_recordings t))) (recording_uploads t)"
  let ?stale = "\<lambda>s. segment_status s = ''uploading'' \<and> upload_updated_at s < ?cutoff"
  have c: "abandoned = map upload_row.truncate gone @ map upload_row.truncate (filter ?stale (segments t))"
    "recording_uploads t' = filter (\<lambda>u. u \<notin> set gone) (recording_uploads t)"
    using run by (auto simp: cleanup_abandoned_uploads_def Let_def gone_def)
  have u: "u \<in> set (recording_uploads t)" "u \<notin> set gone" using that by (simp_all add: c(2))
  have up: "distinct (map storage_name (recording_uploads t))" using rows by (simp add: rows_ok_def)
  assume "storage_name u \<in> storage_name ` set abandoned"
  then consider v where "v \<in> set gone" "storage_name u = storage_name v"
    | x where "x \<in> set (segments t)" "?stale x" "storage_name u = storage_name x"
    unfolding c(1) by (auto simp: upload_row.truncate_def)
  then show False
  proof cases
    case 1
    then show False using row_unique [OF up u(1), of v] u(2) by (simp add: gone_def)
  next
    case 2
    then have "x \<in> set (active_segments t)" by simp
    then show False using rows u(1) 2(3) unfolding rows_ok_def by blast
  qed
qed

lemma remove_abandoned_inv:
  assumes "recording_inv settings cipher s"
    "\<And>u. u \<in> set (recording_uploads (tables s)) \<Longrightarrow> storage_name u \<notin> storage_name ` set abandoned"
  shows "recording_inv settings cipher (s\<lparr>disk := snd (remove_all_uploads settings abandoned (disk s))\<rparr>)"
  by (rule inv_frame [OF assms(1)]) (use assms(2) remove_all_elsewhere [of settings abandoned "disk s"] in \<open>simp add: keeps_owned_def\<close>)

section \<open>Requests that apply the retention policy\<close>

lemma policy_split:
  obtains policy p where "initialize_retention_policy actor now t = (policy, t\<lparr>retention_policy := p\<rparr>)"
  using policy_tables [of actor now t] by (metis prod.collapse)

lemma apply_retention_inv:
  assumes "recording_inv settings cipher s"
  shows "recording_inv settings cipher (snd (apply_retention settings now commit_ok s))"
proof -
  obtain policy p where i: "initialize_retention_policy (development_admin_email settings) now (tables s) =
      (policy, (tables s)\<lparr>retention_policy := p\<rparr>)" by (rule policy_split)
  obtain res d where r: "purge_expired_recordings settings policy now ((tables s)\<lparr>retention_policy := p\<rparr>) (disk s) = (res, d)"
    by fastforce
  show ?thesis
    using purge_inv(1) [OF assms r] purge_inv(2) [OF assms r, of _ _ _ commit_ok]
    by (auto simp: apply_retention_def i r split: sum.splits)
qed

lemma list_recordings_inv:
  assumes "recording_inv settings cipher s" "list_recordings settings only_unread page page_size kind now commit_ok s = (r, s')"
  shows "recording_inv settings cipher s'"
proof -
  have "s' = snd (apply_retention settings now commit_ok s)"
    using assms(2) crashed_state unfolding list_recordings_def Let_def by (metis snd_conv)
  then show ?thesis using apply_retention_inv [OF assms(1)] by simp
qed

lemma put_settings_inv:
  assumes inv: "recording_inv settings cipher s"
    and run: "put_recording_settings settings new_mode retention actor now commit_ok s = (r, s')"
  shows "recording_inv settings cipher s'"
proof -
  obtain policy p where i: "initialize_retention_policy actor now (tables s) = (policy, (tables s)\<lparr>retention_policy := p\<rparr>)"
    by (rule policy_split)
  let ?p = "policy\<lparr>policy_mode := new_mode, policy_days := retention, policy_updated_at := now, policy_updated_by := actor\<rparr>"
  obtain res d where q: "purge_expired_recordings settings ?p now ((tables s)\<lparr>retention_policy := Some ?p\<rparr>) (disk s) = (res, d)"
    by fastforce
  show ?thesis
  proof (cases res)
    case (Inl e)
    then show ?thesis using run purge_inv(1) [OF inv q] by (simp add: put_recording_settings_def i q Let_def)
  next
    case (Inr x)
    obtain items t2 where x: "x = (items, t2)" by fastforce
    let ?t = "t2\<lparr>control_rows := audit actor ''recording.retention_updated'' ''recording-retention-policy''
      [(''mode'', JString new_mode), (''days'', JInt retention)] (control_rows t2)\<rparr>"
    have "(r, s') = crashed (settle_purge settings commit_ok (tables s) items ?t d) (policy_response settings ?t ?p)"
      using run Inr x by (simp add: put_recording_settings_def i q Let_def)
    then have "s' = snd (settle_purge settings commit_ok (tables s) items ?t d)" by (metis crashed_state snd_conv)
    then show ?thesis using purge_inv(2) [OF inv q Inr [unfolded x], of ?t commit_ok]
      by (simp add: recording_inv_def)
  qed
qed

text \<open>The common end of the requests that also clean up abandoned uploads.\<close>

lemma purge_cleanup_inv:
  assumes inv: "recording_inv settings cipher s"
    and run: "purge_expired_recordings settings policy now ((tables s)\<lparr>retention_policy := p\<rparr>) (disk s) = (Inr (items, t2), d)"
    and cleanup: "cleanup_abandoned_uploads settings now t2 = (abandoned, t3)"
    and settle: "settle_purge settings commit_ok (tables s) items t3 d = (r, s1)"
  shows "recording_inv settings cipher s1"
    "r = Inr () \<Longrightarrow> recording_inv settings cipher (s1\<lparr>disk := snd (remove_all_uploads settings abandoned (disk s1))\<rparr>)"
proof -
  show i: "recording_inv settings cipher s1"
    using purge_inv(2) [OF inv run refl cleanup_inv(1) [OF _ cleanup], of commit_ok] settle by simp
  assume "r = Inr ()"
  then have "tables s1 = t3" using settle by (auto simp: settle_purge_def split: if_splits prod.splits sum.splits)
  obtain gone where "set gone \<subseteq> set (recordings (tables s))" "\<forall>r\<in>set gone. recording_status r = ''ready''"
    "map (\<lambda>i. Some (original i)) items = map media_storage_name gone"
    "t2 = (removed_rows gone (tombstone_recording now ''retention'') (tables s))\<lparr>retention_policy := p\<rparr>"
    using purge_Inr [OF run] by (auto simp: removed_rows_def)
  then have t2: "rows_ok t2"
    using inv removed_rows_ok [of "tables s" gone "tombstone_recording now ''retention''"] by (simp add: recording_inv_def)
  have "storage_name u \<notin> storage_name ` set abandoned" if "u \<in> set (recording_uploads (tables s1))" for u
    using cleanup_names [OF t2 cleanup] that \<open>tables s1 = t3\<close> by simp
  then show "recording_inv settings cipher (s1\<lparr>disk := snd (remove_all_uploads settings abandoned (disk s1))\<rparr>)"
    by (rule remove_abandoned_inv [OF i])
qed

lemma get_settings_inv:
  assumes inv: "recording_inv settings cipher s" and run: "get_recording_settings settings now commit_ok s = (r, s')"
  shows "recording_inv settings cipher s'"
proof -
  obtain policy p where i: "initialize_retention_policy (development_admin_email settings) now (tables s) =
      (policy, (tables s)\<lparr>retention_policy := p\<rparr>)" by (rule policy_split)
  obtain res d where q: "purge_expired_recordings settings policy now ((tables s)\<lparr>retention_policy := p\<rparr>) (disk s) = (res, d)"
    by fastforce
  show ?thesis
  proof (cases res)
    case (Inl e)
    then show ?thesis using run purge_inv(1) [OF inv q] by (simp add: get_recording_settings_def i q)
  next
    case (Inr x)
    obtain items t2 where x: "x = (items, t2)" by fastforce
    obtain abandoned t3 where c: "cleanup_abandoned_uploads settings now t2 = (abandoned, t3)" by fastforce
    obtain res1 s1 where st: "settle_purge settings commit_ok (tables s) items t3 d = (res1, s1)" by fastforce
    note inv1 = purge_cleanup_inv [OF inv q [unfolded Inr x] c st]
    have "s' = (case res1 of Inl e \<Rightarrow> s1 | Inr _ \<Rightarrow> s1\<lparr>disk := snd (remove_all_uploads settings abandoned (disk s1))\<rparr>)"
      using run Inr x c st
      by (auto simp: get_recording_settings_def i q crashed_def split: sum.splits prod.splits)
    then show ?thesis using inv1 by (auto split: sum.splits)
  qed
qed

section \<open>Maintenance\<close>

lemma quarantine_names_invalid: "is_quarantine_name name \<Longrightarrow> \<not> media_name_valid name"
  by (cases name) (auto simp: is_quarantine_name_def media_name_valid_def hex_char_def)

lemma owned_present:
  assumes "storage_ok settings cipher t d" "r \<in> set (recordings t)" "recording_status r = ''ready''" "media_storage_name r = Some name"
  shows "map_of (media d) name \<noteq> None"
proof -
  have "is_ok (load_media settings cipher r d)" using assms(1-3) unfolding storage_ok_def by simp
  then obtain content where "load_media settings cipher r d = Inr content" by (auto simp: is_ok_iff)
  then show ?thesis by (rule load_media_path) (use assms(4) in \<open>auto simp: require_safe_file_Inr\<close>)
qed

lemma keeps_unlink:
  assumes "\<not> media_name_valid name \<or> (\<forall>r\<in>set (ready_rows t). media_storage_name r \<noteq> Some name)"
  shows "keeps_owned t d (unlink name d)"
  using assms unfolding keeps_owned_def by (auto simp: unlink_conv)

lemma reconcile_names_keeps:
  "storage_ok settings cipher t d \<Longrightarrow> \<forall>n\<in>set names. is_quarantine_name n \<Longrightarrow>
     reconcile_names settings t names d = (r, d') \<Longrightarrow> keeps_owned t d d'"
proof (induction names arbitrary: d)
  case (Cons name names)
  show ?case
  proof (cases "require_safe_file settings (map_of (media d) name)")
    case (Inl e)
    then show ?thesis using Cons.prems(3) by simp
  next
    case (Inr f)
    show ?thesis
    proof (cases "list_ex (\<lambda>r. media_storage_name r = Some (drop 8 name) \<and> recording_status r = ''ready'') (recordings t)")
      case True
      then have "map_of (media d) (drop 8 name) \<noteq> None" using owned_present [OF Cons.prems(1)] by (auto simp: list_ex_iff)
      then show ?thesis using Cons.prems(3) Inr True by simp
    next
      case False
      have k: "keeps_owned t d (unlink name d)"
        by (rule keeps_unlink) (use Cons.prems(2) quarantine_names_invalid in auto)
      have run: "reconcile_names settings t names (unlink name d) = (r, d')" using Cons.prems(3) Inr False by simp
      have "keeps_owned t (unlink name d) d'"
        by (rule Cons.IH [OF storage_ok_frame [OF Cons.prems(1) k] _ run]) (use Cons.prems(2) in simp)
      with k show ?thesis by (rule keeps_owned_trans)
    qed
  qed
qed simp

lemma temporary_name_invalid: "starts_with ''.media-'' name \<or> starts_with ''.playback-'' name \<Longrightarrow> \<not> media_name_valid name"
  by (cases name) (auto simp: starts_with_def media_name_valid_def hex_char_def)

lemma reconcile_entries_keeps:
  "reconcile_entries settings t names d = (r, d') \<Longrightarrow> keeps_owned t d d'"
proof (induction names arbitrary: d)
  case (Cons name names)
  have step: "keeps_owned t d d'" if "reconcile_entries settings t names d1 = (r, d')" "keeps_owned t d d1" for d1
    using Cons.IH [OF that(1)] that(2) keeps_owned_trans by blast
  have u1: "keeps_owned t d (unlink name d)" if "starts_with ''.media-'' name \<or> starts_with ''.playback-'' name"
    by (rule keeps_unlink) (use temporary_name_invalid [OF that] in simp)
  have u2: "keeps_owned t d (unlink name d)"
    if "\<not> list_ex (\<lambda>r. media_storage_name r = Some name \<and> recording_status r \<in> {''ready'', ''processing''}) (recordings t)"
    by (rule keeps_unlink) (use that in \<open>auto simp: list_ex_iff\<close>)
  show ?case
    using Cons.prems step [OF _ keeps_owned_refl] step [OF _ u1] step [OF _ u2]
    by (auto split: if_splits option.splits sum.splits)
qed simp

lemma reconcile_uploads_keeps:
  "reconcile_uploads settings t names d = (r, d') \<Longrightarrow> keeps_owned t d d'"
proof (induction names arbitrary: d)
  case (Cons name names)
  have del: "keeps_owned t d (d\<lparr>uploads := AList.delete name (uploads d)\<rparr>)"
    "keeps_owned t d (d\<lparr>uploads := AList.update name x (uploads d)\<rparr>)" if "name \<notin> set (active_upload_names t)" for x
    using that by (auto simp: keeps_owned_def active_upload_names_def delete_conv' update_conv)
  have step: "keeps_owned t d d'" if "reconcile_uploads settings t names d1 = (r, d')" "keeps_owned t d d1" for d1
    using Cons.IH [OF that(1)] that(2) keeps_owned_trans by blast
  show ?case
    using Cons.prems step [OF _ keeps_owned_refl] step [OF _ del(1)] del(2)
    by (auto simp: Let_def split: if_splits prod.splits sum.splits)
qed simp

lemma reconcile_storage_keeps:
  assumes "reconcile_recording_storage settings t d = (r, d')"
  shows "keeps_owned t d d'"
proof -
  obtain r1 d1 where e: "reconcile_entries settings t (map fst (media d)) d = (r1, d1)" by fastforce
  show ?thesis
    using assms reconcile_entries_keeps [OF e] reconcile_uploads_keeps keeps_owned_trans
    by (cases r1) (auto simp: reconcile_recording_storage_def e)
qed

lemma maintain_inv:
  assumes inv: "recording_inv settings cipher s" and run: "maintain_recordings settings now commit_ok s = (r, s')"
  shows "recording_inv settings cipher s'"
proof -
  have ok: "storage_ok settings cipher (tables s) (disk s)" using inv by (simp add: recording_inv_def)
  obtain r1 d1 where 1: "reconcile_quarantined_media settings (tables s) (disk s) = (r1, d1)" by fastforce
  have k1: "keeps_owned (tables s) (disk s) d1"
    by (rule reconcile_names_keeps [OF ok _ 1 [unfolded reconcile_quarantined_media_def]]) simp
  obtain r2 d2 where 2: "reconcile_recording_storage settings (tables s) d1 = (r2, d2)" by fastforce
  have k2: "keeps_owned (tables s) (disk s) d2" using k1 reconcile_storage_keeps [OF 2] by (rule keeps_owned_trans)
  note inv1 = inv_frame [OF inv k1] and inv2 = inv_frame [OF inv k2]
  obtain policy p where i: "initialize_retention_policy (development_admin_email settings) now (tables s) =
      (policy, (tables s)\<lparr>retention_policy := p\<rparr>)" by (rule policy_split)
  obtain res d where q: "purge_expired_recordings settings policy now ((tables s)\<lparr>retention_policy := p\<rparr>) d2 = (res, d)"
    by fastforce
  have q': "purge_expired_recordings settings policy now ((tables (s\<lparr>disk := d2\<rparr>))\<lparr>retention_policy := p\<rparr>) (disk (s\<lparr>disk := d2\<rparr>)) = (res, d)"
    using q by simp
  show ?thesis
  proof (cases "is_ok r1 \<and> is_ok r2 \<and> is_ok res")
    case False
    then consider "s' = s\<lparr>disk := d1\<rparr>" | "s' = s\<lparr>disk := d2\<rparr>" | e where "res = Inl e" "s' = s\<lparr>disk := d\<rparr>"
      using run by (auto simp: maintain_recordings_def 1 2 i q is_ok_iff Let_def split: sum.splits)
    then show ?thesis using inv1 inv2 purge_inv(1) [OF inv2 q'] by cases auto
  next
    case True
    then obtain items t2 where ok: "r1 = Inr ()" "r2 = Inr ()" "res = Inr (items, t2)" by (auto simp: is_ok_iff)
    obtain abandoned t3 where c: "cleanup_abandoned_uploads settings now t2 = (abandoned, t3)" by fastforce
    obtain res1 s1 where st: "settle_purge settings commit_ok (tables s) items t3 d = (res1, s1)" by fastforce
    have st': "settle_purge settings commit_ok (tables (s\<lparr>disk := d2\<rparr>)) items t3 d = (res1, s1)" using st by simp
    note inv3 = purge_cleanup_inv [OF inv2 q' [unfolded ok(3)] c st']
    have "s' = (case res1 of Inl e \<Rightarrow> s1 | Inr _ \<Rightarrow> s1\<lparr>disk := snd (remove_all_uploads settings abandoned (disk s1))\<rparr>)"
      using run ok c st by (auto simp: maintain_recordings_def 1 2 i q Let_def split: sum.splits prod.splits)
    then show ?thesis using inv3 by (auto split: sum.splits)
  qed
qed

end
