(* ===== verification/Recording_Service.thy ===== *)
theory Recording_Service
  imports Recording_Safety
begin

text \<open>
  What the recording service promises, over sequences of requests: the quota, the availability of every
  recording that was reported as ready, the meaning of an acknowledgement, recovery after a crash, and
  the byte ranges of playback; and three places where the code does not do what it means to.
\<close>

section \<open>Sequences of requests\<close>

inductive recording_step ::
  "recording_settings \<Rightarrow> RecordingCipher \<Rightarrow> (string \<Rightarrow> bytes \<Rightarrow> (int \<times> bytes) option) \<Rightarrow> recording_state \<Rightarrow> recording_state \<Rightarrow> bool"
  for settings cipher ffmpeg where
  create: "recording_step settings cipher ffmpeg s s'"
    if "create_recording settings device body uuid now commit_ok s = (result, s')" "fresh_uuid uuid s" "is_ascii (create_recording_id body)"
| content: "recording_step settings cipher ffmpeg s s'"
    if "upload_recording_content settings cipher i device request nonce now commit_ok s = (result, s')" "length nonce = 12"
| complete: "recording_step settings cipher ffmpeg s s'"
    if "complete_recording settings cipher ffmpeg i device nonce uuid now commit_ok s = (result, s')" "fresh_uuid uuid s" "length nonce = 12"
| list: "recording_step settings cipher ffmpeg s s'"
    if "list_recordings settings only_unread page page_size kind now commit_ok s = (rows, s')"
| listened: "recording_step settings cipher ffmpeg s s'"
    if "set_recording_listened i listened actor now commit_ok s = (row, s')"
| delete: "recording_step settings cipher ffmpeg s s'"
    if "delete_recording settings i actor now commit_ok s = (nothing, s')"
| get_settings: "recording_step settings cipher ffmpeg s s'"
    if "get_recording_settings settings now commit_ok s = (policy, s')"
| put_settings: "recording_step settings cipher ffmpeg s s'"
    if "put_recording_settings settings new_mode retention actor now commit_ok s = (policy, s')"
| maintain: "recording_step settings cipher ffmpeg s s'"
    if "maintain_recordings settings now commit_ok s = (outcome, s')"

lemma recording_step_inv:
  "recording_step settings cipher ffmpeg s s' \<Longrightarrow> cipher_ready cipher \<Longrightarrow> recording_inv settings cipher s \<Longrightarrow> recording_inv settings cipher s'"
proof (induction rule: recording_step.induct)
  case create
  then show ?case using create_recording_inv by blast
next
  case content
  then show ?case using upload_content_inv by blast
next
  case complete
  then show ?case using complete_recording_inv by blast
next
  case list
  then show ?case using list_recordings_inv by blast
next
  case listened
  then show ?case using listened_inv by blast
next
  case delete
  then show ?case using delete_recording_inv by blast
next
  case get_settings
  then show ?case using get_settings_inv by blast
next
  case put_settings
  then show ?case using put_settings_inv by blast
next
  case maintain
  then show ?case using maintain_inv by blast
qed

lemma recording_steps_inv:
  assumes "(recording_step settings cipher ffmpeg)\<^sup>*\<^sup>* s s'" "cipher_ready cipher" "recording_inv settings cipher s"
  shows "recording_inv settings cipher s'"
  using assms by (induction rule: rtranclp_induct) (auto intro: recording_step_inv)

text \<open>
  Over every sequence of voicemail requests and maintenance runs, with accepted and failed commits, the
  bytes in use, reservations of unfinished uploads included, never exceed the quota, and every recording
  that is marked as ready can be played: its media file is present, authentic, and has the recorded size,
  key version and hash.
\<close>

theorem recording_requests_safe:
  assumes "(recording_step settings cipher ffmpeg)\<^sup>*\<^sup>* s s'" "cipher_ready cipher" "recording_inv settings cipher s"
  shows "recording_used_bytes None None (tables s') \<le> recording_quota_bytes settings \<and>
    (\<forall>r\<in>set (recordings (tables s')). recording_status r = ''ready'' \<longrightarrow>
       (\<exists>audio. load_media settings cipher r (disk s') = Inr audio))"
proof -
  have "recording_inv settings cipher s'" using recording_steps_inv [OF assms] .
  then show ?thesis by (auto simp: recording_inv_def storage_ok_def is_ok_iff)
qed

text \<open>The state of a new installation, and a state with one voicemail.\<close>

definition empty_recordings :: recording_state where
  "empty_recordings = \<lparr>tables = \<lparr>control_rows = empty_database, calls = [], recordings = [], recording_uploads = [], segments = [],
     continuous_recordings = [], retention_policy = None\<rparr>, disk = \<lparr>media = [], uploads = []\<rparr>\<rparr>"

lemma empty_recordings_inv: "recording_inv settings cipher empty_recordings"
  by (simp add: recording_inv_def rows_ok_def storage_ok_def recording_used_bytes_def empty_recordings_def)

definition demo_name :: string where
  "demo_name = replicate 32 CHR ''0'' @ ''.rec''"

definition demo_payload :: bytes where
  "demo_payload = MEDIA_MAGIC @ big_endian 4 1 @ replicate 12 CHR ''n'' @ ''ID3'' @ replicate 16 CHR ''t''"

definition demo_ready :: Recording where
  "demo_ready = demo_recording\<lparr>recording_status := ''ready'', media_key_version := Some 1, media_storage_name := Some demo_name,
     media_size_bytes := Some 42, media_sha256 := Some ''ID3''\<rparr>"

definition demo_service :: recording_state where
  "demo_service = empty_recordings\<lparr>tables := (tables empty_recordings)\<lparr>recordings := [demo_ready]\<rparr>,
     disk := \<lparr>media = [(demo_name, private_file demo_recording_settings demo_payload)], uploads = []\<rparr>\<rparr>"

lemma demo_version: "from_big_endian (big_endian 4 1) = 1"
  by (rule big_endian_inverse) simp

lemma demo_load: "load_media demo_recording_settings demo_cipher demo_ready (disk demo_service) = Inr ''ID3''"
proof -
  have e: "take 7 demo_payload = MEDIA_MAGIC" "take 4 (drop 7 demo_payload) = big_endian 4 1"
    "drop 23 demo_payload = ''ID3'' @ replicate 16 CHR ''t''" "length demo_payload = 42"
    by (simp_all add: demo_payload_def)
  have "media_name_valid demo_name" by (simp add: media_name_valid_def demo_name_def hex_char_def list_all_iff)
  moreover have "media_version demo_payload = Inr 1" by (simp add: media_version_def e demo_version [simplified])
  moreover have "decrypt_media demo_cipher ''r1'' demo_payload = Inr ''ID3''"
    by (simp add: decrypt_media_def e demo_version [simplified] Let_def recording_key_def demo_cipher_def demo_library_def encode_ascii_def)
  ultimately show ?thesis
    by (simp add: load_media_def media_path_def demo_ready_def demo_recording_def demo_service_def empty_recordings_def e
        demo_recording_settings_def [THEN arg_cong [of _ _ content_sha256]]) (simp add: demo_name_def)
qed

lemma demo_service_inv: "recording_inv demo_recording_settings demo_cipher demo_service"
proof -
  have "recordings (tables demo_service) = [demo_ready]" "recording_uploads (tables demo_service) = []" "segments (tables demo_service) = []"
    by (simp_all add: demo_service_def empty_recordings_def)
  moreover have "media_bytes demo_ready = 42" "recording_status demo_ready = ''ready''"
    by (simp_all add: demo_ready_def media_bytes_def)
  moreover have "recording_quota_bytes demo_recording_settings = 10000" by (simp add: demo_recording_settings_def)
  ultimately show ?thesis using demo_load
    by (simp add: recording_inv_def rows_ok_def storage_ok_def recording_used_bytes_def)
qed

lemma demo_listened_step:
  "recording_step demo_recording_settings demo_cipher (\<lambda>_ _. None) demo_service
     (snd (set_recording_listened ''r1'' True ''admin'' 5 True demo_service))"
  by (rule recording_step.listened) (rule prod.collapse [symmetric])

lemma demo_listened_ready:
  "\<exists>r. r \<in> set (recordings (tables (snd (set_recording_listened ''r1'' True ''admin'' 5 True demo_service)))) \<and>
     recording_status r = ''ready''"
  by (simp add: set_recording_listened_def find_recording_def put_recording_def demo_service_def demo_ready_def
      demo_recording_def Let_def)

theorem recording_requests_safe_witness:
  "\<exists>s'. s' = snd (set_recording_listened ''r1'' True ''admin'' 5 True demo_service) \<and>
     recording_used_bytes None None (tables s') \<le> recording_quota_bytes demo_recording_settings \<and>
     (\<exists>r audio. r \<in> set (recordings (tables s')) \<and> load_media demo_recording_settings demo_cipher r (disk s') = Inr audio)"
  using recording_requests_safe [OF r_into_rtranclp [of "recording_step demo_recording_settings demo_cipher (\<lambda>_ _. None)",
      OF demo_listened_step] demo_cipher_ready demo_service_inv] demo_listened_ready by blast

section \<open>Acknowledgements\<close>

text \<open>The replies that a device gets about one of its recordings.\<close>

inductive device_reply ::
  "recording_settings \<Rightarrow> RecordingCipher \<Rightarrow> (string \<Rightarrow> bytes \<Rightarrow> (int \<times> bytes) option) \<Rightarrow>
   recording_state \<Rightarrow> RecordingUploadResponse \<Rightarrow> recording_state \<Rightarrow> bool"
  for settings cipher ffmpeg where
  created: "device_reply settings cipher ffmpeg s response s'"
    if "create_recording settings device body uuid now commit_ok s = (Inr response, s')" "fresh_uuid uuid s" "is_ascii (create_recording_id body)"
| reported: "device_reply settings cipher ffmpeg s response s'"
    if "recording_upload_status i device s = (Inr response, s')"
| stored: "device_reply settings cipher ffmpeg s response s'"
    if "upload_recording_content settings cipher i device request nonce now commit_ok s = (Inr response, s')" "length nonce = 12"
| completed: "device_reply settings cipher ffmpeg s response s'"
    if "complete_recording settings cipher ffmpeg i device nonce uuid now commit_ok s = (Inr response, s')" "fresh_uuid uuid s" "length nonce = 12"

lemma device_reply_inv:
  "device_reply settings cipher ffmpeg s response s' \<Longrightarrow> cipher_ready cipher \<Longrightarrow> recording_inv settings cipher s \<Longrightarrow>
     recording_inv settings cipher s'"
proof (induction rule: device_reply.induct)
  case created
  then show ?case using create_recording_inv by blast
next
  case reported
  then show ?case by (simp add: recording_upload_status_def)
next
  case stored
  then show ?case using upload_content_inv by blast
next
  case completed
  then show ?case using complete_recording_inv by blast
qed

text \<open>A reply describes a row of the new state.\<close>

definition describes :: "recording_tables \<Rightarrow> RecordingUploadResponse \<Rightarrow> bool" where
  "describes t response \<longleftrightarrow> (\<exists>r\<in>set (recordings t). \<exists>u. response = as_upload_response r u)"

lemma owned_row: "get_owned_recording t i device = Inr r \<Longrightarrow> r \<in> set (recordings t)"
  using find_recording_Some by (fastforce simp: get_owned_recording_def split: option.splits if_splits)

lemma put_recording_member: "q \<in> set (recordings t) \<Longrightarrow> recording_id q = recording_id r \<Longrightarrow> r \<in> set (recordings (put_recording r t))"
  by (auto simp: image_iff intro!: bexI [of _ q])

lemma open_upload_reported: "open_upload refusal i device t = Inr (Inl response) \<Longrightarrow> describes t response"
  using owned_row by (fastforce simp: open_upload_def describes_def bind_result_Inr split: if_splits option.splits)

lemma create_describes:
  assumes "create_recording settings device body uuid now commit_ok s = (Inr response, s')"
  shows "describes (tables s') response"
proof (cases "find_recording (create_recording_id body) (tables s)")
  case None
  then show ?thesis using assms
    by (auto simp: create_recording_def describes_def Let_def split: sum.splits if_splits)
next
  case (Some existing)
  note row = find_recording_Some [OF Some]
  have run: "resume_recording settings device body uuid now commit_ok existing s = (Inr response, s')"
    using assms Some by (simp add: create_recording_def)
  show ?thesis
  proof (cases "recording_status existing = ''failed'' \<and> find_upload (create_recording_id body) (tables s) = None")
    case False
    then have "s' = s" "\<exists>u. response = as_upload_response existing u"
      using run by (auto simp: resume_recording_def Let_def split: if_splits)
    then show ?thesis using row by (auto simp: describes_def)
  next
    case True
    let ?r = "existing\<lparr>recording_status := ''uploading'', recording_updated_at := now\<rparr>"
    obtain t where t: "require_recording_capacity settings (create_expected_size_bytes body) now (tables s) = Inr t"
      using run True by (auto simp: resume_recording_def Let_def split: if_splits sum.splits)
    have rows: "recordings t = recordings (tables s)" using t by (rule capacity_Inr) simp
    have "recordings (tables s') = recordings (put_recording ?r t)" "\<exists>u. response = as_upload_response ?r u"
      using run True t by (auto simp: resume_recording_def Let_def split: if_splits sum.splits)
    moreover have "?r \<in> set (recordings (put_recording ?r t))"
      by (rule put_recording_member [of existing]) (use row rows in simp_all)
    ultimately show ?thesis by (auto simp: describes_def)
  qed
qed

lemma content_describes:
  assumes "upload_recording_content settings cipher i device request nonce now commit_ok s = (Inr response, s')"
  shows "describes (tables s') response"
proof -
  obtain offset x where o: "header_upload_offset request = Some offset"
    "open_upload ''Recording is not accepting content'' i device (tables s) = Inr x"
    using assms by (auto simp: upload_recording_content_def split: option.splits if_splits sum.splits)
  show ?thesis
  proof (cases x)
    case (Inl r)
    then show ?thesis using assms o open_upload_reported
      by (fastforce simp: upload_recording_content_def split: if_splits)
  next
    case (Inr y)
    obtain recording upload where y: "y = (recording, upload)" by fastforce
    note rows = open_upload_rows [OF o(2) [unfolded Inr y]]
    let ?read = "read_bounded_chunk (header_content_length request) (body_parts request) (recording_chunk_limit_bytes settings)"
    obtain body where body: "?read = Inr body"
      using assms o Inr y by (cases ?read) (auto simp: upload_recording_content_def split: if_splits)
    obtain recording' upload' d where c: "store_chunk settings cipher None nonce now (nat offset) body (recording, upload, disk s) =
        Inr (recording', upload', d)"
      using assms o Inr y body
      by (cases "store_chunk settings cipher None nonce now (nat offset) body (recording, upload, disk s)")
        (auto simp: upload_recording_content_def split: if_splits)
    have s': "tables s' = put_upload upload' (put_recording recording' (tables s))"
      "response = as_upload_response recording' (Some upload')"
      using assms o Inr y body c by (auto simp: upload_recording_content_def split: if_splits)
    have "recording_id recording' = recording_id recording" using store_chunk_rows [OF c] by auto
    then have "recording' \<in> set (recordings (tables s'))"
      using put_recording_member [OF rows(1), of recording'] by (simp add: s'(1))
    then show ?thesis using s'(2) by (auto simp: describes_def)
  qed
qed

lemma complete_describes:
  assumes "complete_recording settings cipher ffmpeg i device nonce uuid now commit_ok s = (Inr response, s')"
  shows "describes (tables s') response"
proof -
  obtain x where o: "open_upload ''Recording cannot be completed'' i device (tables s) = Inr x"
    using assms by (auto simp: complete_recording_def split: sum.splits)
  show ?thesis
  proof (cases x)
    case (Inl r)
    then show ?thesis using assms o open_upload_reported by (fastforce simp: complete_recording_def)
  next
    case (Inr y)
    obtain recording upload where y: "y = (recording, upload)" by fastforce
    note rows = open_upload_rows [OF o [unfolded Inr y]]
    obtain recording' d where f: "finalize_recording settings cipher ffmpeg nonce uuid now recording upload s = Inr (recording', d)"
      and s': "recordings (tables s') = recordings (put_recording recording' (tables s))" "response = as_upload_response recording' None"
      using assms o Inr y by (auto simp: complete_recording_def delete_upload_def split: if_splits sum.splits prod.splits)
    have "recording_id recording' = recording_id recording"
      using f by (auto simp: finalize_recording_def bind_result_Inr Let_def split: if_splits)
    then have "recording' \<in> set (recordings (tables s'))"
      using put_recording_member [OF rows(1), of recording'] by (simp add: s'(1))
    then show ?thesis using s'(2) by (auto simp: describes_def)
  qed
qed

lemma device_reply_describes: "device_reply settings cipher ffmpeg s response s' \<Longrightarrow> describes (tables s') response"
proof (induction rule: device_reply.induct)
  case created
  then show ?case using create_describes by blast
next
  case (reported i device s response s')
  then show ?case using owned_row by (fastforce simp: recording_upload_status_def describes_def bind_result_Inr)
next
  case stored
  then show ?case using content_describes by blast
next
  case completed
  then show ?case using complete_describes by blast
qed

text \<open>
  C15: A device may discard its copy once the server acknowledges a recording. Every reply that acknowledges
  a recording, in any state that voicemail requests can reach, names a recording of the server that is
  either ready and can be played, or has been deleted.
\<close>

theorem acknowledged_is_stored:
  assumes "device_reply settings cipher ffmpeg s response s'" "acknowledged response"
    and "cipher_ready cipher" "recording_inv settings cipher s"
  shows "\<exists>r\<in>set (recordings (tables s')). recording_id r = response_id response \<and>
    (recording_status r = ''ready'' \<and> (\<exists>audio. load_media settings cipher r (disk s') = Inr audio) \<or>
     recording_status r = ''deleted'')"
proof -
  obtain r u where r: "r \<in> set (recordings (tables s'))" "response = as_upload_response r u"
    using device_reply_describes [OF assms(1)] unfolding describes_def by blast
  have "recording_inv settings cipher s'" using device_reply_inv assms by blast
  then have "\<exists>audio. load_media settings cipher r (disk s') = Inr audio" if "recording_status r = ''ready''"
    using r(1) that by (auto simp: recording_inv_def storage_ok_def is_ok_iff)
  then show ?thesis using r assms(2) by (intro bexI [of _ r]) (auto simp: as_upload_response_def)
qed

definition demo_tablet :: Device where
  "demo_tablet = \<lparr>device_id = ''d1'', display_name = [], token_hash = [], app_version = [], helper_version = [],
     device_status = [], desired_revision_id = None, active_revision_id = None, revoked = False\<rparr>"

lemma demo_reply:
  "recording_upload_status ''r1'' demo_tablet demo_service = (Inr (as_upload_response demo_ready None), demo_service)"
  by (simp add: recording_upload_status_def get_owned_recording_def find_recording_def find_upload_def demo_service_def
      empty_recordings_def demo_ready_def demo_recording_def demo_tablet_def)

theorem acknowledged_is_stored_witness:
  "\<exists>r\<in>set (recordings (tables demo_service)). recording_id r = ''r1'' \<and>
    (recording_status r = ''ready'' \<and> (\<exists>audio. load_media demo_recording_settings demo_cipher r (disk demo_service) = Inr audio) \<or>
     recording_status r = ''deleted'')"
proof -
  have "device_reply demo_recording_settings demo_cipher (\<lambda>_ _. None) demo_service (as_upload_response demo_ready None) demo_service"
    using demo_reply by (rule device_reply.reported)
  from acknowledged_is_stored [OF this _ demo_cipher_ready demo_service_inv] show ?thesis
    by (simp add: as_upload_response_def demo_ready_def demo_recording_def)
qed

section \<open>Playback\<close>

lemma parse_range_Inr:
  assumes "parse_range header media_size = Inr (Some (a, b))"
  shows "0 \<le> a \<and> a \<le> b \<and> b < int media_size"
  using assms
  by (auto simp: parse_range_def Let_def bind_result_Inr split: option.splits if_splits list.splits)

text \<open>
  C29: The answer to a byte range request carries exactly the bytes that its Content-Range header announces,
  and these lie within the recording.
\<close>

theorem range_response_exact:
  assumes "media_response content header = Inr (206, part, Some (a, b))"
  shows "0 \<le> a \<and> a \<le> b \<and> b < int (length content) \<and> int (length part) = b + 1 - a \<and>
    content = take (nat a) content @ part @ drop (nat b + 1) content"
proof -
  have p: "parse_range header (length content) = Inr (Some (a, b))"
    and part: "part = take (nat (b + 1 - a)) (drop (nat a) content)"
    using assms by (auto simp: media_response_def bind_result_Inr split: option.splits)
  note r = parse_range_Inr [OF p]
  have n: "nat (b + 1 - a) + nat a = nat b + 1" using r by linarith
  have "drop (nat a) content = part @ drop (nat b + 1) content"
    unfolding part n [symmetric] by (metis append_take_drop_id drop_drop)
  then have "content = take (nat a) content @ part @ drop (nat b + 1) content" by (metis append_take_drop_id)
  moreover have "int (length part) = b + 1 - a" using r unfolding part length_take length_drop by arith
  ultimately show ?thesis using r by blast
qed

lemma demo_range: "media_response ''abcdef'' (Some ''bytes=1-3'') = Inr (206, ''bcd'', Some (1, 3))"
  by (simp add: media_response_def parse_range_def starts_with_def py_int_def strip_def is_space_def unsigned_int_def
      is_digit_def decimal_value_def)

theorem range_response_exact_witness:
  "''abcdef'' = take (nat 1) ''abcdef'' @ ''bcd'' @ drop (nat 3 + 1) ''abcdef''"
  using range_response_exact [OF demo_range] by blast

text \<open>
  A Range header whose bounds have no hyphen is not answered with status 416, as every other malformed
  range is: the index error of the missing second bound escapes.
\<close>

theorem range_without_hyphen_escapes:
  "media_response content (Some ''bytes=5'') = Inl (Crashed (OtherError ''IndexError'')) \<and>
   media_response content (Some ''bytes='') = Inl (Crashed (OtherError ''IndexError''))"
  by (simp add: media_response_def parse_range_def starts_with_def py_int_def strip_def is_space_def unsigned_int_def
      is_digit_def decimal_value_def)

section \<open>Recovery after a crash\<close>

lemma quarantine_name_pattern:
  "media_name_valid name \<Longrightarrow> is_quarantine_name (quarantine_name name)" "drop 8 (quarantine_name name) = name"
proof -
  show "drop 8 (quarantine_name name) = name" by (simp add: quarantine_name_def)
  assume v: "media_name_valid name"
  have "drop 40 (quarantine_name name) = drop 32 name" by (simp add: quarantine_name_def)
  then show "is_quarantine_name (quarantine_name name)"
    using v by (simp add: is_quarantine_name_def media_name_valid_def) (simp add: quarantine_name_def)
qed

lemma quarantined_listing:
  assumes "\<forall>n\<in>set (map fst (media d)). \<not> is_quarantine_name n" "map_of (media d) name = Some f" "media_name_valid name"
  shows "filter is_quarantine_name (map fst (media (os_replace name (quarantine_name name) d))) = [quarantine_name name]"
proof -
  have q: "is_quarantine_name (quarantine_name name)" using assms(3) by (rule quarantine_name_pattern)
  have new: "quarantine_name name \<notin> set (map fst (AList.delete name (media d)))"
    using assms(1) q by (auto simp: delete_keys)
  have "map fst (media (os_replace name (quarantine_name name) d)) = map fst (AList.delete name (media d)) @ [quarantine_name name]"
    using assms(2) new by (simp add: os_replace_def update_keys)
  moreover have "filter is_quarantine_name (map fst (AList.delete name (media d))) = []"
    using assms(1) by (auto simp: filter_empty_conv delete_keys)
  ultimately show ?thesis using q by simp
qed

text \<open>The storage right after a file was moved into an empty quarantine.\<close>

lemma quarantined_state:
  assumes none: "\<forall>n\<in>set (map fst (media (disk s))). \<not> is_quarantine_name n"
    and q: "quarantine_media settings recording (disk s) = Inr (item, d)"
  obtains name f where "media_storage_name recording = Some name" "media_name_valid name" "map_of (media (disk s)) name = Some f"
    "item = \<lparr>original = name, quarantine = quarantine_name name\<rparr>" "uploads d = uploads (disk s)"
    "map_of (media d) = (map_of (media (disk s)))(name := None, quarantine_name name \<mapsto> f)"
    "filter is_quarantine_name (map fst (media d)) = [quarantine_name name]"
    "require_safe_file settings (map_of (media d) (quarantine_name name)) = Inr f"
proof -
  obtain name f where m: "media_storage_name recording = Some name" "media_name_valid name"
    "map_of (media (disk s)) name = Some f" "is_ok (require_safe_file settings (Some f))"
    "item = \<lparr>original = name, quarantine = quarantine_name name\<rparr>" "uploads d = uploads (disk s)"
    "map_of (media d) = (map_of (media (disk s)))(name := None, quarantine_name name \<mapsto> f)"
    by (rule quarantine_media_Inr [OF q])
  have d: "d = os_replace name (quarantine_name name) (disk s)"
    using q m(1,2) by (auto simp: quarantine_media_def media_path_def bind_result_Inr Let_def split: if_splits)
  have "filter is_quarantine_name (map fst (media d)) = [quarantine_name name]"
    unfolding d by (rule quarantined_listing [OF none m(3,2)])
  moreover have "require_safe_file settings (map_of (media d) (quarantine_name name)) = Inr f"
    using m(4,7) by (auto simp: is_ok_iff require_safe_file_Inr)
  ultimately show thesis using that m by blast
qed

lemma crash_before_commit:
  assumes inv: "recording_inv settings cipher s"
    and none: "\<forall>n\<in>set (map fst (media (disk s))). \<not> is_quarantine_name n"
    and r: "find_recording i (tables s) = Some recording" "recording_status recording = ''ready''"
    and q: "quarantine_media settings recording (disk s) = Inr (item, d)"
  shows "\<exists>d'. reconcile_quarantined_media settings (tables s) d = (Inr (), d') \<and>
      load_media settings cipher recording d' = load_media settings cipher recording (disk s) \<and>
      recording_inv settings cipher (s\<lparr>disk := d'\<rparr>)"
proof -
  obtain name f where m: "media_storage_name recording = Some name" "media_name_valid name" "map_of (media (disk s)) name = Some f"
    "item = \<lparr>original = name, quarantine = quarantine_name name\<rparr>" "uploads d = uploads (disk s)"
    "map_of (media d) = (map_of (media (disk s)))(name := None, quarantine_name name \<mapsto> f)"
    and list: "filter is_quarantine_name (map fst (media d)) = [quarantine_name name]"
    and safe: "require_safe_file settings (map_of (media d) (quarantine_name name)) = Inr f"
    by (rule quarantined_state [OF none q])
  let ?undone = "os_replace (quarantine_name name) name d"
  have restored: "map_of (media ?undone) = (map_of (media (disk s)))(quarantine_name name := None)"
    using os_replace_conv [of d "quarantine_name name" f name] m(2,3,6) by (auto simp: fun_eq_iff)
  have owner: "list_ex (\<lambda>r. media_storage_name r = Some name \<and> recording_status r = ''ready'') (recordings (tables s))"
    using find_recording_Some [OF r(1)] r(2) m(1) by (auto simp: list_ex_iff)
  have run: "reconcile_quarantined_media settings (tables s) d = (Inr (), ?undone)"
    using safe owner m(2,6) by (simp add: reconcile_quarantined_media_def list quarantine_name_pattern(2) Let_def)
  have same: "map_of (media ?undone) n = map_of (media (disk s)) n" if "media_name_valid n" for n
    using that by (simp add: restored)
  have "load_media settings cipher recording ?undone = load_media settings cipher recording (disk s)"
    by (rule load_media_cong) (use same in blast)
  moreover have "recording_inv settings cipher (s\<lparr>disk := ?undone\<rparr>)"
    by (rule inv_frame [OF inv same_media_keeps]) (use same m(5) in simp_all)
  ultimately show ?thesis using run by blast
qed

lemma crash_after_commit:
  assumes inv: "recording_inv settings cipher s"
    and none: "\<forall>n\<in>set (map fst (media (disk s))). \<not> is_quarantine_name n"
    and r: "find_recording i (tables s) = Some recording" "recording_status recording = ''ready''"
    and q: "quarantine_media settings recording (disk s) = Inr (item, d)"
  shows "\<exists>d'. reconcile_quarantined_media settings (put_recording (tombstone_recording now ''manual'' recording) (tables s)) d = (Inr (), d') \<and>
      map_of (media d') (original item) = None \<and> map_of (media d') (quarantine item) = None \<and>
      recording_inv settings cipher \<lparr>tables = put_recording (tombstone_recording now ''manual'' recording) (tables s), disk = d'\<rparr>"
proof -
  obtain name f where m: "media_storage_name recording = Some name" "media_name_valid name" "map_of (media (disk s)) name = Some f"
    "item = \<lparr>original = name, quarantine = quarantine_name name\<rparr>" "uploads d = uploads (disk s)"
    "map_of (media d) = (map_of (media (disk s)))(name := None, quarantine_name name \<mapsto> f)"
    and list: "filter is_quarantine_name (map fst (media d)) = [quarantine_name name]"
    and safe: "require_safe_file settings (map_of (media d) (quarantine_name name)) = Inr f"
    by (rule quarantined_state [OF none q])
  note row = find_recording_Some [OF r(1)]
  have ok: "rows_ok (tables s)" "storage_ok settings cipher (tables s) (disk s)"
    "recording_used_bytes None None (tables s) \<le> recording_quota_bytes settings" using inv by (simp_all add: recording_inv_def)
  let ?f = "tombstone_recording now ''manual''" let ?t = "put_recording (?f recording) (tables s)"
  let ?gone = "unlink (quarantine_name name) d"
  have t: "?t = removed_rows [recording] ?f (tables s)" by (rule put_is_removed [OF ok(1)]) (use row in simp_all)
  have "\<not> list_ex (\<lambda>r. media_storage_name r = Some name \<and> recording_status r = ''ready'') (recordings ?t)"
  proof
    assume "list_ex (\<lambda>r. media_storage_name r = Some name \<and> recording_status r = ''ready'') (recordings ?t)"
    then obtain x where x: "x \<in> set (ready_rows ?t)" "media_storage_name x = Some name" by (auto simp: list_ex_iff)
    then have "x \<in> set (ready_rows (tables s))" "x \<noteq> recording" using removed_rows_ready [of ?f "[recording]" "tables s"] t by auto
    then show False using rows_okD(2) [OF ok(1), of x recording] row r(2) x(2) m(1) by auto
  qed
  then have run: "reconcile_quarantined_media settings ?t d = (Inr (), ?gone)"
    using safe by (simp add: reconcile_quarantined_media_def list quarantine_name_pattern(2) Let_def del: put_recording_rows)
  have gone: "map_of (media ?gone) = (map_of (media (disk s)))(name := None, quarantine_name name := None)"
    by (simp add: unlink_conv m(6))
  have "storage_ok settings cipher (removed_rows [recording] ?f (tables s)) ?gone"
    by (rule removed_storage_ok [OF ok(1,2), of "[recording]" "[item]"])
      (use row r(2) m gone in \<open>auto simp: fun_upd_def\<close>)
  then have "recording_inv settings cipher \<lparr>tables = ?t, disk = ?gone\<rparr>"
    unfolding t using removed_rows_ok [OF ok(1), of "[recording]" ?f] removed_rows_used [of ?f "[recording]" "tables s"] ok(3) r(2)
    by (intro settle_plain) simp_all
  then show ?thesis using run gone m(2,4) by (intro exI [of _ ?gone]) (simp add: put_recording_rows)
qed

text \<open>
  C16: A deletion is atomic across a crash. Let the process stop after the media file was moved into
  quarantine. If the rows were not committed yet, recovery puts the file back and every ready recording can
  be played; if they were, recovery removes the quarantined file and every other recording can still be
  played.
\<close>

theorem deletion_crash_safe:
  assumes inv: "recording_inv settings cipher s"
    and none: "\<forall>n\<in>set (map fst (media (disk s))). \<not> is_quarantine_name n"
    and r: "find_recording i (tables s) = Some recording" "recording_status recording = ''ready''"
    and q: "quarantine_media settings recording (disk s) = Inr (item, d)"
  shows "(\<exists>d'. reconcile_quarantined_media settings (tables s) d = (Inr (), d') \<and>
      load_media settings cipher recording d' = load_media settings cipher recording (disk s) \<and>
      recording_inv settings cipher (s\<lparr>disk := d'\<rparr>)) \<and>
    (\<exists>d'. reconcile_quarantined_media settings (put_recording (tombstone_recording now ''manual'' recording) (tables s)) d = (Inr (), d') \<and>
      map_of (media d') (original item) = None \<and> map_of (media d') (quarantine item) = None \<and>
      recording_inv settings cipher \<lparr>tables = put_recording (tombstone_recording now ''manual'' recording) (tables s), disk = d'\<rparr>)"
  using crash_before_commit [OF inv none r q] crash_after_commit [OF inv none r q, of now] by (rule conjI)

lemma demo_quarantine:
  "\<exists>item d. quarantine_media demo_recording_settings demo_ready (disk demo_service) = Inr (item, d)"
proof -
  have "media_name_valid demo_name" by (simp add: media_name_valid_def demo_name_def hex_char_def list_all_iff)
  moreover have "quarantine_name demo_name \<noteq> demo_name" by (simp add: quarantine_name_def)
  ultimately show ?thesis
    by (simp add: quarantine_media_def media_path_def demo_ready_def demo_service_def Let_def)
qed

lemma demo_no_quarantine: "\<forall>n\<in>set (map fst (media (disk demo_service))). \<not> is_quarantine_name n"
  by (simp add: demo_service_def demo_name_def is_quarantine_name_def numeral_eq_Suc)

theorem deletion_crash_safe_witness:
  "\<exists>item d d'. quarantine_media demo_recording_settings demo_ready (disk demo_service) = Inr (item, d) \<and>
     reconcile_quarantined_media demo_recording_settings (tables demo_service) d = (Inr (), d') \<and>
     load_media demo_recording_settings demo_cipher demo_ready d' = Inr ''ID3''"
proof -
  obtain item d where q: "quarantine_media demo_recording_settings demo_ready (disk demo_service) = Inr (item, d)"
    using demo_quarantine by blast
  have f: "find_recording ''r1'' (tables demo_service) = Some demo_ready"
    by (simp add: find_recording_def demo_service_def demo_ready_def demo_recording_def)
  have "recording_status demo_ready = ''ready''" by (simp add: demo_ready_def)
  from deletion_crash_safe [OF demo_service_inv demo_no_quarantine f this q] q demo_load show ?thesis by metis
qed

section \<open>Maintenance and unfinished work\<close>

lemma unlink_keys: "name \<in> set (map fst (media d)) \<Longrightarrow> name \<noteq> other \<Longrightarrow> name \<in> set (map fst (media (unlink other d)))"
  by (auto simp: unlink_def delete_keys)

lemma os_replace_keys:
  "name \<in> set (map fst (media d)) \<Longrightarrow> name \<noteq> source \<Longrightarrow> name \<in> set (map fst (media (os_replace source destination d)))"
  unfolding set_map dom_map_of_conv_image_fst [symmetric]
  by (auto simp: os_replace_def update_conv delete_conv' split: option.splits if_splits)

lemma reconcile_names_entry:
  "reconcile_names settings t names d = (r, d') \<Longrightarrow> name \<in> set (map fst (media d)) \<Longrightarrow> name \<notin> set names \<Longrightarrow>
     name \<in> set (map fst (media d'))"
proof (induction names arbitrary: d)
  case (Cons a names)
  have n: "name \<noteq> a" "name \<notin> set names" using Cons.prems(3) by auto
  show ?case
    using Cons.prems(1,2) n(1) Cons.IH [OF _ unlink_keys [OF Cons.prems(2) n(1)] n(2)] Cons.IH [OF _ os_replace_keys [OF Cons.prems(2) n(1)] n(2)]
    by (auto simp: Let_def split: sum.splits if_splits)
qed simp

text \<open>An entry that is none of the service's files.\<close>

definition foreign_name :: "string \<Rightarrow> bool" where
  "foreign_name name \<longleftrightarrow>
     name \<noteq> ''.processing'' \<and> name \<noteq> ''.uploads'' \<and> \<not> starts_with ''.delete-'' name \<and> \<not> starts_with ''.media-'' name \<and>
     \<not> starts_with ''.playback-'' name \<and> drop (length name - 4) name \<noteq> ''.rec''"

lemma reconcile_names_uploads: "reconcile_names settings t names d = (r, d') \<Longrightarrow> uploads d' = uploads d"
proof (induction names arbitrary: d)
  case (Cons a names)
  have "uploads (unlink a d) = uploads d" "uploads (os_replace a (drop 8 a) d) = uploads d"
    by (simp_all add: unlink_def os_replace_def split: option.split)
  then show ?case using Cons by (auto simp: Let_def split: sum.splits if_splits)
qed simp

text \<open>The entries are read up to the foreign one, at the latest; it stays, and so do the uploads.\<close>

lemma reconcile_entries_foreign:
  assumes "foreign_name name"
  shows "name \<in> set names \<Longrightarrow> name \<in> set (map fst (media d)) \<Longrightarrow>
    \<exists>e d'. reconcile_entries settings t names d = (Inl e, d') \<and> uploads d' = uploads d \<and> name \<in> set (map fst (media d'))"
proof (induction names arbitrary: d)
  case (Cons a names)
  show ?case
  proof (cases "name = a")
    case True
    then show ?thesis using assms Cons.prems(2) by (simp add: foreign_name_def)
  next
    case False
    then have names: "name \<in> set names" using Cons.prems(1) by simp
    have "uploads (unlink a d) = uploads d" by (simp add: unlink_def)
    then show ?thesis
      using Cons.IH [OF names Cons.prems(2)] Cons.IH [OF names unlink_keys [OF Cons.prems(2) False]] Cons.prems(2)
      by (auto split: option.splits sum.splits)
  qed
qed simp

text \<open>
  \<^verbatim>\<open>tempfile.TemporaryDirectory\<close> in the recording root: a private directory whose name is the prefix
  and eight random characters. The assembly of a conversation and the verification of a segment, of a
  conversation and of an audit, work in such a directory, which is gone when they end.
\<close>

definition tempfile_suffix :: "string \<Rightarrow> bool" where
  "tempfile_suffix suffix \<longleftrightarrow> length suffix = 8 \<and> CHR ''.'' \<notin> set suffix"

definition open_workspace :: "recording_settings \<Rightarrow> string \<Rightarrow> string \<Rightarrow> storage \<Rightarrow> storage" where
  "open_workspace settings prefix suffix d =
     d\<lparr>media := media d @ [(prefix @ suffix,
         \<lparr>entry_kind = DirectoryEntry, entry_uid = geteuid settings, entry_mode = 448, file_content = []\<rparr>)]\<rparr>"

lemma workspaces_foreign:
  assumes "tempfile_suffix suffix" "prefix = ''.conversation-'' \<or> prefix = ''.verify-segment-''"
  shows "foreign_name (prefix @ suffix)"
proof -
  have "set (drop (length (prefix @ suffix) - 4) (prefix @ suffix)) \<subseteq> set suffix"
    using assms(1) set_drop_subset [of 4 suffix] by (simp add: tempfile_suffix_def)
  then have "drop (length (prefix @ suffix) - 4) (prefix @ suffix) \<noteq> ''.rec''"
    using assms(1) by (auto simp: tempfile_suffix_def)
  then show ?thesis using assms(2) by (auto simp: foreign_name_def starts_with_def)
qed

lemma foreign_entry_stops:
  assumes "name \<in> set (map fst (media (disk s)))" "foreign_name name"
  shows "\<exists>e d'. maintain_recordings settings now commit_ok s = (Inl e, s\<lparr>disk := d'\<rparr>) \<and> uploads d' = uploads (disk s) \<and>
    name \<in> set (map fst (media d'))"
proof -
  obtain r1 d1 where 1: "reconcile_quarantined_media settings (tables s) (disk s) = (r1, d1)" by fastforce
  note names = 1 [unfolded reconcile_quarantined_media_def]
  have "name \<notin> set (filter is_quarantine_name (map fst (media (disk s))))"
    using assms(2) by (auto simp: foreign_name_def is_quarantine_name_def starts_with_def)
  then have d1: "name \<in> set (map fst (media d1))" "uploads d1 = uploads (disk s)"
    using reconcile_names_entry [OF names assms(1)] reconcile_names_uploads [OF names] by simp_all
  obtain e d2 where "reconcile_entries settings (tables s) (map fst (media d1)) d1 = (Inl e, d2)" "uploads d2 = uploads d1"
    "name \<in> set (map fst (media d2))"
    using reconcile_entries_foreign [OF assms(2) d1(1) d1(1)] by blast
  then show ?thesis using d1
    by (cases r1) (auto simp: maintain_recordings_def 1 reconcile_recording_storage_def Let_def)
qed

text \<open>A run of the maintenance, whatever its outcome.\<close>

definition maintained :: "recording_settings \<Rightarrow> recording_state \<Rightarrow> recording_state \<Rightarrow> bool" where
  "maintained settings s s' \<longleftrightarrow> (\<exists>now commit_ok. s' = snd (maintain_recordings settings now commit_ok s))"

text \<open>
  C33: Maintenance fails while the recording root has an entry that is none of the service's own kinds, or
  while the assembly or the verification of a conversation has its workspace open there, which is such an
  entry. However often it runs, it does not enforce the retention policy or release an upload: the tables and
  the uploads stay as they were, the entry stays, and the next run fails again.
\<close>

theorem foreign_entry_stops_maintenance:
  assumes "name \<in> set (map fst (media (disk s))) \<and> foreign_name name \<or>
      disk s = open_workspace settings prefix suffix d \<and> tempfile_suffix suffix \<and> name = prefix @ suffix \<and>
      (prefix = ''.conversation-'' \<or> prefix = ''.verify-segment-'')"
    and "(maintained settings)\<^sup>*\<^sup>* s s'"
  shows "tables s' = tables s \<and> uploads (disk s') = uploads (disk s) \<and> name \<in> set (map fst (media (disk s'))) \<and>
    (\<exists>e s''. maintain_recordings settings now commit_ok s' = (Inl e, s''))"
proof -
  have name: "name \<in> set (map fst (media (disk s)))" "foreign_name name"
    using assms(1) workspaces_foreign by (auto simp: open_workspace_def)
  from assms(2) have "tables s' = tables s \<and> uploads (disk s') = uploads (disk s) \<and> name \<in> set (map fst (media (disk s')))"
  proof (induction rule: rtranclp_induct)
    case (step y z)
    then obtain later ok where z: "z = snd (maintain_recordings settings later ok y)" unfolding maintained_def by blast
    obtain d' where "z = y\<lparr>disk := d'\<rparr>" "uploads d' = uploads (disk y)" "name \<in> set (map fst (media d'))"
      using foreign_entry_stops [of name y settings later ok] step.IH name(2) z by (metis snd_conv)
    then show ?case using step.IH by simp
  qed (use name(1) in simp)
  then show ?thesis using foreign_entry_stops [of name s' settings now commit_ok] name(2) by blast
qed

text \<open>A conversation is being assembled when the maintenance runs.\<close>

definition demo_stranded :: recording_state where
  "demo_stranded = empty_recordings\<lparr>disk := open_workspace demo_recording_settings ''.conversation-'' ''x1y2z3w4'' (disk empty_recordings)\<rparr>"

theorem foreign_entry_stops_maintenance_witness:
  "\<exists>e s''. maintain_recordings demo_recording_settings 1 True (snd (maintain_recordings demo_recording_settings 0 True demo_stranded)) = (Inl e, s'')"
proof -
  have "(maintained demo_recording_settings)\<^sup>*\<^sup>* demo_stranded (snd (maintain_recordings demo_recording_settings 0 True demo_stranded))"
    by (intro r_into_rtranclp) (auto simp: maintained_def)
  then show ?thesis
    using foreign_entry_stops_maintenance [of "''.conversation-x1y2z3w4''" demo_stranded demo_recording_settings "''.conversation-''" "''x1y2z3w4''"
        "disk empty_recordings" _ 1 True]
    by (simp add: demo_stranded_def tempfile_suffix_def)
qed

lemma reconcile_entries_absent:
  "reconcile_entries settings t names d = (r, d') \<Longrightarrow> map_of (media d) name = None \<Longrightarrow> map_of (media d') name = None"
proof (induction names arbitrary: d)
  case (Cons a names)
  have u: "map_of (media (unlink a d)) name = None" using Cons.prems(2) by (simp add: unlink_conv)
  show ?case
    using Cons.prems Cons.IH [OF _ Cons.prems(2)] Cons.IH [OF _ u] by (auto split: if_splits option.splits sum.splits)
qed simp

lemma reconcile_entries_removes:
  assumes "media_name_valid name" "Some name \<notin> media_storage_name ` set (recordings t)"
  shows "reconcile_entries settings t names d = (Inr (), d') \<Longrightarrow> name \<in> set names \<Longrightarrow> map_of (media d') name = None"
proof (induction names arbitrary: d)
  case (Cons a names)
  show ?case
  proof (cases "a = name")
    case True
    have n: "length name = 36" "drop 32 name = ''.rec''" using assms(1) by (simp_all add: media_name_valid_def)
    have "hd name \<noteq> CHR ''.''" using assms(1) by (cases name) (auto simp: media_name_valid_def hex_char_def)
    note n = n this
    then have "\<not> starts_with ''.delete-'' name" "\<not> starts_with ''.media-'' name" "\<not> starts_with ''.playback-'' name"
      "name \<noteq> ''.processing''" "name \<noteq> ''.uploads''"
      by (cases name; auto simp: starts_with_def)+
    moreover have "\<not> list_ex (\<lambda>r. media_storage_name r = Some name \<and> recording_status r \<in> {''ready'', ''processing''}) (recordings t)"
      using assms(2) by (auto simp: list_ex_iff image_iff)
    ultimately obtain d1 where "reconcile_entries settings t names d1 = (Inr (), d')" "map_of (media d1) name = None"
      using Cons.prems(1) True assms(1) n(1,2) by (auto simp: unlink_conv split: sum.splits)
    then show ?thesis by (rule reconcile_entries_absent)
  next
    case False
    then have "name \<in> set names" using Cons.prems(2) by simp
    then show ?thesis using Cons.prems(1) Cons.IH by (auto split: if_splits option.splits sum.splits)
  qed
qed simp

lemma reconcile_uploads_media: "media (snd (reconcile_uploads settings t names d)) = media d"
  by (induction names arbitrary: d) (auto simp: Let_def split: sum.splits prod.splits)

text \<open>
  C34: Maintenance can destroy a voicemail that is being completed. The media file of a completion is written
  before its row is committed; a maintenance run between the two takes the file for a crash artifact and
  removes it, so that the recording which is then committed and acknowledged as ready cannot be played.
\<close>

theorem maintenance_race:
  assumes "finalize_recording settings cipher ffmpeg nonce uuid now recording upload s = Inr (recording', d)"
    and "fresh_uuid uuid s" "reconcile_recording_storage settings (tables s) d = (Inr (), d')"
  shows "recording_status recording' = ''ready'' \<and>
    load_media settings cipher recording' d' = Inl (RecordingError ''Recording storage is unavailable.'' 503)"
proof -
  have r: "recording_status recording' = ''ready''" "media_storage_name recording' = Some (uuid @ ''.rec'')"
    using assms(1) by (auto simp: finalize_recording_def bind_result_Inr Let_def split: if_splits)
  have "\<exists>x. d = (disk s)\<lparr>media := AList.update (uuid @ ''.rec'') x (media (disk s))\<rparr>"
    using assms(1) by (auto simp: finalize_recording_def bind_result_Inr Let_def split: if_splits)
  then have in_d: "uuid @ ''.rec'' \<in> set (map fst (media d))"
    unfolding set_map dom_map_of_conv_image_fst [symmetric] by (auto simp: update_conv')
  have v: "media_name_valid (uuid @ ''.rec'')" "Some (uuid @ ''.rec'') \<notin> media_storage_name ` set (recordings (tables s))"
    using assms(2) by (simp_all add: fresh_uuid_def media_name_valid_def)
  obtain r1 d1 where e: "reconcile_entries settings (tables s) (map fst (media d)) d = (r1, d1)" by fastforce
  have ok: "r1 = Inr ()" "d' = snd (reconcile_uploads settings (tables s) (map fst (uploads d1)) d1)"
    using assms(3) by (auto simp: reconcile_recording_storage_def e split: sum.splits)
  have "map_of (media d') (uuid @ ''.rec'') = None"
    using reconcile_entries_removes [OF v e [unfolded ok(1)] in_d] ok(2) reconcile_uploads_media by metis
  then show ?thesis using r v(1) by (simp add: load_media_def media_path_def require_safe_file_def)
qed

text \<open>A completed upload of one chunk that waits for its completion request.\<close>

definition race_wav :: bytes where
  "race_wav = wav_file (replicate 192 CHR 0x00)"

definition race_payload :: bytes where
  "race_payload = projr (encrypt_chunk demo_cipher (replicate 12 CHR ''n'') ''r1'' 0 race_wav)"

definition race_upload :: RecordingUpload where
  "race_upload = \<lparr>expected_size_bytes = 236, upload_offset = 236, storage_name = replicate 32 CHR ''0'', source_sha256 = race_wav,
     upload_updated_at = 0, upload_recording_id = ''r1''\<rparr>"

definition race_recording :: Recording where
  "race_recording = demo_recording\<lparr>recording_duration_ms := 50, recording_source_size_bytes := 236, recording_source_sha256 := race_wav,
     recording_status := ''uploading''\<rparr>"

definition race_state :: recording_state where
  "race_state = empty_recordings\<lparr>tables := (tables empty_recordings)\<lparr>recordings := [race_recording],
       recording_uploads := [race_upload], retention_policy := Some \<lparr>policy_mode = ''automatic'', policy_days = 30,
       policy_updated_at = 0, policy_updated_by = ''admin''\<rparr>\<rparr>,
     disk := \<lparr>media = [], uploads = [(replicate 32 CHR ''0'', (private_directory demo_recording_settings)
       \<lparr>children := [(chunk_name 0, private_file demo_recording_settings race_payload)]\<rparr>)]\<rparr>\<rparr>"

lemma race_length: "length race_wav = 236"
  by (simp add: race_wav_def wav_file_def length_fmt_header)

lemma race_payload_read: "decrypt_chunk demo_cipher ''r1'' 0 race_payload = Inr race_wav"
proof -
  have "is_ascii ''r1''" by (simp add: is_ascii_def)
  from chunk_round_trip [OF demo_cipher_ready this, of "replicate 12 CHR ''n''" 0 race_wav] obtain p where
    "encrypt_chunk demo_cipher (replicate 12 CHR ''n'') ''r1'' 0 race_wav = Inr p"
    "\<And>new. keeps_key demo_cipher new \<Longrightarrow> decrypt_chunk new ''r1'' 0 p = Inr race_wav" by auto
  then show ?thesis by (simp add: race_payload_def)
qed

lemma race_uploaded:
  "read_uploaded_wav demo_recording_settings demo_cipher None race_recording race_upload (disk race_state) = Inr race_wav"
proof -
  let ?d = "(private_directory demo_recording_settings)\<lparr>children := [(chunk_name 0, private_file demo_recording_settings race_payload)]\<rparr>"
  have d: "upload_directory demo_recording_settings race_upload (disk race_state) = Inr ?d"
    by (simp add: upload_directory_Inr race_upload_def race_state_def private_directory_def owned_privately_def
        demo_recording_settings_def hex_char_def list_all_iff)
  have c: "read_chunk demo_recording_settings demo_cipher ''r1'' ?d 0 = Inr race_wav"
    by (simp add: read_chunk_def race_payload_read)
  have "race_wav \<noteq> []" using race_length by auto
  then have "read_chunks (read_chunk demo_recording_settings demo_cipher ''r1'' ?d) e 236 0 = Inr [race_wav]" for e
    by (simp add: read_chunks.simps [of _ _ 236 0] read_chunks.simps [of _ _ 236 236] c race_length)
  then show ?thesis
    by (simp add: read_uploaded_wav_def d) (simp add: race_upload_def race_recording_def demo_recording_def race_length demo_recording_settings_def)
qed

lemma race_finalized:
  "\<exists>r d. finalize_recording demo_recording_settings demo_cipher (\<lambda>_ _. Some (0, ''ID3'')) (replicate 12 CHR ''n'') (replicate 32 CHR ''1'') 9
     race_recording race_upload race_state = Inr (r, d) \<and> uploads d = uploads (disk race_state) \<and>
     (\<exists>content. media d = [(replicate 32 CHR ''1'' @ ''.rec'', private_file demo_recording_settings content)])"
proof -
  have "inspect_caller_wav race_wav 50 = Inr \<lparr>details_duration_ms = 1, details_frames = 48\<rparr>"
    unfolding race_wav_def by (rule silent_wav_accepted)
  moreover have "recording_duration_ms race_recording = 50" "recording_id race_recording = ''r1''"
    by (simp_all add: race_recording_def demo_recording_def)
  moreover have "\<exists>f. voicemail_filter race_wav = Inr f"
    using wave_open_wav_file [of "replicate 192 CHR 0x00"] by (simp add: voicemail_filter_def race_wav_def nframes_def framesize_def)
  moreover obtain p where "encrypt_media demo_cipher (replicate 12 CHR ''n'') ''r1'' ''ID3'' = Inr p" "length p = 42"
    using media_round_trip [OF demo_cipher_ready, of "''r1''" "replicate 12 CHR ''n''" "''ID3''"] by (auto simp: is_ascii_def)
  moreover have "recording_used_bytes (Some ''r1'') None (tables race_state) \<le> 1000"
    by (simp add: race_state_def empty_recordings_def recording_used_bytes_def race_recording_def race_upload_def media_bytes_def demo_recording_def)
  moreover have "retention_policy (tables race_state) \<noteq> None" "media (disk race_state) = []" "recording_quota_bytes demo_recording_settings = 10000"
    by (simp_all add: race_state_def demo_recording_settings_def)
  ultimately show ?thesis using race_uploaded
    by (auto simp: finalize_recording_def transcode_voicemail_def Let_def)
qed


lemma race_reconciled:
  assumes "uploads d = uploads (disk race_state)" "media d = [(replicate 32 CHR ''1'' @ ''.rec'', private_file demo_recording_settings content)]"
  shows "\<exists>d'. reconcile_recording_storage demo_recording_settings (tables race_state) d = (Inr (), d')"
proof -
  let ?name = "replicate 32 CHR ''1'' @ ''.rec''"
  have "\<not> starts_with ''.delete-'' ?name" "\<not> starts_with ''.media-'' ?name" "\<not> starts_with ''.playback-'' ?name"
    "?name \<noteq> ''.processing''" "?name \<noteq> ''.uploads''" "length ?name = 36" "drop 32 ?name = ''.rec''" "list_all hex_char (take 32 ?name)"
    by (simp_all add: starts_with_def numeral_eq_Suc hex_char_def)
  then have "reconcile_entries demo_recording_settings (tables race_state) (map fst (media d)) d = (Inr (), unlink ?name d)"
    using assms(2) by (simp add: race_state_def race_recording_def demo_recording_def media_name_valid_def)
  moreover have "reconcile_uploads demo_recording_settings (tables race_state) (map fst (uploads d)) (unlink ?name d) = (Inr (), unlink ?name d)"
    using assms(1) by (simp add: race_state_def unlink_def active_upload_names_def race_upload_def hex_char_def require_safe_directory_def
        private_directory_def owned_privately_def demo_recording_settings_def list_all_iff)
  ultimately show ?thesis by (simp add: reconcile_recording_storage_def unlink_def)
qed

theorem maintenance_race_witness:
  "\<exists>r d d'. finalize_recording demo_recording_settings demo_cipher (\<lambda>_ _. Some (0, ''ID3'')) (replicate 12 CHR ''n'')
       (replicate 32 CHR ''1'') 9 race_recording race_upload race_state = Inr (r, d) \<and>
     reconcile_recording_storage demo_recording_settings (tables race_state) d = (Inr (), d') \<and>
     load_media demo_recording_settings demo_cipher r d' = Inl (RecordingError ''Recording storage is unavailable.'' 503)"
proof -
  obtain r d where f: "finalize_recording demo_recording_settings demo_cipher (\<lambda>_ _. Some (0, ''ID3'')) (replicate 12 CHR ''n'')
      (replicate 32 CHR ''1'') 9 race_recording race_upload race_state = Inr (r, d)" and "\<exists>d'. reconcile_recording_storage demo_recording_settings (tables race_state) d = (Inr (), d')"
    using race_finalized race_reconciled by blast
  moreover have "fresh_uuid (replicate 32 CHR ''1'') race_state"
    by (simp add: fresh_uuid_def race_state_def empty_recordings_def race_recording_def demo_recording_def hex_char_def list_all_iff)
  ultimately show ?thesis using maintenance_race [OF f] by blast
qed

end
