(* ===== verification/Segment_Laws.thy ===== *)
theory Segment_Laws
  imports Segment_Requests Recording_Service
begin

text \<open>
  The requests about segments keep the invariant of the recording service, together with every request
  about voicemails and with maintenance: the quota holds across all kinds of recordings, and whatever is
  ready can be played.
\<close>

section \<open>The rows of segmented recordings\<close>

definition segment_key :: "ConversationRecordingSegment \<Rightarrow> string \<times> nat" where
  "segment_key x = (segment_recording_id x, segment_index x)"

definition segmented :: "Recording \<Rightarrow> bool" where
  "segmented r \<longleftrightarrow> recording_kind r \<noteq> ''voicemail'' \<and> recording_source_format r = ''legacy_wav''"

definition upload_ids :: "recording_tables \<Rightarrow> string set" where
  "upload_ids t = upload_recording_id ` set (recording_uploads t)"

text \<open>Segments have unique keys, and a segmented recording never has an upload of its own.\<close>

definition segment_rows_ok :: "recording_tables \<Rightarrow> bool" where
  "segment_rows_ok t \<longleftrightarrow>
     distinct (map segment_key (segments t)) \<and>
     (\<forall>r\<in>set (recordings t). segmented r \<longrightarrow>
        is_ascii (recording_id r) \<and> recording_status r \<noteq> ''failed'' \<and> recording_id r \<notin> upload_ids t)"

text \<open>
  How the requests about voicemails change rows: no recording changes its kind, no upload appears, and
  only a recording with an upload fails.
\<close>

definition rows_evolve :: "recording_tables \<Rightarrow> recording_tables \<Rightarrow> bool" where
  "rows_evolve t t' \<longleftrightarrow>
     map segment_key (segments t') = map segment_key (segments t) \<and> upload_ids t' \<subseteq> upload_ids t \<and>
     (\<forall>r'\<in>set (recordings t'). \<exists>r\<in>set (recordings t). recording_id r' = recording_id r \<and> segmented r' = segmented r \<and>
        (recording_status r' = ''failed'' \<longrightarrow> recording_status r = ''failed'' \<or> recording_id r \<in> upload_ids t))"

lemma rows_evolve_refl [simp]: "rows_evolve t t"
  by (auto simp: rows_evolve_def)

lemma rows_evolve_trans:
  assumes "rows_evolve t t'" "rows_evolve t' t''"
  shows "rows_evolve t t''"
  unfolding rows_evolve_def
proof (intro conjI ballI)
  show "map segment_key (segments t'') = map segment_key (segments t)" "upload_ids t'' \<subseteq> upload_ids t"
    using assms unfolding rows_evolve_def by auto
  fix r'' assume "r'' \<in> set (recordings t'')"
  then obtain r' where r': "r' \<in> set (recordings t')" "recording_id r'' = recording_id r'" "segmented r'' = segmented r'"
    "recording_status r'' = ''failed'' \<longrightarrow> recording_status r' = ''failed'' \<or> recording_id r' \<in> upload_ids t'"
    using assms(2) unfolding rows_evolve_def by metis
  then obtain r where "r \<in> set (recordings t)" "recording_id r' = recording_id r" "segmented r' = segmented r"
    "recording_status r' = ''failed'' \<longrightarrow> recording_status r = ''failed'' \<or> recording_id r \<in> upload_ids t"
    using assms(1) unfolding rows_evolve_def by metis
  then show "\<exists>r\<in>set (recordings t). recording_id r'' = recording_id r \<and> segmented r'' = segmented r \<and>
      (recording_status r'' = ''failed'' \<longrightarrow> recording_status r = ''failed'' \<or> recording_id r \<in> upload_ids t)"
    using r' assms(1) unfolding rows_evolve_def by (metis subsetD)
qed

lemma segment_rows_evolve:
  assumes "segment_rows_ok t" "rows_evolve t t'"
  shows "segment_rows_ok t'"
  unfolding segment_rows_ok_def
proof (intro conjI ballI impI)
  show "distinct (map segment_key (segments t'))" using assms unfolding segment_rows_ok_def rows_evolve_def by simp
  fix r' assume r': "r' \<in> set (recordings t')" "segmented r'"
  then obtain r where r: "r \<in> set (recordings t)" "recording_id r' = recording_id r" "segmented r"
    "recording_status r' = ''failed'' \<longrightarrow> recording_status r = ''failed'' \<or> recording_id r \<in> upload_ids t"
    using assms(2) unfolding rows_evolve_def by blast
  then have "is_ascii (recording_id r)" "recording_status r \<noteq> ''failed''" "recording_id r \<notin> upload_ids t"
    using assms(1) unfolding segment_rows_ok_def by blast+
  then show "is_ascii (recording_id r')" "recording_status r' \<noteq> ''failed''" "recording_id r' \<notin> upload_ids t'"
    using r assms(2) unfolding rows_evolve_def by auto
qed

lemma evolve_put_recording:
  assumes "r \<in> set (recordings t)" "recording_id r' = recording_id r" "segmented r' = segmented r"
    "recording_status r' = ''failed'' \<longrightarrow> recording_status r = ''failed''"
  shows "rows_evolve t (put_recording r' t)"
  using assms by (fastforce simp: rows_evolve_def upload_ids_def)

lemma evolve_columns [simp]:
  "rows_evolve t (t'\<lparr>retention_policy := p\<rparr>) = rows_evolve t t'" "rows_evolve t (t'\<lparr>control_rows := c\<rparr>) = rows_evolve t t'"
  "rows_evolve (t\<lparr>retention_policy := p\<rparr>) t' = rows_evolve t t'"
  by (simp_all add: rows_evolve_def upload_ids_def)

lemma tombstone_segmented [simp]: "segmented (tombstone_recording now reason r) = segmented r"
  by (simp add: segmented_def tombstone_recording_def)

lemma evolve_removed: "rows_evolve t (removed_rows gone (tombstone_recording now reason) t)"
  by (force simp: rows_evolve_def removed_rows_def upload_ids_def)

lemma evolve_cleanup:
  assumes "cleanup_abandoned_uploads settings now t = (abandoned, t')"
  shows "rows_evolve t t'"
  using assms
  by (fastforce simp: cleanup_abandoned_uploads_def Let_def rows_evolve_def upload_ids_def segment_key_def segmented_def)

lemma evolve_purge:
  assumes "purge_expired_recordings settings policy now t d = (Inr (items, t'), d')"
  shows "rows_evolve t t'"
  using purge_Inr [OF assms] evolve_removed unfolding removed_rows_def by auto

lemma settle_tables: "tables (snd (settle_purge settings commit_ok t items t' d)) \<in> {t, t'}"
  by (simp add: settle_purge_def split: if_splits prod.splits sum.splits)

section \<open>Requests about voicemails\<close>

lemma evolve_settle:
  "rows_evolve t t' \<Longrightarrow> rows_evolve t (tables (snd (settle_purge settings commit_ok t items t' d)))"
  using settle_tables [of settings commit_ok t items t' d] by auto

lemma evolve_content:
  assumes run: "upload_recording_content settings cipher i device request nonce now commit_ok s = (r, s')"
  shows "rows_evolve (tables s) (tables s')"
proof (cases "s' = s")
  case False
  obtain recording upload offset body recording' upload' d where
    o: "open_upload ''Recording is not accepting content'' i device (tables s) = Inr (Inr (recording, upload))"
    and c: "store_chunk settings cipher None nonce now offset body (recording, upload, disk s) = Inr (recording', upload', d)"
    and s': "s' = (if commit_ok then \<lparr>tables = put_upload upload' (put_recording recording' (tables s)), disk = d\<rparr> else s\<lparr>disk := d\<rparr>)"
    by (rule upload_content_cases [OF run False])
  have "rows_evolve (tables s) (put_recording recording' (tables s))"
    by (rule evolve_put_recording [of recording]) (use open_upload_rows [OF o] store_chunk_rows [OF c] in \<open>auto simp: segmented_def\<close>)
  moreover have "rows_evolve t (put_upload upload' t)" for t
  proof -
    have "upload_ids (put_upload upload' t) = upload_ids t"
      unfolding upload_ids_def put_upload_rows(3) list.set_map [symmetric] replaced_keys ..
    then show ?thesis by (auto simp: rows_evolve_def)
  qed
  ultimately show ?thesis using s' rows_evolve_trans by (cases commit_ok) auto
qed simp

lemma evolve_complete:
  assumes run: "complete_recording settings cipher ffmpeg i device nonce uuid now commit_ok s = (r, s')"
  shows "rows_evolve (tables s) (tables s')"
proof (cases "s' = s")
  case False
  obtain recording upload recording' d where
    o: "open_upload ''Recording cannot be completed'' i device (tables s) = Inr (Inr (recording, upload))"
    and f: "finalize_recording settings cipher ffmpeg nonce uuid now recording upload s = Inr (recording', d)"
    and s': "s' = (if commit_ok then \<lparr>tables = delete_upload (recording_id recording') (put_recording recording' (tables s)),
        disk = snd (remove_upload_files settings upload d)\<rparr> else s\<lparr>disk := unlink (the (media_storage_name recording')) d\<rparr>)"
    by (rule complete_cases [OF run False])
  have "recording_id recording' = recording_id recording \<and> segmented recording' = segmented recording \<and> recording_status recording' = ''ready''"
    using f by (auto simp: finalize_recording_def bind_result_Inr Let_def segmented_def split: if_splits)
  then have "rows_evolve (tables s) (put_recording recording' (tables s))"
    using open_upload_rows(1) [OF o] by (intro evolve_put_recording [of recording]) auto
  moreover have "rows_evolve t (delete_upload i t)" for t i
    by (auto simp: rows_evolve_def upload_ids_def delete_upload_def)
  ultimately show ?thesis using s' rows_evolve_trans by (cases commit_ok) auto
qed simp

lemma evolve_listened:
  "set_recording_listened i listened actor now commit_ok s = (r, s') \<Longrightarrow> rows_evolve (tables s) (tables s')"
  using find_recording_Some
  by (fastforce simp: set_recording_listened_def Let_def segmented_def intro!: evolve_put_recording split: option.splits if_splits)

lemma evolve_delete:
  assumes "delete_recording settings i actor now commit_ok s = (r, s')"
  shows "rows_evolve (tables s) (tables s')"
proof -
  have "rows_evolve (tables s) (put_recording (tombstone_recording now ''manual'' q) (tables s))" if "find_recording i (tables s) = Some q" for q
    by (rule evolve_put_recording [of q]) (use find_recording_Some [OF that] in simp_all)
  then show ?thesis
    using assms crashed_state [of "settle_purge settings commit_ok (tables s) qs t d" "()" for qs t d]
    by (auto simp: delete_recording_def Let_def split: option.splits if_splits sum.splits
        intro!: evolve_settle dest!: arg_cong [of _ "(r, s')" snd])
qed

lemma policy_evolves: "initialize_retention_policy actor now t = (policy, t1) \<Longrightarrow> rows_evolve t t1"
  using policy_tables [of actor now t] by (metis evolve_columns(1) rows_evolve_refl snd_conv)

lemma evolve_apply_retention: "rows_evolve (tables s) (tables (snd (apply_retention settings now commit_ok s)))"
  by (auto simp: apply_retention_def split: prod.splits sum.splits
      intro!: evolve_settle intro: rows_evolve_trans [OF policy_evolves evolve_purge])

lemma evolve_list:
  "list_recordings settings only_unread page page_size kind now commit_ok s = (rows, s') \<Longrightarrow> rows_evolve (tables s) (tables s')"
  using evolve_apply_retention crashed_state unfolding list_recordings_def Let_def by (metis snd_conv)

lemma evolve_put_settings:
  assumes "put_recording_settings settings new_mode retention actor now commit_ok s = (r, s')"
  shows "rows_evolve (tables s) (tables s')"
proof -
  obtain policy p where i: "initialize_retention_policy actor now (tables s) = (policy, (tables s)\<lparr>retention_policy := p\<rparr>)"
    by (rule policy_split)
  show ?thesis
    using assms
    by (auto simp: put_recording_settings_def i Let_def crashed_state split: prod.splits sum.splits
        dest!: evolve_purge arg_cong [of _ "(r, s')" snd] intro!: evolve_settle)
qed

text \<open>The end that reading the settings and maintenance have in common.\<close>

lemma evolve_purge_cleanup:
  assumes "purge_expired_recordings settings policy now (t\<lparr>retention_policy := p\<rparr>) d = (Inr (items, t2), d')"
    "cleanup_abandoned_uploads settings now t2 = (abandoned, t3)" "settle_purge settings commit_ok t items t3 d1 = (res, s1)"
  shows "rows_evolve t (tables s1)"
  using rows_evolve_trans [OF evolve_purge [OF assms(1)] evolve_cleanup [OF assms(2)]]
    evolve_settle [of t t3 settings commit_ok items d1] assms(3) by simp

lemma evolve_get_settings:
  assumes "get_recording_settings settings now commit_ok s = (r, s')"
  shows "rows_evolve (tables s) (tables s')"
proof -
  obtain policy p where i: "initialize_retention_policy (development_admin_email settings) now (tables s) =
      (policy, (tables s)\<lparr>retention_policy := p\<rparr>)" by (rule policy_split)
  show ?thesis
    using assms
    by (auto simp: get_recording_settings_def i crashed_def split: prod.splits sum.splits dest: evolve_purge_cleanup)
qed

lemma evolve_maintain:
  assumes "maintain_recordings settings now commit_ok s = (r, s')"
  shows "rows_evolve (tables s) (tables s')"
proof -
  obtain policy p where i: "initialize_retention_policy (development_admin_email settings) now (tables s) =
      (policy, (tables s)\<lparr>retention_policy := p\<rparr>)" by (rule policy_split)
  show ?thesis
    using assms
    by (auto simp: maintain_recordings_def i Let_def split: prod.splits sum.splits dest: evolve_purge_cleanup)
qed

lemma create_segment_rows:
  assumes run: "create_recording settings device body uuid now commit_ok s = (r, s')" and ok: "segment_rows_ok (tables s)"
  shows "segment_rows_ok (tables s')"
proof (cases "tables s' = tables s")
  case False
  consider (new) t where "find_recording (create_recording_id body) (tables s) = None"
      "require_recording_capacity settings (create_expected_size_bytes body) now (tables s) = Inr t"
      "tables s' = t\<lparr>recordings := recordings t @ [new_recording body device now],
         recording_uploads := recording_uploads t @ [new_upload body uuid now]\<rparr>"
    | (again) existing t where "find_recording (create_recording_id body) (tables s) = Some existing" "recording_status existing = ''failed''"
      "require_recording_capacity settings (create_expected_size_bytes body) now (tables s) = Inr t"
      "tables s' = put_recording (existing\<lparr>recording_status := ''uploading'', recording_updated_at := now\<rparr>) t
         \<lparr>recording_uploads := recording_uploads t @ [new_upload body uuid now]\<rparr>"
    using run False
    by (auto simp: create_recording_def resume_recording_def Let_def bind_result_Inr
        split: option.splits sum.splits if_splits)
  then show ?thesis
  proof cases
    case new
    obtain p where t: "t = (tables s)\<lparr>retention_policy := p\<rparr>" using capacity_Inr [OF new(2)] by blast
    have "recording_id q \<noteq> create_recording_id body" if "q \<in> set (recordings (tables s))" for q
      using find_recording_None [OF new(1)] that by blast
    then show ?thesis using ok unfolding new(3) t
      by (auto simp: segment_rows_ok_def upload_ids_def new_upload_def new_recording_def segmented_def)
  next
    case again
    obtain p where t: "t = (tables s)\<lparr>retention_policy := p\<rparr>" using capacity_Inr [OF again(3)] by blast
    note row = find_recording_Some [OF again(1)]
    have "\<not> segmented existing" using ok row again(2) unfolding segment_rows_ok_def by blast
    then show ?thesis using ok row unfolding again(4) t
      by (auto simp: segment_rows_ok_def upload_ids_def new_upload_def segmented_def split: if_splits)
  qed
qed (use ok in simp)

lemma recording_step_segment_rows:
  "recording_step settings cipher ffmpeg s s' \<Longrightarrow> segment_rows_ok (tables s) \<Longrightarrow> segment_rows_ok (tables s')"
proof (induction rule: recording_step.induct)
  case create
  then show ?case using create_segment_rows by blast
next
  case content
  then show ?case using evolve_content segment_rows_evolve by blast
next
  case complete
  then show ?case using evolve_complete segment_rows_evolve by blast
next
  case list
  then show ?case using evolve_list segment_rows_evolve by blast
next
  case listened
  then show ?case using evolve_listened segment_rows_evolve by blast
next
  case delete
  then show ?case using evolve_delete segment_rows_evolve by blast
next
  case get_settings
  then show ?case using evolve_get_settings segment_rows_evolve by blast
next
  case put_settings
  then show ?case using evolve_put_settings segment_rows_evolve by blast
next
  case maintain
  then show ?case using evolve_maintain segment_rows_evolve by blast
qed

end
