(* ===== verification/Segment_Safety.thy ===== *)
theory Segment_Safety
  imports Segment_Laws
begin

text \<open>
  The requests about conversations and audits keep the invariant of the recording service, and so does
  every sequence of requests of all kinds.
\<close>

section \<open>Frames\<close>

lemma rows_ok_uploads:
  assumes "rows_ok t" "u \<in> set (recording_uploads t)"
  shows "storage_name u \<notin> storage_name ` set (active_segments t)" "is_ascii (upload_recording_id u)"
    "\<exists>r\<in>set (recordings t). recording_id r = upload_recording_id u \<and> recording_status r = ''uploading''"
  using assms unfolding rows_ok_def by blast+

lemma rows_okI:
  assumes "rows_ok t0" "map recording_id (recordings t) = map recording_id (recordings t0) @ ids" "distinct ids"
    "set ids \<inter> recording_id ` set (recordings t0) = {}"
    "recording_uploads t = recording_uploads t0" "set (ready_rows t) \<subseteq> set (ready_rows t0)"
    "set (active_segments t) \<subseteq> set (active_segments t0)" "set (recordings t0) \<subseteq> set (recordings t)"
  shows "rows_ok t"
proof -
  have ids: "distinct (map recording_id (recordings t))"
    using assms(1,3,4) unfolding assms(2) rows_ok_def by auto
  have ups: "\<forall>u\<in>set (recording_uploads t). is_ascii (upload_recording_id u) \<and>
        storage_name u \<notin> storage_name ` set (active_segments t) \<and>
        (\<exists>r\<in>set (recordings t). recording_id r = upload_recording_id u \<and> recording_status r = ''uploading'')"
    unfolding assms(5) using rows_ok_uploads [OF assms(1)] assms(7,8) by (meson image_mono subset_iff)
  show ?thesis using assms(1,6) ids ups unfolding rows_ok_def assms(5) by (meson subset_iff)
qed

lemma find_segment_Some:
  "find_segment i index t = Some x \<Longrightarrow> x \<in> set (segments t) \<and> segment_recording_id x = i \<and> int (segment_index x) = index"
  by (auto simp: find_segment_def find_Some_iff)

lemma put_segment_rows [simp]:
  "recordings (put_segment x t) = recordings t" "recording_uploads (put_segment x t) = recording_uploads t"
  "segments (put_segment x t) = map (\<lambda>y. if segment_key y = segment_key x then x else y) (segments t)"
  by (simp_all add: put_segment_def segment_key_def)

lemma upload_ids_put_segment [simp]: "upload_ids (put_segment x t) = upload_ids t"
  by (simp add: upload_ids_def)

lemma segment_rows_put:
  "segment_rows_ok t \<Longrightarrow> segment_rows_ok (put_segment x t)"
  unfolding segment_rows_ok_def put_segment_rows upload_ids_put_segment replaced_keys .

definition active_bytes :: "ConversationRecordingSegment \<Rightarrow> nat" where
  "active_bytes x = (if segment_status x \<in> {''uploading'', ''verified''} then expected_size_bytes x else 0)"

lemma active_bytes_sum:
  "(\<Sum>x\<leftarrow>filter (\<lambda>x. segment_status x \<in> {''uploading'', ''verified''}) xs. expected_size_bytes x) = (\<Sum>x\<leftarrow>xs. active_bytes x)"
  by (induction xs) (auto simp: active_bytes_def)

text \<open>Rows of segments may change as long as no active one takes the directory of an upload.\<close>

lemma inv_segments:
  assumes inv: "recording_inv settings cipher s"
    and rows: "recordings t = recordings (tables s)" "recording_uploads t = recording_uploads (tables s)"
    and names: "\<And>u. u \<in> set (recording_uploads (tables s)) \<Longrightarrow> storage_name u \<notin> storage_name ` set (active_segments t)"
    and space: "recording_used_bytes None None t \<le> recording_quota_bytes settings"
    and disk: "keeps_owned (tables s) (disk s) d"
  shows "recording_inv settings cipher \<lparr>tables = t, disk = d\<rparr>"
proof -
  have ok: "rows_ok (tables s)" "storage_ok settings cipher (tables s) (disk s)" using inv by (simp_all add: recording_inv_def)
  have "rows_ok t" using ok(1) names unfolding rows_ok_def rows by blast
  moreover have "storage_ok settings cipher (tables s) d" using storage_ok_frame [OF ok(2) disk] .
  then have "storage_ok settings cipher t d" unfolding storage_ok_def rows .
  ultimately show ?thesis using space by (simp add: recording_inv_def)
qed

lemma used_bytes_segments:
  assumes "recordings t = recordings t0" "recording_uploads t = recording_uploads t0"
  shows "recording_used_bytes None None t + (\<Sum>x\<leftarrow>segments t0. active_bytes x) =
    recording_used_bytes None None t0 + (\<Sum>x\<leftarrow>segments t. active_bytes x)"
  unfolding used_bytes_alt active_bytes_sum assms by simp

text \<open>Replacing the row of a segment by one that reserves no more, in the same directory or in none.\<close>

lemma inv_put_segment:
  assumes inv: "recording_inv settings cipher s" and keys: "distinct (map segment_key (segments (tables s)))"
    and x: "x \<in> set (segments (tables s))" "segment_key x' = segment_key x" "active_bytes x' \<le> active_bytes x"
    and name: "segment_status x' \<in> {''uploading'', ''verified''} \<Longrightarrow>
      storage_name x' = storage_name x \<and> segment_status x \<in> {''uploading'', ''verified''}"
    and disk: "keeps_owned (tables s) (disk s) d"
  shows "recording_inv settings cipher \<lparr>tables = put_segment x' (tables s), disk = d\<rparr>"
proof (rule inv_segments [OF inv])
  have ok: "rows_ok (tables s)" "recording_used_bytes None None (tables s) \<le> recording_quota_bytes settings"
    using inv by (simp_all add: recording_inv_def)
  show "storage_name u \<notin> storage_name ` set (active_segments (put_segment x' (tables s)))" if "u \<in> set (recording_uploads (tables s))" for u
  proof
    assume "storage_name u \<in> storage_name ` set (active_segments (put_segment x' (tables s)))"
    then obtain y where y: "y \<in> set (segments (put_segment x' (tables s)))" "segment_status y \<in> {''uploading'', ''verified''}"
      "storage_name u = storage_name y" by auto
    have "storage_name y \<in> storage_name ` set (active_segments (tables s))"
    proof (cases "y = x'")
      case True
      then show ?thesis using x(1) name y(2) by simp
    next
      case False
      then have "y \<in> set (segments (tables s))" using y(1) by auto
      then show ?thesis using y(2) by simp
    qed
    then show False using rows_ok_uploads(1) [OF ok(1) that] y(3) by metis
  qed
  have "(\<Sum>q\<leftarrow>segments (put_segment x' (tables s)). active_bytes q) + active_bytes x =
      (\<Sum>q\<leftarrow>segments (tables s). active_bytes q) + active_bytes x'"
    using sum_replace_row [OF keys x(1), of active_bytes x'] x(2) by simp
  then show "recording_used_bytes None None (put_segment x' (tables s)) \<le> recording_quota_bytes settings"
    using used_bytes_segments [of "put_segment x' (tables s)" "tables s"] ok(2) x(3) by simp
qed (simp_all add: disk)

text \<open>Changing only the directory of an active segment.\<close>

lemma keeps_owned_segment:
  assumes "rows_ok t" "x \<in> set (active_segments t)" "media d' = media d"
    "\<And>n. n \<noteq> storage_name x \<Longrightarrow> map_of (uploads d') n = map_of (uploads d) n"
  shows "keeps_owned t d d'"
  unfolding keeps_owned_def
proof (intro conjI ballI allI impI)
  fix u assume "u \<in> set (recording_uploads t)"
  then have "storage_name u \<noteq> storage_name x" using assms(1,2) unfolding rows_ok_def by blast
  then show "map_of (uploads d') (storage_name u) = map_of (uploads d) (storage_name u)" by (rule assms(4))
qed (simp add: assms(3))

section \<open>Announcing\<close>

text \<open>A check of the space that succeeds leaves room for the reservation.\<close>

definition sound_capacity :: "recording_settings \<Rightarrow> nat \<Rightarrow> (recording_tables \<Rightarrow> request_error + recording_tables) \<Rightarrow> bool" where
  "sound_capacity settings required capacity \<longleftrightarrow>
     (\<forall>t t'. capacity t = Inr t' \<longrightarrow>
        (\<exists>p. t' = t\<lparr>retention_policy := p\<rparr>) \<and> recording_used_bytes None None t + required \<le> recording_quota_bytes settings)"

lemma sound_conversation_capacity: "sound_capacity settings n (require_conversation_capacity settings n now)"
  unfolding sound_capacity_def
proof (intro allI impI)
  fix t t' assume a: "require_conversation_capacity settings n now t = Inr t'"
  obtain p where p: "snd (initialize_retention_policy (development_admin_email settings) now t) = t\<lparr>retention_policy := p\<rparr>"
    by (rule policy_tables)
  have "t' = t\<lparr>retention_policy := p\<rparr> \<and> recording_used_bytes None None t + n \<le> recording_quota_bytes settings"
    using a unfolding require_conversation_capacity_def Let_def p by (simp split: if_splits)
  then show "(\<exists>p. t' = t\<lparr>retention_policy := p\<rparr>) \<and> recording_used_bytes None None t + n \<le> recording_quota_bytes settings" by blast
qed

lemma sound_audit_capacity: "sound_capacity settings n (require_audit_capacity settings limits n now)"
  unfolding sound_capacity_def
proof (intro allI impI)
  fix t t' assume a: "require_audit_capacity settings limits n now t = Inr t'"
  obtain p where p: "snd (initialize_retention_policy (development_admin_email settings) now t) = t\<lparr>retention_policy := p\<rparr>"
    by (rule policy_tables)
  have "t' = t\<lparr>retention_policy := p\<rparr> \<and> recording_used_bytes None None t + n \<le> recording_quota_bytes settings"
    using a unfolding require_audit_capacity_def Let_def p by (simp split: if_splits)
  then show "(\<exists>p. t' = t\<lparr>retention_policy := p\<rparr>) \<and> recording_used_bytes None None t + n \<le> recording_quota_bytes settings" by blast
qed

lemma new_directory_keeps:
  assumes "recording_inv settings cipher s" "create_upload_directory settings uuid (disk s) = Inr d"
  shows "keeps_owned (tables s) (disk s) d"
    "keeps_owned (tables s) (disk s) (d\<lparr>uploads := AList.delete uuid (uploads d)\<rparr>)"
    "u \<in> set (recording_uploads (tables s)) \<Longrightarrow> storage_name u \<noteq> uuid"
proof -
  have ok: "storage_ok settings cipher (tables s) (disk s)" using assms(1) by (simp add: recording_inv_def)
  show k: "keeps_owned (tables s) (disk s) d" by (rule keeps_owned_create [OF ok assms(2)])
  show new: "u \<in> set (recording_uploads (tables s)) \<Longrightarrow> storage_name u \<noteq> uuid" for u by (rule upload_names_old [OF ok assms(2)])
  show "keeps_owned (tables s) (disk s) (d\<lparr>uploads := AList.delete uuid (uploads d)\<rparr>)"
    using k new by (simp add: keeps_owned_def delete_conv')
qed

lemma segment_rows_policy [simp]: "segment_rows_ok (t\<lparr>retention_policy := p\<rparr>) = segment_rows_ok t"
  by (simp add: segment_rows_ok_def upload_ids_def)

lemma add_segment_inv:
  assumes inv: "recording_inv settings cipher s" "segment_rows_ok (tables s)"
    and cap: "sound_capacity settings (part_expected_size_bytes body) capacity"
    and run: "add_segment api settings capacity recording body uuid now commit_ok s = (r, s')"
  shows "recording_inv settings cipher s' \<and> segment_rows_ok (tables s')"
proof (cases "s' = s")
  case False
  obtain t d where t: "capacity (tables s) = Inr t" and d: "create_upload_directory settings uuid (disk s) = Inr d"
    using run False by (auto simp: add_segment_def split: sum.splits)
  obtain p where p: "t = (tables s)\<lparr>retention_policy := p\<rparr>"
    and space: "recording_used_bytes None None (tables s) + part_expected_size_bytes body \<le> recording_quota_bytes settings"
    using cap t unfolding sound_capacity_def by blast
  note new = new_directory_keeps [OF inv(1) d]
  let ?x = "new_segment recording body uuid now"
  let ?t = "t\<lparr>segments := segments t @ [?x]\<rparr>"
  have x: "storage_name ?x = uuid" "segment_key ?x = (recording_id recording, part_index body)"
    "active_bytes ?x = part_expected_size_bytes body" by (simp_all add: new_segment_def segment_key_def active_bytes_def)
  have added: "recording_inv settings cipher \<lparr>tables = ?t, disk = d\<rparr>"
  proof (rule inv_segments [OF inv(1)])
    have rows: "rows_ok (tables s)" using inv by (simp add: recording_inv_def)
    show "storage_name u \<notin> storage_name ` set (active_segments ?t)" if "u \<in> set (recording_uploads (tables s))" for u
      using rows that new(3) [OF that] x(1) unfolding rows_ok_def p by auto
    show "recording_used_bytes None None ?t \<le> recording_quota_bytes settings"
      using used_bytes_segments [of ?t "tables s"] space x(3) by (simp add: p)
  qed (simp_all add: p new(1))
  have kept: "recording_inv settings cipher (s\<lparr>disk := d\<rparr>)"
    "recording_inv settings cipher (s\<lparr>disk := d\<lparr>uploads := AList.delete uuid (uploads d)\<rparr>\<rparr>)"
    using inv_frame [OF inv(1)] new by blast+
  have keys: "segment_rows_ok ?t" if "find_segment (recording_id recording) (int (part_index body)) t = None"
    using inv(2) that x(2)
    by (auto simp: p segment_rows_ok_def upload_ids_def find_segment_def find_None_iff segment_key_def)
  show ?thesis using run False t d added kept keys inv(2)
    by (auto simp: add_segment_def Let_def split: if_splits)
qed (use inv in simp)

lemma resume_segment_inv:
  assumes inv: "recording_inv settings cipher s" "segment_rows_ok (tables s)"
    and cap: "sound_capacity settings (part_expected_size_bytes body) capacity" and x: "x \<in> set (segments (tables s))"
    and run: "resume_segment settings capacity body uuid now commit_ok x s = (r, s')"
  shows "recording_inv settings cipher s' \<and> segment_rows_ok (tables s')"
proof (cases "s' = s")
  case False
  obtain t d where t: "capacity (tables s) = Inr t" and d: "create_upload_directory settings uuid (disk s) = Inr d"
    and f: "segment_status x = ''failed''" "same_receipt x body"
    using run False by (auto simp: resume_segment_def split: sum.splits if_splits)
  obtain p where p: "t = (tables s)\<lparr>retention_policy := p\<rparr>"
    and space: "recording_used_bytes None None (tables s) + part_expected_size_bytes body \<le> recording_quota_bytes settings"
    using cap t unfolding sound_capacity_def by blast
  note new = new_directory_keeps [OF inv(1) d]
  let ?x = "x\<lparr>storage_name := uuid, upload_offset := 0, segment_status := ''uploading'', upload_updated_at := now\<rparr>"
  let ?t = "put_segment ?x t"
  have key: "segment_key ?x = segment_key x" by (simp add: segment_key_def)
  have bytes: "active_bytes ?x = part_expected_size_bytes body" "active_bytes x = 0"
    using f by (simp_all add: active_bytes_def same_receipt_def)
  have added: "recording_inv settings cipher \<lparr>tables = ?t, disk = d\<rparr>"
  proof (rule inv_segments [OF inv(1)])
    have rows: "rows_ok (tables s)" using inv by (simp add: recording_inv_def)
    show "storage_name u \<notin> storage_name ` set (active_segments ?t)" if "u \<in> set (recording_uploads (tables s))" for u
      using rows that new(3) [OF that] unfolding rows_ok_def p by (auto split: if_splits)
    have "(\<Sum>q\<leftarrow>segments ?t. active_bytes q) + active_bytes x = (\<Sum>q\<leftarrow>segments (tables s). active_bytes q) + active_bytes ?x"
      using sum_replace_row [of segment_key "segments (tables s)" x active_bytes ?x] inv(2) x by (simp add: p key segment_rows_ok_def)
    then show "recording_used_bytes None None ?t \<le> recording_quota_bytes settings"
      using used_bytes_segments [of ?t "tables s"] space bytes by (simp add: p)
  qed (simp_all add: p new(1))
  moreover have "recording_inv settings cipher (s\<lparr>disk := d\<rparr>)" using inv_frame [OF inv(1)] new(1) by blast
  moreover have "segment_rows_ok ?t" using inv(2) by (intro segment_rows_put) (simp add: p)
  ultimately show ?thesis using run False t d f inv(2) by (auto simp: resume_segment_def Let_def split: if_splits)
qed (use inv in simp)

lemma create_segment_inv:
  assumes inv: "recording_inv settings cipher s" "segment_rows_ok (tables s)"
    and cap: "sound_capacity settings (part_expected_size_bytes body) capacity"
    and run: "create_segment api settings history capacity matches timing i index device body uuid now commit_ok s = (r, s')"
  shows "recording_inv settings cipher s' \<and> segment_rows_ok (tables s')"
proof (cases "s' = s")
  case False
  then consider recording where "add_segment api settings capacity recording body uuid now commit_ok s = (r, s')"
    | x where "x \<in> set (segments (tables s))" "resume_segment settings capacity body uuid now commit_ok x s = (r, s')"
    using run find_segment_Some by (fastforce simp: create_segment_def split: sum.splits if_splits option.splits)
  then show ?thesis by cases (use add_segment_inv [OF inv cap] resume_segment_inv [OF inv cap] in blast)+
qed (use inv in simp)

text \<open>A new segmented recording has no bytes yet.\<close>

lemma add_recording_inv:
  assumes inv: "recording_inv settings cipher s" "segment_rows_ok (tables s)"
    and r: "recording_status recording = ''uploading''" "is_ascii (recording_id recording)" 
    and run: "add_recording refusal recording commit_ok s = (res, s')"
  shows "recording_inv settings cipher s' \<and> segment_rows_ok (tables s')"
proof (cases "s' = s")
  case False
  let ?t = "(tables s)\<lparr>recordings := recordings (tables s) @ [recording]\<rparr>"
  have s': "s' = s\<lparr>tables := ?t\<rparr>" and fresh: "recording_id recording \<notin> recording_id ` set (recordings (tables s))"
    using run False by (auto simp: add_recording_def recording_taken_def list_ex_iff split: if_splits)
  have ok: "rows_ok (tables s)" "storage_ok settings cipher (tables s) (disk s)"
    "recording_used_bytes None None (tables s) \<le> recording_quota_bytes settings" using inv by (simp_all add: recording_inv_def)
  have ready: "ready_rows ?t = ready_rows (tables s)" using r(1) by simp
  have "rows_ok ?t"
    by (rule rows_okI [OF ok(1), of _ "[recording_id recording]"]) (use fresh r(1) in auto)
  moreover have "storage_ok settings cipher ?t (disk s)" using ok(2) unfolding storage_ok_def ready by simp
  moreover have "recording_used_bytes None None ?t = recording_used_bytes None None (tables s)"
    using r(1) by (simp add: recording_used_bytes_def)
  moreover have "recording_id recording \<notin> upload_ids (tables s)"
  proof
    assume "recording_id recording \<in> upload_ids (tables s)"
    then obtain u where "u \<in> set (recording_uploads (tables s))" "recording_id recording = upload_recording_id u"
      by (auto simp: upload_ids_def)
    then show False using rows_ok_uploads(3) [OF ok(1)] fresh by force
  qed
  then have "segment_rows_ok ?t" using inv(2) r by (auto simp: segment_rows_ok_def upload_ids_def)
  ultimately show ?thesis using ok(3) by (simp add: s' recording_inv_def)
qed (use inv in simp)

section \<open>Content and verification\<close>

lemma owned_recording_row:
  assumes "owned_recording api t i device = Inr r"
  shows "r \<in> set (recordings t)" "recording_id r = i" "recording_kind r = served_kind api" "recording_source_format r = ''legacy_wav''"
  using assms find_recording_Some by (auto simp: owned_recording_def split: option.splits if_splits)

lemma open_segment_row:
  assumes "open_segment api refusal i index device t = Inr (Inr (recording, x))"
  shows "x \<in> set (segments t)" "segment_status x = ''uploading''" "recording \<in> set (recordings t)"
  using assms find_segment_Some owned_recording_row
  by (auto simp: open_segment_def owned_segment_def bind_result_Inr split: option.splits if_splits)

lemma upload_segment_content_inv:
  assumes inv: "recording_inv settings cipher s" "segment_rows_ok (tables s)"
    and run: "upload_segment_content api settings cipher i index device request nonce now commit_ok s = (r, s')"
  shows "recording_inv settings cipher s' \<and> segment_rows_ok (tables s')"
proof (cases "s' = s")
  case False
  then obtain offset recording x where h: "header_upload_offset request = Some offset"
    and o: "open_segment api (content_refused api) i index device (tables s) = Inr (Inr (recording, x))"
    using run by (auto simp: upload_segment_content_def split: option.splits if_splits sum.splits)
  let ?read = "read_segment_chunk (overlong_chunk api) (header_content_length request) (body_parts request) (recording_chunk_limit_bytes settings)"
  obtain body where body: "?read = Inr body"
    using run False h o by (cases ?read) (auto simp: upload_segment_content_def split: if_splits)
  let ?store = "store_chunk settings cipher (Some (segment_identity x)) nonce now (nat offset) body (recording, x, disk s)"
  obtain recording' x' d where c: "?store = Inr (recording', x', d)"
    using run False h o body by (cases ?store) (auto simp: upload_segment_content_def split: if_splits)
  have s': "s' = (if commit_ok then \<lparr>tables = put_segment x' (tables s), disk = d\<rparr> else s\<lparr>disk := d\<rparr>)"
    using run False h o body c by (auto simp: upload_segment_content_def split: if_splits)
  note row = open_segment_row [OF o]
  have rows: "rows_ok (tables s)" using inv(1) by (simp add: recording_inv_def)
  have disk: "keeps_owned (tables s) (disk s) d"
    by (rule keeps_owned_segment [OF rows, of x]) (use row store_chunk_elsewhere [OF c] in simp_all)
  have x': "segment_key x' = segment_key x" "active_bytes x' = active_bytes x" "storage_name x' = storage_name x"
    using store_chunk_rows [OF c] by (auto simp: segment_key_def active_bytes_def)
  have "recording_inv settings cipher \<lparr>tables = put_segment x' (tables s), disk = d\<rparr>"
    by (rule inv_put_segment [OF inv(1) _ row(1) x'(1) _ _ disk]) (use inv(2) x' row(2) in \<open>simp_all add: segment_rows_ok_def\<close>)
  moreover have "recording_inv settings cipher (s\<lparr>disk := d\<rparr>)" by (rule inv_frame [OF inv(1) disk])
  ultimately show ?thesis using s' inv(2) segment_rows_put by (cases commit_ok) auto
qed (use inv in simp)

lemma accept_segment_inv:
  assumes inv: "recording_inv settings cipher s" "segment_rows_ok (tables s)"
    and x: "x \<in> set (segments (tables s))" "segment_status x = ''uploading''"
    and run: "accept_segment details now commit_ok x s = (r, s')"
  shows "recording_inv settings cipher s' \<and> segment_rows_ok (tables s')"
proof -
  let ?x = "verified_segment details now x"
  have "recording_inv settings cipher \<lparr>tables = put_segment ?x (tables s), disk = disk s\<rparr>"
    by (rule inv_put_segment [OF inv(1) _ x(1)])
      (use inv(2) x(2) in \<open>simp_all add: segment_rows_ok_def verified_segment_def segment_key_def active_bytes_def\<close>)
  then have "recording_inv settings cipher (s\<lparr>tables := put_segment ?x (tables s)\<rparr>)" by (simp add: recording_inv_def)
  then show ?thesis using run inv segment_rows_put by (auto simp: accept_segment_def Let_def split: if_splits)
qed

lemma reject_segment_inv:
  assumes inv: "recording_inv settings cipher s" "segment_rows_ok (tables s)"
    and x: "x \<in> set (segments (tables s))" "segment_status x = ''uploading''"
    and run: "reject_segment settings e now commit_ok x s = (r, s')"
  shows "recording_inv settings cipher s' \<and> segment_rows_ok (tables s')"
proof -
  let ?x = "x\<lparr>segment_status := ''failed'', upload_updated_at := now\<rparr>"
  let ?d = "snd (remove_upload_files settings ?x (disk s))"
  have rows: "rows_ok (tables s)" using inv(1) by (simp add: recording_inv_def)
  have disk: "keeps_owned (tables s) (disk s) ?d"
    by (rule keeps_owned_segment [OF rows, of x]) (use x remove_upload_elsewhere [where upload = ?x] in simp_all)
  have "recording_inv settings cipher \<lparr>tables = put_segment ?x (tables s), disk = ?d\<rparr>"
    by (rule inv_put_segment [OF inv(1) _ x(1) _ _ _ disk])
      (use inv(2) x(2) in \<open>simp_all add: segment_rows_ok_def segment_key_def active_bytes_def\<close>)
  then show ?thesis using run inv segment_rows_put by (auto simp: reject_segment_def Let_def split: if_splits prod.splits)
qed

lemma complete_conversation_segment_inv:
  assumes inv: "recording_inv settings cipher s" "segment_rows_ok (tables s)"
    and run: "complete_conversation_segment settings cipher i index device now commit_ok s = (r, s')"
  shows "recording_inv settings cipher s' \<and> segment_rows_ok (tables s')"
  using run inv open_segment_row accept_segment_inv [OF inv]
  by (fastforce simp: complete_conversation_segment_def split: sum.splits)

lemma complete_session_segment_inv:
  assumes inv: "recording_inv settings cipher s" "segment_rows_ok (tables s)"
    and run: "complete_session_segment settings cipher i index device now commit_ok s = (r, s')"
  shows "recording_inv settings cipher s' \<and> segment_rows_ok (tables s')"
  using run inv open_segment_row accept_segment_inv [OF inv] reject_segment_inv [OF inv]
  by (fastforce simp: complete_session_segment_def split: sum.splits if_splits)

section \<open>Completion\<close>

lemma put_segments_rows:
  "distinct (map segment_key ys) \<Longrightarrow>
   segments (put_segments ys t) =
     map (\<lambda>y. case map_of (map (\<lambda>z. (segment_key z, z)) ys) (segment_key y) of None \<Rightarrow> y | Some z \<Rightarrow> z) (segments t)"
  unfolding put_segments_def
proof (induction ys arbitrary: t)
  case (Cons z ys)
  have "map_of (map (\<lambda>z. (segment_key z, z)) ys) (segment_key z) = None"
    using Cons.prems by (auto simp: map_of_eq_None_iff image_iff)
  then show ?case using Cons by simp
qed simp

lemma put_segments_other:
  "recordings (put_segments ys t) = recordings t" "recording_uploads (put_segments ys t) = recording_uploads t"
  unfolding put_segments_def by (induction ys arbitrary: t) simp_all

text \<open>Assembly marks exactly the segments of its recording.\<close>

lemma put_assembled:
  assumes keys: "distinct (map segment_key (segments t))" and same: "segments t' = segments t"
  shows "segments (put_segments (map (assembled_segment now) (segments_of i t)) t') =
    map (\<lambda>x. if segment_recording_id x = i then assembled_segment now x else x) (segments t')"
proof -
  let ?f = "assembled_segment now" and ?xs = "segments_of i t"
  have key [simp]: "segment_key (?f x) = segment_key x" for x by (simp add: segment_key_def assembled_segment_def)
  have set: "set ?xs = {x \<in> set (segments t). segment_recording_id x = i}" by (auto simp: segments_of_def)
  have "distinct (map segment_key (filter (\<lambda>x. segment_recording_id x = i) (segments t)))" using keys by (rule distinct_map_filter)
  then have "distinct (map segment_key ?xs)" by (simp add: segments_of_def distinct_map)
  then have d: "distinct (map segment_key (map ?f ?xs))" by (simp add: o_def)
  have "map_of (map (\<lambda>z. (segment_key z, z)) (map ?f ?xs)) (segment_key x) = (if segment_recording_id x = i then Some (?f x) else None)"
    if "x \<in> set (segments t)" for x
  proof (cases "segment_recording_id x = i")
    case True
    have mem: "(segment_key x, ?f x) \<in> set (map (\<lambda>z. (segment_key z, z)) (map ?f ?xs))" using set that True by force
    have "distinct (map fst (map (\<lambda>z. (segment_key z, z)) (map ?f ?xs)))" using d by (simp add: o_def)
    from map_of_is_SomeI [OF this mem] show ?thesis using True by (simp only: if_True refl)
  next
    case False
    have "segment_key x \<notin> fst ` set (map (\<lambda>z. (segment_key z, z)) (map ?f ?xs))"
    proof
      assume "segment_key x \<in> fst ` set (map (\<lambda>z. (segment_key z, z)) (map ?f ?xs))"
      then obtain z where "z \<in> set ?xs" "segment_key x = segment_key z" by auto
      then show False using False set by (simp add: segment_key_def)
    qed
    then show ?thesis using False by (simp only: map_of_eq_None_iff if_False simp_thms)
  qed
  then show ?thesis unfolding put_segments_rows [OF d] same by (intro map_cong) simp_all
qed

lemma used_bytes_excluded:
  "recording_used_bytes None (Some i) t =
     (\<Sum>r\<leftarrow>recordings t. ready_bytes r) + (\<Sum>u\<leftarrow>recording_uploads t. expected_size_bytes u) +
     (\<Sum>x\<leftarrow>map (\<lambda>x. if segment_recording_id x = i then assembled_segment now x else x) (segments t). active_bytes x)"
proof -
  have "(\<Sum>r\<leftarrow>filter (\<lambda>r. recording_status r = ''ready'') rs. media_bytes r) = (\<Sum>r\<leftarrow>rs. ready_bytes r)" for rs
    by (induction rs) (auto simp: ready_bytes_def)
  moreover have "(\<Sum>x\<leftarrow>filter (\<lambda>x. segment_status x \<in> {''uploading'', ''verified''} \<and> Some i \<noteq> Some (segment_recording_id x)) xs. expected_size_bytes x) =
      (\<Sum>x\<leftarrow>map (\<lambda>x. if segment_recording_id x = i then assembled_segment now x else x) xs. active_bytes x)" for xs
    by (induction xs) (auto simp: active_bytes_def assembled_segment_def)
  ultimately show ?thesis by (simp add: recording_used_bytes_def)
qed

lemma finish_recording_inv:
  assumes inv: "recording_inv settings cipher s" "segment_rows_ok (tables s)"
    and t: "t = (tables s)\<lparr>retention_policy := p\<rparr>"
    and r: "recording \<in> set (recordings (tables s))" "recording_status recording = ''uploading''" "segmented recording"
    and segs: "segs = segments_of (recording_id recording) (tables s)"
    and lib: "streams_agree gcm (library cipher)" "cipher_ready cipher" "length nonce = 12" "fresh_uuid uuid s"
    and run: "finish_recording settings gcm cipher ffmpeg nonce uuid now commit_ok recording segs t s = (res, s')"
  shows "recording_inv settings cipher s' \<and> segment_rows_ok (tables s')"
proof (cases "assemble_conversation_recording settings gcm cipher ffmpeg nonce uuid now False recording segs (s\<lparr>tables := t\<rparr>)")
  case (Inl e)
  then show ?thesis using run inv by (simp add: finish_recording_def)
next
  case (Inr x)
  obtain recording' segs' d where x: "x = (recording', segs', d)" by (cases x) auto
  have ascii: "is_ascii (recording_id recording)" and no_upload: "recording_id recording \<notin> upload_ids (tables s)"
    and keys: "distinct (map segment_key (segments (tables s)))"
    using inv(2) r unfolding segment_rows_ok_def by blast+
  have uuid: "length uuid = 32" "list_all hex_char uuid" "Some (uuid @ ''.rec'') \<notin> media_storage_name ` set (recordings (tables s))"
    using lib(4) by (simp_all add: fresh_uuid_def)
  obtain payload :: bytes and f where a: "segments_complete False segs = Inr ()"
    "recording_used_bytes None (Some (recording_id recording)) (tables s) + length payload \<le> recording_quota_bytes settings"
    "recording_id recording' = recording_id recording" "recording_status recording' = ''ready''" "segmented recording' = segmented recording"
    "media_storage_name recording' = Some (uuid @ ''.rec'')" "media_bytes recording' = length payload"
    "segs' = map (assembled_segment now) segs"
    "d = (disk s)\<lparr>media := AList.update (uuid @ ''.rec'') f (media (disk s))\<rparr>" "is_ok (load_media settings cipher recording' d)"
  proof (rule assemble_Inr [OF Inr [unfolded x] lib(1,2,3) ascii uuid(1,2)], goal_cases)
    case (1 span combined encoded payload)
    show ?case
      by (rule 1(1) [of payload "private_file settings payload"])
        (use 1(2-) in \<open>simp_all add: t media_bytes_def segmented_def\<close>)
  qed
  have ok: "rows_ok (tables s)" "storage_ok settings cipher (tables s) (disk s)" using inv(1) by (simp_all add: recording_inv_def)
  have name: "media_storage_name q \<noteq> Some (uuid @ ''.rec'')" if "q \<in> set (ready_rows (tables s))" for q
    using that uuid(3) by (metis filter_is_subset image_eqI subsetD)
  let ?t = "put_segments segs' (put_recording recording' t)"
  let ?d = "snd (remove_all_uploads settings (map upload_row.truncate segs') d)"
  have s': "s' = (if commit_ok then \<lparr>tables = ?t, disk = ?d\<rparr> else s\<lparr>disk := unlink (uuid @ ''.rec'') d\<rparr>)"
    using run Inr x a(6) by (auto simp: finish_recording_def split: if_splits prod.splits)
  have "keeps_owned (tables s) (disk s) (unlink (uuid @ ''.rec'') d)"
    using name by (auto simp: keeps_owned_def unlink_conv a(9) update_conv)
  then have kept: "recording_inv settings cipher (s\<lparr>disk := unlink (uuid @ ''.rec'') d\<rparr>)" by (rule inv_frame [OF inv(1)])
  let ?g = "\<lambda>x. if segment_recording_id x = recording_id recording then assembled_segment now x else x"
  have cols: "recordings ?t = recordings (put_recording recording' (tables s))" "recording_uploads ?t = recording_uploads (tables s)"
    "segments ?t = map ?g (segments (tables s))"
    using put_assembled [OF keys, of "put_recording recording' t" now "recording_id recording"] a(8)
    by (simp_all add: put_segments_other t segs)
  have del: "rows_ok (put_recording recording' (tables s))"
  proof -
    have "filter (\<lambda>u. upload_recording_id u \<noteq> recording_id recording') (recording_uploads (tables s)) = recording_uploads (tables s)"
      by (intro filter_True ballI) (use no_upload a(3) in \<open>metis image_eqI upload_ids_def\<close>)
    then have "delete_upload (recording_id recording') (put_recording recording' (tables s)) = put_recording recording' (tables s)"
      by (simp add: delete_upload_def)
    then show ?thesis using rows_ok_complete [OF ok(1) r(1) a(3,4)] uuid(3) a(6) by simp
  qed
  have active: "set (active_segments ?t) \<subseteq> set (active_segments (tables s))"
    unfolding cols(3) by (auto simp: assembled_segment_def split: if_splits)
  have rows: "rows_ok ?t"
    by (rule rows_okI [OF del, of _ "[]"]) (use cols(1,2) active in \<open>simp_all only: put_recording_rows append_Nil2 distinct.simps list.set Int_empty_left subset_refl\<close>)
  have "recording_used_bytes None None ?t = recording_used_bytes None (Some (recording_id recording)) (tables s) + length payload"
  proof -
    have "ready_bytes recording = 0" "ready_bytes recording' = length payload" using r(2) a(4,7) by (simp_all add: ready_bytes_def)
    then show ?thesis
      using sum_replace_row [OF rows_okD(1) [OF ok(1)] r(1), of ready_bytes recording']
      unfolding used_bytes_alt used_bytes_excluded [of _ _ now] active_bytes_sum cols put_recording_rows a(3) by simp
  qed
  then have space: "recording_used_bytes None None ?t \<le> recording_quota_bytes settings" using a(2) by simp
  have media: "media ?d = media d" and dirs: "n \<notin> storage_name ` set segs \<Longrightarrow> map_of (uploads ?d) n = map_of (uploads (disk s)) n" for n
    using remove_all_elsewhere [of settings "map upload_row.truncate segs'" d]
    by (auto simp: a(8,9) upload_row.truncate_def assembled_segment_def image_image)
  have "is_ok (load_media settings cipher q ?d)" if q: "q \<in> set (ready_rows ?t)" for q
  proof (cases "q = recording'")
    case True
    then show ?thesis using a(10) load_media_cong [of q ?d d settings cipher] media by simp
  next
    case False
    then have old: "q \<in> set (ready_rows (tables s))" using q unfolding cols(1) by auto
    have "load_media settings cipher q ?d = load_media settings cipher q (disk s)"
      by (rule load_media_cong) (use name [OF old] in \<open>simp add: media, simp add: a(9) update_conv\<close>)
    then show ?thesis using ok(2) old unfolding storage_ok_def by metis
  qed
  moreover have "\<exists>content. upload_holds settings cipher (upload_recording_id v) v ?d content" if "v \<in> set (recording_uploads ?t)" for v
  proof -
    have v: "v \<in> set (recording_uploads (tables s))" using that cols(2) by simp
    have "set segs \<subseteq> set (active_segments (tables s))"
      using a(1) by (auto simp: segments_complete_def list_ex_iff segs segments_of_def split: if_splits)
    then have "storage_name v \<notin> storage_name ` set segs" using ok(1) v unfolding rows_ok_def by blast
    then show ?thesis using ok(2) v upload_holds_cong [OF dirs] unfolding storage_ok_def by metis
  qed
  ultimately have "recording_inv settings cipher \<lparr>tables = ?t, disk = ?d\<rparr>"
    using rows space unfolding recording_inv_def storage_ok_def by simp
  moreover have "segment_rows_ok ?t"
  proof -
    have "map segment_key (segments ?t) = map segment_key (segments (tables s))"
      unfolding cols(3) by (simp add: segment_key_def assembled_segment_def)
    moreover have "segment_rows_ok (put_recording recording' (tables s))"
      by (rule segment_rows_evolve [OF inv(2) evolve_put_recording [OF r(1) a(3,5)]]) (simp add: a(4))
    ultimately show ?thesis using keys unfolding segment_rows_ok_def upload_ids_def cols(1,2) by simp
  qed
  ultimately show ?thesis using s' kept inv(2) by (cases commit_ok) simp_all
qed

lemma open_recording_row:
  assumes "open_recording api i device segment_count t = Inr (Inr (recording, segs))" "served_kind api \<noteq> ''voicemail''"
  shows "recording \<in> set (recordings t)" "recording_status recording = ''uploading''" "segmented recording"
    "segs = segments_of (recording_id recording) t"
  using assms owned_recording_row
  by (auto simp: open_recording_def bind_result_Inr segmented_def split: if_splits)

lemma complete_conversation_inv:
  assumes inv: "recording_inv settings cipher s" "segment_rows_ok (tables s)"
    and lib: "streams_agree gcm (library cipher)" "cipher_ready cipher" "length nonce = 12" "fresh_uuid uuid s"
    and run: "complete_conversation_recording settings gcm cipher ffmpeg i device segment_count nonce uuid now commit_ok s = (r, s')"
  shows "recording_inv settings cipher s' \<and> segment_rows_ok (tables s')"
proof (cases "s' = s")
  case False
  then obtain recording segs where o: "open_recording conversations i device segment_count (tables s) = Inr (Inr (recording, segs))"
    using run by (auto simp: complete_conversation_recording_def split: sum.splits)
  have f: "finish_recording settings gcm cipher ffmpeg nonce uuid now commit_ok recording segs (tables s) s = (r, s')"
    using run o by (simp add: complete_conversation_recording_def)
  have "tables s = (tables s)\<lparr>retention_policy := retention_policy (tables s)\<rparr>" by simp
  from finish_recording_inv [OF inv this _ _ _ _ lib f] open_recording_row [OF o] show ?thesis by (simp add: conversations_def)
qed (use inv in simp)

lemma complete_session_inv:
  assumes inv: "recording_inv settings cipher s" "segment_rows_ok (tables s)"
    and lib: "streams_agree gcm (library cipher)" "cipher_ready cipher" "length nonce = 12" "fresh_uuid uuid s"
    and run: "complete_session_recording settings limits gcm cipher ffmpeg i device segment_count nonce uuid now commit_ok s = (r, s')"
  shows "recording_inv settings cipher s' \<and> segment_rows_ok (tables s')"
proof (cases "s' = s")
  case False
  then obtain recording segs t where o: "open_recording session_audits i device segment_count (tables s) = Inr (Inr (recording, segs))"
    and t: "require_audit_capacity settings limits 0 now (tables s) = Inr t"
    and f: "finish_recording settings gcm cipher ffmpeg nonce uuid now commit_ok recording segs t s = (r, s')"
    using run by (auto simp: complete_session_recording_def Let_def bind_result_Inr split: sum.splits if_splits)
  obtain p where "t = (tables s)\<lparr>retention_policy := p\<rparr>"
    using t sound_audit_capacity [of settings 0 limits now] unfolding sound_capacity_def by blast
  from finish_recording_inv [OF inv this _ _ _ _ lib f] open_recording_row [OF o] show ?thesis by (simp add: session_audits_def)
qed (use inv in simp)

section \<open>Sequences of requests of all kinds\<close>

inductive segment_step ::
  "recording_settings \<Rightarrow> 'c gcm_library \<Rightarrow> RecordingCipher \<Rightarrow> (bytes \<Rightarrow> (int \<times> bytes option) option) \<Rightarrow> recording_state \<Rightarrow> recording_state \<Rightarrow> bool"
  for settings gcm cipher ffmpeg where
  conversation: "segment_step settings gcm cipher ffmpeg s s'"
    if "create_conversation_recording parse history device body now commit_ok s = (result, s')" "is_ascii (conversation_recording_id body)"
| session: "segment_step settings gcm cipher ffmpeg s s'"
    if "create_session_recording parse history device body now commit_ok s = (result, s')" "is_ascii (session_recording_id body)"
| conversation_part: "segment_step settings gcm cipher ffmpeg s s'"
    if "create_conversation_segment settings history i index device part uuid now commit_ok s = (answer, s')"
| session_part: "segment_step settings gcm cipher ffmpeg s s'"
    if "create_session_segment settings limits history i index device audit_part uuid now commit_ok s = (answer, s')"
| conversation_content: "segment_step settings gcm cipher ffmpeg s s'"
    if "upload_conversation_segment_content settings cipher i index device request nonce now commit_ok s = (answer, s')"
| session_content: "segment_step settings gcm cipher ffmpeg s s'"
    if "upload_session_segment_content settings cipher i index device request nonce now commit_ok s = (answer, s')"
| conversation_verify: "segment_step settings gcm cipher ffmpeg s s'"
    if "complete_conversation_segment settings cipher i index device now commit_ok s = (answer, s')"
| session_verify: "segment_step settings gcm cipher ffmpeg s s'"
    if "complete_session_segment settings cipher i index device now commit_ok s = (answer, s')"
| conversation_complete: "segment_step settings gcm cipher ffmpeg s s'"
    if "complete_conversation_recording settings gcm cipher ffmpeg i device segment_count nonce uuid now commit_ok s = (result, s')"
      "fresh_uuid uuid s" "length nonce = 12"
| session_complete: "segment_step settings gcm cipher ffmpeg s s'"
    if "complete_session_recording settings limits gcm cipher ffmpeg i device segment_count nonce uuid now commit_ok s = (result, s')"
      "fresh_uuid uuid s" "length nonce = 12"

lemma announce_inv:
  assumes inv: "recording_inv settings cipher s" "segment_rows_ok (tables s)"
    and run: "s' = s \<or> (\<exists>refusal recording. add_recording refusal recording commit_ok s = (result, s') \<and>
      recording_status recording = ''uploading'' \<and> is_ascii (recording_id recording))"
  shows "recording_inv settings cipher s' \<and> segment_rows_ok (tables s')"
  using run add_recording_inv [OF inv] inv by blast

lemma create_conversation_inv:
  assumes inv: "recording_inv settings cipher s" "segment_rows_ok (tables s)" and ascii: "is_ascii (conversation_recording_id body)"
    and run: "create_conversation_recording parse history device body now commit_ok s = (result, s')"
  shows "recording_inv settings cipher s' \<and> segment_rows_ok (tables s')"
proof (rule announce_inv [OF inv, of s' commit_ok result])
  show "s' = s \<or> (\<exists>refusal recording. add_recording refusal recording commit_ok s = (result, s') \<and>
      recording_status recording = ''uploading'' \<and> is_ascii (recording_id recording))"
  proof (cases "find_recording (conversation_recording_id body) (tables s)")
    case None
    show ?thesis
    proof (cases "conversation_admissible parse history device body (tables s)")
      case (Inr phone)
      note run [unfolded create_conversation_recording_def None Inr option.case sum.case]
      then show ?thesis by (intro disjI2 exI conjI) (assumption, simp_all add: segmented_recording_def ascii)
    qed (use run None in \<open>simp add: create_conversation_recording_def\<close>)
  qed (use run in \<open>auto simp: create_conversation_recording_def split: if_splits\<close>)
qed

lemma create_session_inv:
  assumes inv: "recording_inv settings cipher s" "segment_rows_ok (tables s)" and ascii: "is_ascii (session_recording_id body)"
    and run: "create_session_recording parse history device body now commit_ok s = (result, s')"
  shows "recording_inv settings cipher s' \<and> segment_rows_ok (tables s')"
proof (rule announce_inv [OF inv, of s' commit_ok result])
  show "s' = s \<or> (\<exists>refusal recording. add_recording refusal recording commit_ok s = (result, s') \<and>
      recording_status recording = ''uploading'' \<and> is_ascii (recording_id recording))"
  proof (cases "session_admissible parse history device body")
    case (Inr x)
    obtain call report where x: "x = (call, report)" by (cases x) auto
    show ?thesis
    proof (cases "find_recording (session_recording_id body) (tables s)")
      case None
      note run [unfolded create_session_recording_def None Inr x option.case sum.case prod.case]
      then show ?thesis by (intro disjI2 exI conjI) (assumption, simp_all add: segmented_recording_def ascii)
    qed (use run Inr x in \<open>auto simp: create_session_recording_def split: if_splits\<close>)
  qed (use run in \<open>simp add: create_session_recording_def\<close>)
qed

lemmas segment_request_invs =
  create_conversation_inv create_session_inv
  create_segment_inv [OF _ _ sound_conversation_capacity] create_segment_inv [OF _ _ sound_audit_capacity]
  upload_segment_content_inv complete_conversation_segment_inv complete_session_segment_inv
  complete_conversation_inv complete_session_inv

lemma segment_step_inv:
  assumes "segment_step settings gcm cipher ffmpeg s s'" "streams_agree gcm (library cipher)" "cipher_ready cipher"
    "recording_inv settings cipher s" "segment_rows_ok (tables s)"
  shows "recording_inv settings cipher s' \<and> segment_rows_ok (tables s')"
  using assms(1)
proof cases
  case (conversation_part history i index device part uuid now commit_ok answer)
  then show ?thesis using segment_request_invs(3) [OF assms(4,5)] unfolding create_conversation_segment_def by blast
next
  case (session_part limits history i index device audit_part uuid now commit_ok answer)
  then show ?thesis using segment_request_invs(4) [OF assms(4,5)] unfolding create_session_segment_def by blast
qed (use segment_request_invs [OF assms(4,5)] assms(2,3) in
    \<open>unfold upload_conversation_segment_content_def upload_session_segment_content_def, blast+\<close>)

text \<open>One request of any kind, or one run of the maintenance.\<close>

definition service_step ::
  "recording_settings \<Rightarrow> 'c gcm_library \<Rightarrow> RecordingCipher \<Rightarrow> (string \<Rightarrow> bytes \<Rightarrow> (int \<times> bytes) option) \<Rightarrow>
   (bytes \<Rightarrow> (int \<times> bytes option) option) \<Rightarrow> recording_state \<Rightarrow> recording_state \<Rightarrow> bool" where
  "service_step settings gcm cipher transcoder assembler s s' \<longleftrightarrow>
     recording_step settings cipher transcoder s s' \<or> segment_step settings gcm cipher assembler s s'"

lemma service_steps_inv:
  assumes "(service_step settings gcm cipher transcoder assembler)\<^sup>*\<^sup>* s s'"
    "streams_agree gcm (library cipher)" "cipher_ready cipher" "recording_inv settings cipher s" "segment_rows_ok (tables s)"
  shows "recording_inv settings cipher s' \<and> segment_rows_ok (tables s')"
  using assms
proof (induction rule: rtranclp_induct)
  case (step y z)
  then have inv: "recording_inv settings cipher y" "segment_rows_ok (tables y)" by blast+
  from step.hyps(2) consider "recording_step settings cipher transcoder y z" | "segment_step settings gcm cipher assembler y z"
    by (auto simp: service_step_def)
  then show ?case
  proof cases
    case 1
    then show ?thesis using recording_step_inv recording_step_segment_rows inv step.prems(2) by blast
  next
    case 2
    then show ?thesis using segment_step_inv step.prems(1,2) inv by blast
  qed
qed simp

text \<open>
  C8: Over every sequence of requests about voicemails, conversations and whole-call audits and of
  maintenance runs, in any order and with accepted and failed commits, the bytes in use never exceed the
  quota, the reservations of unfinished uploads and segments included; and every recording that is marked
  as ready can be played: by the routine that loads it at once and by the one that decrypts it in blocks,
  with the same audio.
\<close>

theorem recording_service_safe:
  assumes "(service_step settings gcm cipher transcoder assembler)\<^sup>*\<^sup>* s s'"
    and "streams_agree gcm (library cipher)" "cipher_ready cipher" "recording_inv settings cipher s" "segment_rows_ok (tables s)"
  shows "recording_used_bytes None None (tables s') \<le> recording_quota_bytes settings \<and>
    (\<forall>r\<in>set (recordings (tables s')). recording_status r = ''ready'' \<longrightarrow>
       (\<exists>audio. load_media settings cipher r (disk s') = Inr audio \<and> materialize_media settings gcm cipher r (disk s') = Inr audio))"
proof -
  have "recording_inv settings cipher s'" using service_steps_inv [OF assms] by blast
  then have "recording_used_bytes None None (tables s') \<le> recording_quota_bytes settings"
    "\<And>r. r \<in> set (recordings (tables s')) \<Longrightarrow> recording_status r = ''ready'' \<Longrightarrow> \<exists>audio. load_media settings cipher r (disk s') = Inr audio"
    by (auto simp: recording_inv_def storage_ok_def is_ok_iff)
  then show ?thesis using materialize_media_Inr [OF assms(2)] by blast
qed

text \<open>A conversation that is being uploaded beside a voicemail.\<close>

definition demo_conversation :: Recording where
  "demo_conversation = (segmented_recording ''k1'' ''d1'' ''c1'' ''conversation'' 0 0)
     \<lparr>recording_revision_id := Some 1, recording_block_id := Some ''b2'', recording_sequence := 1\<rparr>"

definition demo_segmented :: recording_state where
  "demo_segmented = demo_service\<lparr>tables := (tables demo_service)\<lparr>recordings := [demo_ready, demo_conversation]\<rparr>\<rparr>"

definition demo_call :: CallHistoryRecord where
  "demo_call = \<lparr>call_id = ''c1'', call_device_id = ''d1'', call_started_at = 0, call_revision_id = Some 1, call_result = ''COMPLETED'',
     call_duration_seconds = 60, history_caller = None, history_caller_last4 = [], history_policy_decision = [], history_menu_path = [],
     history_ended_at = None, history_cleanup_status = None, terminal_notification_scheduled = True, history_events = [],
     history_session_audit = None, history_received_at = 0\<rparr>"

definition demo_history :: call_tables where
  "demo_history = \<lparr>call_rows = [demo_call], receipts = [], audit_policies = [], audit_acknowledgements = [], last_seen = []\<rparr>"

definition demo_handset :: Device where
  "demo_handset = \<lparr>device_id = ''d1'', display_name = [], token_hash = [], app_version = [], helper_version = [], device_status = [],
     desired_revision_id = None, active_revision_id = None, revoked = False\<rparr>"

definition demo_part :: ConversationSegmentCreateRequest where
  "demo_part = \<lparr>part_kind = ''conversation'', part_recording_id = ''k1'', part_call_id = ''c1'', part_index = 0, part_captured_at = (0, None),
     part_duration_ms = 1000, part_stop_reason = ''caller_hangup'', part_expected_size_bytes = 100, part_source_sha256 = ''h'', part_partial = False,
     part_revision_id = 1, part_block_id = ''b2'', part_sequence = 0\<rparr>"

abbreviation demo_announced :: recording_state where
  "demo_announced \<equiv> snd (create_conversation_segment demo_recording_settings demo_history ''k1'' 0 demo_handset demo_part
     (replicate 32 CHR ''1'') 9 True demo_segmented)"

lemma demo_segmented_tables:
  "recordings (tables demo_segmented) = [demo_ready, demo_conversation]" "recording_uploads (tables demo_segmented) = []"
  "segments (tables demo_segmented) = []" "disk demo_segmented = disk demo_service" "retention_policy (tables demo_segmented) = None"
  by (simp_all add: demo_segmented_def demo_service_def empty_recordings_def)

lemma demo_conversation_fields:
  "recording_id demo_conversation = ''k1''" "recording_status demo_conversation = ''uploading''"
  "recording_device_id demo_conversation = ''d1''" "recording_kind demo_conversation = ''conversation''"
  "recording_source_format demo_conversation = ''legacy_wav''" "recording_call_id demo_conversation = ''c1''"
  "recording_revision_id demo_conversation = Some 1" "recording_block_id demo_conversation = Some ''b2''"
  "recording_captured_at demo_conversation = 0"
  by (simp_all add: demo_conversation_def segmented_recording_def)

lemma demo_ready_fields:
  "recording_id demo_ready = ''r1''" "recording_status demo_ready = ''ready''" "recording_kind demo_ready = ''voicemail''" "media_bytes demo_ready = 42"
  by (simp_all add: demo_ready_def demo_recording_def media_bytes_def)

lemma demo_segmented_inv:
  "recording_inv demo_recording_settings demo_cipher demo_segmented" "segment_rows_ok (tables demo_segmented)"
proof -
  have "recording_quota_bytes demo_recording_settings = 10000" by (simp add: demo_recording_settings_def)
  then show "recording_inv demo_recording_settings demo_cipher demo_segmented"
    using demo_load
    by (simp add: recording_inv_def rows_ok_def storage_ok_def recording_used_bytes_def demo_segmented_tables demo_conversation_fields demo_ready_fields)
  show "segment_rows_ok (tables demo_segmented)"
    by (simp add: segment_rows_ok_def demo_segmented_tables segmented_def demo_conversation_fields demo_ready_fields upload_ids_def is_ascii_def)
qed

lemma demo_announced_rows:
  "segments (tables demo_announced) = [new_segment demo_conversation demo_part (replicate 32 CHR ''1'') 9]"
  "recordings (tables demo_announced) = [demo_ready, demo_conversation]"
proof -
  have own: "owned_recording conversations (tables demo_segmented) ''k1'' demo_handset = Inr demo_conversation"
    by (simp add: owned_recording_def find_recording_def demo_segmented_tables demo_conversation_fields demo_ready_fields
        demo_handset_def conversations_def)
  have ok: "segment_admissible conversations demo_recording_settings demo_history (\<lambda>_. Inr ()) demo_conversation demo_part = Inr ()"
    by (simp add: segment_admissible_def demo_conversation_fields demo_history_def find_call_def demo_call_def demo_part_def utc_def
        seconds_def demo_recording_settings_def Let_def)
  obtain p where policy: "snd (initialize_retention_policy (development_admin_email demo_recording_settings) 9 (tables demo_segmented)) =
      (tables demo_segmented)\<lparr>retention_policy := p\<rparr>" by (rule policy_tables)
  have cap: "require_conversation_capacity demo_recording_settings 100 9 (tables demo_segmented) =
      Inr ((tables demo_segmented)\<lparr>retention_policy := p\<rparr>)"
    unfolding require_conversation_capacity_def policy Let_def
    by (simp add: recording_used_bytes_def demo_segmented_tables demo_conversation_fields demo_ready_fields demo_recording_settings_def)
  have dir: "\<exists>d. create_upload_directory demo_recording_settings (replicate 32 CHR ''1'') (disk demo_segmented) = Inr d"
    by (simp add: create_upload_directory_def demo_segmented_tables demo_service_def)
  have part: "part_index demo_part = 0" "part_recording_id demo_part = ''k1''" "part_call_id demo_part = ''c1''"
    "part_revision_id demo_part = 1" "part_block_id demo_part = ''b2''" "part_expected_size_bytes demo_part = 100"
    by (simp_all add: demo_part_def)
  show "segments (tables demo_announced) = [new_segment demo_conversation demo_part (replicate 32 CHR ''1'') 9]"
    "recordings (tables demo_announced) = [demo_ready, demo_conversation]"
    using dir
    by (auto simp: create_conversation_segment_def create_segment_def own part demo_conversation_fields find_segment_def ok
        add_segment_def cap segment_name_taken_def demo_segmented_tables Let_def)
qed

theorem recording_service_safe_witness:
  "\<exists>s' r audio. s' = demo_announced \<and> length (segments (tables s')) = 1 \<and>
     recording_used_bytes None None (tables s') \<le> recording_quota_bytes demo_recording_settings \<and>
     r \<in> set (recordings (tables s')) \<and> load_media demo_recording_settings demo_cipher r (disk s') = Inr audio \<and>
     materialize_media demo_recording_settings demo_gcm demo_cipher r (disk s') = Inr audio"
proof -
  have "segment_step demo_recording_settings demo_gcm demo_cipher demo_encoder demo_segmented demo_announced"
    by (rule segment_step.conversation_part) (rule prod.collapse [symmetric])
  then have "(service_step demo_recording_settings demo_gcm demo_cipher (\<lambda>_ _. None) demo_encoder)\<^sup>*\<^sup>* demo_segmented demo_announced"
    by (intro r_into_rtranclp) (simp add: service_step_def)
  from recording_service_safe [OF this demo_gcm_agrees demo_cipher_ready demo_segmented_inv]
  show ?thesis using demo_announced_rows demo_ready_fields(2) by (metis length_Cons list.size(3) One_nat_def list.set_intros(1))
qed

end
