(* ===== verification/Segment_Behaviour.thy ===== *)
theory Segment_Behaviour
  imports Segment_Safety
begin

text \<open>
  How the two interfaces for segments treat repeated requests and corrupt uploads: an audit segment that
  turns out to be corrupt can be uploaded again at once; a conversation segment cannot; and a verified
  segment no longer recognises its own receipt when the measured duration differs from the announced one.
\<close>

lemma find_put_segment:
  assumes "find_segment i index t = Some x" "segment_key x' = segment_key x"
  shows "find_segment i index (put_segment x' t) = Some x'"
proof -
  have x: "segment_recording_id x = i" "int (segment_index x) = index" "x \<in> set (segments t)" using find_segment_Some [OF assms(1)] by simp_all
  have "find (\<lambda>y. segment_recording_id y = i \<and> int (segment_index y) = index) (map (\<lambda>y. if segment_key y = segment_key x' then x' else y) ys) = Some x'"
    if "x \<in> set ys" for ys
    using that assms(2) x(1,2) by (induction ys) (auto simp: segment_key_def)
  then show ?thesis using x(3) by (simp add: find_segment_def)
qed

lemma owned_recording_put_segment [simp]:
  "owned_recording api (put_segment x t) i device = owned_recording api t i device"
  by (simp add: owned_recording_def find_recording_def)

lemma put_same_segment:
  assumes "distinct (map segment_key (segments t))" "x \<in> set (segments t)"
  shows "put_segment x t = t"
proof -
  have "map (\<lambda>y. if segment_key y = segment_key x then x else y) (segments t) = segments t"
    using row_unique [OF assms(1) _ assms(2)] by (intro map_idI) auto
  then show ?thesis unfolding put_segment_def segment_key_def [symmetric] by (simp add: segment_key_def)
qed

section \<open>Repeated receipts\<close>

text \<open>
  C31: A verified conversation segment refuses its own receipt. Let a segment be announced and uploaded, so
  that repeating the announcement is answered. When the segment is verified and its measured duration
  differs from the announced one, which the inspection allows by up to a tenth of a second, the stored
  duration is replaced, and the same announcement is then refused as a reuse with other metadata.
\<close>

theorem verified_segment_replay_refused:
  assumes "owned_recording conversations (tables s) i device = Inr recording" "find_segment i index (tables s) = Some x"
    and "segment_status x = ''uploading''" "same_receipt x body" "index = int (part_index body)"
    and "part_recording_id body = i" "part_call_id body = recording_call_id recording"
    and "Some (part_revision_id body) = recording_revision_id recording" "Some (part_block_id body) = recording_block_id recording"
    and "verify_segment settings cipher x (disk s) = Inr details" "details_duration_ms details \<noteq> part_duration_ms body"
  shows "\<exists>answer s'. complete_conversation_segment settings cipher i index device now True s = (Inr answer, s') \<and>
    part_answer_acknowledged answer \<and>
    create_conversation_segment settings history i index device body uuid now True s = (Inr (segment_response x), s) \<and>
    create_conversation_segment settings history i index device body uuid now True s' =
      (Inl (Refused 409 ''Segment index was reused with different metadata''), s')"
proof -
  let ?x = "verified_segment details now x" and ?s = "s\<lparr>tables := put_segment (verified_segment details now x) (tables s)\<rparr>"
  have id: "recording_id recording = i" by (rule owned_recording_row(2) [OF assms(1)])
  have "complete_conversation_segment settings cipher i index device now True s = (Inr (segment_response ?x), ?s)"
    using assms(1-3,10) id
    by (simp add: complete_conversation_segment_def open_segment_def owned_segment_def accept_segment_def Let_def)
  moreover have "part_answer_acknowledged (segment_response ?x)" by (simp add: segment_response_def verified_segment_def)
  moreover have "create_conversation_segment settings history i index device body uuid now True s = (Inr (segment_response x), s)"
    using assms(1-9) id by (simp add: create_conversation_segment_def create_segment_def resume_segment_def)
  moreover have "create_conversation_segment settings history i index device body uuid now True ?s =
      (Inl (Refused 409 ''Segment index was reused with different metadata''), ?s)"
  proof -
    have "find_segment i index (tables ?s) = Some ?x"
      using find_put_segment [OF assms(2), of ?x] by (simp add: segment_key_def verified_segment_def)
    moreover have "\<not> same_receipt ?x body" using assms(11) by (simp add: same_receipt_def verified_segment_def)
    ultimately show ?thesis
      using assms(1,5-9) id by (simp add: create_conversation_segment_def create_segment_def resume_segment_def)
  qed
  ultimately show ?thesis by blast
qed

section \<open>Corrupt uploads\<close>

text \<open>Once all bytes have been accepted, no further content changes anything.\<close>

lemma full_upload_fixed:
  assumes "store_chunk settings cipher ci nonce now offset p (recording, x, d) = Inr (recording', x', d')"
    "upload_offset x = expected_size_bytes x"
  shows "x' = x \<and> d' = d"
proof -
  have "p \<noteq> []" "offset + length p \<le> expected_size_bytes x"
    using assms(1) by (auto simp: store_chunk_def split: if_splits)
  then have "offset < upload_offset x" using assms(2) by (cases p) auto
  then show ?thesis using assms(1) by (auto simp: store_chunk_def Let_def bind_result_Inr split: if_splits)
qed

lemma full_content_fixed:
  assumes "owned_recording api (tables s) i device = Inr recording" "find_segment i index (tables s) = Some x"
    "upload_offset x = expected_size_bytes x" "distinct (map segment_key (segments (tables s)))"
  shows "snd (upload_segment_content api settings cipher i index device request nonce now commit_ok s) = s"
proof -
  have id: "recording_id recording = i" by (rule owned_recording_row(2) [OF assms(1)])
  have o: "open_segment api (content_refused api) i index device (tables s) =
      (if segment_status x \<in> {''verified'', ''assembled''} then Inr (Inl (segment_response x))
       else if segment_status x \<noteq> ''uploading'' then Inl (Refused 409 (content_refused api)) else Inr (Inr (recording, x)))"
    using assms(1,2) id by (simp add: open_segment_def owned_segment_def)
  have same: "\<lparr>tables = put_segment x (tables s), disk = disk s\<rparr> = s"
    using put_same_segment [OF assms(4)] find_segment_Some [OF assms(2)] by simp
  let ?store = "\<lambda>offset body. store_chunk settings cipher (Some (segment_identity x)) nonce now (nat offset) body (recording, x, disk s)"
  have fixed: "\<lparr>tables = put_segment y (tables s), disk = d\<rparr> = s \<and> s\<lparr>disk := d\<rparr> = s" if "?store offset body = Inr (r, y, d)" for offset body r y d
    using full_upload_fixed [OF that assms(3)] same by simp
  show ?thesis
    by (auto simp: upload_segment_content_def o split: option.splits if_splits sum.splits dest!: bind_result_Inr [THEN iffD1] dest: fixed)
qed

text \<open>Requests of a device for one conversation segment; each may fail to commit.\<close>

inductive segment_request ::
  "recording_settings \<Rightarrow> RecordingCipher \<Rightarrow> call_tables \<Rightarrow> string \<Rightarrow> int \<Rightarrow> Device \<Rightarrow> recording_state \<Rightarrow> recording_state \<Rightarrow> bool"
  for settings cipher history i index device where
  announce: "segment_request settings cipher history i index device s
    (snd (create_conversation_segment settings history i index device body uuid now commit_ok s))"
| send: "segment_request settings cipher history i index device s
    (snd (upload_conversation_segment_content settings cipher i index device request nonce now commit_ok s))"
| complete: "segment_request settings cipher history i index device s
    (snd (complete_conversation_segment settings cipher i index device now commit_ok s))"

text \<open>
  C30: A conversation segment whose bytes have all arrived but do not pass the verification cannot be
  repaired by the requests of its device. Whatever announcements, contents and completions of the
  segment the device sends, in any number and order, the tables and the storage stay as they are, and
  every completion fails with the same error.
\<close>

theorem corrupt_conversation_segment_stuck:
  assumes "owned_recording conversations (tables s) i device = Inr recording" "find_segment i index (tables s) = Some x"
    and "segment_status x = ''uploading''" "upload_offset x = expected_size_bytes x"
    and "verify_segment settings cipher x (disk s) = Inl e" "segment_rows_ok (tables s)"
    and "(segment_request settings cipher history i index device)\<^sup>*\<^sup>* s s'"
  shows "s' = s \<and> complete_conversation_segment settings cipher i index device now commit_ok s' = (Inl (as_http e), s')"
proof -
  have id: "recording_id recording = i" by (rule owned_recording_row(2) [OF assms(1)])
  have complete: "complete_conversation_segment settings cipher i index device now commit_ok s = (Inl (as_http e), s)" for now commit_ok
    using assms(1-3,5) id by (simp add: complete_conversation_segment_def open_segment_def owned_segment_def)
  have send: "snd (upload_conversation_segment_content settings cipher i index device request nonce now commit_ok s) = s"
    for request nonce now commit_ok
    unfolding upload_conversation_segment_content_def
    by (rule full_content_fixed [OF assms(1,2,4)]) (use assms(6) in \<open>simp add: segment_rows_ok_def\<close>)
  have announce: "snd (create_conversation_segment settings history i index device body uuid now commit_ok s) = s"
    for body uuid now commit_ok
    using assms(1-3) id by (auto simp: create_conversation_segment_def create_segment_def resume_segment_def)
  from assms(7) have "s' = s"
    by (induction rule: rtranclp_induct) (auto simp: complete send announce elim: segment_request.cases)
  then show ?thesis using complete by blast
qed

text \<open>
  C32: A corrupt audit segment can be uploaded again at once: completing it reports the error of the
  verification, marks the segment as failed and removes its upload directory with the chunks, which are
  regular files; announcing it again, when the space allows, opens an empty upload for the same segment
  in a new directory.
\<close>

theorem corrupt_audit_segment_restarts:
  assumes "owned_recording session_audits (tables s) i device = Inr recording" "find_segment i index (tables s) = Some x"
    and "segment_status x = ''uploading''" "same_receipt x body" "index = int (part_index body)"
    and "part_recording_id body = i" "part_call_id body = recording_call_id recording"
    and "map_option report_policy_version (audit_metadata recording) = Some (part_policy_version body)"
    and "verify_segment settings cipher x (disk s) = Inl e" "corrupt e"
    and "upload_directory settings x (disk s) = Inr dir" "list_all (\<lambda>f. entry_kind (snd f) = RegularFile) (children dir)"
    and "complete_session_segment settings cipher i index device now True s = (answer, s')"
    and "require_audit_capacity settings limits (part_expected_size_bytes body) later (tables s') = Inr t"
    and "create_upload_directory settings uuid (disk s') = Inr d" "\<not> segment_name_taken uuid (tables s')"
  shows "answer = Inl (as_http e) \<and> map_of (uploads (disk s')) (storage_name x) = None \<and>
    find_segment i index (tables s') = Some (x\<lparr>segment_status := ''failed'', upload_updated_at := now\<rparr>) \<and>
    (\<exists>y s''. create_session_segment settings limits history i index device body uuid later True s' = (Inr (segment_response y), s'') \<and>
       find_segment i index (tables s'') = Some y \<and> segment_status y = ''uploading'' \<and> upload_offset y = 0 \<and> storage_name y = uuid \<and>
       map_of (uploads (disk s'')) uuid = Some (private_directory settings))"
proof -
  let ?x = "x\<lparr>segment_status := ''failed'', upload_updated_at := now\<rparr>"
  let ?y = "?x\<lparr>storage_name := uuid, upload_offset := 0, segment_status := ''uploading'', upload_updated_at := later\<rparr>"
  have id: "recording_id recording = i" by (rule owned_recording_row(2) [OF assms(1)])
  have "upload_directory settings ?x (disk s) = Inr dir" using assms(11) by (simp add: upload_directory_Inr)
  moreover have "filter (\<lambda>f. entry_kind (snd f) \<noteq> RegularFile) (children dir) = []"
    using assms(12) by (simp add: filter_empty_conv list_all_iff)
  ultimately have removed: "remove_upload_files settings ?x (disk s) =
      (Inr (), (disk s)\<lparr>uploads := AList.delete (storage_name x) (uploads (disk s))\<rparr>)"
    by (simp add: remove_upload_files_def Let_def)
  have s': "answer = Inl (as_http e)" "tables s' = put_segment ?x (tables s)"
    "uploads (disk s') = AList.delete (storage_name x) (uploads (disk s))"
    using assms(1-3,9,10,13) id removed
    by (auto simp: complete_session_segment_def open_segment_def owned_segment_def reject_segment_def Let_def split: prod.splits)
  have f: "find_segment i index (tables s') = Some ?x"
    unfolding s'(2) by (rule find_put_segment [OF assms(2)]) (simp add: segment_key_def)
  obtain p where p: "t = (tables s')\<lparr>retention_policy := p\<rparr>"
    using assms(14) sound_audit_capacity [of settings "part_expected_size_bytes body" limits later] unfolding sound_capacity_def by blast
  have own: "owned_recording session_audits (tables s') i device = Inr recording" using assms(1) by (simp add: s'(2))
  have "same_receipt ?x body" using assms(4) by (simp add: same_receipt_def)
  then have run: "create_session_segment settings limits history i index device body uuid later True s' =
      (Inr (segment_response ?y), \<lparr>tables = put_segment ?y t, disk = d\<rparr>)"
    using own f assms(5-8,14-16) id
    by (simp add: create_session_segment_def create_segment_def resume_segment_def p segment_name_taken_def Let_def)
  have "find_segment i index (put_segment ?y t) = Some ?y"
    by (rule find_put_segment [of _ _ _ ?x]) (use f in \<open>simp_all add: p find_segment_def segment_key_def\<close>)
  then show ?thesis using f run create_directory(3) [OF assms(15)] s'(1,3) by (auto simp: AList.delete_conv')
qed

section \<open>Examples\<close>

text \<open>A segment of one millisecond that was announced with fifty, and one that was announced with five seconds.\<close>

definition announced_segment :: "nat \<Rightarrow> ConversationRecordingSegment" where
  "announced_segment announced_ms = demo_segment\<lparr>segment_status := ''uploading'', segment_duration_ms := announced_ms\<rparr>"

definition announced_recording :: "string \<Rightarrow> Recording" where
  "announced_recording kind = demo_conversation\<lparr>recording_id := ''r1'', recording_kind := kind,
     audit_metadata := Some \<lparr>report_recording_id = Some ''r1'', report_policy_version = 1, report_state = ''pending_upload'',
       report_captured_at = None, report_duration_ms = 1, report_partial = False, report_stop_reason = ''caller_hangup'', report_events = []\<rparr>\<rparr>"

definition announced_state :: "string \<Rightarrow> nat \<Rightarrow> bytes \<Rightarrow> recording_state" where
  "announced_state kind announced_ms payload =
     \<lparr>tables = (tables (demo_segment_state payload))\<lparr>recordings := [announced_recording kind], segments := [announced_segment announced_ms]\<rparr>,
      disk = demo_segment_storage payload\<rparr>"

lemma announced_rows:
  "segments (tables (announced_state kind announced_ms payload)) = [announced_segment announced_ms]"
  "recordings (tables (announced_state kind announced_ms payload)) = [announced_recording kind]"
  "recording_uploads (tables (announced_state kind announced_ms payload)) = []"
  "disk (announced_state kind announced_ms payload) = demo_segment_storage payload"
  by (simp_all add: announced_state_def demo_segment_state_def)

lemma announced_found:
  "find_segment ''r1'' 0 (tables (announced_state kind announced_ms payload)) = Some (announced_segment announced_ms)"
  "served_kind api = kind \<Longrightarrow>
     owned_recording api (tables (announced_state kind announced_ms payload)) ''r1'' demo_handset = Inr (announced_recording kind)"
  by (simp_all add: find_segment_def owned_recording_def find_recording_def announced_rows announced_segment_def demo_segment_def
      announced_recording_def demo_conversation_fields demo_handset_def)

lemma announced_written:
  "\<exists>payload. \<forall>announced_ms.
    write_uploaded_wav_to_path demo_recording_settings demo_cipher (announced_segment announced_ms) (demo_segment_storage payload) = Inr silence"
proof -
  obtain payload where w: "write_uploaded_wav_to_path demo_recording_settings demo_cipher demo_segment (demo_segment_storage payload) = Inr silence"
    by (rule demo_segment_written)
  have "write_uploaded_wav_to_path settings cipher (x\<lparr>segment_status := a, segment_duration_ms := b\<rparr>) d = write_uploaded_wav_to_path settings cipher x d"
    for settings cipher x a b d by (cases x) (simp add: write_uploaded_wav_to_path_def upload_directory_def Let_def cong: if_cong)
  then show ?thesis using w unfolding announced_segment_def by metis
qed

lemma silence_too_short:
  "inspect_pcm_wav_path silence 5000 = Inl (RecordingError ''Conversation segment duration does not match its receipt.'' 422)"
  using silence_inspected by (auto simp: inspect_pcm_wav_path_def Let_def split: if_splits sum.splits)

theorem verified_segment_replay_refused_witness:
  "\<exists>payload answer s'.
     complete_conversation_segment demo_recording_settings demo_cipher ''r1'' 0 demo_handset 9 True (announced_state ''conversation'' 50 payload) =
       (Inr answer, s') \<and> part_answer_acknowledged answer \<and>
     create_conversation_segment demo_recording_settings demo_history ''r1'' 0 demo_handset
       (demo_part\<lparr>part_recording_id := ''r1'', part_duration_ms := 50, part_expected_size_bytes := 236, part_source_sha256 := silence\<rparr>) [] 9 True s' =
       (Inl (Refused 409 ''Segment index was reused with different metadata''), s')"
proof -
  obtain payload where w: "\<forall>announced_ms. write_uploaded_wav_to_path demo_recording_settings demo_cipher
      (announced_segment announced_ms) (demo_segment_storage payload) = Inr silence" using announced_written by blast
  let ?s = "announced_state ''conversation'' 50 payload"
  let ?b = "demo_part\<lparr>part_recording_id := ''r1'', part_duration_ms := 50, part_expected_size_bytes := 236, part_source_sha256 := silence\<rparr>"
  have v: "verify_segment demo_recording_settings demo_cipher (announced_segment 50) (disk ?s) = Inr \<lparr>details_duration_ms = 1, details_frames = 48\<rparr>"
    using silence_inspected by (simp add: verify_segment_def announced_rows w) (simp add: announced_segment_def)
  have o: "owned_recording conversations (tables ?s) ''r1'' demo_handset = Inr (announced_recording ''conversation'')"
    by (rule announced_found) (simp add: conversations_def)
  show ?thesis
    using verified_segment_replay_refused [OF o announced_found(1), of ?b demo_recording_settings demo_cipher
        "\<lparr>details_duration_ms = 1, details_frames = 48\<rparr>" 9 demo_history "[]"] v
    by (auto simp: announced_segment_def demo_segment_def same_receipt_def demo_part_def utc_def announced_recording_def demo_conversation_fields)
qed

theorem corrupt_conversation_segment_stuck_witness:
  "\<exists>payload e. snd (upload_conversation_segment_content demo_recording_settings demo_cipher ''r1'' 0 demo_handset
       \<lparr>header_upload_offset = Some 0, header_content_type = ''application/offset+octet-stream'', header_content_length = None,
          body_parts = [silence]\<rparr> [] 9 True (announced_state ''conversation'' 5000 payload)) =
     announced_state ''conversation'' 5000 payload \<and>
   complete_conversation_segment demo_recording_settings demo_cipher ''r1'' 0 demo_handset 9 True
     (announced_state ''conversation'' 5000 payload) = (Inl (as_http e), announced_state ''conversation'' 5000 payload)"
proof -
  obtain payload where w: "\<forall>announced_ms. write_uploaded_wav_to_path demo_recording_settings demo_cipher
      (announced_segment announced_ms) (demo_segment_storage payload) = Inr silence" using announced_written by blast
  let ?s = "announced_state ''conversation'' 5000 payload"
  let ?e = "RecordingError ''Conversation segment duration does not match its receipt.'' 422"
  let ?t = "snd (upload_conversation_segment_content demo_recording_settings demo_cipher ''r1'' 0 demo_handset
       \<lparr>header_upload_offset = Some 0, header_content_type = ''application/offset+octet-stream'', header_content_length = None,
          body_parts = [silence]\<rparr> [] 9 True ?s)"
  have v: "verify_segment demo_recording_settings demo_cipher (announced_segment 5000) (disk ?s) =
      Inl (RecordingError ''Conversation segment duration does not match its receipt.'' 422)"
    using silence_too_short by (simp add: verify_segment_def announced_rows w) (simp add: announced_segment_def)
  have o: "owned_recording conversations (tables ?s) ''r1'' demo_handset = Inr (announced_recording ''conversation'')"
    by (rule announced_found) (simp add: conversations_def)
  have "segment_rows_ok (tables ?s)"
    by (simp add: segment_rows_ok_def announced_rows announced_recording_def demo_conversation_fields is_ascii_def upload_ids_def)
  moreover have "segment_status (announced_segment 5000) = ''uploading''"
    "upload_offset (announced_segment 5000) = expected_size_bytes (announced_segment 5000)"
    by (simp_all add: announced_segment_def demo_segment_def)
  moreover have "(segment_request demo_recording_settings demo_cipher demo_history ''r1'' 0 demo_handset)\<^sup>*\<^sup>* ?s ?t"
    by (intro r_into_rtranclp segment_request.send)
  ultimately have "?t = ?s \<and> complete_conversation_segment demo_recording_settings demo_cipher ''r1'' 0 demo_handset 9 True ?t =
      (Inl (as_http ?e), ?t)"
    by (intro corrupt_conversation_segment_stuck [OF o announced_found(1) _ _ v])
  then show ?thesis by (intro exI [of _ payload] exI [of _ ?e]) (elim conjE, simp)
qed

theorem corrupt_audit_segment_restarts_witness:
  "\<exists>payload e s' y s''.
     complete_session_segment demo_recording_settings demo_cipher ''r1'' 0 demo_handset 9 True (announced_state ''session_audit'' 5000 payload) =
       (Inl (as_http e), s') \<and> map_of (uploads (disk s')) (replicate 32 CHR ''0'') = None \<and>
     create_session_segment demo_recording_settings \<lparr>audit_recording_quota_bytes = 5000, audit_recording_reserve_bytes = 0, free_bytes = 5000\<rparr>
       demo_history ''r1'' 0 demo_handset
       \<lparr>part_kind = ''session_audit'', part_recording_id = ''r1'', part_call_id = ''c1'', part_index = 0, part_captured_at = (0, None),
        part_duration_ms = 5000, part_stop_reason = ''caller_hangup'', part_expected_size_bytes = 236, part_source_sha256 = silence,
        part_partial = False, part_policy_version = 1\<rparr> (replicate 32 CHR ''2'') 10 True s' = (Inr (segment_response y), s'') \<and>
     segment_status y = ''uploading'' \<and> upload_offset y = 0"
proof -
  obtain payload where w: "\<forall>announced_ms. write_uploaded_wav_to_path demo_recording_settings demo_cipher
      (announced_segment announced_ms) (demo_segment_storage payload) = Inr silence" using announced_written by blast
  let ?s = "announced_state ''session_audit'' 5000 payload" and ?x = "announced_segment 5000"
  let ?limits = "\<lparr>audit_recording_quota_bytes = 5000, audit_recording_reserve_bytes = 0, free_bytes = 5000\<rparr>"
  let ?uuid = "replicate 32 CHR ''2''"
  let ?b = "\<lparr>part_kind = ''session_audit'', part_recording_id = ''r1'', part_call_id = ''c1'', part_index = 0, part_captured_at = (0, None),
        part_duration_ms = 5000, part_stop_reason = ''caller_hangup'', part_expected_size_bytes = 236, part_source_sha256 = silence,
        part_partial = False, part_policy_version = 1\<rparr>"
  let ?e = "RecordingError ''Conversation segment duration does not match its receipt.'' 422"
  have v: "verify_segment demo_recording_settings demo_cipher ?x (disk ?s) = Inl ?e"
    using silence_too_short by (simp add: verify_segment_def announced_rows w) (simp add: announced_segment_def)
  have o: "owned_recording session_audits (tables ?s) ''r1'' demo_handset = Inr (announced_recording ''session_audit'')"
    by (rule announced_found) (simp add: session_audits_def)
  have st: "segment_status ?x = ''uploading''" by (simp add: announced_segment_def)
  let ?d = "(private_directory demo_recording_settings)\<lparr>children := [(chunk_name 0, private_file demo_recording_settings payload)]\<rparr>"
  have dir: "upload_directory demo_recording_settings ?x (disk ?s) = Inr ?d"
    "list_all (\<lambda>f. entry_kind (snd f) = RegularFile) (children ?d)"
    by (simp_all add: upload_directory_Inr announced_rows announced_segment_def demo_segment_def demo_segment_storage_def
        private_directory_def private_file_def owned_privately_def demo_recording_settings_def hex_char_def list_all_iff)
  obtain answer s' where run: "complete_session_segment demo_recording_settings demo_cipher ''r1'' 0 demo_handset 9 True ?s = (answer, s')"
    by fastforce
  have id: "recording_id (announced_recording ''session_audit'') = ''r1''" by (simp add: announced_recording_def)
  have s': "tables s' = put_segment (?x\<lparr>segment_status := ''failed'', upload_updated_at := 9\<rparr>) (tables ?s)"
    "uploads (disk s') = uploads (snd (remove_upload_files demo_recording_settings (?x\<lparr>segment_status := ''failed'', upload_updated_at := 9\<rparr>) (disk ?s)))"
    using run o announced_found(1) [of "''session_audit''" 5000 payload] st v id
    by (auto simp: complete_session_segment_def open_segment_def owned_segment_def reject_segment_def Let_def split: prod.splits)
  have "map_of (uploads (disk s')) ?uuid = None"
    unfolding s'(2) by (subst remove_upload_elsewhere(2)) (simp_all add: announced_segment_def demo_segment_def announced_rows demo_segment_storage_def)
  then obtain d where d: "create_upload_directory demo_recording_settings ?uuid (disk s') = Inr d" by (simp add: create_upload_directory_def)
  have rows: "segments (tables s') = [?x\<lparr>segment_status := ''failed'', upload_updated_at := 9\<rparr>]" "recordings (tables s') = [announced_recording ''session_audit'']"
    "recording_uploads (tables s') = []" by (simp_all add: s' announced_rows segment_key_def)
  obtain p where p: "snd (initialize_retention_policy (development_admin_email demo_recording_settings) 10 (tables s')) =
      (tables s')\<lparr>retention_policy := p\<rparr>" by (rule policy_tables)
  have ready: "recording_status (announced_recording ''session_audit'') = ''uploading''" by (simp add: announced_recording_def demo_conversation_fields)
  have cap: "require_audit_capacity demo_recording_settings ?limits (part_expected_size_bytes ?b) 10 (tables s') = Inr ((tables s')\<lparr>retention_policy := p\<rparr>)"
    unfolding require_audit_capacity_def p Let_def
    by (simp add: audit_ready_bytes_def audit_pending_bytes_def recording_used_bytes_def rows ready demo_recording_settings_def)
  have taken: "\<not> segment_name_taken ?uuid (tables s')" by (simp add: segment_name_taken_def rows announced_segment_def demo_segment_def)
  have "same_receipt ?x ?b" "(0::int) = int (part_index ?b)" "part_recording_id ?b = ''r1''"
    "part_call_id ?b = recording_call_id (announced_recording ''session_audit'')"
    "map_option report_policy_version (audit_metadata (announced_recording ''session_audit'')) = Some (part_policy_version ?b)" "corrupt ?e"
    by (simp_all add: announced_segment_def demo_segment_def same_receipt_def utc_def announced_recording_def demo_conversation_fields)
  from corrupt_audit_segment_restarts [OF o announced_found(1) st this(1-5) v this(6) dir run cap d taken, of demo_history]
  obtain y s'' where "answer = Inl (as_http ?e)" "map_of (uploads (disk s')) (storage_name ?x) = None"
    "create_session_segment demo_recording_settings ?limits demo_history ''r1'' 0 demo_handset ?b ?uuid 10 True s' = (Inr (segment_response y), s'')"
    "segment_status y = ''uploading''" "upload_offset y = 0" by blast
  moreover have "storage_name ?x = replicate 32 CHR ''0''" by (simp add: announced_segment_def demo_segment_def)
  ultimately show ?thesis
    using run by (intro exI [of _ payload] exI [of _ ?e] exI [of _ s'] exI [of _ y] exI [of _ s''] conjI) simp_all
qed

end
