(* ===== verification/Continuous_Recordings.thy ===== *)
theory Continuous_Recordings
  imports Segment_Requests
begin

text \<open>
  Continuous recordings: a device uploads the samples of a conversation or of a whole call as one file
  (\<^verbatim>\<open>src/server/app/continuous_recording_api.py\<close>), and a background worker converts it
  (\<^verbatim>\<open>src/server/app/continuous_recording_worker.py\<close>, \<^verbatim>\<open>src/server/app/processing_workspace.py\<close>).
  The worker commits more than once. What the database and the file system answer at each of these
  points is part of the description of a run, so that a run can fail, or the process be killed, at
  every one of them. The notification of a ready conversation is left out: its failures are caught.
\<close>

section \<open>Rows and answers\<close>

definition find_receipt :: "string \<Rightarrow> recording_tables \<Rightarrow> ContinuousRecording option" where
  "find_receipt i t = find (\<lambda>c. continuous_recording_id c = i) (continuous_recordings t)"

definition put_receipt :: "ContinuousRecording \<Rightarrow> recording_tables \<Rightarrow> recording_tables" where
  "put_receipt c t =
     t\<lparr>continuous_recordings := map (\<lambda>q. if continuous_recording_id q = continuous_recording_id c then c else q) (continuous_recordings t)\<rparr>"

definition owned_continuous :: "recording_tables \<Rightarrow> string \<Rightarrow> Device \<Rightarrow> request_error + Recording \<times> ContinuousRecording \<times> RecordingUpload option" where
  "owned_continuous t i device =
     (case (find_recording i t, find_receipt i t) of
        (Some recording, Some receipt) \<Rightarrow>
          if recording_device_id recording \<noteq> device_id device then Inl (Refused 403 ''Recording belongs to another device'')
          else Inr (recording, receipt, find_upload i t)
      | _ \<Rightarrow> Inl (Refused 404 ''Continuous recording not found''))"

record ContinuousAnswer =
  continuous_answer_id :: string
  answer_format_version :: nat
  continuous_answer_status :: string
  answer_processing_state :: string
  answer_upload_offset :: nat
  answer_expected_size_bytes :: nat
  answer_source_sha256 :: string
  answer_partial :: bool
  continuous_acknowledged :: bool
  answer_error :: "string option"
  answer_retry_at :: "int option"

definition continuous_response :: "Recording \<Rightarrow> ContinuousRecording \<Rightarrow> RecordingUpload option \<Rightarrow> ContinuousAnswer" where
  "continuous_response recording receipt upload =
     (let accepted = (accepted_at receipt \<noteq> None) in
      \<lparr>continuous_answer_id = recording_id recording, answer_format_version = format_version (continuous_manifest receipt),
       continuous_answer_status = recording_status recording, answer_processing_state = continuous_state receipt,
       answer_upload_offset =
         (case upload of Some u \<Rightarrow> upload_offset u | None \<Rightarrow> if accepted then recording_source_size_bytes recording else 0),
       answer_expected_size_bytes = recording_source_size_bytes recording,
       answer_source_sha256 = recording_source_sha256 recording, answer_partial = recording_partial recording,
       continuous_acknowledged = accepted, answer_error = processing_error recording, answer_retry_at = retry_at receipt\<rparr>)"

section \<open>Announcing a recording\<close>

definition audit_upload_bytes :: "recording_tables \<Rightarrow> nat" where
  "audit_upload_bytes t =
     (\<Sum>u\<leftarrow>filter (\<lambda>u. list_ex (\<lambda>r. recording_id r = upload_recording_id u \<and> recording_kind r = ''session_audit'') (recordings t))
        (recording_uploads t). expected_size_bytes u)"

definition continuous_capacity ::
  "recording_settings \<Rightarrow> audit_limits \<Rightarrow> ContinuousRecordingCreate \<Rightarrow> int \<Rightarrow> recording_tables \<Rightarrow> request_error + recording_tables" where
  "continuous_capacity settings limits body now t =
     (let t = snd (initialize_retention_policy (development_admin_email settings) now t);
          reserve = audit_recording_reserve_bytes limits;
          size = announced_size_bytes body in
      if recording_used_bytes None None t + size + reserve > recording_quota_bytes settings
      then Inl (Refused 507 ''Server recording capacity is full; keep the encrypted tablet copy'')
      else if free_bytes limits < size * 2 + reserve
      then Inl (Refused 507 ''Server lacks upload and processing workspace; keep the encrypted tablet copy'')
      else if announced_kind body = ''session_audit'' \<and>
        audit_ready_bytes t + audit_upload_bytes t + audit_pending_bytes t + size > audit_recording_quota_bytes limits
      then Inl (Refused 507 ''Server audit quota is full; keep the encrypted tablet copy'')
      else Inr t)"

definition milliseconds :: "int \<Rightarrow> int" where "milliseconds n = n * 1000"

text \<open>What is wrong with the times of a recording; the recording is kept for review all the same.\<close>

definition timing_issue :: "CallHistoryRecord \<Rightarrow> ContinuousRecordingCreate \<Rightarrow> string option" where
  "timing_issue call body =
     (let captured = utc (announced_captured_at body);
          ended = (case history_ended_at call of
              Some at \<Rightarrow> at | None \<Rightarrow> call_started_at call + seconds (call_duration_seconds call));
          issue = (if captured < call_started_at call - seconds 5 \<or>
              captured + milliseconds (int (announced_duration_ms body)) > ended + seconds 5
            then Some ''Recording coverage is outside its call; source retained for evidence review'' else None) in
      case capture_receipt body of
        None \<Rightarrow> issue
      | Some c \<Rightarrow>
          if abs (int (ended_elapsed_ms c) - int (started_elapsed_ms c) - int (announced_duration_ms body)) > 1
          then Some ''Capture boundaries disagree with the PCM frame count; source retained for evidence review''
          else issue)"

text \<open>The operator of a conversation that the signed flow connects and that the call has reported as connected.\<close>

definition continuous_operator ::
  "(string \<Rightarrow> py_datetime option) \<Rightarrow> CallHistoryRecord \<Rightarrow> ContinuousRecordingCreate \<Rightarrow> recording_tables \<Rightarrow> request_error + string" where
  "continuous_operator parse call body t =
     (case Option.bind (announced_revision_id body) (\<lambda>n. find_revision n (control_rows t)) of
        None \<Rightarrow> Inl (Refused 422 ''Conversation revision does not match its call'')
      | Some revision \<Rightarrow>
          if revision_schema revision \<noteq> 4 \<or> call_revision_id call \<noteq> announced_revision_id body
          then Inl (Refused 422 ''Conversation revision does not match its call'')
          else
            let block = (case announced_block_id body of None \<Rightarrow> ''None'' | Some b \<Rightarrow> b) in
            case (external_instruction (load_manifest revision) block, conference_at parse call block) of
              (Some phone_number, Some conference) \<Rightarrow>
                if utc (announced_captured_at body) < conference - seconds 1
                then Inl (Refused 422 ''Conversation requires a verified operator connection in its signed flow'')
                else Inr phone_number
            | _ \<Rightarrow> Inl (Refused 422 ''Conversation requires a verified operator connection in its signed flow''))"

definition whole_call_receipt ::
  "(string \<Rightarrow> py_datetime option) \<Rightarrow> call_tables \<Rightarrow> Device \<Rightarrow> CallHistoryRecord \<Rightarrow> ContinuousRecordingCreate \<Rightarrow> request_error + unit" where
  "whole_call_receipt parse history device call body =
     (case history_session_audit call of
        None \<Rightarrow> Inl (Refused 409 ''Call has no whole-call recording receipt'')
      | Some report \<Rightarrow>
          if \<not> SessionAuditReport_valid report \<or> (report_captured_at report \<noteq> None \<and> parse (the (report_captured_at report)) = None)
          then Inl (Crashed (OtherError ''ValidationError''))
          else case validate_call_report history (Some report) (call_result call) (device_id device) of
            Inl e \<Rightarrow> Inl (http_error e)
          | Inr _ \<Rightarrow>
              if report_recording_id report \<noteq> Some (announced_id body) \<or>
                 Some (report_policy_version report) \<noteq> announced_policy_version body \<or>
                 \<not> (case Option.bind (report_captured_at report) parse of None \<Rightarrow> False | Some at \<Rightarrow> same_time at (announced_captured_at body)) \<or>
                 report_duration_ms report \<noteq> announced_duration_ms body \<or> report_partial report \<noteq> announced_partial body \<or>
                 report_stop_reason report \<noteq> announced_stop_reason body \<or> report_state report \<noteq> ''pending_upload''
              then Inl (Refused 409 ''Recording differs from the acknowledged whole-call receipt'')
              else Inr ())"

definition continuous_admissible ::
  "(string \<Rightarrow> py_datetime option) \<Rightarrow> call_tables \<Rightarrow> Device \<Rightarrow> ContinuousRecordingCreate \<Rightarrow> recording_tables \<Rightarrow>
   request_error + CallHistoryRecord \<times> string option" where
  "continuous_admissible parse history device body t =
     (case find_call (announced_call_id body) history of
        None \<Rightarrow> Inl (Refused 409 ''A terminal call event must be acknowledged before audio upload'')
      | Some call \<Rightarrow>
          if call_result call = ''IN_PROGRESS''
          then Inl (Refused 409 ''A terminal call event must be acknowledged before audio upload'')
          else if call_device_id call \<noteq> device_id device then Inl (Refused 403 ''Call belongs to another device'')
          else if announced_kind body = ''conversation''
          then bind_result (continuous_operator parse call body t) (\<lambda>phone_number. Inr (call, Some phone_number))
          else bind_result (whole_call_receipt parse history device call body) (\<lambda>_. Inr (call, None)))"

text \<open>\<^verbatim>\<open>max(0, (maximum or 0) + 1)\<close>, over the recordings of the call.\<close>

definition continuous_sequence :: "ContinuousRecordingCreate \<Rightarrow> recording_tables \<Rightarrow> int" where
  "continuous_sequence body t =
     (if announced_kind body = ''session_audit'' then - 1
      else case map recording_sequence (filter (\<lambda>r. recording_call_id r = announced_call_id body) (recordings t)) of
        [] \<Rightarrow> 1
      | x # xs \<Rightarrow> max 0 (fold max xs x + 1))"

definition continuous_recording ::
  "Device \<Rightarrow> CallHistoryRecord \<Rightarrow> string option \<Rightarrow> ContinuousRecordingCreate \<Rightarrow> int \<Rightarrow> recording_tables \<Rightarrow> Recording" where
  "continuous_recording device call operator body now t =
     (segmented_recording (announced_id body) (device_id device) (announced_call_id body) (announced_kind body)
        (utc (announced_captured_at body)) now)
      \<lparr>recording_revision_id := (if announced_kind body = ''conversation'' then announced_revision_id body else call_revision_id call),
       recording_block_id := announced_block_id body, recording_sequence := continuous_sequence body t,
       audit_metadata := (if announced_kind body = ''session_audit'' then history_session_audit call else None),
       recording_operator := operator,
       recording_operator_last4 := (case operator of None \<Rightarrow> [] | Some n \<Rightarrow> drop (length n - 4) n),
       recording_duration_ms := announced_duration_ms body, recording_stop_reason := announced_stop_reason body,
       recording_source_size_bytes := announced_size_bytes body, recording_source_sha256 := announced_sha256 body,
       recording_source_format := announced_source_format body, recording_partial := announced_partial body\<rparr>"

definition continuous_upload :: "ContinuousRecordingCreate \<Rightarrow> string \<Rightarrow> int \<Rightarrow> RecordingUpload" where
  "continuous_upload body name now =
     \<lparr>expected_size_bytes = announced_size_bytes body, upload_offset = 0, storage_name = name,
      source_sha256 = announced_sha256 body, upload_updated_at = now, upload_recording_id = announced_id body\<rparr>"

definition new_receipt :: "ContinuousRecordingCreate \<Rightarrow> string option \<Rightarrow> int \<Rightarrow> ContinuousRecording" where
  "new_receipt body issue now =
     \<lparr>continuous_recording_id = announced_id body, validation_error = issue, continuous_manifest = body,
      continuous_state = ''uploading'', attempts = 0, retry_at = None, accepted_at = None, operation_duration_ms = None,
      continuous_updated_at = now\<rparr>"

definition continuous_taken :: "Recording \<Rightarrow> RecordingUpload \<Rightarrow> recording_tables \<Rightarrow> bool" where
  "continuous_taken r u t \<longleftrightarrow>
     recording_taken r t \<or> find_receipt (recording_id r) t \<noteq> None \<or>
     list_ex (\<lambda>v. upload_recording_id v = upload_recording_id u \<or> storage_name v = storage_name u) (recording_uploads t)"

definition create_continuous ::
  "recording_settings \<Rightarrow> audit_limits \<Rightarrow> (string \<Rightarrow> py_datetime option) \<Rightarrow> call_tables \<Rightarrow> Device \<Rightarrow> ContinuousRecordingCreate \<Rightarrow>
   string \<Rightarrow> int \<Rightarrow> bool \<Rightarrow> recording_state \<Rightarrow> ContinuousAnswer reply" where
  "create_continuous settings limits parse history device body uuid now commit_ok s =
     (case find_recording (announced_id body) (tables s) of
        Some existing \<Rightarrow>
          (bind_result (owned_continuous (tables s) (announced_id body) device) (\<lambda>(recording, receipt, upload).
             if continuous_manifest receipt \<noteq> body
             then Inl (Refused 409 ''Recording identity was reused with different metadata'')
             else Inr (continuous_response recording receipt upload)), s)
      | None \<Rightarrow>
          (case bind_result (continuous_admissible parse history device body (tables s)) (\<lambda>(call, operator).
               bind_result (continuous_capacity settings limits body now (tables s)) (\<lambda>t. Inr (call, operator, t))) of
             Inl e \<Rightarrow> (Inl e, s)
           | Inr (call, operator, t) \<Rightarrow>
               (case create_upload_directory settings uuid (disk s) of
                  Inl e \<Rightarrow> (Inl (Crashed e), s)
                | Inr d \<Rightarrow>
                    let recording = continuous_recording device call operator body now t;
                        receipt = new_receipt body (timing_issue call body) now;
                        upload = continuous_upload body uuid now in
                    if continuous_taken recording upload t
                    then (Inl (Refused 409 ''Concurrent recording creation; retry the identical request''), s\<lparr>disk := d\<rparr>)
                    else if \<not> commit_ok then (Inl commit_failed, s\<lparr>disk := d\<rparr>)
                    else (Inr (continuous_response recording receipt (Some upload)),
                      \<lparr>tables = t\<lparr>recordings := recordings t @ [recording], recording_uploads := recording_uploads t @ [upload],
                         continuous_recordings := continuous_recordings t @ [receipt]\<rparr>, disk = d\<rparr>))))"

section \<open>Uploading, completing and restarting\<close>

definition continuous_status :: "string \<Rightarrow> Device \<Rightarrow> recording_state \<Rightarrow> ContinuousAnswer reply" where
  "continuous_status i device s =
     (bind_result (owned_continuous (tables s) i device) (\<lambda>(recording, receipt, upload). Inr (continuous_response recording receipt upload)), s)"

text \<open>The offset is the header that the framework has read as a natural number.\<close>

definition continuous_content ::
  "recording_settings \<Rightarrow> audit_limits \<Rightarrow> RecordingCipher \<Rightarrow> string \<Rightarrow> Device \<Rightarrow> nat \<Rightarrow> string option \<Rightarrow> bytes list \<Rightarrow> bytes \<Rightarrow>
   int \<Rightarrow> bool \<Rightarrow> recording_state \<Rightarrow> ContinuousAnswer reply" where
  "continuous_content settings limits cipher i device offset content_length parts nonce now commit_ok s =
     (case bind_result (read_bounded_chunk content_length parts (recording_chunk_limit_bytes settings)) (\<lambda>chunk.
         bind_result (owned_continuous (tables s) i device) (\<lambda>(recording, receipt, upload).
           if continuous_state receipt \<noteq> ''uploading'' \<or> upload = None
           then Inl (Refused 409 ''Recording no longer accepts content; query its status'')
           else if free_bytes limits < length chunk + audit_recording_reserve_bytes limits
           then Inl (Refused 507 ''Server disk reserve reached; keep the encrypted tablet copy'')
           else case store_chunk settings cipher None nonce now offset chunk (recording, the upload, disk s) of
             Inl e \<Rightarrow> Inl (as_http e)
           | Inr (recording, upload, d) \<Rightarrow> Inr (recording, receipt\<lparr>continuous_updated_at := now\<rparr>, upload, d))) of
        Inl e \<Rightarrow> (Inl e, s)
      | Inr (recording, receipt, upload, d) \<Rightarrow>
          if commit_ok
          then (Inr (continuous_response recording receipt (Some upload)),
                \<lparr>tables = put_receipt receipt (put_upload upload (put_recording recording (tables s))), disk = d\<rparr>)
          else (Inl commit_failed, s\<lparr>disk := d\<rparr>))"

definition complete_continuous :: "string \<Rightarrow> Device \<Rightarrow> int \<Rightarrow> bool \<Rightarrow> recording_state \<Rightarrow> ContinuousAnswer reply" where
  "complete_continuous i device now commit_ok s =
     (case owned_continuous (tables s) i device of
        Inl e \<Rightarrow> (Inl e, s)
      | Inr (recording, receipt, upload) \<Rightarrow>
          if accepted_at receipt \<noteq> None \<or> continuous_state receipt \<in> {''queued'', ''processing'', ''needs_attention''}
          then (Inr (continuous_response recording receipt upload), s)
          else if (case upload of None \<Rightarrow> True | Some u \<Rightarrow> upload_offset u \<noteq> expected_size_bytes u)
          then (Inl (Refused 409 ''Recording upload is incomplete''), s)
          else if continuous_state receipt = ''invalid''
          then (Inl (Refused 422 ''Uploaded audio failed validation; the original tablet copy is still required''), s)
          else
            let receipt = receipt\<lparr>continuous_state := ''queued'', retry_at := None, continuous_updated_at := now\<rparr>;
                recording = recording\<lparr>recording_status := ''processing'', processing_error := None\<rparr> in
            if commit_ok
            then (Inr (continuous_response recording receipt upload), s\<lparr>tables := put_receipt receipt (put_recording recording (tables s))\<rparr>)
            else (Inl commit_failed, s))"

definition reset_continuous ::
  "recording_settings \<Rightarrow> string \<Rightarrow> Device \<Rightarrow> string \<Rightarrow> int \<Rightarrow> bool \<Rightarrow> recording_state \<Rightarrow> ContinuousAnswer reply" where
  "reset_continuous settings i device uuid now commit_ok s =
     (case owned_continuous (tables s) i device of
        Inl e \<Rightarrow> (Inl e, s)
      | Inr (recording, receipt, None) \<Rightarrow> (Inl (Refused 409 ''Only a rejected upload can be restarted''), s)
      | Inr (recording, receipt, Some previous) \<Rightarrow>
          if continuous_state receipt \<noteq> ''invalid'' \<or> accepted_at receipt \<noteq> None
          then (Inl (Refused 409 ''Only a rejected upload can be restarted''), s)
          else case create_upload_directory settings uuid (disk s) of
            Inl e \<Rightarrow> (Inl (Crashed e), s)
          | Inr d \<Rightarrow>
              let upload = previous\<lparr>storage_name := uuid, upload_offset := 0, upload_updated_at := now\<rparr>;
                  receipt = receipt\<lparr>continuous_state := ''uploading'', retry_at := None, continuous_updated_at := now\<rparr>;
                  recording = recording\<lparr>recording_status := ''uploading'', processing_error := None\<rparr> in
              if \<not> commit_ok then (Inl commit_failed, s\<lparr>disk := d\<rparr>)
              else case remove_upload_files settings previous d of (r, d') \<Rightarrow>
                (case r of Inl e \<Rightarrow> Inl (Crashed e) | Inr _ \<Rightarrow> Inr (continuous_response recording receipt (Some upload)),
                 \<lparr>tables = put_receipt receipt (put_upload upload (put_recording recording (tables s))), disk = d'\<rparr>))"

section \<open>The worker\<close>

text \<open>
  What a run meets: the clock at its start, when it accepts, when it fails and when it ends, the random
  draws, the directory entries it finds, the time it takes, the text of an exception of another class than
  the service's own, whether each commit, the rename and the flush of the directory succeed, and whether
  the run gets to the removal of the source.
\<close>

record worker_run =
  run_now :: int
  run_accepts_at :: int
  run_fails_at :: int
  run_ends_at :: int
  run_uuid :: string
  run_nonce :: bytes
  run_root :: entry
  run_remnants :: "(string \<times> file_kind) list"
  run_duration_ms :: nat
  run_error_text :: "string \<Rightarrow> string"
  claim_ok :: bool
  reserve_ok :: bool
  rename_ok :: bool
  fsync_ok :: bool
  accept_ok :: bool
  remove_ok :: bool
  settle_ok :: bool

text \<open>One chunk of the source, whose encrypted size is checked before it is read.\<close>

definition read_bounded_part ::
  "recording_settings \<Rightarrow> RecordingCipher \<Rightarrow> string \<Rightarrow> directory \<Rightarrow> nat \<Rightarrow> bytes recording_result" where
  "read_bounded_part settings cipher identity dir offset =
     bind_result (require_safe_file settings (map_of (children dir) (chunk_name offset))) (\<lambda>part.
       if length (file_content part) > recording_chunk_limit_bytes settings + 128
       then Inl (RecordingError ''Encrypted upload record exceeds its bound'' 422)
       else decrypt_chunk cipher identity offset (file_content part))"

text \<open>The content of the file of samples in the workspace.\<close>

definition materialize_source ::
  "recording_settings \<Rightarrow> RecordingCipher \<Rightarrow> Recording \<Rightarrow> RecordingUpload \<Rightarrow> storage \<Rightarrow> bytes recording_result" where
  "materialize_source settings cipher recording upload d =
     bind_result (upload_directory settings upload d) (\<lambda>dir.
     bind_result (read_chunks (read_bounded_part settings cipher (recording_id recording) dir)
         (RecordingError ''Continuous audio contains invalid byte ranges'' 422) (expected_size_bytes upload) 0) (\<lambda>chunks.
       let source = concat chunks in
       if length source \<noteq> recording_source_size_bytes recording \<or> content_sha256 settings source \<noteq> recording_source_sha256 recording
       then Inl (RecordingError ''Continuous audio failed size or checksum verification'' 422)
       else Inr source))"

text \<open>The private directory for the files of a job, made on first use.\<close>

definition processing_workspace :: "recording_settings \<Rightarrow> entry \<Rightarrow> storage \<Rightarrow> storage recording_result" where
  "processing_workspace settings root d =
     (if entry_kind root \<noteq> DirectoryEntry \<or> \<not> owned_privately settings root then Inl (OtherError ''PermissionError'')
      else case map_of (media d) ''.processing'' of
        None \<Rightarrow> Inr (d\<lparr>media := media d @ [(''.processing'',
            \<lparr>entry_kind = DirectoryEntry, entry_uid = geteuid settings, entry_mode = 448, file_content = []\<rparr>)]\<rparr>)
      | Some e \<Rightarrow>
          if entry_kind e \<noteq> DirectoryEntry \<or> \<not> owned_privately settings e then Inl (OtherError ''PermissionError'') else Inr d)"

definition workspace_entry :: "string \<times> file_kind \<Rightarrow> bool" where
  "workspace_entry prior \<longleftrightarrow> snd prior = DirectoryEntry \<and> starts_with ''job-'' (fst prior)"

text \<open>
  The conversion: unavailable, or an exit code with the diagnostic text and perhaps a file.
\<close>

type_synonym encoder = "bytes \<Rightarrow> (int \<times> string \<times> bytes option) option"

definition encode_continuous :: "encoder \<Rightarrow> bytes \<Rightarrow> bytes recording_result" where
  "encode_continuous ffmpeg raw =
     (case ffmpeg raw of
        None \<Rightarrow> Inl (RecordingError ''Audio conversion is unavailable; durable source retained'' 503)
      | Some (returncode, detail, encoded) \<Rightarrow>
          if returncode \<noteq> 0 \<or> encoded = None
          then Inl (RecordingError (''Audio conversion failed (exit '' @ str_int returncode @ ''): '' @ detail @
            ''; durable source retained'') 503)
          else if take 3 (the encoded) \<noteq> ''ID3'' \<and> take 1 (take 3 (the encoded)) \<noteq> [CHR 0xFF]
          then Inl (RecordingError ''Audio conversion produced invalid playback media'' 503)
          else Inr (the encoded))"

text \<open>
  From the source to the encrypted and authenticated media file of the workspace: the file, its size, the
  hash of the audio, and the rows with the retention policy that may have been added.
\<close>

definition convert_source ::
  "recording_settings \<Rightarrow> 'c gcm_library \<Rightarrow> RecordingCipher \<Rightarrow> encoder \<Rightarrow> worker_run \<Rightarrow> Recording \<Rightarrow> ContinuousRecording \<Rightarrow>
   RecordingUpload \<Rightarrow> recording_tables \<Rightarrow> storage \<Rightarrow> (bytes \<times> nat \<times> string \<times> recording_tables) recording_result" where
  "convert_source settings gcm cipher ffmpeg run recording receipt upload t d =
     bind_result (materialize_source settings cipher recording upload d) (\<lambda>raw.
       if truthy (validation_error receipt) then Inl (RecordingError (the (validation_error receipt)) 409)
       else bind_result (encode_continuous ffmpeg raw) (\<lambda>encoded.
         let t = snd (initialize_retention_policy (development_admin_email settings) (run_now run) t) in
         if recording_used_bytes (Some (recording_id recording)) None t + (length encoded + length MEDIA_MAGIC + 32)
           > recording_quota_bytes settings
         then Inl (RecordingError ''Server recording quota is full; durable source retained'' 507)
         else bind_result (encrypt_media_file (content_sha256 settings) gcm cipher (run_nonce run) (recording_id recording) encoded)
           (\<lambda>(payload, media_size, media_hash).
             bind_result (decrypt_media_file (content_sha256 settings) gcm cipher (recording_id recording) payload)
               (\<lambda>(_, _, verified_hash).
                 if verified_hash \<noteq> media_hash then Inl (RecordingError ''Stored playback media failed verification'' 503)
                 else Inr (payload, media_size, media_hash, t)))))"

text \<open>
  The reservation of the name, the rename, the flush of the directory, the removal of an earlier file, and
  the acknowledgement, each of which may be the last thing that happens. The source goes last.
\<close>

definition remove_source ::
  "recording_settings \<Rightarrow> worker_run \<Rightarrow> RecordingUpload \<Rightarrow> storage \<Rightarrow> unit recording_result \<times> storage" where
  "remove_source settings run upload d =
     (if remove_ok run then remove_upload_files settings upload d else (Inl (OtherError ''interrupted''), d))"

definition publish_media ::
  "recording_settings \<Rightarrow> RecordingCipher \<Rightarrow> worker_run \<Rightarrow> Recording \<Rightarrow> ContinuousRecording \<Rightarrow> RecordingUpload \<Rightarrow>
   bytes \<times> nat \<times> string \<times> recording_tables \<Rightarrow> recording_state \<Rightarrow> unit recording_result \<times> recording_state" where
  "publish_media settings cipher run recording receipt upload converted s =
     (case converted of (payload, media_size, media_hash, t) \<Rightarrow>
      let name = run_uuid run @ ''.rec'';
          old_storage = media_storage_name recording;
          reserved = recording\<lparr>media_storage_name := Some name\<rparr>;
          t1 = put_recording reserved t in
      if \<not> reserve_ok run then (Inl (OtherError ''commit failed''), s)
      else if \<not> rename_ok run then (Inl (OtherError ''OSError''), s\<lparr>tables := t1\<rparr>)
      else
        let d1 = (disk s)\<lparr>media := AList.update name (private_file settings payload) (media (disk s))\<rparr>;
            d2 = (if truthy old_storage \<and> old_storage \<noteq> Some name then unlink (the old_storage) d1 else d1);
            recording = reserved\<lparr>media_size_bytes := Some media_size, media_sha256 := Some media_hash,
              media_key_version := Some (cipher_version cipher), recording_status := ''ready'',
              recording_updated_at := run_accepts_at run, processing_error := None\<rparr>;
            receipt = receipt\<lparr>continuous_state := ''ready'', accepted_at := Some (run_accepts_at run), retry_at := None\<rparr> in
        if \<not> fsync_ok run then (Inl (OtherError ''OSError''), \<lparr>tables = t1, disk = d1\<rparr>)
        else if \<not> accept_ok run then (Inl (OtherError ''commit failed''), \<lparr>tables = t1, disk = d2\<rparr>)
        else case remove_source settings run upload d2 of (r, d3) \<Rightarrow>
          (r, \<lparr>tables = delete_upload (recording_id recording) (put_receipt receipt (put_recording recording t1)), disk = d3\<rparr>))"

definition process_source ::
  "recording_settings \<Rightarrow> audit_limits \<Rightarrow> 'c gcm_library \<Rightarrow> RecordingCipher \<Rightarrow> encoder \<Rightarrow> worker_run \<Rightarrow> Recording \<Rightarrow>
   ContinuousRecording \<Rightarrow> RecordingUpload option \<Rightarrow> recording_state \<Rightarrow> unit recording_result \<times> recording_state" where
  "process_source settings limits gcm cipher ffmpeg run recording receipt upload s =
     (if (case upload of None \<Rightarrow> True | Some u \<Rightarrow> upload_offset u \<noteq> recording_source_size_bytes recording)
      then (Inl (RecordingError ''Durable upload source is missing or incomplete'' 503), s)
      else if free_bytes limits < recording_source_size_bytes recording + recording_duration_ms recording * 36 + audit_recording_reserve_bytes limits
      then (Inl (RecordingError ''Server processing workspace is full; audio is preserved for retry'' 507), s)
      else case processing_workspace settings (run_root run) (disk s) of
        Inl e \<Rightarrow> (Inl e, s)
      | Inr d \<Rightarrow>
          if \<not> list_all workspace_entry (run_remnants run)
          then (Inl (RecordingError ''Unexpected processing workspace entry'' 503), s\<lparr>disk := d\<rparr>)
          else case convert_source settings gcm cipher ffmpeg run recording receipt (the upload) (tables s) d of
            Inl e \<Rightarrow> (Inl e, s\<lparr>disk := d\<rparr>)
          | Inr converted \<Rightarrow> publish_media settings cipher run recording receipt (the upload) converted (s\<lparr>disk := d\<rparr>))"

text \<open>The order of two texts by their characters.\<close>

fun text_less :: "string \<Rightarrow> string \<Rightarrow> bool" where
  "text_less a [] = False"
| "text_less [] (y # b) = True"
| "text_less (x # a) (y # b) = (of_char x < (of_char y :: nat) \<or> x = y \<and> text_less a b)"

definition earlier :: "ContinuousRecording \<Rightarrow> ContinuousRecording \<Rightarrow> bool" where
  "earlier a b \<longleftrightarrow> continuous_updated_at a < continuous_updated_at b \<or>
     continuous_updated_at a = continuous_updated_at b \<and> text_less (continuous_recording_id a) (continuous_recording_id b)"

definition due :: "int \<Rightarrow> ContinuousRecording \<Rightarrow> bool" where
  "due now c \<longleftrightarrow> continuous_state c \<in> {''queued'', ''processing'', ''retrying''} \<and>
     (case retry_at c of None \<Rightarrow> True | Some at \<Rightarrow> at \<le> now)"

definition next_receipt :: "int \<Rightarrow> recording_tables \<Rightarrow> ContinuousRecording option" where
  "next_receipt now t =
     (case filter (due now) (continuous_recordings t) of
        [] \<Rightarrow> None
      | c # cs \<Rightarrow> Some (fold (\<lambda>a b. if earlier a b then a else b) cs c))"

text \<open>\<^verbatim>\<open>str(error)\<close>: the detail of the service's own errors; what another exception says is met by the run.\<close>

fun error_text :: "worker_run \<Rightarrow> recording_error \<Rightarrow> string" where
  "error_text run (RecordingError detail code) = detail"
| "error_text run (OtherError name) = run_error_text run name"

text \<open>Seconds until the next attempt.\<close>

definition backoff_seconds :: "nat \<Rightarrow> nat" where
  "backoff_seconds n = min 3600 (30 * 2 ^ min n 7)"

definition failed_with :: "nat \<Rightarrow> recording_error \<Rightarrow> bool" where
  "failed_with code e \<longleftrightarrow> (case e of RecordingError _ c \<Rightarrow> c = code | OtherError _ \<Rightarrow> False)"

definition record_failure ::
  "worker_run \<Rightarrow> recording_error \<Rightarrow> Recording \<Rightarrow> ContinuousRecording \<Rightarrow> Recording \<times> ContinuousRecording" where
  "record_failure run e recording receipt =
     (let permanent = failed_with 422 e;
          needs_attention = failed_with 409 e in
      if accepted_at receipt \<noteq> None then (recording, receipt)
      else (recording\<lparr>recording_status := (if permanent \<or> needs_attention then ''failed'' else ''processing''),
              processing_error := Some (take 500 (error_text run e))\<rparr>,
            receipt\<lparr>continuous_state := (if needs_attention then ''needs_attention'' else if permanent then ''invalid'' else ''retrying''),
              retry_at := (if permanent \<or> needs_attention then None
                else Some (run_fails_at run + seconds (int (backoff_seconds (attempts receipt)))))\<rparr>))"

text \<open>
  After the attempt: the rows are read again, a failure is recorded unless the recording was accepted, and
  the time of the operation is stored in any case.
\<close>

definition attempt_rows ::
  "worker_run \<Rightarrow> unit recording_result \<Rightarrow> Recording \<Rightarrow> ContinuousRecording \<Rightarrow> Recording \<times> ContinuousRecording" where
  "attempt_rows run outcome recording receipt =
     (case outcome of
        Inl e \<Rightarrow> record_failure run e recording receipt
      | Inr _ \<Rightarrow> (recording, receipt))"

definition settle_attempt ::
  "worker_run \<Rightarrow> string \<Rightarrow> unit recording_result \<Rightarrow> recording_state \<Rightarrow> (recording_error + bool) \<times> recording_state" where
  "settle_attempt run i outcome s =
     (case (find_recording i (tables s), find_receipt i (tables s)) of
        (Some recording, Some receipt) \<Rightarrow>
          let rows = attempt_rows run outcome recording receipt in
          if \<not> settle_ok run then (Inl (OtherError ''commit failed''), s)
          else (Inr True, s\<lparr>tables := put_receipt
            ((snd rows)\<lparr>operation_duration_ms := Some (run_duration_ms run), continuous_updated_at := run_ends_at run\<rparr>)
            (put_recording (fst rows) (tables s))\<rparr>)
      | _ \<Rightarrow> (Inl (OtherError ''InvalidRequestError''), s))"

text \<open>The receipt is claimed before the work starts; the rows that the work sees are the claimed ones.\<close>

definition claimed :: "int \<Rightarrow> ContinuousRecording \<Rightarrow> ContinuousRecording" where
  "claimed now c = c\<lparr>continuous_state := ''processing'', attempts := attempts c + 1, continuous_updated_at := now\<rparr>"

definition process_claimed ::
  "recording_settings \<Rightarrow> audit_limits \<Rightarrow> 'c gcm_library \<Rightarrow> RecordingCipher \<Rightarrow> encoder \<Rightarrow> worker_run \<Rightarrow> Recording \<Rightarrow>
   ContinuousRecording \<Rightarrow> recording_state \<Rightarrow> unit recording_result \<times> recording_state" where
  "process_claimed settings limits gcm cipher ffmpeg run recording receipt s =
     (let receipt = claimed (run_now run) receipt;
          recording = recording\<lparr>recording_status := ''processing''\<rparr> in
      process_source settings limits gcm cipher ffmpeg run recording receipt (find_upload (recording_id recording) (tables s))
        (s\<lparr>tables := put_receipt receipt (put_recording recording (tables s))\<rparr>))"

definition process_next ::
  "recording_settings \<Rightarrow> audit_limits \<Rightarrow> 'c gcm_library \<Rightarrow> RecordingCipher \<Rightarrow> encoder \<Rightarrow> worker_run \<Rightarrow> bool \<Rightarrow> recording_state \<Rightarrow>
   (recording_error + bool) \<times> recording_state" where
  "process_next settings limits gcm cipher ffmpeg run locked s =
     (if \<not> locked then (Inr False, s)
      else case next_receipt (run_now run) (tables s) of
        None \<Rightarrow> (Inr False, s)
      | Some receipt \<Rightarrow>
          (case find_recording (continuous_recording_id receipt) (tables s) of
             None \<Rightarrow> (Inl (OtherError ''AttributeError''), s)
           | Some recording \<Rightarrow>
               if \<not> claim_ok run then (Inl (OtherError ''commit failed''), s)
               else if recording_status recording = ''deleted''
               then (Inr True, s\<lparr>tables := put_receipt (receipt\<lparr>continuous_state := ''deleted''\<rparr>) (tables s)\<rparr>)
               else case process_claimed settings limits gcm cipher ffmpeg run recording receipt s of
                 (outcome, s1) \<Rightarrow> settle_attempt run (continuous_recording_id receipt) outcome s1))"

end
