(* ===== verification/Continuous_Laws.thy ===== *)
theory Continuous_Laws
  imports Continuous_Recordings Recording_Safety
begin

text \<open>
  What the worker of \<^verbatim>\<open>src/server/app/continuous_recording_worker.py\<close> guarantees: the source of a
  recording stays until the recording is accepted, an accepted recording plays the conversion of exactly
  the uploaded samples, and every failed attempt is retried in bounded time or set aside. A worker that is
  killed is a run in which the operation at that point fails and the final commit fails too, so the
  properties of a run cover it.
\<close>

section \<open>Rows\<close>

lemma find_receipt_put:
  "find_receipt i (put_receipt c t) =
     (if i = continuous_recording_id c then map_option (\<lambda>_. c) (find_receipt i t) else find_receipt i t)"
proof -
  have "find (\<lambda>x. continuous_recording_id x = i) (map (\<lambda>q. if continuous_recording_id q = continuous_recording_id c then c else q) cs) =
    (if i = continuous_recording_id c then map_option (\<lambda>_. c) (find (\<lambda>x. continuous_recording_id x = i) cs)
     else find (\<lambda>x. continuous_recording_id x = i) cs)" for cs
    by (induction cs) auto
  then show ?thesis by (simp add: find_receipt_def put_receipt_def)
qed

lemma find_recording_put:
  "find_recording i (put_recording r t) =
     (if i = recording_id r then map_option (\<lambda>_. r) (find_recording i t) else find_recording i t)"
proof -
  have "find (\<lambda>x. recording_id x = i) (map (\<lambda>q. if recording_id q = recording_id r then r else q) rs) =
    (if i = recording_id r then map_option (\<lambda>_. r) (find (\<lambda>x. recording_id x = i) rs)
     else find (\<lambda>x. recording_id x = i) rs)" for rs
    by (induction rs) auto
  then show ?thesis by (simp add: find_recording_def put_recording_def)
qed

lemma find_upload_delete: "find_upload i (delete_upload j t) = (if i = j then None else find_upload i t)"
proof -
  have "find (\<lambda>u. upload_recording_id u = i) (filter (\<lambda>u. upload_recording_id u \<noteq> j) us) =
    (if i = j then None else find (\<lambda>u. upload_recording_id u = i) us)" for us :: "RecordingUpload list"
    by (induction us) auto
  then show ?thesis by (simp add: find_upload_def delete_upload_def)
qed

lemma find_across [simp]:
  "find_recording i (put_receipt c t) = find_recording i t" "find_upload i (put_receipt c t) = find_upload i t"
  "find_receipt i (put_recording r t) = find_receipt i t" "find_upload i (put_recording r t) = find_upload i t"
  "find_recording i (delete_upload j t) = find_recording i t" "find_receipt i (delete_upload j t) = find_receipt i t"
  "find_recording i (t\<lparr>retention_policy := p\<rparr>) = find_recording i t" "find_receipt i (t\<lparr>retention_policy := p\<rparr>) = find_receipt i t"
  "find_upload i (t\<lparr>retention_policy := p\<rparr>) = find_upload i t"
  by (simp_all add: find_recording_def find_receipt_def find_upload_def put_receipt_def put_recording_def delete_upload_def)

lemma find_receipt_Some: "find_receipt i t = Some c \<Longrightarrow> c \<in> set (continuous_recordings t) \<and> continuous_recording_id c = i"
  by (auto simp: find_receipt_def find_Some_iff)

lemma next_receipt_due:
  assumes "next_receipt now t = Some c"
  shows "c \<in> set (continuous_recordings t) \<and> due now c"
proof -
  have mem: "fold (\<lambda>a b. if earlier a b then a else b) cs x \<in> insert x (set cs)" for cs x
  proof (induction cs arbitrary: x)
    case (Cons a cs)
    then show ?case using Cons.IH [of "if earlier a x then a else x"] by (auto split: if_splits)
  qed simp
  obtain x cs where f: "filter (due now) (continuous_recordings t) = x # cs"
    "c = fold (\<lambda>a b. if earlier a b then a else b) cs x"
    using assms by (auto simp: next_receipt_def split: list.splits)
  then have "c \<in> set (filter (due now) (continuous_recordings t))" using mem [where cs = cs and x = x] by simp
  then show ?thesis by simp
qed

section \<open>The outcomes of an attempt\<close>

lemma remove_source_elsewhere:
  "media (snd (remove_source settings run upload d)) = media d"
  "name \<noteq> storage_name upload \<Longrightarrow> map_of (uploads (snd (remove_source settings run upload d))) name = map_of (uploads d) name"
  by (simp_all add: remove_source_def remove_upload_elsewhere)

lemma workspace_uploads: "processing_workspace settings root d = Inr d' \<Longrightarrow> uploads d' = uploads d"
  by (auto simp: processing_workspace_def split: if_splits option.splits)

lemma convert_tables:
  assumes "convert_source settings gcm cipher ffmpeg run recording receipt upload t d = Inr (payload, stored, digest, t')"
  obtains p where "t' = t\<lparr>retention_policy := p\<rparr>"
proof -
  have "t' = snd (initialize_retention_policy (development_admin_email settings) (run_now run) t)"
    using assms by (auto simp: convert_source_def bind_result_Inr Let_def split: if_splits)
  then show thesis using that policy_tables by metis
qed

text \<open>The rows and the storage of an accepted recording.\<close>

definition accepted_row :: "RecordingCipher \<Rightarrow> worker_run \<Rightarrow> nat \<Rightarrow> string \<Rightarrow> Recording \<Rightarrow> Recording" where
  "accepted_row cipher run stored digest recording =
     recording\<lparr>media_storage_name := Some (run_uuid run @ ''.rec''), media_size_bytes := Some stored, media_sha256 := Some digest,
       media_key_version := Some (cipher_version cipher), recording_status := ''ready'',
       recording_updated_at := run_accepts_at run, processing_error := None\<rparr>"

definition accepted_media :: "recording_settings \<Rightarrow> worker_run \<Rightarrow> string option \<Rightarrow> bytes \<Rightarrow> storage \<Rightarrow> storage" where
  "accepted_media settings run old_storage payload d =
     (let name = run_uuid run @ ''.rec'';
          d1 = d\<lparr>media := AList.update name (private_file settings payload) (media d)\<rparr> in
      if truthy old_storage \<and> old_storage \<noteq> Some name then unlink (the old_storage) d1 else d1)"

lemma process_source_cases:
  assumes "process_source settings limits gcm cipher ffmpeg run recording receipt upload s = (outcome, s1)"
  obtains (kept) e where "outcome = Inl e" "\<And>i. find_receipt i (tables s1) = find_receipt i (tables s)"
      "\<And>i. find_upload i (tables s1) = find_upload i (tables s)" "uploads (disk s1) = uploads (disk s)"
      "\<And>i. find_recording i (tables s1) = None \<longleftrightarrow> find_recording i (tables s) = None"
  | (accepted) u d payload stored digest p where "upload = Some u" "upload_offset u = recording_source_size_bytes recording"
      "processing_workspace settings (run_root run) (disk s) = Inr d"
      "convert_source settings gcm cipher ffmpeg run recording receipt u (tables s) d = Inr (payload, stored, digest, (tables s)\<lparr>retention_policy := p\<rparr>)"
      "tables s1 = delete_upload (recording_id recording)
         (put_receipt (receipt\<lparr>continuous_state := ''ready'', accepted_at := Some (run_accepts_at run), retry_at := None\<rparr>)
           (put_recording (accepted_row cipher run stored digest recording)
             (put_recording (recording\<lparr>media_storage_name := Some (run_uuid run @ ''.rec'')\<rparr>) ((tables s)\<lparr>retention_policy := p\<rparr>))))"
      "disk s1 = snd (remove_source settings run u (accepted_media settings run (media_storage_name recording) payload d))"
proof -
  show thesis
  proof (cases "\<exists>u d x. upload = Some u \<and> upload_offset u = recording_source_size_bytes recording \<and>
      processing_workspace settings (run_root run) (disk s) = Inr d \<and>
      convert_source settings gcm cipher ffmpeg run recording receipt u (tables s) d = Inr x \<and>
      process_source settings limits gcm cipher ffmpeg run recording receipt upload s =
        publish_media settings cipher run recording receipt u x (s\<lparr>disk := d\<rparr>)")
    case True
    then obtain u d payload stored digest t where *: "upload = Some u" "upload_offset u = recording_source_size_bytes recording"
      "processing_workspace settings (run_root run) (disk s) = Inr d"
      and c: "convert_source settings gcm cipher ffmpeg run recording receipt u (tables s) d = Inr (payload, stored, digest, t)"
      and pub: "publish_media settings cipher run recording receipt u (payload, stored, digest, t) (s\<lparr>disk := d\<rparr>) = (outcome, s1)"
      using assms by (metis prod_cases4)
    obtain p where t: "t = (tables s)\<lparr>retention_policy := p\<rparr>" using convert_tables [OF c] .
    have up: "uploads d = uploads (disk s)" using workspace_uploads *(3) .
    show thesis
    proof (cases "reserve_ok run \<and> rename_ok run \<and> fsync_ok run \<and> accept_ok run")
      case True
      then show thesis using accepted [OF * c [unfolded t]] pub
        by (auto simp: publish_media_def Let_def t accepted_row_def accepted_media_def split: prod.splits)
    next
      case False
      then have "\<exists>e. outcome = Inl e"
        using pub by (auto simp: publish_media_def Let_def split: if_splits)
      moreover have "tables s1 = tables s \<or> (\<exists>n. tables s1 = put_recording (recording\<lparr>media_storage_name := Some n\<rparr>) ((tables s)\<lparr>retention_policy := p\<rparr>))"
        "uploads (disk s1) = uploads (disk s)"
        using False pub up by (auto simp: publish_media_def Let_def t split: if_splits)
      ultimately show thesis by (elim exE disjE; intro kept; simp add: find_recording_put)
    qed
  next
    case False
    then have "\<exists>e. outcome = Inl e" "tables s1 = tables s" "uploads (disk s1) = uploads (disk s)"
      using assms workspace_uploads by (auto simp: process_source_def split: if_splits option.splits sum.splits)
    then show thesis by (elim exE) (rule kept, simp_all)
  qed
qed

lemma claimed_fields [simp]:
  "continuous_recording_id (claimed now c) = continuous_recording_id c" "accepted_at (claimed now c) = accepted_at c"
  "continuous_state (claimed now c) = ''processing''" "attempts (claimed now c) = attempts c + 1"
  by (simp_all add: claimed_def)

lemma process_next_cases:
  assumes run: "process_next settings limits gcm cipher ffmpeg run locked s = (result, s')"
  obtains (idle) "s' = s"
  | (gone) c where "next_receipt (run_now run) (tables s) = Some c"
      "s' = s\<lparr>tables := put_receipt (c\<lparr>continuous_state := ''deleted''\<rparr>) (tables s)\<rparr>"
  | (ran) c r outcome s1 where "next_receipt (run_now run) (tables s) = Some c"
      "find_recording (continuous_recording_id c) (tables s) = Some r"
      "process_claimed settings limits gcm cipher ffmpeg run r c s = (outcome, s1)"
      "settle_attempt run (continuous_recording_id c) outcome s1 = (result, s')"
proof (cases "next_receipt (run_now run) (tables s)")
  case None
  then show thesis using run idle by (auto simp: process_next_def split: if_splits)
next
  case c: (Some c)
  show thesis
  proof (cases "find_recording (continuous_recording_id c) (tables s)")
    case None
    then show thesis using run idle c by (auto simp: process_next_def split: if_splits)
  next
    case r: (Some r)
    obtain outcome s1 where p: "process_claimed settings limits gcm cipher ffmpeg run r c s = (outcome, s1)"
      by (cases "process_claimed settings limits gcm cipher ffmpeg run r c s")
    show thesis
    proof (cases "locked \<and> claim_ok run")
      case True
      then show thesis using run gone [OF c] ran [OF c r p]
        by (cases "recording_status r = ''deleted''") (auto simp: process_next_def c r p)
    qed (use run idle in \<open>auto simp: process_next_def c r split: if_splits\<close>)
  qed
qed

text \<open>Settling an attempt touches neither the storage nor the uploads, and accepts nothing.\<close>

lemma record_failure_fields [simp]:
  "accepted_at (snd (record_failure run e recording receipt)) = accepted_at receipt"
  "continuous_recording_id (snd (record_failure run e recording receipt)) = continuous_recording_id receipt"
  "recording_id (fst (record_failure run e recording receipt)) = recording_id recording"
  "accepted_at receipt \<noteq> None \<Longrightarrow> record_failure run e recording receipt = (recording, receipt)"
  by (simp_all add: record_failure_def Let_def)

lemma attempt_rows_fields [simp]:
  "accepted_at (snd (attempt_rows run outcome recording receipt)) = accepted_at receipt"
  "continuous_recording_id (snd (attempt_rows run outcome recording receipt)) = continuous_recording_id receipt"
  "recording_id (fst (attempt_rows run outcome recording receipt)) = recording_id recording"
  "accepted_at receipt \<noteq> None \<Longrightarrow> attempt_rows run outcome recording receipt = (recording, receipt)"
  by (simp_all add: attempt_rows_def split: sum.split)

lemma settle_cases:
  assumes run: "settle_attempt run i outcome s1 = (result, s')"
  obtains (unsettled) e where "s' = s1" "result = Inl e"
  | (settled) r c where "find_recording i (tables s1) = Some r" "find_receipt i (tables s1) = Some c" "settle_ok run"
      "disk s' = disk s1"
      "tables s' = put_receipt ((snd (attempt_rows run outcome r c))\<lparr>operation_duration_ms := Some (run_duration_ms run),
         continuous_updated_at := run_ends_at run\<rparr>) (put_recording (fst (attempt_rows run outcome r c)) (tables s1))"
proof (cases "find_recording i (tables s1)")
  case r: (Some r)
  show thesis
  proof (cases "find_receipt i (tables s1)")
    case c: (Some c)
    show thesis
      using run unsettled settled [OF r c] by (cases "settle_ok run") (auto simp: settle_attempt_def r c Let_def)
  qed (use run unsettled r in \<open>auto simp: settle_attempt_def\<close>)
qed (use run unsettled in \<open>auto simp: settle_attempt_def\<close>)

lemma settle_keeps:
  assumes "settle_attempt run i outcome s1 = (result, s')"
  shows "disk s' = disk s1" "find_upload k (tables s') = find_upload k (tables s1)"
    "map_option accepted_at (find_receipt k (tables s')) = map_option accepted_at (find_receipt k (tables s1))"
proof -
  have "disk s' = disk s1 \<and> find_upload k (tables s') = find_upload k (tables s1) \<and>
    map_option accepted_at (find_receipt k (tables s')) = map_option accepted_at (find_receipt k (tables s1))"
    using assms
  proof (cases rule: settle_cases)
    case (settled r c)
    have "continuous_recording_id c = i" using find_receipt_Some [OF settled(2)] by blast
    then show ?thesis using settled(2,4) unfolding settled(5) by (simp add: find_receipt_put)
  qed simp
  then show "disk s' = disk s1" "find_upload k (tables s') = find_upload k (tables s1)"
    "map_option accepted_at (find_receipt k (tables s')) = map_option accepted_at (find_receipt k (tables s1))" by blast+
qed

lemma settle_accepted:
  assumes "settle_attempt run i outcome s1 = (result, s')" "find_receipt i (tables s1) = Some c" "accepted_at c \<noteq> None"
  shows "find_recording i (tables s') = find_recording i (tables s1)"
  using assms(1)
proof (cases rule: settle_cases)
  case (settled r c')
  then have "attempt_rows run outcome r c' = (r, c')" using assms(2,3) by simp
  then show ?thesis using settled find_recording_Some [OF settled(1)] by (simp add: find_recording_put)
qed simp

section \<open>The source is kept\<close>

lemma claimed_process_cases:
  assumes run: "process_claimed settings limits gcm cipher ffmpeg run r c s = (outcome, s1)"
    and id: "recording_id r = continuous_recording_id c"
  obtains (kept) e where "outcome = Inl e"
      "\<And>i. find_receipt i (tables s1) = find_receipt i (put_receipt (claimed (run_now run) c) (tables s))"
      "\<And>i. find_upload i (tables s1) = find_upload i (tables s)" "uploads (disk s1) = uploads (disk s)"
      "\<And>i. find_recording i (tables s1) = None \<longleftrightarrow> find_recording i (tables s) = None"
  | (accepted) u d payload stored digest p r1 where "r1 = r\<lparr>recording_status := ''processing''\<rparr>"
      "find_upload (recording_id r) (tables s) = Some u" "upload_offset u = recording_source_size_bytes r"
      "uploads d = uploads (disk s)"
      "convert_source settings gcm cipher ffmpeg run r1 (claimed (run_now run) c) u
         (put_receipt (claimed (run_now run) c) (put_recording r1 (tables s))) d = Inr (payload, stored, digest, p)"
      "\<And>i. find_receipt i (tables s1) = (if i = recording_id r then map_option (\<lambda>_. (claimed (run_now run) c)
         \<lparr>continuous_state := ''ready'', accepted_at := Some (run_accepts_at run), retry_at := None\<rparr>) (find_receipt i (tables s)) else find_receipt i (tables s))"
      "\<And>i. find_upload i (tables s1) = (if i = recording_id r then None else find_upload i (tables s))"
      "\<And>i. find_recording i (tables s1) = (if i = recording_id r then map_option (\<lambda>_. accepted_row cipher run stored digest r1) (find_recording i (tables s))
         else find_recording i (tables s))"
      "disk s1 = snd (remove_source settings run u (accepted_media settings run (media_storage_name r) payload d))"
proof -
  let ?r = "r\<lparr>recording_status := ''processing''\<rparr>" and ?c = "claimed (run_now run) c"
  let ?s = "s\<lparr>tables := put_receipt ?c (put_recording ?r (tables s))\<rparr>"
  have "process_source settings limits gcm cipher ffmpeg run ?r ?c (find_upload (recording_id r) (tables s)) ?s = (outcome, s1)"
    using run by (simp add: process_claimed_def Let_def)
  then show thesis
  proof (cases rule: process_source_cases)
    case (kept e)
    show thesis by (rule that(1) [OF kept(1)]) (use kept in \<open>simp_all add: find_receipt_put find_recording_put\<close>)
  next
    case (accepted u d payload stored digest p)
    have ids: "recording_id (accepted_row cipher run stored digest ?r) = recording_id r" by (simp add: accepted_row_def)
    show thesis
    proof (rule that(2))
      show "?r = ?r" ..
      show "find_upload (recording_id r) (tables s) = Some u" by (rule accepted(1))
      show "upload_offset u = recording_source_size_bytes r" using accepted(2) by simp
      show "uploads d = uploads (disk s)" using workspace_uploads [OF accepted(3)] by simp
      show "convert_source settings gcm cipher ffmpeg run ?r ?c u (put_receipt ?c (put_recording ?r (tables s))) d =
          Inr (payload, stored, digest, (put_receipt ?c (put_recording ?r (tables s)))\<lparr>retention_policy := p\<rparr>)"
        using accepted(4) by simp
      show "find_receipt i (tables s1) = (if i = recording_id r then map_option (\<lambda>_. ?c
         \<lparr>continuous_state := ''ready'', accepted_at := Some (run_accepts_at run), retry_at := None\<rparr>) (find_receipt i (tables s)) else find_receipt i (tables s))" for i
        unfolding accepted(5) by (simp add: find_receipt_put id option.map_comp comp_def)
      show "find_upload i (tables s1) = (if i = recording_id r then None else find_upload i (tables s))" for i
        unfolding accepted(5) by (simp add: find_upload_delete)
      show "find_recording i (tables s1) = (if i = recording_id r then map_option (\<lambda>_. accepted_row cipher run stored digest ?r) (find_recording i (tables s))
         else find_recording i (tables s))" for i
        unfolding accepted(5) by (simp add: find_recording_put ids option.map_comp comp_def)
      show "disk s1 = snd (remove_source settings run u (accepted_media settings run (media_storage_name r) payload d))"
        using accepted(6) by simp
    qed
  qed
qed

text \<open>
  C11: Whatever happens in a run of the worker, at which of its commits, its rename or its flush it fails
  or is killed, a recording that is not acknowledged afterwards still has its upload, and the encrypted source files
  are as they were before the run. So is the source of every other recording.
\<close>

theorem unaccepted_source_kept:
  assumes run: "process_next settings limits gcm cipher ffmpeg run locked s = (result, s')"
    and names: "distinct (map storage_name (recording_uploads (tables s)))"
    and receipt: "find_receipt i (tables s') = Some c'" "accepted_at c' = None"
    and upload: "find_upload i (tables s) = Some u"
  shows "find_upload i (tables s') = Some u \<and>
    map_of (uploads (disk s')) (storage_name u) = map_of (uploads (disk s)) (storage_name u)"
  using run
proof (cases rule: process_next_cases)
  case (ran c r outcome s1)
  have id: "recording_id r = continuous_recording_id c" using find_recording_Some [OF ran(2)] by blast
  have c1: "map_option accepted_at (find_receipt i (tables s1)) = Some None"
    using settle_keeps(3) [OF ran(4), of i] receipt by simp
  note same = settle_keeps(1) [OF ran(4)] settle_keeps(2) [OF ran(4), of i]
  from ran(3) id show ?thesis
  proof (cases rule: claimed_process_cases)
    case (kept e)
    then show ?thesis using same upload by simp
  next
    case (accepted v d payload stored digest p r1)
    have "i \<noteq> recording_id r" using c1 accepted(6) [of i] by (auto split: if_splits)
    then have "find_upload i (tables s1) = Some u" using accepted(7) upload by simp
    moreover have "storage_name u \<noteq> storage_name v"
    proof
      assume eq: "storage_name u = storage_name v"
      have "u \<in> set (recording_uploads (tables s)) \<and> upload_recording_id u = i"
        "v \<in> set (recording_uploads (tables s)) \<and> upload_recording_id v = recording_id r"
        using find_upload_Some upload accepted(2) by blast+
      moreover from this have "u = v" using eq inj_onD [of storage_name "set (recording_uploads (tables s))" u v] names
        by (simp add: distinct_map)
      ultimately show False using \<open>i \<noteq> recording_id r\<close> by auto
    qed
    moreover have "uploads (accepted_media settings run (media_storage_name r) payload d) = uploads (disk s)"
      using accepted(4) by (simp add: accepted_media_def Let_def)
    ultimately show ?thesis using same accepted(9) remove_source_elsewhere(2) by metis
  qed
qed (use upload in simp_all)

section \<open>What is accepted\<close>

lemma read_chunks_mono:
  assumes "\<And>offset p. f offset = Inr p \<Longrightarrow> g offset = Inr p"
  shows "read_chunks f e expected offset = Inr ps \<Longrightarrow> offset \<le> expected \<Longrightarrow>
    read_chunks g e' expected offset = Inr ps \<and> offset + length (concat ps) = expected"
proof (induction "expected - offset" arbitrary: offset ps rule: less_induct)
  case less
  show ?case
  proof (cases "offset < expected")
    case True
    then obtain p qs where p: "f offset = Inr p" "p \<noteq> []" "offset + length p \<le> expected" "ps = p # qs"
      "read_chunks f e expected (offset + length p) = Inr qs"
      using less.prems(1) by (subst (asm) read_chunks.simps) (auto simp: bind_result_Inr split: if_splits)
    have "read_chunks g e' expected (offset + length p) = Inr qs \<and> offset + length p + length (concat qs) = expected"
      by (rule less.hyps) (use p True in \<open>auto simp: neq_Nil_conv\<close>)
    then show ?thesis using True p assms [OF p(1)] by (subst read_chunks.simps) simp
  next
    case False
    then have "ps = []" using less.prems(1) by (subst (asm) read_chunks.simps) simp
    then show ?thesis using False less.prems(2) by (subst read_chunks.simps) simp
  qed
qed

lemma materialize_held:
  assumes "materialize_source settings cipher recording upload d = Inr raw"
    and holds: "upload_holds settings cipher (recording_id recording) upload d audio"
    and offset: "upload_offset upload = recording_source_size_bytes recording"
  shows "raw = audio" "content_sha256 settings audio = recording_source_sha256 recording"
proof -
  obtain dir ps where dir: "upload_directory settings upload d = Inr dir"
    and ps: "read_chunks (read_bounded_part settings cipher (recording_id recording) dir)
      (RecordingError ''Continuous audio contains invalid byte ranges'' 422) (expected_size_bytes upload) 0 = Inr ps"
    and raw: "raw = concat ps" "length raw = recording_source_size_bytes recording"
      "content_sha256 settings raw = recording_source_sha256 recording"
    using assms(1) by (auto simp: materialize_source_def bind_result_Inr Let_def split: if_splits)
  have "read_bounded_part settings cipher i dir n = Inr p \<Longrightarrow> read_chunk settings cipher i dir n = Inr p" for i n p
    by (auto simp: read_bounded_part_def read_chunk_def bind_result_Inr split: if_splits)
  from read_chunks_mono [OF this ps, where e' = "OtherError []"]
  have read: "read_chunks (read_chunk settings cipher (recording_id recording) dir) (OtherError []) (expected_size_bytes upload) 0 = Inr ps"
    and len: "length (concat ps) = expected_size_bytes upload" by simp_all
  obtain qs where "laid_out (read_chunk settings cipher (recording_id recording) dir) 0 qs" "concat qs = audio"
    "length audio = upload_offset upload"
    using holds dir by (auto simp: upload_holds_def)
  then have "read_chunks (read_chunk settings cipher (recording_id recording) dir) (OtherError []) (expected_size_bytes upload) 0 = Inr qs"
    using len raw offset by (intro read_chunks_laid_out) simp_all
  then show "raw = audio" using read raw(1) \<open>concat qs = audio\<close> by simp
  then show "content_sha256 settings audio = recording_source_sha256 recording" using raw(3) by simp
qed

lemma accepted_playable:
  assumes conv: "convert_source settings gcm cipher ffmpeg run recording receipt upload t d = Inr (payload, stored, digest, t')"
    and agree: "streams_agree gcm (library cipher)"
    and cipher: "cipher_ready cipher" "length (run_nonce run) = 12" "is_ascii (recording_id recording)"
    and uuid: "length (run_uuid run) = 32" "list_all hex_char (run_uuid run)"
  obtains raw encoded where "materialize_source settings cipher recording upload d = Inr raw"
    "encode_continuous ffmpeg raw = Inr encoded"
    "load_media settings cipher (accepted_row cipher run stored digest recording)
       (accepted_media settings run old payload d') = Inr encoded"
proof -
  obtain raw where raw: "materialize_source settings cipher recording upload d = Inr raw"
    using conv by (auto simp: convert_source_def bind_result_Inr)
  obtain encoded where enc: "encode_continuous ffmpeg raw = Inr encoded"
    using conv raw by (auto simp: convert_source_def bind_result_Inr split: if_splits)
  have e: "encrypt_media_file (content_sha256 settings) gcm cipher (run_nonce run) (recording_id recording) encoded = Inr (payload, stored, digest)"
    using conv raw enc by (auto simp: convert_source_def bind_result_Inr Let_def split: if_splits)
  then have p: "encrypt_media cipher (run_nonce run) (recording_id recording) encoded = Inr payload"
    and sizes: "stored = length payload" "digest = content_sha256 settings encoded"
    unfolding encrypt_media_file_eq [OF agree] by (auto simp: bind_result_Inr)
  have trip: "media_version payload = Inr (cipher_version cipher)" "decrypt_media cipher (recording_id recording) payload = Inr encoded"
    using media_round_trip [OF cipher(1,3,2), of encoded] p keeps_key_refl by (metis sum.inject(2))+
  have valid: "media_name_valid (run_uuid run @ ''.rec'')" using uuid by (simp add: media_name_valid_def)
  have written: "map_of (media (accepted_media settings run old payload d')) (run_uuid run @ ''.rec'') = Some (private_file settings payload)"
    by (cases old) (auto simp: accepted_media_def Let_def unlink_conv update_conv truthy_iff)
  have "load_media settings cipher (accepted_row cipher run stored digest recording) (accepted_media settings run old payload d') = Inr encoded"
    using trip valid written sizes by (simp add: load_media_def media_path_def accepted_row_def)
  then show thesis by (rule that [OF raw enc])
qed

text \<open>
  C12: A run of the worker that acknowledges a recording has converted exactly the samples that the
  device uploaded: they have the announced size and hash, and what is played afterwards is the output of
  the converter on them.
\<close>

theorem accepted_recording_exact:
  assumes run: "process_next settings limits gcm cipher ffmpeg run locked s = (result, s')"
    and before: "find_receipt i (tables s) = Some c" "accepted_at c = None"
    and after: "find_receipt i (tables s') = Some c'" "accepted_at c' \<noteq> None"
    and unique: "distinct (map continuous_recording_id (continuous_recordings (tables s)))"
    and rows: "find_recording i (tables s) = Some r" "find_upload i (tables s) = Some u"
    and holds: "upload_holds settings cipher i u (disk s) audio"
    and library: "streams_agree gcm (library cipher)" "cipher_ready cipher" "is_ascii i"
    and draws: "length (run_nonce run) = 12" "length (run_uuid run) = 32" "list_all hex_char (run_uuid run)"
  shows "length audio = recording_source_size_bytes r \<and> content_sha256 settings audio = recording_source_sha256 r \<and>
    find_upload i (tables s') = None \<and>
    (\<exists>r' encoded. encode_continuous ffmpeg audio = Inr encoded \<and> find_recording i (tables s') = Some r' \<and>
       load_media settings cipher r' (disk s') = Inr encoded \<and> materialize_media settings gcm cipher r' (disk s') = Inr encoded)"
  using run
proof (cases rule: process_next_cases)
  case idle
  then show ?thesis using before after by simp
next
  case (gone c0)
  have "c0 \<in> set (continuous_recordings (tables s))" using next_receipt_due [OF gone(1)] by blast
  moreover have "c \<in> set (continuous_recordings (tables s)) \<and> continuous_recording_id c = i" using find_receipt_Some before(1) by blast
  ultimately have "c0 = c" if "continuous_recording_id c0 = i"
    using that unique inj_onD [of continuous_recording_id "set (continuous_recordings (tables s))" c0 c] by (simp add: distinct_map)
  then show ?thesis using before after gone(2) by (auto simp: find_receipt_put split: if_splits)
next
  case (ran c0 r0 outcome s1)
  have id: "recording_id r0 = continuous_recording_id c0" using find_recording_Some [OF ran(2)] by blast
  have c0: "c0 = c" if "continuous_recording_id c0 = i"
  proof -
    have "c0 \<in> set (continuous_recordings (tables s))" using next_receipt_due [OF ran(1)] by blast
    moreover have "c \<in> set (continuous_recordings (tables s)) \<and> continuous_recording_id c = i" using find_receipt_Some before(1) by blast
    ultimately show ?thesis
      using that unique inj_onD [of continuous_recording_id "set (continuous_recordings (tables s))" c0 c] by (simp add: distinct_map)
  qed
  have later: "map_option accepted_at (find_receipt i (tables s1)) = Some (accepted_at c')"
    using settle_keeps(3) [OF ran(4), of i] after(1) by simp
  from ran(3) id show ?thesis
  proof (cases rule: claimed_process_cases)
    case (kept e)
    then have "map_option accepted_at (find_receipt i (tables s1)) = Some None"
      using before c0 by (auto simp: find_receipt_put)
    then show ?thesis using later after(2) by simp
  next
    case (accepted v d payload stored digest p r1)
    have i: "i = recording_id r0" using later before after(2) accepted(6) [of i] by (auto split: if_splits)
    then have r: "r0 = r" and v: "v = u" using ran(2) rows id accepted(2) by simp_all
    have settled: "find_recording i (tables s') = Some (accepted_row cipher run stored digest r1)"
    proof -
      have "find_receipt i (tables s1) = Some (the (find_receipt i (tables s1)))" "accepted_at (the (find_receipt i (tables s1))) \<noteq> None"
        using later after(2) by auto
      then have "find_recording i (tables s') = find_recording i (tables s1)"
        using settle_accepted [OF ran(4)] i id by metis
      then show ?thesis using accepted(8) [of i] i rows(1) by simp
    qed
    have r1: "recording_id r1 = i" "recording_source_size_bytes r1 = recording_source_size_bytes r"
      "recording_source_sha256 r1 = recording_source_sha256 r" using i accepted(1) r by simp_all
    have "upload_holds settings cipher (recording_id r1) u d audio"
      using holds r1(1) upload_holds_cong [of d u "disk s" settings cipher i audio] by (simp add: accepted(4))
    moreover obtain raw encoded where m: "materialize_source settings cipher r1 u d = Inr raw" "encode_continuous ffmpeg raw = Inr encoded"
      and play: "load_media settings cipher (accepted_row cipher run stored digest r1)
        (accepted_media settings run (media_storage_name r) payload d) = Inr encoded"
      using accepted_playable [OF accepted(5) [unfolded v] library(1,2) draws(1) _ draws(2,3)] library(3) r1(1) by metis
    moreover have "upload_offset u = recording_source_size_bytes r1" using accepted(3) v r r1 by simp
    ultimately have audio: "raw = audio" "content_sha256 settings audio = recording_source_sha256 r"
      using materialize_held r1(3) by metis+
    have "disk s' = snd (remove_source settings run u (accepted_media settings run (media_storage_name r) payload d))"
      using settle_keeps(1) [OF ran(4)] accepted(9) r v by simp
    then have "load_media settings cipher (accepted_row cipher run stored digest r1) (disk s') = Inr encoded"
      using play load_media_cong remove_source_elsewhere(1) by metis
    moreover have "length audio = recording_source_size_bytes r"
      using holds accepted(3) v r by (auto simp: upload_holds_def)
    moreover have "find_upload i (tables s') = None"
      using settle_keeps(2) [OF ran(4)] accepted(7) i by simp
    ultimately show ?thesis using settled audio m(2) materialize_media_Inr [OF library(1)] by blast
  qed
qed

section \<open>Failed attempts\<close>

lemma backoff_bounds: "60 \<le> backoff_seconds (n + 1) \<and> backoff_seconds (n + 1) \<le> 3600"
proof -
  have "(2::nat) ^ 1 \<le> 2 ^ min (n + 1) 7" by (rule power_increasing) simp_all
  then show ?thesis by (simp add: backoff_seconds_def)
qed

lemma record_failure_settled:
  assumes "accepted_at c = None" "attempts c = n + 1" "c' = snd (record_failure run e r c)"
  shows "attempts c' = n + 1 \<and>
    (continuous_state c' = ''retrying'' \<and>
       (\<exists>at. retry_at c' = Some at \<and> run_fails_at run + seconds 60 \<le> at \<and> at \<le> run_fails_at run + seconds 3600) \<or>
     continuous_state c' \<in> {''invalid'', ''needs_attention''} \<and> retry_at c' = None)"
  using assms backoff_bounds [of n] by (simp add: record_failure_def Let_def seconds_def)

text \<open>
  C13: A run that works on a recording and does not acknowledge it counts the attempt, and either
  schedules the next one, at the earliest a minute and at the latest an hour after the failure, or sets the
  recording aside as invalid or for attention, without a schedule.
\<close>

theorem failed_attempt_settled:
  assumes run: "process_next settings limits gcm cipher ffmpeg run locked s = (Inr True, s')"
    and chosen: "next_receipt (run_now run) (tables s) = Some c" "accepted_at c = None"
    and recording: "find_recording (continuous_recording_id c) (tables s) = Some r" "recording_status r \<noteq> ''deleted''"
    and after: "find_receipt (continuous_recording_id c) (tables s') = Some c'" "accepted_at c' = None"
  shows "attempts c' = attempts c + 1 \<and>
    (continuous_state c' = ''retrying'' \<and>
       (\<exists>at. retry_at c' = Some at \<and> run_fails_at run + seconds 60 \<le> at \<and> at \<le> run_fails_at run + seconds 3600) \<or>
     continuous_state c' \<in> {''invalid'', ''needs_attention''} \<and> retry_at c' = None)"
proof -
  let ?i = "continuous_recording_id c"
  obtain outcome s1 where p: "process_claimed settings limits gcm cipher ffmpeg run r c s = (outcome, s1)"
    by (cases "process_claimed settings limits gcm cipher ffmpeg run r c s")
  have settle: "settle_attempt run ?i outcome s1 = (Inr True, s')"
    using run recording chosen(1) p by (auto simp: process_next_def split: if_splits)
  have id: "recording_id r = ?i" using find_recording_Some [OF recording(1)] by blast
  have c1: "map_option accepted_at (find_receipt ?i (tables s1)) = Some None"
    using settle_keeps(3) [OF settle, of ?i] after by simp
  from p id show ?thesis
  proof (cases rule: claimed_process_cases)
    case (kept e)
    have "find_receipt ?i (tables s1) = Some (claimed (run_now run) c)"
      using kept(2) [of ?i] c1 by (auto simp: find_receipt_put)
    moreover from settle obtain r1 c1 where "find_receipt ?i (tables s1) = Some c1"
      "tables s' = put_receipt ((snd (attempt_rows run outcome r1 c1))\<lparr>operation_duration_ms := Some (run_duration_ms run),
         continuous_updated_at := run_ends_at run\<rparr>) (put_recording (fst (attempt_rows run outcome r1 c1)) (tables s1))"
      by (cases rule: settle_cases) auto
    ultimately have "c' = (snd (record_failure run e r1 (claimed (run_now run) c)))
        \<lparr>operation_duration_ms := Some (run_duration_ms run), continuous_updated_at := run_ends_at run\<rparr>"
      using after(1) kept(1) by (simp add: find_receipt_put attempt_rows_def)
    then show ?thesis
      using record_failure_settled [OF _ _ refl, of "claimed (run_now run) c" "attempts c" run e r1] chosen(2) by simp
  next
    case (accepted v d payload stored digest p r1)
    then show ?thesis using c1 accepted(6) [of ?i] id by (auto split: if_splits)
  qed
qed

section \<open>A complete source is accepted\<close>

text \<open>The encrypted parts of an upload are within the bound that the worker reads.\<close>

definition parts_bounded :: "recording_settings \<Rightarrow> RecordingUpload \<Rightarrow> storage \<Rightarrow> bool" where
  "parts_bounded settings upload d \<longleftrightarrow>
     (case upload_directory settings upload d of
        Inl _ \<Rightarrow> True
      | Inr dir \<Rightarrow> list_all (\<lambda>f. length (file_content (snd f)) \<le> recording_chunk_limit_bytes settings + 128) (children dir))"

lemma materialize_complete:
  assumes "upload_holds settings cipher (recording_id recording) upload d audio" "parts_bounded settings upload d"
    "upload_offset upload = expected_size_bytes upload" "expected_size_bytes upload = recording_source_size_bytes recording"
    "content_sha256 settings audio = recording_source_sha256 recording"
  shows "materialize_source settings cipher recording upload d = Inr audio"
proof -
  obtain dir ps where dir: "upload_directory settings upload d = Inr dir"
    and ps: "laid_out (read_chunk settings cipher (recording_id recording) dir) 0 ps" "concat ps = audio"
      "length audio = upload_offset upload"
    using assms(1) by (auto simp: upload_holds_def)
  have "length (file_content f) \<le> recording_chunk_limit_bytes settings + 128" if "map_of (children dir) n = Some f" for n f
    using assms(2) dir map_of_SomeD [OF that] by (auto simp: parts_bounded_def list_all_iff)
  then have bound: "map_of (children dir) n = Some f \<Longrightarrow> \<not> recording_chunk_limit_bytes settings + 128 < length (file_content f)" for n f
    using not_le by blast
  have "read_bounded_part settings cipher i dir n = read_chunk settings cipher i dir n" for i n
    by (cases "map_of (children dir) (chunk_name n)")
      (auto simp: read_bounded_part_def read_chunk_def require_safe_file_def dest: bound)
  then have "read_bounded_part settings cipher (recording_id recording) dir = read_chunk settings cipher (recording_id recording) dir" by (rule ext)
  moreover have "read_chunks (read_chunk settings cipher (recording_id recording) dir)
      (RecordingError ''Continuous audio contains invalid byte ranges'' 422) (expected_size_bytes upload) 0 = Inr ps"
    using ps assms(3) by (intro read_chunks_laid_out) simp_all
  ultimately show ?thesis using dir ps assms(3-5) by (simp add: materialize_source_def)
qed

lemma used_bytes_claimed:
  assumes "recording_status r \<noteq> ''ready''"
  shows "recording_used_bytes ex ec (put_receipt c (put_recording r t)) \<le> recording_used_bytes ex ec t"
proof -
  have "(\<Sum>q\<leftarrow>filter (\<lambda>q. recording_status q = ''ready'') (map (\<lambda>q. if recording_id q = recording_id r then r else q) rs). media_bytes q)
      \<le> (\<Sum>q\<leftarrow>filter (\<lambda>q. recording_status q = ''ready'') rs. media_bytes q)" for rs
    using assms by (induction rs) auto
  then show ?thesis by (simp add: recording_used_bytes_def put_receipt_def)
qed

lemma convert_complete:
  assumes raw: "materialize_source settings cipher recording upload d = Inr raw" "\<not> truthy (validation_error receipt)"
    and enc: "encode_continuous ffmpeg raw = Inr encoded"
    and quota: "recording_used_bytes (Some (recording_id recording)) None t + length encoded + 39 \<le> recording_quota_bytes settings"
    and library: "streams_agree gcm (library cipher)" "cipher_ready cipher" "length (run_nonce run) = 12" "is_ascii (recording_id recording)"
  shows "\<exists>payload stored digest t'. convert_source settings gcm cipher ffmpeg run recording receipt upload t d = Inr (payload, stored, digest, t')"
proof -
  obtain payload where p: "encrypt_media cipher (run_nonce run) (recording_id recording) encoded = Inr payload"
    "media_version payload = Inr (cipher_version cipher)" "decrypt_media cipher (recording_id recording) payload = Inr encoded"
    using media_round_trip [OF library(2,4,3), of encoded] keeps_key_refl by metis
  have e: "encrypt_media_file (content_sha256 settings) gcm cipher (run_nonce run) (recording_id recording) encoded =
      Inr (payload, length payload, content_sha256 settings encoded)"
    by (simp add: encrypt_media_file_eq [OF library(1)] p)
  have v: "decrypt_media_file (content_sha256 settings) gcm cipher (recording_id recording) payload =
      Inr (cipher_version cipher, encoded, content_sha256 settings encoded)"
    by (simp add: decrypt_media_file_Inr [OF library(1)] p)
  obtain q where t: "snd (initialize_retention_policy (development_admin_email settings) (run_now run) t) = t\<lparr>retention_policy := q\<rparr>"
    by (rule policy_tables)
  show ?thesis using quota raw enc e v by (simp add: convert_source_def t Let_def)
qed

text \<open>
  A complete upload whose samples have the announced hash is acknowledged by the run that takes it up,
  when the converter delivers audio, the quota and the file system have room, the workspace is private and
  holds only remains of earlier jobs, and the commits succeed.
\<close>

lemma complete_source_accepted:
  assumes chosen: "locked" "next_receipt (run_now run) (tables s) = Some c" "\<not> truthy (validation_error c)"
    and rows: "find_recording (continuous_recording_id c) (tables s) = Some r" "recording_status r \<noteq> ''deleted''"
      "find_upload (continuous_recording_id c) (tables s) = Some u"
    and source: "upload_holds settings cipher (continuous_recording_id c) u (disk s) audio" "parts_bounded settings u (disk s)"
      "upload_offset u = expected_size_bytes u" "expected_size_bytes u = recording_source_size_bytes r"
      "content_sha256 settings audio = recording_source_sha256 r"
    and encoder: "encode_continuous ffmpeg audio = Inr encoded"
    and room: "recording_used_bytes (Some (continuous_recording_id c)) None (tables s) + length encoded + 39 \<le> recording_quota_bytes settings"
      "recording_source_size_bytes r + recording_duration_ms r * 36 + audit_recording_reserve_bytes limits \<le> free_bytes limits"
    and workspace: "processing_workspace settings (run_root run) (disk s) = Inr d" "list_all workspace_entry (run_remnants run)"
    and commits: "claim_ok run" "reserve_ok run" "rename_ok run" "fsync_ok run" "accept_ok run"
    and library: "streams_agree gcm (library cipher)" "cipher_ready cipher" "length (run_nonce run) = 12" "is_ascii (continuous_recording_id c)"
  shows "\<exists>result s' c'. process_next settings limits gcm cipher ffmpeg run locked s = (result, s') \<and>
    find_receipt (continuous_recording_id c) (tables s') = Some c' \<and> accepted_at c' = Some (run_accepts_at run)"
proof -
  let ?i = "continuous_recording_id c" and ?r = "r\<lparr>recording_status := ''processing''\<rparr>" and ?c = "claimed (run_now run) c"
  let ?t = "put_receipt ?c (put_recording ?r (tables s))"
  have id: "recording_id r = ?i" using find_recording_Some [OF rows(1)] by blast
  have same: "uploads d = uploads (disk s)" using workspace_uploads workspace(1) .
  have dirs: "upload_directory settings u d = upload_directory settings u (disk s)" by (simp add: upload_directory_def same)
  have "upload_holds settings cipher (recording_id ?r) u d audio" "parts_bounded settings u d"
    using source(1,2) id upload_holds_cong [of d u "disk s" settings cipher ?i audio] dirs
    by (simp_all add: same parts_bounded_def)
  then have "materialize_source settings cipher ?r u d = Inr audio" using source by (intro materialize_complete) simp_all
  moreover have "recording_used_bytes (Some (recording_id ?r)) None ?t + length encoded + 39 \<le> recording_quota_bytes settings"
    using room(1) used_bytes_claimed [of ?r "Some ?i" None ?c "tables s"] id by simp
  moreover have "\<not> truthy (validation_error ?c)" "is_ascii (recording_id ?r)" using chosen(3) library(4) id by (simp_all add: claimed_def)
  ultimately obtain payload stored digest t' where conv: "convert_source settings gcm cipher ffmpeg run ?r ?c u ?t d = Inr (payload, stored, digest, t')"
    using convert_complete encoder library by meson
  obtain outcome s1 where p: "process_claimed settings limits gcm cipher ffmpeg run r c s = (outcome, s1)"
    by (cases "process_claimed settings limits gcm cipher ffmpeg run r c s")
  obtain q where t': "t' = ?t\<lparr>retention_policy := q\<rparr>" using convert_tables [OF conv] .
  have c: "find_receipt ?i (tables s) \<noteq> None"
    using next_receipt_due [OF chosen(2)] by (auto simp: find_receipt_def find_None_iff)
  have "accepted_at (the (find_receipt ?i (tables s1))) = Some (run_accepts_at run)" "find_receipt ?i (tables s1) \<noteq> None"
    using p c room(2) source(3,4) workspace commits conv rows(3) id
    by (auto simp: process_claimed_def process_source_def publish_media_def Let_def t' find_receipt_put split: prod.splits)
  then have a: "map_option accepted_at (find_receipt ?i (tables s1)) = Some (Some (run_accepts_at run))" by auto
  obtain result s' where settle: "settle_attempt run ?i outcome s1 = (result, s')" by (cases "settle_attempt run ?i outcome s1")
  then have "process_next settings limits gcm cipher ffmpeg run locked s = (result, s')"
    using chosen rows p commits(1) by (simp add: process_next_def)
  moreover have "map_option accepted_at (find_receipt ?i (tables s')) = Some (Some (run_accepts_at run))"
    using settle_keeps(3) [OF settle, of ?i] a by simp
  ultimately show ?thesis by auto
qed

section \<open>A small recording\<close>

text \<open>Five bytes of samples, uploaded in one chunk and queued.\<close>

definition demo_body :: ContinuousRecordingCreate where
  "demo_body =
     \<lparr>format_version = 1, capture_receipt = None, announced_id = ''r1'', announced_call_id = ''c1'', announced_kind = ''session_audit'',
      announced_revision_id = None, announced_block_id = None, announced_policy_version = Some 1, announced_captured_at = (0, Some 0),
      announced_source_format = ''pcm_s16le_48000_stereo'', announced_frames = 1, announced_duration_ms = 1000,
      announced_size_bytes = 5, announced_sha256 = ''voice'', announced_partial = False, announced_stop_reason = ''completed''\<rparr>"

definition demo_receipt :: ContinuousRecording where
  "demo_receipt = (new_receipt demo_body None 0)\<lparr>continuous_state := ''queued''\<rparr>"

definition demo_source :: RecordingUpload where
  "demo_source = (continuous_upload demo_body (replicate 32 CHR ''0'') 0)\<lparr>upload_offset := 5\<rparr>"

definition demo_queued :: "bytes \<Rightarrow> recording_state" where
  "demo_queued payload =
     \<lparr>tables = \<lparr>control_rows = empty_database, calls = [], recordings = [demo_recording\<lparr>recording_status := ''processing''\<rparr>],
        recording_uploads = [demo_source], segments = [], continuous_recordings = [demo_receipt], retention_policy = None\<rparr>,
      disk = demo_segment_storage payload\<rparr>"

definition demo_run :: worker_run where
  "demo_run =
     \<lparr>run_now = 9, run_accepts_at = 10, run_fails_at = 10, run_ends_at = 10, run_uuid = replicate 32 CHR ''1'', run_nonce = replicate 12 CHR ''n'',
      run_root = \<lparr>entry_kind = DirectoryEntry, entry_uid = 7, entry_mode = 448\<rparr>, run_remnants = [], run_duration_ms = 1, run_error_text = (\<lambda>name. name),
      claim_ok = True, reserve_ok = True, rename_ok = True, fsync_ok = True, accept_ok = True, remove_ok = True, settle_ok = True\<rparr>"

definition demo_limits :: "nat \<Rightarrow> audit_limits" where
  "demo_limits space = \<lparr>audit_recording_quota_bytes = 100000, audit_recording_reserve_bytes = 0, free_bytes = space\<rparr>"

definition demo_converter :: encoder where
  "demo_converter raw = Some (0, [], Some ''ID3'')"

lemmas demo_continuous_defs = demo_body_def demo_receipt_def demo_source_def new_receipt_def continuous_upload_def

lemma demo_receipt_fields [simp]:
  "continuous_recording_id demo_receipt = ''r1''" "accepted_at demo_receipt = None" "validation_error demo_receipt = None"
  "continuous_state demo_receipt = ''queued''" "retry_at demo_receipt = None" "attempts demo_receipt = 0"
  by (simp_all add: demo_continuous_defs)

lemma demo_source_fields [simp]:
  "upload_recording_id demo_source = ''r1''" "expected_size_bytes demo_source = 5" "upload_offset demo_source = 5"
  "storage_name demo_source = replicate 32 CHR ''0''"
  by (simp_all add: demo_continuous_defs)

lemma demo_queued_rows:
  "next_receipt (run_now demo_run) (tables (demo_queued payload)) = Some demo_receipt"
  "find_receipt ''r1'' (tables (demo_queued payload)) = Some demo_receipt"
  "find_recording ''r1'' (tables (demo_queued payload)) = Some (demo_recording\<lparr>recording_status := ''processing''\<rparr>)"
  "find_upload ''r1'' (tables (demo_queued payload)) = Some demo_source"
  "distinct (map storage_name (recording_uploads (tables (demo_queued payload))))"
  "distinct (map continuous_recording_id (continuous_recordings (tables (demo_queued payload))))"
  by (simp_all add: demo_queued_def next_receipt_def due_def find_receipt_def find_recording_def find_upload_def demo_recording_def)

lemma demo_full_disk:
  "\<exists>s' c'. process_next demo_recording_settings (demo_limits 0) demo_gcm demo_cipher demo_converter demo_run True (demo_queued []) = (Inr True, s') \<and>
     find_receipt ''r1'' (tables s') = Some c' \<and> accepted_at c' = None"
proof -
  have r: "recording_id demo_recording = ''r1''" "recording_source_size_bytes demo_recording = 5" "settle_ok demo_run" "claim_ok demo_run"
    by (simp_all add: demo_recording_def demo_run_def)
  have "process_claimed demo_recording_settings (demo_limits 0) demo_gcm demo_cipher demo_converter demo_run
      (demo_recording\<lparr>recording_status := ''processing''\<rparr>) demo_receipt (demo_queued []) =
    (Inl (RecordingError ''Server processing workspace is full; audio is preserved for retry'' 507),
     (demo_queued [])\<lparr>tables := put_receipt (claimed (run_now demo_run) demo_receipt)
        (put_recording (demo_recording\<lparr>recording_status := ''processing''\<rparr>) (tables (demo_queued [])))\<rparr>)"
    by (simp add: process_claimed_def process_source_def Let_def demo_queued_rows r demo_limits_def)
  then show ?thesis
    by (simp add: process_next_def demo_queued_rows r settle_attempt_def Let_def find_recording_put find_receipt_put)
qed

theorem unaccepted_source_kept_witness:
  "\<exists>s'. process_next demo_recording_settings (demo_limits 0) demo_gcm demo_cipher demo_converter demo_run True (demo_queued []) = (Inr True, s') \<and>
     find_upload ''r1'' (tables s') = Some demo_source \<and>
     map_of (uploads (disk s')) (replicate 32 CHR ''0'') = map_of (uploads (disk (demo_queued []))) (replicate 32 CHR ''0'')"
proof -
  obtain s' c' where *: "process_next demo_recording_settings (demo_limits 0) demo_gcm demo_cipher demo_converter demo_run True (demo_queued []) = (Inr True, s')"
    "find_receipt ''r1'' (tables s') = Some c'" "accepted_at c' = None" using demo_full_disk by blast
  show ?thesis using unaccepted_source_kept [OF *(1) demo_queued_rows(5) *(2,3) demo_queued_rows(4)] *(1) by simp
qed

theorem failed_attempt_settled_witness:
  "\<exists>s' c'. process_next demo_recording_settings (demo_limits 0) demo_gcm demo_cipher demo_converter demo_run True (demo_queued []) = (Inr True, s') \<and>
     find_receipt ''r1'' (tables s') = Some c' \<and> attempts c' = 1"
proof -
  obtain s' c' where *: "process_next demo_recording_settings (demo_limits 0) demo_gcm demo_cipher demo_converter demo_run True (demo_queued []) = (Inr True, s')"
    "find_receipt ''r1'' (tables s') = Some c'" "accepted_at c' = None" using demo_full_disk by blast
  show ?thesis using failed_attempt_settled [OF *(1) demo_queued_rows(1) _ _ _ _ *(3)] demo_queued_rows(3) * by simp
qed

lemma demo_holds:
  obtains payload where "upload_holds demo_recording_settings demo_cipher ''r1'' demo_source (disk (demo_queued payload)) ''voice''"
    "parts_bounded demo_recording_settings demo_source (disk (demo_queued payload))"
proof -
  obtain payload where p: "decrypt_chunk demo_cipher ''r1'' 0 payload = Inr ''voice''" "length payload \<le> 200"
  proof (rule chunk_round_trip [OF demo_cipher_ready, of "''r1''" "replicate 12 CHR ''n''" 0 "''voice''"])
    fix payload assume "length payload = length ''voice'' + 39"
      "\<And>new. keeps_key demo_cipher new \<Longrightarrow> decrypt_chunk new ''r1'' 0 payload = Inr ''voice''"
    then have "decrypt_chunk demo_cipher ''r1'' 0 payload = Inr ''voice''" "length payload \<le> 200" using keeps_key_refl by simp_all
    then show thesis by (rule that)
  qed (simp_all add: is_ascii_def)
  let ?d = "(private_directory demo_recording_settings)\<lparr>children := [(chunk_name 0, private_file demo_recording_settings payload)]\<rparr>"
  have dir: "upload_directory demo_recording_settings demo_source (disk (demo_queued payload)) = Inr ?d"
    by (simp add: upload_directory_Inr demo_queued_def demo_segment_storage_def private_directory_def owned_privately_def
        demo_recording_settings_def hex_char_def list_all_iff)
  have read: "read_chunk demo_recording_settings demo_cipher ''r1'' ?d 0 = Inr ''voice''" by (simp add: read_chunk_def p)
  have "upload_holds demo_recording_settings demo_cipher ''r1'' demo_source (disk (demo_queued payload)) ''voice''"
    unfolding upload_holds_def dir by (intro exI [of _ ?d] exI [of _ "[''voice'']"]) (auto simp: read)
  moreover have "parts_bounded demo_recording_settings demo_source (disk (demo_queued payload))"
    unfolding parts_bounded_def dir using p(2) by (simp add: demo_recording_settings_def private_file_def)
  ultimately show thesis by (rule that)
qed

theorem accepted_recording_exact_witness:
  "\<exists>payload s' r'. s' = snd (process_next demo_recording_settings (demo_limits 50000) demo_gcm demo_cipher demo_converter demo_run True (demo_queued payload)) \<and>
     find_recording ''r1'' (tables s') = Some r' \<and> load_media demo_recording_settings demo_cipher r' (disk s') = Inr ''ID3''"
proof -
  obtain payload where h: "upload_holds demo_recording_settings demo_cipher ''r1'' demo_source (disk (demo_queued payload)) ''voice''"
    "parts_bounded demo_recording_settings demo_source (disk (demo_queued payload))" by (rule demo_holds)
  have enc: "encode_continuous demo_converter ''voice'' = Inr ''ID3''" by (simp add: encode_continuous_def demo_converter_def)
  have run: "claim_ok demo_run" "reserve_ok demo_run" "rename_ok demo_run" "fsync_ok demo_run" "accept_ok demo_run" "list_all workspace_entry (run_remnants demo_run)"
    "length (run_nonce demo_run) = 12" "length (run_uuid demo_run) = 32" "list_all hex_char (run_uuid demo_run)"
    by (simp_all add: demo_run_def list_all_iff hex_char_def)
  obtain d where d: "processing_workspace demo_recording_settings (run_root demo_run) (disk (demo_queued payload)) = Inr d"
    by (simp add: processing_workspace_def demo_run_def owned_privately_def demo_recording_settings_def demo_queued_def demo_segment_storage_def)
  have used: "recording_used_bytes (Some (continuous_recording_id demo_receipt)) None (tables (demo_queued payload)) + length ''ID3'' + 39
      \<le> recording_quota_bytes demo_recording_settings"
    by (simp add: recording_used_bytes_def demo_queued_def demo_recording_settings_def)
  let ?r = "demo_recording\<lparr>recording_status := ''processing''\<rparr>"
  have r: "recording_status ?r \<noteq> ''deleted''" "expected_size_bytes demo_source = recording_source_size_bytes ?r"
    "content_sha256 demo_recording_settings ''voice'' = recording_source_sha256 ?r"
    "recording_source_size_bytes ?r + recording_duration_ms ?r * 36 + audit_recording_reserve_bytes (demo_limits 50000) \<le> free_bytes (demo_limits 50000)"
    by (simp_all add: demo_recording_def demo_recording_settings_def demo_limits_def)
  have ascii: "is_ascii ''r1''" by (simp add: is_ascii_def)
  obtain result s' c' where *: "process_next demo_recording_settings (demo_limits 50000) demo_gcm demo_cipher demo_converter demo_run True (demo_queued payload) = (result, s')"
    "find_receipt ''r1'' (tables s') = Some c'" "accepted_at c' = Some (run_accepts_at demo_run)"
    using complete_source_accepted [OF _ demo_queued_rows(1) _ _ r(1) _ _ h(2) _ r(2,3) enc used r(4) d run(6) run(1-5) demo_gcm_agrees demo_cipher_ready run(7), where locked = True]
      h(1) demo_queued_rows(3,4) ascii by (auto simp: truthy_iff)
  have "accepted_at c' \<noteq> None" using *(3) by simp
  from accepted_recording_exact [OF *(1) demo_queued_rows(2) _ *(2) this demo_queued_rows(6,3,4) h(1) demo_gcm_agrees demo_cipher_ready ascii run(7-9)]
  obtain r' where "find_recording ''r1'' (tables s') = Some r'" "load_media demo_recording_settings demo_cipher r' (disk s') = Inr ''ID3''"
    using enc by auto
  then show ?thesis by (intro exI [of _ payload] exI [of _ s'] exI [of _ r']) (simp add: *(1))
qed

end
