(* ===== verification/Call_Laws.thy ===== *)
theory Call_Laws
  imports Call_History
begin

text \<open>
  What the event requests guarantee: reports that arrive again, late, or before their call never cause a
  second notification and never lose an event. The locale \<^verbatim>\<open>call_items\<close> is the contract of one item of
  a batch, interpreted on the items of both requests.
\<close>

section \<open>Counting notifications\<close>

definition terminal_count :: "string \<Rightarrow> (string \<times> notification) list \<Rightarrow> nat" where
  "terminal_count i sent = length (filter (\<lambda>(c, key, _). c = i \<and> key \<noteq> ''external_call_failed'') sent)"

definition failure_count :: "string \<Rightarrow> (string \<times> notification) list \<Rightarrow> nat" where
  "failure_count i sent = length (filter (\<lambda>(c, key, _). c = i \<and> key = ''external_call_failed'') sent)"

definition terminal_done :: "string \<Rightarrow> call_tables \<Rightarrow> nat" where
  "terminal_done i t = (case find_call i t of None \<Rightarrow> 0 | Some c \<Rightarrow> of_bool (terminal_notification_scheduled c))"

text \<open>The receipts of a call that report a failed external call, and those whose notification was scheduled.\<close>

definition failure_of :: "string \<Rightarrow> CallEventReceipt \<Rightarrow> bool" where
  "failure_of i r \<longleftrightarrow> receipt_call_id r = i \<and> external_failure (receipt_document r) \<noteq> []"

definition scheduled_count :: "string \<Rightarrow> CallEventReceipt list \<Rightarrow> nat" where
  "scheduled_count i rows = length (filter (\<lambda>r. failure_of i r \<and> notification_scheduled r) rows)"

lemma count_append [simp]:
  "terminal_count i (xs @ ys) = terminal_count i xs + terminal_count i ys"
  "failure_count i (xs @ ys) = failure_count i xs + failure_count i ys"
  "scheduled_count i (rs @ qs) = scheduled_count i rs + scheduled_count i qs"
  by (simp_all add: terminal_count_def failure_count_def scheduled_count_def)

lemma count_Nil [simp]: "terminal_count i [] = 0" "failure_count i [] = 0"
  by (simp_all add: terminal_count_def failure_count_def)

lemma external_failure_cases: "external_failure d = [] \<or> (\<exists>s. external_failure d = [(''external_call_failed'', Some s)])"
  by (cases d) auto

lemma external_failure_key: "(key, x) \<in> set (external_failure d) \<Longrightarrow> key = ''external_call_failed''"
  by (cases d) (auto split: if_splits)

lemma scheduled_count_Cons:
  "scheduled_count i (r # rows) = of_bool (failure_of i r \<and> notification_scheduled r) + scheduled_count i rows"
  by (simp add: scheduled_count_def)

text \<open>The three classes of results exclude one another.\<close>

lemma terminal_keys:
  "length (classify_call_notifications decision result []) \<le> 1"
  "(key, x) \<in> set (classify_call_notifications decision result []) \<Longrightarrow> key \<noteq> ''external_call_failed''"
  by (auto simp: classify_call_notifications_def IVR_FAILURE_RESULTS_def IVR_COMPLETED_RESULTS_def split: if_splits)

lemma failure_keys:
  assumes "result \<noteq> ''IN_PROGRESS''"
  shows "filter (\<lambda>(key, _). key = ''external_call_failed'') (classify_call_notifications decision result [d]) = external_failure d"
  using assms external_failure_cases [of d] by (auto simp: classify_call_notifications_def)

lemma find_call_put:
  "find_call i (put_call c t) = (if i = call_id c then map_option (\<lambda>_. c) (find_call i t) else find_call i t)"
proof -
  have "find (\<lambda>c. call_id c = i) (map (\<lambda>d. if call_id d = call_id c then c else d) rows) =
    (if i = call_id c then map_option (\<lambda>_. c) (find (\<lambda>c. call_id c = i) rows) else find (\<lambda>c. call_id c = i) rows)" for rows
    by (induction rows) auto
  then show ?thesis by (simp add: find_call_def put_call_def)
qed

lemma find_call_receipts [simp]:
  "find_call i (t\<lparr>receipts := rows\<rparr>) = find_call i t" "receipts (put_call c t) = receipts t"
  "find_call i (t\<lparr>last_seen := seen\<rparr>) = find_call i t" "put_call c (t\<lparr>receipts := rows\<rparr>) = (put_call c t)\<lparr>receipts := rows\<rparr>"
  by (simp_all add: find_call_def put_call_def)

lemma find_call_id: "find_call i t = Some c \<Longrightarrow> call_id c = i"
  by (auto simp: find_call_def find_Some_iff)

text \<open>A claim marks the receipts it takes, and nothing else about them changes.\<close>

definition mark_claimed :: "CallHistoryRecord \<Rightarrow> CallEventReceipt \<Rightarrow> CallEventReceipt" where
  "mark_claimed call row = (if claimable call row then row\<lparr>notification_scheduled := True\<rparr> else row)"

lemma mark_claimed_fields [simp]:
  "receipt_identity (mark_claimed call row) = receipt_identity row" "receipt_document (mark_claimed call row) = receipt_document row"
  "receipt_of d j (mark_claimed call row) = receipt_of d j row"
  by (simp_all add: mark_claimed_def receipt_of_def)

lemma claimed_rows:
  "(if i = call_id call then length (concat (map (\<lambda>r. external_failure (receipt_document r)) (filter (claimable call) rows))) else 0)
     + scheduled_count i rows \<le> scheduled_count i (map (mark_claimed call) rows)"
proof (induction rows)
  case (Cons r rows)
  have "length (external_failure (receipt_document r)) = of_bool (external_failure (receipt_document r) \<noteq> [])"
    using external_failure_cases [of "receipt_document r"] by auto
  moreover have "claimable call r \<Longrightarrow> receipt_call_id r = call_id call \<and> \<not> notification_scheduled r"
    by (simp add: claimable_def receipt_of_def)
  ultimately show ?case using Cons
    by (cases "claimable call r") (auto simp: scheduled_count_Cons mark_claimed_def failure_of_def split: if_splits)
qed (simp add: scheduled_count_def)

lemma terminal_notes:
  assumes "\<And>key x. (key, x) \<in> set sent \<Longrightarrow> key \<noteq> ''external_call_failed''"
  shows "terminal_count i (map (Pair c) sent) = (if i = c then length sent else 0)" "failure_count i (map (Pair c) sent) = 0"
proof -
  have "filter (\<lambda>x. fst x \<noteq> ''external_call_failed'') sent = sent"
    using assms by (auto intro!: filter_True)
  then show "terminal_count i (map (Pair c) sent) = (if i = c then length sent else 0)"
    by (auto simp: terminal_count_def filter_map o_def case_prod_beta)
  show "failure_count i (map (Pair c) sent) = 0"
    using assms by (fastforce simp: failure_count_def filter_empty_conv)
qed

lemma failure_notes:
  assumes "\<And>key x. (key, x) \<in> set sent \<Longrightarrow> key = ''external_call_failed''"
  shows "failure_count i (map (Pair c) sent) = (if i = c then length sent else 0)" "terminal_count i (map (Pair c) sent) = 0"
proof -
  have "filter (\<lambda>x. fst x = ''external_call_failed'') sent = sent"
    using assms by (auto intro!: filter_True)
  then show "failure_count i (map (Pair c) sent) = (if i = c then length sent else 0)"
    by (auto simp: failure_count_def filter_map o_def case_prod_beta)
  show "terminal_count i (map (Pair c) sent) = 0"
    using assms by (fastforce simp: terminal_count_def filter_empty_conv)
qed

lemma claim_cases:
  assumes "claim_notifications call rows = (sent, call', rows')"
  obtains (kept) "sent = []" "call' = call" "rows' = rows"
  | (claimed) T E where "sent = T @ E" "call' = call\<lparr>terminal_notification_scheduled := True\<rparr>" "rows' = map (mark_claimed call) rows"
    "T = (if terminal_notification_scheduled call then [] else classify_call_notifications (history_policy_decision call) (call_result call) [])"
    "E = concat (map (\<lambda>r. external_failure (receipt_document r)) (filter (claimable call) rows))"
proof (cases "call_result call \<in> {''IN_PROGRESS'', ''END_DETAILS_UNAVAILABLE''}")
  case True
  then show thesis using assms kept by (auto simp: claim_notifications_def)
next
  case False
  then have "call_result call \<noteq> ''IN_PROGRESS''" by simp
  from failure_keys [OF this] show thesis
    using assms False claimed by (simp add: claim_notifications_def mark_claimed_def [abs_def])
qed

lemma claim_counts:
  assumes "claim_notifications call rows = (sent, call', rows')"
  shows "terminal_count i (map (Pair (call_id call)) sent) + of_bool (i = call_id call \<and> terminal_notification_scheduled call)
      \<le> of_bool (i = call_id call \<and> terminal_notification_scheduled call')"
    "failure_count i (map (Pair (call_id call)) sent) + scheduled_count i rows \<le> scheduled_count i rows'"
    "\<exists>b. call' = call\<lparr>terminal_notification_scheduled := b\<rparr>"
    "\<exists>m. rows' = map m rows \<and> (\<forall>r. receipt_identity (m r) = receipt_identity r \<and> receipt_document (m r) = receipt_document r \<and>
       (\<forall>d j. receipt_of d j (m r) = receipt_of d j r))"
proof -
  from assms have "terminal_count i (map (Pair (call_id call)) sent) + of_bool (i = call_id call \<and> terminal_notification_scheduled call)
      \<le> of_bool (i = call_id call \<and> terminal_notification_scheduled call') \<and>
    failure_count i (map (Pair (call_id call)) sent) + scheduled_count i rows \<le> scheduled_count i rows'"
  proof (cases rule: claim_cases)
    case (claimed T E)
    have T: "(key, x) \<in> set T \<Longrightarrow> key \<noteq> ''external_call_failed''" "length T \<le> of_bool (\<not> terminal_notification_scheduled call)" for key x
      using terminal_keys claimed(4) by (auto split: if_splits)
    have E: "(key, x) \<in> set E \<Longrightarrow> key = ''external_call_failed''" for key x
      unfolding claimed(5) using external_failure_key by auto
    show ?thesis
      using claimed_rows [of i call rows, folded claimed(5)] T(2) unfolding claimed(1-3)
      by (auto simp: terminal_notes [OF T(1)] failure_notes [OF E])
  qed simp
  then show "terminal_count i (map (Pair (call_id call)) sent) + of_bool (i = call_id call \<and> terminal_notification_scheduled call)
      \<le> of_bool (i = call_id call \<and> terminal_notification_scheduled call')"
    "failure_count i (map (Pair (call_id call)) sent) + scheduled_count i rows \<le> scheduled_count i rows'" by blast+
  show "\<exists>b. call' = call\<lparr>terminal_notification_scheduled := b\<rparr>"
    using assms by (cases rule: claim_cases) (auto intro: exI [of _ "terminal_notification_scheduled call"])
  show "\<exists>m. rows' = map m rows \<and> (\<forall>r. receipt_identity (m r) = receipt_identity r \<and> receipt_document (m r) = receipt_document r \<and>
       (\<forall>d j. receipt_of d j (m r) = receipt_of d j r))"
    using assms by (cases rule: claim_cases) (auto intro: exI [of _ "mark_claimed call"] exI [of _ id])
qed

section \<open>Receipts\<close>

text \<open>
  What merging does to the receipts: some are added, for this device and call only, and every document has
  a receipt afterwards. Identities are unique for a device and a call, and belong to the document.
\<close>

definition receipt_key :: "CallEventReceipt \<Rightarrow> string \<times> string \<times> string" where
  "receipt_key r = (receipt_device_id r, receipt_call_id r, receipt_identity r)"

definition receipts_ok :: "call_environment \<Rightarrow> CallEventReceipt list \<Rightarrow> bool" where
  "receipts_ok env rows \<longleftrightarrow> distinct (map receipt_key rows) \<and> list_all (\<lambda>r. receipt_identity r = event_identity env (receipt_document r)) rows"

lemma add_receipt_adds:
  "\<exists>new. add_receipt env device i b d rows = rows @ new \<and> list_all (receipt_of device i) new"
  by (auto simp: add_receipt_def Let_def receipt_of_def)

lemma add_receipt_known: "(device, i, event_identity env d) \<in> receipt_key ` set (add_receipt env device i b d rows)"
  by (auto simp: add_receipt_def Let_def receipt_of_def receipt_key_def list_ex_iff image_iff)

lemma add_receipt_ok: "receipts_ok env rows \<Longrightarrow> receipts_ok env (add_receipt env device i b d rows)"
  by (auto simp: receipts_ok_def add_receipt_def Let_def receipt_of_def receipt_key_def list_ex_iff)

lemma add_receipts_adds:
  "\<exists>new. fold (add_receipt env device i b) ds rows = rows @ new \<and> list_all (receipt_of device i) new"
proof (induction ds arbitrary: rows)
  case (Cons d ds)
  obtain n1 where "add_receipt env device i b d rows = rows @ n1" "list_all (receipt_of device i) n1"
    using add_receipt_adds by blast
  moreover obtain n2 where "fold (add_receipt env device i b) ds (rows @ n1) = (rows @ n1) @ n2" "list_all (receipt_of device i) n2"
    using Cons.IH by blast
  ultimately show ?case by (intro exI [of _ "n1 @ n2"]) simp
qed simp

lemma add_receipts_known:
  "d \<in> set ds \<Longrightarrow> (device, i, event_identity env d) \<in> receipt_key ` set (fold (add_receipt env device i b) ds rows)"
proof (induction ds arbitrary: rows)
  case (Cons a ds)
  show ?case
  proof (cases "d = a")
    case True
    obtain new where "fold (add_receipt env device i b) ds (add_receipt env device i b a rows) = add_receipt env device i b a rows @ new"
      using add_receipts_adds by blast
    then show ?thesis using add_receipt_known [of device i env a b rows] True by (auto simp: image_Un)
  next
    case False
    then show ?thesis using Cons by simp
  qed
qed simp

lemma add_receipts_ok: "receipts_ok env rows \<Longrightarrow> receipts_ok env (fold (add_receipt env device i b) ds rows)"
  by (induction ds arbitrary: rows) (simp_all add: add_receipt_ok)

lemma merge_Inr:
  assumes "merge_events env device i documents call rows = Inr (call', rows')"
  shows "\<exists>new. rows' = rows @ new \<and> list_all (receipt_of device i) new"
    "d \<in> set documents \<Longrightarrow> (device, i, event_identity env d) \<in> receipt_key ` set rows'"
    "receipts_ok env rows \<Longrightarrow> receipts_ok env rows'"
    "call = None \<and> call' = None \<or>
     (\<exists>c. call = Some c \<and> call_device_id c = device \<and> call' = Some (c\<lparr>history_events := sorted_events env device i rows'\<rparr>))"
proof -
  obtain b ds where rows': "rows' = fold (add_receipt env device i False) documents (fold (add_receipt env device i b) ds rows)"
    using assms by (cases call) (auto simp: merge_events_def Let_def split: if_splits intro: that [of _ "[]"])
  obtain n1 where n1: "fold (add_receipt env device i b) ds rows = rows @ n1" "list_all (receipt_of device i) n1"
    using add_receipts_adds by blast
  obtain n2 where n2: "fold (add_receipt env device i False) documents (rows @ n1) = (rows @ n1) @ n2" "list_all (receipt_of device i) n2"
    using add_receipts_adds by blast
  show "\<exists>new. rows' = rows @ new \<and> list_all (receipt_of device i) new"
    using n1 n2 by (intro exI [of _ "n1 @ n2"]) (simp add: rows')
  show "d \<in> set documents \<Longrightarrow> (device, i, event_identity env d) \<in> receipt_key ` set rows'"
    unfolding rows' by (rule add_receipts_known)
  show "receipts_ok env rows \<Longrightarrow> receipts_ok env rows'" unfolding rows' by (simp add: add_receipts_ok)
  show "call = None \<and> call' = None \<or>
     (\<exists>c. call = Some c \<and> call_device_id c = device \<and> call' = Some (c\<lparr>history_events := sorted_events env device i rows'\<rparr>))"
    using assms by (cases call) (auto simp: merge_events_def Let_def split: if_splits)
qed

section \<open>The effect of one item\<close>

definition call_inv :: "call_environment \<Rightarrow> call_tables \<Rightarrow> bool" where
  "call_inv env t \<longleftrightarrow> receipts_ok env (receipts t) \<and>
     (\<forall>i c. find_call i t = Some c \<longrightarrow> history_events c = sorted_events env (call_device_id c) i (receipts t))"

definition item_effect :: "call_environment \<Rightarrow> (string \<times> notification) list \<Rightarrow> call_tables \<Rightarrow> call_tables \<Rightarrow> bool" where
  "item_effect env sent t t' \<longleftrightarrow>
     (\<forall>i. terminal_count i sent + terminal_done i t \<le> terminal_done i t') \<and>
     (\<forall>i. failure_count i sent + scheduled_count i (receipts t) \<le> scheduled_count i (receipts t')) \<and>
     receipt_key ` set (receipts t) \<subseteq> receipt_key ` set (receipts t') \<and>
     (\<forall>i c. find_call i t = Some c \<longrightarrow> (\<exists>c'. find_call i t' = Some c' \<and> call_device_id c' = call_device_id c)) \<and>
     (call_inv env t \<longrightarrow> call_inv env t')"

lemma item_effectD:
  assumes "item_effect env sent t t'"
  shows "terminal_count i sent + terminal_done i t \<le> terminal_done i t'"
    "failure_count i sent + scheduled_count i (receipts t) \<le> scheduled_count i (receipts t')"
    "receipt_key ` set (receipts t) \<subseteq> receipt_key ` set (receipts t')"
    "find_call i t = Some c \<Longrightarrow> \<exists>c'. find_call i t' = Some c' \<and> call_device_id c' = call_device_id c"
    "call_inv env t \<Longrightarrow> call_inv env t'"
  using assms unfolding item_effect_def by blast+

lemma item_effect_refl [simp]: "item_effect env [] t t"
  by (simp add: item_effect_def)

lemma item_effect_trans:
  assumes "item_effect env n1 t1 t2" "item_effect env n2 t2 t3"
  shows "item_effect env (n1 @ n2) t1 t3"
proof -
  have "terminal_count i (n1 @ n2) + terminal_done i t1 \<le> terminal_done i t3" for i
    using item_effectD(1) [OF assms(1), of i] item_effectD(1) [OF assms(2), of i] by simp
  moreover have "failure_count i (n1 @ n2) + scheduled_count i (receipts t1) \<le> scheduled_count i (receipts t3)" for i
    using item_effectD(2) [OF assms(1), of i] item_effectD(2) [OF assms(2), of i] by simp
  moreover have "find_call i t1 = Some c \<Longrightarrow> \<exists>c'. find_call i t3 = Some c' \<and> call_device_id c' = call_device_id c" for i c
    using item_effectD(4) [OF assms(1)] item_effectD(4) [OF assms(2)] by metis
  moreover have "receipt_key ` set (receipts t1) \<subseteq> receipt_key ` set (receipts t3)"
    using item_effectD(3) [OF assms(1)] item_effectD(3) [OF assms(2)] by (rule subset_trans)
  ultimately show ?thesis using item_effectD(5) [OF assms(1)] item_effectD(5) [OF assms(2)] by (simp add: item_effect_def)
qed

lemma sorted_events_map:
  assumes "\<And>r. receipt_document (m r) = receipt_document r \<and> (\<forall>d j. receipt_of d j (m r) = receipt_of d j r)"
  shows "sorted_events env device i (map m rows) = sorted_events env device i rows"
  using assms by (simp add: sorted_events_def filter_map o_def)

lemma sorted_events_other:
  "list_all (receipt_of device i) new \<Longrightarrow> j \<noteq> i \<Longrightarrow> sorted_events env d j (rows @ new) = sorted_events env d j rows"
  by (auto simp: sorted_events_def list_all_iff receipt_of_def filter_empty_conv)

lemma receipts_ok_map:
  assumes "\<And>r. receipt_key (m r) = receipt_key r" "\<And>r. receipt_document (m r) = receipt_document r"
  shows "receipts_ok env (map m rows) = receipts_ok env rows"
proof -
  have "receipt_identity (m r) = receipt_identity r" for r using assms(1) [of r] by (simp add: receipt_key_def)
  then show ?thesis using assms by (simp add: receipts_ok_def o_def list_all_iff)
qed

lemma settle_call_state:
  assumes "settle_call c (t\<lparr>receipts := rows\<rparr>) = (sent, t')" "find_call (call_id c) t \<noteq> None"
  obtains b m where "receipts t' = map m rows" "find_call (call_id c) t' = Some (c\<lparr>terminal_notification_scheduled := b\<rparr>)"
    "\<And>j. j \<noteq> call_id c \<Longrightarrow> find_call j t' = find_call j t"
    "\<And>r. receipt_key (m r) = receipt_key r" "\<And>r. receipt_document (m r) = receipt_document r \<and> (\<forall>d j. receipt_of d j (m r) = receipt_of d j r)"
    "\<And>i. terminal_count i sent + of_bool (i = call_id c \<and> terminal_notification_scheduled c) \<le> of_bool (i = call_id c \<and> b)"
    "\<And>i. failure_count i sent + scheduled_count i rows \<le> scheduled_count i (map m rows)"
proof -
  obtain ns c' rows' where claim: "claim_notifications c rows = (ns, c', rows')" by (metis prod_cases3)
  obtain b where c': "c' = c\<lparr>terminal_notification_scheduled := b\<rparr>" using claim_counts(3) [OF claim] by blast
  obtain m where m: "rows' = map m rows" "\<And>r. receipt_identity (m r) = receipt_identity r \<and> receipt_document (m r) = receipt_document r \<and>
    (\<forall>d j. receipt_of d j (m r) = receipt_of d j r)" using claim_counts(4) [OF claim] by blast
  have t': "sent = map (Pair (call_id c)) ns" "t' = (put_call c' t)\<lparr>receipts := rows'\<rparr>"
    using assms(1) by (auto simp: settle_call_def claim c')
  have "receipt_key (m r) = receipt_key r" for r
  proof -
    have "receipt_of (receipt_device_id r) (receipt_call_id r) (m r)" using m(2) [of r] by (simp add: receipt_of_def)
    then show ?thesis using m(2) [of r] by (simp add: receipt_key_def receipt_of_def)
  qed
  moreover have "find_call (call_id c) t' = Some c'" "\<And>j. j \<noteq> call_id c \<Longrightarrow> find_call j t' = find_call j t"
    using assms(2) by (auto simp: t' find_call_put c')
  ultimately show thesis
    using that [of m b] m claim_counts(1,2) [OF claim] c' by (simp add: t')
qed

lemma scheduled_count_mono: "\<exists>new. rows = old @ new \<and> P new \<Longrightarrow> scheduled_count i old \<le> scheduled_count i rows"
  by auto

lemma settle_effect:
  assumes t1: "receipts t1 = receipts t" "\<And>j. j \<noteq> i \<Longrightarrow> find_call j t1 = find_call j t" "find_call i t1 \<noteq> None"
    and old: "\<And>c0. find_call i t = Some c0 \<Longrightarrow> call_device_id c0 = device" "terminal_done i t = of_bool (terminal_notification_scheduled c)"
    and c: "call_id c = i" "call_device_id c = device" "history_events c = sorted_events env device i rows"
    and rows: "\<exists>new. rows = receipts t @ new \<and> list_all (receipt_of device i) new" "receipts_ok env (receipts t) \<Longrightarrow> receipts_ok env rows"
    and settle: "settle_call c (t1\<lparr>receipts := rows\<rparr>) = (sent, t')"
  shows "item_effect env sent t t' \<and> receipt_key ` set rows \<subseteq> receipt_key ` set (receipts t') \<and>
    (\<exists>c'. find_call i t' = Some c' \<and> call_device_id c' = device)"
proof -
  from settle t1(3) c(1) obtain b m where s: "receipts t' = map m rows" "find_call i t' = Some (c\<lparr>terminal_notification_scheduled := b\<rparr>)"
    "\<And>j. j \<noteq> i \<Longrightarrow> find_call j t' = find_call j t1"
    "\<And>r. receipt_key (m r) = receipt_key r" "\<And>r. receipt_document (m r) = receipt_document r \<and> (\<forall>d j. receipt_of d j (m r) = receipt_of d j r)"
    "\<And>j. terminal_count j sent + of_bool (j = i \<and> terminal_notification_scheduled c) \<le> of_bool (j = i \<and> b)"
    "\<And>j. failure_count j sent + scheduled_count j rows \<le> scheduled_count j (map m rows)"
    by (auto elim!: settle_call_state)
  have keys: "receipt_key ` set (receipts t') = receipt_key ` set rows" using s(1,4) by (simp add: image_image)
  have "terminal_count j sent + terminal_done j t \<le> terminal_done j t'" for j
    using s(6) [of j] old(2) s(2,3) t1(2) by (cases "j = i") (simp_all add: terminal_done_def)
  moreover have "failure_count j sent + scheduled_count j (receipts t) \<le> scheduled_count j (receipts t')" for j
    using s(7) [of j] scheduled_count_mono [OF rows(1), of j] by (simp add: s(1))
  moreover have "receipt_key ` set (receipts t) \<subseteq> receipt_key ` set (receipts t')" unfolding keys using rows(1) by auto
  moreover have "\<exists>c'. find_call j t' = Some c' \<and> call_device_id c' = call_device_id c0" if "find_call j t = Some c0" for j c0
    using that s(2,3) t1(2) old(1) c(2) by (cases "j = i") auto
  moreover have "call_inv env t'" if inv: "call_inv env t"
  proof -
    have "history_events d = sorted_events env (call_device_id d) j (receipts t')" if "find_call j t' = Some d" for j d
    proof (cases "j = i")
      case True
      then show ?thesis using that s(2) c by (auto simp: s(1) sorted_events_map [OF s(5)])
    next
      case False
      then have "history_events d = sorted_events env (call_device_id d) j (receipts t)"
        using that s(3) t1(2) inv by (auto simp: call_inv_def)
      then show ?thesis using rows(1) False sorted_events_other by (auto simp: s(1) sorted_events_map [OF s(5)])
    qed
    moreover have "receipts_ok env (receipts t')"
      using inv rows(2) s(5) by (simp add: call_inv_def s(1) receipts_ok_map [OF s(4)])
    ultimately show ?thesis by (simp add: call_inv_def)
  qed
  ultimately show ?thesis unfolding item_effect_def using keys s(2) c(2) by simp
qed

lemma find_append_case: "find P (xs @ ys) = (case find P xs of None \<Rightarrow> find P ys | Some x \<Rightarrow> Some x)"
  by (induction xs) auto

text \<open>Events that arrive before their call are kept as receipts.\<close>

lemma orphan_effect:
  assumes "find_call i t = None" "\<exists>new. rows = receipts t @ new \<and> list_all (receipt_of device i) new"
    "receipts_ok env (receipts t) \<Longrightarrow> receipts_ok env rows"
  shows "item_effect env [] t (t\<lparr>receipts := rows\<rparr>)"
proof -
  obtain new where new: "rows = receipts t @ new" "list_all (receipt_of device i) new" using assms(2) by blast
  have "call_inv env (t\<lparr>receipts := rows\<rparr>)" if inv: "call_inv env t"
  proof -
    have "history_events c = sorted_events env (call_device_id c) j rows" if "find_call j t = Some c" for j c
      using that inv sorted_events_other [OF new(2), of j env] assms(1) by (cases "j = i") (auto simp: call_inv_def new(1))
    then show ?thesis using inv assms(3) by (simp add: call_inv_def)
  qed
  then show ?thesis using new(1) by (auto simp: item_effect_def terminal_done_def)
qed

lemma settled:
  assumes merge: "merge_events env device i documents (Some c0) (receipts t) = Inr (merged, rows)"
    and t1: "receipts t1 = receipts t" "\<And>j. j \<noteq> i \<Longrightarrow> find_call j t1 = find_call j t" "find_call i t1 = Some c0"
      "find_call i t = None \<and> \<not> terminal_notification_scheduled c0 \<or> find_call i t = Some c0"
    and c: "call_id c = call_id c0" "call_device_id c = call_device_id c0" "history_events c = history_events (the merged)"
      "terminal_notification_scheduled c = terminal_notification_scheduled c0"
    and settle: "settle_call c (t1\<lparr>receipts := rows\<rparr>) = (sent, t')"
  shows "item_effect env sent t t' \<and> (\<forall>e\<in>set documents. (device, i, event_identity env e) \<in> receipt_key ` set (receipts t')) \<and>
    (\<exists>c'. find_call i t' = Some c' \<and> call_device_id c' = device)"
proof -
  note m = merge_Inr [OF merge]
  have d: "call_device_id c0 = device" "the merged = c0\<lparr>history_events := sorted_events env device i rows\<rparr>" using m(4) by auto
  have "call_id c = i" using c(1) find_call_id [OF t1(3)] by simp
  moreover have "terminal_done i t = of_bool (terminal_notification_scheduled c)" using t1(4) c(4) by (auto simp: terminal_done_def)
  moreover have "find_call i t = Some d0 \<Longrightarrow> call_device_id d0 = device" for d0 using t1(4) d(1) by auto
  ultimately have "item_effect env sent t t' \<and> receipt_key ` set rows \<subseteq> receipt_key ` set (receipts t') \<and>
    (\<exists>c'. find_call i t' = Some c' \<and> call_device_id c' = device)"
    using c(2,3) d t1(1-3) m(1,3) settle by (intro settle_effect [of t1 t i device c env rows]) simp_all
  then show ?thesis using m(2) by blast
qed

lemma upload_call_item_effect:
  assumes "upload_call_item env device x t = Inr (sent, t')"
  shows "item_effect env sent t t' \<and> (\<forall>e\<in>set (snd x). (device, fst x, event_identity env e) \<in> receipt_key ` set (receipts t'))"
proof -
  obtain merged rows where m: "merge_events env device (fst x) (snd x) (find_call (fst x) t) (receipts t) = Inr (merged, rows)"
    and rest: "(case merged of None \<Rightarrow> Inr ([], t\<lparr>receipts := rows\<rparr>) | Some c \<Rightarrow> Inr (settle_call c (t\<lparr>receipts := rows\<rparr>))) = (Inr (sent, t') :: service_error + call_reply)"
    using assms by (auto simp: upload_call_item_def bind_result_Inr Let_def)
  show ?thesis
  proof (cases "find_call (fst x) t")
    case None
    then have "merged = None" using merge_Inr(4) [OF m] by simp
    then show ?thesis using rest orphan_effect [OF None merge_Inr(1) [OF m] merge_Inr(3) [OF m]] merge_Inr(2) [OF m] by auto
  next
    case (Some c0)
    then obtain c where c: "merged = Some c" "c = c0\<lparr>history_events := sorted_events env device (fst x) rows\<rparr>"
      using merge_Inr(4) [OF m] by auto
    then show ?thesis using settled [OF m [unfolded Some] _ _ Some, of c sent t'] rest Some by simp
  qed
qed

lemma report_fields:
  assumes "report_audit device call t (final_report call now c0) = Inr c"
  shows "call_id c = call_id c0" "call_device_id c = call_device_id c0" "history_events c = history_events c0"
    "terminal_notification_scheduled c = terminal_notification_scheduled c0"
  using assms by (auto simp: report_audit_def final_report_def bind_result_Inr split: option.splits if_splits)

lemma upload_event_item_effect:
  assumes "upload_event_item env device now x t = Inr (sent, t')"
  shows "item_effect env sent t t' \<and> (\<forall>e\<in>set (input_events x). (device, input_call_id x, event_identity env e) \<in> receipt_key ` set (receipts t')) \<and>
    (\<exists>c. find_call (input_call_id x) t' = Some c \<and> call_device_id c = device)"
proof (cases "find_call (input_call_id x) t")
  case None
  let ?c = "new_call device x now"
  let ?t = "t\<lparr>call_rows := call_rows t @ [?c]\<rparr>"
  obtain merged rows where m: "merge_events env device (input_call_id x) (input_events x) (Some ?c) (receipts t) = Inr (merged, rows)"
    and rest: "settle_call (the merged) (?t\<lparr>receipts := rows\<rparr>) = (sent, t')"
    using assms None by (auto simp: upload_event_item_def bind_result_Inr Let_def)
  have id: "call_id ?c = input_call_id x" by (simp add: new_call_def)
  have f: "find_call (input_call_id x) ?t = Some ?c" "j \<noteq> input_call_id x \<Longrightarrow> find_call j ?t = find_call j t" for j
    using None id by (auto simp: find_call_def find_append_case split: option.split)
  have "the merged = ?c\<lparr>history_events := sorted_events env device (input_call_id x) rows\<rparr>"
    using merge_Inr(4) [OF m] by auto
  then show ?thesis using settled [OF m _ f(2) f(1) _ _ _ _ _ rest] None by (simp add: new_call_def)
next
  case (Some c0)
  obtain merged rows c where m: "merge_events env device (input_call_id x) (input_events x) (Some c0) (receipts t) = Inr (merged, rows)"
    and c: "report_audit device x t (final_report x now (the merged)) = Inr c"
    and rest: "settle_call c (t\<lparr>receipts := rows\<rparr>) = (sent, t')"
    using assms Some by (auto simp: upload_event_item_def bind_result_Inr split: if_splits)
  have "the merged = c0\<lparr>history_events := sorted_events env device (input_call_id x) rows\<rparr>"
    using merge_Inr(4) [OF m] by auto
  then show ?thesis using settled [OF m _ _ Some _ _ _ _ _ rest] Some report_fields [OF c] by simp
qed

section \<open>Batches\<close>

locale call_items =
  fixes env :: call_environment and device :: string
    and item :: "'i \<Rightarrow> call_tables \<Rightarrow> service_error + call_reply"
    and item_call :: "'i \<Rightarrow> string" and item_events :: "'i \<Rightarrow> CallSubEvent list"
  assumes effect: "item x t = Inr (sent, t') \<Longrightarrow> item_effect env sent t t'"
    and recorded: "item x t = Inr (sent, t') \<Longrightarrow> e \<in> set (item_events x) \<Longrightarrow>
      (device, item_call x, event_identity env e) \<in> receipt_key ` set (receipts t')"
begin

lemma batch_effect: "upload_items item xs t = Inr (sent, t') \<Longrightarrow> item_effect env sent t t'"
proof (induction xs arbitrary: t sent)
  case (Cons x xs)
  then obtain n1 t1 n2 where "item x t = Inr (n1, t1)" "upload_items item xs t1 = Inr (n2, t')" "sent = n1 @ n2"
    by (auto simp: bind_result_Inr)
  then show ?case using effect Cons.IH item_effect_trans by blast
qed simp

lemma batch_recorded:
  "upload_items item xs t = Inr (sent, t') \<Longrightarrow> x \<in> set xs \<Longrightarrow> e \<in> set (item_events x) \<Longrightarrow>
     (device, item_call x, event_identity env e) \<in> receipt_key ` set (receipts t')"
proof (induction xs arbitrary: t sent)
  case (Cons a xs)
  then obtain n1 t1 n2 where s: "item a t = Inr (n1, t1)" "upload_items item xs t1 = Inr (n2, t')"
    by (auto simp: bind_result_Inr)
  have "receipt_key ` set (receipts t1) \<subseteq> receipt_key ` set (receipts t')" using item_effectD(3) [OF batch_effect [OF s(2)]] .
  then show ?case using Cons.prems(2,3) Cons.IH [OF s(2)] recorded [OF s(1)] by auto
qed simp

end

interpretation sub_events: call_items env device "upload_call_item env device" fst snd
  by unfold_locales (use upload_call_item_effect in blast)+

interpretation call_reports: call_items env device "upload_event_item env device now" input_call_id input_events
  by unfold_locales (use upload_event_item_effect in blast)+

text \<open>A batch of reports leaves a row of the device for each of its calls.\<close>

lemma reports_stored:
  "upload_items (upload_event_item env device now) xs t = Inr (sent, t') \<Longrightarrow> x \<in> set xs \<Longrightarrow>
     \<exists>c. find_call (input_call_id x) t' = Some c \<and> call_device_id c = device"
proof (induction xs arbitrary: t sent)
  case (Cons a xs)
  then obtain n1 t1 n2 where s: "upload_event_item env device now a t = Inr (n1, t1)"
    "upload_items (upload_event_item env device now) xs t1 = Inr (n2, t')"
    by (auto simp: bind_result_Inr)
  show ?case
  proof (cases "x = a")
    case True
    then obtain c where "find_call (input_call_id x) t1 = Some c" "call_device_id c = device"
      using upload_event_item_effect [OF s(1)] by blast
    then show ?thesis using item_effectD(4) [OF call_reports.batch_effect [OF s(2)]] by metis
  next
    case False
    then show ?thesis using Cons.prems(2) Cons.IH [OF s(2)] by simp
  qed
qed simp

section \<open>Sequences of requests\<close>

text \<open>A run of accepted requests with all notifications that it schedules.\<close>

inductive call_run :: "call_environment \<Rightarrow> call_tables \<Rightarrow> (string \<times> notification) list \<Rightarrow> call_tables \<Rightarrow> bool" for env where
  start: "call_run env t [] t"
| sub_events: "call_run env t (log @ sent) t''"
    if "call_run env t log t'" "upload_call_events env device now batch t' = Inr (accepted, sent, t'')"
| reports: "call_run env t (log @ sent) t''"
    if "call_run env t log t'" "upload_events env device now reported t' = Inr (accepted, sent, t'')"

lemma item_effect_seen: "item_effect env sent t t' \<Longrightarrow> item_effect env sent t (t'\<lparr>last_seen := seen\<rparr>)"
  by (simp add: item_effect_def terminal_done_def call_inv_def)

lemma upload_call_events_effect: "upload_call_events env device now batch t = Inr (accepted, sent, t') \<Longrightarrow> item_effect env sent t t'"
  using sub_events.batch_effect [where xs = batch] by (auto simp: upload_call_events_def bind_result_Inr intro: item_effect_seen)

lemma upload_events_effect: "upload_events env device now batch t = Inr (accepted, sent, t') \<Longrightarrow> item_effect env sent t t'"
  using call_reports.batch_effect [where xs = batch] by (auto simp: upload_events_def bind_result_Inr intro: item_effect_seen)

lemma call_run_effect: "call_run env t log t' \<Longrightarrow> item_effect env log t t'"
  by (induction rule: call_run.induct) (auto intro: item_effect_trans upload_call_events_effect upload_events_effect)

lemma scheduled_count_le:
  assumes "distinct (map receipt_key rows)"
  shows "scheduled_count i rows \<le> card (receipt_key ` {r \<in> set rows. failure_of i r})"
proof -
  let ?scheduled = "filter (\<lambda>r. failure_of i r \<and> notification_scheduled r) rows"
  have "scheduled_count i rows = card (receipt_key ` set ?scheduled)"
    using distinct_card [of "map receipt_key ?scheduled"] distinct_map_filter [OF assms] by (simp add: scheduled_count_def)
  also have "\<dots> \<le> card (receipt_key ` {r \<in> set rows. failure_of i r})" by (intro card_mono) auto
  finally show ?thesis .
qed

lemma terminal_done_le: "terminal_done i t \<le> 1"
  by (simp add: terminal_done_def split: option.split)

text \<open>
  C17: Notifications are sent once. Over every sequence of reports, with repeated batches, late events and
  events that arrive before their call, a call causes at most one notification about its end, none if it
  was notified before; and the notifications of its failed external calls, with those that were scheduled
  before, are at most as many as the distinct failed events of the call, where the events that agree in
  device, call and identity count as one.
\<close>

theorem call_notified_once:
  assumes "call_inv env t" "call_run env t log t'"
  shows "terminal_count i log + terminal_done i t \<le> 1 \<and>
    failure_count i log + scheduled_count i (receipts t) \<le> card (receipt_key ` {r \<in> set (receipts t'). failure_of i r})"
proof -
  note e = call_run_effect [OF assms(2)]
  have "distinct (map receipt_key (receipts t'))"
    using item_effectD(5) [OF e assms(1)] by (simp add: call_inv_def receipts_ok_def)
  then show ?thesis
    using item_effectD(1,2) [OF e, of i] terminal_done_le [of i t'] scheduled_count_le [of "receipts t'" i] by simp
qed

lemma sorted_events_identities:
  assumes "receipts_ok env rows"
  shows "event_identity env ` set (sorted_events env device i rows) = {x. (device, i, x) \<in> receipt_key ` set rows}"
    "distinct (map (event_identity env) (sorted_events env device i rows))"
    "sorted (map (\<lambda>d. (occurred_at d, event_identity env d)) (sorted_events env device i rows))"
proof -
  have id: "r \<in> set rows \<Longrightarrow> event_identity env (receipt_document r) = receipt_identity r" for r
    using assms by (simp add: receipts_ok_def list_all_iff)
  have "event_identity env ` set (sorted_events env device i rows) = receipt_identity ` {r \<in> set rows. receipt_of device i r}"
    using id by (force simp: sorted_events_def)
  then show "event_identity env ` set (sorted_events env device i rows) = {x. (device, i, x) \<in> receipt_key ` set rows}"
    by (auto simp: receipt_key_def receipt_of_def)
  have "distinct (map receipt_key (filter (receipt_of device i) rows))"
    using assms by (simp add: receipts_ok_def distinct_map_filter)
  moreover have "map receipt_key (filter (receipt_of device i) rows) =
      map (\<lambda>x. (device, i, x)) (map (event_identity env) (map receipt_document (filter (receipt_of device i) rows)))"
    using id by (auto simp: receipt_key_def receipt_of_def)
  ultimately have "distinct (map (event_identity env) (map receipt_document (filter (receipt_of device i) rows)))"
    using distinct_map by metis
  then show "distinct (map (event_identity env) (sorted_events env device i rows))"
    unfolding sorted_events_def distinct_map by (simp add: distinct_map)
  show "sorted (map (\<lambda>d. (occurred_at d, event_identity env d)) (sorted_events env device i rows))"
    by (simp add: sorted_events_def)
qed

text \<open>
  C18: No event is lost, whatever the order of the uploads. After events were accepted ahead of their call,
  and the report of the call was accepted later, with any requests before and in between, the history of the
  call has all of these events, each identity once, ordered by the text of their time and the identity; and it
  keeps them over every sequence of later requests.
\<close>

theorem call_evidence_kept:
  assumes "call_inv env t" "upload_call_events env device early_time early t = Inr (ids1, sent1, t1)" "call_run env t1 log1 t2"
    and "upload_events env device later reported t2 = Inr (ids2, sent2, t3)" "call_run env t3 log2 t4"
    and "x \<in> set reported" "(input_call_id x, es) \<in> set early"
  shows "\<exists>c. find_call (input_call_id x) t4 = Some c \<and> call_device_id c = device \<and>
    event_identity env ` (set es \<union> set (input_events x)) \<subseteq> event_identity env ` set (history_events c) \<and>
    distinct (map (event_identity env) (history_events c)) \<and>
    sorted (map (\<lambda>d. (occurred_at d, event_identity env d)) (history_events c))"
proof -
  note e = upload_call_events_effect [OF assms(2)] call_run_effect [OF assms(3)] upload_events_effect [OF assms(4)] call_run_effect [OF assms(5)]
  have inv: "call_inv env t4" using assms(1) item_effectD(5) [OF e(1)] item_effectD(5) [OF e(2)] item_effectD(5) [OF e(3)] item_effectD(5) [OF e(4)] by blast
  obtain n1 s1 where 1: "upload_items (upload_call_item env device) early t = Inr (n1, s1)" "receipts t1 = receipts s1"
    using assms(2) by (auto simp: upload_call_events_def bind_result_Inr)
  obtain n3 s3 where 3: "upload_items (upload_event_item env device later) reported t2 = Inr (n3, s3)" "receipts t3 = receipts s3"
    "\<And>i. find_call i t3 = find_call i s3"
    using assms(4) by (auto simp: upload_events_def bind_result_Inr)
  have known: "(device, input_call_id x, event_identity env d) \<in> receipt_key ` set (receipts t4)" if "d \<in> set es \<union> set (input_events x)" for d
  proof -
    have "receipt_key ` set (receipts s1) \<subseteq> receipt_key ` set (receipts t4)" "receipt_key ` set (receipts s3) \<subseteq> receipt_key ` set (receipts t4)"
      using item_effectD(3) [OF e(2)] item_effectD(3) [OF e(3)] item_effectD(3) [OF e(4)] unfolding 1(2) 3(2) by blast+
    then show ?thesis
      using that sub_events.batch_recorded [OF 1(1) assms(7), of d] call_reports.batch_recorded [OF 3(1) assms(6), of d] by (auto simp del: image_iff)
  qed
  obtain c3 where "find_call (input_call_id x) t3 = Some c3" "call_device_id c3 = device"
    using reports_stored [OF 3(1) assms(6)] 3(3) by auto
  then obtain c where c: "find_call (input_call_id x) t4 = Some c" "call_device_id c = device"
    using item_effectD(4) [OF e(4)] by metis
  have "history_events c = sorted_events env device (input_call_id x) (receipts t4)" "receipts_ok env (receipts t4)"
    using inv c by (auto simp: call_inv_def)
  then show ?thesis using c known sorted_events_identities [of env "receipts t4" device "input_call_id x"]
    by (intro exI [of _ c]) auto
qed

section \<open>An example\<close>

definition demo_calls :: call_tables where
  "demo_calls = \<lparr>call_rows = [], receipts = [], audit_policies = [], audit_acknowledgements = [], last_seen = []\<rparr>"

definition demo_environment :: call_environment where
  "demo_environment = \<lparr>identity_sha256 = (\<lambda>s. s), utc_isoformat = (\<lambda>s. s)\<rparr>"

definition demo_event :: CallSubEvent where
  "demo_event = ExternalCallSubEvent ''external_call'' ''2026-01-01T00:00:00Z'' ''NOT_CONNECTED'' ''00000000-0000-4000-8000-000000000001'' ''-''"

definition demo_report :: CallEventInput where
  "demo_report = \<lparr>input_session_audit = None, input_call_id = ''call-0001'', input_started_at = 0, input_caller = None,
     input_policy_decision = ''ALLOWED'', input_revision_id = Some 1, input_menu_path = [], input_result = ''SESSION_COMPLETE'',
     input_duration_seconds = 5, input_ended_at = None, input_cleanup_status = None, input_events = [demo_event]\<rparr>"

lemma demo_early:
  "\<exists>t1. upload_call_events demo_environment ''d1'' 1 [(''call-0001'', [demo_event])] demo_calls = Inr ([''call-0001''], [], t1) \<and>
     find_call ''call-0001'' t1 = None"
  by (simp add: upload_call_events_def upload_call_item_def merge_events_def demo_calls_def find_call_def)

lemma demo_accepts: "\<exists>r. upload_events env ''d1'' now [demo_report] t = Inr r" if "find_call ''call-0001'' t = None" for t
  using that by (simp add: upload_events_def upload_event_item_def validate_call_report_def demo_report_def merge_events_def new_call_def
      Let_def split_beta)

lemma demo_calls_inv: "call_inv env demo_calls"
  by (simp add: call_inv_def demo_calls_def receipts_ok_def find_call_def)

text \<open>The report of a call with one failed external call, sent twice.\<close>

lemma demo_twice:
  "\<exists>log1 t1 log2 t2. upload_events demo_environment ''d1'' 1 [demo_report] demo_calls = Inr ([''call-0001''], log1, t1) \<and>
     upload_events demo_environment ''d1'' 2 [demo_report] t1 = Inr ([''call-0001''], log2, t2) \<and>
     receipts t2 = [\<lparr>receipt_device_id = ''d1'', receipt_call_id = ''call-0001'', receipt_identity = event_identity demo_environment demo_event,
       receipt_document = demo_event, notification_scheduled = True\<rparr>]"
  by (simp add: upload_events_def upload_event_item_def validate_call_report_def demo_report_def merge_events_def new_call_def
      demo_calls_def find_call_def settle_call_def claim_notifications_def claimable_def add_receipt_def sorted_events_def
      receipt_of_def put_call_def final_report_def report_audit_def Let_def split_beta)

theorem call_notified_once_witness:
  "\<exists>log1 t1 log2 t2. upload_events demo_environment ''d1'' 1 [demo_report] demo_calls = Inr ([''call-0001''], log1, t1) \<and>
     upload_events demo_environment ''d1'' 2 [demo_report] t1 = Inr ([''call-0001''], log2, t2) \<and>
     terminal_count ''call-0001'' (log1 @ log2) \<le> 1 \<and> failure_count ''call-0001'' (log1 @ log2) \<le> 1"
proof -
  obtain log1 t1 log2 t2 where u: "upload_events demo_environment ''d1'' 1 [demo_report] demo_calls = Inr ([''call-0001''], log1, t1)"
    "upload_events demo_environment ''d1'' 2 [demo_report] t1 = Inr ([''call-0001''], log2, t2)" and one: "\<exists>r. receipts t2 = [r]"
    using demo_twice by blast
  have "call_run demo_environment demo_calls (([] @ log1) @ log2) t2"
    by (rule call_run.reports [OF call_run.reports [OF call_run.start u(1)] u(2)])
  moreover have "card (receipt_key ` {r \<in> set (receipts t2). failure_of ''call-0001'' r}) \<le> 1"
  proof -
    obtain r where "receipts t2 = [r]" using one by blast
    then have "receipt_key ` {r \<in> set (receipts t2). failure_of ''call-0001'' r} \<subseteq> {receipt_key r}" by auto
    then show ?thesis using card_mono [of "{receipt_key r}"] by simp
  qed
  ultimately show ?thesis
    using call_notified_once [OF demo_calls_inv, of demo_environment "([] @ log1) @ log2" t2 "''call-0001''"] u
    by (intro exI [of _ log1] exI [of _ t1] exI [of _ log2] exI [of _ t2]) simp
qed

theorem call_evidence_kept_witness:
  "\<exists>t1 ids log t2 c. upload_call_events demo_environment ''d1'' 1 [(''call-0001'', [demo_event])] demo_calls = Inr ([''call-0001''], [], t1) \<and>
     upload_events demo_environment ''d1'' 2 [demo_report] t1 = Inr (ids, log, t2) \<and> find_call ''call-0001'' t2 = Some c \<and>
     event_identity demo_environment demo_event \<in> event_identity demo_environment ` set (history_events c)"
proof -
  obtain t1 where t1: "upload_call_events demo_environment ''d1'' 1 [(''call-0001'', [demo_event])] demo_calls = Inr ([''call-0001''], [], t1)"
    "find_call ''call-0001'' t1 = None" using demo_early by blast
  obtain ids log t2 where u: "upload_events demo_environment ''d1'' 2 [demo_report] t1 = Inr (ids, log, t2)"
    using demo_accepts [OF t1(2)] by (metis prod_cases3)
  from call_evidence_kept [OF demo_calls_inv t1(1) call_run.start u call_run.start, of demo_report "[demo_event]"]
  show ?thesis using t1(1) u by (auto simp: demo_report_def)
qed

end
