(* ===== verification/Legacy_Admin.thy ===== *)
theory Legacy_Admin
  imports Admin_Requests
begin

text \<open>
  The administration interface of releases 1 and 2, which is archived except for its emergency activations,
  the caller policy of the overview, and the list and deletion of prompts (\<^verbatim>\<open>src/server/app/main.py\<close>).
\<close>

section \<open>Archived requests\<close>

definition archived :: "string \<Rightarrow> service_error + 'a" where
  "archived detail = Inl (http 410 detail)"

definition get_draft_v2 :: "service_error + FlowDocumentV2" where
  "get_draft_v2 = archived ''Flow authoring V2 is archived and read-only. Use /api/admin/v4/draft.''"

definition put_draft_v2 :: "FlowDocumentV2 \<Rightarrow> service_error + FlowDocumentV2" where
  "put_draft_v2 configuration = archived ''Flow authoring V2 is archived and read-only. Use /api/admin/v4/draft.''"

definition validate_draft_v2 :: "FlowDocumentV2 option \<Rightarrow> service_error + string list" where
  "validate_draft_v2 configuration = archived ''Flow validation V2 is archived. Use /api/admin/v4/draft/validate.''"

definition simulate_draft_v2 :: "string list \<Rightarrow> service_error + simulation_result" where
  "simulate_draft_v2 body = archived ''Flow simulation V2 is archived. Use /api/admin/v4/draft/simulate.''"

definition diff_draft_v2 :: "nat option \<Rightarrow> service_error + FlowDiffResult" where
  "diff_draft_v2 body = archived ''Flow diff V2 is archived. Use /api/admin/v4/draft/diff.''"

definition publish_draft_v2 :: "service_error + Revision" where
  "publish_draft_v2 = archived ''Flow publishing V2 is archived. Use /api/admin/v4/draft/publish.''"

definition get_draft :: "service_error + DraftConfiguration" where
  "get_draft = archived ''Flow authoring V1 is archived and read-only. Use /api/admin/v4/draft.''"

definition put_draft :: "DraftConfiguration \<Rightarrow> service_error + DraftConfiguration" where
  "put_draft configuration = archived ''Flow authoring V1 is archived and read-only. Use /api/admin/v4/draft.''"

definition validate_draft :: "service_error + string list" where
  "validate_draft = archived ''Flow authoring V1 is archived and read-only. Use /api/admin/v4/draft/validate.''"

definition publish_draft :: "service_error + Revision" where
  "publish_draft = archived ''Flow publishing V1 is archived and read-only. Use /api/admin/v4/draft/publish.''"

section \<open>Revisions\<close>

definition revision_detail_v2 :: "nat \<Rightarrow> database \<Rightarrow> service_error + RevisionDetail" where
  "revision_detail_v2 rid db =
     (case find_revision rid db of
        None \<Rightarrow> Inl (http 404 ''Revision not found'')
      | Some revision \<Rightarrow>
          Inr \<lparr>detail_revision = revision, detail_flow = json_get (manifest_fields (load_manifest revision)) ''flow'',
               legacy = (revision_schema revision \<noteq> 2)\<rparr>)"

definition list_revisions :: "database \<Rightarrow> Revision list" where
  "list_revisions db = rev (sort_key revision_id (revisions db))"

definition rollback_revision :: "nat \<Rightarrow> string \<Rightarrow> database \<Rightarrow> Revision served" where
  "rollback_revision rid actor db =
     (case find_revision rid db of
        None \<Rightarrow> Inl (http 404 ''Revision not found'')
      | Some source \<Rightarrow>
          if revision_schema source \<noteq> 2 then Inl (http 409 ''This endpoint accepts immutable V2 revisions only.'')
          else Inr (source, audit actor ''revision.legacy_rollback_activated'' (''revision:'' @ str_nat (revision_id source))
                 [(''schema_version'', json_nat 2), (''affected_devices'', json_nat (length (active_devices db)))]
                 (assign_devices (revision_id source) db)))"

definition activate_legacy_revision :: "nat \<Rightarrow> string \<Rightarrow> database \<Rightarrow> Revision served" where
  "activate_legacy_revision rid actor db =
     (case find_revision rid db of
        None \<Rightarrow> Inl (http 404 ''Revision not found'')
      | Some source \<Rightarrow>
          if revision_schema source \<noteq> 1 then Inl (http 409 ''Emergency legacy activation accepts signed V1 revisions only.'')
          else Inr (source, audit actor ''revision.legacy_rollback_activated'' (''revision:'' @ str_nat (revision_id source))
                 [(''affected_devices'', json_nat (length (active_devices db)))]
                 (assign_devices (revision_id source) db)))"

lemma kept_legacy:
  assumes "consistent app db"
  shows "rollback_revision rid actor db = Inr (r, db') \<Longrightarrow> kept app db db'"
    "activate_legacy_revision rid actor db = Inr (r, db') \<Longrightarrow> kept app db db'"
  using assms
  by (auto simp: rollback_revision_def activate_legacy_revision_def split: option.splits if_splits
      dest: find_revision_Some intro!: kept_audit kept_assign)

section \<open>Configurations in use\<close>

definition current_configuration :: "database \<Rightarrow> service_error + stored_document" where
  "current_configuration db =
     (case drafts db 1 of
        None \<Rightarrow> Inr (DocV3 default_DraftConfigurationV3)
      | Some draft \<Rightarrow>
          (case draft_document draft of
             DocV2 _ \<Rightarrow> bind_result (load_draft_v2 db) (\<lambda>d. Inr (DocV2 d))
           | DocV3 _ \<Rightarrow> bind_result (load_draft_v3 db) (\<lambda>d. Inr (DocV3 d))
           | DocV4 _ \<Rightarrow> bind_result (load_draft_v4 db) (\<lambda>d. Inr (DocV4 d))
           | DocV1 d \<Rightarrow> Inr (DocV1 d)))"

fun document_policy :: "stored_document \<Rightarrow> CallerPolicy" where
  "document_policy (DocV1 d) = v1_caller_policy d"
| "document_policy (DocV2 d) = caller_policy d"
| "document_policy (DocV3 d) = caller_policy d"
| "document_policy (DocV4 d) = caller_policy d"

definition overview_caller_policy :: "Device option \<Rightarrow> database \<Rightarrow> service_error + CallerPolicy" where
  "overview_caller_policy device db =
     (case (case device of None \<Rightarrow> None | Some d \<Rightarrow> (case active_revision_id d of None \<Rightarrow> None | Some rid \<Rightarrow> find_revision rid db)) of
        Some revision \<Rightarrow> Inr (manifest_policy (load_manifest revision))
      | None \<Rightarrow>
          if drafts db V4_DRAFT_ID \<noteq> None then bind_result (load_draft_v4 db) (\<lambda>d. Inr (document_policy (DocV4 d)))
          else bind_result (current_configuration db) (\<lambda>d. Inr (document_policy d)))"

definition editable_configurations :: "database \<Rightarrow> service_error + stored_document list" where
  "editable_configurations db =
     bind_result (current_configuration db) (\<lambda>current.
       if drafts db V4_DRAFT_ID \<noteq> None then bind_result (load_draft_v4 db) (\<lambda>d. Inr [current, DocV4 d])
       else Inr [current])"

section \<open>Prompts\<close>

text \<open>\<^verbatim>\<open>usage.setdefault(prompt_id, []).append(label)\<close>.\<close>

definition add_usage :: "string \<Rightarrow> string list \<Rightarrow> (string \<times> string list) list \<Rightarrow> (string \<times> string list) list" where
  "add_usage p labels usage = AList.update p ((case map_of usage p of None \<Rightarrow> [] | Some old \<Rightarrow> old) @ labels) usage"

definition usage_label :: "string \<Rightarrow> string" where
  "usage_label name = ''IVR Flow '' @ [CHR 0xB7] @ '' '' @ name"

definition usage_step :: "string option \<times> string \<Rightarrow> (string \<times> string list) list \<Rightarrow> (string \<times> string list) list" where
  "usage_step use usage = (if truthy (fst use) then add_usage (the (fst use)) [usage_label (snd use)] usage else usage)"

definition tree_uses :: "FlowDefinitionV2 \<Rightarrow> (string option \<times> string) list" where
  "tree_uses f = map (\<lambda>(block, _). (prompt_of block, block_label block)) (walk_blocks (flow_root f))"

fun document_uses :: "stored_document \<Rightarrow> (string option \<times> string) list" where
  "document_uses (DocV1 d) = map (\<lambda>node. (node_prompt_id node, node_id node)) (nodes (v1_flow d))"
| "document_uses (DocV2 d) = tree_uses (flow d)"
| "document_uses (DocV3 d) = tree_uses (flow d)"
| "document_uses (DocV4 d) = tree_uses (flow d)"

definition prompt_usage :: "stored_document \<Rightarrow> (string \<times> string list) list" where
  "prompt_usage configuration = fold usage_step (document_uses configuration) []"

definition combined_prompt_usage :: "database \<Rightarrow> service_error + (string \<times> string list) list" where
  "combined_prompt_usage db =
     bind_result (editable_configurations db) (\<lambda>configurations.
       Inr (fold (\<lambda>configuration. fold (\<lambda>(p, labels). add_usage p labels) (prompt_usage configuration)) configurations []))"

definition list_prompts :: "database \<Rightarrow> service_error + (Prompt \<times> string list) list" where
  "list_prompts db =
     bind_result (combined_prompt_usage db) (\<lambda>usage.
       Inr (map (\<lambda>p. (p, case map_of usage (prompt_id p) of None \<Rightarrow> [] | Some labels \<Rightarrow> labels)) (rev (prompts db))))"

definition delete_prompt :: "string \<Rightarrow> string \<Rightarrow> database \<Rightarrow> service_error + database" where
  "delete_prompt i actor db =
     (case find (\<lambda>p. prompt_id p = i) (prompts db) of
        None \<Rightarrow> Inl (http 404 ''Prompt not found'')
      | Some prompt \<Rightarrow>
          bind_result (combined_prompt_usage db) (\<lambda>usage.
            if map_of usage i \<noteq> None then Inl (http 409 ''Prompt is used by the current draft'')
            else if list_ex (\<lambda>r. list_ex (\<lambda>item. prompt_id item = i) (manifest_prompts (load_manifest r))) (revisions db)
            then Inl (http 409 ''Published revisions retain this prompt'')
            else Inr (audit actor ''prompt.deleted'' (''prompt:'' @ i) []
              (db\<lparr>prompts := filter (\<lambda>p. prompt_id p \<noteq> i) (prompts db)\<rparr>))))"

lemma add_usage_keys: "dom (map_of (add_usage p labels usage)) = insert p (dom (map_of usage))"
  by (auto simp: add_usage_def update_conv')

lemma usage_steps_keys: "dom (map_of (fold usage_step uses usage)) = dom (map_of usage) \<union> {p. \<exists>l. (Some p, l) \<in> set uses \<and> p \<noteq> []}"
proof (induction uses arbitrary: usage)
  case (Cons u uses)
  have "dom (map_of (usage_step u usage)) = dom (map_of usage) \<union> {p. fst u = Some p \<and> p \<noteq> []}"
    by (cases "fst u") (auto simp: usage_step_def add_usage_keys truthy_iff)
  then show ?case using Cons by (cases u) auto
qed simp

lemma add_usages_keys: "dom (map_of (fold (\<lambda>(p, labels). add_usage p labels) uses usage)) = dom (map_of usage) \<union> fst ` set uses"
proof (induction uses arbitrary: usage)
  case (Cons u uses)
  show ?case using Cons [of "add_usage (fst u) (snd u) usage"] by (simp add: add_usage_keys case_prod_beta)
qed simp

lemma combined_keys:
  "dom (map_of (fold (\<lambda>configuration. fold (\<lambda>(p, labels). add_usage p labels) (prompt_usage configuration)) cs usage)) =
     dom (map_of usage) \<union> (\<Union>c\<in>set cs. {p. \<exists>l. (Some p, l) \<in> set (document_uses c) \<and> p \<noteq> []})"
proof (induction cs arbitrary: usage)
  case (Cons c cs)
  have "fst ` set (prompt_usage c) = {p. \<exists>l. (Some p, l) \<in> set (document_uses c) \<and> p \<noteq> []}"
    using usage_steps_keys [of "document_uses c" "[]"] by (simp add: prompt_usage_def dom_map_of_conv_image_fst)
  then show ?case using Cons by (simp add: add_usages_keys Un_assoc)
qed simp

lemma tree_uses_ids: "{p. \<exists>l. (Some p, l) \<in> set (tree_uses f) \<and> p \<noteq> []} = set (prompt_ids f)"
proof -
  have "{p. \<exists>l. (Some p, l) \<in> set (tree_uses f) \<and> p \<noteq> []} =
      {p. \<exists>b\<in>fst ` set (walk_blocks (flow_root f)). prompt_of b = Some p \<and> p \<noteq> []}"
    by (force simp: tree_uses_def)
  also have "\<dots> = set (prompt_ids f)"
    unfolding set_walk_blocks set_prompt_ids flow_blocks_def by (cases "flow_root f") auto
  finally show ?thesis .
qed

text \<open>
  A prompt is deleted only when neither the draft nor any published revision uses it, and no other prompt is
  deleted with it; so every revision keeps the prompts that its manifest names.
\<close>

theorem deleted_prompt_unused:
  assumes "delete_prompt i actor db = Inr db'"
  shows "prompts db' = filter (\<lambda>p. prompt_id p \<noteq> i) (prompts db) \<and>
    (\<forall>r\<in>set (revisions db'). i \<notin> prompt_id ` set (manifest_prompts (revision_manifest r))) \<and>
    (\<forall>d. drafts db' V4_DRAFT_ID \<noteq> None \<longrightarrow> load_draft_v4 db' = Inr d \<longrightarrow> i \<notin> set (prompt_ids (flow d)))"
proof -
  obtain usage where u: "combined_prompt_usage db = Inr usage" "map_of usage i = None"
    "\<not> list_ex (\<lambda>r. list_ex (\<lambda>item. prompt_id item = i) (manifest_prompts (load_manifest r))) (revisions db)"
    "db' = audit actor ''prompt.deleted'' (''prompt:'' @ i) [] (db\<lparr>prompts := filter (\<lambda>p. prompt_id p \<noteq> i) (prompts db)\<rparr>)"
    using assms by (auto simp: delete_prompt_def bind_result_Inr split: option.splits if_splits)
  have "i \<notin> set (prompt_ids (flow d))" if d: "drafts db V4_DRAFT_ID \<noteq> None" "load_draft_v4 db = Inr d" for d
  proof -
    obtain current where "editable_configurations db = Inr [current, DocV4 d]"
      using u(1) d by (auto simp: combined_prompt_usage_def editable_configurations_def bind_result_Inr)
    then have "dom (map_of usage) = (\<Union>c\<in>{current, DocV4 d}. {p. \<exists>l. (Some p, l) \<in> set (document_uses c) \<and> p \<noteq> []})"
      using u(1) combined_keys [of "[current, DocV4 d]" "[]"] by (auto simp: combined_prompt_usage_def)
    then have "set (prompt_ids (flow d)) \<subseteq> dom (map_of usage)" using tree_uses_ids [of "flow d"] by auto
    then show ?thesis using u(2) by auto
  qed
  moreover have "load_draft_v4 db' = load_draft_v4 db" "drafts db' = drafts db" by (simp_all add: u(4) load_draft_v4_def)
  ultimately show ?thesis using u(3) by (auto simp: u(4) list_ex_iff load_manifest_def)
qed

end
