(* ===== verification/Device_Sync.thy ===== *)
theory Device_Sync
  imports Device_Requests Call_History Legacy_Admin
begin

text \<open>
  The requests by which an enrolled device follows the control plane: synchronisation, manifests, prompts
  and the acknowledgement of a revision (\<^verbatim>\<open>src/server/app/main.py\<close>), with the two signed policies it
  applies (\<^verbatim>\<open>src/server/app/audit_settings.py\<close>, \<^verbatim>\<open>src/server/app/call_safety_settings.py\<close>).

  Each request takes the device that its credential names. The versions of policies are numbered by a
  sequence. The status document of a device has the fields that the requests decide on, and the others as
  they came.
\<close>

section \<open>State\<close>

record AuditPolicyRow = SessionAuditPolicy +
  local_quota_bytes :: nat

record CallSafetyPolicy =
  safety_version :: nat
  maximum_call_duration_seconds :: nat

record DeviceCallSafetyAcknowledgement =
  ack_device_id :: string
  ack_policy_version :: nat
  ack_seconds :: nat

record sync_state =
  enrollment :: enrollment_state
  audit_rows :: "AuditPolicyRow list"
  next_audit_version :: nat
  audit_acks :: "(string \<times> nat) list"
  safety_rows :: "CallSafetyPolicy list"
  next_safety_version :: nat
  safety_acks :: "DeviceCallSafetyAcknowledgement list"
  devices_seen :: "(string \<times> int) list"

record DeviceStatus =
  session_audit_capable :: bool
  applied_audit_version :: nat
  audit_enabled :: bool
  call_safety_capable :: bool
  applied_safety_version :: "nat option"
  applied_safety_seconds :: "nat option"
  other_status :: "(string \<times> json) list"

definition json_of_nat_option :: "nat option \<Rightarrow> json" where
  "json_of_nat_option x = (case x of None \<Rightarrow> JNull | Some n \<Rightarrow> json_nat n)"

definition status_document :: "DeviceStatus \<Rightarrow> (string \<times> json) list" where
  "status_document st =
     [(''session_audit_capable'', JBool (session_audit_capable st)),
      (''audit_policy_version'', json_nat (applied_audit_version st)), (''audit_enabled'', JBool (audit_enabled st)),
      (''call_safety_capable'', JBool (call_safety_capable st)),
      (''call_safety_policy_version'', json_of_nat_option (applied_safety_version st)),
      (''maximum_call_duration_seconds'', json_of_nat_option (applied_safety_seconds st))] @ other_status st"

definition update_device :: "string \<Rightarrow> (Device \<Rightarrow> Device) \<Rightarrow> sync_state \<Rightarrow> sync_state" where
  "update_device i f s =
     s\<lparr>enrollment := (enrollment s)\<lparr>control := (control (enrollment s))
       \<lparr>devices := map (\<lambda>d. if device_id d = i then f d else d) (devices (control (enrollment s)))\<rparr>\<rparr>\<rparr>"

definition record_audit :: "string \<Rightarrow> string \<Rightarrow> string \<Rightarrow> sync_state \<Rightarrow> sync_state" where
  "record_audit actor action target s =
     s\<lparr>enrollment := (enrollment s)\<lparr>control := audit actor action target [] (control (enrollment s))\<rparr>\<rparr>"

section \<open>Signed policies\<close>

text \<open>\<^verbatim>\<open>order_by(version.desc()).limit(1)\<close>.\<close>

definition latest_by :: "('a \<Rightarrow> nat) \<Rightarrow> 'a list \<Rightarrow> 'a option" where
  "latest_by key rows = (if rows = [] then None else Some (last (sort_key key rows)))"

definition sign_document :: "app_state \<Rightarrow> json \<Rightarrow> json \<times> string \<times> string" where
  "sign_document app document =
     (let canonical = canonical_json_bytes document in (document, sha256_hex app canonical, ed25519_sign app canonical))"

definition signed_policy :: "app_state \<Rightarrow> sync_state \<Rightarrow> json \<times> string \<times> string" where
  "signed_policy app s =
     (let policy = latest_by audit_policy_version (audit_rows s) in
      sign_document app (JObject
        [(''kind'', JString ''session_audit_policy''),
         (''version'', json_nat (case policy of None \<Rightarrow> 0 | Some p \<Rightarrow> audit_policy_version p)),
         (''enabled'', JBool (case policy of None \<Rightarrow> False | Some p \<Rightarrow> audit_policy_enabled p)),
         (''local_quota_bytes'', json_nat (case policy of None \<Rightarrow> 1024 ^ 3 | Some p \<Rightarrow> local_quota_bytes p))]))"

definition signed_call_safety_policy :: "app_state \<Rightarrow> sync_state \<Rightarrow> json \<times> string \<times> string" where
  "signed_call_safety_policy app s =
     (let policy = latest_by safety_version (safety_rows s) in
      sign_document app (JObject
        [(''kind'', JString ''call_safety_policy''), (''schema_version'', json_nat 1),
         (''version'', json_nat (case policy of None \<Rightarrow> 0 | Some p \<Rightarrow> safety_version p)),
         (''maximum_call_duration_seconds'',
            json_nat (case policy of None \<Rightarrow> 3600 | Some p \<Rightarrow> maximum_call_duration_seconds p))]))"

definition acknowledge_policy :: "string \<Rightarrow> DeviceStatus \<Rightarrow> sync_state \<Rightarrow> service_error + sync_state" where
  "acknowledge_policy device st s =
     (if \<not> session_audit_capable st \<or> applied_audit_version st = 0
      then (if audit_enabled st then Inl (http_error 422 ''Audit recording needs a verified policy and supported helper'')
            else Inr s)
      else case find (\<lambda>p. audit_policy_version p = applied_audit_version st) (audit_rows s) of
        None \<Rightarrow> Inl (http_error 422 ''Applied audit policy does not match a signed policy'')
      | Some policy \<Rightarrow>
          if audit_policy_enabled policy \<noteq> audit_enabled st
          then Inl (http_error 422 ''Applied audit policy does not match a signed policy'')
          else if (device, audit_policy_version policy) \<in> set (audit_acks s) then Inr s
          else Inr (s\<lparr>audit_acks := audit_acks s @ [(device, audit_policy_version policy)]\<rparr>))"

definition find_safety_ack :: "string \<Rightarrow> nat \<Rightarrow> sync_state \<Rightarrow> DeviceCallSafetyAcknowledgement option" where
  "find_safety_ack device ver s = find (\<lambda>a. ack_device_id a = device \<and> ack_policy_version a = ver) (safety_acks s)"

definition acknowledge_call_safety_policy :: "string \<Rightarrow> DeviceStatus \<Rightarrow> sync_state \<Rightarrow> service_error + sync_state" where
  "acknowledge_call_safety_policy device st s =
     (if \<not> call_safety_capable st
      then (if applied_safety_version st \<noteq> None \<or> applied_safety_seconds st \<noteq> None
            then Inl (http_error 422 ''Call safety acknowledgment requires a compatible app and helper'') else Inr s)
      else case applied_safety_version st of
        None \<Rightarrow> Inr s
      | Some ver \<Rightarrow>
          let policy = (if ver = 0 then None else find (\<lambda>p. safety_version p = ver) (safety_rows s));
              expected = (if ver = 0 then Some 3600 else map_option maximum_call_duration_seconds policy) in
          if expected = None \<or> expected \<noteq> applied_safety_seconds st
          then Inl (http_error 422 ''Applied call safety policy does not match a signed policy'')
          else if find_safety_ack device ver s \<noteq> None then Inr s
          else Inr (s\<lparr>safety_acks := safety_acks s @
                 [\<lparr>ack_device_id = device, ack_policy_version = ver, ack_seconds = the expected\<rparr>]\<rparr>))"

section \<open>Settings\<close>

text \<open>The truth value of a JSON value in Python.\<close>

fun json_truthy :: "json \<Rightarrow> bool" where
  "json_truthy JNull = False"
| "json_truthy (JBool b) = b"
| "json_truthy (JInt i) = (i \<noteq> 0)"
| "json_truthy (JString s) = (s \<noteq> [])"
| "json_truthy (JList xs) = (xs \<noteq> [])"
| "json_truthy (JObject kvs) = (kvs \<noteq> [])"

definition save_audit_settings :: "bool \<Rightarrow> nat \<Rightarrow> string \<Rightarrow> sync_state \<Rightarrow> service_error + sync_state" where
  "save_audit_settings enabled quota actor s =
     (let active = active_devices (control (enrollment s)) in
      if enabled \<and> (active = [] \<or> list_ex (\<lambda>d. \<not> json_truthy (json_get (device_status d) ''session_audit_capable'')) active)
      then Inl (http_error 409 ''Update the enrolled tablet app and helper before enabling call auditing'')
      else
        let v = next_audit_version s;
            s = s\<lparr>audit_rows := audit_rows s @ [\<lparr>audit_policy_version = v, audit_policy_enabled = enabled, local_quota_bytes = quota\<rparr>],
                   next_audit_version := v + 1\<rparr> in
        Inr (record_audit actor ''session_audit.policy_changed'' (''audit-policy:'' @ str_nat v) s))"

definition save_call_safety_settings :: "nat \<Rightarrow> string \<Rightarrow> sync_state \<Rightarrow> sync_state" where
  "save_call_safety_settings limit_minutes actor s =
     (let limit_seconds = limit_minutes * 60; latest = latest_by safety_version (safety_rows s) in
      if latest = None \<or> maximum_call_duration_seconds (the latest) \<noteq> limit_seconds
      then
        let v = next_safety_version s;
            s = s\<lparr>safety_rows := safety_rows s @ [\<lparr>safety_version = v, maximum_call_duration_seconds = limit_seconds\<rparr>],
                   next_safety_version := v + 1\<rparr> in
        record_audit actor ''call_safety.policy_changed'' (''call-safety-policy:'' @ str_nat v) s
      else s)"

text \<open>What the settings page shows for each device: the applied version and its limit.\<close>

definition applied_call_safety :: "Device \<Rightarrow> sync_state \<Rightarrow> (nat \<times> nat) option" where
  "applied_call_safety device s =
     (case map_of (device_status device) ''call_safety_policy_version'' of
        Some (JInt ver) \<Rightarrow>
          map_option (\<lambda>a. (ack_policy_version a, ack_seconds a)) (find_safety_ack (device_id device) (nat ver) s)
      | _ \<Rightarrow> None)"

definition status_or :: "Device \<Rightarrow> string \<Rightarrow> json \<Rightarrow> json" where
  "status_or device key fallback = (case map_of (device_status device) key of None \<Rightarrow> fallback | Some v \<Rightarrow> v)"

definition get_call_safety_settings ::
  "app_state \<Rightarrow> sync_state \<Rightarrow> (json \<times> string \<times> string) \<times> (string \<times> string \<times> json \<times> (nat \<times> nat) option \<times> json) list" where
  "get_call_safety_settings app s =
     (signed_call_safety_policy app s,
      map (\<lambda>d. (device_id d, display_name d, status_or d ''call_safety_capable'' (JBool False), applied_call_safety d s,
                 status_or d ''call_safety_last_error'' JNull))
        (active_devices (control (enrollment s))))"

definition get_audit_settings ::
  "app_state \<Rightarrow> nat \<Rightarrow> sync_state \<Rightarrow> (json \<times> string \<times> string) \<times> json list \<times> nat" where
  "get_audit_settings app quota s =
     (signed_policy app s,
      map (\<lambda>d. JObject
          [(''id'', JString (device_id d)), (''name'', JString (display_name d)),
           (''capable'', status_or d ''session_audit_capable'' (JBool False)),
           (''applied_version'', status_or d ''audit_policy_version'' (JInt 0)),
           (''enabled'', status_or d ''audit_enabled'' (JBool False)),
           (''spool_bytes'', status_or d ''audit_spool_bytes'' (JInt 0)),
           (''spool_count'', status_or d ''audit_spool_count'' (JInt 0)),
           (''last_error'', status_or d ''audit_last_error'' JNull)])
        (active_devices (control (enrollment s))),
      quota)"

section \<open>Requests of a device\<close>

record DeviceSyncResponse =
  response_audit_policy :: "json \<times> string \<times> string"
  response_call_safety_policy :: "json \<times> string \<times> string"
  response_desired_revision_id :: "nat option"
  response_active_revision_id :: "nat option"
  response_manifest_sha256 :: "string option"
  response_signature_b64 :: "string option"

definition sync_device ::
  "app_state \<Rightarrow> string \<Rightarrow> string \<Rightarrow> DeviceStatus \<Rightarrow> Device \<Rightarrow> int \<Rightarrow> sync_state \<Rightarrow> service_error + DeviceSyncResponse \<times> sync_state" where
  "sync_device app new_app new_helper st device now s =
     bind_result (acknowledge_policy (device_id device) st s) (\<lambda>s.
     bind_result (acknowledge_call_safety_policy (device_id device) st s) (\<lambda>s.
       let s = update_device (device_id device) (\<lambda>d. d\<lparr>app_version := new_app, helper_version := new_helper, device_status := status_document st\<rparr>) s;
           s = s\<lparr>devices_seen := AList.update (device_id device) now (devices_seen s)\<rparr>;
           revision = (case desired_revision_id device of None \<Rightarrow> None
                       | Some rid \<Rightarrow> if rid = 0 then None else find_revision rid (control (enrollment s))) in
       Inr (\<lparr>response_audit_policy = signed_policy app s, response_call_safety_policy = signed_call_safety_policy app s,
             response_desired_revision_id = desired_revision_id device, response_active_revision_id = active_revision_id device,
             response_manifest_sha256 = map_option manifest_sha256 revision,
             response_signature_b64 = map_option signature_b64 revision\<rparr>, s)))"

definition device_manifest :: "nat \<Rightarrow> sync_state \<Rightarrow> service_error + manifest \<times> string \<times> string" where
  "device_manifest rid s =
     (case find_revision rid (control (enrollment s)) of
        None \<Rightarrow> Inl (http_error 404 ''Revision not found'')
      | Some r \<Rightarrow> Inr (load_manifest r, manifest_sha256 r, signature_b64 r))"

definition assigned_hashes :: "Device \<Rightarrow> database \<Rightarrow> string list" where
  "assigned_hashes device db =
     concat (map (\<lambda>rid. case find_revision rid db of None \<Rightarrow> []
         | Some r \<Rightarrow> map content_hash (manifest_prompts (load_manifest r)))
       (somes [desired_revision_id device, active_revision_id device]))"

definition device_prompt :: "(Prompt \<Rightarrow> bool) \<Rightarrow> string \<Rightarrow> Device \<Rightarrow> sync_state \<Rightarrow> service_error + Prompt" where
  "device_prompt media_present content_digest device s =
     (let db = control (enrollment s) in
      if length content_digest \<noteq> 64 \<or> \<not> list_all (\<lambda>c. c \<in> set ''0123456789abcdef'') content_digest
      then Inl (http_error 404 ''Prompt not found'')
      else if content_digest \<notin> set (assigned_hashes device db)
      then Inl (http_error 403 ''Prompt is not assigned to this device'')
      else case find (\<lambda>p. content_hash p = content_digest) (prompts db) of
        None \<Rightarrow> Inl (http_error 404 ''Prompt not found'')
      | Some p \<Rightarrow> if media_present p then Inr p else Inl (http_error 503 ''Prompt media is unavailable''))"

definition acknowledged_status :: "string \<Rightarrow> string option \<Rightarrow> (string \<times> json) list \<Rightarrow> (string \<times> json) list" where
  "acknowledged_status new_state failure document =
     (let document = AList.update ''revision_state'' (JString new_state) document in
      if truthy failure then AList.update ''last_error'' (JString (the failure)) document
      else if new_state = ''activated'' then AList.delete ''last_error'' document
      else document)"

definition acknowledge_revision ::
  "nat \<Rightarrow> string \<Rightarrow> string option \<Rightarrow> Device \<Rightarrow> int \<Rightarrow> sync_state \<Rightarrow> service_error + sync_state" where
  "acknowledge_revision rid new_state failure device now s =
     (if find_revision rid (control (enrollment s)) = None then Inl (http_error 404 ''Revision not found'')
      else if desired_revision_id device \<noteq> Some rid then Inl (http_error 409 ''Revision is not assigned to this device'')
      else
        let s = update_device (device_id device) (\<lambda>d. d\<lparr>device_status := acknowledged_status new_state failure (device_status device),
              active_revision_id := (if new_state = ''activated'' then Some rid else active_revision_id d)\<rparr>) s in
        Inr (s\<lparr>devices_seen := AList.update (device_id device) now (devices_seen s)\<rparr>))"

section \<open>All requests\<close>

inductive sync_step :: "app_state \<Rightarrow> enrollment_settings \<Rightarrow> sync_state \<Rightarrow> sync_state \<Rightarrow> bool" for app settings where
  control: "sync_step app settings s (s\<lparr>enrollment := e\<rparr>)" if "control_step app settings (enrollment s) e"
| sync: "sync_step app settings s s'"
    if "require_device settings authorization (control (enrollment s)) = Inr device"
      "sync_device app new_app new_helper st device now s = Inr (response, s')"
| acknowledge: "sync_step app settings s s'"
    if "require_device settings authorization (control (enrollment s)) = Inr device"
      "acknowledge_revision rid new_state failure device now s = Inr s'"
| legacy: "sync_step app settings s (s\<lparr>enrollment := (enrollment s)\<lparr>control := db'\<rparr>\<rparr>)"
    if "rollback_revision rid actor (control (enrollment s)) = Inr (r, db') \<or> activate_legacy_revision rid actor (control (enrollment s)) = Inr (r, db')"
| save_audit: "sync_step app settings s s'" if "save_audit_settings enabled quota actor s = Inr s'"
| save_safety: "sync_step app settings s (save_call_safety_settings limit_minutes actor s)" if "1 \<le> limit_minutes" "limit_minutes \<le> 1440"

definition activated_stored :: "database \<Rightarrow> bool" where
  "activated_stored db \<longleftrightarrow> (\<forall>d\<in>set (devices db). \<forall>rid. active_revision_id d = Some rid \<longrightarrow> rid \<in> revision_id ` set (revisions db))"

text \<open>The signed limit of a version of the call safety policy; version zero is the factory policy.\<close>

definition signed_limit :: "CallSafetyPolicy list \<Rightarrow> nat \<Rightarrow> nat option" where
  "signed_limit rows ver =
     (if ver = 0 then Some 3600 else map_option maximum_call_duration_seconds (find (\<lambda>p. safety_version p = ver) rows))"

definition safety_ok :: "CallSafetyPolicy list \<Rightarrow> nat \<Rightarrow> DeviceCallSafetyAcknowledgement list \<Rightarrow> bool" where
  "safety_ok rows upcoming acks \<longleftrightarrow> 0 < upcoming \<and>
     list_all (\<lambda>p. 0 < safety_version p \<and> safety_version p < upcoming \<and>
       60 \<le> maximum_call_duration_seconds p \<and> maximum_call_duration_seconds p \<le> 86400) rows \<and>
     list_all (\<lambda>a. signed_limit rows (ack_policy_version a) = Some (ack_seconds a)) acks"

definition sync_inv :: "app_state \<Rightarrow> sync_state \<Rightarrow> bool" where
  "sync_inv app s \<longleftrightarrow> one_device app (control (enrollment s)) \<and> activated_stored (control (enrollment s)) \<and>
     safety_ok (safety_rows s) (next_safety_version s) (safety_acks s)"

text \<open>A new policy does not change the limit of a version that was signed before.\<close>

lemma signed_limit_append: "signed_limit rows ver = Some n \<Longrightarrow> signed_limit (rows @ new_rows) ver = Some n"
proof -
  have "find P xs = Some y \<Longrightarrow> find P (xs @ ys) = Some y" for P xs ys and y :: CallSafetyPolicy
    by (induction xs) (auto split: if_splits)
  then show "signed_limit rows ver = Some n \<Longrightarrow> signed_limit (rows @ new_rows) ver = Some n"
    by (auto simp: signed_limit_def split: if_splits)
qed

lemma safety_ok_save:
  assumes "safety_ok (safety_rows s) (next_safety_version s) (safety_acks s)" "1 \<le> limit_minutes" "limit_minutes \<le> 1440"
    and s': "s' = save_call_safety_settings limit_minutes actor s"
  shows "safety_ok (safety_rows s') (next_safety_version s') (safety_acks s')"
  using assms(1-3) unfolding s' save_call_safety_settings_def
  by (auto simp: Let_def record_audit_def safety_ok_def list_all_iff intro: signed_limit_append)

lemma acknowledge_safety_cases:
  assumes "acknowledge_call_safety_policy device st s = Inr s'"
  shows "s' = s \<or> (\<exists>ver n. signed_limit (safety_rows s) ver = Some n \<and>
    s' = s\<lparr>safety_acks := safety_acks s @ [\<lparr>ack_device_id = device, ack_policy_version = ver, ack_seconds = n\<rparr>]\<rparr>)"
proof (cases "call_safety_capable st \<and> applied_safety_version st \<noteq> None")
  case True
  then obtain ver where ver: "applied_safety_version st = Some ver" by blast
  let ?e = "signed_limit (safety_rows s) ver"
  have "acknowledge_call_safety_policy device st s =
     (if ?e = None \<or> ?e \<noteq> applied_safety_seconds st
      then Inl (http_error 422 ''Applied call safety policy does not match a signed policy'')
      else if find_safety_ack device ver s \<noteq> None then Inr s
      else Inr (s\<lparr>safety_acks := safety_acks s @
        [\<lparr>ack_device_id = device, ack_policy_version = ver, ack_seconds = the ?e\<rparr>]\<rparr>))"
    using True by (cases "ver = 0"; cases "applied_safety_seconds st")
      (auto simp: acknowledge_call_safety_policy_def signed_limit_def ver Let_def)
  then show ?thesis using assms by (cases ?e; cases "applied_safety_seconds st") (auto split: if_splits)
next
  case False
  then show ?thesis using assms by (auto simp: acknowledge_call_safety_policy_def split: if_splits)
qed

lemma safety_ok_acknowledge:
  assumes "acknowledge_call_safety_policy device st s = Inr s'" "safety_ok (safety_rows s) (next_safety_version s) (safety_acks s)"
  shows "safety_ok (safety_rows s') (next_safety_version s') (safety_acks s')" "enrollment s' = enrollment s"
  using acknowledge_safety_cases [OF assms(1)] assms(2) by (auto simp: safety_ok_def)

lemma acknowledge_policy_frame:
  "acknowledge_policy device st s = Inr s' \<Longrightarrow> enrollment s' = enrollment s \<and> safety_rows s' = safety_rows s \<and>
     next_safety_version s' = next_safety_version s \<and> safety_acks s' = safety_acks s"
  by (auto simp: acknowledge_policy_def split: if_splits option.splits)

lemma update_device_frame [simp]:
  "safety_rows (update_device i f s) = safety_rows s" "next_safety_version (update_device i f s) = next_safety_version s"
  "safety_acks (update_device i f s) = safety_acks s"
  by (simp_all add: update_device_def)

text \<open>A device row changes neither its assignment nor its revocation, and becomes active on stored revisions only.\<close>

lemma update_device_inv:
  assumes "one_device app (control (enrollment s))" "activated_stored (control (enrollment s))"
    "\<And>d. revoked (f d) = revoked d \<and> desired_revision_id (f d) = desired_revision_id d"
    "\<And>d rid. active_revision_id (f d) = Some rid \<Longrightarrow>
       active_revision_id d = Some rid \<or> rid \<in> revision_id ` set (revisions (control (enrollment s)))"
    and db_def: "db = control (enrollment (update_device i f s))"
  shows "one_device app db \<and> activated_stored db"
proof -
  let ?db = "control (enrollment s)"
  have db: "devices db = map (\<lambda>d. if device_id d = i then f d else d) (devices ?db)" "revisions db = revisions ?db"
    "next_revision_id db = next_revision_id ?db" "drafts db = drafts ?db" by (simp_all add: db_def update_device_def)
  have "consistent app db"
    by (rule consistentI [of app ?db]) (use assms(1,3) db in \<open>auto simp: one_device_def rows_kept_def split: if_splits\<close>)
  moreover have "map revoked (devices db) = map revoked (devices ?db)" using assms(3) by (simp add: db(1))
  moreover have "activated_stored db"
    unfolding activated_stored_def db(1,2)
  proof (intro ballI allI impI)
    fix d rid assume d: "d \<in> set (map (\<lambda>d. if device_id d = i then f d else d) (devices ?db))" "active_revision_id d = Some rid"
    then obtain x where x: "x \<in> set (devices ?db)" "d = f x \<or> d = x" by auto
    then have "active_revision_id x = Some rid \<or> rid \<in> revision_id ` set (revisions ?db)" using d(2) assms(4) [of x rid] by auto
    then show "rid \<in> revision_id ` set (revisions ?db)" using x(1) assms(2) unfolding activated_stored_def by blast
  qed
  ultimately show ?thesis using assms(1) by (simp add: one_device_def active_count_map)
qed

lemma find_revision_stored: "find_revision rid db \<noteq> None \<Longrightarrow> rid \<in> revision_id ` set (revisions db)"
  by (auto simp: find_revision_def find_Some_iff)

lemma activated_stored_alt:
  "activated_stored db \<longleftrightarrow> (\<forall>x\<in>set (map active_revision_id (devices db)). pred_option (\<lambda>rid. rid \<in> revision_id ` set (revisions db)) x)"
  by (auto simp: activated_stored_def pred_option_def)

lemma kept_activated:
  assumes "kept app db db'" "activated_stored db"
  shows "activated_stored db'"
proof -
  have "map active_revision_id (devices db') = map active_revision_id (devices db)" "set (revisions db) \<subseteq> set (revisions db')"
    using assms(1) by (auto simp: kept_def)
  then show ?thesis using assms(2) by (fastforce simp: activated_stored_alt pred_option_def simp del: set_map)
qed

lemma kept_one_device: "kept app db db' \<Longrightarrow> one_device app db \<Longrightarrow> one_device app db'"
  by (simp add: one_device_def kept_def active_count_map)

lemma control_step_activated:
  assumes "control_step app settings e e'" "one_device app (control e)" "activated_stored (control e)"
  shows "activated_stored (control e')"
  using assms
proof (induction rule: control_step.induct)
  case (admin s db')
  then have "kept app (control s) db'" using admin_step_kept by (simp add: one_device_def)
  then show ?case using admin kept_activated by simp
next
  case (pair name actor draws new_id now s out s')
  then show ?case by (auto simp: create_pairing_code_def Let_def activated_stored_def split: option.splits)
next
  case (enroll body ip token new_id now s result s')
  show ?case
  proof (cases result)
    case (Inl x)
    then show ?thesis using enroll_Inl_control enroll by metis
  next
    case (Inr r)
    obtain i t where r: "r = (i, t)" by fastforce
    obtain p where "devices (control s') = devices (control s) @ [new_device settings body p token new_id (control s)]"
      "revisions (control s') = revisions (control s)"
      by (rule enroll_Inr [of settings body ip token new_id now s i t s']) (use enroll(1) Inr r in auto)
    then show ?thesis using enroll(3) by (auto simp: activated_stored_def new_device_def)
  qed
next
  case (revoke i actor s d db')
  then show ?case by (auto simp: activated_stored_def revoke_device_def split: option.splits if_splits)
qed

lemma sync_step_inv: "sync_step app settings s s' \<Longrightarrow> sync_inv app s \<Longrightarrow> sync_inv app s'"
proof (induction rule: sync_step.induct)
  case (control s e)
  then show ?case using control_step_one_device control_step_activated by (fastforce simp: sync_inv_def)
next
  case (sync authorization s device new_app new_helper st now response s')
  then obtain s1 s2 where s: "acknowledge_policy (device_id device) st s = Inr s1" "acknowledge_call_safety_policy (device_id device) st s1 = Inr s2"
    "s' = (update_device (device_id device) (\<lambda>d. d\<lparr>app_version := new_app, helper_version := new_helper, device_status := status_document st\<rparr>) s2)
       \<lparr>devices_seen := AList.update (device_id device) now (devices_seen s2)\<rparr>"
    by (auto simp: sync_device_def bind_result_Inr Let_def update_device_def)
  have ok: "safety_ok (safety_rows s1) (next_safety_version s1) (safety_acks s1)" "enrollment s1 = enrollment s"
    using acknowledge_policy_frame [OF s(1)] sync.prems by (auto simp: sync_inv_def)
  note ok2 = safety_ok_acknowledge [OF s(2) ok(1)]
  show ?case using update_device_inv [OF _ _ _ _ refl, of app s2 "\<lambda>d. d\<lparr>app_version := new_app, helper_version := new_helper, device_status := status_document st\<rparr>" "device_id device"]
      sync.prems ok(2) ok2 by (simp add: sync_inv_def s(3))
next
  case (acknowledge authorization s device rid new_state failure now s')
  let ?f = "\<lambda>d. d\<lparr>device_status := acknowledged_status new_state failure (device_status device),
              active_revision_id := (if new_state = ''activated'' then Some rid else active_revision_id d)\<rparr>"
  have s': "find_revision rid (control (enrollment s)) \<noteq> None"
    "s' = (update_device (device_id device) ?f s)\<lparr>devices_seen := AList.update (device_id device) now (devices_seen s)\<rparr>"
    using acknowledge.hyps(2) by (auto simp: acknowledge_revision_def Let_def update_device_def split: if_splits)
  have "one_device app (control (enrollment (update_device (device_id device) ?f s))) \<and>
      activated_stored (control (enrollment (update_device (device_id device) ?f s)))"
    by (rule update_device_inv [OF _ _ _ _ refl]) (use acknowledge.prems find_revision_stored [OF s'(1)] in \<open>auto simp: sync_inv_def split: if_splits\<close>)
  then show ?case using acknowledge.prems by (simp add: sync_inv_def s'(2))
next
  case (legacy rid actor s r db')
  then have "kept app (control (enrollment s)) db'" using kept_legacy by (auto simp: sync_inv_def one_device_def)
  then show ?case using legacy.prems kept_activated kept_one_device by (simp add: sync_inv_def)
next
  case (save_audit enabled quota actor s s')
  then show ?case by (auto simp: save_audit_settings_def Let_def record_audit_def sync_inv_def one_device_def active_count_def activated_stored_def split: if_splits)
next
  case (save_safety limit_minutes s actor)
  have "enrollment (save_call_safety_settings limit_minutes actor s) = enrollment s \<or>
    (\<exists>a b. enrollment (save_call_safety_settings limit_minutes actor s) = (enrollment s)\<lparr>control := audit actor a b [] (control (enrollment s))\<rparr>)"
    by (auto simp: save_call_safety_settings_def Let_def record_audit_def)
  then show ?case using save_safety safety_ok_save [OF _ save_safety.hyps refl, of s actor]
    by (auto simp: sync_inv_def one_device_def active_count_def activated_stored_def)
qed

lemma sync_steps_inv: "(sync_step app settings)\<^sup>*\<^sup>* s s' \<Longrightarrow> sync_inv app s \<Longrightarrow> sync_inv app s'"
  by (induction rule: rtranclp_induct) (auto intro: sync_step_inv)

text \<open>
  C19: Over every sequence of administration, enrolment, settings and device requests, the revision that a
  device reports as active was published, sealed and safe to run, and the call limit that the settings page
  shows as applied by a device is the signed limit of that version of the policy, between one minute and one
  day.
\<close>

theorem devices_run_signed_state:
  assumes "(sync_step app settings)\<^sup>*\<^sup>* s s'" "sync_inv app s" "d \<in> set (devices (control (enrollment s')))"
  shows "(\<forall>rid. active_revision_id d = Some rid \<longrightarrow>
      (\<exists>r\<in>set (revisions (control (enrollment s'))). revision_id r = rid \<and> safe_revision app r)) \<and>
    (\<forall>ver limit. applied_call_safety d s' = Some (ver, limit) \<longrightarrow>
      signed_limit (safety_rows s') ver = Some limit \<and> 60 \<le> limit \<and> limit \<le> 86400)"
proof -
  have inv: "sync_inv app s'" using sync_steps_inv [OF assms(1,2)] .
  have "\<exists>r\<in>set (revisions (control (enrollment s'))). revision_id r = rid \<and> safe_revision app r" if "active_revision_id d = Some rid" for rid
    using that inv assms(3) unfolding sync_inv_def activated_stored_def one_device_def consistent_def by (metis imageE)
  moreover have "signed_limit (safety_rows s') ver = Some limit \<and> 60 \<le> limit \<and> limit \<le> 86400"
    if "applied_call_safety d s' = Some (ver, limit)" for ver limit
  proof -
    have "signed_limit (safety_rows s') ver = Some limit"
      using that inv by (auto simp: applied_call_safety_def find_safety_ack_def find_Some_iff sync_inv_def safety_ok_def list_all_length
          split: option.splits json.splits)
    moreover from this have "60 \<le> limit \<and> limit \<le> 86400"
      using inv by (auto simp: signed_limit_def find_Some_iff sync_inv_def safety_ok_def list_all_length split: if_splits)
    ultimately show ?thesis by simp
  qed
  ultimately show ?thesis by blast
qed

text \<open>A prompt is given only to a device whose assigned or active revision names it.\<close>

lemma device_prompt_assigned:
  assumes "device_prompt media_present content_digest device s = Inr p"
  shows "p \<in> set (prompts (control (enrollment s)))" "content_hash p = content_digest"
    "\<exists>r\<in>set (revisions (control (enrollment s))). revision_id r \<in> set (somes [desired_revision_id device, active_revision_id device]) \<and>
       content_digest \<in> content_hash ` set (manifest_prompts (revision_manifest r))"
proof -
  let ?db = "control (enrollment s)"
  have a: "content_digest \<in> set (assigned_hashes device ?db)" "find (\<lambda>p. content_hash p = content_digest) (prompts ?db) = Some p"
    using assms by (auto simp: device_prompt_def Let_def split: if_splits option.splits)
  show "p \<in> set (prompts ?db)" "content_hash p = content_digest" using a(2) by (auto simp: find_Some_iff)
  obtain rid r where r: "rid \<in> set (somes [desired_revision_id device, active_revision_id device])" "find_revision rid ?db = Some r"
    "content_digest \<in> content_hash ` set (manifest_prompts (revision_manifest r))"
  proof -
    obtain rid where rid: "rid \<in> set (somes [desired_revision_id device, active_revision_id device])"
      "content_digest \<in> set (case find_revision rid ?db of None \<Rightarrow> [] | Some r \<Rightarrow> map content_hash (manifest_prompts (load_manifest r)))"
      using a(1) unfolding assigned_hashes_def set_concat set_map by blast
    then show thesis using that by (cases "find_revision rid ?db") (auto simp: load_manifest_def)
  qed
  then have "r \<in> set (revisions ?db)" "revision_id r = rid" by (auto simp: find_revision_def find_Some_iff)
  then show "\<exists>r\<in>set (revisions ?db). revision_id r \<in> set (somes [desired_revision_id device, active_revision_id device]) \<and>
       content_digest \<in> content_hash ` set (manifest_prompts (revision_manifest r))"
    using r(1,3) by blast
qed

section \<open>An example\<close>

definition demo_status :: DeviceStatus where
  "demo_status = \<lparr>session_audit_capable = False, applied_audit_version = 0, audit_enabled = False, call_safety_capable = True,
     applied_safety_version = Some 0, applied_safety_seconds = Some 3600, other_status = []\<rparr>"

definition demo_tablet :: Device where
  "demo_tablet = demo_device\<lparr>token_hash := replicate 40 CHR ''t''\<rparr>"

definition demo_sync :: sync_state where
  "demo_sync = \<lparr>enrollment = demo_pairing\<lparr>control := (control demo_pairing)\<lparr>devices := [demo_tablet]\<rparr>\<rparr>, audit_rows = [], next_audit_version = 1,
     audit_acks = [], safety_rows = [], next_safety_version = 1, safety_acks = [], devices_seen = []\<rparr>"

lemma demo_credential:
  "require_device demo_settings (Some (''Bearer '' @ replicate 40 CHR ''t'')) (control (enrollment demo_sync)) = Inr demo_tablet"
proof -
  have "py_strip (replicate 40 CHR ''t'') = replicate 40 CHR ''t''" by (simp add: py_strip_def py_space_def numeral_eq_Suc)
  then show ?thesis
    by (simp add: require_device_def startswith_def removeprefix_def digest_device_token_def demo_settings_def demo_sync_def demo_tablet_def
        demo_device_def Let_def)
qed

lemma demo_syncs:
  "\<exists>response s' d. sync_device demo_app ''2'' ''2'' demo_status demo_tablet 5 demo_sync = Inr (response, s') \<and>
     d \<in> set (devices (control (enrollment s'))) \<and> applied_call_safety d s' = Some (0, 3600)"
  by (simp add: sync_device_def acknowledge_policy_def acknowledge_call_safety_policy_def demo_status_def demo_sync_def demo_tablet_def demo_device_def
      find_safety_ack_def update_device_def applied_call_safety_def status_document_def json_of_nat_option_def json_nat_def Let_def)

lemma demo_sync_inv: "sync_inv demo_app demo_sync"
  by (simp add: sync_inv_def one_device_def consistent_def active_count_def activated_stored_def safety_ok_def demo_sync_def demo_pairing_def
      empty_database_def demo_tablet_def demo_device_def)

theorem devices_run_signed_state_witness:
  "\<exists>s' d. sync_step demo_app demo_settings demo_sync s' \<and> d \<in> set (devices (control (enrollment s'))) \<and>
     applied_call_safety d s' = Some (0, 3600) \<and> signed_limit (safety_rows s') 0 = Some 3600"
proof -
  obtain response s' d where s: "sync_device demo_app ''2'' ''2'' demo_status demo_tablet 5 demo_sync = Inr (response, s')"
    "d \<in> set (devices (control (enrollment s')))" "applied_call_safety d s' = Some (0, 3600)" using demo_syncs by blast
  have step: "sync_step demo_app demo_settings demo_sync s'" using sync_step.sync [OF demo_credential s(1)] .
  from devices_run_signed_state [OF r_into_rtranclp [of "sync_step demo_app demo_settings", OF step] demo_sync_inv s(2)] s step show ?thesis by blast
qed

end
