(* ===== verification/Spec2Isabelle.thy ===== *)
theory Spec2Isabelle
  imports Session_Bound Samples Simulation_Laws Graph_Laws Device_Requests Segment_Behaviour
    Continuous_Laws Call_Laws Device_Sync
begin

text \<open>
  Verification of the control plane of ivrdroid: the Python service under \<^verbatim>\<open>src/server/app\<close> in
  which an administrator edits a telephone menu (the draft), has it validated, simulated and compared
  with the revision in use, and publishes it as a signed revision that the enrolled devices run, and to
  which the devices upload the voicemails that callers leave and the recordings of conversations and of
  whole calls.

  \<^bold>\<open>Parts and theories.\<close> Every theory names the source file it models in its first text block.

  \<^item> \<^verbatim>\<open>Prelude\<close>: exceptions as a sum type, statements in sequence, Python sets and dictionaries in
    insertion order, positions in lists.
  \<^item> \<^verbatim>\<open>Flow_Schema\<close> (\<^verbatim>\<open>schemas.py\<close>): caller policy, schedules, the V1 flow graph, the owned flow
    tree of V2 to V4, the documents, and their field and model validators as Boolean functions.
  \<^item> \<^verbatim>\<open>Flow_Tree\<close> (\<^verbatim>\<open>flow_v2.py\<close>): the traversal of a tree, its prompts and labels.
  \<^item> \<^verbatim>\<open>Flow_Validation\<close>, \<^verbatim>\<open>Validation_Laws\<close> (\<^verbatim>\<open>validation.py\<close>): the three tree validators; the
    locale \<^verbatim>\<open>tree_visitor\<close> states what one walk does with the visited blocks, identifiers, depths and
    prompts, and is interpreted on each of the three walks, which gives the exact set of accepted
    configurations.
  \<^item> \<^verbatim>\<open>Graph_Validation\<close>, \<^verbatim>\<open>Graph_Laws\<close> (\<^verbatim>\<open>validation.py\<close>): the V1 validator with its searches for
    reachable nodes, cycles, the longest path and the end of the call, related to the edge relation.
  \<^item> \<^verbatim>\<open>Json\<close> (\<^verbatim>\<open>crypto.py\<close>, \<^verbatim>\<open>schemas.py\<close>): JSON values, canonical encoding, JSON form of the models.
  \<^item> \<^verbatim>\<open>Flow_Collect\<close>, \<^verbatim>\<open>Collect_Laws\<close>, \<^verbatim>\<open>Flow_Compiler\<close>, \<^verbatim>\<open>Tape_Laws\<close>, \<^verbatim>\<open>Session_Bound\<close>
    (\<^verbatim>\<open>compiler_v2.py\<close>, \<^verbatim>\<open>compiler_v3.py\<close>, \<^verbatim>\<open>compiler_v4.py\<close>): the compilers. The locale
    \<^verbatim>\<open>tree_collector\<close> covers the collection of the blocks, interpreted on the three collectors; a
    compiled program is the tape of the tree in pre-order, and the duration that the compiler computes
    is the length of the longest session.
  \<^item> \<^verbatim>\<open>Flow_Simulation\<close>, \<^verbatim>\<open>Simulation_Laws\<close> (\<^verbatim>\<open>simulation_v2.py\<close> to \<^verbatim>\<open>simulation_v4.py\<close>): the
    simulators, as a step function on an explicit state and its bounded loop; the locale
    \<^verbatim>\<open>simulated_tree\<close> carries the termination argument.
  \<^item> \<^verbatim>\<open>Flow_Diff\<close>, \<^verbatim>\<open>Revision_Diff\<close> (\<^verbatim>\<open>diff_v2.py\<close>, \<^verbatim>\<open>revision_diff.py\<close>): the comparison of a draft
    with a revision.
  \<^item> \<^verbatim>\<open>Draft_Store\<close>, \<^verbatim>\<open>Revision_Store\<close> (\<^verbatim>\<open>models.py\<close>, \<^verbatim>\<open>services.py\<close>, \<^verbatim>\<open>crypto.py\<close>): the stored
    state, drafts with optimistic concurrency, archives, manifests and signed revisions. The locale
    \<^verbatim>\<open>versioned_draft\<close> is the contract of a draft, interpreted on the V2, V3 and V4 drafts.
  \<^item> \<^verbatim>\<open>Publishing\<close>, \<^verbatim>\<open>Publishing_V3\<close>, \<^verbatim>\<open>Publishing_Laws\<close>, \<^verbatim>\<open>Admin_Requests\<close> (\<^verbatim>\<open>v4_api.py\<close>,
    \<^verbatim>\<open>v3_api.py\<close>): the requests of the administration interfaces, what each of them does, the step
    relation of all requests and its invariants.
  \<^item> \<^verbatim>\<open>Enrollment\<close>, \<^verbatim>\<open>Device_Requests\<close> (\<^verbatim>\<open>main.py\<close>, \<^verbatim>\<open>auth.py\<close>): pairing codes, enrolment,
    revocation and credentials of devices, and the invariants of these requests together with those of
    the administration interfaces.
  \<^item> \<^verbatim>\<open>Recording_Cipher\<close>, \<^verbatim>\<open>Recording_Storage\<close>, \<^verbatim>\<open>Wave_Files\<close>, \<^verbatim>\<open>Recording_Store\<close>
    (\<^verbatim>\<open>recording_service.py\<close>, \<^verbatim>\<open>models.py\<close>, \<^verbatim>\<open>maintain_recordings\<close> of \<^verbatim>\<open>main.py\<close>): the keys and
    envelopes of encrypted audio; the private directory tree with its upload directories and media files,
    chunked uploads, and deletion through a quarantine; the inspection of WAV files; rows and storage
    together: quota, completion, retention, reconciliation after a crash.
  \<^item> \<^verbatim>\<open>Recording_Requests\<close> (\<^verbatim>\<open>recording_api.py\<close>): the requests of a device that uploads a voicemail
    and of an administrator who lists, hears and deletes it and sets the retention policy. A request
    takes the outcome of its commit as an argument, and returns the storage also when it fails, since
    files are not rolled back.
  \<^item> \<^verbatim>\<open>Upload_Laws\<close>, \<^verbatim>\<open>Media_Laws\<close>, \<^verbatim>\<open>Recording_Laws\<close>, \<^verbatim>\<open>Recording_Safety\<close>,
    \<^verbatim>\<open>Recording_Service\<close>: exactness of resumable uploads, what quarantine and reconciliation do to the
    media files, that every request keeps the invariant between rows and files, and the step relation of
    all recording requests and maintenance.
  \<^item> \<^verbatim>\<open>Media_Stream\<close> (\<^verbatim>\<open>recording_service.py\<close>, \<^verbatim>\<open>recording_api.py\<close>): the encryption of media files in
    blocks, which agrees with the one-shot routines, and the answers that carry audio.
  \<^item> \<^verbatim>\<open>Audit_Reports\<close>, \<^verbatim>\<open>Segment_Store\<close>, \<^verbatim>\<open>Segment_Requests\<close> (\<^verbatim>\<open>schemas.py\<close>, \<^verbatim>\<open>recording_service.py\<close>,
    \<^verbatim>\<open>conversation_recording_api.py\<close>, \<^verbatim>\<open>session_audit_api.py\<close>): conversations and whole-call audits that are
    uploaded in segments, their verification and assembly.
  \<^item> \<^verbatim>\<open>Segment_Laws\<close>, \<^verbatim>\<open>Segment_Safety\<close>, \<^verbatim>\<open>Segment_Behaviour\<close>: the invariants of these requests together with
    those of the voicemails, and what happens to replayed and corrupt segments.
  \<^item> \<^verbatim>\<open>Continuous_Receipts\<close>, \<^verbatim>\<open>Continuous_Recordings\<close>, \<^verbatim>\<open>Continuous_Laws\<close> (\<^verbatim>\<open>continuous_recording_api.py\<close>,
    \<^verbatim>\<open>continuous_recording_worker.py\<close>, \<^verbatim>\<open>processing_workspace.py\<close>): recordings that are uploaded as one file
    of samples, and the worker that converts them. The outcomes of the commits, the rename, the flush and the
    last removal of a run, and its readings of the clock, are arguments.
  \<^item> \<^verbatim>\<open>Call_History\<close>, \<^verbatim>\<open>Call_Laws\<close> (\<^verbatim>\<open>call_history.py\<close>, \<^verbatim>\<open>main.py\<close>, \<^verbatim>\<open>ntfy.py\<close>): the reports
    of calls and their events, the receipts that deduplicate them, and the claim of notifications. The locale
    \<^verbatim>\<open>call_items\<close> is the contract of one item of a batch, interpreted on the items of both requests.
  \<^item> \<^verbatim>\<open>Legacy_Admin\<close> (\<^verbatim>\<open>main.py\<close>): the archived interfaces of releases 1 and 2 with their emergency
    activations, and the use and deletion of prompts.
  \<^item> \<^verbatim>\<open>Device_Sync\<close> (\<^verbatim>\<open>main.py\<close>, \<^verbatim>\<open>audit_settings.py\<close>, \<^verbatim>\<open>call_safety_settings.py\<close>): synchronisation,
    manifests, prompts and acknowledgements of a device, the signed policies it applies, and the step relation
    of all requests of administrators and devices that these invariants need.
  \<^item> \<^verbatim>\<open>Samples\<close>: a small flow on which the properties are applied.

  \<^bold>\<open>Correspondence.\<close> A class is a record or a datatype with the fields of the class, a function is a
  definition of the same name (a leading underscore is dropped, and \<^verbatim>\<open>walk_nodes\<close>,
  \<^verbatim>\<open>maximum_depth_of\<close> and similar names avoid clashes), a nested function with captured variables
  takes them as arguments and returns them updated. An exception is the left value of a sum. A request
  that raises leaves no new state, since the session is not committed. A save of a draft takes the row
  it has read separately from the state it writes to, so that two saves can interleave.

  \<^bold>\<open>What is shown.\<close> The validators accept exactly the well-formed configurations;
  what they accept compiles or exceeds the session limit, for which the compiler computes the exact
  maximum; control on a compiled program only moves forward except for returns, which go to the menu
  that owns them; in an accepted flow no caller is recorded or connected before a prompt was played;
  simulations stop; newer validators, compilers and simulators agree with the older ones on older flows; drafts are never overwritten
  unseen; every published revision is validated, sealed and given to capable active devices only,
  revisions never change, and rollbacks restore what they name; a pairing code enrols one device once,
  and at most one device is active. A voicemail that is uploaded in chunks, with replays and
  interruptions, is read back exactly or refused; the quota is never exceeded; every recording marked as
  ready, and so every one that a device is told it may discard, can be played; a deletion that a crash
  interrupts is undone or finished; a range response carries the bytes it announces. An assembled
  conversation plays the samples of its segments in order, and succeeds when they are readable; quota
  and playability hold over all requests on voicemails, conversations and audits together. The worker of
  the continuous recordings keeps the source until the recording is acknowledged, converts exactly the
  uploaded samples, and retries within an hour. Reports of calls may come repeatedly and in any order: a
  call is notified once and no event is lost. A device becomes active on stored and safe revisions only,
  and the call limit that it is shown to apply is a signed one. The development records these defects:
  V1 cycles behind a bounded edge that the validator does not see, the fallback of the draft request that
  always fails, a malformed WAV file and a malformed range header that escape the error handling,
  unknown directory entries, among them the service's own open workspaces, that stop the maintenance of
  recordings, maintenance between the file and the row of a completed voicemail, which removes the
  file, a verified conversation segment whose repeated announcement is refused, and a corrupt conversation segment that cannot be replaced.

  \<^bold>\<open>Bounds.\<close> No definition takes fuel. The recursive walks end because a block is
  larger than what it owns, the graph searches because the set of unexplored nodes shrinks, the duration
  search because program points with return counts are finitely many and never repeat on a path. The
  loop of a simulator has the 512 iterations of the source; an accepted flow needs at most 144 of them.
  Reading an upload ends because every chunk read is not empty, reading a WAV file because every chunk
  header advances the position.

  \<^bold>\<open>Not modelled.\<close> Encryption at rest and the text form of a stored draft or
  revision (a row holds the document its text decrypts and parses to); SHA-256, Ed25519, AES-GCM, HKDF,
  the audio converter and the time zone database (parameters of the definitions that use them; time zone
  names that are no well-formed path are left out); timestamps of rows where no decision rests on them; the recursion limit of the interpreter; type
  coercions of the request parser before validation; the upload of prompts; administrator login; of the
  recordings, the JSON text of the retired keys (the key table is a list of pairs), and flushing to
  disk, except for the outcome of the flush in the worker; the delivery of notifications; the repair
  scripts of an operator; the Android application, the native helper and the dashboard.
  Requests on recordings are atomic steps except where a theorem says otherwise; the joint invariant of the recordings covers voicemails and segments, and the properties of
  continuous recordings are about single runs of their worker. The workspace directories of an assembly and
  a verification exist only during such a step; the property on maintenance opens them explicitly. The
  iteration order of Python sets and of directories, where a message order depends on it, is one fixed order.
  Characters are those with code points below 256.
\<close>

section \<open>Validation and compilation\<close>

text \<open>
  C1: A configuration that the V4 validator accepts has a root, and compiles, unless its longest
  possible session exceeds ten minutes, in which case the compiler raises exactly that error; no
  other error is possible. The program is the tape of the tree.
\<close>

theorem validated_v4_compiles:
  assumes "validate_configuration_v4 zone_known d P sizes limit = []"
  shows "\<exists>root c. flow_root (flow d) = Some root \<and>
    longest (v4_tape (recording_behavior d) root) durations 0
      (initial_returns (v4_tape (recording_behavior d) root)) c \<and>
    compile_flow_v4 sha256 (flow d) (recording_behavior d) durations =
      (if c > MAXIMUM_SESSION_MS then Inl limit_error
       else Inr (finish_compile sha256 (v4_compiler root) (source_json (flow d) (recording_behavior d))
         \<lparr>version = 4, entry_pc = 0, maximum_session = Some c,
          instructions = v4_tape (recording_behavior d) root\<rparr>))"
  using assms compile_v4_accepted unfolding accepted_v4 by blast

theorem validated_v4_compiles_witness:
  "\<exists>root c. flow_root (flow demo_document) = Some root \<and>
    longest (v4_tape default_RecordingBehavior root) demo_sizes 0
      (initial_returns (v4_tape default_RecordingBehavior root)) c"
  using validated_v4_compiles [OF demo_accepted_v4, of demo_sizes] by (auto simp: demo_document_def)

text \<open>
  C2: The duration the V4 compiler writes into the program of an accepted configuration is at most
  ten minutes, some session lasts that long, and no session lasts longer.
\<close>

theorem compiled_v4_session_bound:
  assumes "validate_configuration_v4 zone_known d P sizes limit = []"
    and "compile_flow_v4 sha256 (flow d) (recording_behavior d) durations = Inr r"
  defines "ins \<equiv> instructions (compiled_program r)"
  shows "\<exists>c. maximum_session (compiled_program r) = Some c \<and> c \<le> 600000 \<and>
    session ins durations 0 (initial_returns ins) c \<and>
    (\<forall>t. session ins durations 0 (initial_returns ins) t \<longrightarrow> t \<le> c)"
proof -
  obtain root where "flow_root (flow d) = Some root"
    "tree_accepted notice_v4 (checks_v4 P (map schedule_id (schedules d))) sizes limit root"
    using assms(1) by (auto simp: accepted_v4)
  from compile_v4_accepted [OF this, of "recording_behavior d" durations sha256] show ?thesis
    using assms(2) by (auto simp: ins_def longest_def finish_compile_def MAXIMUM_SESSION_MS_def split: if_splits)
qed

theorem compiled_v4_session_bound_witness:
  "\<exists>r c. compile_flow_v4 (\<lambda>s. s) (flow demo_document) (recording_behavior demo_document) demo_sizes = Inr r \<and>
     maximum_session (compiled_program r) = Some c \<and> c \<le> 600000"
  using demo_compiles_v4 compiled_v4_session_bound [OF demo_accepted_v4, of "\<lambda>s. s" demo_sizes] by blast

text \<open>
  The menu that owns a block: the innermost menu of the tree whose subtree has the block.
\<close>

definition owning_menu :: "FlowBlock \<Rightarrow> FlowBlock \<Rightarrow> FlowBlock \<Rightarrow> bool" where
  "owning_menu root menu x \<longleftrightarrow> menu \<in> set (subtree root) \<and> is_CollectDigit menu \<and> x \<in> set (subtree menu) \<and>
     (\<forall>m\<in>set (subtree menu). is_CollectDigit m \<and> x \<in> set (subtree m) \<longrightarrow> m = menu)"

definition outside_menus :: "FlowBlock \<Rightarrow> FlowBlock \<Rightarrow> bool" where
  "outside_menus b x \<longleftrightarrow> (\<forall>m\<in>set (subtree b). is_CollectDigit m \<longrightarrow> x \<notin> set (subtree m))"

lemma owned_subtree_unique:
  assumes "distinct (map block_id (subtree b))" "k \<in> set (owned b)" "k' \<in> set (owned b)"
    "x \<in> set (subtree k)" "x \<in> set (subtree k')"
  shows "k = k'"
proof (rule ccontr)
  assume "k \<noteq> k'"
  obtain us vs where k: "owned b = us @ k # vs" using assms(2) by (meson split_list)
  with \<open>k \<noteq> k'\<close> assms(3) consider "k' \<in> set vs" | "k' \<in> set us" by auto
  then show False
  proof cases
    case 1
    then show False using distinct_subtree_owned(2) [OF assms(1) k] assms(4,5) by blast
  next
    case 2
    then obtain us' vs' where "us = us' @ k' # vs'" by (meson split_list)
    then have "owned b = us' @ k' # (vs' @ k # vs)" using k by simp
    then show False using distinct_subtree_owned(2) [OF assms(1), of us' k' _ k] assms(4,5) by auto
  qed
qed

lemma entry_owning_menu:
  assumes "(x, o') \<in> set (entries_of ow b)" "distinct (map block_id (subtree b))" "is_ReturnToMenu x"
  shows "o' = ow \<and> outside_menus b x \<or> (\<exists>menu. o' = Some (block_id menu) \<and> owning_menu b menu x)"
  using assms(1,2)
proof (induction b arbitrary: ow rule: owned_induct)
  case (step b)
  show ?case
  proof (cases "(x, o') = (b, ow)")
    case True
    then obtain i where "b = ReturnToMenuBlockV2 i" using assms(3) by (cases b) auto
    then have "subtree b = [b]" by (subst subtree.simps) (simp add: owned_def)
    then show ?thesis using True assms(3) by (cases b) (simp_all add: outside_menus_def)
  next
    case False
    then obtain k where k: "k \<in> set (owned b)" "(x, o') \<in> set (entries_of (child_owner b ow) k)"
      using step.prems(1) by (auto simp: set_entries_of [of ow b])
    have x: "x \<in> set (subtree k)" using entry_subtree [OF k(2)] by simp
    obtain us vs where "owned b = us @ k # vs" using k(1) by (meson split_list)
    then have d: "distinct (map block_id (subtree k))" by (rule distinct_subtree_owned(1) [OF step.prems(2)])
    have sub: "set (subtree k) \<subseteq> set (subtree b)" using subtree_owned [OF k(1)] by blast
    have only: "m \<in> set (subtree k)" if "m \<in> set (subtree b)" "m \<noteq> b" "x \<in> set (subtree m)" for m
    proof -
      obtain k' where k': "k' \<in> set (owned b)" "m \<in> set (subtree k')" using \<open>m \<in> set (subtree b)\<close> \<open>m \<noteq> b\<close> by (auto simp: set_subtree [of b])
      have "x \<in> set (subtree k')" using k'(2) that(3) subtree_trans by blast
      then show ?thesis using owned_subtree_unique [OF step.prems(2) k(1) k'(1) x] k'(2) by simp
    qed
    from step.IH [OF k d] show ?thesis
    proof
      assume "o' = child_owner b ow \<and> outside_menus k x"
      moreover have "x \<in> set (subtree b)" "b \<in> set (subtree b)" using x sub by auto
      moreover have "m = b" if "m \<in> set (subtree b)" "is_CollectDigit m" "x \<in> set (subtree m)" for m
        using that only [of m] calculation unfolding outside_menus_def by blast
      ultimately have "if is_CollectDigit b then o' = Some (block_id b) \<and> owning_menu b b x else o' = ow \<and> outside_menus b x"
        unfolding child_owner_def outside_menus_def owning_menu_def by auto
      then show ?thesis by (metis (full_types))
    next
      assume "\<exists>menu. o' = Some (block_id menu) \<and> owning_menu k menu x"
      then show ?thesis using sub unfolding owning_menu_def by blast
    qed
  qed
qed

text \<open>On the tape of an accepted tree, every return goes to the menu that owns it.\<close>

lemma tape_return_owner:
  assumes "distinct (ids_of root)" "collectable notice_v4 allowed_v4 None False root" "x \<in> set (subtree root)" "is_ReturnToMenu x"
  shows "\<exists>menu j m. owning_menu root menu x \<and> j < length (tape barge rec root) \<and> m < length (tape barge rec root) \<and>
    instruction_block (tape barge rec root ! j) = block_id x \<and> op (tape barge rec root ! j) = ReturnToMenuOp m \<and>
    instruction_block (tape barge rec root ! m) = block_id menu"
proof -
  have "x \<in> fst ` set (entries_of None root)" using assms(3) map_fst_entries_of [of None root] by (metis set_map set_preorder)
  then obtain o' where e: "(x, o') \<in> set (entries_of None root)" by auto
  have "o' \<noteq> None" using collectable_entry [OF assms(2) e] assms(4) by (auto simp: allowed_v4_def)
  moreover have "distinct (map block_id (subtree root))" using assms(1) distinct_map_preorder by blast
  ultimately obtain menu where menu: "o' = Some (block_id menu)" "owning_menu root menu x"
    using entry_owning_menu [OF e _ assms(4)] by blast
  let ?pos = "\<lambda>b. index_of (block_id b) (ids_of root)"
  have at: "?pos b < length (preorder root)" "ids_of root ! ?pos b = block_id b" if "b \<in> set (subtree root)" for b
    using that index_of_less [of "block_id b" "ids_of root"] nth_index_of [of "block_id b" "ids_of root"] by auto
  have "menu \<in> set (subtree root)" using menu(2) by (simp add: owning_menu_def)
  moreover have "op (tape barge rec root ! ?pos x) = ReturnToMenuOp (?pos menu)"
    using at(1) [OF assms(3)] entries_nth [OF assms(1) e] assms(4) menu(1) by (cases x) (simp_all add: tape_nth)
  ultimately show ?thesis using menu(2) at assms(3) by (intro exI [of _ menu] exI [of _ "?pos x"] exI [of _ "?pos menu"]) (simp add: tape_nth)
qed

text \<open>
  C21: Control on the tape of an accepted and compiled V4 configuration moves forward inside the
  program, except that a return jumps back to a menu whose return-limit path starts behind the return.
  Every return of the flow has an instruction, which jumps to the instruction of the menu that owns the
  return: the innermost menu around it in the tree.
\<close>

theorem compiled_v4_control_flow:
  assumes "validate_configuration_v4 zone_known d P sizes limit = []"
    and "compile_flow_v4 sha256 (flow d) (recording_behavior d) durations = Inr r"
    and "ins = instructions (compiled_program r)"
  shows "tape_ok ins \<and>
    (\<exists>root. flow_root (flow d) = Some root \<and>
      (\<forall>x\<in>set (subtree root). is_ReturnToMenu x \<longrightarrow>
        (\<exists>menu j m. owning_menu root menu x \<and> j < length ins \<and> m < length ins \<and>
           instruction_block (ins ! j) = block_id x \<and> op (ins ! j) = ReturnToMenuOp m \<and>
           instruction_block (ins ! m) = block_id menu)))"
proof -
  obtain root where root: "flow_root (flow d) = Some root"
    and acc: "tree_accepted notice_v4 (checks_v4 P (map schedule_id (schedules d))) sizes limit root"
    using assms(1) by (auto simp: accepted_v4)
  obtain barge where "ins = tape barge (recording_behavior d) root"
    using compile_v4_accepted [OF root acc, of "recording_behavior d" durations sha256] assms(2)
    by (auto simp: assms(3) finish_compile_def v4_tape_def split: if_splits)
  then show ?thesis
    using root accepted_tape_v4(1) [OF acc] tape_return_owner [OF accepted_tape_v4(2,3) [OF acc]] by auto
qed

lemma demo_return_block:
  "flow_root (flow demo_document) = Some demo_root" "ReturnToMenuBlockV2 (demo_id CHR ''3'') \<in> set (subtree demo_root)"
  by (simp_all add: demo_document_def demo_root_def demo_menu_def owned_def
      subtree.simps [of "PlayPromptBlockV2 i p n" for i p n] subtree.simps [of "ReturnToMenuBlockV2 i" for i]
      subtree.simps [of "CollectDigitBlockV2 i p e t a k bs x y z" for i p e t a k bs x y z])

theorem compiled_v4_control_flow_witness:
  "\<exists>r menu j m. compile_flow_v4 (\<lambda>s. s) (flow demo_document) (recording_behavior demo_document) demo_sizes = Inr r \<and>
     tape_ok (instructions (compiled_program r)) \<and>
     owning_menu demo_root menu (ReturnToMenuBlockV2 (demo_id CHR ''3'')) \<and>
     op (instructions (compiled_program r) ! j) = ReturnToMenuOp m \<and>
     instruction_block (instructions (compiled_program r) ! m) = block_id menu"
proof -
  obtain r where r: "compile_flow_v4 (\<lambda>s. s) (flow demo_document) (recording_behavior demo_document) demo_sizes = Inr r"
    using demo_compiles_v4 by blast
  show ?thesis
    using r compiled_v4_control_flow [OF demo_accepted_v4 r refl] demo_return_block by fastforce
qed





text \<open>
  The V4 compiler refuses every flow in which two blocks share an identifier or a block lacks
  one of its continuations, wherever in the tree.
\<close>

theorem compile_v4_refuses_broken_trees:
  assumes "flow_root f = Some root"
    and "\<not> distinct (map block_id (subtree root)) \<or> (\<exists>b\<in>set (subtree root). None \<in> set (child_fields b))"
  shows "\<not> is_ok (compile_flow_v4 sha256 f rec durations)"
proof -
  have "None \<notin> set (child_fields b)"
    if "collectable notice_v4 allowed_v4 None False root" "b \<in> set (subtree root)" for b
  proof -
    have "b \<in> set (map fst (entries_of None root))"
      using that(2) by (simp only: map_fst_entries_of set_preorder)
    then show ?thesis using collectable_entry [OF that(1)] by auto
  qed
  then show ?thesis using assms compile_ok(3) [of sha256 f rec durations]
    by (auto simp: is_ok_iff distinct_map_preorder)
qed

theorem compile_v4_refuses_broken_trees_witness:
  "\<not> is_ok (compile_flow_v4 (\<lambda>s. s)
     \<lparr>flow_root = Some (PlayPromptBlockV2 (demo_id CHR ''1'') (Some (demo_id CHR ''a'')) None)\<rparr> default_RecordingBehavior demo_sizes)"
  by (rule compile_v4_refuses_broken_trees [OF FlowDefinitionV2.select_convs(1)]) (rule disjI2, rule bexI [OF _ subtree_self], simp)

lemma demo_recording: "\<exists>path x. owned_path demo_root path x \<and> is_RecordMessage x"
proof -
  have greeting: "owned_path demo_greeting [demo_greeting] demo_voicemail"
    by (rule owned_path.below [OF _ owned_path.here]) (simp add: owned_def demo_greeting_def)
  have "demo_menu \<in> set (owned demo_root)" "demo_greeting \<in> set (owned demo_menu)"
    by (simp_all add: demo_root_def demo_menu_def owned_def)
  then have "owned_path demo_root [demo_root, demo_menu, demo_greeting] demo_voicemail"
    using greeting by (blast intro: owned_path.below)
  moreover have "is_RecordMessage demo_voicemail" by (simp add: demo_voicemail_def)
  ultimately show ?thesis by blast
qed

text \<open>
  C3: In an accepted V4 configuration every path of ownership from the root to a recording or an
  external call passes a block that plays a prompt, so a caller hears a notice before being recorded or
  connected.
\<close>

theorem notice_before_recording:
  assumes "validate_configuration_v4 zone_known d P sizes limit = []"
    and "flow_root (flow d) = Some root" and "owned_path root path x"
    and "is_RecordMessage x \<or> is_ExternalCall x"
  shows "\<exists>b\<in>set path. truthy (prompt_of b)"
  using notice_on_path [OF assms(3), where c = root_context] assms
  by (auto simp: accepted_v4 tree_accepted_def root_context_def)

theorem notice_before_recording_witness:
  "\<exists>path x. owned_path demo_root path x \<and> is_RecordMessage x \<and> (\<exists>b\<in>set path. truthy (prompt_of b))"
proof -
  obtain path x where "owned_path demo_root path x" "is_RecordMessage x"
    using demo_recording by blast
  then show ?thesis using notice_before_recording [OF demo_accepted_v4, of demo_root path x]
    by (auto simp: demo_document_def)
qed

text \<open>
  C25: A V3 configuration that the V3 validator accepts is accepted by the V4 validator.
\<close>

theorem v3_accepted_is_v4_accepted:
  assumes "validate_configuration_v3 zone_known d P sizes limit = []"
  shows "validate_configuration_v4 zone_known d P sizes limit = []"
  using assms tree_ok_v3_v4 [where c = root_context and c' = root_context]
  by (auto simp: accepted_v3 accepted_v4 tree_accepted_def weaker_context_def)

theorem v3_accepted_is_v4_accepted_witness:
  "validate_configuration_v4 (\<lambda>_. True) demo_document demo_prompts demo_sizes 5000 = []"
  using v3_accepted_is_v4_accepted [OF demo_accepted_v3] .

text \<open>
  A V2 configuration that the V2 validator accepts is accepted by the V4 validator once it is
  promoted to a V4 document, with any recording behaviour.
\<close>

theorem v2_accepted_is_v4_accepted:
  assumes "validate_configuration_v2 zone_known d P sizes limit = []"
  shows "validate_configuration_v4 zone_known
    \<lparr>edit_version = edit_version d, caller_policy = caller_policy d, schedules = schedules d, flow = flow d,
     recording_behavior = rec\<rparr> P sizes limit = []"
  using assms tree_ok_v2_v4 [where c = root_context and c' = root_context]
  by (auto simp: accepted_v2 accepted_v4 tree_accepted_def weaker_context_def)

theorem v2_accepted_is_v4_accepted_witness:
  "validate_configuration_v4 (\<lambda>_. True)
    \<lparr>edit_version = edit_version demo_plain, caller_policy = caller_policy demo_plain,
     schedules = schedules demo_plain, flow = flow demo_plain, recording_behavior = default_RecordingBehavior\<rparr>
    demo_prompts demo_sizes 5000 = []"
  using v2_accepted_is_v4_accepted [OF demo_accepted_v2] .

lemma no_barge_in_tree:
  assumes "is_ok (release_three_has_no_external_calls f)" "flow_root f = Some root"
  shows "\<not> barge_in_tree root"
proof -
  have "is_ok (release_three_loop [root])" using assms by (simp add: release_three_has_no_external_calls_def)
  then show ?thesis unfolding release_three_loop_ok barge_in_tree_def by auto
qed

text \<open>
  C24: For a V3 document that its validator accepts, the V4 compiler agrees with the V3 compiler:
  both raise the same error, or both succeed with the same instructions and the same duration bound.
\<close>

theorem v3_v4_compilers_agree:
  assumes "validate_configuration_v3 zone_known d P sizes limit = []"
    and "is_ok (release_three_has_no_external_calls (flow d))"
  shows "map_sum id (\<lambda>r. (maximum_session (compiled_program r), instructions (compiled_program r)))
      (compile_flow_v4 sha256 (flow d) rec durations) =
    map_sum id (\<lambda>r. (maximum_session (compiled_program r), instructions (compiled_program r)))
      (compile_flow_v3 sha256 (flow d) rec durations)"
proof -
  obtain root where root: "flow_root (flow d) = Some root"
    and acc: "tree_accepted notice_v3 (checks_v3 P (map schedule_id (schedules d))) sizes limit root"
    using assms(1) by (auto simp: accepted_v3)
  have acc4: "tree_accepted notice_v4 (checks_v4 P (map schedule_id (schedules d))) sizes limit root"
    using acc tree_ok_v3_v4 [where c = root_context and c' = root_context]
    by (auto simp: tree_accepted_def weaker_context_def)
  have "v4_tape rec root = tape False rec root"
    using no_barge_in_tree [OF assms(2) root] by (simp add: v4_tape_def)
  then show ?thesis
    using compile_v3_accepted [OF root acc, of rec durations sha256]
      compile_v4_accepted [OF root acc4, of rec durations sha256]
    by (auto simp: finish_compile_def dest: longest_unique)
qed

theorem v3_v4_compilers_agree_witness:
  "is_ok (release_three_has_no_external_calls (flow demo_document)) \<and>
   map_sum id (\<lambda>r. (maximum_session (compiled_program r), instructions (compiled_program r)))
      (compile_flow_v4 (\<lambda>s. s) (flow demo_document) default_RecordingBehavior demo_sizes) =
    map_sum id (\<lambda>r. (maximum_session (compiled_program r), instructions (compiled_program r)))
      (compile_flow_v3 (\<lambda>s. s) (flow demo_document) default_RecordingBehavior demo_sizes)"
proof -
  have "is_ok (release_three_has_no_external_calls (flow demo_document))"
    by (simp add: release_three_has_no_external_calls_def demo_defs)
  then show ?thesis using v3_v4_compilers_agree [OF demo_accepted_v3] by blast
qed

text \<open>
  Every V2 configuration that the V2 validator accepts compiles; there is no duration limit in
  V2, and control on the tape moves forward except for returns to the owning menu.
\<close>

theorem validated_v2_compiles:
  assumes "validate_configuration_v2 zone_known d P sizes limit = []"
  shows "\<exists>r. compile_flow sha256 (flow d) = Inr r \<and> tape_ok (instructions (compiled_program r))"
proof -
  obtain root where root: "flow_root (flow d) = Some root"
    and acc: "tree_accepted notice_v2 (checks_v2 P (map schedule_id (schedules d))) sizes limit root"
    using assms by (auto simp: accepted_v2)
  have "collectable notice_v2 allowed_v2 None False root"
    by (rule accepted_collectable [OF _ acc]) (rule allowed_checks_v2)
  moreover have "tree_ok notice_v4 (checks_v4 P (map schedule_id (schedules d))) root_context root"
    using acc tree_ok_v2_v4 [where c = root_context and c' = root_context]
    by (auto simp: tree_accepted_def weaker_context_def)
  then have "tape_ok (tape False default_RecordingBehavior root)"
    using accepted_distinct [OF acc] return_checks_v4 by (intro tape_ok_tape) auto
  ultimately show ?thesis
    using compile_flow_tape [OF root _ accepted_distinct [OF acc], of sha256 default_RecordingBehavior]
    by (simp add: finish_compile_def)
qed

theorem validated_v2_compiles_witness:
  "\<exists>r. compile_flow (\<lambda>s. s) (flow demo_plain) = Inr r \<and> tape_ok (instructions (compiled_program r))"
  using validated_v2_compiles [OF demo_accepted_v2] .

text \<open>
  C23: The V4 validator returns no error exactly for the well-formed configurations: schedule
  identifiers unique and time zones known, a root, every block correct in its context, no
  continuation missing, block and branch identifiers unique, at most 64 blocks, depth at most 8 and
  prompt assets within the limit.
\<close>

theorem validate_v4_exact:
  "validate_configuration_v4 zone_known d P sizes limit = [] \<longleftrightarrow>
     schedules_ok zone_known (schedules d) \<and>
     (\<exists>root. flow_root (flow d) = Some root \<and>
        tree_accepted notice_v4 (checks_v4 P (map schedule_id (schedules d))) sizes limit root)"
  by (rule accepted_v4)

text \<open>
  The same for the V3 validator, whose recordings must directly follow a Play prompt step and
  which refuses external calls.
\<close>

theorem validate_v3_exact:
  "validate_configuration_v3 zone_known d P sizes limit = [] \<longleftrightarrow>
     schedules_ok zone_known (schedules d) \<and>
     (\<exists>root. flow_root (flow d) = Some root \<and>
        tree_accepted notice_v3 (checks_v3 P (map schedule_id (schedules d))) sizes limit root)"
  by (rule accepted_v3)

end
